(* ===== verification/Prelude.thy ===== *)
theory Prelude
  imports Main "HOL-Library.List_Lexorder" "HOL-Library.Char_ord" "HOL-Library.Sublist"
begin

section \<open>Prelude: tables, Python containers and strings\<close>

text \<open>
  What every component shares.  A database table is the list of its rows, in the order in which
  the database returns them; \<open>session.get\<close>, \<open>select ... where\<close>, \<open>session.add\<close>, \<open>UPDATE\<close>,
  \<open>DELETE\<close> and \<open>session.merge\<close> are the functions below.  A Python \<open>dict\<close> whose order matters
  is an association list (\<open>alist\<close>), a slice \<open>xs[:n]\<close> is \<open>py_take\<close>, \<open>list.sort(reverse=True)\<close> and
  \<open>ORDER BY ... DESC\<close> are \<open>sort_desc\<close>.  Strings are lists of ASCII characters and the string methods
  the code calls (\<open>strip\<close>, \<open>lower\<close>, \<open>split\<close>, \<open>replace\<close>, \<open>startswith\<close>) are written out here.
  Times are integers (microseconds of UTC); \<open>minutes\<close>, \<open>seconds\<close> and \<open>days\<close> are the \<open>timedelta\<close>s.
\<close>

named_theorems table_simps \<open>what lookups return after inserts, updates and deletes\<close>
named_theorems str_simps \<open>unfolding of the Python string methods\<close>

type_synonym time = int

definition seconds :: "int \<Rightarrow> int" where
  "seconds n = n * 1000000"

definition minutes :: "int \<Rightarrow> int" where
  "minutes n = seconds (60 * n)"

definition days :: "int \<Rightarrow> int" where
  "days n = minutes (60 * (24 * n))"

lemma timedelta_pos [simp]:
  "0 < n \<Longrightarrow> 0 < seconds n" "0 < n \<Longrightarrow> 0 < minutes n" "0 < n \<Longrightarrow> 0 < days n"
  by (simp_all add: seconds_def minutes_def days_def)

subsection \<open>Tables\<close>

definition get_by :: "('r \<Rightarrow> 'k) \<Rightarrow> 'k \<Rightarrow> 'r list \<Rightarrow> 'r option" where
  "get_by key k t = find (\<lambda>r. key r = k) t"

definition update_where :: "('r \<Rightarrow> bool) \<Rightarrow> ('r \<Rightarrow> 'r) \<Rightarrow> 'r list \<Rightarrow> 'r list" where
  "update_where P f t = map (\<lambda>r. if P r then f r else r) t"

definition update_by :: "('r \<Rightarrow> 'k) \<Rightarrow> 'k \<Rightarrow> ('r \<Rightarrow> 'r) \<Rightarrow> 'r list \<Rightarrow> 'r list" where
  "update_by key k f t = update_where (\<lambda>r. key r = k) f t"

definition delete_by :: "('r \<Rightarrow> 'k) \<Rightarrow> 'k \<Rightarrow> 'r list \<Rightarrow> 'r list" where
  "delete_by key k t = filter (\<lambda>r. key r \<noteq> k) t"

definition add_row :: "'r \<Rightarrow> 'r list \<Rightarrow> 'r list" where
  "add_row r t = t @ [r]"

definition merge_row :: "('r \<Rightarrow> 'k) \<Rightarrow> 'r \<Rightarrow> 'r list \<Rightarrow> 'r list" where
  "merge_row key r t =
     (if get_by key (key r) t = None then add_row r t else update_by key (key r) (\<lambda>_. r) t)"

definition keys_distinct :: "('r \<Rightarrow> 'k) \<Rightarrow> 'r list \<Rightarrow> bool" where
  "keys_distinct key t = distinct (map key t)"

lemma get_by_simps [simp]:
  "get_by key k [] = None"
  "get_by key k (r # t) = (if key r = k then Some r else get_by key k t)"
  by (simp_all add: get_by_def)

lemma get_by_append [table_simps]:
  "get_by key k (s @ t) = (case get_by key k s of None \<Rightarrow> get_by key k t | Some r \<Rightarrow> Some r)"
  by (induction s) auto

lemma get_by_SomeD: "get_by key k t = Some r \<Longrightarrow> r \<in> set t \<and> key r = k"
  by (induction t) (auto split: if_splits)

lemma get_by_None_iff: "get_by key k t = None \<longleftrightarrow> k \<notin> key ` set t"
  by (induction t) auto

lemma get_by_mem: "keys_distinct key t \<Longrightarrow> r \<in> set t \<Longrightarrow> get_by key (key r) t = Some r"
  by (induction t) (auto simp: keys_distinct_def image_iff)

lemma get_by_unique:
  assumes "r \<in> set t" and "key r = k" and "\<And>s. s \<in> set t \<Longrightarrow> key s = k \<Longrightarrow> s = r"
  shows "get_by key k t = Some r"
proof (cases "get_by key k t")
  case None
  with assms(1,2) show ?thesis by (auto simp: get_by_None_iff)
next
  case (Some s)
  with get_by_SomeD [OF Some] assms(3) [of s] show ?thesis by simp
qed

lemma distinct_keyD: "distinct (map key t) \<Longrightarrow> r \<in> set t \<Longrightarrow> s \<in> set t \<Longrightarrow> key r = key s \<Longrightarrow> r = s"
  by (auto simp: distinct_map inj_on_def)

lemma set_update_by:
  "set (update_by key k f t) = (\<lambda>r. if key r = k then f r else r) ` set t"
  by (simp add: update_by_def update_where_def)

lemma updated_row:
  assumes "r \<in> set (update_by key k f t)"
  obtains (new) q where "q \<in> set t" "key q = k" "r = f q" | (old) "r \<in> set t" "key r \<noteq> k"
  using assms by (auto simp: update_by_def update_where_def split: if_splits)

lemma get_by_add_row [table_simps]:
  "get_by key k (add_row r t) =
     (case get_by key k t of None \<Rightarrow> if key r = k then Some r else None | Some s \<Rightarrow> Some s)"
  by (auto simp: add_row_def get_by_append split: option.splits)

lemma get_by_update_by [table_simps]:
  assumes "\<And>r. key (f r) = key r"
  shows "get_by key k (update_by key k' f t) =
    (if k = k' then map_option f (get_by key k t) else get_by key k t)"
  using assms by (induction t) (auto simp: update_by_def update_where_def)

lemma map_key_update_by [table_simps]:
  assumes "\<And>r. key (f r) = key r"
  shows "map key (update_by key k f t) = map key t"
  using assms by (induction t) (auto simp: update_by_def update_where_def)

lemma get_by_delete_by [table_simps]:
  "get_by key k (delete_by key k' t) = (if k = k' then None else get_by key k t)"
  by (induction t) (auto simp: delete_by_def)

lemma keys_distinct_delete: "keys_distinct key t \<Longrightarrow> keys_distinct key (delete_by key k t)"
  by (simp add: keys_distinct_def delete_by_def distinct_map_filter)

lemma keys_distinct_add:
  "keys_distinct key t \<Longrightarrow> get_by key (key r) t = None \<Longrightarrow> keys_distinct key (add_row r t)"
  by (auto simp: keys_distinct_def add_row_def get_by_None_iff)

lemma get_by_const_update:
  "get_by key k (update_by key k' (\<lambda>_. r) t) =
    (if key r = k'
     then if k = k' then map_option (\<lambda>_. r) (get_by key k t) else get_by key k t
     else get_by key k (update_by key k' (\<lambda>_. r) t))"
  by (induction t) (auto simp: update_by_def update_where_def)

lemma get_by_merge_row [table_simps]:
  "get_by key k (merge_row key r t) = (if k = key r then Some r else get_by key k t)"
  by (auto simp: merge_row_def get_by_add_row get_by_const_update split: option.splits)

lemma map_key_const_update: "map key (update_by key (key r) (\<lambda>_. r) t) = map key t"
  by (induction t) (auto simp: update_by_def update_where_def)

lemma keys_distinct_merge: "keys_distinct key t \<Longrightarrow> keys_distinct key (merge_row key r t)"
  by (auto simp: merge_row_def keys_distinct_add)
    (simp add: keys_distinct_def map_key_const_update)

lemma keys_distinct_update:
  "(\<And>r. key (f r) = key r) \<Longrightarrow> keys_distinct key t \<Longrightarrow> keys_distinct key (update_by key k f t)"
  by (simp add: keys_distinct_def map_key_update_by)

subsection \<open>A store of keyed rows, as an interface\<close>

text \<open>
  What the restore, sync and settings code relies on: what is put under a key is what a lookup of that
  key returns, and no other key changes.  Writing a list of rows is folding \<open>put\<close> over it.
\<close>

locale keyed_store =
  fixes key :: "'r \<Rightarrow> 'k"
    and val :: "'r \<Rightarrow> 'v"
    and get :: "'k \<Rightarrow> 't \<Rightarrow> 'v option"
    and put :: "'r \<Rightarrow> 't \<Rightarrow> 't"
  assumes get_put: "get k (put r t) = (if k = key r then Some (val r) else get k t)"
begin

lemma get_put_same: "get (key r) (put r t) = Some (val r)"
  by (simp add: get_put)

lemma get_fold_put_notin: "k \<notin> key ` set rs \<Longrightarrow> get k (fold put rs t) = get k t"
  by (induction rs arbitrary: t) (auto simp: get_put)

lemma get_fold_put_last:
  "get k (fold put rs t) =
     (case find (\<lambda>r. key r = k) (rev rs) of Some r \<Rightarrow> Some (val r) | None \<Rightarrow> get k t)"
  by (induction rs rule: rev_induct) (auto simp: get_put)

lemma get_fold_put_mem:
  assumes "distinct (map key rs)" and "r \<in> set rs"
  shows "get (key r) (fold put rs t) = Some (val r)"
  using assms
proof (induction rs arbitrary: t)
  case Nil
  then show ?case by simp
next
  case (Cons s rs)
  then show ?case
    by (cases "r = s") (auto simp: get_fold_put_notin get_put)
qed

lemma fold_put_idem:
  assumes "distinct (map key rs)"
  shows "get k (fold put rs (fold put rs t)) = get k (fold put rs t)"
proof (cases "k \<in> key ` set rs")
  case True
  then obtain r where "r \<in> set rs" "k = key r" by blast
  then show ?thesis by (simp add: get_fold_put_mem [OF assms])
next
  case False
  then show ?thesis by (simp add: get_fold_put_notin)
qed

end

interpretation row_table: keyed_store key id "get_by key" "merge_row key" for key :: "'r \<Rightarrow> 'k"
  by unfold_locales (simp add: get_by_merge_row)

subsection \<open>Python containers\<close>

type_synonym ('k, 'v) alist = "('k \<times> 'v) list"

definition dict_set :: "'k \<Rightarrow> 'v \<Rightarrow> ('k, 'v) alist \<Rightarrow> ('k, 'v) alist" where
  \<comment> \<open>\<open>d[k] = v\<close>: a key already present keeps its position.\<close>
  "dict_set k v d = (if map_of d k = None then d @ [(k, v)]
                     else map (\<lambda>(k', v'). if k' = k then (k', v) else (k', v')) d)"

definition dict_pop :: "'k \<Rightarrow> ('k, 'v) alist \<Rightarrow> ('k, 'v) alist" where
  "dict_pop k d = filter (\<lambda>(k', _). k' \<noteq> k) d"

definition dict_keys :: "('k, 'v) alist \<Rightarrow> 'k list" where
  "dict_keys d = map fst d"

definition dict_update :: "('k, 'v) alist \<Rightarrow> ('k, 'v) alist \<Rightarrow> ('k, 'v) alist" where
  \<comment> \<open>\<open>{**d, **e}\<close>.\<close>
  "dict_update d e = fold (\<lambda>(k, v). dict_set k v) e d"

lemma map_of_dict_set [table_simps]: "map_of (dict_set k v d) = (map_of d)(k \<mapsto> v)"
proof (cases "map_of d k")
  case None
  then show ?thesis by (auto simp: dict_set_def map_of_append fun_eq_iff map_add_def split: option.splits)
next
  case (Some w)
  have "map_of (map (\<lambda>(k', v'). if k' = k then (k', v) else (k', v')) d) j =
        (if j = k then map_option (\<lambda>_. v) (map_of d k) else map_of d j)" for j
    by (induction d) auto
  with Some show ?thesis by (auto simp: dict_set_def fun_eq_iff)
qed

lemma map_of_dict_pop [table_simps]: "map_of (dict_pop k d) = (map_of d)(k := None)"
  by (induction d) (auto simp: dict_pop_def fun_eq_iff)

lemma map_of_dict_update [table_simps]: "map_of (dict_update d e) = map_of d ++ map_of (rev e)"
  unfolding dict_update_def
  by (induction e arbitrary: d) (auto simp: map_of_dict_set fun_eq_iff map_add_def split: option.splits)

lemma distinct_dict_set:
  "distinct (map fst d) \<Longrightarrow> distinct (map fst (dict_set k v d))"
proof -
  assume d: "distinct (map fst d)"
  have "map fst (map (\<lambda>(k', v'). if k' = k then (k', v) else (k', v')) d) = map fst d"
    by (induction d) auto
  with d have "distinct (map fst (map (\<lambda>(k', v'). if k' = k then (k', v) else (k', v')) d))"
    by (simp only:)
  moreover from d have "map_of d k = None \<Longrightarrow> distinct (map fst (d @ [(k, v)]))"
    by (simp add: map_of_eq_None_iff)
  ultimately show ?thesis by (simp only: dict_set_def split: if_split) blast
qed

definition py_take :: "int \<Rightarrow> 'a list \<Rightarrow> 'a list" where
  \<comment> \<open>\<open>xs[:n]\<close>; a negative bound counts from the end.\<close>
  "py_take n xs = (if 0 \<le> n then take (nat n) xs else take (nat (int (length xs) + n)) xs)"

definition py_drop :: "int \<Rightarrow> 'a list \<Rightarrow> 'a list" where
  "py_drop n xs = (if 0 \<le> n then drop (nat n) xs else drop (nat (int (length xs) + n)) xs)"

lemma py_take_drop: "py_take n xs @ py_drop n xs = xs"
  by (simp add: py_take_def py_drop_def)

definition sort_desc :: "('a \<Rightarrow> 'b::linorder) \<Rightarrow> 'a list \<Rightarrow> 'a list" where
  "sort_desc f xs = rev (sort_key f (rev xs))"

lemma set_sort_desc [simp]: "set (sort_desc f xs) = set xs"
  by (simp add: sort_desc_def)

lemma length_sort_desc [simp]: "length (sort_desc f xs) = length xs"
  by (simp add: sort_desc_def)

lemma sorted_sort_desc: "sorted_wrt (\<lambda>x y. f y \<le> f x) (sort_desc f xs)"
  using sorted_sort_key [of f "rev xs"]
  by (simp add: sort_desc_def sorted_wrt_rev sorted_map)

lemma length_filter_mono: "(\<And>x. P x \<Longrightarrow> Q x) \<Longrightarrow> length (filter P xs) \<le> length (filter Q xs)"
  by (induction xs) (auto intro: le_SucI)

definition truthy_str :: "string option \<Rightarrow> bool" where
  "truthy_str s = (case s of None \<Rightarrow> False | Some t \<Rightarrow> t \<noteq> [])"

definition page_of :: "nat \<Rightarrow> nat \<Rightarrow> 'a list \<Rightarrow> 'a list" where
  \<comment> \<open>\<open>OFFSET off LIMIT lim\<close>.\<close>
  "page_of off lim xs = take lim (drop off xs)"

definition sql_limit :: "int \<Rightarrow> 'a list \<Rightarrow> 'a list" where
  \<comment> \<open>\<open>LIMIT\<close> of SQLite: a negative limit is none.\<close>
  "sql_limit n xs = (if n < 0 then xs else take (nat n) xs)"

end
