(* ===== verification/PyStr.thy ===== *)
theory PyStr
  imports Prelude
begin

section \<open>Python string methods\<close>

text \<open>
  The \<open>str\<close> methods the source calls, on ASCII strings: \<open>lower\<close>, \<open>upper\<close>, \<open>strip\<close> and its one-sided
  forms, \<open>startswith\<close>, \<open>endswith\<close>, \<open>in\<close>, \<open>split\<close> on one separator character, \<open>join\<close> and
  \<open>replace\<close>; and \<open>os.path.basename\<close>.
\<close>

definition code_of :: "char \<Rightarrow> nat" where
  "code_of c = of_char c"

definition lower_char :: "char \<Rightarrow> char" where
  "lower_char c = (if 65 \<le> code_of c \<and> code_of c \<le> 90 then char_of (code_of c + 32) else c)"

definition upper_char :: "char \<Rightarrow> char" where
  "upper_char c = (if 97 \<le> code_of c \<and> code_of c \<le> 122 then char_of (code_of c - 32) else c)"

definition py_lower :: "string \<Rightarrow> string" where
  "py_lower s = map lower_char s"

definition py_upper :: "string \<Rightarrow> string" where
  "py_upper s = map upper_char s"

definition is_space :: "char \<Rightarrow> bool" where
  "is_space c \<longleftrightarrow> (9 \<le> code_of c \<and> code_of c \<le> 13) \<or> (28 \<le> code_of c \<and> code_of c \<le> 32)"

definition is_digit :: "char \<Rightarrow> bool" where
  "is_digit c \<longleftrightarrow> 48 \<le> code_of c \<and> code_of c \<le> 57"

definition is_alpha :: "char \<Rightarrow> bool" where
  "is_alpha c \<longleftrightarrow> (65 \<le> code_of c \<and> code_of c \<le> 90) \<or> (97 \<le> code_of c \<and> code_of c \<le> 122)"

definition is_word :: "char \<Rightarrow> bool" where
  \<comment> \<open>\<open>\w\<close> of \<open>re\<close>.\<close>
  "is_word c \<longleftrightarrow> is_alpha c \<or> is_digit c \<or> code_of c = 95"

definition lstrip_where :: "(char \<Rightarrow> bool) \<Rightarrow> string \<Rightarrow> string" where
  "lstrip_where P s = dropWhile P s"

definition rstrip_where :: "(char \<Rightarrow> bool) \<Rightarrow> string \<Rightarrow> string" where
  "rstrip_where P s = rev (dropWhile P (rev s))"

definition strip_where :: "(char \<Rightarrow> bool) \<Rightarrow> string \<Rightarrow> string" where
  "strip_where P s = rstrip_where P (lstrip_where P s)"

definition py_strip :: "string \<Rightarrow> string" where
  "py_strip s = strip_where is_space s"

definition starts_with :: "string \<Rightarrow> string \<Rightarrow> bool" where
  "starts_with p s \<longleftrightarrow> take (length p) s = p"

definition ends_with :: "string \<Rightarrow> string \<Rightarrow> bool" where
  "ends_with p s \<longleftrightarrow> length p \<le> length s \<and> drop (length s - length p) s = p"

fun contains_str :: "string \<Rightarrow> string \<Rightarrow> bool" where
  "contains_str p [] = (p = [])"
| "contains_str p (c # s) = (starts_with p (c # s) \<or> contains_str p s)"

definition is_linebreak :: "char \<Rightarrow> bool" where
  "is_linebreak c \<longleftrightarrow> (10 \<le> code_of c \<and> code_of c \<le> 13) \<or> (28 \<le> code_of c \<and> code_of c \<le> 30)"

fun keep_lines :: "string \<Rightarrow> string list" where
  \<comment> \<open>\<open>splitlines(keepends=True)\<close> of a text without carriage returns.\<close>
  "keep_lines [] = []"
| "keep_lines (c # s) =
     (if is_linebreak c then [c] # keep_lines s
      else case keep_lines s of [] \<Rightarrow> [[c]] | l # ls \<Rightarrow> (c # l) # ls)"

fun universal_newlines :: "string \<Rightarrow> string" where
  \<comment> \<open>What \<open>read_text\<close> makes of the line ends of a file.\<close>
  "universal_newlines [] = []"
| "universal_newlines [c] = [if c = CHR 0x0D then CHR 0x0A else c]"
| "universal_newlines (c # d # s) =
     (if c = CHR 0x0D \<and> d = CHR 0x0A then CHR 0x0A # universal_newlines s
      else (if c = CHR 0x0D then CHR 0x0A else c) # universal_newlines (d # s))"

fun split_on :: "char \<Rightarrow> string \<Rightarrow> string list" where
  "split_on c [] = [[]]"
| "split_on c (x # s) =
     (if x = c then [] # split_on c s
      else case split_on c s of [] \<Rightarrow> [[x]] | w # ws \<Rightarrow> (x # w) # ws)"

fun join_with :: "string \<Rightarrow> string list \<Rightarrow> string" where
  "join_with sep [] = []"
| "join_with sep [w] = w"
| "join_with sep (w # ws) = w @ sep @ join_with sep ws"

definition split_first :: "char \<Rightarrow> string \<Rightarrow> (string \<times> string) option" where
  \<comment> \<open>\<open>s.split(c, 1)\<close> when it yields two parts.\<close>
  "split_first c s = (if c \<in> set s then Some (takeWhile (\<lambda>x. x \<noteq> c) s, tl (dropWhile (\<lambda>x. x \<noteq> c) s)) else None)"

fun replace_first :: "string \<Rightarrow> string \<Rightarrow> string \<Rightarrow> string" where
  \<comment> \<open>\<open>s.replace(old, new, 1)\<close> for a non-empty \<open>old\<close>.\<close>
  "replace_first old new [] = []"
| "replace_first old new (c # s) =
     (if starts_with old (c # s) then new @ drop (length old) (c # s)
      else c # replace_first old new s)"

function replace_all :: "string \<Rightarrow> string \<Rightarrow> string \<Rightarrow> string" where
  \<comment> \<open>\<open>s.replace(old, new)\<close> for a non-empty \<open>old\<close> (an empty one is not used in the source).\<close>
  "replace_all old new [] = []"
| "replace_all old new (c # s) =
     (if old \<noteq> [] \<and> starts_with old (c # s) then new @ replace_all old new (drop (length old) (c # s))
      else c # replace_all old new s)"
  by pat_completeness auto
termination
  by (relation "measure (\<lambda>(old, new, s). length s)") (auto simp: length_greater_0_conv)

definition basename :: "string \<Rightarrow> string" where
  "basename s = last (split_on (CHR ''/'') s)"

definition py_title :: "string \<Rightarrow> string" where
  \<comment> \<open>\<open>str.title\<close>: a letter is upper-cased at the start and after a character that is no letter.\<close>
  "py_title s = map (\<lambda>(prev, c). if is_alpha prev then lower_char c else upper_char c) (zip (CHR '' '' # s) s)"

fun py_words :: "string \<Rightarrow> string \<Rightarrow> string list" where
  \<comment> \<open>\<open>str.split()\<close>: maximal runs of non-blanks; the second argument is the run being read.\<close>
  "py_words [] w = (if w = [] then [] else [w])"
| "py_words (c # s) w =
     (if is_space c then (if w = [] then py_words s [] else w # py_words s []) else py_words s (w @ [c]))"

fun nat_str :: "nat \<Rightarrow> string" where
  \<comment> \<open>\<open>str(n)\<close>, decimal.\<close>
  "nat_str n = (if n < 10 then [char_of (48 + n)] else nat_str (n div 10) @ [char_of (48 + n mod 10)])"

declare nat_str.simps [simp del]

definition int_str :: "int \<Rightarrow> string" where
  "int_str i = (if i < 0 then CHR ''-'' # nat_str (nat (- i)) else nat_str (nat i))"

definition bool_str :: "bool \<Rightarrow> string" where
  "bool_str b = (if b then ''True'' else ''False'')"

text \<open>
  SQL's \<open>LIKE\<close>: \<open>%\<close> matches any run of characters, \<open>_\<close> one; \<open>ILIKE\<close> compares lower-cased text.
\<close>

primrec sql_like :: "string \<Rightarrow> string \<Rightarrow> bool" where
  "sql_like [] s = (s = [])"
| "sql_like (p # ps) s =
     (if p = CHR ''%'' then list_ex (\<lambda>k. sql_like ps (drop k s)) [0..<Suc (length s)]
      else case s of [] \<Rightarrow> False | c # cs \<Rightarrow> (p = CHR ''_'' \<or> p = c) \<and> sql_like ps cs)"

definition sql_ilike :: "string \<Rightarrow> string \<Rightarrow> bool" where
  "sql_ilike pat s = sql_like (py_lower pat) (py_lower s)"

subsection \<open>Facts\<close>

lemma split_on_nonempty [simp]: "split_on c s \<noteq> []"
  by (induction s) (auto split: list.splits)

lemma split_on_no_sep: "w \<in> set (split_on c s) \<Longrightarrow> c \<notin> set w"
  by (induction s arbitrary: w) (auto split: list.splits if_splits)

lemma join_split_on: "join_with [c] (split_on c s) = s"
proof (induction s)
  case Nil
  then show ?case by simp
next
  case (Cons x s)
  obtain w ws where w: "split_on c s = w # ws" by (cases "split_on c s") auto
  show ?case
    using Cons w by (cases ws) auto
qed

lemma split_on_notin [simp]: "c \<notin> set s \<Longrightarrow> split_on c s = [s]"
  by (induction s) auto

lemma split_on_append: "c \<notin> set w \<Longrightarrow> split_on c (w @ c # s) = w # split_on c s"
  by (induction w) auto

lemma concat_keep_lines [simp]: "concat (keep_lines s) = s"
  by (induction s) (auto split: list.splits)

lemma keep_lines_nonempty: "l \<in> set (keep_lines s) \<Longrightarrow> l \<noteq> []"
  by (induction s arbitrary: l) (auto split: list.splits if_splits)

lemma keep_lines_line:
  assumes "\<not> list_ex is_linebreak w" and "is_linebreak c"
  shows "keep_lines (w @ c # s) = (w @ [c]) # keep_lines s"
  using assms by (induction w) auto

lemma universal_newlines_id [simp]: "CHR 0x0D \<notin> set s \<Longrightarrow> universal_newlines s = s"
  by (induction s rule: universal_newlines.induct) auto

lemma basename_no_slash: "CHR ''/'' \<notin> set (basename s)"
  unfolding basename_def by (rule split_on_no_sep [where s = s]) (simp add: last_in_set)

lemma basename_id [simp]: "CHR ''/'' \<notin> set s \<Longrightarrow> basename s = s"
  by (simp add: basename_def)

lemma starts_with_append [simp]: "starts_with p (p @ s)"
  by (simp add: starts_with_def)

lemma starts_with_iff: "starts_with p s \<longleftrightarrow> (\<exists>r. s = p @ r)"
  by (metis append_eq_conv_conj append_take_drop_id starts_with_def)

lemma ends_with_iff: "ends_with p s \<longleftrightarrow> (\<exists>r. s = r @ p)"
  unfolding ends_with_def
  by (metis append_eq_conv_conj append_take_drop_id diff_diff_cancel diff_le_self length_append      length_drop le_add2 add_diff_cancel_right')

lemma ends_with_append [simp]: "ends_with p (s @ p)"
  by (auto simp: ends_with_iff)

lemma code_of_lt [simp]: "code_of c < 256"
  by (simp add: code_of_def)

lemma code_of_char_of: "n < 256 \<Longrightarrow> code_of (char_of n) = n"
  by (simp add: code_of_def)

lemma code_of_inject: "code_of c = code_of d \<longleftrightarrow> c = d"
  by (simp add: code_of_def)

lemma lower_char_idem [simp]: "lower_char (lower_char c) = lower_char c"
  by (auto simp: lower_char_def code_of_char_of)

lemma py_lower_idem [simp]: "py_lower (py_lower s) = py_lower s"
  by (simp add: py_lower_def comp_def)

lemma is_space_lower [simp]: "is_space (lower_char c) = is_space c"
  by (auto simp: lower_char_def is_space_def code_of_char_of)

lemma dropWhile_idem [simp]: "dropWhile P (dropWhile P s) = dropWhile P s"
  by (induction s) auto

lemma hd_lstrip: "lstrip_where P s \<noteq> [] \<Longrightarrow> \<not> P (hd (lstrip_where P s))"
  by (simp add: lstrip_where_def hd_dropWhile)

lemma last_rstrip: "rstrip_where P s \<noteq> [] \<Longrightarrow> \<not> P (last (rstrip_where P s))"
  by (simp add: rstrip_where_def last_rev hd_dropWhile)

lemma rstrip_idem [simp]: "rstrip_where P (rstrip_where P s) = rstrip_where P s"
  by (simp add: rstrip_where_def)

lemma rstrip_append_last: "\<not> P c \<Longrightarrow> rstrip_where P (s @ [c]) = s @ [c]"
  by (simp add: rstrip_where_def)

lemma prefix_rstrip: "prefix (rstrip_where P s) s"
  unfolding rstrip_where_def
  by (metis rev_rev_ident suffix_dropWhile suffix_to_prefix)

lemma hd_rstrip: "rstrip_where P s \<noteq> [] \<Longrightarrow> hd (rstrip_where P s) = hd s"
  using prefix_rstrip [of P s] by (metis hd_append2 prefix_def)

lemma lstrip_id: "s = [] \<or> \<not> P (hd s) \<Longrightarrow> lstrip_where P s = s"
  by (cases s) (auto simp: lstrip_where_def)

lemma rstrip_id: "s = [] \<or> \<not> P (last s) \<Longrightarrow> rstrip_where P s = s"
  by (cases s rule: rev_cases) (auto simp: rstrip_where_def)

lemma strip_id: "s = [] \<or> (\<not> P (hd s) \<and> \<not> P (last s)) \<Longrightarrow> strip_where P s = s"
  using lstrip_id [of s P] rstrip_id [of s P] by (auto simp: strip_where_def)

lemma strip_id_none: "\<forall>c \<in> set s. \<not> P c \<Longrightarrow> strip_where P s = s"
  by (rule strip_id) (cases s; auto simp: last_in_set)

lemma strip_idem [simp]: "strip_where P (strip_where P s) = strip_where P s"
proof -
  have "lstrip_where P (strip_where P s) = strip_where P s"
  proof (rule lstrip_id)
    show "strip_where P s = [] \<or> \<not> P (hd (strip_where P s))"
      unfolding strip_where_def
      by (metis hd_lstrip hd_rstrip prefix_Nil prefix_rstrip)
  qed
  then show ?thesis by (simp add: strip_where_def)
qed

lemma py_strip_idem [simp]: "py_strip (py_strip s) = py_strip s"
  by (simp add: py_strip_def)

lemma dropWhile_lower: "dropWhile is_space (map lower_char s) = map lower_char (dropWhile is_space s)"
  by (induction s) auto

lemma strip_lower: "py_strip (py_lower s) = py_lower (py_strip s)"
  by (simp add: py_strip_def py_lower_def strip_where_def lstrip_where_def rstrip_where_def
      dropWhile_lower rev_map)

lemma strip_lower_idem [simp]: "py_lower (py_strip (py_lower (py_strip s))) = py_lower (py_strip s)"
  by (simp add: strip_lower)

lemma sql_like_percent: "sql_like [CHR ''%''] s"
  by (simp add: list_ex_iff)

lemma sql_like_prefix:
  assumes "CHR ''%'' \<notin> set p" and "CHR ''_'' \<notin> set p"
  shows "sql_like (p @ [CHR ''%'']) s = starts_with p s"
  using assms
proof (induction p arbitrary: s)
  case Nil
  show ?case using sql_like_percent [of s] by (simp add: starts_with_def del: sql_like.simps)
next
  case (Cons c p)
  then show ?case by (cases s) (auto simp: starts_with_def)
qed

end
