(* ===== verification/CoreTypes.thy ===== *)
theory CoreTypes
  imports PyStr "HOL-Library.Countable"
begin

section \<open>Shared types: errors, roles, pagination, JSON values\<close>

text \<open>
  \<open>core/exceptions.py\<close> and \<open>core/schemas.py\<close>: the exception classes as one datatype with their
  HTTP status and message, the role hierarchy as a linear order, pagination and the audit context.
  A service call returns \<open>error + 'a\<close>.  \<open>json\<close> is a Python value that \<open>json.dumps\<close> accepts.
\<close>

datatype json =
    JNull
  | JBool bool
  | JInt int
  | JStr string
  | JList "json list"
  | JObj "(string \<times> json) list"

text \<open>JSON values can be written as text: they are countable.\<close>

instance char :: countable
  by countable_datatype

instance json :: countable
  by countable_datatype

definition get_or :: "string \<Rightarrow> json \<Rightarrow> (string \<times> json) list \<Rightarrow> json" where
  \<comment> \<open>\<open>d.get(k, dflt)\<close>\<close>
  "get_or k dflt d = (case map_of d k of None \<Rightarrow> dflt | Some j \<Rightarrow> j)"

subsection \<open>Exceptions\<close>

datatype error =
    AppError string int
  | NotFoundError string string
  | ForbiddenError string
  | ConflictError string
  | AuthenticationError string
  | ValidationError string
  | IntegrityError
  | ValueError string
  | KeyError string
  | TypeError string
  | RuntimeError string
  | OtherException string

text \<open>The builtin and database exceptions are not \<open>AppError\<close>s: no handler turns them into a status.\<close>

definition quoted :: "string \<Rightarrow> string" where
  "quoted s = CHR 0x27 # s @ [CHR 0x27]"

text \<open>Sequencing of steps that may change the state before they raise.\<close>

definition attempt :: "(error + 'a) \<times> 'w \<Rightarrow> ('a \<Rightarrow> 'w \<Rightarrow> (error + 'b) \<times> 'w) \<Rightarrow> (error + 'b) \<times> 'w" where
  "attempt r k = (case r of (Inl x, w) \<Rightarrow> (Inl x, w) | (Inr a, w) \<Rightarrow> k a w)"

lemma attempt_Inr:
  "attempt r k = (Inr y, w') \<longleftrightarrow> (\<exists>a w. r = (Inr a, w) \<and> k a w = (Inr y, w'))"
  by (auto simp: attempt_def split: prod.splits sum.splits)

lemma attempt_Inl:
  "attempt r k = (Inl x, w') \<longleftrightarrow> r = (Inl x, w') \<or> (\<exists>a w. r = (Inr a, w) \<and> k a w = (Inl x, w'))"
  by (auto simp: attempt_def split: prod.splits sum.splits)

fun status_code :: "error \<Rightarrow> int option" where
  "status_code (AppError m c) = Some c"
| "status_code (NotFoundError r i) = Some 404"
| "status_code (ForbiddenError m) = Some 403"
| "status_code (ConflictError m) = Some 409"
| "status_code (AuthenticationError m) = Some 401"
| "status_code (ValidationError m) = Some 422"
| "status_code _ = None"

fun err_message :: "error \<Rightarrow> string" where
  "err_message (AppError m c) = m"
| "err_message (NotFoundError r i) = r @ '' '' @ quoted i @ '' not found''"
| "err_message (ForbiddenError m) = m"
| "err_message (ConflictError m) = m"
| "err_message (AuthenticationError m) = m"
| "err_message (ValidationError m) = m"
| "err_message IntegrityError = ''IntegrityError''"
| "err_message (ValueError m) = m"
| "err_message (KeyError m) = m"
| "err_message (TypeError m) = m"
| "err_message (RuntimeError m) = m"
| "err_message (OtherException m) = m"

record json_response =
  jr_status :: int
  jr_detail :: string

fun app_error_handler :: "error \<Rightarrow> json_response option" where
  "app_error_handler e =
     (case status_code e of None \<Rightarrow> None
      | Some c \<Rightarrow> Some \<lparr>jr_status = c, jr_detail = err_message e\<rparr>)"

subsection \<open>Roles\<close>

datatype role_name = SUPERADMIN | ADMIN | ANALYST | VIEWER

fun role_value :: "role_name \<Rightarrow> string" where
  "role_value SUPERADMIN = ''superadmin''"
| "role_value ADMIN = ''admin''"
| "role_value ANALYST = ''analyst''"
| "role_value VIEWER = ''viewer''"

fun ROLE_HIERARCHY :: "role_name \<Rightarrow> int" where
  "ROLE_HIERARCHY VIEWER = 1"
| "ROLE_HIERARCHY ANALYST = 2"
| "ROLE_HIERARCHY ADMIN = 3"
| "ROLE_HIERARCHY SUPERADMIN = 4"

definition has_minimum_role :: "role_name \<Rightarrow> role_name \<Rightarrow> bool" where
  "has_minimum_role user_role minimum \<longleftrightarrow> ROLE_HIERARCHY user_role \<ge> ROLE_HIERARCHY minimum"

instantiation role_name :: linorder
begin

definition less_eq_role_name :: "role_name \<Rightarrow> role_name \<Rightarrow> bool" where
  "less_eq_role_name r s \<longleftrightarrow> ROLE_HIERARCHY r \<le> ROLE_HIERARCHY s"

definition less_role_name :: "role_name \<Rightarrow> role_name \<Rightarrow> bool" where
  "less_role_name r s \<longleftrightarrow> ROLE_HIERARCHY r < ROLE_HIERARCHY s"

instance
proof
  fix x y z :: role_name
  show "x < y \<longleftrightarrow> x \<le> y \<and> \<not> y \<le> x"
    by (auto simp: less_role_name_def less_eq_role_name_def)
  show "x \<le> x" by (simp add: less_eq_role_name_def)
  show "x \<le> y \<Longrightarrow> y \<le> z \<Longrightarrow> x \<le> z" by (simp add: less_eq_role_name_def)
  show "x \<le> y \<Longrightarrow> y \<le> x \<Longrightarrow> x = y"
    by (cases x; cases y) (simp_all add: less_eq_role_name_def)
  show "x \<le> y \<or> y \<le> x" by (auto simp: less_eq_role_name_def)
qed

end

lemma has_minimum_role_le: "has_minimum_role r m \<longleftrightarrow> m \<le> r"
  by (simp add: has_minimum_role_def less_eq_role_name_def)

lemma role_value_inject [simp]: "role_value r = role_value s \<longleftrightarrow> r = s"
  by (cases r; cases s) simp_all

subsection \<open>Patch fields\<close>

text \<open>
  A field of a pydantic update model: \<open>model_dump(exclude_unset=True)\<close> distinguishes a field that
  was not sent from one sent as \<open>None\<close>.
\<close>

datatype 'a field = Unset | Given "'a option"

fun json_of_opt :: "('a \<Rightarrow> json) \<Rightarrow> 'a option \<Rightarrow> json" where
  "json_of_opt f None = JNull"
| "json_of_opt f (Some v) = f v"

fun dump_field :: "string \<Rightarrow> ('a \<Rightarrow> json) \<Rightarrow> 'a field \<Rightarrow> (string \<times> json) list" where
  "dump_field k f Unset = []"
| "dump_field k f (Given v) = [(k, json_of_opt f v)]"

fun given_or :: "'a \<Rightarrow> 'a field \<Rightarrow> 'a" where
  \<comment> \<open>What \<open>repo.update\<close> stores: a missing or \<open>None\<close> value leaves the column alone.\<close>
  "given_or old (Given (Some v)) = v"
| "given_or old _ = old"

subsection \<open>Pagination and the audit context\<close>

record pagination =
  page :: int
  per_page :: int

definition pagination_ok :: "'a pagination_scheme \<Rightarrow> bool" where
  "pagination_ok p \<longleftrightarrow> 1 \<le> page p \<and> 1 \<le> per_page p \<and> per_page p \<le> 100"

definition page_offset :: "'a pagination_scheme \<Rightarrow> int" where
  "page_offset p = (page p - 1) * per_page p"

lemma page_offset_nonneg: "pagination_ok p \<Longrightarrow> 0 \<le> page_offset p"
  by (simp add: pagination_ok_def page_offset_def)

record 'a paginated =
  pr_items :: "'a list"
  pr_total :: nat
  pr_page :: int
  pr_per_page :: int

record audit_context =
  ctx_user_id :: string
  ctx_tenant_id :: "string option"
  ctx_ip_address :: string

text \<open>
  What an operation takes from outside the program: the ids \<open>uuid4()\<close> yields, in the order they are
  drawn, the clock, and whether the audit session and the login-attempt session could write.
\<close>

record env =
  env_ids :: "nat \<Rightarrow> string"
  env_now :: time
  env_audit_ok :: bool
  env_attempts_ok :: bool

text \<open>The page of a query: \<open>OFFSET\<close> and \<open>LIMIT\<close> of a validated \<open>PaginationParams\<close>.\<close>

definition paginate :: "'a pagination_scheme \<Rightarrow> 'b list \<Rightarrow> 'b list" where
  "paginate p xs = page_of (nat (page_offset p)) (nat (per_page p)) xs"

lemma length_paginate: "length (paginate p xs) \<le> nat (per_page p)"
  by (simp add: paginate_def page_of_def)

lemma set_paginate: "set (paginate p xs) \<subseteq> set xs"
  unfolding paginate_def page_of_def by (meson order_trans set_drop_subset set_take_subset)

end
