(* ===== verification/Models.thy ===== *)
theory Models
  imports CoreTypes
begin

section \<open>The ORM models and the database state\<close>

text \<open>
  One record per mapped class (\<open>services/*/models.py\<close>), field names prefixed by the table, and the
  record \<open>db\<close> of all tables.  \<open>id\<close>s are UUID strings, \<open>DateTime\<close> columns are \<open>time\<close>.  A row is created by
  the \<open>new_*\<close> functions with the column defaults of its class; the id (\<open>new_uuid\<close>) and the server
  time are arguments.  \<open>onupdate=func.now()\<close> fires when an \<open>UPDATE\<close> is emitted, which the ORM
  does only when a column changed: \<open>touched\<close>.
\<close>

text \<open>A text column written with \<open>json.dumps\<close>: the value it parses to, or text that does not parse.\<close>

datatype json_text = JText json | BadText string

fun json_loads :: "json_text \<Rightarrow> json option" where
  "json_loads (JText j) = Some j"
| "json_loads (BadText s) = None"

definition json_dumps :: "json \<Rightarrow> json_text" where
  "json_dumps j = JText j"

lemma json_loads_dumps [simp]: "json_loads (json_dumps j) = Some j"
  by (simp add: json_dumps_def)

record user =
  u_id :: string
  u_email :: string
  u_password_hash :: string
  u_display_name :: string
  u_is_active :: bool
  u_is_superadmin :: bool
  u_last_login :: "time option"
  u_totp_secret :: "string option"
  u_totp_enabled :: bool
  u_backup_codes :: "json_text option"
  u_must_change_password :: bool
  u_session_version :: int
  u_created_at :: time
  u_updated_at :: time

definition new_user :: "string \<Rightarrow> time \<Rightarrow> string \<Rightarrow> string \<Rightarrow> string \<Rightarrow> bool \<Rightarrow> user" where
  "new_user i now email password_hash display_name is_superadmin =
     \<lparr>u_id = i, u_email = email, u_password_hash = password_hash, u_display_name = display_name,
      u_is_active = True, u_is_superadmin = is_superadmin, u_last_login = None,
      u_totp_secret = None, u_totp_enabled = False, u_backup_codes = None,
      u_must_change_password = False, u_session_version = 0, u_created_at = now, u_updated_at = now\<rparr>"

record role =
  ro_id :: int
  ro_name :: string
  ro_description :: string

record user_tenant_role =
  utr_id :: string
  utr_user_id :: string
  utr_tenant_id :: string
  utr_role_id :: int
  utr_assigned_at :: time
  utr_assigned_by :: "string option"

record tenant =
  te_id :: string
  te_name :: string
  te_slug :: string
  te_api_key_hash :: "string option"
  te_api_key_prefix :: "string option"
  te_is_active :: bool
  te_created_at :: time
  te_updated_at :: time

record audit_log =
  al_id :: string
  al_tenant_id :: "string option"
  al_user_id :: string
  al_action :: string
  al_target_type :: string
  al_target_id :: string
  al_detail :: "json option"
  al_ip_address :: string
  al_timestamp :: time

record refresh_token =
  rt_id :: string
  rt_user_id :: string
  rt_token_hash :: string
  rt_token_prefix :: string
  rt_is_revoked :: bool
  rt_expires_at :: time
  rt_created_at :: time

record login_attempt =
  la_id :: string
  la_email :: string
  la_success :: bool
  la_ip_address :: string
  la_attempted_at :: time

record setting =
  se_id :: string
  se_scope :: string
  se_scope_id :: "string option"
  se_key :: string
  se_value_json :: json_text
  se_updated_by :: "string option"
  se_created_at :: time
  se_updated_at :: time

record item =
  it_id :: string
  it_tenant_id :: string
  it_name :: string
  it_description :: "string option"
  it_is_active :: bool
  it_created_by :: "string option"
  it_search_vector :: "string option"
  it_created_at :: time
  it_updated_at :: time

record backup_schedule =
  bs_id :: string
  bs_name :: string
  bs_scope :: string
  bs_tenant_id :: "string option"
  bs_tenant_slug :: "string option"
  bs_sink_type :: string
  bs_sink_config :: "(string \<times> json) list"
  bs_cron_expr :: "string option"
  bs_next_run_at :: "time option"
  bs_kind :: string
  bs_retention_days :: "int option"
  bs_keep_last :: "int option"
  bs_passphrase_override_fingerprint :: "string option"
  bs_is_active :: bool
  bs_managed_by :: string
  bs_remote_id :: "string option"
  bs_last_sync_at :: "time option"
  bs_created_by :: "string option"
  bs_created_at :: time
  bs_updated_at :: time

record backup_run =
  br_id :: string
  br_schedule_id :: "string option"
  br_app_slug :: string
  br_scope :: string
  br_tenant_slug :: "string option"
  br_kind :: string
  br_status :: string
  br_sink_type :: string
  br_sink_locator :: "string option"
  br_bytes_written :: "int option"
  br_sha256 :: "string option"
  br_encrypted :: bool
  br_key_fingerprint :: "string option"
  br_started_at :: "time option"
  br_finished_at :: "time option"
  br_error :: "string option"
  br_managed_by :: string
  br_created_at :: time
  br_updated_at :: time

record platform_node =
  pn_id :: string
  pn_node_name :: string
  pn_install_ts :: time

record sync_peer =
  sp_id :: string
  sp_peer_node_id :: "string option"
  sp_name :: string
  sp_base_url :: string
  sp_their_key_for_us :: "string option"
  sp_our_key_for_them_hash :: "string option"
  sp_our_key_for_them_prefix :: "string option"
  sp_enabled :: bool
  sp_sync_mode :: string
  sp_auto_include_new_tenants :: bool
  sp_last_pulled_ts :: "time option"
  sp_last_pushed_ts :: "time option"
  sp_last_error :: "string option"
  sp_last_error_ts :: "time option"
  sp_backoff_seconds :: int
  sp_created_at :: time
  sp_updated_at :: time

record sync_tenant_sub =
  ts_id :: string
  ts_peer_id :: string
  ts_tenant_id :: string
  ts_direction :: string
  ts_created_at :: time

record sync_conflict =
  sc_id :: string
  sc_peer_id :: string
  sc_tenant_id :: "string option"
  sc_resource_type :: string
  sc_resource_id :: string
  sc_local_payload :: "json_text option"
  sc_remote_payload :: "json_text option"
  sc_detected_at :: time
  sc_resolved_at :: "time option"
  sc_resolved_by :: "string option"
  sc_resolution :: "string option"

record peer_api_key =
  pk_id :: string
  pk_peer_id :: string
  pk_key_hash :: string
  pk_key_prefix :: string
  pk_is_active :: bool
  pk_created_at :: time
  pk_rotated_at :: "time option"

record sync_row_origin =
  so_table_name :: string
  so_row_id :: string
  so_origin_node_id :: string
  so_last_synced_ts :: time

record db =
  users :: "user list"
  roles :: "role list"
  user_tenant_roles :: "user_tenant_role list"
  tenants :: "tenant list"
  audit_rows :: "audit_log list"
  refresh_tokens :: "refresh_token list"
  login_attempts :: "login_attempt list"
  settings :: "setting list"
  items :: "item list"
  backup_schedules :: "backup_schedule list"
  backup_runs :: "backup_run list"
  platform_nodes :: "platform_node list"
  sync_peers :: "sync_peer list"
  sync_tenant_subs :: "sync_tenant_sub list"
  sync_conflicts :: "sync_conflict list"
  peer_api_keys :: "peer_api_key list"
  sync_row_origins :: "sync_row_origin list"

definition empty_db :: db where
  "empty_db = \<lparr>users = [], roles = [], user_tenant_roles = [], tenants = [], audit_rows = [],
     refresh_tokens = [], login_attempts = [], settings = [], items = [], backup_schedules = [],
     backup_runs = [], platform_nodes = [], sync_peers = [], sync_tenant_subs = [],
     sync_conflicts = [], peer_api_keys = [], sync_row_origins = []\<rparr>"

text \<open>\<open>onupdate\<close>: the new row with its \<open>updated_at\<close> column set when any column changed.\<close>

definition touched :: "('r \<Rightarrow> 'r) \<Rightarrow> ('r \<Rightarrow> 'r) \<Rightarrow> 'r \<Rightarrow> 'r" where
  "touched stamp f r = (if f r = r then r else stamp (f r))"

definition touch_user :: "time \<Rightarrow> user \<Rightarrow> user" where
  "touch_user now r = r\<lparr>u_updated_at := now\<rparr>"

definition touch_tenant :: "time \<Rightarrow> tenant \<Rightarrow> tenant" where
  "touch_tenant now r = r\<lparr>te_updated_at := now\<rparr>"

definition touch_setting :: "time \<Rightarrow> setting \<Rightarrow> setting" where
  "touch_setting now r = r\<lparr>se_updated_at := now\<rparr>"

definition touch_item :: "time \<Rightarrow> item \<Rightarrow> item" where
  "touch_item now r = r\<lparr>it_updated_at := now\<rparr>"

definition touch_schedule :: "time \<Rightarrow> backup_schedule \<Rightarrow> backup_schedule" where
  "touch_schedule now r = r\<lparr>bs_updated_at := now\<rparr>"

definition touch_run :: "time \<Rightarrow> backup_run \<Rightarrow> backup_run" where
  "touch_run now r = r\<lparr>br_updated_at := now\<rparr>"

definition touch_peer :: "time \<Rightarrow> sync_peer \<Rightarrow> sync_peer" where
  "touch_peer now r = r\<lparr>sp_updated_at := now\<rparr>"

lemmas touch_defs = touched_def touch_user_def touch_tenant_def touch_setting_def touch_item_def
  touch_schedule_def touch_run_def touch_peer_def

text \<open>A projection that neither the change nor the stamp writes is kept.\<close>

lemma touched_proj: "(\<And>r. p (stamp r) = p r) \<Longrightarrow> p (touched stamp f r) = p (f r)"
  by (simp add: touched_def)

text \<open>The unique constraints (\<open>flush\<close> and \<open>commit\<close> raise \<open>IntegrityError\<close> when one is broken).\<close>

definition users_unique :: "db \<Rightarrow> bool" where
  "users_unique d \<longleftrightarrow> distinct (map u_id (users d)) \<and> distinct (map u_email (users d))"

definition utrs_unique :: "db \<Rightarrow> bool" where
  "utrs_unique d \<longleftrightarrow> distinct (map utr_id (user_tenant_roles d)) \<and>
     distinct (map (\<lambda>r. (utr_user_id r, utr_tenant_id r)) (user_tenant_roles d))"

definition tenants_unique :: "db \<Rightarrow> bool" where
  "tenants_unique d \<longleftrightarrow> distinct (map te_id (tenants d)) \<and> distinct (map te_name (tenants d)) \<and>
     distinct (map te_slug (tenants d))"

definition refresh_tokens_unique :: "db \<Rightarrow> bool" where
  "refresh_tokens_unique d \<longleftrightarrow> distinct (map rt_id (refresh_tokens d)) \<and>
     distinct (map rt_token_hash (refresh_tokens d))"

definition flush_checked :: "(db \<Rightarrow> bool) \<Rightarrow> db \<Rightarrow> error + db" where
  "flush_checked ok d = (if ok d then Inr d else Inl IntegrityError)"

lemma flush_checked_Inr [simp]: "flush_checked ok d = Inr e \<longleftrightarrow> ok d \<and> e = d"
  by (auto simp: flush_checked_def)

lemma flush_checked_Inl [simp]: "flush_checked ok d = Inl x \<longleftrightarrow> \<not> ok d \<and> x = IntegrityError"
  by (auto simp: flush_checked_def)

end
