(* ===== verification/AuditLog.thy ===== *)
theory AuditLog
  imports Models
begin

section \<open>Audit log\<close>

text \<open>
  \<open>services/audit\<close>: entries are only ever appended, a failed write never reaches the caller, and
  listing filters, orders newest first and pages.  The dialect decides whether \<open>LIKE\<close> folds case
  (SQLite does, PostgreSQL does not): the parameter \<open>ci\<close>.
\<close>

record audit_create =
  ac_tenant_id :: "string option"
  ac_user_id :: string
  ac_action :: string
  ac_target_type :: string
  ac_target_id :: string
  ac_detail :: "json option"
  ac_ip_address :: string

record audit_filter = pagination +
  af_user_id :: "string option"
  af_action :: "string option"
  af_target_type :: "string option"
  af_date_from :: "time option"
  af_date_to :: "time option"

definition audit_create_row :: "string \<Rightarrow> time \<Rightarrow> audit_create \<Rightarrow> audit_log" where
  "audit_create_row i now data =
     \<lparr>al_id = i, al_tenant_id = ac_tenant_id data, al_user_id = ac_user_id data,
      al_action = ac_action data, al_target_type = ac_target_type data,
      al_target_id = ac_target_id data, al_detail = ac_detail data,
      al_ip_address = ac_ip_address data, al_timestamp = now\<rparr>"

definition audit_log_entry :: "env \<Rightarrow> string \<Rightarrow> audit_create \<Rightarrow> db \<Rightarrow> db" where
  \<comment> \<open>\<open>AuditService.log\<close>: any exception of the audit session is swallowed.\<close>
  "audit_log_entry e i entry d =
     (if env_audit_ok e
      then d\<lparr>audit_rows := add_row (audit_create_row i (env_now e) entry) (audit_rows d)\<rparr>
      else d)"

definition log_data_access ::
  "env \<Rightarrow> string \<Rightarrow> string \<Rightarrow> string \<Rightarrow> string \<Rightarrow> string \<Rightarrow> string option \<Rightarrow> string \<Rightarrow> db \<Rightarrow> db" where
  "log_data_access e i user_id resource_type resource_id action tenant_id ip d =
     audit_log_entry e i
       \<lparr>ac_tenant_id = tenant_id, ac_user_id = user_id, ac_action = resource_type @ ''.'' @ action,
        ac_target_type = resource_type, ac_target_id = resource_id, ac_detail = None,
        ac_ip_address = ip\<rparr> d"

definition like_action :: "bool \<Rightarrow> string \<Rightarrow> string \<Rightarrow> bool" where
  "like_action ci pat s = (if ci then sql_ilike pat s else sql_like pat s)"

definition audit_action_matches :: "bool \<Rightarrow> string \<Rightarrow> audit_log \<Rightarrow> bool" where
  "audit_action_matches ci a r =
     (if CHR ''.'' \<in> set a then al_action r = a else like_action ci (a @ ''.%'') (al_action r))"

definition audit_matches :: "bool \<Rightarrow> string option \<Rightarrow> audit_filter \<Rightarrow> audit_log \<Rightarrow> bool" where
  "audit_matches ci tenant_id filters r \<longleftrightarrow>
     (tenant_id \<noteq> None \<longrightarrow> al_tenant_id r = tenant_id) \<and>
     (case af_user_id filters of None \<Rightarrow> True | Some u \<Rightarrow> al_user_id r = u) \<and>
     (case af_action filters of None \<Rightarrow> True | Some a \<Rightarrow> a = [] \<or> audit_action_matches ci a r) \<and>
     (case af_date_from filters of None \<Rightarrow> True | Some t \<Rightarrow> t \<le> al_timestamp r) \<and>
     (case af_date_to filters of None \<Rightarrow> True | Some t \<Rightarrow> al_timestamp r \<le> t)"

definition audit_repo_list ::
  "bool \<Rightarrow> string option \<Rightarrow> audit_filter \<Rightarrow> db \<Rightarrow> audit_log list \<times> nat" where
  "audit_repo_list ci tenant_id filters d =
     (let hits = filter (audit_matches ci tenant_id filters) (audit_rows d)
      in (paginate filters (sort_desc al_timestamp hits), length hits))"

definition list_logs ::
  "bool \<Rightarrow> string option \<Rightarrow> audit_filter \<Rightarrow> db \<Rightarrow> audit_log paginated" where
  "list_logs ci tenant_id filters d =
     (let (records, total) = audit_repo_list ci tenant_id filters d
      in \<lparr>pr_items = records, pr_total = total, pr_page = page filters, pr_per_page = per_page filters\<rparr>)"

subsection \<open>Facts\<close>

text \<open>The audit writer touches no other table: these let every service proof ignore it.\<close>

lemma audit_frame [simp]:
  "users (audit_log_entry e i x d) = users d"
  "roles (audit_log_entry e i x d) = roles d"
  "user_tenant_roles (audit_log_entry e i x d) = user_tenant_roles d"
  "tenants (audit_log_entry e i x d) = tenants d"
  "refresh_tokens (audit_log_entry e i x d) = refresh_tokens d"
  "login_attempts (audit_log_entry e i x d) = login_attempts d"
  "settings (audit_log_entry e i x d) = settings d"
  "items (audit_log_entry e i x d) = items d"
  "backup_schedules (audit_log_entry e i x d) = backup_schedules d"
  "backup_runs (audit_log_entry e i x d) = backup_runs d"
  "platform_nodes (audit_log_entry e i x d) = platform_nodes d"
  "sync_peers (audit_log_entry e i x d) = sync_peers d"
  "sync_tenant_subs (audit_log_entry e i x d) = sync_tenant_subs d"
  "sync_conflicts (audit_log_entry e i x d) = sync_conflicts d"
  "peer_api_keys (audit_log_entry e i x d) = peer_api_keys d"
  "sync_row_origins (audit_log_entry e i x d) = sync_row_origins d"
  by (simp_all add: audit_log_entry_def)

lemma audit_append_only: "prefix (audit_rows d) (audit_rows (audit_log_entry e i x d))"
  by (simp add: audit_log_entry_def add_row_def)

lemma audit_rows_log [simp]:
  "audit_rows (audit_log_entry e i x d) =
     (if env_audit_ok e then add_row (audit_create_row i (env_now e) x) (audit_rows d) else audit_rows d)"
  by (simp add: audit_log_entry_def)

lemma list_logs_mem:
  "r \<in> set (pr_items (list_logs ci t f d)) \<Longrightarrow> r \<in> set (audit_rows d) \<and> audit_matches ci t f r"
  using set_paginate [of f "sort_desc al_timestamp (filter (audit_matches ci t f) (audit_rows d))"]
  by (auto simp: list_logs_def audit_repo_list_def Let_def)

lemma sorted_wrt_take_drop: "sorted_wrt P xs \<Longrightarrow> sorted_wrt P (page_of m n xs)"
  by (simp add: page_of_def sorted_wrt_take sorted_wrt_drop)

text \<open>
  A tenant-scoped listing shows only rows of that tenant, newest first, at most one page of them,
  and its total counts exactly the rows of that tenant that match the filters.
\<close>

theorem list_logs_isolated:
  assumes "tid \<noteq> None"
  shows "(\<forall>r \<in> set (pr_items (list_logs ci tid f d)). al_tenant_id r = tid \<and> r \<in> set (audit_rows d)) \<and>
    sorted_wrt (\<lambda>x y. al_timestamp y \<le> al_timestamp x) (pr_items (list_logs ci tid f d)) \<and>
    length (pr_items (list_logs ci tid f d)) \<le> nat (per_page f) \<and>
    pr_total (list_logs ci tid f d) = length (filter (audit_matches ci tid f) (audit_rows d))"
proof (intro conjI)
  show "\<forall>r \<in> set (pr_items (list_logs ci tid f d)). al_tenant_id r = tid \<and> r \<in> set (audit_rows d)"
    using list_logs_mem assms by (fastforce simp: audit_matches_def)
  show "sorted_wrt (\<lambda>x y. al_timestamp y \<le> al_timestamp x) (pr_items (list_logs ci tid f d))"
    by (simp add: list_logs_def audit_repo_list_def Let_def paginate_def sorted_wrt_take_drop sorted_sort_desc)
  show "length (pr_items (list_logs ci tid f d)) \<le> nat (per_page f)"
    by (simp add: list_logs_def audit_repo_list_def Let_def length_paginate)
  show "pr_total (list_logs ci tid f d) = length (filter (audit_matches ci tid f) (audit_rows d))"
    by (simp add: list_logs_def audit_repo_list_def Let_def)
qed

definition demo_entry :: "string \<Rightarrow> string option \<Rightarrow> time \<Rightarrow> audit_log" where
  "demo_entry i t n = \<lparr>al_id = i, al_tenant_id = t, al_user_id = ''u1'', al_action = ''item.view'',
     al_target_type = ''item'', al_target_id = ''i1'', al_detail = None, al_ip_address = ''::1'', al_timestamp = n\<rparr>"

definition demo_audit_db :: db where
  "demo_audit_db = empty_db\<lparr>audit_rows := [demo_entry ''a1'' (Some ''t1'') 5, demo_entry ''a2'' (Some ''t2'') 6,
     demo_entry ''a3'' (Some ''t1'') 7]\<rparr>"

definition demo_filter :: audit_filter where
  "demo_filter = \<lparr>page = 1, per_page = 25, af_user_id = None, af_action = Some ''item'',
     af_target_type = None, af_date_from = Some 5, af_date_to = None\<rparr>"

theorem list_logs_isolated_witness:
  "map al_id (pr_items (list_logs False (Some ''t1'') demo_filter demo_audit_db)) = [''a3'', ''a1''] \<and>
   al_tenant_id ` set (pr_items (list_logs False (Some ''t1'') demo_filter demo_audit_db)) \<subseteq> {Some ''t1''}"
proof
  show "map al_id (pr_items (list_logs False (Some ''t1'') demo_filter demo_audit_db)) = [''a3'', ''a1'']"
    by code_simp
  show "al_tenant_id ` set (pr_items (list_logs False (Some ''t1'') demo_filter demo_audit_db)) \<subseteq> {Some ''t1''}"
    using list_logs_isolated [of "Some ''t1''" False demo_filter demo_audit_db] by blast
qed

text \<open>The filter's \<open>target_type\<close> is read by no clause of the query.\<close>

theorem list_logs_ignores_target_type:
  "list_logs ci tid (f\<lparr>af_target_type := v\<rparr>) d = list_logs ci tid f d"
proof -
  have "audit_matches ci tid (f\<lparr>af_target_type := v\<rparr>) = audit_matches ci tid f"
    by (rule ext) (simp add: audit_matches_def)
  then show ?thesis
    by (simp add: list_logs_def audit_repo_list_def Let_def paginate_def page_offset_def)
qed

end
