(* ===== verification/Creds.thy ===== *)
theory Creds
  imports Models
begin

section \<open>Password and key hashing\<close>

text \<open>
  passlib's bcrypt context, SHA-256 and pyotp are third-party code: the record \<open>creds\<close> holds them as
  parameters.  \<open>cr_hash n p\<close> is the hash of \<open>p\<close> with the \<open>n\<close>-th salt drawn, \<open>cr_totp s c t\<close> says
  that \<open>pyotp.TOTP(s).verify(c, valid_window=1)\<close> holds at time \<open>t\<close>.  The documented behaviour the
  code relies on is \<open>hash_verifies\<close>: a password verifies against
  each of its own hashes, which are not empty.  The
  static methods of \<open>AuthService\<close> over it follow.
\<close>

record creds =
  cr_hash :: "nat \<Rightarrow> string \<Rightarrow> string"
  cr_verify :: "string \<Rightarrow> string \<Rightarrow> bool"
  cr_sha256_hex :: "string \<Rightarrow> string"
  cr_totp :: "string \<Rightarrow> string \<Rightarrow> time \<Rightarrow> bool"

definition hash_verifies :: "creds \<Rightarrow> bool" where
  "hash_verifies cr \<longleftrightarrow> (\<forall>n p. cr_verify cr p (cr_hash cr n p) \<and> cr_hash cr n p \<noteq> [])"

definition hash_password :: "creds \<Rightarrow> nat \<Rightarrow> string \<Rightarrow> string" where
  "hash_password cr salt password = cr_hash cr salt password"

definition verify_password :: "creds \<Rightarrow> string \<Rightarrow> string \<Rightarrow> bool" where
  "verify_password cr plain hashed = cr_verify cr plain hashed"

definition hash_api_key :: "creds \<Rightarrow> nat \<Rightarrow> string \<Rightarrow> string" where
  "hash_api_key cr salt key = cr_hash cr salt key"

definition verify_api_key_hash :: "creds \<Rightarrow> string \<Rightarrow> string \<Rightarrow> bool" where
  "verify_api_key_hash cr plain hashed = cr_verify cr plain hashed"

definition token_prefix :: "creds \<Rightarrow> string \<Rightarrow> string" where
  "token_prefix cr token = take 16 (cr_sha256_hex cr token)"

lemma verify_hash [intro]:
  "hash_verifies cr \<Longrightarrow> verify_password cr p (hash_password cr n p)"
  "hash_verifies cr \<Longrightarrow> verify_api_key_hash cr p (hash_api_key cr n p)"
  by (simp_all add: hash_verifies_def verify_password_def hash_password_def
      verify_api_key_hash_def hash_api_key_def)

lemma hash_nonempty [intro]:
  "hash_verifies cr \<Longrightarrow> hash_password cr n p \<noteq> []" "hash_verifies cr \<Longrightarrow> hash_api_key cr n p \<noteq> []"
  by (simp_all add: hash_verifies_def hash_password_def hash_api_key_def)

definition hash_exact :: "creds \<Rightarrow> bool" where
  \<comment> \<open>bcrypt reads 72 bytes: on shorter texts only the hashed text itself verifies.\<close>
  "hash_exact cr \<longleftrightarrow> (\<forall>n p q. length p \<le> 72 \<longrightarrow> length q \<le> 72 \<longrightarrow> (cr_verify cr p (cr_hash cr n q) \<longleftrightarrow> p = q))"

lemma hash_exactD:
  "hash_exact cr \<Longrightarrow> length p \<le> 72 \<Longrightarrow> length q \<le> 72 \<Longrightarrow> verify_password cr p (hash_password cr n q) \<longleftrightarrow> p = q"
  by (simp add: hash_exact_def verify_password_def hash_password_def)

text \<open>A concrete instance for the witnesses: a marker in front of the plain text.\<close>

definition demo_creds :: creds where
  "demo_creds = \<lparr>cr_hash = (\<lambda>n p. CHR ''H'' # p), cr_verify = (\<lambda>p h. h = CHR ''H'' # p),
     cr_sha256_hex = (\<lambda>s. s), cr_totp = (\<lambda>s c t. c = s)\<rparr>"

lemma demo_creds_ok [simp]: "hash_verifies demo_creds"
  by (simp add: hash_verifies_def demo_creds_def)

definition demo_env :: env where
  "demo_env = \<lparr>env_ids = (\<lambda>n. CHR ''i'' # replicate n CHR ''x''), env_now = 1000, env_audit_ok = True,
     env_attempts_ok = True\<rparr>"

end
