(* ===== verification/Tenants.thy ===== *)
theory Tenants
  imports AuditLog Creds
begin

section \<open>Tenants\<close>

text \<open>
  \<open>services/tenants\<close>: slugs, create, lookup, listing with the isolation filter, update, API keys.
  An operation returns \<open>Inl\<close> with the exception it raises (the session is not committed, so the
  database is the caller's) or \<open>Inr\<close> of its result and the new database.  \<open>re.sub\<close> of a character
  class followed by \<open>+\<close> is \<open>collapse_where\<close>.
\<close>

fun collapse_where :: "(char \<Rightarrow> bool) \<Rightarrow> char \<Rightarrow> string \<Rightarrow> string" where
  \<comment> \<open>\<open>re.sub('[P]+', c, s)\<close>: each maximal run becomes one \<open>c\<close>.\<close>
  "collapse_where P c [] = []"
| "collapse_where P c [x] = [if P x then c else x]"
| "collapse_where P c (x # y # s) =
     (if P x then if P y then collapse_where P c (y # s) else c # collapse_where P c (y # s)
      else x # collapse_where P c (y # s))"

definition slugify :: "string \<Rightarrow> string" where
  "slugify name =
     (let slug = py_strip (py_lower name);
          slug = filter (\<lambda>c. is_word c \<or> is_space c \<or> c = CHR ''-'') slug;
          slug = collapse_where (\<lambda>c. is_space c \<or> c = CHR ''_'') (CHR ''-'') slug
      in strip_where (\<lambda>c. c = CHR ''-'') (collapse_where (\<lambda>c. c = CHR ''-'') (CHR ''-'') slug))"

record tenant_read =
  tr_id :: string
  tr_name :: string
  tr_slug :: string
  tr_is_active :: bool
  tr_created_at :: time
  tr_updated_at :: time

definition tenant_to_read :: "tenant \<Rightarrow> tenant_read" where
  "tenant_to_read t = \<lparr>tr_id = te_id t, tr_name = te_name t, tr_slug = te_slug t,
     tr_is_active = te_is_active t, tr_created_at = te_created_at t, tr_updated_at = te_updated_at t\<rparr>"

record tenant_filter = pagination +
  tf_is_active :: "bool option"
  tf_search :: "string option"

record tenant_update =
  tu_name :: "string field"
  tu_is_active :: "bool field"

subsection \<open>Repository\<close>

definition tenant_repo_create :: "env \<Rightarrow> string \<Rightarrow> string \<Rightarrow> db \<Rightarrow> error + (tenant \<times> db)" where
  "tenant_repo_create e name slug d =
     (let t = \<lparr>te_id = env_ids e 0, te_name = name, te_slug = slug, te_api_key_hash = None,
               te_api_key_prefix = None, te_is_active = True, te_created_at = env_now e,
               te_updated_at = env_now e\<rparr>
      in case flush_checked tenants_unique (d\<lparr>tenants := add_row t (tenants d)\<rparr>) of
           Inl x \<Rightarrow> Inl x | Inr d' \<Rightarrow> Inr (t, d'))"

definition tenant_repo_get_by_id :: "string \<Rightarrow> db \<Rightarrow> tenant option" where
  "tenant_repo_get_by_id i d = get_by te_id i (tenants d)"

definition tenant_repo_get_by_slug :: "string \<Rightarrow> db \<Rightarrow> tenant option" where
  "tenant_repo_get_by_slug slug d = get_by te_slug slug (tenants d)"

definition tenant_repo_get_by_api_key_prefix :: "string \<Rightarrow> db \<Rightarrow> tenant option" where
  "tenant_repo_get_by_api_key_prefix pfx d = get_by te_api_key_prefix (Some pfx) (tenants d)"

definition tenant_matches :: "tenant_filter \<Rightarrow> string list option \<Rightarrow> tenant \<Rightarrow> bool" where
  "tenant_matches filters allowed_slugs t \<longleftrightarrow>
     (case allowed_slugs of None \<Rightarrow> True | Some slugs \<Rightarrow> te_slug t \<in> set slugs) \<and>
     (case tf_is_active filters of None \<Rightarrow> True | Some b \<Rightarrow> te_is_active t = b) \<and>
     (case tf_search filters of None \<Rightarrow> True
      | Some s \<Rightarrow> s = [] \<or> sql_ilike (''%'' @ s @ ''%'') (te_name t))"

definition tenant_repo_list ::
  "tenant_filter \<Rightarrow> string list option \<Rightarrow> db \<Rightarrow> tenant list \<times> nat" where
  "tenant_repo_list filters allowed_slugs d =
     (let hits = filter (tenant_matches filters allowed_slugs) (tenants d)
      in (paginate filters (sort_key te_name hits), length hits))"

text \<open>\<open>repo.update(tenant, **kwargs)\<close>: every keyword whose value is not \<open>None\<close> is set.\<close>

record tenant_patch =
  tp_name :: "string option"
  tp_slug :: "string option"
  tp_is_active :: "bool option"
  tp_api_key_hash :: "string option"
  tp_api_key_prefix :: "string option"

definition no_tenant_patch :: tenant_patch where
  "no_tenant_patch = \<lparr>tp_name = None, tp_slug = None, tp_is_active = None, tp_api_key_hash = None,
     tp_api_key_prefix = None\<rparr>"

definition some_or :: "'a option \<Rightarrow> 'a \<Rightarrow> 'a" where
  "some_or v old = (case v of None \<Rightarrow> old | Some x \<Rightarrow> x)"

definition apply_tenant_patch :: "tenant_patch \<Rightarrow> tenant \<Rightarrow> tenant" where
  "apply_tenant_patch p t = t\<lparr>te_name := some_or (tp_name p) (te_name t),
     te_slug := some_or (tp_slug p) (te_slug t),
     te_is_active := some_or (tp_is_active p) (te_is_active t),
     te_api_key_hash := (case tp_api_key_hash p of None \<Rightarrow> te_api_key_hash t | Some h \<Rightarrow> Some h),
     te_api_key_prefix := (case tp_api_key_prefix p of None \<Rightarrow> te_api_key_prefix t | Some h \<Rightarrow> Some h)\<rparr>"

definition tenant_repo_update ::
  "env \<Rightarrow> tenant \<Rightarrow> tenant_patch \<Rightarrow> db \<Rightarrow> error + (tenant \<times> db)" where
  "tenant_repo_update e t p d =
     (let f = touched (touch_tenant (env_now e)) (apply_tenant_patch p)
      in case flush_checked tenants_unique (d\<lparr>tenants := update_by te_id (te_id t) f (tenants d)\<rparr>) of
           Inl x \<Rightarrow> Inl x | Inr d' \<Rightarrow> Inr (f t, d'))"

definition tenant_repo_search_by_name :: "string \<Rightarrow> nat \<Rightarrow> db \<Rightarrow> tenant list" where
  "tenant_repo_search_by_name like_pat lim d = take lim (filter (\<lambda>t. sql_ilike like_pat (te_name t)) (tenants d))"

subsection \<open>Service\<close>

definition tenant_create ::
  "env \<Rightarrow> string \<Rightarrow> audit_context \<Rightarrow> db \<Rightarrow> error + (tenant_read \<times> db)" where
  "tenant_create e name ctx d =
     (let slug = slugify name
      in case tenant_repo_get_by_slug slug d of
           Some _ \<Rightarrow> Inl (ConflictError (''Tenant with slug '' @ quoted slug @ '' already exists''))
         | None \<Rightarrow>
             (case tenant_repo_create e name slug d of
                Inl x \<Rightarrow> Inl x
              | Inr (t, d1) \<Rightarrow>
                  Inr (tenant_to_read t,
                    audit_log_entry e (env_ids e 1)
                      \<lparr>ac_tenant_id = None, ac_user_id = ctx_user_id ctx, ac_action = ''tenant.create'',
                       ac_target_type = ''tenant'', ac_target_id = te_id t,
                       ac_detail = Some (JObj [(''name'', JStr name), (''slug'', JStr slug)]),
                       ac_ip_address = ctx_ip_address ctx\<rparr> d1)))"

definition tenant_get_by_slug :: "string \<Rightarrow> db \<Rightarrow> error + tenant_read" where
  "tenant_get_by_slug slug d =
     (case tenant_repo_get_by_slug slug d of
        None \<Rightarrow> Inl (NotFoundError ''Tenant'' slug) | Some t \<Rightarrow> Inr (tenant_to_read t))"

definition tenant_get_by_id :: "string \<Rightarrow> db \<Rightarrow> error + tenant_read" where
  "tenant_get_by_id i d =
     (case tenant_repo_get_by_id i d of
        None \<Rightarrow> Inl (NotFoundError ''Tenant'' i) | Some t \<Rightarrow> Inr (tenant_to_read t))"

definition tenant_list ::
  "tenant_filter \<Rightarrow> string list option \<Rightarrow> db \<Rightarrow> tenant_read paginated" where
  "tenant_list filters allowed_slugs d =
     (let (records, total) = tenant_repo_list filters allowed_slugs d
      in \<lparr>pr_items = map tenant_to_read records, pr_total = total, pr_page = page filters,
          pr_per_page = per_page filters\<rparr>)"

definition tenant_updates :: "tenant_update \<Rightarrow> (string \<times> json) list" where
  "tenant_updates data =
     dump_field ''name'' JStr (tu_name data) @ dump_field ''is_active'' JBool (tu_is_active data) @
     (case tu_name data of Given (Some n) \<Rightarrow> if n = [] then [] else [(''slug'', JStr (slugify n))] | _ \<Rightarrow> [])"

definition tenant_update_patch :: "tenant_update \<Rightarrow> tenant_patch" where
  "tenant_update_patch data = no_tenant_patch
     \<lparr>tp_name := (case tu_name data of Given v \<Rightarrow> v | Unset \<Rightarrow> None),
      tp_slug := (case tu_name data of Given (Some n) \<Rightarrow> if n = [] then None else Some (slugify n) | _ \<Rightarrow> None),
      tp_is_active := (case tu_is_active data of Given v \<Rightarrow> v | Unset \<Rightarrow> None)\<rparr>"

definition tenant_update_svc ::
  "env \<Rightarrow> string \<Rightarrow> tenant_update \<Rightarrow> audit_context \<Rightarrow> db \<Rightarrow> error + (tenant_read \<times> db)" where
  "tenant_update_svc e slug data ctx d =
     (case tenant_repo_get_by_slug slug d of
        None \<Rightarrow> Inl (NotFoundError ''Tenant'' slug)
      | Some t \<Rightarrow>
          (case tenant_repo_update e t (tenant_update_patch data) d of
             Inl x \<Rightarrow> Inl x
           | Inr (t', d1) \<Rightarrow>
               Inr (tenant_to_read t',
                 audit_log_entry e (env_ids e 0)
                   \<lparr>ac_tenant_id = ctx_tenant_id ctx, ac_user_id = ctx_user_id ctx,
                    ac_action = ''tenant.update'', ac_target_type = ''tenant'', ac_target_id = te_id t',
                    ac_detail = Some (JObj (tenant_updates data)), ac_ip_address = ctx_ip_address ctx\<rparr> d1)))"

definition tenant_rotate_api_key ::
  "creds \<Rightarrow> env \<Rightarrow> nat \<Rightarrow> string \<Rightarrow> string \<Rightarrow> audit_context \<Rightarrow> db \<Rightarrow> error + (string \<times> db)" where
  \<comment> \<open>\<open>raw_key\<close> is what \<open>secrets.token_urlsafe(32)\<close> returned.\<close>
  "tenant_rotate_api_key cr e salt raw_key slug ctx d =
     (let key_hash = hash_api_key cr salt raw_key; pfx = take 16 (cr_sha256_hex cr raw_key)
      in case tenant_repo_get_by_slug slug d of
           None \<Rightarrow> Inl (NotFoundError ''Tenant'' slug)
         | Some t \<Rightarrow>
             (case tenant_repo_update e t
                     (no_tenant_patch\<lparr>tp_api_key_hash := Some key_hash, tp_api_key_prefix := Some pfx\<rparr>) d of
                Inl x \<Rightarrow> Inl x
              | Inr (t', d1) \<Rightarrow>
                  Inr (raw_key,
                    audit_log_entry e (env_ids e 0)
                      \<lparr>ac_tenant_id = Some (te_id t'), ac_user_id = ctx_user_id ctx,
                       ac_action = ''api_key.rotate'', ac_target_type = ''tenant'',
                       ac_target_id = te_id t', ac_detail = None, ac_ip_address = ctx_ip_address ctx\<rparr> d1)))"

definition tenant_verify_api_key :: "creds \<Rightarrow> string \<Rightarrow> db \<Rightarrow> tenant_read option" where
  "tenant_verify_api_key cr api_key d =
     (let pfx = take 16 (cr_sha256_hex cr api_key)
      in case tenant_repo_get_by_api_key_prefix pfx d of
           None \<Rightarrow> None
         | Some t \<Rightarrow>
             (case te_api_key_hash t of
                None \<Rightarrow> None
              | Some h \<Rightarrow> if h \<noteq> [] \<and> verify_api_key_hash cr api_key h then Some (tenant_to_read t) else None))"

definition tenant_search_by_name :: "string \<Rightarrow> nat \<Rightarrow> db \<Rightarrow> tenant_read list" where
  "tenant_search_by_name like_pat lim d = map tenant_to_read (tenant_repo_search_by_name like_pat lim d)"

subsection \<open>Slugs\<close>

definition slug_char :: "char \<Rightarrow> bool" where
  "slug_char c \<longleftrightarrow> is_digit c \<or> (97 \<le> code_of c \<and> code_of c \<le> 122) \<or> c = CHR ''-''"

definition no_double_dash :: "string \<Rightarrow> bool" where
  "no_double_dash s \<longleftrightarrow> successively (\<lambda>x y. \<not> (x = CHR ''-'' \<and> y = CHR ''-'')) s"

definition slug_ok :: "string \<Rightarrow> bool" where
  "slug_ok s \<longleftrightarrow> list_all slug_char s \<and> no_double_dash s \<and>
     (s = [] \<or> (hd s \<noteq> CHR ''-'' \<and> last s \<noteq> CHR ''-''))"

lemma code_of_dash [simp]: "code_of (CHR ''-'') = 45" "code_of (CHR ''_'') = 95"
  by (simp_all add: code_of_def)

lemma set_collapse: "set (collapse_where P c s) \<subseteq> {x \<in> set s. \<not> P x} \<union> {c}"
  by (induction P c s rule: collapse_where.induct) auto

lemma collapse_Nil [simp]: "collapse_where P c s = [] \<longleftrightarrow> s = []"
  by (induction P c s rule: collapse_where.induct) auto

lemma hd_collapse_not: "s \<noteq> [] \<Longrightarrow> \<not> P (hd s) \<Longrightarrow> hd (collapse_where P c s) = hd s"
  by (induction P c s rule: collapse_where.induct) auto

lemma no_double_collapse: "no_double_dash (collapse_where (\<lambda>x. x = CHR ''-'') (CHR ''-'') s)"
  unfolding no_double_dash_def
proof (induction "\<lambda>x. x = CHR ''-''" "CHR ''-''" s rule: collapse_where.induct)
  case (3 x y s)
  let ?r = "collapse_where (\<lambda>x. x = CHR ''-'') (CHR ''-'') (y # s)"
  have ne: "?r \<noteq> []" by simp
  show ?case
  proof (cases "x = CHR ''-'' \<and> y \<noteq> CHR ''-''")
    case True
    then have "hd ?r = y" using hd_collapse_not [of "y # s"] by simp
    with 3 True ne show ?thesis by (auto simp: successively_Cons)
  next
    case False
    with 3 ne show ?thesis by (cases "x = CHR ''-''") (auto simp: successively_Cons)
  qed
qed simp_all

lemma collapse_id_none: "\<forall>x \<in> set s. \<not> P x \<Longrightarrow> collapse_where P c s = s"
  by (induction P c s rule: collapse_where.induct) auto

lemma collapse_id_dash:
  "no_double_dash s \<Longrightarrow> collapse_where (\<lambda>x. x = CHR ''-'') (CHR ''-'') s = s"
  unfolding no_double_dash_def
  by (induction "\<lambda>x. x = CHR ''-''" "CHR ''-''" s rule: collapse_where.induct) auto

lemma strip_dash_split:
  obtains a b where "s = a @ strip_where P s @ b"
proof -
  have "suffix (lstrip_where P s) s" by (simp add: lstrip_where_def suffix_dropWhile)
  then obtain a where a: "s = a @ lstrip_where P s" by (auto simp: suffix_def)
  obtain b where b: "lstrip_where P s = strip_where P s @ b"
    using prefix_rstrip [of P "lstrip_where P s"] by (auto simp: prefix_def strip_where_def)
  from a b have "s = a @ strip_where P s @ b" by simp
  then show thesis by (rule that)
qed

lemma strip_ends:
  assumes "strip_where P s \<noteq> []"
  shows "\<not> P (hd (strip_where P s)) \<and> \<not> P (last (strip_where P s))"
  using assms unfolding strip_where_def
  by (metis hd_lstrip hd_rstrip last_rstrip prefix_bot.extremum_uniqueI prefix_rstrip)

lemma successively_sub: "successively R (a @ s @ b) \<Longrightarrow> successively R s"
  by (simp add: successively_append_iff)

lemma slug_ok_slugify: "slug_ok (slugify name)"
proof -
  let ?dash = "\<lambda>c. c = CHR ''-''"
  define s1 where "s1 = filter (\<lambda>c. is_word c \<or> is_space c \<or> c = CHR ''-'') (py_strip (py_lower name))"
  define s2 where "s2 = collapse_where (\<lambda>c. is_space c \<or> c = CHR ''_'') (CHR ''-'') s1"
  define s3 where "s3 = collapse_where ?dash (CHR ''-'') s2"
  have eq: "slugify name = strip_where ?dash s3"
    by (simp add: slugify_def s1_def s2_def s3_def)
  have low: "c \<in> set (py_strip (py_lower name)) \<Longrightarrow> \<not> (65 \<le> code_of c \<and> code_of c \<le> 90)" for c
  proof -
    assume "c \<in> set (py_strip (py_lower name))"
    then have "c \<in> set (py_lower name)"
      using strip_dash_split [of "py_lower name" is_space] by (metis Un_iff py_strip_def set_append)
    then show "\<not> (65 \<le> code_of c \<and> code_of c \<le> 90)"
      by (auto simp: py_lower_def lower_char_def code_of_char_of)
  qed
  have "\<forall>c \<in> set s2. slug_char c"
    using set_collapse [of "\<lambda>c. is_space c \<or> c = CHR ''_''" "CHR ''-''" s1] low
    by (fastforce simp: s2_def s1_def slug_char_def is_word_def is_alpha_def code_of_inject [symmetric])
  then have "\<forall>c \<in> set s3. slug_char c"
    using set_collapse [of ?dash "CHR ''-''" s2] by (auto simp: s3_def slug_char_def)
  moreover obtain a b where ab: "s3 = a @ strip_where ?dash s3 @ b" by (rule strip_dash_split)
  moreover have "no_double_dash s3" unfolding s3_def by (rule no_double_collapse)
  ultimately show ?thesis
    unfolding eq slug_ok_def no_double_dash_def list_all_iff
    using strip_ends [of ?dash s3] by (metis Un_iff set_append successively_sub)
qed

lemma slugify_id: assumes "slug_ok s" shows "slugify s = s"
proof -
  have ch: "c \<in> set s \<Longrightarrow> slug_char c" for c using assms by (simp add: slug_ok_def list_all_iff)
  have "c \<in> set s \<Longrightarrow> lower_char c = c" for c
    using ch [of c] by (auto simp: lower_char_def slug_char_def is_digit_def)
  then have "py_lower s = s" by (simp add: py_lower_def map_idI)
  moreover have nsp: "\<forall>c \<in> set s. \<not> is_space c" using ch by (fastforce simp: slug_char_def is_digit_def is_space_def)
  then have "py_strip s = s" by (simp add: py_strip_def strip_id_none)
  moreover have "filter (\<lambda>c. is_word c \<or> is_space c \<or> c = CHR ''-'') s = s"
    using ch by (fastforce simp: slug_char_def is_word_def is_alpha_def intro: filter_True)
  moreover have "\<forall>c \<in> set s. c \<noteq> CHR ''_''" using ch by (fastforce simp: slug_char_def is_digit_def code_of_inject [symmetric])
  with nsp have "collapse_where (\<lambda>c. is_space c \<or> c = CHR ''_'') (CHR ''-'') s = s"
    by (intro collapse_id_none) auto
  moreover have "collapse_where (\<lambda>c. c = CHR ''-'') (CHR ''-'') s = s"
    using assms by (simp add: collapse_id_dash slug_ok_def)
  moreover have "strip_where (\<lambda>c. c = CHR ''-'') s = s"
    using assms by (intro strip_id) (simp add: slug_ok_def)
  ultimately show ?thesis by (simp add: slugify_def)
qed

text \<open>
  The slug of any tenant name is made of lower-case letters, digits and single inner dashes, and
  slugifying a slug changes nothing.
\<close>

theorem slugify_normal_form: "slug_ok (slugify name) \<and> slugify (slugify name) = slugify name"
  by (simp add: slug_ok_slugify slugify_id)

subsection \<open>Lookup, isolation, API keys\<close>

lemma tenant_repo_create_ok:
  "tenant_repo_create e name slug d = Inr (t, d') \<Longrightarrow> tenants_unique d' \<and>
     tenants d' = add_row t (tenants d) \<and> te_slug t = slug \<and> te_name t = name"
  by (auto simp: tenant_repo_create_def Let_def split: sum.splits)

lemma tenant_repo_update_ok:
  "tenant_repo_update e t p d = Inr (t', d') \<Longrightarrow> tenants_unique d' \<and>
     t' = touched (touch_tenant (env_now e)) (apply_tenant_patch p) t \<and>
     d' = d\<lparr>tenants := update_by te_id (te_id t) (touched (touch_tenant (env_now e)) (apply_tenant_patch p)) (tenants d)\<rparr>"
  by (auto simp: tenant_repo_update_def Let_def split: sum.splits)

lemma tenant_patch_proj [simp]:
  "te_id (touched (touch_tenant n) (apply_tenant_patch p) t) = te_id t"
  "te_slug (touched (touch_tenant n) (apply_tenant_patch p) t) = some_or (tp_slug p) (te_slug t)"
  "te_name (touched (touch_tenant n) (apply_tenant_patch p) t) = some_or (tp_name p) (te_name t)"
  "te_is_active (touched (touch_tenant n) (apply_tenant_patch p) t) = some_or (tp_is_active p) (te_is_active t)"
  "te_api_key_hash (touched (touch_tenant n) (apply_tenant_patch p) t) =
     (case tp_api_key_hash p of None \<Rightarrow> te_api_key_hash t | Some h \<Rightarrow> Some h)"
  "te_api_key_prefix (touched (touch_tenant n) (apply_tenant_patch p) t) =
     (case tp_api_key_prefix p of None \<Rightarrow> te_api_key_prefix t | Some h \<Rightarrow> Some h)"
  by (simp_all add: touched_proj touch_tenant_def apply_tenant_patch_def)

lemma some_or_simps [simp]: "some_or None x = x" "some_or (Some y) x = y"
  by (simp_all add: some_or_def)

lemma no_tenant_patch_simps [simp]:
  "tp_name no_tenant_patch = None" "tp_slug no_tenant_patch = None"
  "tp_is_active no_tenant_patch = None" "tp_api_key_hash no_tenant_patch = None"
  "tp_api_key_prefix no_tenant_patch = None"
  by (simp_all add: no_tenant_patch_def)

lemma tenant_list_mem:
  "r \<in> set (pr_items (tenant_list f allowed d)) \<Longrightarrow>
     \<exists>t \<in> set (tenants d). r = tenant_to_read t \<and> tenant_matches f allowed t"
  using set_paginate [of f "sort_key te_name (filter (tenant_matches f allowed) (tenants d))"]
  by (auto simp: tenant_list_def tenant_repo_list_def Let_def)

lemma tenant_repo_get_by_slugD:
  "tenant_repo_get_by_slug slug d = Some t \<Longrightarrow> t \<in> set (tenants d) \<and> te_slug t = slug"
  unfolding tenant_repo_get_by_slug_def by (rule get_by_SomeD)

lemma rotate_ok:
  assumes "tenant_rotate_api_key cr e salt k slug ctx d = Inr (key, d')"
  obtains t where "tenant_repo_get_by_slug slug d = Some t" "key = k" "tenants d' =
      update_by te_id (te_id t) (touched (touch_tenant (env_now e)) (apply_tenant_patch
        (no_tenant_patch\<lparr>tp_api_key_hash := Some (hash_api_key cr salt k),
           tp_api_key_prefix := Some (take 16 (cr_sha256_hex cr k))\<rparr>))) (tenants d)"
  using assms
  by (auto simp: tenant_rotate_api_key_def Let_def dest!: tenant_repo_update_ok
      split: option.splits sum.splits)

text \<open>
  After a key rotation the key that was returned authenticates as that tenant, as long as no other
  tenant holds a key with the same 16-digit digest prefix.
\<close>

theorem rotated_key_verifies:
  assumes "hash_verifies cr" and "tenants_unique d"
    and rot: "tenant_rotate_api_key cr e salt k slug ctx d = Inr (key, d')"
    and pfx: "\<And>t. t \<in> set (tenants d) \<Longrightarrow> te_api_key_prefix t = Some (take 16 (cr_sha256_hex cr k)) \<Longrightarrow> te_slug t = slug"
  shows "\<exists>r. tenant_verify_api_key cr key d' = Some r \<and> tr_slug r = slug"
proof -
  obtain t where t: "t \<in> set (tenants d)" "te_slug t = slug" "key = k"
    and d': "tenants d' = update_by te_id (te_id t) (touched (touch_tenant (env_now e)) (apply_tenant_patch
        (no_tenant_patch\<lparr>tp_api_key_hash := Some (hash_api_key cr salt k),
           tp_api_key_prefix := Some (take 16 (cr_sha256_hex cr k))\<rparr>))) (tenants d)" (is "_ = update_by _ _ ?f _")
    using rot by (auto elim!: rotate_ok dest: tenant_repo_get_by_slugD)
  have "get_by te_api_key_prefix (Some (take 16 (cr_sha256_hex cr k))) (tenants d') = Some (?f t)"
  proof (rule get_by_unique)
    show "?f t \<in> set (tenants d')" using t by (auto simp: d' set_update_by)
    show "te_api_key_prefix (?f t) = Some (take 16 (cr_sha256_hex cr k))" by simp
    fix s assume "s \<in> set (tenants d')" and s: "te_api_key_prefix s = Some (take 16 (cr_sha256_hex cr k))"
    then obtain u where u: "u \<in> set (tenants d)" "s = (if te_id u = te_id t then ?f u else u)"
      by (auto simp: d' set_update_by)
    have "te_id u \<noteq> te_id t \<Longrightarrow> te_slug u = te_slug t" using u s pfx t by auto
    then have "u = t"
      using \<open>tenants_unique d\<close> u(1) t(1) unfolding tenants_unique_def by (metis distinct_keyD)
    with u show "s = ?f t" by simp
  qed
  then show ?thesis
    using t(2,3) verify_hash(2) [OF assms(1)] hash_nonempty(2) [OF assms(1)]
    by (auto simp: tenant_verify_api_key_def tenant_repo_get_by_api_key_prefix_def Let_def tenant_to_read_def)
qed

definition demo_tenant :: "string \<Rightarrow> string \<Rightarrow> tenant" where
  "demo_tenant i name = \<lparr>te_id = i, te_name = name, te_slug = slugify name, te_api_key_hash = None,
     te_api_key_prefix = None, te_is_active = True, te_created_at = 1, te_updated_at = 1\<rparr>"

definition demo_tenant_db :: db where
  "demo_tenant_db = empty_db\<lparr>tenants := [demo_tenant ''t1'' ''Acme  Corp_'', demo_tenant ''t2'' ''Beta!'']\<rparr>"

definition demo_ctx :: audit_context where
  "demo_ctx = \<lparr>ctx_user_id = ''u1'', ctx_tenant_id = None, ctx_ip_address = ''::1''\<rparr>"

lemma demo_slugs: "slugify ''Acme  Corp_'' = ''acme-corp''" "slugify ''Beta!'' = ''beta''"
  by code_simp+

lemma demo_tenants_unique: "tenants_unique demo_tenant_db"
  by (simp add: tenants_unique_def demo_tenant_db_def demo_tenant_def demo_slugs)

theorem rotated_key_verifies_witness:
  "\<exists>key d'. tenant_rotate_api_key demo_creds demo_env 0 ''sesame'' ''acme-corp'' demo_ctx demo_tenant_db = Inr (key, d') \<and>
     (\<exists>r. tenant_verify_api_key demo_creds key d' = Some r \<and> tr_slug r = ''acme-corp'')"
proof -
  obtain t where t: "tenant_repo_get_by_slug ''acme-corp'' demo_tenant_db = Some t" "t = demo_tenant ''t1'' ''Acme  Corp_''"
    by (simp add: tenant_repo_get_by_slug_def demo_tenant_db_def demo_tenant_def demo_slugs)
  then obtain key d' where r: "tenant_rotate_api_key demo_creds demo_env 0 ''sesame'' ''acme-corp'' demo_ctx demo_tenant_db = Inr (key, d')"
    by (simp add: tenant_rotate_api_key_def Let_def tenant_repo_update_def flush_checked_def tenants_unique_def
        demo_tenant_db_def update_by_def update_where_def demo_tenant_def demo_slugs touched_def
        apply_tenant_patch_def touch_tenant_def)
  moreover have "\<exists>r. tenant_verify_api_key demo_creds key d' = Some r \<and> tr_slug r = ''acme-corp''"
    by (rule rotated_key_verifies [OF demo_creds_ok demo_tenants_unique r])
      (auto simp: demo_tenant_db_def demo_tenant_def demo_slugs)
  ultimately show ?thesis by blast
qed

text \<open>
  A listing restricted to allowed slugs returns only tenants with those slugs, and its total counts
  no other tenant.
\<close>

theorem tenant_list_isolated:
  "tr_slug ` set (pr_items (tenant_list f (Some allowed) d)) \<subseteq> set allowed \<and>
   pr_total (tenant_list f (Some allowed) d) \<le> length (filter (\<lambda>t. te_slug t \<in> set allowed) (tenants d))"
proof
  show "tr_slug ` set (pr_items (tenant_list f (Some allowed) d)) \<subseteq> set allowed"
    by (fastforce dest!: tenant_list_mem simp: tenant_matches_def tenant_to_read_def)
  show "pr_total (tenant_list f (Some allowed) d) \<le> length (filter (\<lambda>t. te_slug t \<in> set allowed) (tenants d))"
    unfolding tenant_list_def tenant_repo_list_def Let_def
    by (simp, rule length_filter_mono) (simp add: tenant_matches_def)
qed

end
