(* ===== verification/Users.thy ===== *)
theory Users
  imports Tenants
begin

section \<open>Users and role assignments\<close>

text \<open>
  \<open>services/users\<close>: the repository (queries over the tables \<open>users\<close>, \<open>roles\<close> and \<open>user_tenant_roles\<close>)
  and \<open>UsersService\<close>.  A session that raises before its commit leaves the database as it was: \<open>Inl\<close>
  carries no database.  \<open>session_version\<close> is what revokes tokens; it never decreases
  (\<open>users_run_monotone\<close>).  The TOTP fields are read and written by \<open>AuthService\<close> through four
  operations, whose contract is the locale \<open>totp_store\<close>.
\<close>

record user_read =
  ur_id :: string
  ur_email :: string
  ur_display_name :: string
  ur_is_active :: bool
  ur_is_superadmin :: bool
  ur_totp_enabled :: bool
  ur_must_change_password :: bool
  ur_session_version :: int
  ur_created_at :: time
  ur_last_login :: "time option"

definition user_to_read :: "user \<Rightarrow> user_read" where
  "user_to_read u = \<lparr>ur_id = u_id u, ur_email = u_email u, ur_display_name = u_display_name u,
     ur_is_active = u_is_active u, ur_is_superadmin = u_is_superadmin u,
     ur_totp_enabled = u_totp_enabled u, ur_must_change_password = u_must_change_password u,
     ur_session_version = u_session_version u, ur_created_at = u_created_at u,
     ur_last_login = u_last_login u\<rparr>"

record user_create =
  uc_email :: string
  uc_password :: string
  uc_display_name :: string
  uc_role :: role_name

record user_update =
  uu_display_name :: "string option"
  uu_is_active :: "bool option"
  uu_role :: "role_name option"

record user_filter = pagination +
  uf_is_active :: "bool option"
  uf_search :: "string option"

record user_context =
  uctx_user_id :: string
  uctx_email :: string
  uctx_display_name :: string
  uctx_is_superadmin :: bool
  uctx_totp_enabled :: bool
  uctx_tenant_roles :: "(string, role_name) alist"

definition role_of_id :: "int \<Rightarrow> role_name" where
  \<comment> \<open>\<open>_ROLE_MAP.get(role_id, RoleName.VIEWER)\<close>.\<close>
  "role_of_id i = (if i = 1 then VIEWER else if i = 2 then ANALYST else if i = 3 then ADMIN
     else if i = 4 then SUPERADMIN else VIEWER)"

subsection \<open>Repository\<close>

definition user_repo_create ::
  "env \<Rightarrow> string \<Rightarrow> string \<Rightarrow> string \<Rightarrow> bool \<Rightarrow> db \<Rightarrow> error + (user \<times> db)" where
  "user_repo_create e email password_hash display_name is_superadmin d =
     (let u = new_user (env_ids e 0) (env_now e) email password_hash display_name is_superadmin
      in case flush_checked users_unique (d\<lparr>users := add_row u (users d)\<rparr>) of
           Inl x \<Rightarrow> Inl x | Inr d' \<Rightarrow> Inr (u, d'))"

definition user_repo_get_by_id :: "string \<Rightarrow> db \<Rightarrow> user option" where
  "user_repo_get_by_id i d = get_by u_id i (users d)"

definition user_repo_get_by_email :: "string \<Rightarrow> db \<Rightarrow> user option" where
  "user_repo_get_by_email email d = get_by u_email email (users d)"

definition user_search_matches :: "user_filter \<Rightarrow> user \<Rightarrow> bool" where
  "user_search_matches filters u \<longleftrightarrow>
     (case uf_search filters of None \<Rightarrow> True
      | Some s \<Rightarrow> s = [] \<or> sql_ilike (''%'' @ s @ ''%'') (u_email u) \<or>
                  sql_ilike (''%'' @ s @ ''%'') (u_display_name u))"

definition user_active_matches :: "user_filter \<Rightarrow> user \<Rightarrow> bool" where
  "user_active_matches filters u \<longleftrightarrow>
     (case uf_is_active filters of None \<Rightarrow> True | Some b \<Rightarrow> u_is_active u = b)"

definition user_repo_list_for_tenant ::
  "string \<Rightarrow> user_filter \<Rightarrow> db \<Rightarrow> (user \<times> user_tenant_role) list \<times> nat" where
  "user_repo_list_for_tenant tenant_id filters d =
     (let joined = [(u, r). u \<leftarrow> users d, r \<leftarrow> user_tenant_roles d,
                            utr_user_id r = u_id u \<and> utr_tenant_id r = tenant_id];
          hits = filter (\<lambda>(u, r). user_active_matches filters u \<and> user_search_matches filters u) joined;
          total = (case uf_is_active filters of
                     None \<Rightarrow> length (filter (\<lambda>r. utr_tenant_id r = tenant_id) (user_tenant_roles d))
                   | Some b \<Rightarrow> length (filter (\<lambda>(u, r). user_active_matches filters u) joined))
      in (paginate filters (sort_key (\<lambda>(u, r). u_email u) hits), total))"

definition user_repo_count_all :: "db \<Rightarrow> nat" where
  "user_repo_count_all d = length (users d)"

definition user_repo_assign_role ::
  "env \<Rightarrow> string \<Rightarrow> string \<Rightarrow> string \<Rightarrow> int \<Rightarrow> string option \<Rightarrow> db \<Rightarrow> error + db" where
  "user_repo_assign_role e i user_id tenant_id role_id assigned_by d =
     flush_checked utrs_unique (d\<lparr>user_tenant_roles := add_row
       \<lparr>utr_id = i, utr_user_id = user_id, utr_tenant_id = tenant_id, utr_role_id = role_id,
        utr_assigned_at = env_now e, utr_assigned_by = assigned_by\<rparr> (user_tenant_roles d)\<rparr>)"

definition user_repo_get_user_roles :: "string \<Rightarrow> db \<Rightarrow> user_tenant_role list" where
  "user_repo_get_user_roles user_id d = filter (\<lambda>r. utr_user_id r = user_id) (user_tenant_roles d)"

definition user_repo_get_role_by_name :: "string \<Rightarrow> db \<Rightarrow> role option" where
  "user_repo_get_role_by_name name d = get_by ro_name name (roles d)"

text \<open>\<open>repo.update(user, **kwargs)\<close>: every keyword whose value is not \<open>None\<close> is set.\<close>

record user_patch =
  up_display_name :: "string option"
  up_is_active :: "bool option"
  up_session_version :: "int option"
  up_password_hash :: "string option"
  up_is_superadmin :: "bool option"

definition no_user_patch :: user_patch where
  "no_user_patch = \<lparr>up_display_name = None, up_is_active = None, up_session_version = None,
     up_password_hash = None, up_is_superadmin = None\<rparr>"

definition apply_user_patch :: "user_patch \<Rightarrow> user \<Rightarrow> user" where
  "apply_user_patch p u = u\<lparr>u_display_name := some_or (up_display_name p) (u_display_name u),
     u_is_active := some_or (up_is_active p) (u_is_active u),
     u_session_version := some_or (up_session_version p) (u_session_version u),
     u_password_hash := some_or (up_password_hash p) (u_password_hash u),
     u_is_superadmin := some_or (up_is_superadmin p) (u_is_superadmin u)\<rparr>"

definition user_repo_update :: "env \<Rightarrow> user \<Rightarrow> user_patch \<Rightarrow> db \<Rightarrow> user \<times> db" where
  "user_repo_update e u p d =
     (let f = touched (touch_user (env_now e)) (apply_user_patch p)
      in (f u, d\<lparr>users := update_by u_id (u_id u) f (users d)\<rparr>))"

definition user_repo_list_active_superadmins :: "db \<Rightarrow> user list" where
  "user_repo_list_active_superadmins d = filter (\<lambda>u. u_is_superadmin u \<and> u_is_active u) (users d)"

subsection \<open>Service\<close>

record user_with_role = user_read +
  uwr_role :: role_name

definition with_role :: "user_read \<Rightarrow> role_name \<Rightarrow> user_with_role" where
  "with_role r x = user_read.extend r \<lparr>uwr_role = x\<rparr>"

definition user_create_for_tenant ::
  "creds \<Rightarrow> env \<Rightarrow> nat \<Rightarrow> string \<Rightarrow> user_create \<Rightarrow> audit_context \<Rightarrow> db \<Rightarrow> error + (user_with_role \<times> db)" where
  "user_create_for_tenant cr e salt tenant_id data ctx d =
     (case user_repo_get_by_email (uc_email data) d of
        Some _ \<Rightarrow> Inl (ConflictError (''User with email '' @ quoted (uc_email data) @ '' already exists''))
      | None \<Rightarrow>
          (case user_repo_create e (uc_email data) (hash_password cr salt (uc_password data))
                  (uc_display_name data) False d of
             Inl x \<Rightarrow> Inl x
           | Inr (u, d1) \<Rightarrow>
               (case user_repo_get_role_by_name (role_value (uc_role data)) d1 of
                  None \<Rightarrow> Inl (NotFoundError ''Role'' (role_value (uc_role data)))
                | Some ro \<Rightarrow>
                    (case user_repo_assign_role e (env_ids e 1) (u_id u) tenant_id (ro_id ro)
                            (Some (ctx_user_id ctx)) d1 of
                       Inl x \<Rightarrow> Inl x
                     | Inr d2 \<Rightarrow>
                         Inr (with_role (user_to_read u) (uc_role data),
                           audit_log_entry e (env_ids e 2)
                             \<lparr>ac_tenant_id = Some tenant_id, ac_user_id = ctx_user_id ctx,
                              ac_action = ''user.create'', ac_target_type = ''user'', ac_target_id = u_id u,
                              ac_detail = Some (JObj [(''email'', JStr (uc_email data)),
                                                      (''role'', JStr (role_value (uc_role data)))]),
                              ac_ip_address = ctx_ip_address ctx\<rparr> d2)))))"

definition user_create_superadmin ::
  "creds \<Rightarrow> env \<Rightarrow> nat \<Rightarrow> string \<Rightarrow> string \<Rightarrow> string \<Rightarrow> db \<Rightarrow> error + (user_read \<times> db)" where
  "user_create_superadmin cr e salt email password display_name d =
     (case user_repo_get_by_email email d of
        Some _ \<Rightarrow> Inl (ConflictError (''User with email '' @ quoted email @ '' already exists''))
      | None \<Rightarrow>
          (case user_repo_create e email (hash_password cr salt password) display_name True d of
             Inl x \<Rightarrow> Inl x
           | Inr (u, d1) \<Rightarrow> Inr (user_to_read u, d1)))"

definition user_list_for_tenant :: "string \<Rightarrow> user_filter \<Rightarrow> db \<Rightarrow> user_with_role paginated" where
  "user_list_for_tenant tenant_id filters d =
     (let (rows, total) = user_repo_list_for_tenant tenant_id filters d
      in \<lparr>pr_items = map (\<lambda>(u, r). with_role (user_to_read u) (role_of_id (utr_role_id r))) rows,
          pr_total = total, pr_page = page filters, pr_per_page = per_page filters\<rparr>)"

definition user_get_by_email :: "string \<Rightarrow> db \<Rightarrow> user_read option" where
  "user_get_by_email email d = map_option user_to_read (user_repo_get_by_email email d)"

definition user_get_password_hash :: "string \<Rightarrow> db \<Rightarrow> string option" where
  "user_get_password_hash email d = map_option u_password_hash (user_repo_get_by_email email d)"

definition user_get_tenant_roles :: "string \<Rightarrow> db \<Rightarrow> (string, role_name) alist" where
  "user_get_tenant_roles user_id d =
     fold (\<lambda>r. dict_set (utr_tenant_id r) (role_of_id (utr_role_id r))) (user_repo_get_user_roles user_id d) []"

definition user_get_by_id :: "string \<Rightarrow> db \<Rightarrow> user_read option" where
  "user_get_by_id i d = map_option user_to_read (user_repo_get_by_id i d)"

text \<open>\<open>update_for_tenant\<close>: the fields to change, and their rendering in the audit detail.\<close>

definition user_changes_patch :: "user_update \<Rightarrow> user \<Rightarrow> user_patch" where
  "user_changes_patch data u = no_user_patch\<lparr>up_display_name := uu_display_name data,
     up_is_active := uu_is_active data,
     up_session_version := (if uu_is_active data = Some False then Some (u_session_version u + 1) else None)\<rparr>"

definition user_changes_detail :: "user_update \<Rightarrow> user \<Rightarrow> (string \<times> json) list" where
  "user_changes_detail data u =
     (case uu_display_name data of None \<Rightarrow> [] | Some n \<Rightarrow> [(''display_name'', JStr n)]) @
     (case uu_is_active data of None \<Rightarrow> []
      | Some b \<Rightarrow> (''is_active'', JStr (bool_str b)) #
          (if b then [] else [(''session_version'', JStr (int_str (u_session_version u + 1)))])) @
     (case uu_role data of None \<Rightarrow> [] | Some r \<Rightarrow> [(''role'', JStr (role_value r))])"

definition utr_key :: "user_tenant_role \<Rightarrow> string \<times> string" where
  "utr_key r = (utr_user_id r, utr_tenant_id r)"

definition user_set_role ::
  "env \<Rightarrow> string \<Rightarrow> string \<Rightarrow> role_name \<Rightarrow> string \<Rightarrow> db \<Rightarrow> error + (nat \<times> db)" where
  \<comment> \<open>The role part of \<open>update_for_tenant\<close>; the number is how many ids it drew.\<close>
  "user_set_role e tenant_id user_id ro_name' assigned_by d =
     (let utr = get_by utr_key (user_id, tenant_id) (user_tenant_roles d)
      in case user_repo_get_role_by_name (role_value ro_name') d of
           None \<Rightarrow> Inl (NotFoundError ''Role'' (role_value ro_name'))
         | Some ro \<Rightarrow>
             (case utr of
                Some r \<Rightarrow> Inr (0, d\<lparr>user_tenant_roles :=
                   update_by utr_id (utr_id r) (\<lambda>x. x\<lparr>utr_role_id := ro_id ro\<rparr>) (user_tenant_roles d)\<rparr>)
              | None \<Rightarrow>
                  (case user_repo_assign_role e (env_ids e 0) user_id tenant_id (ro_id ro) (Some assigned_by) d of
                     Inl x \<Rightarrow> Inl x | Inr d' \<Rightarrow> Inr (1, d'))))"

definition user_update_for_tenant ::
  "env \<Rightarrow> string \<Rightarrow> string \<Rightarrow> user_update \<Rightarrow> audit_context \<Rightarrow> db \<Rightarrow> error + (user_with_role \<times> db)" where
  "user_update_for_tenant e tenant_id user_id data ctx d =
     (case user_repo_get_by_id user_id d of
        None \<Rightarrow> Inl (NotFoundError ''User'' user_id)
      | Some u \<Rightarrow>
          (let (u', d1) = user_repo_update e u (user_changes_patch data u) d
           in case (case uu_role data of None \<Rightarrow> Inr (0, d1)
                    | Some r \<Rightarrow> user_set_role e tenant_id user_id r (ctx_user_id ctx) d1) of
                Inl x \<Rightarrow> Inl x
              | Inr (n, d2) \<Rightarrow>
                  (let current_role = (case get_by utr_key (user_id, tenant_id) (user_tenant_roles d2) of
                                         None \<Rightarrow> VIEWER | Some r \<Rightarrow> role_of_id (utr_role_id r))
                   in Inr (with_role (user_to_read u') current_role,
                        audit_log_entry e (env_ids e n)
                          \<lparr>ac_tenant_id = Some tenant_id, ac_user_id = ctx_user_id ctx,
                           ac_action = ''user.update'', ac_target_type = ''user'', ac_target_id = user_id,
                           ac_detail = Some (JObj (user_changes_detail data u)),
                           ac_ip_address = ctx_ip_address ctx\<rparr> d2))))"

definition user_deactivate_for_tenant ::
  "env \<Rightarrow> string \<Rightarrow> string \<Rightarrow> audit_context \<Rightarrow> db \<Rightarrow> error + (user_with_role \<times> db)" where
  "user_deactivate_for_tenant e tenant_id user_id ctx d =
     user_update_for_tenant e tenant_id user_id
       \<lparr>uu_display_name = None, uu_is_active = Some False, uu_role = None\<rparr> ctx d"

definition user_update_profile ::
  "env \<Rightarrow> string \<Rightarrow> string \<Rightarrow> audit_context \<Rightarrow> db \<Rightarrow> error + (user_read \<times> db)" where
  "user_update_profile e user_id display_name ctx d =
     (case user_repo_get_by_id user_id d of
        None \<Rightarrow> Inl (NotFoundError ''User'' user_id)
      | Some u \<Rightarrow>
          (let (u', d1) = user_repo_update e u (no_user_patch\<lparr>up_display_name := Some display_name\<rparr>) d
           in Inr (user_to_read u',
                audit_log_entry e (env_ids e 0)
                  \<lparr>ac_tenant_id = None, ac_user_id = ctx_user_id ctx, ac_action = ''user.update_profile'',
                   ac_target_type = ''user'', ac_target_id = user_id,
                   ac_detail = Some (JObj [(''display_name'', JStr display_name)]),
                   ac_ip_address = ctx_ip_address ctx\<rparr> d1)))"

definition user_change_password ::
  "creds \<Rightarrow> env \<Rightarrow> nat \<Rightarrow> string \<Rightarrow> string \<Rightarrow> string \<Rightarrow> audit_context \<Rightarrow> db \<Rightarrow> error + db" where
  "user_change_password cr e salt user_id current_password new_password ctx d =
     (case user_repo_get_by_id user_id d of
        None \<Rightarrow> Inl (NotFoundError ''User'' user_id)
      | Some u \<Rightarrow>
          if \<not> verify_password cr current_password (u_password_hash u)
          then Inl (AuthenticationError ''Current password is incorrect'')
          else
            (let (u', d1) = user_repo_update e u (no_user_patch
                   \<lparr>up_password_hash := Some (hash_password cr salt new_password),
                    up_session_version := Some (u_session_version u + 1)\<rparr>) d
             in Inr (audit_log_entry e (env_ids e 0)
                  \<lparr>ac_tenant_id = None, ac_user_id = ctx_user_id ctx, ac_action = ''user.change_password'',
                   ac_target_type = ''user'', ac_target_id = user_id, ac_detail = Some (JObj []),
                   ac_ip_address = ctx_ip_address ctx\<rparr> d1)))"

definition user_count :: "db \<Rightarrow> nat" where
  "user_count d = user_repo_count_all d"

definition EXTERNAL_AUTH_SENTINEL :: string where
  "EXTERNAL_AUTH_SENTINEL = ''_external_auth_no_password_''"

definition user_create_external ::
  "creds \<Rightarrow> env \<Rightarrow> nat \<Rightarrow> string \<Rightarrow> string \<Rightarrow> db \<Rightarrow> error + (user_read \<times> db)" where
  "user_create_external cr e salt email display_name d =
     (case user_repo_get_by_email email d of
        Some u \<Rightarrow> Inr (user_to_read u, d)
      | None \<Rightarrow>
          (case user_repo_create e email (hash_password cr salt EXTERNAL_AUTH_SENTINEL) display_name False d of
             Inl x \<Rightarrow> Inl x
           | Inr (u, d1) \<Rightarrow> Inr (user_to_read u, d1)))"

definition user_promote_to_superadmin :: "env \<Rightarrow> string \<Rightarrow> db \<Rightarrow> db" where
  "user_promote_to_superadmin e email d =
     (case user_repo_get_by_email email d of
        None \<Rightarrow> d
      | Some u \<Rightarrow> if u_is_superadmin u then d
                  else snd (user_repo_update e u (no_user_patch\<lparr>up_is_superadmin := Some True\<rparr>) d))"

definition local_password :: "creds \<Rightarrow> user \<Rightarrow> bool" where
  \<comment> \<open>The body of the loop: a user it does not skip.\<close>
  "local_password cr u \<longleftrightarrow>
     u_password_hash u \<noteq> [] \<and> \<not> verify_password cr EXTERNAL_AUTH_SENTINEL (u_password_hash u)"

definition user_has_local_password_superadmin :: "creds \<Rightarrow> db \<Rightarrow> bool" where
  "user_has_local_password_superadmin cr d =
     list_ex (local_password cr) (user_repo_list_active_superadmins d)"

text \<open>Attribute assignments on a loaded user, then \<open>commit\<close>.\<close>

definition user_assign :: "env \<Rightarrow> string \<Rightarrow> (user \<Rightarrow> user) \<Rightarrow> db \<Rightarrow> db" where
  "user_assign e user_id f d =
     d\<lparr>users := update_by u_id user_id (touched (touch_user (env_now e)) f) (users d)\<rparr>"

definition user_set_totp :: "env \<Rightarrow> string \<Rightarrow> string \<Rightarrow> json_text \<Rightarrow> db \<Rightarrow> error + db" where
  "user_set_totp e user_id secret codes d =
     (if user_repo_get_by_id user_id d = None then Inl (NotFoundError ''User'' user_id)
      else Inr (user_assign e user_id (\<lambda>u. u\<lparr>u_totp_secret := Some secret, u_totp_enabled := True,
                                            u_backup_codes := Some codes\<rparr>) d))"

definition user_clear_totp :: "env \<Rightarrow> string \<Rightarrow> db \<Rightarrow> error + db" where
  "user_clear_totp e user_id d =
     (if user_repo_get_by_id user_id d = None then Inl (NotFoundError ''User'' user_id)
      else Inr (user_assign e user_id (\<lambda>u. u\<lparr>u_totp_secret := None, u_totp_enabled := False,
                                            u_backup_codes := None\<rparr>) d))"

type_synonym totp_fields = "string option \<times> bool \<times> json_text option"

definition user_get_totp_fields :: "string \<Rightarrow> db \<Rightarrow> totp_fields" where
  "user_get_totp_fields user_id d =
     (case user_repo_get_by_id user_id d of
        None \<Rightarrow> (None, False, None)
      | Some u \<Rightarrow> (u_totp_secret u, u_totp_enabled u, u_backup_codes u))"

definition user_consume_backup_code :: "env \<Rightarrow> string \<Rightarrow> json_text \<Rightarrow> db \<Rightarrow> db" where
  "user_consume_backup_code e user_id remaining d =
     (if user_repo_get_by_id user_id d = None then d
      else user_assign e user_id (\<lambda>u. u\<lparr>u_backup_codes := Some remaining\<rparr>) d)"

fun slug_roles_of :: "db \<Rightarrow> (string, role_name) alist \<Rightarrow> (string, role_name) alist \<Rightarrow> (string, role_name) alist" where
  "slug_roles_of d [] acc = acc"
| "slug_roles_of d ((tid, r) # ts) acc =
     (case tenant_get_by_id tid d of
        Inl _ \<Rightarrow> slug_roles_of d ts acc
      | Inr t \<Rightarrow> slug_roles_of d ts (dict_set (tr_slug t) r acc))"

definition user_build_context :: "user_read \<Rightarrow> db \<Rightarrow> user_context" where
  "user_build_context u d =
     \<lparr>uctx_user_id = ur_id u, uctx_email = ur_email u, uctx_display_name = ur_display_name u,
      uctx_is_superadmin = ur_is_superadmin u, uctx_totp_enabled = ur_totp_enabled u,
      uctx_tenant_roles = slug_roles_of d (user_get_tenant_roles (ur_id u) d) []\<rparr>"

subsection \<open>What each operation does to the user table\<close>

lemma user_patch_proj [simp]:
  "u_id (touched (touch_user n) (apply_user_patch p) u) = u_id u"
  "u_email (touched (touch_user n) (apply_user_patch p) u) = u_email u"
  "u_is_active (touched (touch_user n) (apply_user_patch p) u) = some_or (up_is_active p) (u_is_active u)"
  "u_session_version (touched (touch_user n) (apply_user_patch p) u) =
     some_or (up_session_version p) (u_session_version u)"
  "u_password_hash (touched (touch_user n) (apply_user_patch p) u) =
     some_or (up_password_hash p) (u_password_hash u)"
  "u_is_superadmin (touched (touch_user n) (apply_user_patch p) u) =
     some_or (up_is_superadmin p) (u_is_superadmin u)"
  "u_display_name (touched (touch_user n) (apply_user_patch p) u) =
     some_or (up_display_name p) (u_display_name u)"
  by (simp_all add: touched_proj touch_user_def apply_user_patch_def)

lemma no_user_patch_simps [simp]:
  "up_display_name no_user_patch = None" "up_is_active no_user_patch = None"
  "up_session_version no_user_patch = None" "up_password_hash no_user_patch = None"
  "up_is_superadmin no_user_patch = None"
  by (simp_all add: no_user_patch_def)

lemma with_role_sel [simp]:
  "ur_id (with_role r x) = ur_id r" "ur_email (with_role r x) = ur_email r"
  "ur_is_active (with_role r x) = ur_is_active r" "ur_session_version (with_role r x) = ur_session_version r"
  "uwr_role (with_role r x) = x"
  by (simp_all add: with_role_def user_read.defs)

lemma user_to_read_sel [simp]:
  "ur_id (user_to_read u) = u_id u" "ur_email (user_to_read u) = u_email u"
  "ur_display_name (user_to_read u) = u_display_name u" "ur_is_active (user_to_read u) = u_is_active u"
  "ur_is_superadmin (user_to_read u) = u_is_superadmin u" "ur_totp_enabled (user_to_read u) = u_totp_enabled u"
  "ur_session_version (user_to_read u) = u_session_version u"
  by (simp_all add: user_to_read_def)

lemma new_user_sel [simp]:
  "u_id (new_user i n em h dn sa) = i" "u_email (new_user i n em h dn sa) = em"
  "u_password_hash (new_user i n em h dn sa) = h" "u_is_superadmin (new_user i n em h dn sa) = sa"
  "u_is_active (new_user i n em h dn sa)" "u_session_version (new_user i n em h dn sa) = 0"
  by (simp_all add: new_user_def)

text \<open>An update in place keeps ids and emails, so the unique constraints cannot break.\<close>

definition user_upd :: "string \<Rightarrow> (user \<Rightarrow> user) \<Rightarrow> db \<Rightarrow> db" where
  "user_upd i f d = d\<lparr>users := update_by u_id i f (users d)\<rparr>"

definition user_keeps :: "(user \<Rightarrow> user) \<Rightarrow> bool" where
  "user_keeps f \<longleftrightarrow> (\<forall>u. u_id (f u) = u_id u \<and> u_email (f u) = u_email u)"

lemma user_keeps_patch [simp]: "user_keeps (touched (touch_user n) (apply_user_patch p))"
  by (simp add: user_keeps_def)

lemma user_keeps_touched:
  "user_keeps f \<Longrightarrow> user_keeps (touched (touch_user n) f)"
  by (simp add: user_keeps_def touched_proj touch_user_def)

lemma user_repo_update_upd:
  "user_repo_update e u p d = (u', d') \<Longrightarrow>
     u' = touched (touch_user (env_now e)) (apply_user_patch p) u \<and>
     d' = user_upd (u_id u) (touched (touch_user (env_now e)) (apply_user_patch p)) d"
  by (auto simp: user_repo_update_def user_upd_def Let_def)

lemma snd_user_repo_update:
  "snd (user_repo_update e u p d) = user_upd (u_id u) (touched (touch_user (env_now e)) (apply_user_patch p)) d"
  by (simp add: user_repo_update_def user_upd_def Let_def)

lemma user_assign_upd: "user_assign e i f d = user_upd i (touched (touch_user (env_now e)) f) d"
  by (simp add: user_assign_def user_upd_def)

lemma map_update_inv:
  assumes "\<And>r. g (f r) = g r"
  shows "map g (update_by key k f t) = map g t"
  by (induction t) (auto simp: update_by_def update_where_def assms)

lemma user_upd_unique: "user_keeps f \<Longrightarrow> users_unique d \<Longrightarrow> users_unique (user_upd i f d)"
  by (simp add: users_unique_def user_upd_def user_keeps_def map_update_inv)

lemma get_user_upd:
  "user_keeps f \<Longrightarrow> get_by u_id j (users (user_upd i f d)) =
     (if j = i then map_option f (get_by u_id j (users d)) else get_by u_id j (users d))"
  by (auto simp: user_upd_def user_keeps_def get_by_update_by)

lemma user_upd_frame [simp]:
  "user_tenant_roles (user_upd i f d) = user_tenant_roles d" "roles (user_upd i f d) = roles d"
  "tenants (user_upd i f d) = tenants d" "refresh_tokens (user_upd i f d) = refresh_tokens d"
  "login_attempts (user_upd i f d) = login_attempts d" "audit_rows (user_upd i f d) = audit_rows d"
  by (simp_all add: user_upd_def)

lemma user_repo_create_ok:
  "user_repo_create e em h dn sa d = Inr (u, d') \<Longrightarrow>
     u = new_user (env_ids e 0) (env_now e) em h dn sa \<and> d' = d\<lparr>users := add_row u (users d)\<rparr> \<and> users_unique d'"
  by (auto simp: user_repo_create_def Let_def split: sum.splits)

lemma assign_role_ok:
  "user_repo_assign_role e i u t r a d = Inr d' \<Longrightarrow>
     users d' = users d \<and> roles d' = roles d \<and> tenants d' = tenants d \<and> utrs_unique d' \<and>
     user_tenant_roles d' = add_row \<lparr>utr_id = i, utr_user_id = u, utr_tenant_id = t, utr_role_id = r,
        utr_assigned_at = env_now e, utr_assigned_by = a\<rparr> (user_tenant_roles d)"
  by (auto simp: user_repo_assign_role_def)

lemma user_set_role_frame:
  "user_set_role e t u r a d = Inr (n, d') \<Longrightarrow> users d' = users d \<and> tenants d' = tenants d"
  by (auto simp: user_set_role_def Let_def dest!: assign_role_ok split: option.splits sum.splits)

text \<open>How an operation may change the user table: add one fresh row of version 0, or update in
  place without lowering a version.\<close>

definition users_grow :: "user list \<Rightarrow> user list \<Rightarrow> bool" where
  "users_grow t t' \<longleftrightarrow>
     (\<exists>u. t' = add_row u t \<and> u_session_version u = 0) \<or>
     (\<exists>i f. t' = update_by u_id i f t \<and> user_keeps f \<and>
        (\<forall>u \<in> set t. u_id u = i \<longrightarrow> u_session_version u \<le> u_session_version (f u)))"

lemma users_grow_refl [simp]: "users_grow t t"
  unfolding users_grow_def
  by (intro disjI2 exI [of _ "[]"] exI [of _ id])
    (auto simp: user_keeps_def update_by_def update_where_def intro: map_idI [symmetric])

lemma users_grow_add: "u_session_version u = 0 \<Longrightarrow> users_grow t (add_row u t)"
  unfolding users_grow_def by blast

lemma users_grow_upd:
  "user_keeps f \<Longrightarrow> (\<And>u. u \<in> set (users d) \<Longrightarrow> u_id u = i \<Longrightarrow> u_session_version u \<le> u_session_version (f u)) \<Longrightarrow>
     users_grow (users d) (users (user_upd i f d))"
  unfolding users_grow_def user_upd_def by (intro disjI2 exI [of _ i] exI [of _ f]) auto

lemma users_grow_version:
  assumes "users_grow t t'" and "get_by u_id i t = Some u"
  shows "\<exists>u'. get_by u_id i t' = Some u' \<and> u_email u' = u_email u \<and> u_session_version u \<le> u_session_version u'"
  using assms get_by_SomeD [OF assms(2)]
  by (auto simp: users_grow_def get_by_add_row get_by_update_by user_keeps_def)

inductive users_step :: "db \<Rightarrow> db \<Rightarrow> bool" where
  step_create: "user_create_for_tenant cr e salt t x ctx d = Inr (r, d') \<Longrightarrow> users_step d d'"
| step_superadmin: "user_create_superadmin cr e salt em pw dn d = Inr (s, d') \<Longrightarrow> users_step d d'"
| step_external: "user_create_external cr e salt em dn d = Inr (s, d') \<Longrightarrow> users_step d d'"
| step_update: "user_update_for_tenant e t i y ctx d = Inr (r, d') \<Longrightarrow> users_step d d'"
| step_deactivate: "user_deactivate_for_tenant e t i ctx d = Inr (r, d') \<Longrightarrow> users_step d d'"
| step_profile: "user_update_profile e i dn ctx d = Inr (s, d') \<Longrightarrow> users_step d d'"
| step_password: "user_change_password cr e salt i old new ctx d = Inr d' \<Longrightarrow> users_step d d'"
| step_promote: "users_step d (user_promote_to_superadmin e em d)"
| step_set_totp: "user_set_totp e i sec codes d = Inr d' \<Longrightarrow> users_step d d'"
| step_clear_totp: "user_clear_totp e i d = Inr d' \<Longrightarrow> users_step d d'"
| step_consume: "users_step d (user_consume_backup_code e i codes d)"

inductive users_run :: "db \<Rightarrow> db \<Rightarrow> bool" where
  run_refl: "users_run d d"
| run_step: "users_run d d1 \<Longrightarrow> users_step d1 d2 \<Longrightarrow> users_run d d2"

lemma create_for_tenant_ok:
  assumes "user_create_for_tenant cr e salt t x ctx d = Inr (r, d')"
  obtains u ro where "u = new_user (env_ids e 0) (env_now e) (uc_email x) (hash_password cr salt (uc_password x)) (uc_display_name x) False"
    "get_by u_email (uc_email x) (users d) = None" "users d' = add_row u (users d)" "users_unique d'"
    "get_by ro_name (role_value (uc_role x)) (roles d) = Some ro" "r = with_role (user_to_read u) (uc_role x)"
    "user_tenant_roles d' = add_row \<lparr>utr_id = env_ids e 1, utr_user_id = u_id u, utr_tenant_id = t,
       utr_role_id = ro_id ro, utr_assigned_at = env_now e, utr_assigned_by = Some (ctx_user_id ctx)\<rparr> (user_tenant_roles d)"
    "utrs_unique d'"
  using assms
  by (auto simp: user_create_for_tenant_def user_repo_get_by_email_def user_repo_get_role_by_name_def
      users_unique_def utrs_unique_def dest!: user_repo_create_ok assign_role_ok split: option.splits sum.splits)

lemma update_for_tenant_users:
  assumes "user_update_for_tenant e t i y ctx d = Inr (r, d')"
  obtains u f where "get_by u_id i (users d) = Some u" "f = touched (touch_user (env_now e)) (apply_user_patch (user_changes_patch y u))"
    "users d' = users (user_upd i f d)" "ur_id r = i" "ur_is_active r = u_is_active (f u)"
    "ur_session_version r = u_session_version (f u)"
  using assms get_by_SomeD [of u_id i "users d"]
  by (auto simp: user_update_for_tenant_def user_repo_get_by_id_def Let_def
      dest!: user_repo_update_upd user_set_role_frame split: option.splits sum.splits prod.splits)

lemma change_password_ok:
  assumes "user_change_password cr e salt i old new ctx d = Inr d'"
  obtains u f where "get_by u_id i (users d) = Some u" "verify_password cr old (u_password_hash u)"
    "f = touched (touch_user (env_now e)) (apply_user_patch (no_user_patch
           \<lparr>up_password_hash := Some (hash_password cr salt new),
            up_session_version := Some (u_session_version u + 1)\<rparr>))"
    "users d' = users (user_upd i f d)"
  using assms get_by_SomeD [of u_id i "users d"]
  by (auto simp: user_change_password_def user_repo_get_by_id_def Let_def
      dest!: user_repo_update_upd split: option.splits if_splits prod.splits)

lemma version_touched: "u_session_version (touched (touch_user n) f u) = u_session_version (f u)"
  by (simp add: touched_proj touch_user_def)

lemma totp_keeps [simp]:
  "user_keeps (\<lambda>u. u\<lparr>u_totp_secret := a, u_totp_enabled := b, u_backup_codes := c\<rparr>)"
  "user_keeps (\<lambda>u. u\<lparr>u_backup_codes := c\<rparr>)"
  by (simp_all add: user_keeps_def)

lemma get_by_mem_id:
  "users_unique d \<Longrightarrow> get_by u_id i (users d) = Some u \<Longrightarrow> v \<in> set (users d) \<Longrightarrow> u_id v = i \<Longrightarrow> v = u"
  using get_by_SomeD [of u_id i "users d" u] unfolding users_unique_def by (metis distinct_keyD)

lemma users_grow_case:
  assumes "users d' = users (user_upd i f d)" and "user_keeps f" and "users_unique d"
    and "\<And>u. u \<in> set (users d) \<Longrightarrow> u_id u = i \<Longrightarrow> u_session_version u \<le> u_session_version (f u)"
  shows "users_grow (users d) (users d') \<and> users_unique d'"
  using users_grow_upd [OF assms(2,4)] user_upd_unique [OF assms(2,3), of i] assms(1)
  by (simp add: users_unique_def)

text \<open>The one case analysis over the operations: every step grows the user table and keeps it unique.\<close>

lemma users_step_grow:
  assumes "users_step d d'" and "users_unique d"
  shows "users_grow (users d) (users d') \<and> users_unique d'"
  using assms
proof (induction rule: users_step.induct)
  case (step_create cr e salt t x ctx d r d')
  then show ?case by (elim create_for_tenant_ok) (simp add: users_grow_add)
next
  case (step_superadmin cr e salt em pw dn d s d')
  then show ?case
    by (auto simp: user_create_superadmin_def users_grow_add dest!: user_repo_create_ok
        split: option.splits sum.splits)
next
  case (step_external cr e salt em dn d s d')
  then show ?case
    by (auto simp: user_create_external_def users_grow_add dest!: user_repo_create_ok
        split: option.splits sum.splits)
next
  case (step_update e t i y ctx d r d')
  from step_update.hyps obtain u f where u: "get_by u_id i (users d) = Some u"
    and f: "f = touched (touch_user (env_now e)) (apply_user_patch (user_changes_patch y u))"
    and d': "users d' = users (user_upd i f d)" by (elim update_for_tenant_users)
  show ?case
    using get_by_mem_id [OF step_update.prems u] by (intro users_grow_case [OF d' _ step_update.prems]) (auto simp: f user_changes_patch_def)
next
  case (step_deactivate e t i ctx d r d')
  from step_deactivate.hyps obtain u f where u: "get_by u_id i (users d) = Some u"
    and f: "f = touched (touch_user (env_now e)) (apply_user_patch (user_changes_patch
              \<lparr>uu_display_name = None, uu_is_active = Some False, uu_role = None\<rparr> u))"
    and d': "users d' = users (user_upd i f d)"
    unfolding user_deactivate_for_tenant_def by (elim update_for_tenant_users)
  show ?case
    using get_by_mem_id [OF step_deactivate.prems u] by (intro users_grow_case [OF d' _ step_deactivate.prems]) (auto simp: f user_changes_patch_def)
next
  case (step_profile e i dn ctx d s d')
  then obtain u f where f: "f = touched (touch_user (env_now e)) (apply_user_patch (no_user_patch\<lparr>up_display_name := Some dn\<rparr>))"
    and d': "users d' = users (user_upd u f d)"
    by (auto simp: user_update_profile_def Let_def dest!: user_repo_update_upd split: option.splits prod.splits)
  show ?case by (intro users_grow_case [OF d' _ step_profile.prems]) (auto simp: f)
next
  case (step_password cr e salt i old new ctx d d')
  from step_password.hyps obtain u f where u: "get_by u_id i (users d) = Some u"
    and f: "f = touched (touch_user (env_now e)) (apply_user_patch (no_user_patch
           \<lparr>up_password_hash := Some (hash_password cr salt new),
            up_session_version := Some (u_session_version u + 1)\<rparr>))"
    and d': "users d' = users (user_upd i f d)" by (elim change_password_ok)
  show ?case
    using get_by_mem_id [OF step_password.prems u] by (intro users_grow_case [OF d' _ step_password.prems]) (auto simp: f)
next
  case (step_promote d e em)
  then show ?case
    by (auto simp: user_promote_to_superadmin_def snd_user_repo_update user_upd_unique intro!: users_grow_upd
        split: option.splits)
next
  case (step_set_totp e i sec codes d d')
  then show ?case
    by (auto simp: user_set_totp_def user_assign_upd user_upd_unique user_keeps_touched version_touched
        intro!: users_grow_upd split: if_splits)
next
  case (step_clear_totp e i d d')
  then show ?case
    by (auto simp: user_clear_totp_def user_assign_upd user_upd_unique user_keeps_touched version_touched
        intro!: users_grow_upd split: if_splits)
next
  case (step_consume d e i codes)
  then show ?case
    by (auto simp: user_consume_backup_code_def user_assign_upd user_upd_unique user_keeps_touched
        version_touched intro!: users_grow_upd)
qed

lemma users_run_inv:
  assumes "users_run d d'" and "users_unique d"
  shows "users_unique d'"
  using assms by (induction) (auto dest: users_step_grow)

lemma users_run_versions:
  assumes "users_run d d'" and "users_unique d"
  shows "users_unique d' \<and> (\<forall>i u. get_by u_id i (users d) = Some u \<longrightarrow>
    (\<exists>u'. get_by u_id i (users d') = Some u' \<and> u_email u' = u_email u \<and>
          u_session_version u \<le> u_session_version u'))"
  using assms
proof (induction rule: users_run.induct)
  case (run_refl d)
  then show ?case by auto
next
  case (run_step d d1 d2)
  then have "users_unique d1" and grow: "users_grow (users d1) (users d2)" "users_unique d2"
    using users_step_grow by (auto dest: users_run_inv)
  show ?case
  proof (intro conjI allI impI)
    fix i u assume "get_by u_id i (users d) = Some u"
    with run_step obtain u1 where "get_by u_id i (users d1) = Some u1" "u_email u1 = u_email u"
      "u_session_version u \<le> u_session_version u1" by blast
    then show "\<exists>u'. get_by u_id i (users d2) = Some u' \<and> u_email u' = u_email u \<and>
        u_session_version u \<le> u_session_version u'"
      using users_grow_version [OF grow(1)] by fastforce
  qed (rule grow(2))
qed

text \<open>
  C8: Along any sequence of user operations from a database with unique ids and emails, those stay
  unique, and every account that existed still exists under the same email with a session version
  at least as high: tokens revoked by a version bump are never accepted again.
\<close>

theorem users_run_monotone:
  assumes "users_run d d'" and "users_unique d"
  shows "users_unique d' \<and> (\<forall>i u. get_by u_id i (users d) = Some u \<longrightarrow>
    (\<exists>u'. get_by u_id i (users d') = Some u' \<and> u_email u' = u_email u \<and>
          u_session_version u \<le> u_session_version u'))"
  by (rule users_run_versions [OF assms])

text \<open>
  A successful password change proved the old password, the new one verifies from then on, the
  session version went up by exactly one, so every token issued before is rejected, and no other account
  changed.
\<close>

theorem change_password_effect:
  assumes "hash_verifies cr" and "user_change_password cr e salt i old new ctx d = Inr d'"
  shows "\<exists>u u'. get_by u_id i (users d) = Some u \<and> verify_password cr old (u_password_hash u) \<and>
     get_by u_id i (users d') = Some u' \<and> verify_password cr new (u_password_hash u') \<and>
     u_session_version u' = u_session_version u + 1 \<and>
     (\<forall>j. j \<noteq> i \<longrightarrow> get_by u_id j (users d') = get_by u_id j (users d))"
  using assms(2) by (elim change_password_ok) (auto simp: get_user_upd verify_hash [OF assms(1)])

text \<open>
  A tenant administrator who deactivates a user gets that account back inactive, with its session
  version raised, whatever its earlier state, and the stored row agrees.
\<close>

theorem deactivate_effect:
  assumes "user_deactivate_for_tenant e t i ctx d = Inr (r, d')"
  shows "\<not> ur_is_active r \<and> (\<exists>u u'. get_by u_id i (users d) = Some u \<and> get_by u_id i (users d') = Some u' \<and>
    \<not> u_is_active u' \<and> u_session_version u' = u_session_version u + 1 \<and> ur_session_version r = u_session_version u')"
  using assms unfolding user_deactivate_for_tenant_def
  by (elim update_for_tenant_users) (auto simp: get_user_upd user_changes_patch_def)

subsection \<open>The user context\<close>

lemma fold_dict_set:
  "fold (\<lambda>r. dict_set (k r) (v r)) rs acc = dict_update acc (map (\<lambda>r. (k r, v r)) rs)"
  by (induction rs arbitrary: acc) (simp_all add: dict_update_def)

lemma map_of_rev_distinct: "distinct (map fst xs) \<Longrightarrow> map_of (rev xs) = map_of xs"
proof (rule ext)
  fix k assume d: "distinct (map fst xs)"
  have "(k, v) \<in> set (rev xs) \<longleftrightarrow> (k, v) \<in> set xs" for v by simp
  moreover have "distinct (map fst (rev xs))" using d by (simp add: rev_map [symmetric])
  ultimately show "map_of (rev xs) k = map_of xs k"
    using d by (metis map_of_SomeD map_of_is_SomeI not_Some_eq)
qed

lemma map_of_dict_update_Nil:
  "distinct (map fst e) \<Longrightarrow> map_of (dict_update [] e) = map_of e"
  by (simp add: map_of_dict_update map_of_rev_distinct)

fun slug_pairs :: "db \<Rightarrow> (string, role_name) alist \<Rightarrow> (string, role_name) alist" where
  "slug_pairs d [] = []"
| "slug_pairs d ((i, r) # ts) =
     (case get_by te_id i (tenants d) of None \<Rightarrow> slug_pairs d ts | Some t \<Rightarrow> (te_slug t, r) # slug_pairs d ts)"

lemma slug_roles_update: "slug_roles_of d ts acc = dict_update acc (slug_pairs d ts)"
  by (induction d ts acc rule: slug_roles_of.induct)
    (auto simp: dict_update_def tenant_get_by_id_def tenant_repo_get_by_id_def
      tenant_to_read_def split: option.splits sum.splits)

lemma mem_slug_pairs:
  "(s, r) \<in> set (slug_pairs d ts) \<longleftrightarrow> (\<exists>i t. (i, r) \<in> set ts \<and> get_by te_id i (tenants d) = Some t \<and> te_slug t = s)"
  by (induction d ts rule: slug_pairs.induct) (auto split: option.splits)

lemma distinct_slug_pairs:
  assumes "tenants_unique d" and "distinct (map fst ts)"
  shows "distinct (map fst (slug_pairs d ts))"
  using assms(2)
proof (induction ts)
  case Nil
  then show ?case by simp
next
  case (Cons a ts)
  obtain i r where a: "a = (i, r)" by (cases a)
  show ?case
  proof (cases "get_by te_id i (tenants d)")
    case None
    with Cons a show ?thesis by simp
  next
    case (Some t)
    have "te_slug t \<notin> fst ` set (slug_pairs d ts)"
    proof
      assume "te_slug t \<in> fst ` set (slug_pairs d ts)"
      then obtain r' where "(te_slug t, r') \<in> set (slug_pairs d ts)" by auto
      then obtain j t' where j: "(j, r') \<in> set ts" "get_by te_id j (tenants d) = Some t'" "te_slug t' = te_slug t"
        by (auto simp: mem_slug_pairs)
      then have "t' = t"
        using assms(1) get_by_SomeD [OF Some] get_by_SomeD [OF j(2)] unfolding tenants_unique_def
        by (metis distinct_keyD)
      then have "j = i" using get_by_SomeD [OF Some] get_by_SomeD [OF j(2)] by auto
      with j(1) Cons.prems a show False by force
    qed
    with Cons Some a show ?thesis by (simp add: image_iff)
  qed
qed

lemma tenant_roles_alist:
  assumes "utrs_unique d"
  shows "map_of (user_get_tenant_roles i d) = map_of (map (\<lambda>r. (utr_tenant_id r, role_of_id (utr_role_id r)))
           (user_repo_get_user_roles i d))"
    and "distinct (map fst (map (\<lambda>r. (utr_tenant_id r, role_of_id (utr_role_id r))) (user_repo_get_user_roles i d)))"
proof -
  let ?xs = "map (\<lambda>r. (utr_tenant_id r, role_of_id (utr_role_id r))) (user_repo_get_user_roles i d)"
  have "distinct (map (\<lambda>r. (utr_user_id r, utr_tenant_id r)) (filter (\<lambda>r. utr_user_id r = i) (user_tenant_roles d)))"
    using assms by (simp add: utrs_unique_def distinct_map_filter)
  then show "distinct (map fst ?xs)"
    by (auto simp: user_repo_get_user_roles_def comp_def distinct_map inj_on_def)
  then show "map_of (user_get_tenant_roles i d) = map_of ?xs"
    unfolding user_get_tenant_roles_def fold_dict_set by (rule map_of_dict_update_Nil)
qed

lemma distinct_dict_update: "distinct (map fst d) \<Longrightarrow> distinct (map fst (dict_update d e))"
  unfolding dict_update_def by (induction e arbitrary: d) (auto simp: distinct_dict_set)

text \<open>
  The roles a request carries are exactly the user's stored assignments: the context maps a slug to
  a role when the user has an assignment with that role to the tenant with that slug, and never
  otherwise.
\<close>

theorem build_context_roles:
  assumes "utrs_unique d" and "tenants_unique d"
  shows "map_of (uctx_tenant_roles (user_build_context u d)) slug = Some r \<longleftrightarrow>
     (\<exists>a \<in> set (user_tenant_roles d). \<exists>t \<in> set (tenants d). utr_user_id a = ur_id u \<and>
        utr_tenant_id a = te_id t \<and> te_slug t = slug \<and> r = role_of_id (utr_role_id a))"
proof -
  let ?ts = "user_get_tenant_roles (ur_id u) d"
  have dts: "distinct (map fst ?ts)"
    unfolding user_get_tenant_roles_def fold_dict_set by (rule distinct_dict_update) simp
  have ts: "(i, x) \<in> set ?ts \<longleftrightarrow>
      (\<exists>a \<in> set (user_tenant_roles d). utr_user_id a = ur_id u \<and> utr_tenant_id a = i \<and> x = role_of_id (utr_role_id a))" for i x
    using tenant_roles_alist [OF assms(1), of "ur_id u"] map_of_eq_Some_iff [OF dts, of i x]
    by (auto simp: user_repo_get_user_roles_def)
  have "map_of (uctx_tenant_roles (user_build_context u d)) slug = Some r \<longleftrightarrow> (slug, r) \<in> set (slug_pairs d ?ts)"
    by (simp add: user_build_context_def slug_roles_update map_of_dict_update_Nil
        distinct_slug_pairs [OF assms(2) dts])
  also have "\<dots> \<longleftrightarrow> (\<exists>i t. (i, r) \<in> set ?ts \<and> get_by te_id i (tenants d) = Some t \<and> te_slug t = slug)"
    by (rule mem_slug_pairs)
  also have "\<dots> \<longleftrightarrow> (\<exists>i. \<exists>t \<in> set (tenants d). (i, r) \<in> set ?ts \<and> te_id t = i \<and> te_slug t = slug)"
    using assms(2) get_by_SomeD [of te_id _ "tenants d"] get_by_mem [of te_id "tenants d"]
    by (auto simp: tenants_unique_def keys_distinct_def)
  finally show ?thesis unfolding ts by metis
qed

text \<open>
  A user created for a tenant can be looked up by email as an active, non-superadmin account of
  version 0 whose stored hash verifies the chosen password, and holds the chosen role in that tenant
  and no other role.
\<close>

theorem create_for_tenant_effect:
  assumes "hash_verifies cr" and "users_unique d"
    and fresh: "\<And>a. a \<in> set (user_tenant_roles d) \<Longrightarrow> utr_user_id a \<noteq> env_ids e 0"
    and seeded: "\<And>ro. ro \<in> set (roles d) \<Longrightarrow> ro_name ro = role_value (role_of_id (ro_id ro))"
    and run: "user_create_for_tenant cr e salt t x ctx d = Inr (r, d')"
  shows "\<exists>u. user_repo_get_by_email (uc_email x) d' = Some u \<and> u_is_active u \<and> \<not> u_is_superadmin u \<and>
     u_session_version u = 0 \<and> verify_password cr (uc_password x) (u_password_hash u) \<and>
     user_get_tenant_roles (u_id u) d' = [(t, uc_role x)]"
  using run
proof (elim create_for_tenant_ok)
  fix u ro
  assume u: "u = new_user (env_ids e 0) (env_now e) (uc_email x) (hash_password cr salt (uc_password x)) (uc_display_name x) False"
    and new: "get_by u_email (uc_email x) (users d) = None" "users d' = add_row u (users d)"
    and ro: "get_by ro_name (role_value (uc_role x)) (roles d) = Some ro"
    and utr: "user_tenant_roles d' = add_row \<lparr>utr_id = env_ids e 1, utr_user_id = u_id u, utr_tenant_id = t,
       utr_role_id = ro_id ro, utr_assigned_at = env_now e, utr_assigned_by = Some (ctx_user_id ctx)\<rparr> (user_tenant_roles d)"
  have "role_of_id (ro_id ro) = uc_role x"
    using get_by_SomeD [OF ro] seeded [of ro] by auto
  moreover have "filter (\<lambda>a. utr_user_id a = env_ids e 0) (user_tenant_roles d) = []"
    using fresh by (auto simp: filter_empty_conv)
  ultimately have "user_get_tenant_roles (u_id u) d' = [(t, uc_role x)]"
    by (simp add: user_get_tenant_roles_def user_repo_get_user_roles_def utr add_row_def u dict_set_def)
  then show ?thesis
    using new verify_hash(1) [OF assms(1)]
    by (intro exI [of _ u]) (auto simp: user_repo_get_by_email_def get_by_add_row u)
qed

lemma user_list_total_ignores_search:
  "pr_total (user_list_for_tenant t (f\<lparr>uf_search := s\<rparr>) d) = pr_total (user_list_for_tenant t f d)"
  by (simp add: user_list_for_tenant_def user_repo_list_for_tenant_def user_active_matches_def Let_def
      split: option.split)

subsection \<open>The TOTP data access, as an interface\<close>

text \<open>
  \<open>AuthService\<close> receives a \<open>UsersService\<close> as an argument and calls four operations of it.
  \<open>totp_api\<close> is that argument; the locale states what those calls promise, and \<open>users_totp_api\<close>
  provides them.
\<close>

record 'd totp_api =
  ta_get :: "string \<Rightarrow> 'd \<Rightarrow> totp_fields"
  ta_set :: "string \<Rightarrow> string \<Rightarrow> json_text \<Rightarrow> 'd \<Rightarrow> error + 'd"
  ta_clear :: "string \<Rightarrow> 'd \<Rightarrow> error + 'd"
  ta_consume :: "string \<Rightarrow> json_text \<Rightarrow> 'd \<Rightarrow> 'd"

locale totp_store =
  fixes api :: "'d totp_api" and known :: "string \<Rightarrow> 'd \<Rightarrow> bool"
  assumes set_known: "known i d \<Longrightarrow> \<exists>d'. ta_set api i s c d = Inr d'"
    and set_unknown: "\<not> known i d \<Longrightarrow> ta_set api i s c d = Inl (NotFoundError ''User'' i)"
    and get_set: "ta_set api i s c d = Inr d' \<Longrightarrow>
          ta_get api j d' = (if j = i then (Some s, True, Some c) else ta_get api j d)"
    and known_set: "ta_set api i s c d = Inr d' \<Longrightarrow> known j d' = known j d"
    and get_clear: "ta_clear api i d = Inr d' \<Longrightarrow>
          ta_get api j d' = (if j = i then (None, False, None) else ta_get api j d)"
    and get_unknown: "\<not> known i d \<Longrightarrow> ta_get api i d = (None, False, None)"
    and get_consume: "known i d \<Longrightarrow> ta_get api j (ta_consume api i c d) =
          (if j = i then (fst (ta_get api i d), fst (snd (ta_get api i d)), Some c) else ta_get api j d)"
begin

lemma set_then_get:
  assumes "known i d"
  obtains d' where "ta_set api i s c d = Inr d'" "ta_get api i d' = (Some s, True, Some c)" "known i d'"
  using set_known [OF assms, of s c] get_set known_set assms by fastforce

lemma enabled_known: "fst (snd (ta_get api i d)) \<Longrightarrow> known i d"
  by (rule ccontr) (simp add: get_unknown)

end

definition users_totp_api :: "env \<Rightarrow> db totp_api" where
  "users_totp_api e = \<lparr>ta_get = user_get_totp_fields, ta_set = user_set_totp e,
     ta_clear = user_clear_totp e, ta_consume = user_consume_backup_code e\<rparr>"

definition user_known :: "string \<Rightarrow> db \<Rightarrow> bool" where
  "user_known i d \<longleftrightarrow> user_repo_get_by_id i d \<noteq> None"

lemma get_user_assign:
  "user_keeps f \<Longrightarrow> user_repo_get_by_id j (user_assign e i f d) =
     (if j = i then map_option (touched (touch_user (env_now e)) f) (user_repo_get_by_id j d)
      else user_repo_get_by_id j d)"
  by (simp add: user_repo_get_by_id_def user_assign_upd get_user_upd user_keeps_touched)

lemma touched_totp [simp]:
  "u_totp_secret (touched (touch_user n) f u) = u_totp_secret (f u)"
  "u_totp_enabled (touched (touch_user n) f u) = u_totp_enabled (f u)"
  "u_backup_codes (touched (touch_user n) f u) = u_backup_codes (f u)"
  by (simp_all add: touched_proj touch_user_def)

interpretation users_totp: totp_store "users_totp_api e" user_known for e
proof unfold_locales
  fix i j :: string and s c d d'
  show "user_known i d \<Longrightarrow> \<exists>d'. ta_set (users_totp_api e) i s c d = Inr d'"
    by (simp add: user_known_def users_totp_api_def user_set_totp_def)
  show "\<not> user_known i d \<Longrightarrow> ta_set (users_totp_api e) i s c d = Inl (NotFoundError ''User'' i)"
    by (simp add: user_known_def users_totp_api_def user_set_totp_def)
  show "ta_set (users_totp_api e) i s c d = Inr d' \<Longrightarrow>
      ta_get (users_totp_api e) j d' = (if j = i then (Some s, True, Some c) else ta_get (users_totp_api e) j d)"
    by (auto simp: users_totp_api_def user_set_totp_def user_get_totp_fields_def get_user_assign
        split: if_splits option.splits)
  show "ta_set (users_totp_api e) i s c d = Inr d' \<Longrightarrow> user_known j d' = user_known j d"
    by (auto simp: user_known_def users_totp_api_def user_set_totp_def get_user_assign split: if_splits)
  show "ta_clear (users_totp_api e) i d = Inr d' \<Longrightarrow>
      ta_get (users_totp_api e) j d' = (if j = i then (None, False, None) else ta_get (users_totp_api e) j d)"
    by (auto simp: users_totp_api_def user_clear_totp_def user_get_totp_fields_def get_user_assign
        split: if_splits option.splits)
  show "\<not> user_known i d \<Longrightarrow> ta_get (users_totp_api e) i d = (None, False, None)"
    by (simp add: user_known_def users_totp_api_def user_get_totp_fields_def)
  show "user_known i d \<Longrightarrow> ta_get (users_totp_api e) j (ta_consume (users_totp_api e) i c d) =
      (if j = i then (fst (ta_get (users_totp_api e) i d), fst (snd (ta_get (users_totp_api e) i d)), Some c)
       else ta_get (users_totp_api e) j d)"
    by (auto simp: user_known_def users_totp_api_def user_consume_backup_code_def user_get_totp_fields_def
        get_user_assign)
qed

subsection \<open>Concrete instances\<close>

definition demo_user :: "string \<Rightarrow> string \<Rightarrow> user" where
  "demo_user i em = new_user i 1 em (hash_password demo_creds 0 ''pw'') ''Demo'' False"

definition demo_role :: "role_name \<Rightarrow> int \<Rightarrow> role" where
  "demo_role r i = \<lparr>ro_id = i, ro_name = role_value r, ro_description = ''''\<rparr>"

definition demo_users_db :: db where
  "demo_users_db = demo_tenant_db\<lparr>users := [demo_user ''u1'' ''a@x''],
     roles := [demo_role VIEWER 1, demo_role ANALYST 2, demo_role ADMIN 3, demo_role SUPERADMIN 4],
     user_tenant_roles := [\<lparr>utr_id = ''r1'', utr_user_id = ''u1'', utr_tenant_id = ''t1'', utr_role_id = 3,
       utr_assigned_at = 1, utr_assigned_by = None\<rparr>]\<rparr>"

lemmas demo_users_simps = demo_users_db_def demo_user_def demo_role_def demo_tenant_db_def demo_tenant_def
  demo_ctx_def demo_env_def demo_creds_def hash_password_def verify_password_def

lemma demo_users_unique: "users_unique demo_users_db" "utrs_unique demo_users_db" "tenants_unique demo_users_db"
  using demo_tenants_unique
  by (simp_all add: users_unique_def utrs_unique_def tenants_unique_def demo_users_db_def)

lemma demo_password_change:
  obtains d' where "user_change_password demo_creds demo_env 0 ''u1'' ''pw'' ''new'' demo_ctx demo_users_db = Inr d'"
  by (simp add: user_change_password_def user_repo_get_by_id_def demo_users_simps new_user_def user_repo_update_def Let_def)

lemma demo_u1: "get_by u_id ''u1'' (users demo_users_db) = Some (demo_user ''u1'' ''a@x'')"
  by (simp add: demo_users_db_def demo_user_def)

theorem users_run_monotone_witness:
  "\<exists>d' u'. users_run demo_users_db d' \<and> users_unique d' \<and> get_by u_id ''u1'' (users d') = Some u' \<and>
     u_email u' = ''a@x'' \<and> 0 \<le> u_session_version u'"
proof -
  obtain d' where "user_change_password demo_creds demo_env 0 ''u1'' ''pw'' ''new'' demo_ctx demo_users_db = Inr d'"
    by (rule demo_password_change)
  then have run: "users_run demo_users_db d'" by (intro run_step [OF run_refl] step_password)
  from users_run_monotone [OF run demo_users_unique(1)] demo_u1 obtain u' where "users_unique d'"
    "get_by u_id ''u1'' (users d') = Some u'" "u_email u' = u_email (demo_user ''u1'' ''a@x'')"
    "u_session_version (demo_user ''u1'' ''a@x'') \<le> u_session_version u'" by blast
  with run show ?thesis by (auto simp: demo_user_def)
qed

theorem change_password_effect_witness:
  "\<exists>d' u'. user_change_password demo_creds demo_env 0 ''u1'' ''pw'' ''new'' demo_ctx demo_users_db = Inr d' \<and>
     get_by u_id ''u1'' (users d') = Some u' \<and> verify_password demo_creds ''new'' (u_password_hash u') \<and>
     u_session_version u' = 1"
proof -
  obtain d' where d': "user_change_password demo_creds demo_env 0 ''u1'' ''pw'' ''new'' demo_ctx demo_users_db = Inr d'"
    by (rule demo_password_change)
  from change_password_effect [OF demo_creds_ok d'] obtain u u' where
    "get_by u_id ''u1'' (users demo_users_db) = Some u" "get_by u_id ''u1'' (users d') = Some u'"
    "verify_password demo_creds ''new'' (u_password_hash u')" "u_session_version u' = u_session_version u + 1" by blast
  moreover from this(1) have "u_session_version u = 0" by (auto simp: demo_users_db_def demo_user_def)
  ultimately show ?thesis using d' by auto
qed

theorem deactivate_effect_witness:
  "\<exists>r d'. user_deactivate_for_tenant demo_env ''t1'' ''u1'' demo_ctx demo_users_db = Inr (r, d') \<and> \<not> ur_is_active r"
proof -
  obtain r d' where d: "user_deactivate_for_tenant demo_env ''t1'' ''u1'' demo_ctx demo_users_db = Inr (r, d')"
    by (simp add: user_deactivate_for_tenant_def user_update_for_tenant_def user_repo_get_by_id_def
        demo_users_simps new_user_def user_repo_update_def Let_def)
  with deactivate_effect [OF d] show ?thesis by blast
qed

theorem build_context_roles_witness:
  "map_of (uctx_tenant_roles (user_build_context (user_to_read (demo_user ''u1'' ''a@x'')) demo_users_db)) ''acme-corp''
     = Some ADMIN"
  by (subst build_context_roles [OF demo_users_unique(2,3)])
    (simp add: demo_users_simps demo_slugs role_of_id_def)

theorem create_for_tenant_effect_witness:
  "\<exists>r d' u. user_create_for_tenant demo_creds demo_env 0 ''t2''
       \<lparr>uc_email = ''b@x'', uc_password = ''pw2'', uc_display_name = ''B'', uc_role = ANALYST\<rparr> demo_ctx demo_users_db = Inr (r, d') \<and>
     user_repo_get_by_email ''b@x'' d' = Some u \<and> user_get_tenant_roles (u_id u) d' = [(''t2'', ANALYST)]"
proof -
  let ?x = "\<lparr>uc_email = ''b@x'', uc_password = ''pw2'', uc_display_name = ''B'', uc_role = ANALYST\<rparr>"
  obtain r d' where d: "user_create_for_tenant demo_creds demo_env 0 ''t2'' ?x demo_ctx demo_users_db = Inr (r, d')"
    by (simp add: user_create_for_tenant_def user_repo_get_by_email_def user_repo_create_def flush_checked_def
        users_unique_def utrs_unique_def user_repo_get_role_by_name_def user_repo_assign_role_def
        demo_users_simps new_user_def Let_def add_row_def)
  have "\<exists>u. user_repo_get_by_email (uc_email ?x) d' = Some u \<and> u_is_active u \<and> \<not> u_is_superadmin u \<and>
     u_session_version u = 0 \<and> verify_password demo_creds (uc_password ?x) (u_password_hash u) \<and>
     user_get_tenant_roles (u_id u) d' = [(''t2'', uc_role ?x)]"
    by (rule create_for_tenant_effect [OF demo_creds_ok demo_users_unique(1) _ _ d])
      (auto simp: demo_users_simps role_of_id_def)
  with d show ?thesis by auto
qed

end
