(* ===== verification/AuthSvc.thy ===== *)
theory AuthSvc
  imports Users
begin

section \<open>Authentication: tokens, lockout, login and TOTP\<close>

text \<open>
  \<open>services/auth/service.py\<close>.  Tokens are made by a JWT library (python-jose), the record \<open>jwt_api\<close>;
  a payload is the dict that \<open>jwt.encode\<close> takes, with \<open>datetime\<close> claims as \<open>JInt\<close> microseconds.  The
  documented behaviour relied on is \<open>jwt_ok\<close>: decoding what was encoded with the same key gives the
  claims back until the second of its \<open>exp\<close> (the times rounded to seconds), and fails after it.  The clock is read once per call.
  \<open>login\<close> writes an attempt before it raises, so it returns the database with the error.
\<close>

type_synonym payload = "(string \<times> json) list"

record jwt_api =
  jw_encode :: "payload \<Rightarrow> string"
  jw_decode :: "time \<Rightarrow> string \<Rightarrow> string + payload"

record auth_cfg =
  jwt_access_token_expire_minutes :: int
  jwt_refresh_token_expire_days :: int

definition to_second :: "time \<Rightarrow> time" where
  "to_second t = t div 1000000"

definition jwt_ok :: "jwt_api \<Rightarrow> bool" where
  "jwt_ok jw \<longleftrightarrow> (\<forall>p now x. map_of p ''exp'' = Some (JInt x) \<longrightarrow>
     (if to_second now \<le> to_second x
      then \<exists>q. jw_decode jw now (jw_encode jw p) = Inr q \<and>
        (\<forall>k. k \<noteq> ''exp'' \<and> k \<noteq> ''iat'' \<longrightarrow> map_of q k = map_of p k) \<and>
        map_of q ''iat'' = (case map_of p ''iat'' of Some (JInt t) \<Rightarrow> Some (JInt (to_second t)) | v \<Rightarrow> v)
      else \<exists>m. jw_decode jw now (jw_encode jw p) = Inl m))"

subsection \<open>Access and refresh tokens\<close>

definition TOTP_PARTIAL_TOKEN_MINUTES :: int where "TOTP_PARTIAL_TOKEN_MINUTES = 5"

definition access_payload ::
  "auth_cfg \<Rightarrow> time \<Rightarrow> string \<Rightarrow> payload option \<Rightarrow> bool \<Rightarrow> int \<Rightarrow> payload" where
  "access_payload cfg now user_id extra_claims totp_pending session_version =
     (let expire_minutes = (if totp_pending then TOTP_PARTIAL_TOKEN_MINUTES
                            else jwt_access_token_expire_minutes cfg);
          expires = now + minutes expire_minutes;
          p = [(''sub'', JStr user_id), (''type'', JStr ''access''), (''iat'', JInt now),
               (''exp'', JInt expires), (''sv'', JInt session_version)];
          p = (if totp_pending then dict_set ''totp_pending'' (JBool True) p else p)
      in case extra_claims of None \<Rightarrow> p | Some x \<Rightarrow> dict_update p x)"

definition create_access_token ::
  "jwt_api \<Rightarrow> auth_cfg \<Rightarrow> time \<Rightarrow> string \<Rightarrow> payload option \<Rightarrow> bool \<Rightarrow> int \<Rightarrow> string" where
  "create_access_token jw cfg now user_id extra_claims totp_pending session_version =
     jw_encode jw (access_payload cfg now user_id extra_claims totp_pending session_version)"

definition refresh_payload :: "auth_cfg \<Rightarrow> time \<Rightarrow> string \<Rightarrow> payload" where
  "refresh_payload cfg now user_id =
     [(''sub'', JStr user_id), (''type'', JStr ''refresh''), (''iat'', JInt now),
      (''exp'', JInt (now + days (jwt_refresh_token_expire_days cfg)))]"

definition create_refresh_token_value :: "jwt_api \<Rightarrow> auth_cfg \<Rightarrow> time \<Rightarrow> string \<Rightarrow> string \<times> time" where
  "create_refresh_token_value jw cfg now user_id =
     (jw_encode jw (refresh_payload cfg now user_id), now + days (jwt_refresh_token_expire_days cfg))"

definition decode_token :: "jwt_api \<Rightarrow> time \<Rightarrow> string \<Rightarrow> error + payload" where
  "decode_token jw now token =
     (case jw_decode jw now token of
        Inl m \<Rightarrow> Inl (AuthenticationError (''Invalid token: '' @ m)) | Inr p \<Rightarrow> Inr p)"

definition store_refresh_token ::
  "creds \<Rightarrow> env \<Rightarrow> nat \<Rightarrow> string \<Rightarrow> string \<Rightarrow> time \<Rightarrow> db \<Rightarrow> error + db" where
  "store_refresh_token cr e salt user_id token expires_at d =
     flush_checked refresh_tokens_unique (d\<lparr>refresh_tokens := add_row
       \<lparr>rt_id = env_ids e 0, rt_user_id = user_id, rt_token_hash = hash_password cr salt token,
        rt_token_prefix = token_prefix cr token, rt_is_revoked = False, rt_expires_at = expires_at,
        rt_created_at = env_now e\<rparr> (refresh_tokens d)\<rparr>)"

definition live_token :: "creds \<Rightarrow> string \<Rightarrow> refresh_token \<Rightarrow> bool" where
  "live_token cr token r \<longleftrightarrow> rt_token_prefix r = token_prefix cr token \<and> \<not> rt_is_revoked r"

definition revoke_refresh_token :: "creds \<Rightarrow> string \<Rightarrow> db \<Rightarrow> db" where
  "revoke_refresh_token cr token d =
     (case find (live_token cr token) (refresh_tokens d) of
        None \<Rightarrow> d
      | Some r \<Rightarrow>
          if verify_password cr token (rt_token_hash r)
          then d\<lparr>refresh_tokens := update_by rt_id (rt_id r) (\<lambda>x. x\<lparr>rt_is_revoked := True\<rparr>) (refresh_tokens d)\<rparr>
          else d)"

definition is_refresh_token_valid :: "creds \<Rightarrow> time \<Rightarrow> string \<Rightarrow> db \<Rightarrow> bool" where
  "is_refresh_token_valid cr now token d =
     (case find (\<lambda>r. live_token cr token r \<and> now < rt_expires_at r) (refresh_tokens d) of
        None \<Rightarrow> False | Some r \<Rightarrow> verify_password cr token (rt_token_hash r))"

record token_response =
  tk_access_token :: string
  tk_token_type :: string
  tk_expires_in :: int

definition build_token_response :: "auth_cfg \<Rightarrow> string \<Rightarrow> token_response" where
  "build_token_response cfg access_token =
     \<lparr>tk_access_token = access_token, tk_token_type = ''bearer'',
      tk_expires_in = jwt_access_token_expire_minutes cfg * 60\<rparr>"

subsection \<open>Account lockout\<close>

definition MAX_FAILED_ATTEMPTS :: nat where "MAX_FAILED_ATTEMPTS = 5"
definition LOCKOUT_WINDOW_MINUTES :: int where "LOCKOUT_WINDOW_MINUTES = 15"
definition LOCKOUT_DURATION_MINUTES :: int where "LOCKOUT_DURATION_MINUTES = 30"

definition record_login_attempt :: "env \<Rightarrow> string \<Rightarrow> string \<Rightarrow> bool \<Rightarrow> string \<Rightarrow> db \<Rightarrow> db" where
  "record_login_attempt e i email success ip_address d =
     (if env_attempts_ok e
      then d\<lparr>login_attempts := add_row \<lparr>la_id = i, la_email = py_lower email, la_success = success,
              la_ip_address = ip_address, la_attempted_at = env_now e\<rparr> (login_attempts d)\<rparr>
      else d)"

definition recent_attempts :: "time \<Rightarrow> string \<Rightarrow> db \<Rightarrow> login_attempt list" where
  "recent_attempts window_start email d = sort_desc la_attempted_at
     (filter (\<lambda>a. la_email a = py_lower email \<and> window_start \<le> la_attempted_at a) (login_attempts d))"

fun consecutive_failures :: "login_attempt list \<Rightarrow> nat" where
  "consecutive_failures [] = 0"
| "consecutive_failures (a # xs) = (if la_success a then 0 else Suc (consecutive_failures xs))"

definition check_lockout :: "time \<Rightarrow> string \<Rightarrow> db \<Rightarrow> bool" where
  "check_lockout now email d =
     (let window_start = now - minutes LOCKOUT_WINDOW_MINUTES;
          lockout_start = now - minutes LOCKOUT_DURATION_MINUTES;
          recent = recent_attempts window_start email d
      in if consecutive_failures recent < MAX_FAILED_ATTEMPTS then False
         else case recent of [] \<Rightarrow> False | a # _ \<Rightarrow> lockout_start \<le> la_attempted_at a)"

subsection \<open>Login\<close>

record login_response =
  lr_access_token :: "string option"
  lr_token_type :: string
  lr_expires_in :: "int option"
  lr_requires_totp :: bool
  lr_partial_token :: "string option"

definition login_error :: error where
  "login_error = AuthenticationError ''Invalid email or password''"

definition login_reply :: "jwt_api \<Rightarrow> auth_cfg \<Rightarrow> time \<Rightarrow> user_read \<Rightarrow> login_response" where
  "login_reply jw cfg now u =
     (if ur_totp_enabled u
      then \<lparr>lr_access_token = None, lr_token_type = ''bearer'', lr_expires_in = None,
            lr_requires_totp = True,
            lr_partial_token = Some (create_access_token jw cfg now (ur_id u) None True (ur_session_version u))\<rparr>
      else \<lparr>lr_access_token = Some (create_access_token jw cfg now (ur_id u) None False (ur_session_version u)),
            lr_token_type = ''bearer'', lr_expires_in = Some (jwt_access_token_expire_minutes cfg * 60),
            lr_requires_totp = False, lr_partial_token = None\<rparr>)"

definition login ::
  "creds \<Rightarrow> jwt_api \<Rightarrow> auth_cfg \<Rightarrow> env \<Rightarrow> string \<Rightarrow> string \<Rightarrow> string \<Rightarrow> db \<Rightarrow> (error + login_response) \<times> db" where
  "login cr jw cfg e email password ip_address d =
     (let email_lower = py_lower (py_strip email);
          refuse = (Inl login_error, record_login_attempt e (env_ids e 0) email_lower False ip_address d)
      in if check_lockout (env_now e) email_lower d then refuse
         else case user_get_password_hash email_lower d of
                None \<Rightarrow> refuse
              | Some h \<Rightarrow>
                  if h = [] \<or> \<not> verify_password cr password h then refuse
                  else case user_get_by_email email_lower d of
                         None \<Rightarrow> refuse
                       | Some u \<Rightarrow>
                           if \<not> ur_is_active u then refuse
                           else (Inr (login_reply jw cfg (env_now e) u),
                                 audit_log_entry e (env_ids e 1)
                                   \<lparr>ac_tenant_id = None, ac_user_id = ur_id u, ac_action = ''auth.login'',
                                    ac_target_type = ''user'', ac_target_id = ur_id u,
                                    ac_detail = Some (JObj [(''email'', JStr email_lower)]),
                                    ac_ip_address = ip_address\<rparr>
                                   (record_login_attempt e (env_ids e 0) email_lower True ip_address d)))"

subsection \<open>TOTP\<close>

definition verify_totp_code :: "creds \<Rightarrow> time \<Rightarrow> string \<Rightarrow> string \<Rightarrow> bool" where
  "verify_totp_code cr now secret code = cr_totp cr secret (py_strip code) now"

definition BACKUP_CODE_COUNT :: nat where "BACKUP_CODE_COUNT = 8"

definition generate_plaintext_backup_codes :: "(nat \<Rightarrow> string) \<Rightarrow> string list" where
  \<comment> \<open>\<open>tok k\<close> is the \<open>k\<close>-th \<open>secrets.token_hex(4)\<close>.\<close>
  "generate_plaintext_backup_codes tok = map (\<lambda>k. py_upper (tok k)) [0..<BACKUP_CODE_COUNT]"

definition hash_backup_codes :: "creds \<Rightarrow> (nat \<Rightarrow> nat) \<Rightarrow> string list \<Rightarrow> json_text" where
  "hash_backup_codes cr salts codes =
     json_dumps (JList (map (\<lambda>(k, c). JStr (hash_password cr (salts k) (py_upper c))) (enumerate 0 codes)))"

definition users_service_missing :: error where
  "users_service_missing = AuthenticationError ''Internal error: users_service required''"

definition enable_totp ::
  "creds \<Rightarrow> time \<Rightarrow> (nat \<Rightarrow> string) \<Rightarrow> (nat \<Rightarrow> nat) \<Rightarrow> string \<Rightarrow> string \<Rightarrow> string \<Rightarrow> 'd totp_api option \<Rightarrow> 'd \<Rightarrow>
     error + (string list \<times> 'd)" where
  "enable_totp cr now tok salts user_id secret code users_service d =
     (if \<not> verify_totp_code cr now secret code
      then Inl (AuthenticationError ''Invalid TOTP code - please try again'')
      else
        (let plaintext_codes = generate_plaintext_backup_codes tok;
             hashed_json = hash_backup_codes cr salts plaintext_codes
         in case users_service of
              None \<Rightarrow> Inl users_service_missing
            | Some api \<Rightarrow>
                (case ta_set api user_id secret hashed_json d of
                   Inl x \<Rightarrow> Inl x | Inr d' \<Rightarrow> Inr (plaintext_codes, d'))))"

definition disable_totp :: "string \<Rightarrow> 'd totp_api option \<Rightarrow> 'd \<Rightarrow> error + 'd" where
  "disable_totp user_id users_service d =
     (case users_service of None \<Rightarrow> Inl users_service_missing | Some api \<Rightarrow> ta_clear api user_id d)"

text \<open>
  The loop over the stored hashes: the list without the first one that verifies.  A stored entry that is
  not a string makes passlib raise, except \<open>null\<close>, which never verifies.
\<close>

fun consume_code :: "creds \<Rightarrow> string \<Rightarrow> json list \<Rightarrow> error + json list option" where
  "consume_code cr code [] = Inr None"
| "consume_code cr code (JStr h # hs) =
     (if verify_password cr code h then Inr (Some hs)
      else case consume_code cr code hs of
             Inl x \<Rightarrow> Inl x | Inr None \<Rightarrow> Inr None | Inr (Some r) \<Rightarrow> Inr (Some (JStr h # r)))"
| "consume_code cr code (JNull # hs) =
     (case consume_code cr code hs of
        Inl x \<Rightarrow> Inl x | Inr None \<Rightarrow> Inr None | Inr (Some r) \<Rightarrow> Inr (Some (JNull # r)))"
| "consume_code cr code (_ # hs) = Inl (TypeError ''hash must be unicode or bytes'')"

definition verify_totp ::
  "creds \<Rightarrow> time \<Rightarrow> string \<Rightarrow> string \<Rightarrow> 'd totp_api option \<Rightarrow> 'd \<Rightarrow> error + (bool \<times> 'd)" where
  \<comment> \<open>The column is only written by \<open>hash_backup_codes\<close> and this function: any JSON but a list raises.\<close>
  "verify_totp cr now user_id code users_service d =
     (case users_service of
        None \<Rightarrow> Inr (False, d)
      | Some api \<Rightarrow>
          (case ta_get api user_id d of (totp_secret, totp_enabled, backup_codes) \<Rightarrow>
             if \<not> totp_enabled \<or> \<not> truthy_str totp_secret then Inr (False, d)
             else if verify_totp_code cr now (the totp_secret) code then Inr (True, d)
             else case backup_codes of
                    None \<Rightarrow> Inr (False, d)
                  | Some txt \<Rightarrow>
                      (case json_loads txt of
                         None \<Rightarrow> Inr (False, d)
                       | Some (JList hashed_list) \<Rightarrow>
                           (case consume_code cr (py_upper (py_strip code)) hashed_list of
                              Inl x \<Rightarrow> Inl x
                            | Inr None \<Rightarrow> Inr (False, d)
                            | Inr (Some rest) \<Rightarrow> Inr (True, ta_consume api user_id (json_dumps (JList rest)) d))
                       | Some _ \<Rightarrow> Inl (TypeError ''backup codes''))))"

subsection \<open>Lockout\<close>

lemma minutes_le: "a \<le> b \<Longrightarrow> minutes a \<le> minutes b"
  by (simp add: minutes_def seconds_def)

lemma recent_attempts_mem:
  "a \<in> set (recent_attempts w em d) \<longleftrightarrow> a \<in> set (login_attempts d) \<and> la_email a = py_lower em \<and> w \<le> la_attempted_at a"
  by (auto simp: recent_attempts_def)

lemma consecutive_failures_all: "(\<And>a. a \<in> set xs \<Longrightarrow> \<not> la_success a) \<Longrightarrow> consecutive_failures xs = length xs"
  by (induction xs) auto

lemma consecutive_failures_le: "consecutive_failures xs \<le> length xs"
  by (induction xs) auto

text \<open>The second clock test can never fail: the newest attempt counted lies in the window already.\<close>

lemma check_lockout_streak:
  "check_lockout now em d \<longleftrightarrow>
     MAX_FAILED_ATTEMPTS \<le> consecutive_failures (recent_attempts (now - minutes LOCKOUT_WINDOW_MINUTES) em d)"
proof -
  let ?xs = "recent_attempts (now - minutes LOCKOUT_WINDOW_MINUTES) em d"
  have "a \<in> set ?xs \<Longrightarrow> now - minutes LOCKOUT_DURATION_MINUTES \<le> la_attempted_at a" for a
    using minutes_le [of LOCKOUT_WINDOW_MINUTES LOCKOUT_DURATION_MINUTES]
    by (auto simp: recent_attempts_mem LOCKOUT_WINDOW_MINUTES_def LOCKOUT_DURATION_MINUTES_def)
  moreover have "?xs = [] \<Longrightarrow> \<not> MAX_FAILED_ATTEMPTS \<le> consecutive_failures ?xs"
    by (simp add: MAX_FAILED_ATTEMPTS_def)
  ultimately show ?thesis
    by (auto simp: check_lockout_def Let_def split: list.split)
qed

text \<open>
  Whatever happened before, an account with no login attempt in the last 15 minutes is not locked;
  the 30 minutes that the policy names have no effect.
\<close>

theorem lockout_ends_after_window:
  assumes "\<And>a. a \<in> set (login_attempts d) \<Longrightarrow> la_email a = py_lower em \<Longrightarrow>
             la_attempted_at a < now - minutes LOCKOUT_WINDOW_MINUTES"
  shows "\<not> check_lockout now em d"
proof -
  have "recent_attempts (now - minutes LOCKOUT_WINDOW_MINUTES) em d = []"
    using assms recent_attempts_mem [of _ "now - minutes LOCKOUT_WINDOW_MINUTES" em d]
    by (metis list.set_intros(1) neq_Nil_conv not_less)
  then show ?thesis by (simp add: check_lockout_streak MAX_FAILED_ATTEMPTS_def)
qed

definition norm_email :: "string \<Rightarrow> string" where
  "norm_email email = py_lower (py_strip email)"

lemma py_lower_norm [simp]: "py_lower (norm_email em) = norm_email em"
  by (simp add: norm_email_def)

definition refuse_db :: "env \<Rightarrow> string \<Rightarrow> string \<Rightarrow> db \<Rightarrow> db" where
  "refuse_db e em ip d = record_login_attempt e (env_ids e 0) (norm_email em) False ip d"

text \<open>The two ways a login ends.\<close>

definition login_accepts :: "creds \<Rightarrow> env \<Rightarrow> string \<Rightarrow> string \<Rightarrow> db \<Rightarrow> user \<Rightarrow> bool" where
  "login_accepts cr e em pw d u \<longleftrightarrow> \<not> check_lockout (env_now e) (norm_email em) d \<and>
     get_by u_email (norm_email em) (users d) = Some u \<and> u_password_hash u \<noteq> [] \<and>
     verify_password cr pw (u_password_hash u) \<and> u_is_active u"

definition accept_db :: "env \<Rightarrow> string \<Rightarrow> string \<Rightarrow> user \<Rightarrow> db \<Rightarrow> db" where
  "accept_db e em ip u d = audit_log_entry e (env_ids e 1)
     \<lparr>ac_tenant_id = None, ac_user_id = u_id u, ac_action = ''auth.login'', ac_target_type = ''user'',
      ac_target_id = u_id u, ac_detail = Some (JObj [(''email'', JStr (norm_email em))]), ac_ip_address = ip\<rparr>
     (record_login_attempt e (env_ids e 0) (norm_email em) True ip d)"

lemma login_cases:
  obtains (refused) "login cr jw cfg e em pw ip d = (Inl login_error, refuse_db e em ip d)"
      "\<And>u. \<not> login_accepts cr e em pw d u"
  | (accepted) u where "login_accepts cr e em pw d u"
      "login cr jw cfg e em pw ip d =
         (Inr (login_reply jw cfg (env_now e) (user_to_read u)), accept_db e em ip u d)"
proof (cases "\<exists>u. login_accepts cr e em pw d u")
  case True
  then obtain u where u: "login_accepts cr e em pw d u" by blast
  then show thesis
    by (intro accepted [OF u])
      (simp add: login_accepts_def login_def Let_def norm_email_def user_get_password_hash_def
        user_get_by_email_def user_repo_get_by_email_def accept_db_def)
next
  case False
  then have "login cr jw cfg e em pw ip d = (Inl login_error, refuse_db e em ip d)"
    by (auto simp: login_accepts_def login_def Let_def norm_email_def user_get_password_hash_def
        user_get_by_email_def user_repo_get_by_email_def refuse_db_def split: option.split)
  then show thesis by (rule refused) (use False in blast)
qed

lemma login_users [simp]: "users (snd (login cr jw cfg e em pw ip d)) = users d"
  by (cases rule: login_cases [of cr jw cfg e em pw ip d])
    (simp_all add: refuse_db_def accept_db_def record_login_attempt_def)

text \<open>
  C1: A login succeeds exactly when the account is not locked, the stripped lower-cased email belongs to
  an active account with a password hash, and the password verifies; the reply carries a token for
  that account, a partial one when TOTP is on.
\<close>

theorem login_success_iff:
  "fst (login cr jw cfg e em pw ip d) = Inr r \<longleftrightarrow>
     (\<exists>u. \<not> check_lockout (env_now e) (norm_email em) d \<and>
        get_by u_email (norm_email em) (users d) = Some u \<and> u_password_hash u \<noteq> [] \<and>
        verify_password cr pw (u_password_hash u) \<and> u_is_active u \<and>
        r = login_reply jw cfg (env_now e) (user_to_read u))"
proof (cases rule: login_cases [of cr jw cfg e em pw ip d])
  case refused
  then show ?thesis by (auto simp: login_accepts_def)
next
  case (accepted u)
  then show ?thesis by (auto simp: login_accepts_def)
qed

lemma recent_after_attempt:
  assumes "env_attempts_ok e" and "py_lower em = em" and "w \<le> env_now e"
  shows "set (recent_attempts w em (record_login_attempt e i em b ip d)) =
       insert \<lparr>la_id = i, la_email = em, la_success = b, la_ip_address = ip, la_attempted_at = env_now e\<rparr>
         (set (recent_attempts w em d))"
    and "length (recent_attempts w em (record_login_attempt e i em b ip d)) = Suc (length (recent_attempts w em d))"
  using assms by (auto simp: recent_attempts_def record_login_attempt_def add_row_def)

text \<open>
  Five failed attempts within 15 minutes, with no success among them, lock the account: every login is
  refused, the right password included, and the refused login leaves it locked.
\<close>

theorem login_locked_out:
  assumes "env_attempts_ok e"
    and fails: "5 \<le> length (filter (\<lambda>a. la_email a = norm_email em \<and> env_now e - minutes 15 \<le> la_attempted_at a) (login_attempts d))"
    and no_success: "\<And>a. a \<in> set (login_attempts d) \<Longrightarrow> la_email a = norm_email em \<Longrightarrow>
           env_now e - minutes 15 \<le> la_attempted_at a \<Longrightarrow> \<not> la_success a"
  shows "fst (login cr jw cfg e em pw ip d) = Inl login_error \<and>
         check_lockout (env_now e) (norm_email em) (snd (login cr jw cfg e em pw ip d))"
proof -
  let ?w = "env_now e - minutes 15" and ?em = "norm_email em"
  have w: "env_now e - minutes LOCKOUT_WINDOW_MINUTES = ?w" "?w \<le> env_now e"
    by (simp_all add: LOCKOUT_WINDOW_MINUTES_def minutes_def seconds_def)
  have len: "length (recent_attempts ?w ?em d) \<ge> 5" using fails by (simp add: recent_attempts_def)
  have ns: "\<not> la_success a" if "a \<in> set (recent_attempts ?w ?em d)" for a
    using that no_success by (simp add: recent_attempts_mem)
  have "check_lockout (env_now e) ?em d"
    using len by (simp add: check_lockout_streak w consecutive_failures_all [OF ns] MAX_FAILED_ATTEMPTS_def)
  then have refused: "login cr jw cfg e em pw ip d = (Inl login_error, refuse_db e em ip d)"
    by (cases rule: login_cases [of cr jw cfg e em pw ip d]) (auto simp: login_accepts_def)
  let ?xs = "recent_attempts ?w ?em (record_login_attempt e (env_ids e 0) ?em False ip d)"
  have "\<not> la_success a" if "a \<in> set ?xs" for a
    using that ns by (auto simp: recent_after_attempt [OF assms(1) _ w(2)])
  then have "consecutive_failures ?xs = length ?xs" by (rule consecutive_failures_all)
  then have "check_lockout (env_now e) ?em (refuse_db e em ip d)"
    using len by (simp add: check_lockout_streak w refuse_db_def MAX_FAILED_ATTEMPTS_def
        recent_after_attempt(2) [OF assms(1) _ w(2)])
  with refused show ?thesis by simp
qed

lemma streak_reset:
  assumes "s \<in> set xs" and "la_success s" and "sorted_wrt (\<lambda>x y. la_attempted_at y \<le> la_attempted_at x) xs"
    and "\<And>a. a \<in> set xs \<Longrightarrow> \<not> la_success a \<Longrightarrow> la_attempted_at a < la_attempted_at s"
  shows "consecutive_failures xs = 0"
proof (cases xs)
  case (Cons a ys)
  have "la_attempted_at s \<le> la_attempted_at a" using assms(1,3) Cons by auto
  with assms(4) [of a] Cons have "la_success a" by fastforce
  with Cons show ?thesis by simp
qed simp

text \<open>
  A successful login ends the streak of failures: when every stored attempt is older, the account is
  not locked right after it.
\<close>

theorem login_success_resets:
  assumes "env_attempts_ok e" and "\<And>a. a \<in> set (login_attempts d) \<Longrightarrow> la_attempted_at a < env_now e"
    and ok: "login cr jw cfg e em pw ip d = (Inr r, d')"
  shows "\<not> check_lockout (env_now e) (norm_email em) d'"
proof -
  let ?w = "env_now e - minutes LOCKOUT_WINDOW_MINUTES" and ?em = "norm_email em"
  have w: "?w \<le> env_now e" by (simp add: LOCKOUT_WINDOW_MINUTES_def minutes_def seconds_def)
  from ok obtain u where d': "d' = accept_db e em ip u d"
    by (cases rule: login_cases [of cr jw cfg e em pw ip d]) auto
  let ?xs = "recent_attempts ?w ?em (record_login_attempt e (env_ids e 0) ?em True ip d)"
  have "recent_attempts ?w ?em d' = ?xs"
    by (simp add: d' accept_db_def recent_attempts_def)
  moreover have "consecutive_failures ?xs = 0"
  proof (rule streak_reset)
    show "\<lparr>la_id = env_ids e 0, la_email = ?em, la_success = True, la_ip_address = ip, la_attempted_at = env_now e\<rparr> \<in> set ?xs"
      by (simp add: recent_after_attempt [OF assms(1) _ w])
    show "sorted_wrt (\<lambda>x y. la_attempted_at y \<le> la_attempted_at x) ?xs"
      by (simp add: recent_attempts_def sorted_sort_desc)
    fix a assume "a \<in> set ?xs" "\<not> la_success a"
    then show "la_attempted_at a < la_attempted_at
        \<lparr>la_id = env_ids e 0, la_email = ?em, la_success = True, la_ip_address = ip, la_attempted_at = env_now e\<rparr>"
      using assms(2) by (auto simp: recent_after_attempt [OF assms(1) _ w] recent_attempts_mem)
  qed simp
  ultimately show ?thesis by (simp add: check_lockout_streak MAX_FAILED_ATTEMPTS_def)
qed

subsection \<open>Backup codes\<close>

lemma consume_code_length: "consume_code cr c hs = Inr (Some rest) \<Longrightarrow> length hs = Suc (length rest)"
  by (induction cr c hs arbitrary: rest rule: consume_code.induct)
    (auto split: if_splits sum.splits option.splits)

fun drop_first :: "('a \<Rightarrow> bool) \<Rightarrow> 'a list \<Rightarrow> 'a list option" where
  "drop_first P [] = None"
| "drop_first P (x # xs) = (if P x then Some xs else map_option ((#) x) (drop_first P xs))"

lemma drop_first_map: "drop_first P (map f xs) = map_option (map f) (drop_first (P \<circ> f) xs)"
  by (induction xs) (auto simp: option.map_comp comp_def)

lemma drop_first_None: "drop_first P xs = None \<longleftrightarrow> (\<forall>x \<in> set xs. \<not> P x)"
  by (induction xs) auto

lemma drop_first_cong: "(\<And>x. x \<in> set xs \<Longrightarrow> P x = Q x) \<Longrightarrow> drop_first P xs = drop_first Q xs"
  by (induction xs) auto

lemma drop_first_remove1:
  "c \<in> snd ` set ys \<Longrightarrow> \<exists>zs. drop_first (\<lambda>p. snd p = c) ys = Some zs \<and> map snd zs = remove1 c (map snd ys)"
  by (induction ys) force+

lemma consume_code_strs:
  "consume_code cr c (map JStr hs) = Inr (map_option (map JStr) (drop_first (verify_password cr c) hs))"
  by (induction hs) (auto split: option.split)

definition codes_left :: "totp_fields \<Rightarrow> nat" where
  "codes_left f = (case snd (snd f) of
     Some txt \<Rightarrow> (case json_loads txt of Some (JList hs) \<Rightarrow> length hs | _ \<Rightarrow> 0) | None \<Rightarrow> 0)"

text \<open>The hashes of codes paired with their salts.\<close>

definition salted :: "creds \<Rightarrow> (nat \<times> string) list \<Rightarrow> string list" where
  "salted cr ys = map (\<lambda>(n, q). hash_password cr n q) ys"

context totp_store begin

lemma verify_backup_decreases:
  assumes "verify_totp cr now i code (Some api) d = Inr (True, d')"
    and "\<not> verify_totp_code cr now (the (fst (ta_get api i d))) code"
  shows "Suc (codes_left (ta_get api i d')) = codes_left (ta_get api i d) \<and>
         (\<forall>j. j \<noteq> i \<longrightarrow> ta_get api j d' = ta_get api j d)"
proof -
  obtain s b c where f: "ta_get api i d = (s, b, c)" by (cases "ta_get api i d") auto
  from assms f obtain t hs rest where b: "b" and c: "c = Some t" "json_loads t = Some (JList hs)"
    and rest: "consume_code cr (py_upper (py_strip code)) hs = Inr (Some rest)"
    and d': "d' = ta_consume api i (json_dumps (JList rest)) d"
    by (auto simp: verify_totp_def split: if_splits option.splits json.splits sum.splits)
  have "length hs = Suc (length rest)" using rest by (rule consume_code_length)
  moreover have "known i d" using enabled_known [of i d] f b by simp
  ultimately show ?thesis by (auto simp: d' get_consume codes_left_def f c)
qed

definition holds_codes :: "creds \<Rightarrow> string \<Rightarrow> string \<Rightarrow> (nat \<times> string) list \<Rightarrow> 'd \<Rightarrow> bool" where
  "holds_codes cr i s ys d \<longleftrightarrow>
     ta_get api i d = (Some s, True, Some (JText (JList (map JStr (salted cr ys)))))"

lemma verify_stored:
  assumes "holds_codes cr i s ys d" and "hash_exact cr" and "s \<noteq> []"
    and "\<not> verify_totp_code cr now s code" and "c = py_upper (py_strip code)"
    and "length c \<le> 72" and "\<And>q. q \<in> snd ` set ys \<Longrightarrow> length q \<le> 72"
  shows "if c \<in> snd ` set ys
         then \<exists>d' zs. verify_totp cr now i code (Some api) d = Inr (True, d') \<and> holds_codes cr i s zs d' \<and>
                map snd zs = remove1 c (map snd ys)
         else verify_totp cr now i code (Some api) d = Inr (False, d)"
proof -
  let ?h = "\<lambda>(n, q). hash_password cr n q"
  have eq: "drop_first (verify_password cr c) (salted cr ys) = map_option (salted cr) (drop_first (\<lambda>p. snd p = c) ys)"
    unfolding drop_first_map salted_def
    by (rule arg_cong [where f = "map_option (map ?h)"], rule drop_first_cong)
      (use assms in \<open>force simp: hash_exactD\<close>)
  have known: "known i d" using assms(1) enabled_known [of i d] by (simp add: holds_codes_def)
  show ?thesis
  proof (cases "c \<in> snd ` set ys")
    case True
    from drop_first_remove1 [OF this] obtain zs where
      zs: "drop_first (\<lambda>p. snd p = c) ys = Some zs" "map snd zs = remove1 c (map snd ys)" by blast
    let ?d = "ta_consume api i (JText (JList (map JStr (salted cr zs)))) d"
    have "verify_totp cr now i code (Some api) d = Inr (True, ?d)"
      using assms(1,3,4,5) eq zs
      by (simp add: holds_codes_def verify_totp_def truthy_str_def consume_code_strs json_dumps_def)
    moreover have "holds_codes cr i s zs ?d" using assms(1) known by (simp add: holds_codes_def get_consume)
    ultimately show ?thesis using True zs(2) by auto
  next
    case False
    then have "drop_first (\<lambda>p. snd p = c) ys = None" by (auto simp: drop_first_None)
    with False assms(1,3,4,5) eq show ?thesis
      by (simp add: holds_codes_def verify_totp_def truthy_str_def consume_code_strs)
  qed
qed

end

lemma length_upper [simp]: "length (py_upper s) = length s"
  by (simp add: py_upper_def)

lemma is_space_upper [simp]: "is_space (upper_char c) = is_space c"
  by (cases "97 \<le> code_of c \<and> code_of c \<le> 122")
    (auto simp: is_space_def upper_char_def code_of_char_of)

lemma upper_char_idem [simp]: "upper_char (upper_char c) = upper_char c"
  by (cases "97 \<le> code_of c \<and> code_of c \<le> 122") (auto simp: upper_char_def code_of_char_of)

lemma py_upper_idem [simp]: "py_upper (py_upper s) = py_upper s"
  by (simp add: py_upper_def)

definition token_hex_ok :: "(nat \<Rightarrow> string) \<Rightarrow> bool" where
  \<comment> \<open>\<open>secrets.token_hex(4)\<close>: eight characters, none of them blank.\<close>
  "token_hex_ok tok \<longleftrightarrow> (\<forall>k. length (tok k) = 8 \<and> (\<forall>c \<in> set (tok k). \<not> is_space c))"

lemma backup_code_shape:
  assumes "token_hex_ok tok" and "c \<in> set (generate_plaintext_backup_codes tok)"
  shows "py_upper (py_strip c) = c" "py_upper c = c" "length c = 8"
proof -
  obtain k where c: "c = py_upper (tok k)" using assms(2) by (auto simp: generate_plaintext_backup_codes_def)
  then show "py_upper c = c" "length c = 8" using assms(1) by (simp_all add: token_hex_ok_def)
  have "\<forall>x \<in> set c. \<not> is_space x" using assms(1) c by (auto simp: token_hex_ok_def py_upper_def)
  then show "py_upper (py_strip c) = c" using c by (simp add: py_strip_def strip_id_none)
qed

text \<open>
  Whatever is stored, a code that is accepted without being the current TOTP code uses up exactly one
  stored backup code of that user and changes no other user's second factor.
\<close>

theorem backup_code_consumed:
  assumes "verify_totp cr now i code (Some (users_totp_api e)) d = Inr (True, d')"
    and "\<not> verify_totp_code cr now (the (fst (user_get_totp_fields i d))) code"
  shows "Suc (codes_left (user_get_totp_fields i d')) = codes_left (user_get_totp_fields i d) \<and>
         (\<forall>j. j \<noteq> i \<longrightarrow> user_get_totp_fields j d' = user_get_totp_fields j d)"
  using users_totp.verify_backup_decreases [OF assms(1)] assms(2) by (simp add: users_totp_api_def)

lemma enable_holds:
  assumes "enable_totp cr now tok salts i s code (Some (users_totp_api e)) d = Inr (codes, d1)" and "token_hex_ok tok"
  shows "users_totp.holds_codes e cr i s (map (\<lambda>(k, c). (salts k, c)) (enumerate 0 codes)) d1 \<and>
         codes = generate_plaintext_backup_codes tok \<and> verify_totp_code cr now s code"
proof -
  from assms(1) have codes: "codes = generate_plaintext_backup_codes tok" "verify_totp_code cr now s code"
    and set: "ta_set (users_totp_api e) i s (hash_backup_codes cr salts codes) d = Inr d1"
    by (auto simp: enable_totp_def Let_def split: if_splits sum.splits)
  have "py_upper c = c" if "(k, c) \<in> set (enumerate 0 codes)" for k c
  proof -
    from that have "c \<in> set codes" by (auto simp: in_set_enumerate_eq)
    then show ?thesis using backup_code_shape(2) [OF assms(2)] codes(1) by simp
  qed
  then have "map (\<lambda>(k, c). JStr (hash_password cr (salts k) (py_upper c))) (enumerate 0 codes) =
        map JStr (salted cr (map (\<lambda>(k, c). (salts k, c)) (enumerate 0 codes)))"
    by (auto simp: salted_def)
  with codes set show ?thesis
    by (simp add: users_totp.holds_codes_def users_totp.get_set [OF set] hash_backup_codes_def json_dumps_def)
qed

lemma snd_salted_pairs: "map snd (map (\<lambda>(k, c). (salts k, c)) (enumerate 0 codes)) = codes"
proof -
  have "snd \<circ> (\<lambda>(k, c). (salts k, c)) = (snd :: nat \<times> 'a \<Rightarrow> 'a)" by (auto simp: fun_eq_iff)
  then show ?thesis by simp
qed

text \<open>
  C11: After enrolment every backup code handed out is accepted once and refused the second time, and the
  others still work (for distinct codes that do not happen to be the current TOTP code).
\<close>

theorem backup_code_single_use:
  assumes "hash_exact cr" and "token_hex_ok tok" and "distinct codes" and "s \<noteq> []"
    and enable: "enable_totp cr now tok salts i s code (Some (users_totp_api e)) d = Inr (codes, d1)"
    and "c \<in> set codes" and "c' \<in> set codes" and "c' \<noteq> c"
    and "\<not> verify_totp_code cr now' s c" and "\<not> verify_totp_code cr now' s c'"
  shows "\<exists>d2 d3. verify_totp cr now' i c (Some (users_totp_api e)) d1 = Inr (True, d2) \<and>
     verify_totp cr now' i c (Some (users_totp_api e)) d2 = Inr (False, d2) \<and>
     verify_totp cr now' i c' (Some (users_totp_api e)) d2 = Inr (True, d3)"
proof -
  let ?ys = "map (\<lambda>(k, c). (salts k, c)) (enumerate 0 codes)"
  from enable_holds [OF enable assms(2)] have h: "users_totp.holds_codes e cr i s ?ys d1"
    and codes: "codes = generate_plaintext_backup_codes tok" by auto
  have shape: "py_upper (py_strip x) = x" "length x \<le> 72" if "x \<in> set codes" for x
    using backup_code_shape [OF assms(2), of x] that codes by auto
  have ys: "snd ` set ?ys = set codes" using snd_salted_pairs [of salts codes] by (metis set_map)
  from users_totp.verify_stored [OF h assms(1) \<open>s \<noteq> []\<close> assms(9), of c] obtain d2 zs where
    d2: "verify_totp cr now' i c (Some (users_totp_api e)) d1 = Inr (True, d2)"
    "users_totp.holds_codes e cr i s zs d2" "map snd zs = remove1 c (map snd ?ys)"
    using shape \<open>c \<in> set codes\<close> unfolding ys by auto
  have zs: "snd ` set zs = set codes - {c}"
    using d2(3) \<open>distinct codes\<close> unfolding snd_salted_pairs by (metis set_map set_remove1_eq)
  have "verify_totp cr now' i c (Some (users_totp_api e)) d2 = Inr (False, d2)"
    using users_totp.verify_stored [OF d2(2) assms(1) \<open>s \<noteq> []\<close> assms(9), of c] shape \<open>c \<in> set codes\<close>
    unfolding zs by auto
  moreover obtain d3 where "verify_totp cr now' i c' (Some (users_totp_api e)) d2 = Inr (True, d3)"
    using users_totp.verify_stored [OF d2(2) assms(1) \<open>s \<noteq> []\<close> assms(10), of c'] shape \<open>c' \<in> set codes\<close> \<open>c' \<noteq> c\<close>
    unfolding zs by auto
  ultimately show ?thesis using d2(1) by blast
qed

subsection \<open>Refresh tokens\<close>

lemma find_append: "find P (xs @ ys) = (case find P xs of None \<Rightarrow> find P ys | Some x \<Rightarrow> Some x)"
  by (induction xs) auto


subsection \<open>Concrete instances\<close>

definition round_claim :: "string \<Rightarrow> json \<Rightarrow> json" where
  "round_claim k v = (if k = ''iat'' then (case v of JInt t \<Rightarrow> JInt (to_second t) | _ \<Rightarrow> v) else v)"

definition demo_jwt :: jwt_api where
  \<comment> \<open>A token spells out its payload, in unary.\<close>
  "demo_jwt = \<lparr>jw_encode = (\<lambda>p. replicate (to_nat p) (CHR ''x'')),
     jw_decode = (\<lambda>now s. let p = from_nat (length s) in
       if (case map_of p ''exp'' of Some (JInt x) \<Rightarrow> to_second now \<le> to_second x | _ \<Rightarrow> True)
       then Inr (map (\<lambda>(k, v). (k, round_claim k v)) p)
       else Inl ''Signature has expired.'')\<rparr>"

lemma map_of_map_key: "map_of (map (\<lambda>(k, v). (k, f k v)) p) k = map_option (f k) (map_of p k)"
  by (induction p) auto

lemma demo_jwt_ok: "jwt_ok demo_jwt"
  unfolding jwt_ok_def
proof (intro allI impI)
  fix p :: payload and now x
  assume x: "map_of p ''exp'' = Some (JInt x)"
  have iat: "map_option (round_claim ''iat'') v = (case v of Some (JInt t) \<Rightarrow> Some (JInt (to_second t)) | v \<Rightarrow> v)" for v
    by (auto simp: round_claim_def split: option.split json.split)
  have other: "k \<noteq> ''iat'' \<Longrightarrow> map_option (round_claim k) v = v" for k v
    by (cases v) (simp_all add: round_claim_def)
  have dec: "jw_decode demo_jwt now (jw_encode demo_jwt p) =
      (if to_second now \<le> to_second x then Inr (map (\<lambda>(k, v). (k, round_claim k v)) p) else Inl ''Signature has expired.'')"
    using x by (simp add: demo_jwt_def)
  show "if to_second now \<le> to_second x
      then \<exists>q. jw_decode demo_jwt now (jw_encode demo_jwt p) = Inr q \<and>
        (\<forall>k. k \<noteq> ''exp'' \<and> k \<noteq> ''iat'' \<longrightarrow> map_of q k = map_of p k) \<and>
        map_of q ''iat'' = (case map_of p ''iat'' of Some (JInt t) \<Rightarrow> Some (JInt (to_second t)) | v \<Rightarrow> v)
      else \<exists>m. jw_decode demo_jwt now (jw_encode demo_jwt p) = Inl m"
    unfolding dec by (simp add: map_of_map_key iat other)
qed

definition demo_cfg :: auth_cfg where
  "demo_cfg = \<lparr>jwt_access_token_expire_minutes = 30, jwt_refresh_token_expire_days = 7\<rparr>"

definition demo_attempt :: "string \<Rightarrow> bool \<Rightarrow> time \<Rightarrow> login_attempt" where
  "demo_attempt i b t = \<lparr>la_id = i, la_email = ''a@x'', la_success = b, la_ip_address = ''::1'', la_attempted_at = t\<rparr>"

definition demo_failures_db :: db where
  "demo_failures_db = demo_users_db\<lparr>login_attempts :=
     [demo_attempt ''l1'' False 1, demo_attempt ''l2'' False 2, demo_attempt ''l3'' False 3,
      demo_attempt ''l4'' False 4, demo_attempt ''l5'' False 5]\<rparr>"

lemma demo_norm: "norm_email '' A@x '' = ''a@x''"
  by code_simp

theorem login_locked_out_witness:
  "fst (login demo_creds demo_jwt demo_cfg demo_env '' A@x '' ''pw'' ''::1'' demo_failures_db) = Inl login_error \<and>
   check_lockout (env_now demo_env) (norm_email '' A@x '')
     (snd (login demo_creds demo_jwt demo_cfg demo_env '' A@x '' ''pw'' ''::1'' demo_failures_db))"
  by (rule login_locked_out)
    (auto simp: demo_norm demo_failures_db_def demo_attempt_def demo_env_def minutes_def seconds_def)

theorem lockout_ends_after_window_witness:
  "\<not> check_lockout (minutes 16) ''A@x'' demo_failures_db"
proof (rule lockout_ends_after_window)
  fix a assume "a \<in> set (login_attempts demo_failures_db)"
  then show "la_attempted_at a < minutes 16 - minutes LOCKOUT_WINDOW_MINUTES"
    by (auto simp: demo_failures_db_def demo_attempt_def minutes_def seconds_def LOCKOUT_WINDOW_MINUTES_def)
qed

definition demo_login_db :: db where
  "demo_login_db = demo_users_db\<lparr>login_attempts := [demo_attempt ''l1'' False 1]\<rparr>"

lemma demo_login_accepts: "login_accepts demo_creds demo_env '' A@x '' ''pw'' demo_login_db (demo_user ''u1'' ''a@x'')"
  by (simp add: login_accepts_def demo_norm check_lockout_streak recent_attempts_def sort_desc_def
      MAX_FAILED_ATTEMPTS_def LOCKOUT_WINDOW_MINUTES_def minutes_def seconds_def demo_login_db_def demo_attempt_def
      demo_users_simps new_user_def)

theorem login_success_resets_witness:
  "\<exists>r d'. login demo_creds demo_jwt demo_cfg demo_env '' A@x '' ''pw'' ''::1'' demo_login_db = (Inr r, d') \<and>
     \<not> check_lockout (env_now demo_env) (norm_email '' A@x '') d'"
proof -
  obtain r d' where run: "login demo_creds demo_jwt demo_cfg demo_env '' A@x '' ''pw'' ''::1'' demo_login_db = (Inr r, d')"
    using demo_login_accepts
    by (cases rule: login_cases [of demo_creds demo_jwt demo_cfg demo_env "'' A@x ''" "''pw''" "''::1''" demo_login_db]) auto
  have "\<not> check_lockout (env_now demo_env) (norm_email '' A@x '') d'"
    by (rule login_success_resets [OF _ _ run])
      (auto simp: demo_login_db_def demo_attempt_def demo_env_def)
  with run show ?thesis by blast
qed

definition demo_toks :: "string list" where
  "demo_toks = [''ab12cda0'', ''ab12cdb0'', ''ab12cdc0'', ''ab12cdd0'', ''ab12cde0'', ''ab12cdf0'', ''ab12cd00'', ''ab12cd10'']"

definition demo_tok :: "nat \<Rightarrow> string" where
  "demo_tok k = (if k < length demo_toks then demo_toks ! k else ''ab12cda0'')"

definition demo_codes :: "string list" where
  "demo_codes = [''AB12CDA0'', ''AB12CDB0'', ''AB12CDC0'', ''AB12CDD0'', ''AB12CDE0'', ''AB12CDF0'', ''AB12CD00'', ''AB12CD10'']"

lemma demo_codes: "generate_plaintext_backup_codes demo_tok = demo_codes"
  by code_simp

lemma demo_tok_ok: "token_hex_ok demo_tok"
proof -
  have toks: "list_all (\<lambda>t. length t = 8 \<and> list_all (\<lambda>c. \<not> is_space c) t) demo_toks" by code_simp
  have "demo_tok k \<in> set demo_toks" for k
  proof (cases "k < length demo_toks")
    case False
    then show ?thesis by (simp add: demo_tok_def) (simp add: demo_toks_def)
  qed (simp add: demo_tok_def)
  with toks show ?thesis by (auto simp: token_hex_ok_def list_all_iff)
qed

lemma demo_codes_short: "\<forall>q \<in> set demo_codes. length q \<le> 72"
  by code_simp

lemma demo_exact: "hash_exact demo_creds"
  by (auto simp: hash_exact_def demo_creds_def)

lemma demo_enable:
  obtains d1 where "enable_totp demo_creds 5 demo_tok id ''u1'' ''123456'' ''123456''
     (Some (users_totp_api demo_env)) demo_users_db = Inr (demo_codes, d1)"
proof -
  have "verify_totp_code demo_creds 5 ''123456'' ''123456''" by code_simp
  moreover have "user_known ''u1'' demo_users_db" by (simp add: user_known_def user_repo_get_by_id_def demo_u1)
  ultimately show thesis
    using users_totp.set_known [of "''u1''" demo_users_db demo_env "''123456''" "hash_backup_codes demo_creds id demo_codes"] that
    by (auto simp: enable_totp_def demo_codes)
qed

theorem backup_code_single_use_witness:
  "\<exists>d1 d2 d3. verify_totp demo_creds 9 ''u1'' ''AB12CDC0'' (Some (users_totp_api demo_env)) d1 = Inr (True, d2) \<and>
     verify_totp demo_creds 9 ''u1'' ''AB12CDC0'' (Some (users_totp_api demo_env)) d2 = Inr (False, d2) \<and>
     verify_totp demo_creds 9 ''u1'' ''AB12CDA0'' (Some (users_totp_api demo_env)) d2 = Inr (True, d3)"
proof -
  obtain d1 where "enable_totp demo_creds 5 demo_tok id ''u1'' ''123456'' ''123456''
     (Some (users_totp_api demo_env)) demo_users_db = Inr (demo_codes, d1)" by (rule demo_enable)
  note en = this
  have "\<not> verify_totp_code demo_creds 9 ''123456'' ''AB12CDC0''" "\<not> verify_totp_code demo_creds 9 ''123456'' ''AB12CDA0''"
    by code_simp+
  then show ?thesis
    using backup_code_single_use [OF demo_exact demo_tok_ok _ _ en, of "''AB12CDC0''" "''AB12CDA0''" 9]
    by (auto simp: demo_codes_def)
qed

theorem backup_code_consumed_witness:
  "\<exists>d1 d2. verify_totp demo_creds 9 ''u1'' ''AB12CDC0'' (Some (users_totp_api demo_env)) d1 = Inr (True, d2) \<and>
     Suc (codes_left (user_get_totp_fields ''u1'' d2)) = codes_left (user_get_totp_fields ''u1'' d1)"
proof -
  obtain d1 where en: "enable_totp demo_creds 5 demo_tok id ''u1'' ''123456'' ''123456''
     (Some (users_totp_api demo_env)) demo_users_db = Inr (demo_codes, d1)" by (rule demo_enable)
  have n: "\<not> verify_totp_code demo_creds 9 ''123456'' ''AB12CDC0''" by code_simp
  from enable_holds [OF en demo_tok_ok] have h: "users_totp.holds_codes demo_env demo_creds ''u1'' ''123456''
      (map (\<lambda>(k, c). (id k, c)) (enumerate 0 demo_codes)) d1" by simp
  have c: "''AB12CDC0'' = py_upper (py_strip ''AB12CDC0'')" by code_simp
  obtain d2 where d2: "verify_totp demo_creds 9 ''u1'' ''AB12CDC0'' (Some (users_totp_api demo_env)) d1 = Inr (True, d2)"
    using users_totp.verify_stored [OF h demo_exact _ n c] demo_codes_short snd_salted_pairs [of id demo_codes]
    by (simp add: demo_codes_def) blast
  have "the (fst (user_get_totp_fields ''u1'' d1)) = ''123456''"
    using h unfolding users_totp.holds_codes_def by (simp add: users_totp_api_def)
  then have "Suc (codes_left (user_get_totp_fields ''u1'' d2)) = codes_left (user_get_totp_fields ''u1'' d1)"
    using backup_code_consumed [OF d2] n by simp
  with d2 show ?thesis by blast
qed


end
