(* ===== verification/SettingsSvc.thy ===== *)
theory SettingsSvc
  imports Users
begin

section \<open>Settings: a three-tier key/value store\<close>

text \<open>
  \<open>services/settings\<close>.  A tier is a pydantic model (\<open>GlobalSettings\<close>, \<open>TenantSettings\<close>,
  \<open>UserSettings\<close>): the list of its fields with type, constraints and default.  Converting a JSON value
  to a declared type is pydantic's (parameter \<open>coerce\<close>); the documented behaviour used is \<open>coerce_ok\<close>:
  a converted value has the declared type, and a value of that type converts to itself.  A tier is
  stored one row per field, under \<open>(scope, scope_id, key)\<close>.
\<close>

datatype ftype = TInt | TOptInt | TStr | TOptStr | TBool | TStrList | TEndpoint

datatype constr = Free | Range int int | MaxLen nat | OneOf "string list"

record field_spec =
  fs_name :: string
  fs_type :: ftype
  fs_constr :: constr
  fs_default :: json

definition fld :: "string \<Rightarrow> ftype \<Rightarrow> constr \<Rightarrow> json \<Rightarrow> field_spec" where
  "fld n t c d = \<lparr>fs_name = n, fs_type = t, fs_constr = c, fs_default = d\<rparr>"

type_synonym dict = "(string \<times> json) list"

definition endpoint_setting :: "string \<Rightarrow> string \<Rightarrow> bool \<Rightarrow> int \<Rightarrow> int \<Rightarrow> string \<Rightarrow> json" where
  \<comment> \<open>\<open>AIEndpointSetting(...)\<close> dumped, with its empty \<open>api_key\<close>.\<close>
  "endpoint_setting url model enabled context_window priority notes =
     JObj [(''url'', JStr url), (''model'', JStr model), (''api_key'', JStr ''''), (''enabled'', JBool enabled),
           (''context_window'', JInt context_window), (''priority'', JInt priority), (''notes'', JStr notes)]"

definition GlobalSettings :: "field_spec list" where
  "GlobalSettings =
    [fld ''auth_providers'' TStrList Free (JList [JStr ''local'']),
     fld ''session_timeout_minutes'' TInt (Range 5 1440) (JInt 15),
     fld ''password_min_length'' TInt (Range 6 128) (JInt 8),
     fld ''require_totp'' TBool Free (JBool True),
     fld ''retention_days_default'' TInt (Range 1 3650) (JInt 90),
     fld ''branding_app_name'' TStr (MaxLen 80) (JStr ''MyApp''),
     fld ''smtp_host'' TOptStr Free JNull,
     fld ''smtp_port'' TOptInt (Range 1 65535) JNull,
     fld ''smtp_from'' TOptStr Free JNull,
     fld ''smtp_password'' TOptStr Free JNull,
     fld ''ai_default_provider'' TStr Free (JStr ''claude_cli''),
     fld ''ai_fallback_chain'' TStrList Free (JList [JStr ''dgx'', JStr ''ollama'', JStr ''claude_cli'']),
     fld ''ai_endpoint_ollama'' TEndpoint Free (endpoint_setting ''http://192.168.150.210:11434'' ''qwen2.5:7b''
       True 32768 20 ''Local Ollama on CT 114 (GPU passthrough).''),
     fld ''ai_endpoint_dgx'' TEndpoint Free (endpoint_setting ''http://192.168.150.111:11434'' ''qwen3.5:35b-a3b''
       True 131072 10 ''DGX Spark on homelab.''),
     fld ''ai_endpoint_claude_cli'' TEndpoint Free (endpoint_setting '''' ''opus''
       True 200000 30 ''Uses host Claude Code auth. No API key needed.''),
     fld ''ai_endpoint_claude_api'' TEndpoint Free (endpoint_setting '''' ''claude-sonnet-4-6''
       False 200000 40 ''Anthropic SDK direct. Needs API key or Claude Code OAuth token.''),
     fld ''ai_endpoint_openai'' TEndpoint Free (endpoint_setting ''https://api.openai.com/v1'' ''gpt-4o''
       False 128000 50 ''OpenAI API. Needs OPENAI_API_KEY.''),
     fld ''ai_endpoint_azure_openai'' TEndpoint Free (endpoint_setting '''' ''''
       False 128000 50 ''Azure OpenAI Service. Needs endpoint + key.'')]"

definition TenantSettings :: "field_spec list" where
  "TenantSettings =
    [fld ''retention_days_override'' TOptInt (Range 1 3650) JNull,
     fld ''retention_days'' TOptInt (Range 1 3650) JNull,
     fld ''notification_email'' TOptStr Free JNull,
     fld ''custom_field_1'' TOptStr Free JNull,
     fld ''custom_field_2'' TOptStr Free JNull]"

definition UserSettings :: "field_spec list" where
  "UserSettings =
    [fld ''theme'' TStr (OneOf [''dark'', ''light'', ''system'']) (JStr ''system''),
     fld ''timezone'' TStr Free (JStr ''UTC''),
     fld ''default_tenant'' TOptStr Free JNull,
     fld ''page_size'' TInt (Range 10 200) (JInt 25),
     fld ''notifications_enabled'' TBool Free (JBool True)]"

subsection \<open>Validation\<close>

type_synonym coercion = "ftype \<Rightarrow> json \<Rightarrow> json option"

fun constr_ok :: "constr \<Rightarrow> json \<Rightarrow> bool" where
  "constr_ok (Range lo hi) (JInt i) \<longleftrightarrow> lo \<le> i \<and> i \<le> hi"
| "constr_ok (MaxLen n) (JStr s) \<longleftrightarrow> length s \<le> n"
| "constr_ok (OneOf ss) (JStr s) \<longleftrightarrow> s \<in> set ss"
| "constr_ok _ _ \<longleftrightarrow> True"

definition validate_field :: "coercion \<Rightarrow> dict \<Rightarrow> field_spec \<Rightarrow> json option" where
  "validate_field coerce data f =
     (case map_of data (fs_name f) of
        None \<Rightarrow> Some (fs_default f)
      | Some v \<Rightarrow>
          (case coerce (fs_type f) v of
             None \<Rightarrow> None | Some w \<Rightarrow> if constr_ok (fs_constr f) w then Some w else None))"

fun validate :: "coercion \<Rightarrow> field_spec list \<Rightarrow> dict \<Rightarrow> error + dict" where
  \<comment> \<open>\<open>Model( **data)\<close> dumped again: unknown keys are dropped, missing ones take the default.\<close>
  "validate coerce [] data = Inr []"
| "validate coerce (f # fs) data =
     (case validate_field coerce data f of
        None \<Rightarrow> Inl (ValueError ''validation error'')
      | Some v \<Rightarrow>
          (case validate coerce fs data of
             Inl x \<Rightarrow> Inl x | Inr m \<Rightarrow> Inr ((fs_name f, v) # m)))"

definition defaults :: "field_spec list \<Rightarrow> dict" where
  "defaults fs = map (\<lambda>f. (fs_name f, fs_default f)) fs"

subsection \<open>Repository\<close>

definition se_unique_key :: "setting \<Rightarrow> string \<times> string option \<times> string" where
  "se_unique_key s = (se_scope s, se_scope_id s, se_key s)"

definition settings_get :: "string \<Rightarrow> string option \<Rightarrow> string \<Rightarrow> db \<Rightarrow> setting option" where
  "settings_get scope scope_id k d = get_by se_unique_key (scope, scope_id, k) (settings d)"

definition settings_upsert ::
  "env \<Rightarrow> string \<Rightarrow> string \<Rightarrow> string option \<Rightarrow> string \<Rightarrow> json_text \<Rightarrow> string option \<Rightarrow> db \<Rightarrow> db" where
  "settings_upsert e i scope scope_id k value_json updated_by d =
     (if settings_get scope scope_id k d \<noteq> None
      then d\<lparr>settings := update_by se_unique_key (scope, scope_id, k)
              (touched (touch_setting (env_now e)) (\<lambda>s. s\<lparr>se_value_json := value_json, se_updated_by := updated_by\<rparr>))
              (settings d)\<rparr>
      else d\<lparr>settings := add_row \<lparr>se_id = i, se_scope = scope, se_scope_id = scope_id, se_key = k,
              se_value_json = value_json, se_updated_by = updated_by, se_created_at = env_now e,
              se_updated_at = env_now e\<rparr> (settings d)\<rparr>)"

definition settings_list_by_scope :: "string \<Rightarrow> string option \<Rightarrow> db \<Rightarrow> setting list" where
  "settings_list_by_scope scope scope_id d =
     filter (\<lambda>s. se_scope s = scope \<and> se_scope_id s = scope_id) (settings d)"

definition settings_delete :: "string \<Rightarrow> string option \<Rightarrow> string \<Rightarrow> db \<Rightarrow> db" where
  "settings_delete scope scope_id k d =
     (if settings_get scope scope_id k d \<noteq> None
      then d\<lparr>settings := delete_by se_unique_key (scope, scope_id, k) (settings d)\<rparr> else d)"

subsection \<open>Service\<close>

fun loads_rows :: "setting list \<Rightarrow> dict \<Rightarrow> error + dict" where
  \<comment> \<open>\<open>{r.key: json.loads(r.value_json) for r in rows}\<close>.\<close>
  "loads_rows [] acc = Inr acc"
| "loads_rows (r # rs) acc =
     (case json_loads (se_value_json r) of
        None \<Rightarrow> Inl (ValueError ''JSONDecodeError'')
      | Some v \<Rightarrow> loads_rows rs (dict_set (se_key r) v acc))"

definition read_tier :: "coercion \<Rightarrow> field_spec list \<Rightarrow> string \<Rightarrow> string option \<Rightarrow> db \<Rightarrow> error + dict" where
  "read_tier coerce fs scope scope_id d =
     (case loads_rows (settings_list_by_scope scope scope_id d) [] of
        Inl x \<Rightarrow> Inl x | Inr stored \<Rightarrow> validate coerce fs stored)"

fun write_tier ::
  "env \<Rightarrow> nat \<Rightarrow> string \<Rightarrow> string option \<Rightarrow> string \<Rightarrow> dict \<Rightarrow> db \<Rightarrow> db" where
  "write_tier e n scope scope_id by [] d = d"
| "write_tier e n scope scope_id by ((k, v) # m) d =
     write_tier e (Suc n) scope scope_id by m
       (settings_upsert e (env_ids e n) scope scope_id k (json_dumps v) (Some by) d)"

definition SMTP_PASSWORD_MASKED :: string where "SMTP_PASSWORD_MASKED = ''*****''"

definition truthy_json :: "json option \<Rightarrow> bool" where
  "truthy_json v = (case v of None \<Rightarrow> False | Some JNull \<Rightarrow> False | Some (JBool b) \<Rightarrow> b
     | Some (JInt i) \<Rightarrow> i \<noteq> 0 | Some (JStr s) \<Rightarrow> s \<noteq> [] | Some (JList l) \<Rightarrow> l \<noteq> [] | Some (JObj m) \<Rightarrow> m \<noteq> [])"

definition mask_smtp :: "dict \<Rightarrow> dict" where
  "mask_smtp m = (if truthy_json (map_of m ''smtp_password'')
                  then dict_set ''smtp_password'' (JStr SMTP_PASSWORD_MASKED) m else m)"

definition get_global :: "coercion \<Rightarrow> db \<Rightarrow> error + dict" where
  "get_global coerce d =
     (case read_tier coerce GlobalSettings ''global'' None d of
        Inl x \<Rightarrow> Inl x | Inr m \<Rightarrow> Inr (mask_smtp m))"

definition incoming_global :: "dict \<Rightarrow> dict" where
  "incoming_global data =
     (let smtp_pw = map_of data ''smtp_password''
      in if smtp_pw = None \<or> smtp_pw = Some JNull \<or> smtp_pw = Some (JStr SMTP_PASSWORD_MASKED) \<or> smtp_pw = Some (JStr '''')
         then dict_pop ''smtp_password'' data else data)"

definition set_global :: "coercion \<Rightarrow> env \<Rightarrow> dict \<Rightarrow> string \<Rightarrow> db \<Rightarrow> error + (dict \<times> db)" where
  "set_global coerce e data user_id d =
     (let incoming = incoming_global data
      in case get_global coerce d of
           Inl x \<Rightarrow> Inl x
         | Inr current_dict \<Rightarrow>
             (case (case settings_get ''global'' None ''smtp_password'' d of
                      None \<Rightarrow> Some JNull | Some row \<Rightarrow> json_loads (se_value_json row)) of
                None \<Rightarrow> Inl (ValueError ''JSONDecodeError'')
              | Some real_smtp_password \<Rightarrow>
                  (let merged = dict_update (dict_set ''smtp_password'' real_smtp_password current_dict) incoming
                   in case validate coerce GlobalSettings merged of
                        Inl x \<Rightarrow> Inl x
                      | Inr validated \<Rightarrow>
                          Inr (mask_smtp validated, write_tier e 0 ''global'' None user_id validated d))))"

definition get_tenant_settings :: "coercion \<Rightarrow> string \<Rightarrow> db \<Rightarrow> error + dict" where
  "get_tenant_settings coerce tenant_id d = read_tier coerce TenantSettings ''tenant'' (Some tenant_id) d"

definition set_tenant_settings ::
  "coercion \<Rightarrow> env \<Rightarrow> string \<Rightarrow> dict \<Rightarrow> string \<Rightarrow> db \<Rightarrow> error + (dict \<times> db)" where
  "set_tenant_settings coerce e tenant_id data user_id d =
     (case get_tenant_settings coerce tenant_id d of
        Inl x \<Rightarrow> Inl x
      | Inr current \<Rightarrow>
          (case validate coerce TenantSettings (dict_update current data) of
             Inl x \<Rightarrow> Inl x
           | Inr validated \<Rightarrow> Inr (validated, write_tier e 0 ''tenant'' (Some tenant_id) user_id validated d)))"

definition get_user_settings :: "coercion \<Rightarrow> string \<Rightarrow> db \<Rightarrow> error + dict" where
  "get_user_settings coerce user_id d = read_tier coerce UserSettings ''user'' (Some user_id) d"

definition set_user_settings :: "coercion \<Rightarrow> env \<Rightarrow> string \<Rightarrow> dict \<Rightarrow> db \<Rightarrow> error + (dict \<times> db)" where
  "set_user_settings coerce e user_id data d =
     (case get_user_settings coerce user_id d of
        Inl x \<Rightarrow> Inl x
      | Inr current \<Rightarrow>
          (case validate coerce UserSettings (dict_update current data) of
             Inl x \<Rightarrow> Inl x
           | Inr validated \<Rightarrow> Inr (validated, write_tier e 0 ''user'' (Some user_id) user_id validated d)))"

definition loads_value :: "setting \<Rightarrow> error + json" where
  "loads_value s = (case json_loads (se_value_json s) of None \<Rightarrow> Inl (ValueError ''JSONDecodeError'') | Some v \<Rightarrow> Inr v)"

definition default_of :: "string \<Rightarrow> json" where
  "default_of k =
     (case map_of (defaults GlobalSettings) k of Some v \<Rightarrow> v
      | None \<Rightarrow> (case map_of (defaults TenantSettings) k of Some v \<Rightarrow> v
         | None \<Rightarrow> (case map_of (defaults UserSettings) k of Some v \<Rightarrow> v | None \<Rightarrow> JNull)))"

definition resolve :: "string \<Rightarrow> string option \<Rightarrow> string option \<Rightarrow> db \<Rightarrow> error + json" where
  "resolve k user_id tenant_id d =
     (case (case user_id of None \<Rightarrow> None | Some u \<Rightarrow> settings_get ''user'' (Some u) k d) of
        Some row \<Rightarrow> loads_value row
      | None \<Rightarrow>
          (case (case tenant_id of None \<Rightarrow> None | Some t \<Rightarrow> settings_get ''tenant'' (Some t) k d) of
             Some row \<Rightarrow> loads_value row
           | None \<Rightarrow>
               (case settings_get ''global'' None k d of
                  Some row \<Rightarrow> loads_value row
                | None \<Rightarrow> Inr (default_of k))))"

definition override_with :: "dict \<Rightarrow> dict \<Rightarrow> dict" where
  "override_with resolved m = dict_update resolved (filter (\<lambda>(k, v). v \<noteq> JNull) m)"

definition resolve_all ::
  "coercion \<Rightarrow> string option \<Rightarrow> string option \<Rightarrow> db \<Rightarrow> error + dict" where
  "resolve_all coerce user_id tenant_id d =
     (case get_global coerce d of
        Inl x \<Rightarrow> Inl x
      | Inr g \<Rightarrow>
          (case (case tenant_id of None \<Rightarrow> Inr g
                 | Some t \<Rightarrow> (case get_tenant_settings coerce t d of
                                Inl x \<Rightarrow> Inl x | Inr m \<Rightarrow> Inr (override_with g m))) of
             Inl x \<Rightarrow> Inl x
           | Inr r \<Rightarrow>
               (case user_id of None \<Rightarrow> Inr r
                | Some u \<Rightarrow> (case get_user_settings coerce u d of
                               Inl x \<Rightarrow> Inl x | Inr m \<Rightarrow> Inr (override_with r m)))))"

record effective_settings =
  ef_global :: dict
  ef_tenant :: "dict option"
  ef_user :: dict
  ef_resolved :: dict

definition get_effective ::
  "coercion \<Rightarrow> string option \<Rightarrow> string option \<Rightarrow> db \<Rightarrow> error + effective_settings" where
  "get_effective coerce user_id tenant_id d =
     (case get_global coerce d of
        Inl x \<Rightarrow> Inl x
      | Inr g \<Rightarrow>
          (case (case tenant_id of None \<Rightarrow> Inr None
                 | Some t \<Rightarrow> (case get_tenant_settings coerce t d of Inl x \<Rightarrow> Inl x | Inr m \<Rightarrow> Inr (Some m))) of
             Inl x \<Rightarrow> Inl x
           | Inr t \<Rightarrow>
               (case (case user_id of None \<Rightarrow> Inr (defaults UserSettings)
                      | Some u \<Rightarrow> get_user_settings coerce u d) of
                  Inl x \<Rightarrow> Inl x
                | Inr u \<Rightarrow>
                    (case resolve_all coerce user_id tenant_id d of
                       Inl x \<Rightarrow> Inl x
                     | Inr r \<Rightarrow> Inr \<lparr>ef_global = g, ef_tenant = t, ef_user = u, ef_resolved = r\<rparr>))))"

subsection \<open>Types and validation\<close>

definition endpoint_value_ok :: "string \<Rightarrow> json \<Rightarrow> bool" where
  \<comment> \<open>The field types of \<open>AIEndpointSetting\<close>.\<close>
  "endpoint_value_ok k v =
     (case v of JStr s \<Rightarrow> k \<in> {''url'', ''model'', ''api_key'', ''notes''}
      | JBool b \<Rightarrow> k = ''enabled'' | JInt i \<Rightarrow> k \<in> {''context_window'', ''priority''} | _ \<Rightarrow> False)"

lemma endpoint_value_simps [simp]:
  "endpoint_value_ok k (JStr s) \<longleftrightarrow> k \<in> {''url'', ''model'', ''api_key'', ''notes''}"
  "endpoint_value_ok k (JBool b) \<longleftrightarrow> k = ''enabled''"
  "endpoint_value_ok k (JInt i) \<longleftrightarrow> k \<in> {''context_window'', ''priority''}"
  by (simp_all add: endpoint_value_ok_def)

fun has_type :: "ftype \<Rightarrow> json \<Rightarrow> bool" where
  "has_type TInt (JInt i) = True"
| "has_type TOptInt (JInt i) = True"
| "has_type TOptInt JNull = True"
| "has_type TStr (JStr s) = True"
| "has_type TOptStr (JStr s) = True"
| "has_type TOptStr JNull = True"
| "has_type TBool (JBool b) = True"
| "has_type TStrList (JList l) = list_all (\<lambda>j. case j of JStr _ \<Rightarrow> True | _ \<Rightarrow> False) l"
| "has_type TEndpoint (JObj m) = (map fst m = [''url'', ''model'', ''api_key'', ''enabled'', ''context_window'', ''priority'', ''notes'']
     \<and> list_all (\<lambda>(k, v). endpoint_value_ok k v) m)"
| "has_type _ _ = False"

definition coerce_ok :: "coercion \<Rightarrow> bool" where
  "coerce_ok coerce \<longleftrightarrow> (\<forall>t v w. (coerce t v = Some w \<longrightarrow> has_type t w) \<and> (has_type t v \<longrightarrow> coerce t v = Some v))"

definition field_ok :: "field_spec \<Rightarrow> json \<Rightarrow> bool" where
  "field_ok f v \<longleftrightarrow> has_type (fs_type f) v \<and> constr_ok (fs_constr f) v"

definition specs_ok :: "field_spec list \<Rightarrow> bool" where
  "specs_ok fs \<longleftrightarrow> distinct (map fs_name fs) \<and> list_all (\<lambda>f. field_ok f (fs_default f)) fs"

lemma tiers_ok: "specs_ok GlobalSettings" "specs_ok TenantSettings" "specs_ok UserSettings"
  by code_simp+

lemma validate_names: "validate coerce fs data = Inr m \<Longrightarrow> map fst m = map fs_name fs"
  by (induction fs arbitrary: m) (auto split: option.splits sum.splits)

lemma validate_field_ok:
  "coerce_ok coerce \<Longrightarrow> field_ok f (fs_default f) \<Longrightarrow> validate_field coerce data f = Some v \<Longrightarrow> field_ok f v"
  by (auto simp: validate_field_def field_ok_def coerce_ok_def split: option.splits if_splits)

lemma validate_field_typed:
  "coerce_ok coerce \<Longrightarrow> map_of data (fs_name f) = Some v \<Longrightarrow> field_ok f v \<Longrightarrow> validate_field coerce data f = Some v"
  by (simp add: validate_field_def field_ok_def coerce_ok_def)

lemma validate_ok:
  assumes "coerce_ok coerce" and "list_all (\<lambda>f. field_ok f (fs_default f)) fs" and "validate coerce fs data = Inr m"
  shows "list_all2 (\<lambda>f (k, v). k = fs_name f \<and> field_ok f v) fs m"
  using assms(2,3) by (induction fs arbitrary: m) (auto split: option.splits sum.splits intro: validate_field_ok [OF assms(1)])

lemma validate_typed:
  assumes "coerce_ok coerce" and "list_all2 (\<lambda>f (k, v). k = fs_name f \<and> field_ok f v) fs m"
    and "\<And>k v. (k, v) \<in> set m \<Longrightarrow> map_of data k = Some v"
  shows "validate coerce fs data = Inr m"
  using assms(2,3)
proof (induction rule: list_all2_induct)
  case (Cons f fs kv m)
  obtain k v where kv: "kv = (k, v)" by (cases kv)
  from Cons have "validate_field coerce data f = Some v"
    by (intro validate_field_typed [OF assms(1)]) (auto simp: kv)
  with Cons kv show ?case by simp
qed simp

text \<open>Whatever agrees with validated data on the fields validates to that data.\<close>

lemma validate_again:
  assumes "coerce_ok coerce" and "specs_ok fs" and "validate coerce fs data = Inr m"
    and "\<And>k. k \<in> fs_name ` set fs \<Longrightarrow> map_of data' k = map_of m k"
  shows "validate coerce fs data' = Inr m"
proof (rule validate_typed [OF assms(1) validate_ok [OF assms(1) _ assms(3)]])
  show "list_all (\<lambda>f. field_ok f (fs_default f)) fs" using assms(2) by (simp add: specs_ok_def)
  fix k v assume kv: "(k, v) \<in> set m"
  have n: "map fst m = map fs_name fs" using assms(3) by (rule validate_names)
  then have "distinct (map fst m)" using assms(2) by (simp add: specs_ok_def)
  with kv have "map_of m k = Some v" by simp
  moreover have "k \<in> fs_name ` set fs" using kv n by (metis fst_conv image_eqI list.set_map)
  ultimately show "map_of data' k = Some v" using assms(4) by simp
qed

subsection \<open>The key/value rows\<close>

definition settings_unique :: "db \<Rightarrow> bool" where
  "settings_unique d \<longleftrightarrow> distinct (map se_unique_key (settings d))"

definition kv_get :: "string \<times> string option \<times> string \<Rightarrow> db \<Rightarrow> json_text option" where
  "kv_get k d = map_option se_value_json (get_by se_unique_key k (settings d))"

type_synonym kv_write = "string \<times> (string \<times> string option \<times> string) \<times> json_text \<times> string"

definition kv_put :: "env \<Rightarrow> kv_write \<Rightarrow> db \<Rightarrow> db" where
  "kv_put e w d = (case w of (i, (scope, scope_id, k), v, by) \<Rightarrow> settings_upsert e i scope scope_id k v (Some by) d)"

lemma se_key_touched [simp]:
  "se_unique_key (touched (touch_setting n) (\<lambda>s. s\<lparr>se_value_json := v, se_updated_by := b\<rparr>) s) = se_unique_key s"
  "se_value_json (touched (touch_setting n) (\<lambda>s. s\<lparr>se_value_json := v, se_updated_by := b\<rparr>) s) = v"
  by (simp_all add: touched_proj touch_setting_def se_unique_key_def)

interpretation settings_kv: keyed_store "fst \<circ> snd" "fst \<circ> snd \<circ> snd" kv_get "kv_put e" for e
proof unfold_locales
  fix k and w :: kv_write and d
  obtain i scope sid n v b where w: "w = (i, (scope, sid, n), v, b)" by (cases w) auto
  show "kv_get k (kv_put e w d) = (if k = (fst \<circ> snd) w then Some ((fst \<circ> snd \<circ> snd) w) else kv_get k d)"
  proof (cases "get_by se_unique_key (scope, sid, n) (settings d)")
    case None
    then show ?thesis
      by (auto simp: w kv_get_def kv_put_def settings_upsert_def settings_get_def get_by_add_row
          se_unique_key_def split: option.split)
  next
    case (Some r)
    then show ?thesis
      by (auto simp: w kv_get_def kv_put_def settings_upsert_def settings_get_def get_by_update_by
          option.map_comp comp_def)
  qed
qed

lemma kv_put_unique: "settings_unique d \<Longrightarrow> settings_unique (kv_put e w d)"
proof (cases w)
  case (fields i k v b)
  assume "settings_unique d"
  obtain scope sid n where k: "k = (scope, sid, n)" by (cases k)
  show ?thesis
  proof (cases "get_by se_unique_key k (settings d)")
    case None
    with \<open>settings_unique d\<close> show ?thesis
      by (auto simp: fields k kv_put_def settings_upsert_def settings_get_def settings_unique_def add_row_def
          se_unique_key_def get_by_None_iff image_iff)
  next
    case Some
    with \<open>settings_unique d\<close> show ?thesis
      by (simp add: fields k kv_put_def settings_upsert_def settings_get_def settings_unique_def map_key_update_by)
  qed
qed

lemma write_tier_fold:
  "write_tier e n scope sid by m d =
     fold (kv_put e) (map (\<lambda>(j, k, v). (env_ids e j, (scope, sid, k), json_dumps v, by)) (enumerate n m)) d"
  by (induction m arbitrary: n d) (auto simp: kv_put_def)

lemma fold_kv_unique: "settings_unique d \<Longrightarrow> settings_unique (fold (kv_put e) ws d)"
  by (induction ws arbitrary: d) (auto simp: kv_put_unique)

lemma write_tier_unique: "settings_unique d \<Longrightarrow> settings_unique (write_tier e n scope sid by m d)"
  by (simp add: write_tier_fold fold_kv_unique)

lemma map_keys_enumerate:
  "map (fst \<circ> snd) (map (\<lambda>(j, k, v). (f j, g k, h v, by)) (enumerate n m)) = map (g \<circ> fst) m"
  by (induction m arbitrary: n) auto

lemma in_enumerate: "x \<in> set m \<Longrightarrow> \<exists>j. (j, x) \<in> set (enumerate n m)"
proof (induction m arbitrary: n)
  case (Cons a m)
  then show ?case by (cases "x = a") (auto intro: exI [of _ n])
qed simp

lemma write_tier_get:
  assumes "distinct (map fst m)"
  shows "kv_get (s, c, k) (write_tier e n scope sid by m d) =
    (if s = scope \<and> c = sid \<and> k \<in> fst ` set m then Some (json_dumps (the (map_of m k))) else kv_get (s, c, k) d)"
proof -
  let ?ws = "map (\<lambda>(j, k, v). (env_ids e j, (scope, sid, k), json_dumps v, by)) (enumerate n m)"
  have keys: "map (fst \<circ> snd) ?ws = map ((\<lambda>k. (scope, sid, k)) \<circ> fst) m"
    by (rule map_keys_enumerate)
  have dist: "distinct (map (fst \<circ> snd) ?ws)"
    unfolding keys using assms by (auto simp: distinct_map inj_on_def)
  show ?thesis
  proof (cases "s = scope \<and> c = sid \<and> k \<in> fst ` set m")
    case True
    then obtain v where kv: "(k, v) \<in> set m" by auto
    then obtain j where "(j, k, v) \<in> set (enumerate n m)" using in_enumerate by metis
    then have "(env_ids e j, (scope, sid, k), json_dumps v, by) \<in> set ?ws" by force
    from settings_kv.get_fold_put_mem [OF dist this, of e d] True kv assms show ?thesis
      by (simp add: write_tier_fold)
  next
    case False
    have "(fst \<circ> snd) ` set ?ws = ((\<lambda>k. (scope, sid, k)) \<circ> fst) ` set m"
      using arg_cong [OF keys, of set] by (simp only: set_map)
    with False have "(s, c, k) \<notin> (fst \<circ> snd) ` set ?ws" by auto
    from settings_kv.get_fold_put_notin [OF this, of e d] False show ?thesis
      by (auto simp: write_tier_fold)
  qed
qed

subsection \<open>Reading a tier\<close>

definition tier_loadable :: "string \<Rightarrow> string option \<Rightarrow> db \<Rightarrow> bool" where
  "tier_loadable scope sid d \<longleftrightarrow> (\<forall>k v. kv_get (scope, sid, k) d = Some v \<longrightarrow> json_loads v \<noteq> None)"

lemma get_by_scope_rows:
  "get_by se_key k (settings_list_by_scope scope sid d) = get_by se_unique_key (scope, sid, k) (settings d)"
proof -
  have "get_by se_key k (filter (\<lambda>s. se_scope s = scope \<and> se_scope_id s = sid) t) =
        get_by se_unique_key (scope, sid, k) t" for t
    by (induction t) (auto simp: se_unique_key_def)
  then show ?thesis by (simp add: settings_list_by_scope_def)
qed

lemma distinct_scope_keys:
  assumes "settings_unique d"
  shows "distinct (map se_key (settings_list_by_scope scope sid d))"
proof -
  have "distinct (map se_unique_key t) \<Longrightarrow>
        distinct (map se_key (filter (\<lambda>s. se_scope s = scope \<and> se_scope_id s = sid) t))" for t
    by (induction t) (auto simp: se_unique_key_def, metis (mono_tags, lifting) image_eqI)
  with assms show ?thesis by (simp add: settings_unique_def settings_list_by_scope_def)
qed

lemma loads_rows_ok:
  assumes "distinct (map se_key rs)" and "\<And>r. r \<in> set rs \<Longrightarrow> json_loads (se_value_json r) \<noteq> None"
  shows "\<exists>st. loads_rows rs acc = Inr st \<and>
     (\<forall>k. map_of st k = (case get_by se_key k rs of Some r \<Rightarrow> json_loads (se_value_json r) | None \<Rightarrow> map_of acc k))"
  using assms
proof (induction rs arbitrary: acc)
  case (Cons r rs)
  from Cons.prems(2) [of r] obtain v where v: "json_loads (se_value_json r) = Some v" by auto
  from Cons.prems(1) have fresh: "get_by se_key (se_key r) rs = None" by (simp add: get_by_None_iff)
  from Cons.prems obtain st where st: "loads_rows rs (dict_set (se_key r) v acc) = Inr st"
    "\<forall>k. map_of st k = (case get_by se_key k rs of Some r \<Rightarrow> json_loads (se_value_json r)
       | None \<Rightarrow> map_of (dict_set (se_key r) v acc) k)"
    using Cons.IH [of "dict_set (se_key r) v acc"] by auto
  then show ?case using v fresh by (auto simp: map_of_dict_set split: option.splits)
qed simp

lemma loads_rows_loadable: "loads_rows rs acc = Inr st \<Longrightarrow> r \<in> set rs \<Longrightarrow> json_loads (se_value_json r) \<noteq> None"
  by (induction rs arbitrary: acc) (auto split: option.splits)

lemma loadable_rows:
  assumes "settings_unique d"
  shows "tier_loadable scope sid d \<longleftrightarrow> (\<forall>r \<in> set (settings_list_by_scope scope sid d). json_loads (se_value_json r) \<noteq> None)"
proof -
  have "r \<in> set (settings_list_by_scope scope sid d) \<longleftrightarrow> get_by se_unique_key (scope, sid, se_key r) (settings d) = Some r" for r
    using get_by_mem [of se_key "settings_list_by_scope scope sid d" r] distinct_scope_keys [OF assms, of scope sid]
      get_by_SomeD [of se_key "se_key r" "settings_list_by_scope scope sid d" r]
    by (auto simp: keys_distinct_def get_by_scope_rows)
  note mem = this
  have key: "get_by se_unique_key (scope, sid, k) (settings d) = Some r \<Longrightarrow> se_key r = k" for k r
    by (drule get_by_SomeD) (simp add: se_unique_key_def)
  show ?thesis
  proof
    assume load: "tier_loadable scope sid d"
    show "\<forall>r \<in> set (settings_list_by_scope scope sid d). json_loads (se_value_json r) \<noteq> None"
    proof
      fix r assume "r \<in> set (settings_list_by_scope scope sid d)"
      then have "kv_get (scope, sid, se_key r) d = Some (se_value_json r)" by (simp add: kv_get_def mem)
      with load show "json_loads (se_value_json r) \<noteq> None" unfolding tier_loadable_def by blast
    qed
  next
    assume all: "\<forall>r \<in> set (settings_list_by_scope scope sid d). json_loads (se_value_json r) \<noteq> None"
    show "tier_loadable scope sid d"
      unfolding tier_loadable_def kv_get_def
    proof (intro allI impI)
      fix k v assume "map_option se_value_json (get_by se_unique_key (scope, sid, k) (settings d)) = Some v"
      then obtain r where r: "get_by se_unique_key (scope, sid, k) (settings d) = Some r" "v = se_value_json r"
        by auto
      with key [OF r(1)] mem [of r] all show "json_loads v \<noteq> None" by auto
    qed
  qed
qed

text \<open>Reading a tier depends on the key/value pairs only.\<close>

lemma loads_tier:
  assumes "settings_unique d"
  shows "if tier_loadable scope sid d
         then \<exists>st. loads_rows (settings_list_by_scope scope sid d) [] = Inr st \<and>
                (\<forall>k. map_of st k = Option.bind (kv_get (scope, sid, k) d) json_loads)
         else loads_rows (settings_list_by_scope scope sid d) [] = Inl (ValueError ''JSONDecodeError'')"
proof (cases "tier_loadable scope sid d")
  case True
  then have "r \<in> set (settings_list_by_scope scope sid d) \<Longrightarrow> json_loads (se_value_json r) \<noteq> None" for r
    unfolding loadable_rows [OF assms] by blast
  from loads_rows_ok [OF distinct_scope_keys [OF assms, of scope sid] this, of "[]"] obtain st where
    "loads_rows (settings_list_by_scope scope sid d) [] = Inr st"
    "\<And>k. map_of st k = (case get_by se_unique_key (scope, sid, k) (settings d) of
       Some r \<Rightarrow> json_loads (se_value_json r) | None \<Rightarrow> map_of [] k)"
    unfolding get_by_scope_rows by blast
  with True show ?thesis by (auto simp: kv_get_def split: option.split)
next
  case False
  have err: "loads_rows rs acc = Inl x \<Longrightarrow> x = ValueError ''JSONDecodeError''" for rs acc x
    by (induction rs arbitrary: acc) (auto split: option.splits)
  have "\<nexists>st. loads_rows (settings_list_by_scope scope sid d) [] = Inr st"
    using False loads_rows_loadable unfolding loadable_rows [OF assms] by blast
  with False err show ?thesis by (cases "loads_rows (settings_list_by_scope scope sid d) []") auto
qed

lemma validate_cong:
  "(\<And>f. f \<in> set fs \<Longrightarrow> map_of a (fs_name f) = map_of b (fs_name f)) \<Longrightarrow> validate coerce fs a = validate coerce fs b"
  by (induction fs) (auto simp: validate_field_def split: option.split sum.split)

lemma read_tier_cong:
  assumes "settings_unique d" and "settings_unique d'"
    and "\<And>k. kv_get (scope, sid, k) d' = kv_get (scope, sid, k) d"
  shows "read_tier coerce fs scope sid d' = read_tier coerce fs scope sid d"
proof -
  have same: "tier_loadable scope sid d' = tier_loadable scope sid d" by (simp add: tier_loadable_def assms(3))
  show ?thesis
  proof (cases "tier_loadable scope sid d")
    case True
    with loads_tier [OF assms(1), of scope sid] loads_tier [OF assms(2), of scope sid] same
    obtain st st' where "loads_rows (settings_list_by_scope scope sid d) [] = Inr st"
      "loads_rows (settings_list_by_scope scope sid d') [] = Inr st'" "\<And>k. map_of st' k = map_of st k"
      by (auto simp: assms(3))
    then show ?thesis by (simp add: read_tier_def) (rule validate_cong, simp)
  next
    case False
    with loads_tier [OF assms(1), of scope sid] loads_tier [OF assms(2), of scope sid] same
    show ?thesis by (simp add: read_tier_def)
  qed
qed

lemma write_then_read:
  assumes "coerce_ok coerce" and "specs_ok fs" and "settings_unique d"
    and "read_tier coerce fs scope sid d = Inr old" and "validate coerce fs data = Inr m"
  shows "read_tier coerce fs scope sid (write_tier e n scope sid by m d) = Inr m"
proof -
  let ?d = "write_tier e n scope sid by m d"
  have n: "map fst m = map fs_name fs" using assms(5) by (rule validate_names)
  then have dm: "distinct (map fst m)" using assms(2) by (simp add: specs_ok_def)
  have u: "settings_unique ?d" using assms(3) by (rule write_tier_unique)
  have "tier_loadable scope sid d"
    using assms(4) loads_tier [OF assms(3), of scope sid] by (auto simp: read_tier_def split: if_splits)
  then have "tier_loadable scope sid ?d"
    by (auto simp: tier_loadable_def write_tier_get [OF dm] split: if_splits)
  with loads_tier [OF u, of scope sid] obtain st where st: "loads_rows (settings_list_by_scope scope sid ?d) [] = Inr st"
    "\<And>k. map_of st k = Option.bind (kv_get (scope, sid, k) ?d) json_loads" by auto
  have "map_of st k = map_of m k" if k: "k \<in> fs_name ` set fs" for k
  proof -
    have "k \<in> fst ` set m" using k arg_cong [OF n, of set] by (simp only: set_map)
    then show ?thesis using dm by (auto simp: st(2) write_tier_get [OF dm])
  qed
  from validate_again [OF assms(1,2,5) this] st(1) show ?thesis by (simp add: read_tier_def)
qed

lemma write_tier_other:
  assumes "distinct (map fst m)" and "settings_unique d" and "(s, c) \<noteq> (scope, sid)"
  shows "read_tier coerce fs s c (write_tier e n scope sid by m d) = read_tier coerce fs s c d"
  by (rule read_tier_cong [OF assms(2) write_tier_unique [OF assms(2)]])
    (use assms in \<open>auto simp: write_tier_get\<close>)

lemma validated_distinct: "specs_ok fs \<Longrightarrow> validate coerce fs data = Inr m \<Longrightarrow> distinct (map fst m)"
  using validate_names [of coerce fs data m] by (simp add: specs_ok_def)

subsection \<open>What the service promises\<close>

lemma set_tenant_ok:
  assumes "set_tenant_settings coerce e tid data by d = Inr (v, d')"
  obtains old merged where "read_tier coerce TenantSettings ''tenant'' (Some tid) d = Inr old"
    "validate coerce TenantSettings merged = Inr v" "d' = write_tier e 0 ''tenant'' (Some tid) by v d"
  using assms by (auto simp: set_tenant_settings_def get_tenant_settings_def split: sum.splits)

lemma set_user_ok:
  assumes "set_user_settings coerce e uid data d = Inr (v, d')"
  obtains old merged where "read_tier coerce UserSettings ''user'' (Some uid) d = Inr old"
    "validate coerce UserSettings merged = Inr v" "d' = write_tier e 0 ''user'' (Some uid) uid v d"
  using assms by (auto simp: set_user_settings_def get_user_settings_def split: sum.splits)

lemma set_global_ok:
  assumes "set_global coerce e data by d = Inr (v, d')"
  obtains old pw validated where "read_tier coerce GlobalSettings ''global'' None d = Inr old"
    "pw = (case kv_get (''global'', None, ''smtp_password'') d of None \<Rightarrow> Some JNull | Some t \<Rightarrow> json_loads t)" "pw \<noteq> None"
    "validate coerce GlobalSettings (dict_update (dict_set ''smtp_password'' (the pw) (mask_smtp old)) (incoming_global data)) = Inr validated"
    "v = mask_smtp validated" "d' = write_tier e 0 ''global'' None by validated d"
  using assms
  by (auto simp: set_global_def get_global_def kv_get_def settings_get_def Let_def split: sum.splits option.splits)

text \<open>
  C7: Tenant settings that were saved are read back as saved, and saving them changes no other tenant's,
  no user's and no global settings.
\<close>

theorem tenant_settings_roundtrip:
  assumes "coerce_ok coerce" and "settings_unique d"
    and "set_tenant_settings coerce e tid data by d = Inr (v, d')"
  shows "get_tenant_settings coerce tid d' = Inr v \<and> settings_unique d' \<and>
     get_global coerce d' = get_global coerce d \<and>
     (\<forall>u. get_user_settings coerce u d' = get_user_settings coerce u d) \<and>
     (\<forall>t. t \<noteq> tid \<longrightarrow> get_tenant_settings coerce t d' = get_tenant_settings coerce t d)"
  using assms(3)
proof (rule set_tenant_ok)
  fix old merged
  assume w: "read_tier coerce TenantSettings ''tenant'' (Some tid) d = Inr old"
    "validate coerce TenantSettings merged = Inr v" "d' = write_tier e 0 ''tenant'' (Some tid) by v d"
  note dist = validated_distinct [OF tiers_ok(2) w(2)]
  show ?thesis
    using write_then_read [OF assms(1) tiers_ok(2) assms(2) w(1,2)] write_tier_unique [OF assms(2)]
    by (simp add: get_tenant_settings_def get_global_def get_user_settings_def w(3)
        write_tier_other [OF dist assms(2)])
qed

lemma resolve_stored:
  "kv_get (''user'', Some u, k) d = Some (json_dumps x) \<Longrightarrow> resolve k (Some u) t d = Inr x"
  by (auto simp: resolve_def kv_get_def settings_get_def loads_value_def)

text \<open>
  A user's saved preferences are read back as saved and win over the tenant's and the platform's
  values when a key is resolved for that user; another user's preferences do not change.
\<close>

theorem user_settings_win:
  assumes "coerce_ok coerce" and "settings_unique d" and "set_user_settings coerce e uid data d = Inr (v, d')"
  shows "get_user_settings coerce uid d' = Inr v \<and> settings_unique d' \<and>
     (\<forall>k x t. (k, x) \<in> set v \<longrightarrow> resolve k (Some uid) t d' = Inr x) \<and>
     (\<forall>u. u \<noteq> uid \<longrightarrow> get_user_settings coerce u d' = get_user_settings coerce u d)"
  using assms(3)
proof (rule set_user_ok)
  fix old merged
  assume w: "read_tier coerce UserSettings ''user'' (Some uid) d = Inr old"
    "validate coerce UserSettings merged = Inr v" "d' = write_tier e 0 ''user'' (Some uid) uid v d"
  note dist = validated_distinct [OF tiers_ok(3) w(2)]
  have "kv_get (''user'', Some uid, k) d' = Some (json_dumps x)" if "(k, x) \<in> set v" for k x
    using that dist by (force simp: w(3) write_tier_get [OF dist])
  then show ?thesis
    using write_then_read [OF assms(1) tiers_ok(3) assms(2) w(1,2)] write_tier_unique [OF assms(2)]
    by (simp add: get_user_settings_def w(3) write_tier_other [OF dist assms(2)] resolve_stored)
qed

lemma validated_field:
  assumes "coerce_ok coerce" and "specs_ok fs" and "validate coerce fs data = Inr m" and "f \<in> set fs"
  obtains v where "map_of m (fs_name f) = Some v" "field_ok f v"
proof -
  have l: "list_all2 (\<lambda>f (k, v). k = fs_name f \<and> field_ok f v) fs m"
    using validate_ok [OF assms(1) _ assms(3)] assms(2) by (simp add: specs_ok_def)
  obtain i where i: "i < length fs" "fs ! i = f" using assms(4) by (auto simp: in_set_conv_nth)
  with l have "i < length m" "case m ! i of (k, v) \<Rightarrow> k = fs_name f \<and> field_ok f v"
    by (auto simp: list_all2_conv_all_nth)
  then obtain v where "(fs_name f, v) \<in> set m" "field_ok f v"
    by (metis (mono_tags, lifting) case_prodE nth_mem)
  with validated_distinct [OF assms(2,3)] that show thesis by simp
qed

lemma smtp_spec: "fld ''smtp_password'' TOptStr Free JNull \<in> set GlobalSettings"
  by (simp add: GlobalSettings_def)

lemma validated_smtp:
  assumes "coerce_ok coerce" and "validate coerce GlobalSettings data = Inr m"
  obtains "map_of m ''smtp_password'' = Some JNull" | s where "map_of m ''smtp_password'' = Some (JStr s)"
proof (rule validated_field [OF assms(1) tiers_ok(1) assms(2) smtp_spec])
  fix v assume v: "map_of m (fs_name (fld ''smtp_password'' TOptStr Free JNull)) = Some v"
    "field_ok (fld ''smtp_password'' TOptStr Free JNull) v"
  then show thesis
    by (cases v) (auto simp: fld_def field_ok_def intro: that)
qed

definition smtp_hidden :: "dict \<Rightarrow> bool" where
  "smtp_hidden m \<longleftrightarrow> map_of m ''smtp_password'' \<in> {Some JNull, Some (JStr ''''), Some (JStr SMTP_PASSWORD_MASKED)}"

lemma mask_smtp_hidden:
  assumes "coerce_ok coerce" and "validate coerce GlobalSettings data = Inr m"
  shows "smtp_hidden (mask_smtp m)"
  by (rule validated_smtp [OF assms])
    (auto simp: smtp_hidden_def mask_smtp_def truthy_json_def map_of_dict_set SMTP_PASSWORD_MASKED_def)

lemma get_global_hidden: "coerce_ok coerce \<Longrightarrow> get_global coerce d = Inr g \<Longrightarrow> smtp_hidden g"
  by (auto simp: get_global_def read_tier_def mask_smtp_hidden split: sum.splits)

lemma override_hidden:
  assumes "smtp_hidden r" and "''smtp_password'' \<notin> fst ` set m"
  shows "smtp_hidden (override_with r m)"
proof -
  have "map_of (rev (filter (\<lambda>(k, v). v \<noteq> JNull) m)) ''smtp_password'' = None"
    using assms(2) by (auto simp: map_of_eq_None_iff)
  with assms(1) show ?thesis
    by (simp add: smtp_hidden_def override_with_def map_of_dict_update map_add_def)
qed

lemma tier_no_smtp:
  assumes "validate coerce fs data = Inr m" and "''smtp_password'' \<notin> fs_name ` set fs"
  shows "''smtp_password'' \<notin> fst ` set m"
  using arg_cong [OF validate_names [OF assms(1)], of set] assms(2) by simp

lemma other_tiers_no_smtp:
  "''smtp_password'' \<notin> fs_name ` set TenantSettings" "''smtp_password'' \<notin> fs_name ` set UserSettings"
  by code_simp+

lemma resolve_all_hidden:
  assumes "coerce_ok coerce" and "resolve_all coerce u t d = Inr r"
  shows "smtp_hidden r"
proof -
  from assms(2) obtain g where g: "get_global coerce d = Inr g"
    by (auto simp: resolve_all_def split: sum.splits)
  obtain r1 where r1: "(case t of None \<Rightarrow> Inr g
      | Some t \<Rightarrow> (case get_tenant_settings coerce t d of Inl x \<Rightarrow> Inl x | Inr m \<Rightarrow> Inr (override_with g m))) = Inr r1"
    "(case u of None \<Rightarrow> Inr r1
      | Some u \<Rightarrow> (case get_user_settings coerce u d of Inl x \<Rightarrow> Inl x | Inr m \<Rightarrow> Inr (override_with r1 m))) = Inr r"
    using assms(2) g by (auto simp: resolve_all_def split: sum.splits)
  have "smtp_hidden r1"
    using r1(1) get_global_hidden [OF assms(1) g]
    by (auto simp: get_tenant_settings_def read_tier_def split: option.splits sum.splits
        intro: override_hidden dest: tier_no_smtp [OF _ other_tiers_no_smtp(1)])
  then show ?thesis
    using r1(2)
    by (auto simp: get_user_settings_def read_tier_def split: option.splits sum.splits
        intro: override_hidden dest: tier_no_smtp [OF _ other_tiers_no_smtp(2)])
qed


text \<open>
  Saving the global settings as they were shown, with the password masked, empty or left out, keeps the
  stored SMTP password, and what was saved is what the next read shows.
\<close>

theorem global_settings_roundtrip:
  assumes "coerce_ok coerce" and "settings_unique d" and "set_global coerce e data by d = Inr (v, d')"
  shows "get_global coerce d' = Inr v \<and> settings_unique d' \<and>
     (map_of data ''smtp_password'' \<in> {None, Some JNull, Some (JStr ''''), Some (JStr SMTP_PASSWORD_MASKED)} \<longrightarrow>
      kv_get (''global'', None, ''smtp_password'') d = Some (json_dumps (JStr p)) \<longrightarrow>
      kv_get (''global'', None, ''smtp_password'') d' = Some (json_dumps (JStr p)))"
  using assms(3)
proof (rule set_global_ok)
  fix old pw validated
  assume w: "read_tier coerce GlobalSettings ''global'' None d = Inr old"
    "pw = (case kv_get (''global'', None, ''smtp_password'') d of None \<Rightarrow> Some JNull | Some t \<Rightarrow> json_loads t)"
    and merged: "validate coerce GlobalSettings (dict_update (dict_set ''smtp_password'' (the pw) (mask_smtp old)) (incoming_global data)) = Inr validated"
    and v: "v = mask_smtp validated" "d' = write_tier e 0 ''global'' None by validated d"
  note dist = validated_distinct [OF tiers_ok(1) merged]
  have "get_global coerce d' = Inr v"
    using write_then_read [OF assms(1) tiers_ok(1) assms(2) w(1) merged] by (simp add: get_global_def v)
  moreover have "settings_unique d'" using assms(2) by (simp add: v write_tier_unique)
  moreover have "kv_get (''global'', None, ''smtp_password'') d' = Some (json_dumps (JStr p))"
    if kept: "map_of data ''smtp_password'' \<in> {None, Some JNull, Some (JStr ''''), Some (JStr SMTP_PASSWORD_MASKED)}"
      and pw: "kv_get (''global'', None, ''smtp_password'') d = Some (json_dumps (JStr p))"
  proof -
    have "map_of (incoming_global data) ''smtp_password'' = None"
      using kept by (auto simp: incoming_global_def map_of_dict_pop)
    then have "''smtp_password'' \<notin> fst ` set (rev (incoming_global data))"
      by (simp add: map_of_eq_None_iff)
    then have "map_of (rev (incoming_global data)) ''smtp_password'' = None" by (subst map_of_eq_None_iff)
    then have "map_of (dict_update (dict_set ''smtp_password'' (the pw) (mask_smtp old)) (incoming_global data)) ''smtp_password'' = Some (JStr p)"
      using pw w(2) by (simp add: map_of_dict_update map_of_dict_set map_add_def)
    then have vf: "validate_field coerce (dict_update (dict_set ''smtp_password'' (the pw) (mask_smtp old)) (incoming_global data))
        (fld ''smtp_password'' TOptStr Free JNull) = Some (JStr p)"
      by (intro validate_field_typed [OF assms(1)]) (simp_all add: fld_def field_ok_def)
    have mem: "validate coerce fs X = Inr m \<Longrightarrow> f \<in> set fs \<Longrightarrow> validate_field coerce X f = Some x \<Longrightarrow> (fs_name f, x) \<in> set m" for fs X m f x
      by (induction fs arbitrary: m) (auto split: option.splits sum.splits)
    from mem [OF merged smtp_spec vf] have "(''smtp_password'', JStr p) \<in> set validated" by (simp add: fld_def)
    with dist show ?thesis by (force simp: v write_tier_get [OF dist])
  qed
  ultimately show ?thesis by blast
qed

text \<open>Only the SMTP password is masked: every other global value, the API keys of the AI endpoints
  included, is shown as stored.\<close>

lemma global_shows_the_rest:
  assumes "get_global coerce d = Inr g" and "k \<noteq> ''smtp_password''"
  shows "\<exists>m. read_tier coerce GlobalSettings ''global'' None d = Inr m \<and> map_of g k = map_of m k"
  using assms by (auto simp: get_global_def mask_smtp_def map_of_dict_set split: sum.splits)

subsection \<open>Concrete instances\<close>

definition demo_coerce :: coercion where
  "demo_coerce t v = (if has_type t v then Some v else None)"

lemma demo_coerce_ok: "coerce_ok demo_coerce"
  by (simp add: coerce_ok_def demo_coerce_def)

lemma demo_settings_empty [simp]: "settings demo_users_db = []"
  by (simp add: demo_users_db_def demo_tenant_db_def empty_db_def)

lemma demo_settings_unique: "settings_unique demo_users_db"
  by (simp add: settings_unique_def)

lemma demo_read_tier: "read_tier demo_coerce fs scope sid demo_users_db = validate demo_coerce fs []"
  by (simp add: read_tier_def settings_list_by_scope_def)

theorem tenant_settings_roundtrip_witness:
  "\<exists>v d'. set_tenant_settings demo_coerce demo_env ''t1'' [(''retention_days'', JInt 30)] ''u1'' demo_users_db = Inr (v, d') \<and>
     get_tenant_settings demo_coerce ''t1'' d' = Inr v \<and> map_of v ''retention_days'' = Some (JInt 30)"
proof -
  obtain v where v: "validate demo_coerce TenantSettings (dict_update (defaults TenantSettings) [(''retention_days'', JInt 30)]) = Inr v"
    "map_of v ''retention_days'' = Some (JInt 30)"
    by (simp add: TenantSettings_def defaults_def fld_def validate_field_def demo_coerce_def dict_update_def dict_set_def)
  have old: "validate demo_coerce TenantSettings [] = Inr (defaults TenantSettings)"
    by (simp add: TenantSettings_def defaults_def fld_def validate_field_def)
  obtain d' where "set_tenant_settings demo_coerce demo_env ''t1'' [(''retention_days'', JInt 30)] ''u1'' demo_users_db = Inr (v, d')"
    using v(1) old by (simp add: set_tenant_settings_def get_tenant_settings_def demo_read_tier)
  with tenant_settings_roundtrip [OF demo_coerce_ok demo_settings_unique this] v(2) show ?thesis by blast
qed

theorem user_settings_win_witness:
  "\<exists>v d'. set_user_settings demo_coerce demo_env ''u1'' [(''page_size'', JInt 50)] demo_users_db = Inr (v, d') \<and>
     resolve ''page_size'' (Some ''u1'') (Some ''t1'') d' = Inr (JInt 50)"
proof -
  obtain v where v: "validate demo_coerce UserSettings (dict_update (defaults UserSettings) [(''page_size'', JInt 50)]) = Inr v"
    "(''page_size'', JInt 50) \<in> set v"
    by (simp add: UserSettings_def defaults_def fld_def validate_field_def demo_coerce_def dict_update_def dict_set_def)
  have old: "validate demo_coerce UserSettings [] = Inr (defaults UserSettings)"
    by (simp add: UserSettings_def defaults_def fld_def validate_field_def)
  obtain d' where "set_user_settings demo_coerce demo_env ''u1'' [(''page_size'', JInt 50)] demo_users_db = Inr (v, d')"
    using v(1) old by (simp add: set_user_settings_def get_user_settings_def demo_read_tier)
  with user_settings_win [OF demo_coerce_ok demo_settings_unique this] v(2) show ?thesis by blast
qed

definition demo_smtp_db :: db where
  "demo_smtp_db = demo_users_db\<lparr>settings := [\<lparr>se_id = ''s1'', se_scope = ''global'', se_scope_id = None,
     se_key = ''smtp_password'', se_value_json = json_dumps (JStr ''secret''), se_updated_by = None,
     se_created_at = 1, se_updated_at = 1\<rparr>]\<rparr>"

lemma demo_smtp: "settings_unique demo_smtp_db"
  "kv_get (''global'', None, ''smtp_password'') demo_smtp_db = Some (json_dumps (JStr ''secret''))"
  by (simp_all add: settings_unique_def kv_get_def se_unique_key_def demo_smtp_db_def)

lemma demo_smtp_global: "\<exists>g. read_tier demo_coerce GlobalSettings ''global'' None demo_smtp_db = Inr g"
  by (simp add: read_tier_def settings_list_by_scope_def demo_smtp_db_def dict_set_def json_dumps_def
      GlobalSettings_def fld_def validate_field_def demo_coerce_def)


theorem global_settings_roundtrip_witness:
  "\<exists>v d'. set_global demo_coerce demo_env [(''require_totp'', JBool False), (''smtp_password'', JStr SMTP_PASSWORD_MASKED)]
        ''u1'' demo_smtp_db = Inr (v, d') \<and>
     kv_get (''global'', None, ''smtp_password'') d' = Some (json_dumps (JStr ''secret''))"
proof -
  let ?data = "[(''require_totp'', JBool False), (''smtp_password'', JStr SMTP_PASSWORD_MASKED)]"
  have "\<exists>v d'. set_global demo_coerce demo_env ?data ''u1'' demo_smtp_db = Inr (v, d')"
    by (simp add: set_global_def get_global_def read_tier_def settings_list_by_scope_def demo_smtp_db_def
        dict_set_def json_dumps_def GlobalSettings_def fld_def validate_field_def demo_coerce_def mask_smtp_def
        truthy_json_def SMTP_PASSWORD_MASKED_def settings_get_def se_unique_key_def dict_update_def
        incoming_global_def dict_pop_def endpoint_setting_def)
  then obtain v d' where run: "set_global demo_coerce demo_env ?data ''u1'' demo_smtp_db = Inr (v, d')" by blast
  with global_settings_roundtrip [OF demo_coerce_ok demo_smtp(1) run, of "''secret''"] demo_smtp(2)
  show ?thesis by auto
qed

subsection \<open>What the tiers hand out is well typed\<close>

definition well_typed :: "field_spec list \<Rightarrow> dict \<Rightarrow> bool" where
  \<comment> \<open>Exactly the declared fields, in order, each with a value of its type within its constraint.\<close>
  "well_typed fs m \<longleftrightarrow> list_all2 (\<lambda>f (k, v). k = fs_name f \<and> field_ok f v) fs m"

lemma read_tier_typed:
  "coerce_ok coerce \<Longrightarrow> specs_ok fs \<Longrightarrow> read_tier coerce fs scope sid d = Inr m \<Longrightarrow> well_typed fs m"
  by (auto simp: read_tier_def well_typed_def specs_ok_def validate_ok split: sum.splits)

lemma dict_set_known: "k \<in> fst ` set m \<Longrightarrow> dict_set k v m = map (\<lambda>(k', v'). if k' = k then (k', v) else (k', v')) m"
  by (auto simp: dict_set_def map_of_eq_None_iff)

lemma well_typed_set:
  assumes "well_typed fs m" and "k \<in> fst ` set m" and "\<And>f. f \<in> set fs \<Longrightarrow> fs_name f = k \<Longrightarrow> field_ok f v"
  shows "well_typed fs (dict_set k v m)"
proof -
  have "well_typed fs (map (\<lambda>(k', v'). if k' = k then (k', v) else (k', v')) m)"
    using assms(1,3) unfolding well_typed_def
    by (auto simp: list_all2_conv_all_nth split: prod.splits)
  then show ?thesis by (simp add: dict_set_known [OF assms(2)])
qed

lemma mask_typed:
  assumes "well_typed GlobalSettings m"
  shows "well_typed GlobalSettings (mask_smtp m)"
proof (cases "truthy_json (map_of m ''smtp_password'')")
  case True
  then have "''smtp_password'' \<in> fst ` set m"
    by (auto simp: truthy_json_def map_of_eq_None_iff split: option.splits)
      (metis map_of_eq_None_iff option.distinct(1))
  moreover have "\<forall>f \<in> set GlobalSettings. fs_name f = ''smtp_password'' \<longrightarrow> field_ok f (JStr SMTP_PASSWORD_MASKED)"
    by (simp add: GlobalSettings_def fld_def field_ok_def)
  ultimately show ?thesis using well_typed_set [OF assms] True by (simp add: mask_smtp_def)
next
  case False
  with assms show ?thesis by (simp add: mask_smtp_def)
qed



end
