(* ===== verification/CoreAuth.thy ===== *)
theory CoreAuth
  imports AuthSvc SettingsSvc
begin

section \<open>Resolving who makes a request\<close>

text \<open>
  \<open>core/auth.py\<close>, the auth endpoints of \<open>api/v1/auth.py\<close> and the middleware of \<open>core/middleware.py\<close>.
  A request is its headers (names in lower case, as the lookup is case-insensitive), cookies, query
  and path parameters, and the client's address.  \<open>UUID()\<close> and \<open>str()\<close> between a user id and its text
  are the identity.  Exceptions carry no database: every one of these functions raises before its
  first commit.  Dashes in messages are written as hyphens.
\<close>

record request =
  rq_path :: string
  rq_headers :: "(string \<times> string) list"
  rq_cookies :: "(string \<times> string) list"
  rq_query :: "(string \<times> string) list"
  rq_slug :: "string option"
  rq_client :: "string option"

record app_settings =
  as_jwt :: auth_cfg
  trusted_identity_providers :: string
  admin_email :: string
  dev_bypass_token :: string
  cors_origins :: string

definition rq_header :: "request \<Rightarrow> string \<Rightarrow> string option" where
  "rq_header rq name = map_of (rq_headers rq) (py_lower name)"

definition client_ip :: "request \<Rightarrow> string" where
  "client_ip rq = (case rq_client rq of None \<Rightarrow> ''unknown'' | Some h \<Rightarrow> h)"

definition cors_origin_list :: "app_settings \<Rightarrow> string list" where
  "cors_origin_list s = [py_strip x. x \<leftarrow> split_on (CHR '','') (cors_origins s), py_strip x \<noteq> []]"

definition trusted_providers :: "app_settings \<Rightarrow> string list" where
  \<comment> \<open>A set in the code; only membership is asked.\<close>
  "trusted_providers s =
     [py_lower (py_strip p). p \<leftarrow> split_on (CHR '','') (trusted_identity_providers s), py_strip p \<noteq> []]"

subsection \<open>Helpers of the resolver\<close>

definition is_admin_email :: "app_settings \<Rightarrow> string \<Rightarrow> bool" where
  "is_admin_email s email \<longleftrightarrow> admin_email s \<noteq> [] \<and> email = py_lower (py_strip (admin_email s))"

definition resolve_external_user ::
  "creds \<Rightarrow> app_settings \<Rightarrow> env \<Rightarrow> nat \<Rightarrow> string \<Rightarrow> string \<Rightarrow> request \<Rightarrow> db \<Rightarrow> error + (user_context \<times> db)" where
  "resolve_external_user cr s e salt email provider rq d =
     (let display = py_title (hd (split_on (CHR ''@'') email));
          provision = (\<lambda>r. case r of Inl x \<Rightarrow> Inl x
            | Inr (u, d1) \<Rightarrow> Inr (u, audit_log_entry e (env_ids e 1)
                \<lparr>ac_tenant_id = None, ac_user_id = ur_id u, ac_action = ''auth.external_provision'',
                 ac_target_type = ''user'', ac_target_id = ur_id u,
                 ac_detail = Some (JObj [(''provider'', JStr provider), (''email'', JStr email)]),
                 ac_ip_address = client_ip rq\<rparr> d1))
      in case (case user_get_by_email email d of
                 Some u \<Rightarrow> Inr (u, d)
               | None \<Rightarrow> provision
                   (if is_admin_email s email
                    then user_create_superadmin cr e salt email ''_external_auth_no_password_'' display d
                    else user_create_external cr e salt email display d)) of
           Inl x \<Rightarrow> Inl x
         | Inr (u, d1) \<Rightarrow>
             (let d2 = (if is_admin_email s email \<and> \<not> ur_is_superadmin u
                        then user_promote_to_superadmin e email d1 else d1)
              in Inr (user_build_context u d2, d2)))"

definition json_num :: "json \<Rightarrow> int option" where
  "json_num v = (case v of JInt i \<Rightarrow> Some i | JBool b \<Rightarrow> Some (if b then 1 else 0) | _ \<Rightarrow> None)"

definition session_timeout_minutes :: "auth_cfg \<Rightarrow> db \<Rightarrow> int" where
  \<comment> \<open>A failing lookup or conversion keeps the configured expiry; the setting is stored as an integer.\<close>
  "session_timeout_minutes cfg d =
     (case resolve ''session_timeout_minutes'' None None d of
        Inl _ \<Rightarrow> jwt_access_token_expire_minutes cfg
      | Inr v \<Rightarrow> (case json_num v of None \<Rightarrow> jwt_access_token_expire_minutes cfg | Some i \<Rightarrow> i))"

definition session_expired :: "auth_cfg \<Rightarrow> time \<Rightarrow> payload \<Rightarrow> db \<Rightarrow> bool" where
  "session_expired cfg now p d =
     (case map_of p ''iat'' of
        None \<Rightarrow> False
      | Some v \<Rightarrow>
          (case json_num v of
             None \<Rightarrow> False
           | Some iat \<Rightarrow> minutes (session_timeout_minutes cfg d) < now - seconds iat))"

definition resolve_jwt_user :: "jwt_api \<Rightarrow> auth_cfg \<Rightarrow> time \<Rightarrow> string \<Rightarrow> db \<Rightarrow> error + user_context" where
  "resolve_jwt_user jw cfg now token d =
     (case decode_token jw now token of
        Inl x \<Rightarrow> Inl x
      | Inr p \<Rightarrow>
          if truthy_json (map_of p ''totp_pending'') then Inl (ForbiddenError ''TOTP verification required'')
          else if \<not> truthy_json (map_of p ''sub'') then Inl (AuthenticationError ''Invalid token: no subject'')
          else if session_expired cfg now p d then Inl (AuthenticationError ''Session expired - please log in again'')
          else (case map_of p ''sub'' of
                 Some (JStr user_id) \<Rightarrow>
                   (case user_get_by_id user_id d of
                      None \<Rightarrow> Inl (AuthenticationError ''User not found or inactive'')
                    | Some u \<Rightarrow>
                        if \<not> ur_is_active u then Inl (AuthenticationError ''User not found or inactive'')
                        else (case (case map_of p ''sv'' of None \<Rightarrow> Some 0 | Some v \<Rightarrow> json_num v) of
                               None \<Rightarrow> Inl (TypeError ''session version'')
                             | Some token_sv \<Rightarrow>
                                 if token_sv < ur_session_version u
                                 then Inl (AuthenticationError ''Session invalidated - please log in again'')
                                 else Inr (user_build_context u d)))
               | _ \<Rightarrow> Inl (ValueError ''badly formed hexadecimal UUID string'')))"

definition resolve_api_key_user :: "creds \<Rightarrow> string \<Rightarrow> db \<Rightarrow> error + user_context" where
  "resolve_api_key_user cr api_key d =
     (case tenant_verify_api_key cr api_key d of
        None \<Rightarrow> Inl (AuthenticationError ''Invalid API key'')
      | Some t \<Rightarrow> Inr
          \<lparr>uctx_user_id = ''00000000-0000-0000-0000-000000000000'', uctx_email = ''api@'' @ tr_slug t,
           uctx_display_name = ''API ('' @ tr_name t @ '')'', uctx_is_superadmin = False,
           uctx_totp_enabled = False, uctx_tenant_roles = [(tr_slug t, ADMIN)]\<rparr>)"

definition resolve_dev_bypass_user :: user_context where
  "resolve_dev_bypass_user =
     \<lparr>uctx_user_id = ''00000000-0000-0000-0000-ffffffffffff'', uctx_email = ''dev-bypass@localhost'',
      uctx_display_name = ''Dev Bypass (Claude Code)'', uctx_is_superadmin = True,
      uctx_totp_enabled = False, uctx_tenant_roles = []\<rparr>"

subsection \<open>The resolver\<close>

definition dev_token_of :: "request \<Rightarrow> string option" where
  "dev_token_of rq =
     (if truthy_str (map_of (rq_query rq) ''_dev_token'') then map_of (rq_query rq) ''_dev_token''
      else rq_header rq ''X-Dev-Token'')"

definition get_current_user ::
  "creds \<Rightarrow> jwt_api \<Rightarrow> app_settings \<Rightarrow> env \<Rightarrow> nat \<Rightarrow> request \<Rightarrow> db \<Rightarrow> error + (user_context option \<times> db)" where
  "get_current_user cr jw s e salt rq d =
     (let external = (\<lambda>email provider.
            case resolve_external_user cr s e salt (py_lower (py_strip email)) provider rq d of
              Inl x \<Rightarrow> Inl x | Inr (u, d') \<Rightarrow> Inr (Some u, d'));
          pure = (\<lambda>r. case r of Inl x \<Rightarrow> Inl x | Inr u \<Rightarrow> Inr (Some u, d));
          cf_email = rq_header rq ''Cf-Access-Authenticated-User-Email'';
          azure_email = rq_header rq ''X-MS-CLIENT-PRINCIPAL-NAME'';
          session_cookie = map_of (rq_cookies rq) ''session'';
          auth_header = rq_header rq ''Authorization'';
          api_key = rq_header rq ''X-API-Key''
      in if ''cloudflare'' \<in> set (trusted_providers s) \<and> truthy_str cf_email
         then external (the cf_email) ''cloudflare''
         else if ''azure'' \<in> set (trusted_providers s) \<and> truthy_str azure_email
         then external (the azure_email) ''azure''
         else if truthy_str session_cookie
         then pure (resolve_jwt_user jw (as_jwt s) (env_now e) (the session_cookie) d)
         else if truthy_str auth_header \<and> starts_with ''Bearer '' (the auth_header)
         then pure (resolve_jwt_user jw (as_jwt s) (env_now e) (drop 7 (the auth_header)) d)
         else if truthy_str api_key
         then pure (resolve_api_key_user cr (the api_key) d)
         else if dev_bypass_token s \<noteq> [] \<and> truthy_str (dev_token_of rq) \<and> the (dev_token_of rq) = dev_bypass_token s
         then Inr (Some resolve_dev_bypass_user, d)
         else Inr (None, d))"

definition require_auth :: "user_context option \<Rightarrow> error + user_context" where
  "require_auth u = (case u of None \<Rightarrow> Inl (AuthenticationError ''Authentication required'') | Some c \<Rightarrow> Inr c)"

definition require_superadmin :: "user_context \<Rightarrow> error + user_context" where
  "require_superadmin u =
     (if \<not> uctx_is_superadmin u then Inl (ForbiddenError ''Superadmin access required'') else Inr u)"

definition require_role :: "role_name \<Rightarrow> string option \<Rightarrow> user_context \<Rightarrow> error + user_context" where
  \<comment> \<open>\<open>slug\<close> is \<open>request.path_params.get("slug")\<close>.\<close>
  "require_role minimum slug u =
     (if uctx_is_superadmin u then Inr u
      else if \<not> truthy_str slug then Inl (ForbiddenError ''No tenant context'')
      else (case map_of (uctx_tenant_roles u) (the slug) of
             None \<Rightarrow> Inl (ForbiddenError (''Requires '' @ role_value minimum @ '' role for tenant '' @ quoted (the slug)))
           | Some r \<Rightarrow>
               if has_minimum_role r minimum then Inr u
               else Inl (ForbiddenError (''Requires '' @ role_value minimum @ '' role for tenant '' @ quoted (the slug)))))"

definition check_lockout_risk :: "creds \<Rightarrow> db \<Rightarrow> bool" where
  "check_lockout_risk cr d = user_has_local_password_superadmin cr d"

subsection \<open>Auth endpoints\<close>

definition api_login ::
  "creds \<Rightarrow> jwt_api \<Rightarrow> auth_cfg \<Rightarrow> env \<Rightarrow> string \<Rightarrow> string \<Rightarrow> request \<Rightarrow> db \<Rightarrow> (error + login_response) \<times> db" where
  "api_login cr jw cfg e email password rq d = login cr jw cfg e email password (client_ip rq) d"

definition initial_setup ::
  "creds \<Rightarrow> env \<Rightarrow> nat \<Rightarrow> string \<Rightarrow> string \<Rightarrow> db \<Rightarrow> error + (json \<times> db)" where
  "initial_setup cr e salt email password d =
     (if 0 < user_count d then Inl (AuthenticationError ''Setup already completed'')
      else (case user_create_superadmin cr e salt email password ''Admin'' d of
             Inl x \<Rightarrow> Inl x
           | Inr (u, d') \<Rightarrow> Inr (JObj [(''message'', JStr ''Superadmin created''), (''email'', JStr (ur_email u))], d')))"

definition totp_enable_ep ::
  "creds \<Rightarrow> env \<Rightarrow> (nat \<Rightarrow> string) \<Rightarrow> (nat \<Rightarrow> nat) \<Rightarrow> user_context \<Rightarrow> string \<Rightarrow> string \<Rightarrow> db \<Rightarrow> error + (string list \<times> db)" where
  "totp_enable_ep cr e tok salts current_user secret code d =
     enable_totp cr (env_now e) tok salts (uctx_user_id current_user) secret code (Some (users_totp_api e)) d"

definition totp_verify_ep ::
  "creds \<Rightarrow> jwt_api \<Rightarrow> auth_cfg \<Rightarrow> env \<Rightarrow> string \<Rightarrow> request \<Rightarrow> db \<Rightarrow> error + (token_response \<times> db)" where
  "totp_verify_ep cr jw cfg e code rq d =
     (let auth_header = (case rq_header rq ''Authorization'' of None \<Rightarrow> '''' | Some h \<Rightarrow> h)
      in if \<not> starts_with ''Bearer '' auth_header
         then Inl (AuthenticationError ''Partial token required in Authorization header'')
         else (case decode_token jw (env_now e) (drop 7 auth_header) of
                Inl _ \<Rightarrow> Inl (AuthenticationError ''Invalid or expired partial token'')
              | Inr p \<Rightarrow>
                  if \<not> truthy_json (map_of p ''totp_pending'')
                  then Inl (AuthenticationError ''Token is not a TOTP partial token'')
                  else if \<not> truthy_json (map_of p ''sub'')
                  then Inl (AuthenticationError ''Invalid token: no subject'')
                  else (case map_of p ''sub'' of
                         Some (JStr user_id) \<Rightarrow>
                           (case verify_totp cr (env_now e) user_id code (Some (users_totp_api e)) d of
                              Inl x \<Rightarrow> Inl x
                            | Inr (verified, d') \<Rightarrow>
                                if \<not> verified then Inl (AuthenticationError ''Invalid verification code'')
                                else Inr (build_token_response cfg
                                       (create_access_token jw cfg (env_now e) user_id None False 0), d'))
                       | _ \<Rightarrow> Inl (ValueError ''badly formed hexadecimal UUID string''))))"

definition totp_disable_ep ::
  "creds \<Rightarrow> env \<Rightarrow> user_context \<Rightarrow> string \<Rightarrow> db \<Rightarrow> error + db" where
  "totp_disable_ep cr e current_user code d =
     (case verify_totp cr (env_now e) (uctx_user_id current_user) code (Some (users_totp_api e)) d of
        Inl x \<Rightarrow> Inl x
      | Inr (verified, d') \<Rightarrow>
          if \<not> verified then Inl (AuthenticationError ''Invalid verification code'')
          else disable_totp (uctx_user_id current_user) (Some (users_totp_api e)) d')"

subsection \<open>Middleware\<close>

definition TOTP_EXEMPT_PREFIXES :: "string list" where
  "TOTP_EXEMPT_PREFIXES = [''/api/v1/auth/'', ''/health'', ''/login'', ''/setup-2fa'', ''/change-password'',
     ''/static/'', ''/sw.js'', ''/api/v1/admin/version'', ''/api/v1/admin/update-check'']"

definition totp_enforcement :: "jwt_api \<Rightarrow> time \<Rightarrow> request \<Rightarrow> db \<Rightarrow> json_response option" where
  \<comment> \<open>\<open>None\<close>: the request goes on; \<open>Some\<close>: answered here.  Exceptions inside let it go on.\<close>
  "totp_enforcement jw now rq d =
     (if list_ex (\<lambda>p. starts_with p (rq_path rq)) TOTP_EXEMPT_PREFIXES then None
      else let auth_header = (case rq_header rq ''Authorization'' of None \<Rightarrow> '''' | Some h \<Rightarrow> h)
           in if \<not> starts_with ''Bearer '' auth_header then None
              else if resolve ''require_totp'' None None d \<noteq> Inr (JBool True) then None
              else (case decode_token jw now (drop 7 auth_header) of
                     Inl _ \<Rightarrow> None
                   | Inr p \<Rightarrow>
                       if truthy_json (map_of p ''totp_pending'') then None
                       else (case map_of p ''sub'' of
                              Some (JStr user_id) \<Rightarrow>
                                (case user_get_by_id user_id d of
                                   None \<Rightarrow> None
                                 | Some u \<Rightarrow>
                                     if ur_totp_enabled u then None
                                     else Some \<lparr>jr_status = 403, jr_detail = ''TOTP setup required''\<rparr>)
                            | _ \<Rightarrow> None)))"

definition security_headers :: "bool option \<Rightarrow> (string \<times> string) list \<Rightarrow> (string \<times> string) list" where
  \<comment> \<open>The argument is \<open>settings.app_debug\<close>, \<open>None\<close> before the settings are loaded.\<close>
  "security_headers app_debug headers =
     (let base = fold (\<lambda>(k, v). dict_set k v)
            [(''X-Content-Type-Options'', ''nosniff''), (''X-Frame-Options'', ''DENY''), (''X-XSS-Protection'', ''0''),
             (''Referrer-Policy'', ''strict-origin-when-cross-origin''),
             (''Permissions-Policy'', ''camera=(), microphone=(), geolocation=()'')] headers
      in if app_debug = Some False
         then fold (\<lambda>(k, v). dict_set k v)
            [(''Strict-Transport-Security'', ''max-age=31536000; includeSubDomains''),
             (''Content-Security-Policy'', ''default-src 'self'; script-src 'self' https://cdn.jsdelivr.net https://unpkg.com; style-src 'self' 'unsafe-inline' https://cdn.jsdelivr.net https://unpkg.com; img-src 'self' data:; font-src 'self' https://cdn.jsdelivr.net; connect-src '' @ quoted ''self'')] base
         else base)"

subsection \<open>What the tokens carry\<close>

lemma access_payload_claims:
  "map_of (access_payload cfg now i None b sv) ''sub'' = Some (JStr i)"
  "map_of (access_payload cfg now i None b sv) ''sv'' = Some (JInt sv)"
  "map_of (access_payload cfg now i None b sv) ''iat'' = Some (JInt now)"
  "map_of (access_payload cfg now i None b sv) ''totp_pending'' = (if b then Some (JBool True) else None)"
  "map_of (access_payload cfg now i None b sv) ''exp'' =
     Some (JInt (now + minutes (if b then TOTP_PARTIAL_TOKEN_MINUTES else jwt_access_token_expire_minutes cfg)))"
  by (simp_all add: access_payload_def Let_def map_of_dict_set)

lemma decode_access:
  assumes "jwt_ok jw" and "tok = create_access_token jw cfg now i None b sv"
  obtains (expired) m where "decode_token jw now' tok = Inl (AuthenticationError m)"
      "to_second (now + minutes (if b then TOTP_PARTIAL_TOKEN_MINUTES else jwt_access_token_expire_minutes cfg)) < to_second now'"
  | (live) q where "decode_token jw now' tok = Inr q" "map_of q ''sub'' = Some (JStr i)"
      "map_of q ''sv'' = Some (JInt sv)" "map_of q ''iat'' = Some (JInt (to_second now))"
      "truthy_json (map_of q ''totp_pending'') = b"
proof -
  let ?p = "access_payload cfg now i None b sv"
  let ?x = "now + minutes (if b then TOTP_PARTIAL_TOKEN_MINUTES else jwt_access_token_expire_minutes cfg)"
  have ok: "if to_second now' \<le> to_second ?x
      then \<exists>q. jw_decode jw now' (jw_encode jw ?p) = Inr q \<and>
        (\<forall>k. k \<noteq> ''exp'' \<and> k \<noteq> ''iat'' \<longrightarrow> map_of q k = map_of ?p k) \<and>
        map_of q ''iat'' = (case map_of ?p ''iat'' of Some (JInt t) \<Rightarrow> Some (JInt (to_second t)) | v \<Rightarrow> v)
      else \<exists>m. jw_decode jw now' (jw_encode jw ?p) = Inl m"
    using assms(1) access_payload_claims(5) [of cfg now i b sv] unfolding jwt_ok_def by blast
  show thesis
  proof (cases "to_second now' \<le> to_second ?x")
    case True
    with ok obtain q where q: "jw_decode jw now' (jw_encode jw ?p) = Inr q"
      "\<And>k. k \<noteq> ''exp'' \<Longrightarrow> k \<noteq> ''iat'' \<Longrightarrow> map_of q k = map_of ?p k"
      "map_of q ''iat'' = Some (JInt (to_second now))"
      by (auto simp: access_payload_claims)
    show thesis
      by (rule live [of q])
        (simp_all add: assms(2) create_access_token_def decode_token_def q access_payload_claims truthy_json_def)
  next
    case False
    with ok obtain m where "jw_decode jw now' (jw_encode jw ?p) = Inl m" by auto
    with False show thesis
      by (intro expired [of "''Invalid token: '' @ m"])
        (simp_all add: assms(2) create_access_token_def decode_token_def)
  qed
qed

text \<open>
  C2: A token resolves to a user only when it decodes, is not a partial TOTP token, is within the idle
  timeout, names an active account, and carries at least that account's current session version; the
  context is then the account's own.
\<close>

theorem jwt_user_sound:
  assumes "resolve_jwt_user jw cfg now tok d = Inr ctx"
  shows "\<exists>p u sv. decode_token jw now tok = Inr p \<and> \<not> truthy_json (map_of p ''totp_pending'') \<and>
     \<not> session_expired cfg now p d \<and> map_of p ''sub'' = Some (JStr (u_id u)) \<and>
     get_by u_id (u_id u) (users d) = Some u \<and> u_is_active u \<and>
     (case map_of p ''sv'' of None \<Rightarrow> Some 0 | Some v \<Rightarrow> json_num v) = Some sv \<and> u_session_version u \<le> sv \<and>
     ctx = user_build_context (user_to_read u) d"
  using assms get_by_SomeD [of u_id _ "users d"]
  by (fastforce simp: resolve_jwt_user_def user_get_by_id_def user_repo_get_by_id_def
      split: sum.splits if_splits option.splits json.splits)

lemma login_reply_sel:
  "lr_access_token (login_reply jw cfg now u) = (if ur_totp_enabled u then None
     else Some (create_access_token jw cfg now (ur_id u) None False (ur_session_version u)))"
  "lr_partial_token (login_reply jw cfg now u) = (if ur_totp_enabled u
     then Some (create_access_token jw cfg now (ur_id u) None True (ur_session_version u)) else None)"
  by (simp_all add: login_reply_def)

lemma login_get_user: "get_by u_id i (users (snd (login cr jw cfg e em pw ip d))) = get_by u_id i (users d)"
  by simp


text \<open>A token whose version is below the account's is refused at any time.\<close>

lemma low_version_refused:
  assumes "jwt_ok jw" and "tok = create_access_token jw cfg now i None b sv"
    and "get_by u_id i (users d) = Some u" and "sv < u_session_version u"
  shows "\<exists>x. resolve_jwt_user jw cfg now' tok d = Inl x"
  using assms(1,2)
proof (cases rule: decode_access [where now' = now'])
  case (expired m)
  then show ?thesis by (simp add: resolve_jwt_user_def)
next
  case (live q)
  then show ?thesis
    using assms(3,4) by (auto simp: resolve_jwt_user_def user_get_by_id_def user_repo_get_by_id_def json_num_def)
qed

text \<open>
  C3: After a password change no token issued before it is ever accepted again, whatever the users
  service does later and however long the token had to live.
\<close>

theorem old_tokens_revoked:
  assumes "jwt_ok jw" and "users_unique d"
    and user: "get_by u_id i (users d) = Some u"
    and "user_change_password cr e salt i old new ctx d = Inr d1" and "users_run d1 d2"
  shows "\<exists>x. resolve_jwt_user jw cfg now' (create_access_token jw cfg now i None b (u_session_version u)) d2 = Inl x"
proof -
  from assms(4) obtain f where f: "f = touched (touch_user (env_now e)) (apply_user_patch (no_user_patch
           \<lparr>up_password_hash := Some (hash_password cr salt new), up_session_version := Some (u_session_version u + 1)\<rparr>))"
    and d1: "users d1 = users (user_upd i f d)"
    using user by (elim change_password_ok) auto
  then have u1: "get_by u_id i (users d1) = Some (f u)" using user by (simp add: get_user_upd)
  have "users_unique (user_upd i f d)" using assms(2) by (simp add: f user_upd_unique)
  then have "users_unique d1" using d1 by (simp add: users_unique_def)
  from users_run_versions [OF assms(5) this] u1 obtain u2 where
    "get_by u_id i (users d2) = Some u2" "u_session_version (f u) \<le> u_session_version u2" by blast
  moreover have "u_session_version (f u) = u_session_version u + 1" by (simp add: f)
  ultimately show ?thesis by (intro low_version_refused [OF assms(1) refl]) auto
qed

text \<open>
  An account with TOTP whose session version is above 0, after a password change, say, can never
  finish a login: the access token that \<open>/auth/totp/verify\<close> hands out carries version 0 and is refused
  at any time.
\<close>

theorem totp_verify_token_refused:
  assumes "jwt_ok jw" and "totp_verify_ep cr jw cfg e code rq d = Inr (reply, d')"
    and "decode_token jw (env_now e) (drop 7 (the (rq_header rq ''Authorization''))) = Inr p"
    and "map_of p ''sub'' = Some (JStr i)" and "users_unique d"
    and "get_by u_id i (users d) = Some u" and "0 < u_session_version u"
  shows "\<exists>x. resolve_jwt_user jw cfg now' (tk_access_token reply) d' = Inl x"
proof -
  from assms(2-4) have tok: "tk_access_token reply = create_access_token jw cfg (env_now e) i None False 0"
    and v: "verify_totp cr (env_now e) i code (Some (users_totp_api e)) d = Inr (True, d')"
    by (auto simp: totp_verify_ep_def build_token_response_def starts_with_iff
        split: option.splits if_splits sum.splits)
  from v have "d' = d \<or> (\<exists>c. d' = user_consume_backup_code e i c d)"
    by (auto simp: verify_totp_def users_totp_api_def split: prod.splits if_splits option.splits json.splits sum.splits)
  then have "users_run d d'" by (auto intro: run_refl run_step [OF run_refl step_consume])
  from users_run_versions [OF this assms(5)] assms(6) obtain u' where
    u': "get_by u_id i (users d') = Some u'" "u_session_version u \<le> u_session_version u'" by blast
  then show ?thesis using assms(7) unfolding tok by (intro low_version_refused [OF assms(1) refl u'(1)]) simp
qed

text \<open>
  A request passes \<open>require_role\<close> exactly when the user is a superadmin or holds, in the tenant the
  path names, a role at least as high as the one required.
\<close>

theorem require_role_iff:
  "require_role minimum slug u = Inr u \<longleftrightarrow>
     uctx_is_superadmin u \<or>
     (\<exists>s r. slug = Some s \<and> s \<noteq> [] \<and> map_of (uctx_tenant_roles u) s = Some r \<and> minimum \<le> r)"
  by (cases slug) (auto simp: require_role_def truthy_str_def has_minimum_role_le split: option.splits)

lemma require_role_no_slug:
  "\<not> uctx_is_superadmin u \<Longrightarrow> require_role minimum None u = Inl (ForbiddenError ''No tenant context'')"
  by (simp add: require_role_def truthy_str_def)

text \<open>The type claim is not looked at: a refresh token works as an access token of version 0.\<close>

lemma refresh_token_is_accepted:
  assumes "jwt_ok jw" and "get_by u_id i (users d) = Some u" and "u_is_active u" and "u_session_version u \<le> 0"
    and "i \<noteq> []" and "to_second now' \<le> to_second (now + days (jwt_refresh_token_expire_days cfg))"
    and "now' - seconds (to_second now) \<le> minutes (session_timeout_minutes cfg d)"
  shows "resolve_jwt_user jw cfg now' (fst (create_refresh_token_value jw cfg now i)) d =
           Inr (user_build_context (user_to_read u) d)"
proof -
  let ?p = "refresh_payload cfg now i"
  have p: "map_of ?p ''sub'' = Some (JStr i)" "map_of ?p ''sv'' = None" "map_of ?p ''totp_pending'' = None"
    "map_of ?p ''iat'' = Some (JInt now)" "map_of ?p ''exp'' = Some (JInt (now + days (jwt_refresh_token_expire_days cfg)))"
    by (simp_all add: refresh_payload_def)
  have ok: "if to_second now' \<le> to_second (now + days (jwt_refresh_token_expire_days cfg))
      then \<exists>q. jw_decode jw now' (jw_encode jw ?p) = Inr q \<and>
        (\<forall>k. k \<noteq> ''exp'' \<and> k \<noteq> ''iat'' \<longrightarrow> map_of q k = map_of ?p k) \<and>
        map_of q ''iat'' = (case map_of ?p ''iat'' of Some (JInt t) \<Rightarrow> Some (JInt (to_second t)) | v \<Rightarrow> v)
      else \<exists>m. jw_decode jw now' (jw_encode jw ?p) = Inl m"
    using assms(1) p(5) unfolding jwt_ok_def by blast
  obtain q where q0: "jw_decode jw now' (jw_encode jw ?p) = Inr q"
    "\<And>k. k \<noteq> ''exp'' \<Longrightarrow> k \<noteq> ''iat'' \<Longrightarrow> map_of q k = map_of ?p k"
    "map_of q ''iat'' = (case map_of ?p ''iat'' of Some (JInt t) \<Rightarrow> Some (JInt (to_second t)) | v \<Rightarrow> v)"
    using ok assms(6) by (simp only: if_True) blast
  then have q: "jw_decode jw now' (jw_encode jw ?p) = Inr q" "map_of q ''sub'' = Some (JStr i)"
    "map_of q ''sv'' = None" "map_of q ''totp_pending'' = None" "map_of q ''iat'' = Some (JInt (to_second now))"
    by (simp_all add: p)
  then show ?thesis
    using assms(2-5,7)
    by (simp add: resolve_jwt_user_def decode_token_def create_refresh_token_value_def truthy_json_def
        session_expired_def json_num_def user_get_by_id_def user_repo_get_by_id_def)
qed

text \<open>A deactivated account still authenticates through a trusted identity provider.\<close>

lemma external_ignores_is_active:
  assumes "get_by u_email email (users d) = Some u" and "\<not> u_is_active u" and "admin_email s = []"
  shows "resolve_external_user cr s e salt email provider rq d = Inr (user_build_context (user_to_read u) d, d)"
  using assms by (simp add: resolve_external_user_def user_get_by_email_def user_repo_get_by_email_def is_admin_email_def)

text \<open>
  A superadmin set up with an email that is not already stripped and lower-cased can never log in
  with it, or with any other spelling: the account is stored as typed and looked up normalised.
\<close>

theorem setup_mixed_case_locked_out:
  assumes "initial_setup cr e salt em pw d = Inr (j, d')" and "norm_email em \<noteq> em"
  shows "fst (login cr jw cfg e' em' pw' ip d') = Inl login_error"
proof -
  from assms(1) have "users d' = add_row (new_user (env_ids e 0) (env_now e) em (hash_password cr salt pw) ''Admin'' True) []"
    by (auto simp: initial_setup_def user_count_def user_repo_count_all_def user_create_superadmin_def
        user_repo_get_by_email_def dest!: user_repo_create_ok split: if_splits sum.splits)
  moreover have "norm_email em' \<noteq> em"
    using assms(2) by (auto simp: norm_email_def)
  ultimately have "get_by u_email (norm_email em') (users d') = None"
    by (simp add: get_by_add_row)
  then have "\<not> login_accepts cr e' em' pw' d' u" for u by (simp add: login_accepts_def)
  then show ?thesis by (cases rule: login_cases [of cr jw cfg e' em' pw' ip d']) auto
qed

subsection \<open>Concrete instances\<close>

definition demo_request :: "string \<Rightarrow> request" where
  "demo_request token = \<lparr>rq_path = ''/api/v1/x'', rq_headers = [(''authorization'', ''Bearer '' @ token)], rq_cookies = [],
     rq_query = [], rq_slug = Some ''acme-corp'', rq_client = Some ''::1''\<rparr>"

lemma demo_login_run:
  obtains r d' where "login demo_creds demo_jwt demo_cfg demo_env '' A@x '' ''pw'' ''::1'' demo_login_db = (Inr r, d')"
    "lr_access_token r = Some (create_access_token demo_jwt demo_cfg 1000 ''u1'' None False 0)" "settings d' = []"
proof (cases rule: login_cases [of demo_creds demo_jwt demo_cfg demo_env "'' A@x ''" "''pw''" "''::1''" demo_login_db])
  case refused
  with demo_login_accepts show thesis by blast
next
  case (accepted u)
  have "u = demo_user ''u1'' ''a@x''" using accepted(1) demo_login_accepts by (simp add: login_accepts_def)
  with accepted(2) show thesis
    by (intro that) (auto simp: login_reply_sel demo_user_def new_user_def user_to_read_def demo_env_def
        accept_db_def record_login_attempt_def demo_login_db_def)
qed

lemma demo_login_users: "users demo_login_db = users demo_users_db" "users_unique demo_login_db"
  using demo_users_unique(1) by (simp_all add: demo_login_db_def users_unique_def)

lemma demo_timeout: "settings d = [] \<Longrightarrow> session_timeout_minutes cfg d = 15"
  by (simp add: session_timeout_minutes_def resolve_def settings_get_def default_of_def defaults_def GlobalSettings_def
      fld_def json_num_def)


theorem jwt_user_sound_witness:
  "\<exists>d' u. get_by u_id (u_id u) (users d') = Some u \<and> u_is_active u \<and>
     resolve_jwt_user demo_jwt demo_cfg 5000000 (create_access_token demo_jwt demo_cfg 1000 ''u1'' None False 0) d' =
       Inr (user_build_context (user_to_read u) d')"
proof -
  have live: "to_second 5000000 \<le> to_second (1000 + minutes (jwt_access_token_expire_minutes demo_cfg))"
    by (simp add: to_second_def demo_cfg_def minutes_def seconds_def)
  have "\<exists>ctx. resolve_jwt_user demo_jwt demo_cfg 5000000 (create_access_token demo_jwt demo_cfg 1000 ''u1'' None False 0) demo_users_db = Inr ctx"
  proof (cases rule: decode_access [OF demo_jwt_ok refl, where cfg = demo_cfg and now = 1000 and i = "''u1''" and b = False and sv = 0 and now' = 5000000])
    case 1
    with live show ?thesis by simp
  next
    case (2 q)
    then show ?thesis
      using demo_u1 demo_timeout [OF demo_settings_empty]
      by (simp add: resolve_jwt_user_def truthy_json_def [of "Some (JStr _)"] session_expired_def json_num_def
          user_get_by_id_def user_repo_get_by_id_def demo_user_def to_second_def minutes_def seconds_def)
  qed
  then obtain ctx where c: "resolve_jwt_user demo_jwt demo_cfg 5000000
      (create_access_token demo_jwt demo_cfg 1000 ''u1'' None False 0) demo_users_db = Inr ctx" by blast
  from jwt_user_sound [OF c] c show ?thesis by blast
qed

theorem old_tokens_revoked_witness:
  "\<exists>d1 x. user_change_password demo_creds demo_env 0 ''u1'' ''pw'' ''new'' demo_ctx demo_users_db = Inr d1 \<and>
     resolve_jwt_user demo_jwt demo_cfg 5000000 (create_access_token demo_jwt demo_cfg 1000 ''u1'' None False 0) d1 = Inl x"
proof -
  obtain d1 where ch: "user_change_password demo_creds demo_env 0 ''u1'' ''pw'' ''new'' demo_ctx demo_users_db = Inr d1"
    by (rule demo_password_change)
  have "u_session_version (demo_user ''u1'' ''a@x'') = 0" by (simp add: demo_user_def)
  with old_tokens_revoked [OF demo_jwt_ok demo_users_unique(1) demo_u1 ch run_refl, of demo_cfg 5000000 1000 False] ch
  show ?thesis by auto
qed

definition demo_totp_db :: db where
  "demo_totp_db = demo_users_db\<lparr>users := [(demo_user ''u1'' ''a@x'')\<lparr>u_totp_enabled := True,
     u_totp_secret := Some ''123456'', u_session_version := 1\<rparr>]\<rparr>"

theorem totp_verify_token_refused_witness:
  "\<exists>reply d' x. totp_verify_ep demo_creds demo_jwt demo_cfg demo_env ''123456''
       (demo_request (create_access_token demo_jwt demo_cfg 1000 ''u1'' None True 1)) demo_totp_db = Inr (reply, d') \<and>
     resolve_jwt_user demo_jwt demo_cfg 2000 (tk_access_token reply) d' = Inl x"
proof -
  let ?tok = "create_access_token demo_jwt demo_cfg 1000 ''u1'' None True 1"
  let ?rq = "demo_request ?tok"
  have hd: "rq_header ?rq ''Authorization'' = Some (''Bearer '' @ ?tok)"
  proof -
    have "py_lower ''Authorization'' = ''authorization''" by code_simp
    then show ?thesis by (simp add: rq_header_def demo_request_def)
  qed
  have live: "to_second 1000 \<le> to_second (1000 + minutes TOTP_PARTIAL_TOKEN_MINUTES)"
    by (simp add: to_second_def TOTP_PARTIAL_TOKEN_MINUTES_def minutes_def seconds_def)
  obtain q where q: "decode_token demo_jwt 1000 ?tok = Inr q" "map_of q ''sub'' = Some (JStr ''u1'')"
    "truthy_json (map_of q ''totp_pending'')"
    by (cases rule: decode_access [OF demo_jwt_ok refl, where cfg = demo_cfg and now = 1000 and i = "''u1''" and b = True and sv = 1 and now' = 1000]) (use live in auto)
  have u: "get_by u_id ''u1'' (users demo_totp_db) = Some ((demo_user ''u1'' ''a@x'')\<lparr>u_totp_enabled := True,
     u_totp_secret := Some ''123456'', u_session_version := 1\<rparr>)"
    by (simp add: demo_totp_db_def demo_user_def)
  have code: "verify_totp_code demo_creds 1000 ''123456'' ''123456''" by code_simp
  have now: "env_now demo_env = 1000" by (simp add: demo_env_def)
  have run: "totp_verify_ep demo_creds demo_jwt demo_cfg demo_env ''123456'' ?rq demo_totp_db =
      Inr (build_token_response demo_cfg (create_access_token demo_jwt demo_cfg 1000 ''u1'' None False 0), demo_totp_db)"
    using q u code
    by (simp add: totp_verify_ep_def hd now starts_with_iff truthy_json_def [of "Some (JStr _)"] verify_totp_def
        users_totp_api_def user_get_totp_fields_def user_repo_get_by_id_def truthy_str_def)
  have dec: "decode_token demo_jwt (env_now demo_env) (drop 7 (the (rq_header ?rq ''Authorization''))) = Inr q"
    using q(1) by (simp add: hd now)
  have uniq: "users_unique demo_totp_db" by (simp add: users_unique_def demo_totp_db_def)
  from totp_verify_token_refused [OF demo_jwt_ok run dec q(2) uniq u, of 2000] run show ?thesis by auto
qed

theorem setup_mixed_case_locked_out_witness:
  "\<exists>j d'. initial_setup demo_creds demo_env 0 ''Admin@x'' ''pw'' empty_db = Inr (j, d') \<and>
     fst (login demo_creds demo_jwt demo_cfg demo_env ''Admin@x'' ''pw'' ''::1'' d') = Inl login_error"
proof -
  obtain j d' where run: "initial_setup demo_creds demo_env 0 ''Admin@x'' ''pw'' empty_db = Inr (j, d')"
    by (simp add: initial_setup_def user_count_def user_repo_count_all_def user_create_superadmin_def
        user_repo_get_by_email_def user_repo_create_def flush_checked_def users_unique_def empty_db_def Let_def add_row_def)
  have "norm_email ''Admin@x'' \<noteq> ''Admin@x''" by code_simp
  from setup_mixed_case_locked_out [OF run this] run show ?thesis by blast
qed

end
