(* ===== verification/Items.thy ===== *)
theory Items
  imports Users
begin

section \<open>Items and search\<close>

text \<open>
  \<open>services/items\<close>, the example domain service, and \<open>services/search\<close>.  Every operation takes the
  tenant it acts for; \<open>items_step\<close> are its state changes on behalf of one tenant.  PostgreSQL's full-text
  matching and ranking is the database's: the parameter \<open>pg\<close>, \<open>None\<close> on SQLite.
\<close>

record item_read =
  ir_id :: string
  ir_tenant_id :: string
  ir_name :: string
  ir_description :: "string option"
  ir_is_active :: bool
  ir_created_by :: "string option"
  ir_created_at :: time
  ir_updated_at :: time

definition item_to_read :: "item \<Rightarrow> item_read" where
  "item_to_read i = \<lparr>ir_id = it_id i, ir_tenant_id = it_tenant_id i, ir_name = it_name i,
     ir_description = it_description i, ir_is_active = it_is_active i, ir_created_by = it_created_by i,
     ir_created_at = it_created_at i, ir_updated_at = it_updated_at i\<rparr>"

record item_create =
  ic_name :: string
  ic_description :: "string option"

record item_update =
  iu_name :: "string field"
  iu_description :: "string field"
  iu_is_active :: "bool field"

record item_filter = pagination +
  if_is_active :: "bool option"
  if_search :: "string option"

subsection \<open>Repository\<close>

definition search_vector_of :: "string \<Rightarrow> string option \<Rightarrow> string" where
  "search_vector_of name description =
     join_with '' '' (name # (if truthy_str description then [the description] else []))"

definition update_search_vector :: "item \<Rightarrow> item" where
  "update_search_vector i = i\<lparr>it_search_vector := Some (search_vector_of (it_name i) (it_description i))\<rparr>"

definition items_unique :: "db \<Rightarrow> bool" where
  \<comment> \<open>The primary key.\<close>
  "items_unique d \<longleftrightarrow> distinct (map it_id (items d))"

definition item_repo_create ::
  "env \<Rightarrow> string \<Rightarrow> string \<Rightarrow> string option \<Rightarrow> string option \<Rightarrow> db \<Rightarrow> error + (item \<times> db)" where
  "item_repo_create e tenant_id name description created_by d =
     (let i = update_search_vector \<lparr>it_id = env_ids e 0, it_tenant_id = tenant_id, it_name = name,
           it_description = description, it_is_active = True, it_created_by = created_by,
           it_search_vector = None, it_created_at = env_now e, it_updated_at = env_now e\<rparr>
      in case flush_checked items_unique (d\<lparr>items := add_row i (items d)\<rparr>) of
           Inl x \<Rightarrow> Inl x | Inr d' \<Rightarrow> Inr (i, d'))"

definition item_repo_get_by_id :: "string \<Rightarrow> db \<Rightarrow> item option" where
  "item_repo_get_by_id i d = get_by it_id i (items d)"

definition opt_ilike :: "string \<Rightarrow> string option \<Rightarrow> bool" where
  \<comment> \<open>\<open>NULL ILIKE p\<close> is not true.\<close>
  "opt_ilike pat v = (case v of None \<Rightarrow> False | Some s \<Rightarrow> sql_ilike pat s)"

definition item_matches :: "string \<Rightarrow> item_filter \<Rightarrow> item \<Rightarrow> bool" where
  "item_matches tenant_id filters i \<longleftrightarrow> it_tenant_id i = tenant_id \<and>
     (case if_is_active filters of None \<Rightarrow> True | Some b \<Rightarrow> it_is_active i = b) \<and>
     (case if_search filters of None \<Rightarrow> True
      | Some s \<Rightarrow> s = [] \<or> sql_ilike (''%'' @ s @ ''%'') (it_name i) \<or> opt_ilike (''%'' @ s @ ''%'') (it_description i))"

definition item_repo_list :: "string \<Rightarrow> item_filter \<Rightarrow> db \<Rightarrow> item list \<times> nat" where
  "item_repo_list tenant_id filters d =
     (let hits = filter (item_matches tenant_id filters) (items d)
      in (paginate filters (sort_key it_name hits), length hits))"

definition field_or_null :: "'a \<Rightarrow> 'a field \<Rightarrow> 'a option" where
  \<comment> \<open>\<open>setattr\<close> of a dumped field on a NOT NULL column: \<open>None\<close> when it would store NULL.\<close>
  "field_or_null old f = (case f of Unset \<Rightarrow> Some old | Given v \<Rightarrow> v)"

definition item_repo_update :: "env \<Rightarrow> item \<Rightarrow> item_update \<Rightarrow> db \<Rightarrow> error + (item \<times> db)" where
  \<comment> \<open>Unlike the other repositories every keyword is set, \<open>None\<close> too.\<close>
  "item_repo_update e i data d =
     (case (field_or_null (it_name i) (iu_name data), field_or_null (it_is_active i) (iu_is_active data)) of
        (Some name, Some active) \<Rightarrow>
          (let f = touched (touch_item (env_now e)) (\<lambda>x. update_search_vector
                 (x\<lparr>it_name := name, it_is_active := active,
                   it_description := (case iu_description data of Unset \<Rightarrow> it_description i | Given v \<Rightarrow> v)\<rparr>))
           in Inr (f i, d\<lparr>items := update_by it_id (it_id i) f (items d)\<rparr>))
      | _ \<Rightarrow> Inl IntegrityError)"

definition item_repo_delete :: "item \<Rightarrow> db \<Rightarrow> db" where
  "item_repo_delete i d = d\<lparr>items := delete_by it_id (it_id i) (items d)\<rparr>"

definition item_repo_list_older_than :: "string \<Rightarrow> time \<Rightarrow> db \<Rightarrow> item list" where
  "item_repo_list_older_than tenant_id cutoff d =
     sort_key it_created_at (filter (\<lambda>i. it_tenant_id i = tenant_id \<and> it_created_at i < cutoff) (items d))"

type_synonym pg_search = "string \<Rightarrow> item list \<Rightarrow> (item \<times> string option) list"

definition search_fts_pg :: "pg_search \<Rightarrow> string \<Rightarrow> string \<Rightarrow> nat \<Rightarrow> db \<Rightarrow> (item \<times> string) list" where
  "search_fts_pg pg tenant_id query lim d =
     map (\<lambda>(i, h). (i, case h of None \<Rightarrow> '''' | Some s \<Rightarrow> s))
       (take lim (pg query (filter (\<lambda>i. it_tenant_id i = tenant_id) (items d))))"

definition search_fts_sqlite :: "string \<Rightarrow> string \<Rightarrow> nat \<Rightarrow> db \<Rightarrow> (item \<times> string) list" where
  "search_fts_sqlite tenant_id query lim d =
     (let words = py_words query []
      in if words = [] then []
         else map (\<lambda>i. (i, it_name i)) (take lim (filter (\<lambda>i. it_tenant_id i = tenant_id \<and>
                list_all (\<lambda>w. sql_ilike (''%'' @ w @ ''%'') (it_name i) \<or> opt_ilike (''%'' @ w @ ''%'') (it_description i)) words)
              (items d))))"

definition item_repo_search_fts :: "pg_search option \<Rightarrow> string \<Rightarrow> string \<Rightarrow> nat \<Rightarrow> db \<Rightarrow> (item \<times> string) list" where
  "item_repo_search_fts pg tenant_id query lim d =
     (case pg of Some f \<Rightarrow> search_fts_pg f tenant_id query lim d | None \<Rightarrow> search_fts_sqlite tenant_id query lim d)"

subsection \<open>Service\<close>

definition item_audit :: "audit_context \<Rightarrow> string \<Rightarrow> string \<Rightarrow> string \<Rightarrow> json option \<Rightarrow> audit_create" where
  "item_audit ctx tenant_id action target detail =
     \<lparr>ac_tenant_id = Some tenant_id, ac_user_id = ctx_user_id ctx, ac_action = action, ac_target_type = ''item'',
      ac_target_id = target, ac_detail = detail, ac_ip_address = ctx_ip_address ctx\<rparr>"

definition item_create_svc :: "env \<Rightarrow> string \<Rightarrow> item_create \<Rightarrow> audit_context \<Rightarrow> db \<Rightarrow> error + (item_read \<times> db)" where
  "item_create_svc e tenant_id data ctx d =
     (case item_repo_create e tenant_id (ic_name data) (ic_description data) (Some (ctx_user_id ctx)) d of
        Inl x \<Rightarrow> Inl x
      | Inr (i, d1) \<Rightarrow> Inr (item_to_read i, audit_log_entry e (env_ids e 1)
            (item_audit ctx tenant_id ''item.create'' (it_id i) (Some (JObj [(''name'', JStr (ic_name data))]))) d1))"

definition item_accessible :: "string \<Rightarrow> string \<Rightarrow> db \<Rightarrow> error + item" where
  \<comment> \<open>The lookup and tenant check shared by get, update and delete.\<close>
  "item_accessible item_id tenant_id d =
     (case item_repo_get_by_id item_id d of
        None \<Rightarrow> Inl (NotFoundError ''Item'' item_id)
      | Some i \<Rightarrow> if it_tenant_id i \<noteq> tenant_id then Inl (ForbiddenError ''Item not accessible'') else Inr i)"

definition item_get :: "env \<Rightarrow> string \<Rightarrow> string \<Rightarrow> audit_context option \<Rightarrow> db \<Rightarrow> error + (item_read \<times> db)" where
  "item_get e item_id tenant_id ctx d =
     (case item_accessible item_id tenant_id d of
        Inl x \<Rightarrow> Inl x
      | Inr i \<Rightarrow> Inr (item_to_read i,
          (case ctx of None \<Rightarrow> d
           | Some c \<Rightarrow> log_data_access e (env_ids e 0) (ctx_user_id c) ''item'' item_id ''view'' (Some tenant_id)
                        (ctx_ip_address c) d)))"

definition item_list :: "env \<Rightarrow> string \<Rightarrow> item_filter \<Rightarrow> audit_context option \<Rightarrow> db \<Rightarrow> item_read paginated \<times> db" where
  "item_list e tenant_id filters ctx d =
     (let (records, total) = item_repo_list tenant_id filters d
      in (\<lparr>pr_items = map item_to_read records, pr_total = total, pr_page = page filters, pr_per_page = per_page filters\<rparr>,
          (case ctx of None \<Rightarrow> d
           | Some c \<Rightarrow> log_data_access e (env_ids e 0) (ctx_user_id c) ''item'' ''list'' ''list'' (Some tenant_id)
                        (ctx_ip_address c) d)))"

definition item_updates :: "item_update \<Rightarrow> (string \<times> json) list" where
  "item_updates data = dump_field ''name'' JStr (iu_name data) @ dump_field ''description'' JStr (iu_description data) @
     dump_field ''is_active'' JBool (iu_is_active data)"

definition item_update_svc ::
  "env \<Rightarrow> string \<Rightarrow> string \<Rightarrow> item_update \<Rightarrow> audit_context \<Rightarrow> db \<Rightarrow> error + (item_read \<times> db)" where
  "item_update_svc e item_id tenant_id data ctx d =
     (case item_accessible item_id tenant_id d of
        Inl x \<Rightarrow> Inl x
      | Inr i \<Rightarrow>
          (case item_repo_update e i data d of
             Inl x \<Rightarrow> Inl x
           | Inr (i', d1) \<Rightarrow> Inr (item_to_read i', audit_log_entry e (env_ids e 0)
                (item_audit ctx tenant_id ''item.update'' item_id (Some (JObj (item_updates data)))) d1)))"

definition item_delete :: "env \<Rightarrow> string \<Rightarrow> string \<Rightarrow> audit_context \<Rightarrow> db \<Rightarrow> error + db" where
  "item_delete e item_id tenant_id ctx d =
     (case item_accessible item_id tenant_id d of
        Inl x \<Rightarrow> Inl x
      | Inr i \<Rightarrow> Inr (audit_log_entry e (env_ids e 0)
          (item_audit ctx tenant_id ''item.delete'' item_id None) (item_repo_delete i d)))"

record search_hit =
  sh_item :: item_read
  sh_highlight :: "string option"

definition item_search_fts :: "pg_search option \<Rightarrow> string \<Rightarrow> string \<Rightarrow> nat \<Rightarrow> db \<Rightarrow> search_hit list" where
  "item_search_fts pg tenant_id query lim d =
     map (\<lambda>(i, h). \<lparr>sh_item = item_to_read i, sh_highlight = (if h = '''' then None else Some h)\<rparr>)
       (item_repo_search_fts pg tenant_id query lim d)"

record retention_report =
  rr_tenant_id :: string
  rr_retention_days :: int
  rr_cutoff_date :: time
  rr_affected_count :: nat
  rr_affected_items :: "item_read list"

definition check_retention :: "time \<Rightarrow> string \<Rightarrow> int \<Rightarrow> db \<Rightarrow> retention_report" where
  "check_retention now tenant_id retention_days d =
     (let cutoff = now - days retention_days; old = item_repo_list_older_than tenant_id cutoff d
      in \<lparr>rr_tenant_id = tenant_id, rr_retention_days = retention_days, rr_cutoff_date = cutoff,
          rr_affected_count = length old, rr_affected_items = map item_to_read old\<rparr>)"

subsection \<open>Search\<close>

record search_item =
  si_id :: "string option"
  si_title :: string
  si_subtitle :: "string option"
  si_url :: string
  si_meta :: "(string \<times> json) list"
  si_highlight :: "string option"

record search_results =
  sr_query :: string
  sr_results :: "(string \<times> search_item list) list"
  sr_total :: nat
  sr_items :: "search_item list"

definition PER_CATEGORY :: nat where "PER_CATEGORY = 5"

definition SETTINGS_REGISTRY :: "(string \<times> string \<times> string) list" where
  "SETTINGS_REGISTRY =
    [(''tenants'', ''Manage tenants'', ''/admin/tenants''),
     (''users'', ''Manage user accounts and roles'', ''/admin/users''),
     (''audit'', ''View audit log'', ''/admin/audit''),
     (''platform settings'', ''Platform authentication providers'', ''/admin/settings#platform''),
     (''security settings'', ''Session timeout and password policy'', ''/admin/settings#security''),
     (''branding settings'', ''Application name and branding'', ''/admin/settings#branding''),
     (''operations settings'', ''Data retention policy'', ''/admin/settings#operations''),
     (''communication settings smtp'', ''SMTP email configuration'', ''/admin/settings#communication''),
     (''tenant general settings retention notification'', ''Tenant retention and notification email'', ''/c/{slug}/settings#general''),
     (''user display settings theme timezone'', ''Display theme and timezone preferences'', ''/settings#display''),
     (''user preferences settings page size default tenant'', ''Default workspace and pagination settings'', ''/settings#preferences''),
     (''user notification settings email'', ''Email notification preferences'', ''/settings#notifications''),
     (''items'', ''View items'', ''/c/{slug}/items''),
     (''dashboard'', ''View tenant dashboard'', ''/c/{slug}/dashboard'')]"

definition search_items :: "pg_search option \<Rightarrow> string \<Rightarrow> string \<Rightarrow> nat \<Rightarrow> db \<Rightarrow> search_item list" where
  \<comment> \<open>The doubled braces of the f-string leave a literal \<open>{slug}\<close> in the URL.\<close>
  "search_items pg tenant_id q lim d =
     map (\<lambda>h. \<lparr>si_id = Some (ir_id (sh_item h)), si_title = ir_name (sh_item h), si_subtitle = ir_description (sh_item h),
               si_url = ''/c/{slug}/items/'' @ ir_id (sh_item h), si_meta = [], si_highlight = sh_highlight h\<rparr>)
       (item_search_fts pg tenant_id q lim d)"

definition search_tenants :: "string \<Rightarrow> db \<Rightarrow> search_item list" where
  "search_tenants like_pat d =
     map (\<lambda>t. \<lparr>si_id = Some (tr_id t), si_title = tr_name t, si_subtitle = Some (tr_slug t),
               si_url = ''/c/'' @ tr_slug t @ ''/dashboard'',
               si_meta = [(''slug'', JStr (tr_slug t)), (''is_active'', JBool (tr_is_active t))], si_highlight = None\<rparr>)
       (tenant_search_by_name like_pat PER_CATEGORY d)"

definition search_settings :: "string \<Rightarrow> string \<Rightarrow> search_item list" where
  "search_settings q slug =
     map (\<lambda>(k, desc, url). \<lparr>si_id = None, si_title = desc, si_subtitle = Some k, si_url = replace_all ''{slug}'' slug url,
               si_meta = [], si_highlight = None\<rparr>)
       (take PER_CATEGORY (filter (\<lambda>(k, desc, url). contains_str (py_lower q) (py_lower k) \<or> contains_str (py_lower q) (py_lower desc))
          SETTINGS_REGISTRY))"

definition search_all ::
  "pg_search option \<Rightarrow> string \<Rightarrow> string option \<Rightarrow> bool \<Rightarrow> string option \<Rightarrow> db \<Rightarrow> search_results" where
  "search_all pg q tenant_slug is_superadmin tenant_id d =
     (let tenants_list = (if is_superadmin then search_tenants (''%'' @ q @ ''%'') d else []);
          sets = search_settings q (if truthy_str tenant_slug then the tenant_slug else ''default'');
          items_list = (case tenant_id of None \<Rightarrow> [] | Some t \<Rightarrow> search_items pg t q PER_CATEGORY d);
          results = filter (\<lambda>(k, v). v \<noteq> []) [(''tenants'', tenants_list), (''settings'', sets), (''items'', items_list)]
      in \<lparr>sr_query = q, sr_results = results, sr_total = sum_list (map (length \<circ> snd) results), sr_items = items_list\<rparr>)"

subsection \<open>Tenant isolation\<close>

inductive items_step :: "string \<Rightarrow> db \<Rightarrow> db \<Rightarrow> bool" for t where
  item_created: "item_create_svc e t x ctx d = Inr (r, d') \<Longrightarrow> items_step t d d'"
| item_viewed: "item_get e i t c d = Inr (r, d') \<Longrightarrow> items_step t d d'"
| item_listed: "item_list e t f c d = (p, d') \<Longrightarrow> items_step t d d'"
| item_updated: "item_update_svc e i t y ctx d = Inr (r, d') \<Longrightarrow> items_step t d d'"
| item_deleted: "item_delete e i t ctx d = Inr d' \<Longrightarrow> items_step t d d'"

inductive items_run :: "string \<Rightarrow> db \<Rightarrow> db \<Rightarrow> bool" for t where
  items_refl: "items_run t d d"
| items_next: "items_run t d d1 \<Longrightarrow> items_step t d1 d2 \<Longrightarrow> items_run t d d2"

definition others_items :: "string \<Rightarrow> db \<Rightarrow> item list" where
  "others_items t d = filter (\<lambda>i. it_tenant_id i \<noteq> t) (items d)"

lemma items_audit [simp]: "items (log_data_access e i u r x a t ip d) = items d"
  by (simp add: log_data_access_def)

lemma item_accessibleD:
  "item_accessible i t d = Inr x \<Longrightarrow> get_by it_id i (items d) = Some x \<and> x \<in> set (items d) \<and> it_id x = i \<and> it_tenant_id x = t"
  using get_by_SomeD [of it_id i "items d"]
  by (auto simp: item_accessible_def item_repo_get_by_id_def split: option.splits if_splits)

lemma item_repo_update_ok:
  assumes "item_repo_update e i y d = Inr (i', d')"
  obtains f where "i' = f i" "items d' = update_by it_id (it_id i) f (items d)"
    "\<And>x. it_id (f x) = it_id x" "\<And>x. it_tenant_id (f x) = it_tenant_id x"
proof -
  from assms obtain name active where
    "field_or_null (it_name i) (iu_name y) = Some name" "field_or_null (it_is_active i) (iu_is_active y) = Some active"
    by (auto simp: item_repo_update_def split: option.splits)
  with assms show thesis
    by (intro that [of "touched (touch_item (env_now e)) (\<lambda>x. update_search_vector
                 (x\<lparr>it_name := name, it_is_active := active,
                   it_description := (case iu_description y of Unset \<Rightarrow> it_description i | Given v \<Rightarrow> v)\<rparr>))"])
      (auto simp: item_repo_update_def Let_def touched_proj touch_item_def update_search_vector_def)
qed

lemma filter_update_by:
  assumes "\<And>x. key (f x) = key x" and "\<And>x. P (f x) = P x" and "\<And>x. x \<in> set t \<Longrightarrow> key x = k \<Longrightarrow> \<not> P x"
  shows "filter P (update_by key k f t) = filter P t"
  using assms(3) by (induction t) (auto simp: update_by_def update_where_def assms(2))

lemma items_step_inv:
  assumes "items_step t d d'" and "items_unique d"
  shows "others_items t d' = others_items t d \<and> items_unique d'"
  using assms
proof (induction rule: items_step.induct)
  case (item_created e x ctx d r d')
  then show ?case
    by (auto simp: item_create_svc_def item_repo_create_def Let_def others_items_def add_row_def
        update_search_vector_def items_unique_def split: sum.splits)
next
  case (item_updated e i y ctx d r d')
  then obtain x i' d1 where x: "item_accessible i t d = Inr x" and up: "item_repo_update e x y d = Inr (i', d1)"
    and d': "items d' = items d1"
    by (auto simp: item_update_svc_def split: sum.splits)
  have uniq: "z \<in> set (items d) \<Longrightarrow> it_id z = it_id x \<Longrightarrow> z = x" for z
    using item_updated.prems item_accessibleD [OF x] unfolding items_unique_def by (metis distinct_keyD)
  from up show ?case
  proof (rule item_repo_update_ok)
    fix f assume f: "items d1 = update_by it_id (it_id x) f (items d)" "\<And>x. it_id (f x) = it_id x"
      "\<And>x. it_tenant_id (f x) = it_tenant_id x"
    have "others_items t d' = others_items t d" unfolding others_items_def d' f(1)
      by (rule filter_update_by) (use f uniq item_accessibleD [OF x] in auto)
    then show ?thesis
      using item_updated.prems by (simp add: items_unique_def d' f map_update_inv)
  qed
next
  case (item_deleted e i ctx d d')
  then obtain x where x: "item_accessible i t d = Inr x" and d': "items d' = delete_by it_id (it_id x) (items d)"
    by (auto simp: item_delete_def item_repo_delete_def split: sum.splits)
  have uniq: "z \<in> set (items d) \<Longrightarrow> it_id z = it_id x \<Longrightarrow> z = x" for z
    using item_deleted.prems item_accessibleD [OF x] unfolding items_unique_def by (metis distinct_keyD)
  have "filter (\<lambda>i. it_tenant_id i \<noteq> t) (filter (\<lambda>r. it_id r \<noteq> it_id x) (items d)) = filter (\<lambda>i. it_tenant_id i \<noteq> t) (items d)"
    using uniq item_accessibleD [OF x] by (auto simp: filter_filter intro!: filter_cong)
  moreover have "distinct (map it_id (delete_by it_id (it_id x) (items d)))"
    using item_deleted.prems by (simp add: items_unique_def delete_by_def distinct_map_filter)
  ultimately show ?case by (simp add: others_items_def items_unique_def d') (simp add: delete_by_def)
qed (auto simp: item_get_def item_list_def Let_def others_items_def items_unique_def
    split: sum.splits option.splits prod.splits)

text \<open>
  C9: Whatever a tenant does through the items service, every other tenant's items stay exactly as they
  were and in the same order, and what it gets or lists is its own.
\<close>

theorem items_tenant_isolated:
  assumes "items_run t d d'" and "items_unique d"
  shows "others_items t d' = others_items t d \<and> items_unique d' \<and>
     (\<forall>e i c r d''. item_get e i t c d' = Inr (r, d'') \<longrightarrow> ir_tenant_id r = t) \<and>
     ir_tenant_id ` set (pr_items (fst (item_list e t f c d'))) \<subseteq> {t}"
proof -
  have "others_items t d' = others_items t d \<and> items_unique d'"
    using assms by (induction rule: items_run.induct) (auto dest: items_step_inv)
  moreover have "item_get e i t c d' = Inr (r, d'') \<Longrightarrow> ir_tenant_id r = t" for e i c r d''
    by (auto simp: item_get_def item_to_read_def dest: item_accessibleD split: sum.splits)
  moreover have "ir_tenant_id ` set (pr_items (fst (item_list e t f c d'))) \<subseteq> {t}"
    using set_paginate [of f "sort_key it_name (filter (item_matches t f) (items d'))"]
    by (auto simp: item_list_def item_repo_list_def Let_def item_matches_def item_to_read_def)
  ultimately show ?thesis by blast
qed

text \<open>The SQL counts of a listing agree with the rows it pages through.\<close>

lemma item_list_total:
  "pr_total (fst (item_list e t f c d)) = length (filter (item_matches t f) (items d))"
  by (simp add: item_list_def item_repo_list_def Let_def)

text \<open>
  The retention report names exactly the tenant's items created before the cutoff, oldest first, and
  its count is their number.
\<close>

theorem retention_report_exact:
  "set (rr_affected_items (check_retention now t n d)) =
     item_to_read ` {i \<in> set (items d). it_tenant_id i = t \<and> it_created_at i < now - days n} \<and>
   sorted (map ir_created_at (rr_affected_items (check_retention now t n d))) \<and>
   rr_affected_count (check_retention now t n d) = length (rr_affected_items (check_retention now t n d))"
proof -
  have "map ir_created_at (map item_to_read xs) = map it_created_at xs" for xs
    by (induction xs) (auto simp: item_to_read_def)
  then show ?thesis
    by (auto simp: check_retention_def Let_def item_repo_list_older_than_def simp del: map_map)
qed

theorem items_tenant_isolated_witness:
  "\<exists>r d'. item_create_svc demo_env ''t1'' \<lparr>ic_name = ''Lamp'', ic_description = None\<rparr> demo_ctx demo_users_db = Inr (r, d') \<and>
     others_items ''t1'' d' = others_items ''t1'' demo_users_db \<and> items_unique d'"
proof -
  have e: "items demo_users_db = []" by (simp add: demo_users_db_def demo_tenant_db_def empty_db_def)
  obtain r d' where c: "item_create_svc demo_env ''t1'' \<lparr>ic_name = ''Lamp'', ic_description = None\<rparr> demo_ctx demo_users_db = Inr (r, d')"
    by (simp add: item_create_svc_def item_repo_create_def flush_checked_def items_unique_def e Let_def add_row_def)
  then have run: "items_run ''t1'' demo_users_db d'" by (intro items_next [OF items_refl] item_created)
  have "items_unique demo_users_db" by (simp add: items_unique_def e)
  from items_tenant_isolated [OF run this] c show ?thesis by blast
qed

end
