(* ===== verification/Api.thy ===== *)
theory Api
  imports CoreAuth Items
begin

section \<open>The tenant-facing HTTP endpoints\<close>

text \<open>
  \<open>api/v1\<close>: users, tenants, settings, items, audit log and search.  An endpoint takes the authenticated
  user (what \<open>require_auth\<close> returned), runs its own role check and the services.  A call whose arguments
  do not fit the callee raises \<open>TypeError\<close>, as Python does; a method that does not exist raises
  \<open>AttributeError\<close>.
\<close>

definition build_audit_ctx :: "user_context \<Rightarrow> request \<Rightarrow> string option \<Rightarrow> audit_context" where
  "build_audit_ctx user rq tenant_id =
     \<lparr>ctx_user_id = uctx_user_id user, ctx_tenant_id = tenant_id, ctx_ip_address = client_ip rq\<rparr>"

text \<open>The shape of a tenant-scoped endpoint: role check, then the slug, then the body.\<close>

definition with_tenant ::
  "role_name \<Rightarrow> string \<Rightarrow> user_context \<Rightarrow> db \<Rightarrow> (tenant_read \<Rightarrow> error + 'a) \<Rightarrow> error + 'a" where
  "with_tenant minimum slug user d body =
     (case require_role minimum (Some slug) user of
        Inl x \<Rightarrow> Inl x
      | Inr _ \<Rightarrow> (case tenant_get_by_slug slug d of Inl x \<Rightarrow> Inl x | Inr t \<Rightarrow> body t))"

subsection \<open>Users\<close>

definition list_users :: "string \<Rightarrow> user_filter \<Rightarrow> user_context \<Rightarrow> db \<Rightarrow> error + user_with_role paginated" where
  "list_users slug filters user d =
     with_tenant ADMIN slug user d (\<lambda>t. Inr (user_list_for_tenant (tr_id t) filters d))"

definition create_user ::
  "creds \<Rightarrow> env \<Rightarrow> nat \<Rightarrow> string \<Rightarrow> user_create \<Rightarrow> request \<Rightarrow> user_context \<Rightarrow> db \<Rightarrow> error + (user_with_role \<times> db)" where
  "create_user cr e salt slug body rq user d =
     with_tenant ADMIN slug user d (\<lambda>t.
       user_create_for_tenant cr e salt (tr_id t) body (build_audit_ctx user rq (Some (tr_id t))) d)"

definition update_user ::
  "env \<Rightarrow> string \<Rightarrow> string \<Rightarrow> user_update \<Rightarrow> request \<Rightarrow> user_context \<Rightarrow> db \<Rightarrow> error + (user_with_role \<times> db)" where
  "update_user e slug user_id body rq user d =
     with_tenant ADMIN slug user d (\<lambda>t.
       user_update_for_tenant e (tr_id t) user_id body (build_audit_ctx user rq (Some (tr_id t))) d)"

definition deactivate_user ::
  "env \<Rightarrow> string \<Rightarrow> string \<Rightarrow> request \<Rightarrow> user_context \<Rightarrow> db \<Rightarrow> error + (user_with_role \<times> db)" where
  "deactivate_user e slug user_id rq user d =
     with_tenant ADMIN slug user d (\<lambda>t.
       user_deactivate_for_tenant e (tr_id t) user_id (build_audit_ctx user rq (Some (tr_id t))) d)"

definition get_me :: "user_context \<Rightarrow> db \<Rightarrow> error + user_read" where
  "get_me user d =
     (case user_get_by_id (uctx_user_id user) d of
        None \<Rightarrow> Inl (NotFoundError ''User'' (uctx_user_id user)) | Some r \<Rightarrow> Inr r)"

definition update_me ::
  "env \<Rightarrow> string option \<Rightarrow> request \<Rightarrow> user_context \<Rightarrow> db \<Rightarrow> error + (user_read \<times> db)" where
  "update_me e display_name rq user d =
     (if \<not> truthy_str display_name
      then (case user_get_by_id (uctx_user_id user) d of
              None \<Rightarrow> Inl (NotFoundError ''User'' (uctx_user_id user)) | Some r \<Rightarrow> Inr (r, d))
      else user_update_profile e (uctx_user_id user) (the display_name) (build_audit_ctx user rq None) d)"

definition change_my_password ::
  "creds \<Rightarrow> env \<Rightarrow> nat \<Rightarrow> string \<Rightarrow> string \<Rightarrow> request \<Rightarrow> user_context \<Rightarrow> db \<Rightarrow> error + db" where
  "change_my_password cr e salt current new rq user d =
     user_change_password cr e salt (uctx_user_id user) current new (build_audit_ctx user rq None) d"

subsection \<open>Tenants\<close>

definition missing_ctx :: "string \<Rightarrow> error" where
  "missing_ctx f = TypeError (f @ ''() missing 1 required positional argument: '' @ quoted ''ctx'')"

definition list_tenants ::
  "bool option \<Rightarrow> int \<Rightarrow> int \<Rightarrow> user_context \<Rightarrow> db \<Rightarrow> error + tenant_read paginated" where
  \<comment> \<open>The route has no \<open>slug\<close>; the \<open>name\<close> parameter is not a field of the filter and is dropped.\<close>
  "list_tenants is_active pg per_pg user d =
     (case require_role VIEWER None user of
        Inl x \<Rightarrow> Inl x
      | Inr _ \<Rightarrow>
          (let result = tenant_list \<lparr>page = pg, per_page = per_pg, tf_is_active = is_active, tf_search = None\<rparr> None d
           in if \<not> uctx_is_superadmin user
              then (let filtered = filter (\<lambda>t. tr_slug t \<in> set (map fst (uctx_tenant_roles user))) (pr_items result)
                    in Inr \<lparr>pr_items = filtered, pr_total = length filtered, pr_page = pg, pr_per_page = per_pg\<rparr>)
              else Inr result))"

definition create_tenant :: "string \<Rightarrow> user_context \<Rightarrow> db \<Rightarrow> error + (tenant_read \<times> db)" where
  "create_tenant name user d =
     (case require_superadmin user of Inl x \<Rightarrow> Inl x | Inr _ \<Rightarrow> Inl (missing_ctx ''create''))"

definition no_access :: "string \<Rightarrow> user_context \<Rightarrow> bool" where
  "no_access slug user \<longleftrightarrow> \<not> uctx_is_superadmin user \<and> map_of (uctx_tenant_roles user) slug = None"

definition get_tenant :: "string \<Rightarrow> user_context \<Rightarrow> db \<Rightarrow> error + tenant_read" where
  "get_tenant slug user d =
     (case require_role VIEWER (Some slug) user of
        Inl x \<Rightarrow> Inl x
      | Inr _ \<Rightarrow> if no_access slug user then Inl (ForbiddenError (''No access to tenant '' @ quoted slug))
                  else tenant_get_by_slug slug d)"

definition tenant_call :: "string \<Rightarrow> string \<Rightarrow> user_context \<Rightarrow> db \<Rightarrow> error + 'a" where
  \<comment> \<open>The common body of update and key rotation: both call the service without \<open>ctx\<close>.\<close>
  "tenant_call f slug user d =
     (case require_role ADMIN (Some slug) user of
        Inl x \<Rightarrow> Inl x
      | Inr _ \<Rightarrow>
          if no_access slug user then Inl (ForbiddenError (''No access to tenant '' @ quoted slug))
          else (case tenant_get_by_slug slug d of Inl x \<Rightarrow> Inl x | Inr t \<Rightarrow> Inl (missing_ctx f)))"

definition update_tenant :: "string \<Rightarrow> tenant_update \<Rightarrow> user_context \<Rightarrow> db \<Rightarrow> error + (tenant_read \<times> db)" where
  "update_tenant slug body user d = tenant_call ''update'' slug user d"

definition rotate_api_key_ep :: "string \<Rightarrow> user_context \<Rightarrow> db \<Rightarrow> error + (string \<times> db)" where
  "rotate_api_key_ep slug user d = tenant_call ''rotate_api_key'' slug user d"

definition deactivate_tenant :: "string \<Rightarrow> user_context \<Rightarrow> db \<Rightarrow> error + db" where
  "deactivate_tenant slug user d =
     (case require_superadmin user of
        Inl x \<Rightarrow> Inl x
      | Inr _ \<Rightarrow>
          (case tenant_get_by_slug slug d of
             Inl x \<Rightarrow> Inl x | Inr t \<Rightarrow> Inl (OtherException ''AttributeError'')))"

fun int_field :: "json option \<Rightarrow> int option" where
  "int_field (Some (JInt i)) = Some i"
| "int_field _ = None"

definition retention_window :: "coercion \<Rightarrow> string \<Rightarrow> db \<Rightarrow> int" where
  \<comment> \<open>Any exception on the way keeps the default of 90 days.\<close>
  "retention_window coerce tenant_id d =
     (case get_tenant_settings coerce tenant_id d of
        Inl _ \<Rightarrow> 90
      | Inr cfg \<Rightarrow>
          (case int_field (map_of cfg ''retention_days'') of
             Some n \<Rightarrow> n
           | None \<Rightarrow>
               (case int_field (map_of cfg ''retention_days_override'') of
                  Some n \<Rightarrow> n
                | None \<Rightarrow>
                    (case get_global coerce d of
                       Inl _ \<Rightarrow> 90
                     | Inr g \<Rightarrow> (case int_field (map_of g ''retention_days_default'') of Some n \<Rightarrow> n | None \<Rightarrow> 90)))))"

definition get_retention_report ::
  "coercion \<Rightarrow> time \<Rightarrow> string \<Rightarrow> user_context \<Rightarrow> db \<Rightarrow> error + retention_report" where
  "get_retention_report coerce now slug user d =
     (case require_role ADMIN (Some slug) user of
        Inl x \<Rightarrow> Inl x
      | Inr _ \<Rightarrow>
          if no_access slug user then Inl (ForbiddenError (''No access to tenant '' @ quoted slug))
          else (case tenant_get_by_slug slug d of
                  Inl x \<Rightarrow> Inl x
                | Inr t \<Rightarrow> Inr (check_retention now (tr_id t) (retention_window coerce (tr_id t) d) d)))"

subsection \<open>Settings\<close>

definition get_global_settings :: "coercion \<Rightarrow> user_context \<Rightarrow> db \<Rightarrow> error + dict" where
  "get_global_settings coerce user d =
     (case require_superadmin user of Inl x \<Rightarrow> Inl x | Inr _ \<Rightarrow> get_global coerce d)"

definition drops_local :: "dict \<Rightarrow> bool" where
  "drops_local body = (case map_of body ''auth_providers'' of
     Some (JList ps) \<Rightarrow> JStr ''local'' \<notin> set ps | _ \<Rightarrow> False)"

definition patch_global_settings ::
  "creds \<Rightarrow> coercion \<Rightarrow> env \<Rightarrow> dict \<Rightarrow> user_context \<Rightarrow> db \<Rightarrow> error + (dict \<times> db)" where
  "patch_global_settings cr coerce e body user d =
     (case require_superadmin user of
        Inl x \<Rightarrow> Inl x
      | Inr _ \<Rightarrow>
          if drops_local body \<and> \<not> check_lockout_risk cr d
          then Inl (ForbiddenError (''Cannot remove '' @ quoted ''local'' @ '' from auth_providers: no active superadmin has a local password. Add a local-password superadmin first.''))
          else set_global coerce e body (uctx_user_id user) d)"

definition get_tenant_settings_ep :: "coercion \<Rightarrow> string \<Rightarrow> user_context \<Rightarrow> db \<Rightarrow> error + dict" where
  "get_tenant_settings_ep coerce slug user d =
     with_tenant ADMIN slug user d (\<lambda>t. get_tenant_settings coerce (tr_id t) d)"

definition patch_tenant_settings ::
  "coercion \<Rightarrow> env \<Rightarrow> string \<Rightarrow> dict \<Rightarrow> user_context \<Rightarrow> db \<Rightarrow> error + (dict \<times> db)" where
  "patch_tenant_settings coerce e slug body user d =
     with_tenant ADMIN slug user d (\<lambda>t. set_tenant_settings coerce e (tr_id t) body (uctx_user_id user) d)"

definition get_my_settings :: "coercion \<Rightarrow> user_context \<Rightarrow> db \<Rightarrow> error + dict" where
  "get_my_settings coerce user d = get_user_settings coerce (uctx_user_id user) d"

definition patch_my_settings :: "coercion \<Rightarrow> env \<Rightarrow> dict \<Rightarrow> user_context \<Rightarrow> db \<Rightarrow> error + (dict \<times> db)" where
  "patch_my_settings coerce e body user d = set_user_settings coerce e (uctx_user_id user) body d"

definition get_effective_settings ::
  "coercion \<Rightarrow> string option \<Rightarrow> user_context \<Rightarrow> db \<Rightarrow> error + effective_settings" where
  "get_effective_settings coerce slug user d =
     (case (case slug of None \<Rightarrow> Inr None
            | Some s \<Rightarrow> (case tenant_get_by_slug s d of Inl x \<Rightarrow> Inl x | Inr t \<Rightarrow> Inr (Some (tr_id t)))) of
        Inl x \<Rightarrow> Inl x
      | Inr tenant_id \<Rightarrow> get_effective coerce (Some (uctx_user_id user)) tenant_id d)"

subsection \<open>Items and search\<close>

definition list_items ::
  "env \<Rightarrow> string \<Rightarrow> item_filter \<Rightarrow> request \<Rightarrow> user_context \<Rightarrow> db \<Rightarrow> error + (item_read paginated \<times> db)" where
  "list_items e slug filters rq user d =
     with_tenant VIEWER slug user d (\<lambda>t.
       Inr (item_list e (tr_id t) filters (Some (build_audit_ctx user rq (Some (tr_id t)))) d))"

definition create_item_ep ::
  "env \<Rightarrow> string \<Rightarrow> item_create \<Rightarrow> request \<Rightarrow> user_context \<Rightarrow> db \<Rightarrow> error + (item_read \<times> db)" where
  "create_item_ep e slug body rq user d =
     with_tenant ANALYST slug user d (\<lambda>t.
       item_create_svc e (tr_id t) body (build_audit_ctx user rq (Some (tr_id t))) d)"

definition get_item_ep ::
  "env \<Rightarrow> string \<Rightarrow> string \<Rightarrow> request \<Rightarrow> user_context \<Rightarrow> db \<Rightarrow> error + (item_read \<times> db)" where
  "get_item_ep e slug item_id rq user d =
     with_tenant VIEWER slug user d (\<lambda>t.
       item_get e item_id (tr_id t) (Some (build_audit_ctx user rq (Some (tr_id t)))) d)"

definition update_item_ep ::
  "env \<Rightarrow> string \<Rightarrow> string \<Rightarrow> item_update \<Rightarrow> request \<Rightarrow> user_context \<Rightarrow> db \<Rightarrow> error + (item_read \<times> db)" where
  "update_item_ep e slug item_id body rq user d =
     with_tenant ANALYST slug user d (\<lambda>t.
       item_update_svc e item_id (tr_id t) body (build_audit_ctx user rq (Some (tr_id t))) d)"

definition delete_item_ep ::
  "env \<Rightarrow> string \<Rightarrow> string \<Rightarrow> request \<Rightarrow> user_context \<Rightarrow> db \<Rightarrow> error + db" where
  "delete_item_ep e slug item_id rq user d =
     with_tenant ADMIN slug user d (\<lambda>t.
       item_delete e item_id (tr_id t) (build_audit_ctx user rq (Some (tr_id t))) d)"

definition global_search :: "pg_search option \<Rightarrow> string \<Rightarrow> string option \<Rightarrow> user_context \<Rightarrow> db \<Rightarrow> search_results" where
  \<comment> \<open>The tenant's id is not passed on.\<close>
  "global_search pg q tenant user d = search_all pg q tenant (uctx_is_superadmin user) None d"

subsection \<open>Audit log\<close>

definition set_page :: "audit_filter \<Rightarrow> int \<Rightarrow> audit_filter" where
  "set_page f p = f\<lparr>page := p, per_page := 100\<rparr>"

definition export_rows :: "bool \<Rightarrow> string \<Rightarrow> audit_filter \<Rightarrow> db \<Rightarrow> audit_log list" where
  "export_rows ci tenant_id filters d =
     (let result = list_logs ci (Some tenant_id) (set_page filters 1) d;
          total_pages = (int (pr_total result) + 99) div 100
      in pr_items result @
         concat (map (\<lambda>p. pr_items (list_logs ci (Some tenant_id) (set_page filters p) d)) [2..min (total_pages + 1) 51 - 1]))"

definition csv_header :: "string list" where
  "csv_header = [''timestamp'', ''user_id'', ''action'', ''target_type'', ''target_id'', ''detail'', ''ip_address'']"

definition csv_row :: "(time \<Rightarrow> string) \<Rightarrow> (json \<Rightarrow> string) \<Rightarrow> audit_log \<Rightarrow> string list" where
  \<comment> \<open>\<open>datetime.isoformat\<close> and \<open>str(dict)\<close> are the arguments; the quoting is \<open>csv.writer\<close>'s.\<close>
  "csv_row isoformat str_of r =
     [isoformat (al_timestamp r), al_user_id r, al_action r, al_target_type r, al_target_id r,
      (if truthy_json (al_detail r) then str_of (the (al_detail r)) else ''''), al_ip_address r]"

definition export_csv ::
  "bool \<Rightarrow> (time \<Rightarrow> string) \<Rightarrow> (json \<Rightarrow> string) \<Rightarrow> string \<Rightarrow> audit_filter \<Rightarrow> user_context \<Rightarrow> db \<Rightarrow> error + string list list" where
  "export_csv ci isoformat str_of slug filters user d =
     with_tenant ADMIN slug user d (\<lambda>t. Inr (csv_header # map (csv_row isoformat str_of) (export_rows ci (tr_id t) filters d)))"

definition list_audit_log ::
  "bool \<Rightarrow> string \<Rightarrow> audit_filter \<Rightarrow> user_context \<Rightarrow> db \<Rightarrow> error + audit_log paginated" where
  "list_audit_log ci slug filters user d =
     with_tenant ADMIN slug user d (\<lambda>t. Inr (list_logs ci (Some (tr_id t)) filters d))"

subsection \<open>Who may do what\<close>

lemma with_tenant_Inr:
  assumes "with_tenant m slug user d body = Inr x"
  obtains t where "require_role m (Some slug) user = Inr user" "tenant_get_by_slug slug d = Inr t" "body t = Inr x"
  using assms by (auto simp: with_tenant_def require_role_def split: sum.splits if_splits option.splits)

definition has_role_in :: "user_context \<Rightarrow> string \<Rightarrow> role_name \<Rightarrow> bool" where
  "has_role_in user slug m \<longleftrightarrow> uctx_is_superadmin user \<or>
     (\<exists>r. map_of (uctx_tenant_roles user) slug = Some r \<and> m \<le> r)"

lemma role_in: "require_role m (Some slug) user = Inr user \<Longrightarrow> has_role_in user slug m"
  by (auto simp: has_role_in_def require_role_def has_minimum_role_le split: if_splits option.splits)

text \<open>
  C4: No item of a tenant is created or changed over HTTP by someone below analyst in that tenant, deleted
  by someone below admin, or read by someone without a role there, superadmins aside.
\<close>

theorem item_endpoints_guarded:
  "(create_item_ep e slug body rq user d = Inr a \<longrightarrow> has_role_in user slug ANALYST) \<and>
   (update_item_ep e slug i patch rq user d = Inr a \<longrightarrow> has_role_in user slug ANALYST) \<and>
   (delete_item_ep e slug i rq user d = Inr d' \<longrightarrow> has_role_in user slug ADMIN) \<and>
   (get_item_ep e slug i rq user d = Inr a \<longrightarrow> has_role_in user slug VIEWER) \<and>
   (list_items e slug f rq user d = Inr p \<longrightarrow> has_role_in user slug VIEWER)"
  by (auto simp: create_item_ep_def update_item_ep_def delete_item_ep_def get_item_ep_def list_items_def
      elim!: with_tenant_Inr intro: role_in)

text \<open>
  The admin of any one tenant can deactivate every account of the installation, members of other
  tenants and superadmins included: the target's membership is never checked.
\<close>

theorem tenant_admin_deactivates_anyone:
  assumes "has_role_in user slug ADMIN" and "slug \<noteq> []" and "tenant_get_by_slug slug d = Inr t"
    and "get_by u_id i (users d) = Some u"
  shows "\<exists>r d' u'. deactivate_user e slug i rq user d = Inr (r, d') \<and>
     get_by u_id i (users d') = Some u' \<and> \<not> u_is_active u'"
proof -
  have role: "require_role ADMIN (Some slug) user = Inr user"
    using assms(1,2) by (auto simp: has_role_in_def require_role_def truthy_str_def has_minimum_role_le)
  obtain r d' where run: "user_deactivate_for_tenant e (tr_id t) i (build_audit_ctx user rq (Some (tr_id t))) d = Inr (r, d')"
    using assms(4) by (simp add: user_deactivate_for_tenant_def user_update_for_tenant_def user_repo_get_by_id_def
        user_repo_update_def Let_def)
  have "\<exists>u'. get_by u_id i (users d') = Some u' \<and> \<not> u_is_active u'"
    using run unfolding user_deactivate_for_tenant_def
    by (elim update_for_tenant_users) (auto simp: get_user_upd user_changes_patch_def)
  with role assms(3) run show ?thesis by (simp add: deactivate_user_def with_tenant_def)
qed

text \<open>
  Over HTTP no tenant can be created, renamed, given a new API key or deactivated, whoever asks: the
  routes call their services with missing arguments or a missing method and fail.
\<close>

theorem tenant_writes_always_fail:
  "(\<exists>x. create_tenant name user d = Inl x) \<and> (\<exists>x. update_tenant slug body user d = Inl x) \<and>
   (\<exists>x. rotate_api_key_ep slug user d = Inl x) \<and> (\<exists>x. deactivate_tenant slug user d = Inl x) \<and>
   (uctx_is_superadmin user \<or> (\<exists>x. list_tenants b pg n user d = Inl x))"
  by (auto simp: create_tenant_def update_tenant_def rotate_api_key_ep_def deactivate_tenant_def tenant_call_def
      list_tenants_def require_role_no_slug split: sum.split)

text \<open>
  Local login can only be switched off while an active superadmin has a real password: a global
  settings update that removes it goes through only then.
\<close>

theorem local_login_guard:
  assumes "patch_global_settings cr coerce e body user d = Inr a" and "drops_local body"
  shows "\<exists>u \<in> set (users d). u_is_active u \<and> u_is_superadmin u \<and> u_password_hash u \<noteq> [] \<and>
           \<not> verify_password cr EXTERNAL_AUTH_SENTINEL (u_password_hash u)"
  using assms
  by (auto simp: patch_global_settings_def check_lockout_risk_def user_has_local_password_superadmin_def
      user_repo_list_active_superadmins_def local_password_def list_ex_iff split: sum.splits if_splits)

text \<open>The effective settings of any tenant are open to every authenticated user, and the search endpoint
  never finds items.\<close>

lemma effective_settings_unguarded:
  "tenant_get_by_slug slug d = Inr t \<Longrightarrow>
     get_effective_settings coerce (Some slug) user d = get_effective coerce (Some (uctx_user_id user)) (Some (tr_id t)) d"
  by (simp add: get_effective_settings_def)

lemma global_search_no_items: "sr_items (global_search pg q tenant user d) = []"
  by (simp add: global_search_def search_all_def Let_def)

subsection \<open>The CSV export\<close>

definition log_order :: "bool \<Rightarrow> string \<Rightarrow> audit_filter \<Rightarrow> db \<Rightarrow> audit_log list" where
  "log_order ci t f d = sort_desc al_timestamp (filter (audit_matches ci (Some t) f) (audit_rows d))"

lemma page_items:
  "1 \<le> p \<Longrightarrow> pr_items (list_logs ci (Some t) (set_page f p) d) = take 100 (drop (100 * nat (p - 1)) (log_order ci t f d))"
proof -
  assume p: "1 \<le> p"
  have "audit_matches ci (Some t) (set_page f p) = audit_matches ci (Some t) f"
    by (rule ext) (simp add: audit_matches_def set_page_def)
  moreover have "nat ((p - 1) * 100) = 100 * nat (p - 1)" using p by (simp add: nat_mult_distrib)
  ultimately show ?thesis
    by (simp add: list_logs_def audit_repo_list_def log_order_def paginate_def page_of_def page_offset_def
        set_page_def Let_def)
qed

lemma pages_upto:
  "pr_items (list_logs ci (Some t) (set_page f 1) d) @
   concat (map (\<lambda>p. pr_items (list_logs ci (Some t) (set_page f p) d)) [2..int (Suc n)]) =
     take (100 * Suc n) (log_order ci t f d)"
proof (induction n)
  case 0
  then show ?case by (simp add: page_items)
next
  case (Suc n)
  have "[2..int (Suc (Suc n))] = [2..int (Suc n)] @ [int n + 2]"
    by (subst upto_rec2) (simp_all add: add.commute)
  moreover have "take (100 * Suc (Suc n)) (log_order ci t f d) =
      take (100 * Suc n) (log_order ci t f d) @ take 100 (drop (100 * Suc n) (log_order ci t f d))"
    by (metis add.commute mult_Suc_right take_add)
  moreover have "nat (int n + 2 - 1) = Suc n" by simp
  ultimately show ?case using Suc page_items [of "int n + 2" ci t f d] by (simp del: mult_Suc_right)
qed

text \<open>
  The CSV export of an audit log holds the newest 5000 entries that match the filters, newest first,
  without gaps or repetitions between the pages it fetches.
\<close>

theorem export_rows_complete:
  "export_rows ci t f d = take 5000 (log_order ci t f d)"
proof -
  let ?S = "log_order ci t f d" and ?n = "length (log_order ci t f d)"
  have "audit_matches ci (Some t) (set_page f 1) = audit_matches ci (Some t) f"
    by (rule ext) (simp add: audit_matches_def set_page_def)
  then have total: "pr_total (list_logs ci (Some t) (set_page f 1) d) = ?n"
    by (simp add: list_logs_def audit_repo_list_def log_order_def Let_def)
  define m where "m = min ((int ?n + 99) div 100) 50"
  have last: "min ((int ?n + 99) div 100 + 1) 51 - 1 = m" by (simp add: m_def)
  have eq: "export_rows ci t f d = pr_items (list_logs ci (Some t) (set_page f 1) d) @
      concat (map (\<lambda>p. pr_items (list_logs ci (Some t) (set_page f p) d)) [2..m])"
    by (simp only: export_rows_def total last Let_def)
  show ?thesis
  proof (cases "?n = 0")
    case True
    then have "m = 0" by (simp add: m_def)
    then show ?thesis using True by (simp add: eq page_items)
  next
    case False
    then have "0 < int ?n" by simp
    then have "1 \<le> (int ?n + 99) div 100" by linarith
    then have "1 \<le> m" by (simp add: m_def)
    then obtain k where k: "m = int (Suc k)" by (metis nonneg_int_cases not0_implies_Suc of_nat_0 not_one_le_zero order.trans zero_le_one)
    have "take (100 * Suc k) ?S = take 5000 ?S"
    proof (cases "m = 50")
      case True
      then show ?thesis using k by simp
    next
      case neq: False
      then have "m = (int ?n + 99) div 100" "m < 50" by (auto simp: m_def)
      moreover have "int ?n + 99 = 100 * ((int ?n + 99) div 100) + (int ?n + 99) mod 100"
        "(int ?n + 99) mod 100 < 100" by simp_all
      ultimately have "int ?n \<le> 100 * m" by linarith
      then have "int ?n \<le> int (100 * Suc k)" using k by simp
      then have "?n \<le> 100 * Suc k" by (simp only: of_nat_le_iff)
      moreover have "Suc k < 50" using \<open>m < 50\<close> unfolding k by (metis of_nat_less_iff of_nat_numeral)
      then have "100 * Suc k < 5000" by simp
      ultimately have "take (100 * Suc k) ?S = ?S" "take 5000 ?S = ?S" by simp_all
      then show ?thesis by simp
    qed
    then show ?thesis unfolding eq k pages_upto .
  qed
qed

subsection \<open>Concrete instances\<close>

definition demo_admin :: user_context where
  "demo_admin = \<lparr>uctx_user_id = ''u9'', uctx_email = ''adm@x'', uctx_display_name = ''Adm'', uctx_is_superadmin = False,
     uctx_totp_enabled = False, uctx_tenant_roles = [(''beta'', ADMIN)]\<rparr>"

definition demo_super :: user_context where
  "demo_super = demo_admin\<lparr>uctx_is_superadmin := True\<rparr>"

lemma demo_beta: "tenant_get_by_slug ''beta'' demo_users_db = Inr (tenant_to_read (demo_tenant ''t2'' ''Beta!''))"
  by (simp add: tenant_get_by_slug_def tenant_repo_get_by_slug_def demo_users_db_def demo_tenant_db_def
      demo_tenant_def demo_slugs)

lemma demo_admin_role: "require_role ADMIN (Some ''beta'') demo_admin = Inr demo_admin" "has_role_in demo_admin ''beta'' ADMIN"
  by (simp_all add: require_role_def truthy_str_def demo_admin_def has_minimum_role_def has_role_in_def)

theorem tenant_admin_deactivates_anyone_witness:
  "\<exists>r d' u'. deactivate_user demo_env ''beta'' ''u1'' (demo_request '''') demo_admin demo_users_db = Inr (r, d') \<and>
     get_by u_id ''u1'' (users d') = Some u' \<and> \<not> u_is_active u'"
  using tenant_admin_deactivates_anyone [OF demo_admin_role(2) _ demo_beta demo_u1] by simp

theorem item_endpoints_guarded_witness:
  "\<exists>a. create_item_ep demo_env ''beta'' \<lparr>ic_name = ''Lamp'', ic_description = None\<rparr> (demo_request '''') demo_admin demo_users_db = Inr a \<and>
     has_role_in demo_admin ''beta'' ANALYST"
proof -
  have e: "items demo_users_db = []" by (simp add: demo_users_db_def demo_tenant_db_def empty_db_def)
  have role: "require_role ANALYST (Some ''beta'') demo_admin = Inr demo_admin"
    by (simp add: require_role_def truthy_str_def demo_admin_def has_minimum_role_def)
  have "\<exists>a. create_item_ep demo_env ''beta'' \<lparr>ic_name = ''Lamp'', ic_description = None\<rparr> (demo_request '''') demo_admin demo_users_db = Inr a"
    by (simp add: create_item_ep_def with_tenant_def demo_beta role item_create_svc_def item_repo_create_def
        flush_checked_def items_unique_def e Let_def add_row_def)
  then show ?thesis using item_endpoints_guarded by blast
qed

definition demo_super_db :: db where
  "demo_super_db = demo_smtp_db\<lparr>users := [(demo_user ''u1'' ''a@x'')\<lparr>u_is_superadmin := True\<rparr>]\<rparr>"

theorem local_login_guard_witness:
  "\<exists>a. patch_global_settings demo_creds demo_coerce demo_env [(''auth_providers'', JList [JStr ''cloudflare''])] demo_super demo_super_db = Inr a \<and>
     (\<exists>u. u \<in> set (users demo_super_db) \<and> u_is_superadmin u)"
proof -
  let ?body = "[(''auth_providers'', JList [JStr ''cloudflare''])]"
  have drops: "drops_local ?body" by (simp add: drops_local_def)
  have safe: "check_lockout_risk demo_creds demo_super_db"
    by (simp add: check_lockout_risk_def user_has_local_password_superadmin_def user_repo_list_active_superadmins_def
        local_password_def demo_super_db_def demo_user_def new_user_def demo_creds_def hash_password_def verify_password_def
        EXTERNAL_AUTH_SENTINEL_def)
  have "\<exists>a. set_global demo_coerce demo_env ?body (uctx_user_id demo_super) demo_super_db = Inr a"
    by (simp add: set_global_def get_global_def read_tier_def settings_list_by_scope_def demo_super_db_def demo_smtp_db_def
        dict_set_def json_dumps_def GlobalSettings_def fld_def validate_field_def demo_coerce_def mask_smtp_def
        truthy_json_def SMTP_PASSWORD_MASKED_def settings_get_def se_unique_key_def dict_update_def
        incoming_global_def dict_pop_def endpoint_setting_def)
  then obtain a where a: "patch_global_settings demo_creds demo_coerce demo_env ?body demo_super demo_super_db = Inr a"
    using safe by (auto simp: patch_global_settings_def require_superadmin_def demo_super_def)
  from local_login_guard [OF a drops] a show ?thesis by blast
qed

end
