(* ===== verification/Rows.thy ===== *)
theory Rows
  imports Creds
begin

section \<open>Rows as JSON documents\<close>

text \<open>
  The serialisation helpers of \<open>services/backup/contributors.py\<close>.  A mapped class is described by its
  columns, each with the JSON value it is written as (\<open>_row_to_dict\<close>) and how such a value is stored
  back (\<open>_hydrate_row\<close> and the type of the column, which a typed database enforces).  \<open>session.merge\<close>
  finds the row with the same primary key and sets the columns that the dict has, or inserts a row
  with the class's defaults; \<open>onupdate\<close> fires when a column other than \<open>updated_at\<close> changed.

  \<open>json.dumps\<close>, \<open>json.loads\<close>, \<open>datetime.isoformat\<close>, \<open>fromisoformat\<close>, \<open>strftime\<close> and the \<open>tar.gz\<close>
  container of the standard library are the functions of a \<open>codec\<close>; what the code relies on is \<open>codec_ok\<close>:
  reading gives back what was written.  Bytes are characters.
\<close>

type_synonym row_dict = "(string \<times> json) list"

record codec =
  cd_iso :: "time \<Rightarrow> string"
  cd_fromiso :: "string \<Rightarrow> time option"
  cd_stamp :: "time \<Rightarrow> string"
  cd_dumps :: "json \<Rightarrow> string"
  cd_loads :: "string \<Rightarrow> json option"
  cd_tar :: "(string \<times> string) list \<Rightarrow> string"
  cd_untar :: "string \<Rightarrow> (string \<times> string) list option"

definition parse_iso :: "codec \<Rightarrow> string \<Rightarrow> time option" where
  "parse_iso c s = cd_fromiso c (replace_all ''Z'' ''+00:00'' s)"

definition codec_ok :: "codec \<Rightarrow> bool" where
  "codec_ok c \<longleftrightarrow> (\<forall>t. parse_iso c (cd_iso c t) = Some t \<and> cd_fromiso c (cd_iso c t) = Some t) \<and> (\<forall>j. cd_loads c (cd_dumps c j) = Some j) \<and>
     (\<forall>ms. cd_untar c (cd_tar c ms) = Some ms) \<and> (\<forall>t. CHR ''/'' \<notin> set (cd_stamp c t))"

text \<open>A text column that holds JSON, as the text itself.\<close>

fun text_str :: "codec \<Rightarrow> json_text \<Rightarrow> string" where
  "text_str c (JText j) = cd_dumps c j"
| "text_str c (BadText s) = s"

definition str_text :: "codec \<Rightarrow> string \<Rightarrow> json_text" where
  "str_text c s = (case cd_loads c s of Some j \<Rightarrow> JText j | None \<Rightarrow> BadText s)"

fun text_ok :: "codec \<Rightarrow> json_text \<Rightarrow> bool" where
  "text_ok c (JText j) = True"
| "text_ok c (BadText s) = (cd_loads c s = None)"

lemma str_text_str [simp]: "codec_ok c \<Longrightarrow> text_ok c t \<Longrightarrow> str_text c (text_str c t) = t"
  by (cases t) (auto simp: str_text_def codec_ok_def)

subsection \<open>Columns\<close>

record 'r column =
  col_name :: string
  col_get :: "'r \<Rightarrow> json"
  col_set :: "json \<Rightarrow> 'r \<Rightarrow> 'r option"

definition str_col :: "string \<Rightarrow> ('r \<Rightarrow> string) \<Rightarrow> ((string \<Rightarrow> string) \<Rightarrow> 'r \<Rightarrow> 'r) \<Rightarrow> 'r column" where
  "str_col n get upd = \<lparr>col_name = n, col_get = (\<lambda>r. JStr (get r)),
     col_set = (\<lambda>j r. case j of JStr s \<Rightarrow> Some (upd (\<lambda>_. s) r) | _ \<Rightarrow> None)\<rparr>"

definition opt_str_col :: "string \<Rightarrow> ('r \<Rightarrow> string option) \<Rightarrow> ((string option \<Rightarrow> string option) \<Rightarrow> 'r \<Rightarrow> 'r) \<Rightarrow> 'r column" where
  "opt_str_col n get upd = \<lparr>col_name = n, col_get = (\<lambda>r. case get r of None \<Rightarrow> JNull | Some s \<Rightarrow> JStr s),
     col_set = (\<lambda>j r. case j of JStr s \<Rightarrow> Some (upd (\<lambda>_. Some s) r) | JNull \<Rightarrow> Some (upd (\<lambda>_. None) r) | _ \<Rightarrow> None)\<rparr>"

definition int_col :: "string \<Rightarrow> ('r \<Rightarrow> int) \<Rightarrow> ((int \<Rightarrow> int) \<Rightarrow> 'r \<Rightarrow> 'r) \<Rightarrow> 'r column" where
  "int_col n get upd = \<lparr>col_name = n, col_get = (\<lambda>r. JInt (get r)),
     col_set = (\<lambda>j r. case j of JInt i \<Rightarrow> Some (upd (\<lambda>_. i) r) | _ \<Rightarrow> None)\<rparr>"

definition bool_col :: "string \<Rightarrow> ('r \<Rightarrow> bool) \<Rightarrow> ((bool \<Rightarrow> bool) \<Rightarrow> 'r \<Rightarrow> 'r) \<Rightarrow> 'r column" where
  "bool_col n get upd = \<lparr>col_name = n, col_get = (\<lambda>r. JBool (get r)),
     col_set = (\<lambda>j r. case j of JBool b \<Rightarrow> Some (upd (\<lambda>_. b) r) | _ \<Rightarrow> None)\<rparr>"

definition time_col :: "codec \<Rightarrow> string \<Rightarrow> ('r \<Rightarrow> time) \<Rightarrow> ((time \<Rightarrow> time) \<Rightarrow> 'r \<Rightarrow> 'r) \<Rightarrow> 'r column" where
  "time_col c n get upd = \<lparr>col_name = n, col_get = (\<lambda>r. JStr (cd_iso c (get r))),
     col_set = (\<lambda>j r. case j of JStr s \<Rightarrow> (case parse_iso c s of Some t \<Rightarrow> Some (upd (\<lambda>_. t) r) | None \<Rightarrow> None) | _ \<Rightarrow> None)\<rparr>"

definition opt_time_col :: "codec \<Rightarrow> string \<Rightarrow> ('r \<Rightarrow> time option) \<Rightarrow> ((time option \<Rightarrow> time option) \<Rightarrow> 'r \<Rightarrow> 'r) \<Rightarrow> 'r column" where
  "opt_time_col c n get upd = \<lparr>col_name = n, col_get = (\<lambda>r. case get r of None \<Rightarrow> JNull | Some t \<Rightarrow> JStr (cd_iso c t)),
     col_set = (\<lambda>j r. case j of JNull \<Rightarrow> Some (upd (\<lambda>_. None) r)
       | JStr s \<Rightarrow> (case parse_iso c s of Some t \<Rightarrow> Some (upd (\<lambda>_. Some t) r) | None \<Rightarrow> None) | _ \<Rightarrow> None)\<rparr>"

definition text_col :: "codec \<Rightarrow> string \<Rightarrow> ('r \<Rightarrow> json_text) \<Rightarrow> ((json_text \<Rightarrow> json_text) \<Rightarrow> 'r \<Rightarrow> 'r) \<Rightarrow> 'r column" where
  "text_col c n get upd = \<lparr>col_name = n, col_get = (\<lambda>r. JStr (text_str c (get r))),
     col_set = (\<lambda>j r. case j of JStr s \<Rightarrow> Some (upd (\<lambda>_. str_text c s) r) | _ \<Rightarrow> None)\<rparr>"

definition opt_text_col :: "codec \<Rightarrow> string \<Rightarrow> ('r \<Rightarrow> json_text option) \<Rightarrow> ((json_text option \<Rightarrow> json_text option) \<Rightarrow> 'r \<Rightarrow> 'r) \<Rightarrow> 'r column" where
  "opt_text_col c n get upd = \<lparr>col_name = n, col_get = (\<lambda>r. case get r of None \<Rightarrow> JNull | Some t \<Rightarrow> JStr (text_str c t)),
     col_set = (\<lambda>j r. case j of JNull \<Rightarrow> Some (upd (\<lambda>_. None) r) | JStr s \<Rightarrow> Some (upd (\<lambda>_. Some (str_text c s)) r) | _ \<Rightarrow> None)\<rparr>"

definition json_col :: "string \<Rightarrow> ('r \<Rightarrow> json option) \<Rightarrow> ((json option \<Rightarrow> json option) \<Rightarrow> 'r \<Rightarrow> 'r) \<Rightarrow> 'r column" where
  \<comment> \<open>A nullable \<open>JSON\<close> column: \<open>null\<close> reads back as \<open>None\<close>.\<close>
  "json_col n get upd = \<lparr>col_name = n, col_get = (\<lambda>r. case get r of None \<Rightarrow> JNull | Some j \<Rightarrow> j),
     col_set = (\<lambda>j r. Some (upd (\<lambda>_. if j = JNull then None else Some j) r))\<rparr>"

lemmas col_defs = str_col_def opt_str_col_def int_col_def bool_col_def time_col_def opt_time_col_def
  text_col_def opt_text_col_def json_col_def

subsection \<open>Rows\<close>

definition row_to_dict :: "'r column list \<Rightarrow> 'r \<Rightarrow> row_dict" where
  "row_to_dict cols r = map (\<lambda>c. (col_name c, col_get c r)) cols"

fun hydrate_row :: "'r column list \<Rightarrow> row_dict \<Rightarrow> 'r \<Rightarrow> 'r option" where
  "hydrate_row [] row r = Some r"
| "hydrate_row (c # cs) row r =
     (case map_of row (col_name c) of
        None \<Rightarrow> hydrate_row cs row r
      | Some j \<Rightarrow> (case col_set c j r of None \<Rightarrow> None | Some r' \<Rightarrow> hydrate_row cs row r'))"

definition col_json :: "'r column list \<Rightarrow> string \<Rightarrow> 'r \<Rightarrow> json option" where
  "col_json cols n r = map_of (row_to_dict cols r) n"

record 'r table_spec =
  tb_cols :: "'r column list"
  tb_required :: "string list"
  tb_default :: "'r list \<Rightarrow> string \<Rightarrow> time \<Rightarrow> 'r"
  tb_stamp :: "time \<Rightarrow> 'r \<Rightarrow> 'r"

definition merge_onto :: "'r table_spec \<Rightarrow> time \<Rightarrow> row_dict \<Rightarrow> 'r \<Rightarrow> 'r option" where
  "merge_onto tb now row r =
     (case hydrate_row (tb_cols tb) row r of
        None \<Rightarrow> None
      | Some r' \<Rightarrow>
          Some (if r' \<noteq> r \<and> col_json (tb_cols tb) ''updated_at'' r' = col_json (tb_cols tb) ''updated_at'' r
                then tb_stamp tb now r' else r'))"

definition data_error :: error where
  "data_error = OtherException ''DataError''"

definition merge_dict :: "'r table_spec \<Rightarrow> string \<Rightarrow> time \<Rightarrow> row_dict \<Rightarrow> 'r list \<Rightarrow> error + 'r list" where
  \<comment> \<open>A row without a primary key, or with a null one, is new.\<close>
  "merge_dict tb new_id now row0 t =
     (let row = (if map_of row0 ''id'' = Some JNull then dict_pop ''id'' row0 else row0);
          same = (\<lambda>r. map_of row ''id'' \<noteq> None \<and> col_json (tb_cols tb) ''id'' r = map_of row ''id'')
      in case find same t of
           Some r \<Rightarrow>
             (case merge_onto tb now row r of
                None \<Rightarrow> Inl data_error
              | Some r' \<Rightarrow> Inr (update_where same (\<lambda>_. r') t))
         | None \<Rightarrow>
             if set (tb_required tb) \<subseteq> fst ` set row then
               (case hydrate_row (tb_cols tb) row (tb_default tb t new_id now) of
                  None \<Rightarrow> Inl data_error
                | Some r \<Rightarrow> Inr (add_row r t))
             else Inl IntegrityError)"

fun upsert_rows :: "'r table_spec \<Rightarrow> ('r list \<Rightarrow> bool) \<Rightarrow> env \<Rightarrow> nat \<Rightarrow> row_dict list \<Rightarrow> 'r list \<Rightarrow> error + 'r list" where
  \<comment> \<open>Each merge flushes what came before it, so the constraints \<open>ok\<close> hold after every row.\<close>
  "upsert_rows tb ok e n [] t = Inr t"
| "upsert_rows tb ok e n (row # rows) t =
     (case merge_dict tb (env_ids e n) (env_now e) row t of
        Inl x \<Rightarrow> Inl x
      | Inr t' \<Rightarrow> if ok t' then upsert_rows tb ok e (Suc n) rows t' else Inl IntegrityError)"

subsection \<open>The mapped classes\<close>

definition user_cols :: "codec \<Rightarrow> user column list" where
  "user_cols c =
    [str_col ''id'' u_id u_id_update, str_col ''email'' u_email u_email_update,
     str_col ''password_hash'' u_password_hash u_password_hash_update,
     str_col ''display_name'' u_display_name u_display_name_update,
     bool_col ''is_active'' u_is_active u_is_active_update,
     bool_col ''is_superadmin'' u_is_superadmin u_is_superadmin_update,
     opt_time_col c ''last_login'' u_last_login u_last_login_update,
     opt_str_col ''totp_secret'' u_totp_secret u_totp_secret_update,
     bool_col ''totp_enabled'' u_totp_enabled u_totp_enabled_update,
     opt_text_col c ''backup_codes'' u_backup_codes u_backup_codes_update,
     bool_col ''must_change_password'' u_must_change_password u_must_change_password_update,
     int_col ''session_version'' u_session_version u_session_version_update,
     time_col c ''created_at'' u_created_at u_created_at_update,
     time_col c ''updated_at'' u_updated_at u_updated_at_update]"

definition user_table :: "codec \<Rightarrow> user table_spec" where
  "user_table c = \<lparr>tb_cols = user_cols c, tb_required = [''email'', ''password_hash'', ''display_name''],
     tb_default = (\<lambda>t i now. new_user i now [] [] [] False), tb_stamp = touch_user\<rparr>"

definition role_cols :: "role column list" where
  "role_cols = [int_col ''id'' ro_id ro_id_update, str_col ''name'' ro_name ro_name_update,
     str_col ''description'' ro_description ro_description_update]"

definition role_table :: "role table_spec" where
  "role_table = \<lparr>tb_cols = role_cols, tb_required = [''name'', ''description''],
     tb_default = (\<lambda>t i now. \<lparr>ro_id = fold max (map ro_id t) 0 + 1, ro_name = [], ro_description = []\<rparr>),
     tb_stamp = (\<lambda>_ r. r)\<rparr>"

definition utr_cols :: "codec \<Rightarrow> user_tenant_role column list" where
  "utr_cols c = [str_col ''id'' utr_id utr_id_update, str_col ''user_id'' utr_user_id utr_user_id_update,
     str_col ''tenant_id'' utr_tenant_id utr_tenant_id_update, int_col ''role_id'' utr_role_id utr_role_id_update,
     time_col c ''assigned_at'' utr_assigned_at utr_assigned_at_update,
     opt_str_col ''assigned_by'' utr_assigned_by utr_assigned_by_update]"

definition utr_table :: "codec \<Rightarrow> user_tenant_role table_spec" where
  "utr_table c = \<lparr>tb_cols = utr_cols c, tb_required = [''user_id'', ''tenant_id'', ''role_id''],
     tb_default = (\<lambda>t i now. \<lparr>utr_id = i, utr_user_id = [], utr_tenant_id = [], utr_role_id = 0,
       utr_assigned_at = now, utr_assigned_by = None\<rparr>), tb_stamp = (\<lambda>_ r. r)\<rparr>"

definition tenant_cols :: "codec \<Rightarrow> tenant column list" where
  "tenant_cols c = [str_col ''id'' te_id te_id_update, str_col ''name'' te_name te_name_update,
     str_col ''slug'' te_slug te_slug_update, opt_str_col ''api_key_hash'' te_api_key_hash te_api_key_hash_update,
     opt_str_col ''api_key_prefix'' te_api_key_prefix te_api_key_prefix_update,
     bool_col ''is_active'' te_is_active te_is_active_update,
     time_col c ''created_at'' te_created_at te_created_at_update,
     time_col c ''updated_at'' te_updated_at te_updated_at_update]"

definition tenant_table :: "codec \<Rightarrow> tenant table_spec" where
  "tenant_table c = \<lparr>tb_cols = tenant_cols c, tb_required = [''name'', ''slug''],
     tb_default = (\<lambda>t i now. \<lparr>te_id = i, te_name = [], te_slug = [], te_api_key_hash = None,
       te_api_key_prefix = None, te_is_active = True, te_created_at = now, te_updated_at = now\<rparr>),
     tb_stamp = touch_tenant\<rparr>"

definition setting_cols :: "codec \<Rightarrow> setting column list" where
  "setting_cols c = [str_col ''id'' se_id se_id_update, str_col ''scope'' se_scope se_scope_update,
     opt_str_col ''scope_id'' se_scope_id se_scope_id_update, str_col ''key'' se_key se_key_update,
     text_col c ''value_json'' se_value_json se_value_json_update,
     opt_str_col ''updated_by'' se_updated_by se_updated_by_update,
     time_col c ''created_at'' se_created_at se_created_at_update,
     time_col c ''updated_at'' se_updated_at se_updated_at_update]"

definition setting_table :: "codec \<Rightarrow> setting table_spec" where
  "setting_table c = \<lparr>tb_cols = setting_cols c, tb_required = [''scope'', ''key'', ''value_json''],
     tb_default = (\<lambda>t i now. \<lparr>se_id = i, se_scope = [], se_scope_id = None, se_key = [],
       se_value_json = JText JNull, se_updated_by = None, se_created_at = now, se_updated_at = now\<rparr>),
     tb_stamp = touch_setting\<rparr>"

definition item_cols :: "codec \<Rightarrow> item column list" where
  "item_cols c = [str_col ''id'' it_id it_id_update, str_col ''tenant_id'' it_tenant_id it_tenant_id_update,
     str_col ''name'' it_name it_name_update, opt_str_col ''description'' it_description it_description_update,
     bool_col ''is_active'' it_is_active it_is_active_update,
     opt_str_col ''created_by'' it_created_by it_created_by_update,
     opt_str_col ''search_vector'' it_search_vector it_search_vector_update,
     time_col c ''created_at'' it_created_at it_created_at_update,
     time_col c ''updated_at'' it_updated_at it_updated_at_update]"

definition item_table :: "codec \<Rightarrow> item table_spec" where
  "item_table c = \<lparr>tb_cols = item_cols c, tb_required = [''tenant_id'', ''name''],
     tb_default = (\<lambda>t i now. \<lparr>it_id = i, it_tenant_id = [], it_name = [], it_description = None,
       it_is_active = True, it_created_by = None, it_search_vector = None, it_created_at = now,
       it_updated_at = now\<rparr>), tb_stamp = touch_item\<rparr>"

definition audit_cols :: "codec \<Rightarrow> audit_log column list" where
  "audit_cols c = [str_col ''id'' al_id al_id_update, opt_str_col ''tenant_id'' al_tenant_id al_tenant_id_update,
     str_col ''user_id'' al_user_id al_user_id_update, str_col ''action'' al_action al_action_update,
     str_col ''target_type'' al_target_type al_target_type_update,
     str_col ''target_id'' al_target_id al_target_id_update, json_col ''detail'' al_detail al_detail_update,
     str_col ''ip_address'' al_ip_address al_ip_address_update,
     time_col c ''timestamp'' al_timestamp al_timestamp_update]"

definition audit_table :: "codec \<Rightarrow> audit_log table_spec" where
  "audit_table c = \<lparr>tb_cols = audit_cols c, tb_required = [''user_id'', ''action'', ''target_type'', ''target_id''],
     tb_default = (\<lambda>t i now. \<lparr>al_id = i, al_tenant_id = None, al_user_id = [], al_action = [],
       al_target_type = [], al_target_id = [], al_detail = None, al_ip_address = ''unknown'',
       al_timestamp = now\<rparr>), tb_stamp = (\<lambda>_ r. r)\<rparr>"

subsection \<open>What was written is what is read\<close>

text \<open>
  A table whose rows come back: hydrating the dict of a row gives the row, whatever it is laid over,
  and the \<open>id\<close> column identifies it.
\<close>

definition table_ok :: "'r table_spec \<Rightarrow> ('r \<Rightarrow> bool) \<Rightarrow> ('r \<Rightarrow> json) \<Rightarrow> bool" where
  "table_ok tb good pk \<longleftrightarrow>
     (\<forall>r b. good r \<longrightarrow> hydrate_row (tb_cols tb) (row_to_dict (tb_cols tb) r) b = Some r) \<and>
     (\<forall>r. col_json (tb_cols tb) ''id'' r = Some (pk r) \<and> pk r \<noteq> JNull) \<and>
     set (tb_required tb) \<subseteq> col_name ` set (tb_cols tb)"


lemma parse_iso_iso [simp]: "codec_ok c \<Longrightarrow> parse_iso c (cd_iso c t) = Some t"
  by (simp add: codec_ok_def)

lemma hydrate_Cons:
  "map_of row (col_name c) = Some j \<Longrightarrow> col_set c j r = Some r' \<Longrightarrow>
     hydrate_row (c # cs) row r = hydrate_row cs row r'"
  by simp

definition user_good :: "codec \<Rightarrow> user \<Rightarrow> bool" where
  "user_good c u \<longleftrightarrow> (case u_backup_codes u of None \<Rightarrow> True | Some t \<Rightarrow> text_ok c t)"

lemma user_table_ok: "codec_ok c \<Longrightarrow> table_ok (user_table c) (user_good c) (\<lambda>u. JStr (u_id u))"
  by (auto simp: table_ok_def user_table_def user_cols_def row_to_dict_def col_json_def col_defs user_good_def
      split: option.splits)

lemma role_table_ok: "table_ok role_table (\<lambda>_. True) (\<lambda>r. JInt (ro_id r))"
  by (auto simp: table_ok_def role_table_def role_cols_def row_to_dict_def col_json_def col_defs)

lemma utr_table_ok: "codec_ok c \<Longrightarrow> table_ok (utr_table c) (\<lambda>_. True) (\<lambda>r. JStr (utr_id r))"
  by (auto simp: table_ok_def utr_table_def utr_cols_def row_to_dict_def col_json_def col_defs split: option.splits)

lemma tenant_table_ok: "codec_ok c \<Longrightarrow> table_ok (tenant_table c) (\<lambda>_. True) (\<lambda>r. JStr (te_id r))"
  by (auto simp: table_ok_def tenant_table_def tenant_cols_def row_to_dict_def col_json_def col_defs split: option.splits)

lemma setting_table_ok:
  "codec_ok c \<Longrightarrow> table_ok (setting_table c) (\<lambda>s. text_ok c (se_value_json s)) (\<lambda>r. JStr (se_id r))"
  by (auto simp: table_ok_def setting_table_def setting_cols_def row_to_dict_def col_json_def col_defs split: option.splits)

lemma item_table_ok: "codec_ok c \<Longrightarrow> table_ok (item_table c) (\<lambda>_. True) (\<lambda>r. JStr (it_id r))"
  by (auto simp: table_ok_def item_table_def item_cols_def row_to_dict_def col_json_def col_defs split: option.splits)

lemma audit_table_ok:
  "codec_ok c \<Longrightarrow> table_ok (audit_table c) (\<lambda>r. al_detail r \<noteq> Some JNull) (\<lambda>r. JStr (al_id r))"
  by (auto simp: table_ok_def audit_table_def audit_cols_def row_to_dict_def col_json_def col_defs split: option.splits)


subsection \<open>Writing exported rows back\<close>

text \<open>
  Merging the dict of a row puts the row under its key.  The exception is a stored row with the same
  \<open>updated_at\<close> and other contents: the merge is then a change of its own and \<open>onupdate\<close> stamps it.
\<close>

definition no_clash :: "'r table_spec \<Rightarrow> ('r \<Rightarrow> json) \<Rightarrow> 'r list \<Rightarrow> 'r \<Rightarrow> bool" where
  "no_clash tb pk t r \<longleftrightarrow> (\<forall>s \<in> set t. pk s = pk r \<longrightarrow> s = r \<or> (\<forall>now. tb_stamp tb now r = r) \<or>
     col_json (tb_cols tb) ''updated_at'' s \<noteq> col_json (tb_cols tb) ''updated_at'' r)"

lemma no_clash_Nil [simp]: "no_clash tb pk [] r"
  by (simp add: no_clash_def)

lemma no_clash_notin: "pk r \<notin> pk ` set t \<Longrightarrow> no_clash tb pk t r"
  unfolding no_clash_def by (metis imageI)

lemma row_id: "table_ok tb good pk \<Longrightarrow> map_of (row_to_dict (tb_cols tb) r) ''id'' = Some (pk r) \<and> pk r \<noteq> JNull"
  by (simp add: table_ok_def col_json_def)

lemma fst_row_to_dict: "fst ` set (row_to_dict cols r) = col_name ` set cols"
  by (simp add: row_to_dict_def image_image)

lemma merge_exported:
  assumes ok: "table_ok tb good pk" and "good r" and "no_clash tb pk t r"
  shows "merge_dict tb i now (row_to_dict (tb_cols tb) r) t = Inr (merge_row pk r t)"
proof -
  let ?row = "row_to_dict (tb_cols tb) r"
  have hyd: "hydrate_row (tb_cols tb) ?row b = Some r" for b
    using ok \<open>good r\<close> by (simp add: table_ok_def)
  have same: "(\<lambda>s. map_of ?row ''id'' \<noteq> None \<and> col_json (tb_cols tb) ''id'' s = map_of ?row ''id'') = (\<lambda>s. pk s = pk r)"
    using ok by (auto simp: table_ok_def col_json_def)
  have req: "set (tb_required tb) \<subseteq> fst ` set ?row"
    using ok by (simp add: table_ok_def fst_row_to_dict)
  show ?thesis
  proof (cases "get_by pk (pk r) t")
    case None
    then show ?thesis
      using row_id [OF ok, of r] same hyd req
      by (simp add: merge_dict_def Let_def merge_row_def get_by_def)
  next
    case (Some s)
    then have s: "s \<in> set t" "pk s = pk r" by (auto dest: get_by_SomeD)
    have "merge_onto tb now ?row s = Some r"
      using assms(3) s hyd by (auto simp: merge_onto_def no_clash_def)
    then show ?thesis
      using row_id [OF ok, of r] same Some
      by (simp add: merge_dict_def Let_def merge_row_def get_by_def update_by_def)
  qed
qed

lemma set_merge_row: "set (merge_row pk r t) \<subseteq> insert r (set t)"
  by (auto simp: merge_row_def add_row_def set_update_by)

lemma upsert_exported:
  assumes ok: "table_ok tb good pk" and "\<And>r. r \<in> set rs \<Longrightarrow> good r" and "distinct (map pk rs)"
    and "\<And>r. r \<in> set rs \<Longrightarrow> no_clash tb pk t r"
    and "\<And>k. k \<le> length rs \<Longrightarrow> constraint (fold (merge_row pk) (take k rs) t)"
  shows "upsert_rows tb constraint e n (map (row_to_dict (tb_cols tb)) rs) t = Inr (fold (merge_row pk) rs t)"
  using assms(2-)
proof (induction rs arbitrary: n t)
  case Nil
  then show ?case by simp
next
  case (Cons r rs)
  have step: "merge_dict tb (env_ids e n) (env_now e) (row_to_dict (tb_cols tb) r) t = Inr (merge_row pk r t)"
    by (intro merge_exported [OF ok]) (simp_all add: Cons.prems)
  have clash: "no_clash tb pk (merge_row pk r t) s" if s: "s \<in> set rs" for s
  proof -
    have "pk s \<noteq> pk r" using Cons.prems(2) s by (auto simp: image_iff)
    moreover have "u = r \<or> u \<in> set t" if "u \<in> set (merge_row pk r t)" for u
      using that set_merge_row [of pk r t] by auto
    ultimately show ?thesis
      using Cons.prems(3) [of s] s unfolding no_clash_def by (metis list.set_intros(2))
  qed
  have "constraint (merge_row pk r t)" using Cons.prems(4) [of 1] by simp
  moreover have "upsert_rows tb constraint e (Suc n) (map (row_to_dict (tb_cols tb)) rs) (merge_row pk r t) =
      Inr (fold (merge_row pk) rs (merge_row pk r t))"
    using Cons.prems(1,2) clash Cons.prems(4) [of "Suc k" for k] by (intro Cons.IH) auto
  ultimately show ?case using step by simp
qed

lemma fold_merge_fresh:
  "distinct (map pk (t @ rs)) \<Longrightarrow> fold (merge_row pk) rs t = t @ rs"
proof (induction rs arbitrary: t)
  case Nil
  then show ?case by simp
next
  case (Cons r rs)
  then have "get_by pk (pk r) t = None" by (auto simp: get_by_None_iff)
  then have "merge_row pk r t = t @ [r]" by (simp add: merge_row_def add_row_def)
  with Cons.IH [of "t @ [r]"] Cons.prems show ?case by simp
qed

text \<open>Into an empty table, and over rows that are already there.\<close>

lemma upsert_fresh:
  assumes "table_ok tb good pk" and "\<And>r. r \<in> set rs \<Longrightarrow> good r" and d: "distinct (map pk rs)"
    and "\<And>k. constraint (take k rs)"
  shows "upsert_rows tb constraint e n (map (row_to_dict (tb_cols tb)) rs) [] = Inr rs"
proof -
  have take: "fold (merge_row pk) (take k rs) [] = take k rs" for k
    using fold_merge_fresh [of pk "[]" "take k rs"] d by (simp add: take_map [symmetric])
  have "upsert_rows tb constraint e n (map (row_to_dict (tb_cols tb)) rs) [] = Inr (fold (merge_row pk) rs [])"
    by (rule upsert_exported [OF assms(1-3)]) (simp_all add: take assms(4))
  then show ?thesis using take [of "length rs"] by simp
qed

lemma merge_row_present:
  assumes "distinct (map pk t)" and "r \<in> set t"
  shows "merge_row pk r t = t"
proof -
  have "get_by pk (pk r) t = Some r" using assms by (simp add: get_by_mem keys_distinct_def)
  moreover have "update_by pk (pk r) (\<lambda>_. r) t = t"
    unfolding update_by_def update_where_def using assms by (intro map_idI) (auto dest: distinct_keyD)
  ultimately show ?thesis by (simp add: merge_row_def)
qed

lemma fold_merge_present:
  "distinct (map pk t) \<Longrightarrow> set rs \<subseteq> set t \<Longrightarrow> fold (merge_row pk) rs t = t"
  by (induction rs) (auto simp: merge_row_present)

lemma upsert_present:
  assumes "table_ok tb good pk" and "\<And>r. r \<in> set t \<Longrightarrow> good r" and "distinct (map pk t)" and "distinct (map pk rs)"
    and "set rs \<subseteq> set t" and "constraint t"
  shows "upsert_rows tb constraint e n (map (row_to_dict (tb_cols tb)) rs) t = Inr t"
proof -
  have sub: "set (take k rs) \<subseteq> set t" for k using assms(5) set_take_subset by fastforce
  have "no_clash tb pk t r" if "r \<in> set rs" for r
    using that assms(3,5) unfolding no_clash_def by (meson distinct_keyD subsetD)
  then have "upsert_rows tb constraint e n (map (row_to_dict (tb_cols tb)) rs) t = Inr (fold (merge_row pk) rs t)"
    using assms by (intro upsert_exported [OF assms(1)]) (auto simp: fold_merge_present [OF assms(3) sub])
  then show ?thesis by (simp add: fold_merge_present assms(3,5))
qed

text \<open>A codec for the witnesses: texts spell out what they encode, in unary.\<close>

definition demo_codec :: codec where
  "demo_codec = \<lparr>cd_iso = (\<lambda>t. replicate (to_nat t) (CHR ''t'')), cd_fromiso = (\<lambda>s. Some (from_nat (length s))),
     cd_stamp = (\<lambda>t. ''20260101T000000Z''),
     cd_dumps = (\<lambda>j. replicate (to_nat j) (CHR ''j'')), cd_loads = (\<lambda>s. Some (from_nat (length s))),
     cd_tar = (\<lambda>ms. replicate (to_nat ms) (CHR ''m'')), cd_untar = (\<lambda>s. Some (from_nat (length s)))\<rparr>"

lemma replace_all_absent: "hd old \<notin> set s \<Longrightarrow> old \<noteq> [] \<Longrightarrow> replace_all old new s = s"
  by (induction s) (auto simp: starts_with_def take_Suc neq_Nil_conv split: if_splits)

lemma demo_codec_ok [simp]: "codec_ok demo_codec"
  by (auto simp: codec_ok_def demo_codec_def parse_iso_def replace_all_absent)

end
