(* ===== verification/Sinks.thy ===== *)
theory Sinks
  imports Rows
begin

section \<open>Storage sinks\<close>

text \<open>
  \<open>services/backup/sinks\<close>: the blob a sink stores, the file name it gets, the local disk sink over a
  model of the file system, and the download sink.  A file system is the list of its regular files,
  by their absolute normalised path, in the order a directory walk meets them; directories are what
  lies above a file, and there are no symbolic links.  A write may fail: \<open>fault\<close> names the primitive
  step of \<open>put\<close> that raises \<open>OSError\<close> (\<open>mkdir\<close>, the temporary file, the rename, the sidecar) and how many
  bytes it had written.

  What the scheduler relies on is the interface \<open>storage_sink\<close>: a stored snapshot is what \<open>get\<close>
  returns under its locator, \<open>delete\<close> removes it, and neither touches another snapshot.
\<close>

subsection \<open>Blobs and file names\<close>

record backup_blob =
  bb_data :: string
  bb_sha256 :: string
  bb_size :: int
  bb_app_slug :: string
  bb_scope :: string
  bb_kind :: string
  bb_created_at :: time
  bb_encrypted :: bool
  bb_key_fingerprint :: "string option"
  bb_tenant_slug :: "string option"
  bb_metadata :: "(string \<times> string) list"

record sink_write_result =
  sw_locator :: string
  sw_sink_type :: string
  sw_bytes_written :: int
  sw_created_at :: time

record snapshot_entry =
  sn_locator :: string
  sn_app_slug :: json
  sn_scope :: json
  sn_kind :: json
  sn_size :: int
  sn_created_at :: time
  sn_encrypted :: bool
  sn_sha256 :: "json option"
  sn_key_fingerprint :: "json option"
  sn_tenant_slug :: "json option"

definition sink_error :: "string \<Rightarrow> error" where
  "sink_error m = OtherException (''SinkError: '' @ m)"

definition sink_not_found :: "string \<Rightarrow> error" where
  "sink_not_found m = OtherException (''SinkNotFoundError: '' @ m)"

definition os_error :: error where
  "os_error = OtherException ''OSError''"

definition snapshot_name :: "codec \<Rightarrow> backup_blob \<Rightarrow> string" where
  "snapshot_name c b = cd_stamp c (bb_created_at b) @ ''-'' @ bb_kind b @
     (if bb_encrypted b then ''.tar.gz.gpg'' else ''.tar.gz'')"

definition filename_parts :: "codec \<Rightarrow> backup_blob \<Rightarrow> string list" where
  "filename_parts c b =
     (if bb_scope b = ''tenant'' \<and> truthy_str (bb_tenant_slug b)
      then [bb_app_slug b, bb_scope b, the (bb_tenant_slug b), snapshot_name c b]
      else [bb_app_slug b, bb_scope b, snapshot_name c b])"

definition default_filename :: "codec \<Rightarrow> backup_blob \<Rightarrow> string" where
  "default_filename c b = join_with ''/'' (filename_parts c b)"

subsection \<open>Paths and files\<close>

type_synonym path = "string list"

type_synonym fs = "(path \<times> string) list"

definition path_parts :: "string \<Rightarrow> path" where
  "path_parts s = filter (\<lambda>p. p \<noteq> [] \<and> p \<noteq> ''.'') (split_on (CHR ''/'') s)"

definition norm_path :: "path \<Rightarrow> path" where
  \<comment> \<open>\<open>Path.resolve\<close> of an absolute path without symbolic links.\<close>
  "norm_path ps = rev (fold (\<lambda>p acc. if p = ''..'' then tl acc else p # acc) ps [])"

definition join_path :: "path \<Rightarrow> string \<Rightarrow> path" where
  \<comment> \<open>\<open>root / rel\<close>: an absolute right operand replaces the left one.\<close>
  "join_path root rel = (if starts_with ''/'' rel then path_parts rel else root @ path_parts rel)"

definition is_within :: "path \<Rightarrow> path \<Rightarrow> bool" where
  "is_within root target \<longleftrightarrow> take (length root) target = root"

definition py_suffix :: "string \<Rightarrow> string" where
  "py_suffix name = (let w = takeWhile (\<lambda>x. x \<noteq> CHR ''.'') (rev name)
     in if w \<noteq> [] \<and> length w + 1 < length name then CHR ''.'' # rev w else [])"

definition with_suffix :: "string \<Rightarrow> string \<Rightarrow> string" where
  "with_suffix name s = take (length name - length (py_suffix name)) name @ s"

definition sibling :: "(string \<Rightarrow> string) \<Rightarrow> path \<Rightarrow> path" where
  "sibling f p = butlast p @ [f (last p)]"

definition sidecar_of :: "path \<Rightarrow> path" where
  "sidecar_of p = sibling (\<lambda>n. with_suffix n (py_suffix n @ ''.meta.json'')) p"

definition is_dir :: "path \<Rightarrow> fs \<Rightarrow> bool" where
  "is_dir p f \<longleftrightarrow> list_ex (\<lambda>(q, _). length p < length q \<and> take (length p) q = p) f"

definition under_file :: "path \<Rightarrow> fs \<Rightarrow> bool" where
  "under_file p f \<longleftrightarrow> list_ex (\<lambda>(q, _). length q < length p \<and> take (length q) p = q) f"

definition write_file :: "path \<Rightarrow> string \<Rightarrow> fs \<Rightarrow> error + fs" where
  "write_file p data f =
     (if is_dir p f \<or> under_file p f then Inl os_error else Inr (dict_set p data f))"

definition replace_file :: "path \<Rightarrow> path \<Rightarrow> fs \<Rightarrow> error + fs" where
  "replace_file src dst f =
     (case map_of f src of
        None \<Rightarrow> Inl os_error
      | Some data \<Rightarrow>
          if is_dir dst f \<or> under_file dst f then Inl os_error
          else Inr (dict_set dst data (dict_pop src f)))"

definition unlink_file :: "path \<Rightarrow> fs \<Rightarrow> fs" where
  "unlink_file p f = dict_pop p f"

subsection \<open>The local disk sink\<close>

definition local_root :: "string \<Rightarrow> path" where
  "local_root root_dir = norm_path (path_parts root_dir)"

definition opt_json :: "string option \<Rightarrow> json" where
  "opt_json s = (case s of None \<Rightarrow> JNull | Some t \<Rightarrow> JStr t)"

definition sidecar_meta :: "codec \<Rightarrow> backup_blob \<Rightarrow> json" where
  "sidecar_meta c b = JObj
     [(''sha256'', JStr (bb_sha256 b)), (''size'', JInt (bb_size b)), (''app_slug'', JStr (bb_app_slug b)),
      (''scope'', JStr (bb_scope b)), (''kind'', JStr (bb_kind b)), (''encrypted'', JBool (bb_encrypted b)),
      (''key_fingerprint'', opt_json (bb_key_fingerprint b)), (''tenant_slug'', opt_json (bb_tenant_slug b)),
      (''created_at'', JStr (cd_iso c (bb_created_at b))),
      (''metadata'', JObj (map (\<lambda>(k, v). (k, JStr v)) (bb_metadata b)))]"

definition write_step :: "nat \<Rightarrow> (nat \<times> nat) option \<Rightarrow> path \<Rightarrow> string \<Rightarrow> fs \<Rightarrow> (error + fs) \<times> fs" where
  \<comment> \<open>A write that fails after \<open>n\<close> bytes leaves them behind.\<close>
  "write_step k fault p data f =
     (case write_file p data f of
        Inl x \<Rightarrow> (Inl x, f)
      | Inr f' \<Rightarrow>
          (case fault of
             Some (s, n) \<Rightarrow> if s = k then (Inl os_error, dict_set p (take n data) f) else (Inr f', f')
           | None \<Rightarrow> (Inr f', f')))"

definition local_put ::
  "codec \<Rightarrow> string \<Rightarrow> string \<Rightarrow> (nat \<times> nat) option \<Rightarrow> backup_blob \<Rightarrow> fs \<Rightarrow> (error + sink_write_result) \<times> fs" where
  "local_put c root_dir tag fault b f =
     (let rel = default_filename c b;
          target = norm_path (join_path (local_root root_dir) rel);
          tmp = sibling (\<lambda>n. n @ ''.'' @ tag @ ''.part'') target
      in if map_option fst fault = Some 0 then (Inl os_error, f)
         else case write_step 1 fault tmp (bb_data b) f of
           (Inl x, f') \<Rightarrow> (Inl x, f')
         | (Inr f1, _) \<Rightarrow>
             (case (if map_option fst fault = Some 2 then Inl os_error else replace_file tmp target f1) of
                Inl x \<Rightarrow> (Inl x, f1)
              | Inr f2 \<Rightarrow>
                  (case write_step 3 fault (sidecar_of target) (cd_dumps c (sidecar_meta c b)) f2 of
                     (Inl x, f') \<Rightarrow> (Inl x, f')
                   | (Inr f3, _) \<Rightarrow>
                       (Inr \<lparr>sw_locator = rel, sw_sink_type = ''local_disk'', sw_bytes_written = bb_size b,
                             sw_created_at = bb_created_at b\<rparr>, f3))))"

definition resolve_locator :: "string \<Rightarrow> string \<Rightarrow> fs \<Rightarrow> error + path" where
  "resolve_locator root_dir locator f =
     (let target = norm_path (join_path (local_root root_dir) locator)
      in if \<not> is_within (local_root root_dir) target then Inl (sink_not_found (''locator escapes root: '' @ locator))
         else if map_of f target = None then Inl (sink_not_found (''no snapshot at '' @ locator))
         else Inr target)"

definition local_get :: "string \<Rightarrow> string \<Rightarrow> fs \<Rightarrow> error + string" where
  "local_get root_dir locator f =
     (case resolve_locator root_dir locator f of Inl x \<Rightarrow> Inl x | Inr p \<Rightarrow> Inr (the (map_of f p)))"

definition local_delete :: "string \<Rightarrow> string \<Rightarrow> fs \<Rightarrow> error + fs" where
  "local_delete root_dir locator f =
     (case resolve_locator root_dir locator f of
        Inl x \<Rightarrow> Inl x
      | Inr p \<Rightarrow>
          let f' = unlink_file p f
          in Inr (if map_of f' (sidecar_of p) \<noteq> None then unlink_file (sidecar_of p) f' else f'))"

definition local_verify :: "creds \<Rightarrow> string \<Rightarrow> string \<Rightarrow> string \<Rightarrow> fs \<Rightarrow> error + bool" where
  "local_verify cr root_dir locator expected_sha256 f =
     (case resolve_locator root_dir locator f of
        Inl x \<Rightarrow> Inl x | Inr p \<Rightarrow> Inr (cr_sha256_hex cr (the (map_of f p)) = expected_sha256))"

definition sink_parse_ts :: "codec \<Rightarrow> time \<Rightarrow> json option \<Rightarrow> time" where
  "sink_parse_ts c now raw =
     (case raw of Some (JStr s) \<Rightarrow> (case cd_fromiso c s of Some t \<Rightarrow> t | None \<Rightarrow> now) | _ \<Rightarrow> now)"


definition meta_suffix :: string where
  "meta_suffix = ''.meta.json''"

definition digits_val :: "string \<Rightarrow> int" where
  "digits_val s = foldl (\<lambda>n ch. 10 * n + int (code_of ch) - 48) 0 s"

fun py_int :: "json \<Rightarrow> error + int" where
  \<comment> \<open>\<open>int(x)\<close>; of a text, the decimal digits with an optional sign.\<close>
  "py_int (JInt i) = Inr i"
| "py_int (JBool b) = Inr (if b then 1 else 0)"
| "py_int (JStr s) =
     (let t = py_strip s; u = (if t \<noteq> [] \<and> (hd t = CHR ''-'' \<or> hd t = CHR ''+'') then tl t else t)
      in if u \<noteq> [] \<and> list_all is_digit u
         then Inr (if hd t = CHR ''-'' then - digits_val u else digits_val u)
         else Inl (ValueError ''invalid literal for int()''))"
| "py_int _ = Inl (TypeError ''int() argument must be a string or a number'')"

definition snapshot_of ::
  "codec \<Rightarrow> time \<Rightarrow> path \<Rightarrow> string option \<Rightarrow> string option \<Rightarrow> fs \<Rightarrow> path \<times> string \<Rightarrow> error + snapshot_entry option" where
  \<comment> \<open>One sidecar of the scan: \<open>None\<close> where the loop continues.\<close>
  "snapshot_of c now root app_slug tenant_slug f file =
     (case cd_loads c (snd file) of
        None \<Rightarrow> Inr None
      | Some (JObj meta) \<Rightarrow>
          if truthy_str app_slug \<and> map_of meta ''app_slug'' \<noteq> map_option JStr app_slug then Inr None
          else if truthy_str tenant_slug \<and> map_of meta ''tenant_slug'' \<noteq> map_option JStr tenant_slug then Inr None
          else
            let name = last (fst file);
                bundle = butlast (fst file) @ [take (length name - length meta_suffix) name]
            in if name = meta_suffix then Inl (ValueError ''empty name'')
               else if map_of f bundle = None \<and> \<not> is_dir bundle f then Inr None
               else
                 (case (case map_of meta ''size'' of
                          None \<Rightarrow> Inr (case map_of f bundle of None \<Rightarrow> 0 | Some x \<Rightarrow> int (length x)) | Some j \<Rightarrow> py_int j) of
                    Inl x \<Rightarrow> Inl x
                  | Inr n \<Rightarrow> Inr (Some
                      \<lparr>sn_locator = join_with ''/'' (drop (length root) bundle),
                       sn_app_slug = (case map_of meta ''app_slug'' of None \<Rightarrow> JStr '''' | Some j \<Rightarrow> j),
                       sn_scope = (case map_of meta ''scope'' of None \<Rightarrow> JStr '''' | Some j \<Rightarrow> j),
                       sn_kind = (case map_of meta ''kind'' of None \<Rightarrow> JStr ''full'' | Some j \<Rightarrow> j),
                       sn_size = n, sn_created_at = sink_parse_ts c now (map_of meta ''created_at''),
                       sn_encrypted = (case map_of meta ''encrypted'' of None \<Rightarrow> False
                         | Some j \<Rightarrow> j \<notin> {JNull, JBool False, JInt 0, JStr '''', JList [], JObj []}),
                       sn_sha256 = map_of meta ''sha256'', sn_key_fingerprint = map_of meta ''key_fingerprint'',
                       sn_tenant_slug = map_of meta ''tenant_slug''\<rparr>))
      | Some _ \<Rightarrow> Inl (OtherException ''AttributeError''))"

fun collect_snapshots :: "(path \<times> string \<Rightarrow> error + snapshot_entry option) \<Rightarrow> (path \<times> string) list \<Rightarrow> error + snapshot_entry list" where
  "collect_snapshots g [] = Inr []"
| "collect_snapshots g (x # xs) =
     (case g x of
        Inl y \<Rightarrow> Inl y
      | Inr s \<Rightarrow>
          (case collect_snapshots g xs of
             Inl y \<Rightarrow> Inl y | Inr out \<Rightarrow> Inr (case s of None \<Rightarrow> out | Some entry \<Rightarrow> entry # out)))"

definition local_list_snapshots ::
  "codec \<Rightarrow> time \<Rightarrow> string \<Rightarrow> string option \<Rightarrow> string option \<Rightarrow> fs \<Rightarrow> error + snapshot_entry list" where
  "local_list_snapshots c now root_dir app_slug tenant_slug f =
     (let root = local_root root_dir;
          sidecars = filter (\<lambda>(p, _). is_within root p \<and> length root < length p \<and> ends_with meta_suffix (last p)) f
      in case collect_snapshots (snapshot_of c now root app_slug tenant_slug f) sidecars of
           Inl x \<Rightarrow> Inl x | Inr out \<Rightarrow> Inr (sort_desc sn_created_at out))"

subsection \<open>The download sink\<close>

type_synonym download = "(backup_blob \<times> string) option"

definition download_put :: "codec \<Rightarrow> backup_blob \<Rightarrow> download \<Rightarrow> error + (sink_write_result \<times> download)" where
  "download_put c b w =
     Inr (\<lparr>sw_locator = default_filename c b, sw_sink_type = ''download'', sw_bytes_written = bb_size b,
           sw_created_at = bb_created_at b\<rparr>, Some (b, default_filename c b))"

definition download_get :: "string \<Rightarrow> download \<Rightarrow> error + string" where
  "download_get locator w =
     (case w of
        None \<Rightarrow> Inl (sink_error ''download sink does not persist snapshots'')
      | Some (b, l) \<Rightarrow> if locator \<noteq> l then Inl (sink_error ''download sink does not persist snapshots'') else Inr (bb_data b))"

definition download_list_snapshots :: "string option \<Rightarrow> string option \<Rightarrow> download \<Rightarrow> snapshot_entry list" where
  "download_list_snapshots app_slug tenant_slug w = []"

definition download_delete :: "string \<Rightarrow> download \<Rightarrow> error + download" where
  "download_delete locator w = Inl (sink_error ''download sink does not persist snapshots'')"

definition sink_verify :: "creds \<Rightarrow> (string \<Rightarrow> 'w \<Rightarrow> error + string) \<Rightarrow> string \<Rightarrow> string \<Rightarrow> 'w \<Rightarrow> error + bool" where
  \<comment> \<open>The default implementation of \<open>verify\<close>.\<close>
  "sink_verify cr get locator expected_sha256 w =
     (case get locator w of Inl x \<Rightarrow> Inl x | Inr data \<Rightarrow> Inr (cr_sha256_hex cr data = expected_sha256))"

subsection \<open>The interface of a sink\<close>

locale storage_sink =
  fixes put :: "backup_blob \<Rightarrow> 'w \<Rightarrow> error + (sink_write_result \<times> 'w)"
    and get :: "string \<Rightarrow> 'w \<Rightarrow> error + string"
    and delete :: "string \<Rightarrow> 'w \<Rightarrow> error + 'w"
    and snap :: "string \<Rightarrow> bool"
  assumes get_put: "put b w = Inr (r, w') \<Longrightarrow> snap (sw_locator r) \<Longrightarrow> get (sw_locator r) w' = Inr (bb_data b)"
    and get_put_other: "put b w = Inr (r, w') \<Longrightarrow> snap (sw_locator r) \<Longrightarrow> snap m \<Longrightarrow> m \<noteq> sw_locator r \<Longrightarrow> get m w' = get m w"
    and get_delete: "snap l \<Longrightarrow> delete l w = Inr w' \<Longrightarrow> \<exists>x. get l w' = Inl x"
    and get_delete_other: "snap l \<Longrightarrow> delete l w = Inr w' \<Longrightarrow> snap m \<Longrightarrow> m \<noteq> l \<Longrightarrow> get m w' = get m w"
begin

definition remove :: "string \<Rightarrow> 'w \<Rightarrow> 'w" where
  \<comment> \<open>A delete whose failure is only logged.\<close>
  "remove l w = (case delete l w of Inl x \<Rightarrow> w | Inr w' \<Rightarrow> w')"

lemma get_remove_other: "snap l \<Longrightarrow> snap m \<Longrightarrow> m \<noteq> l \<Longrightarrow> get m (remove l w) = get m w"
  by (auto simp: remove_def get_delete_other split: sum.splits)

lemma get_remove_all:
  "(\<And>l. l \<in> set ls \<Longrightarrow> snap l) \<Longrightarrow> snap m \<Longrightarrow> m \<notin> set ls \<Longrightarrow> get m (fold remove ls w) = get m w"
  by (induction ls arbitrary: w) (auto simp: get_remove_other)

lemma get_put_then_remove:
  "put b w = Inr (r, w') \<Longrightarrow> snap (sw_locator r) \<Longrightarrow> (\<And>l. l \<in> set ls \<Longrightarrow> snap l) \<Longrightarrow>
     sw_locator r \<notin> set ls \<Longrightarrow> get (sw_locator r) (fold remove ls w') = Inr (bb_data b)"
  by (simp add: get_remove_all get_put)

lemma verify_put:
  "put b w = Inr (r, w') \<Longrightarrow> snap (sw_locator r) \<Longrightarrow>
     sink_verify cr get (sw_locator r) (cr_sha256_hex cr (bb_data b)) w' = Inr True"
  by (simp add: sink_verify_def get_put)

end


subsection \<open>Paths: facts\<close>

definition clean :: "string \<Rightarrow> bool" where
  "clean p \<longleftrightarrow> p \<noteq> [] \<and> p \<noteq> ''.'' \<and> p \<noteq> ''..'' \<and> CHR ''/'' \<notin> set p"

lemma fold_clean:
  "list_all clean ps \<Longrightarrow> fold (\<lambda>p acc. if p = ''..'' then tl acc else p # acc) ps acc = rev ps @ acc"
  by (induction ps arbitrary: acc) (auto simp: clean_def)

lemma norm_path_clean: "list_all clean ps \<Longrightarrow> norm_path ps = ps"
  by (simp add: norm_path_def fold_clean)

lemma fold_norm_set:
  "set (fold (\<lambda>p acc. if p = ''..'' then tl acc else p # acc) ps acc) \<subseteq> set acc \<union> (set ps - {''..''})"
proof (induction ps arbitrary: acc)
  case Nil
  then show ?case by simp
next
  case (Cons p ps)
  have "set (tl acc) \<subseteq> set acc" by (cases acc) auto
  then show ?case
    using Cons.IH [of "tl acc"] Cons.IH [of "p # acc"] by (cases "p = ''..''") auto
qed

lemma clean_parts: "p \<in> set (path_parts s) \<Longrightarrow> p = ''..'' \<or> clean p"
  by (auto simp: path_parts_def clean_def dest: split_on_no_sep)

lemma norm_parts_clean:
  assumes "\<And>p. p \<in> set ps \<Longrightarrow> p = ''..'' \<or> clean p"
  shows "list_all clean (norm_path ps)"
proof -
  have "set (norm_path ps) \<subseteq> set ps - {''..''}"
    unfolding norm_path_def using fold_norm_set [of ps "[]"] by simp
  then show ?thesis using assms by (auto simp: list_all_iff)
qed

lemma local_root_clean: "list_all clean (local_root s)"
  unfolding local_root_def by (rule norm_parts_clean) (rule clean_parts)

lemma split_join:
  "ps \<noteq> [] \<Longrightarrow> list_all (\<lambda>p. c \<notin> set p) ps \<Longrightarrow> split_on c (join_with [c] ps) = ps"
proof (induction ps rule: induct_list012)
  case (3 p q ps)
  then show ?case by (simp add: split_on_append)
qed auto

lemma path_parts_join:
  assumes "ps \<noteq> []" and "list_all clean ps"
  shows "path_parts (join_with ''/'' ps) = ps"
proof -
  have "split_on (CHR ''/'') (join_with ''/'' ps) = ps"
    using assms by (intro split_join) (auto simp: list_all_iff clean_def)
  then show ?thesis using assms(2) by (simp add: path_parts_def list_all_iff clean_def)
qed

lemma join_relative:
  assumes "ps \<noteq> []" and "list_all clean ps"
  shows "\<not> starts_with ''/'' (join_with ''/'' ps)"
proof -
  obtain p qs where ps: "ps = p # qs" using assms(1) by (cases ps) auto
  with assms(2) obtain x xs where "p = x # xs" "x \<noteq> CHR ''/''"
    by (cases p) (auto simp: clean_def)
  then show ?thesis using ps by (cases qs) (auto simp: starts_with_def)
qed

lemma resolve_join:
  assumes "ps \<noteq> []" and "list_all clean ps"
  shows "norm_path (join_path (local_root root) (join_with ''/'' ps)) = local_root root @ ps"
  using assms local_root_clean [of root]
  by (simp add: join_path_def join_relative path_parts_join norm_path_clean)

lemma with_suffix_append: "with_suffix n (py_suffix n @ s) = n @ s"
proof (cases "py_suffix n = []")
  case True
  then show ?thesis by (simp add: with_suffix_def)
next
  case False
  define w where "w = takeWhile (\<lambda>x. x \<noteq> CHR ''.'') (rev n)"
  define r where "r = dropWhile (\<lambda>x. x \<noteq> CHR ''.'') (rev n)"
  from False have suf: "py_suffix n = CHR ''.'' # rev w" and len: "length w + 1 < length n"
    by (auto simp: py_suffix_def w_def Let_def split: if_splits)
  have rev: "rev n = w @ r" by (simp add: w_def r_def)
  have "length n = length w + length r" using rev by (metis length_append length_rev)
  with len have "r \<noteq> []" by auto
  then have "hd r = CHR ''.''" using hd_dropWhile [of "\<lambda>x. x \<noteq> CHR ''.''" "rev n"] by (simp add: r_def)
  with \<open>r \<noteq> []\<close> obtain r' where "r = CHR ''.'' # r'" by (cases r) auto
  with rev have n: "n = rev r' @ CHR ''.'' # rev w"
    by (metis append.assoc append_Cons append_Nil rev.simps(2) rev_append rev_rev_ident)
  have "take (length n - length (py_suffix n)) n = rev r'"
    unfolding suf by (subst (2) n) (simp add: n)
  then show ?thesis unfolding with_suffix_def suf by (simp add: n)
qed

lemma sidecar_of_eq: "sidecar_of p = butlast p @ [last p @ ''.meta.json'']"
  by (simp add: sidecar_of_def sibling_def with_suffix_append)


subsection \<open>The local disk sink keeps the contract\<close>

text \<open>
  A snapshot's locator spells out a plain relative path whose last component is neither a sidecar nor
  a temporary file.
\<close>

definition snap_locator :: "string \<Rightarrow> bool" where
  "snap_locator l \<longleftrightarrow> (let ps = path_parts l in ps \<noteq> [] \<and> list_all clean ps \<and> l = join_with ''/'' ps \<and>
     \<not> ends_with ''.meta.json'' (last ps) \<and> \<not> ends_with ''.part'' (last ps))"

definition local_put_op ::
  "codec \<Rightarrow> string \<Rightarrow> string \<Rightarrow> (nat \<times> nat) option \<Rightarrow> backup_blob \<Rightarrow> fs \<Rightarrow> error + (sink_write_result \<times> fs)" where
  "local_put_op c root_dir tag fault b f =
     (case local_put c root_dir tag fault b f of (Inl x, _) \<Rightarrow> Inl x | (Inr r, f') \<Rightarrow> Inr (r, f'))"

lemma snap_locatorE:
  assumes "snap_locator l"
  obtains ps where "ps \<noteq> []" "list_all clean ps" "l = join_with ''/'' ps"
    "\<not> ends_with ''.meta.json'' (last ps)" "\<not> ends_with ''.part'' (last ps)"
    "\<And>root. norm_path (join_path (local_root root) l) = local_root root @ ps"
  using assms resolve_join unfolding snap_locator_def Let_def by metis

lemma local_get_snap:
  assumes "ps \<noteq> []" "list_all clean ps"
  shows "local_get root (join_with ''/'' ps) f =
    (case map_of f (local_root root @ ps) of
       None \<Rightarrow> Inl (sink_not_found (''no snapshot at '' @ join_with ''/'' ps)) | Some x \<Rightarrow> Inr x)"
  using assms by (auto simp: local_get_def resolve_locator_def Let_def resolve_join is_within_def split: option.splits)

definition part_path :: "string \<Rightarrow> path \<Rightarrow> path" where
  "part_path tag p = butlast p @ [last p @ ''.'' @ tag @ ''.part'']"

text \<open>What a put leaves behind, whatever fails: only the target, its sidecar and the temporary file change,
  and the target is untouched or complete.\<close>

lemma ends_part: "ends_with ''.part'' (n @ CHR ''.'' # tag @ ''.part'')"
  unfolding ends_with_iff by (rule exI [of _ "n @ CHR ''.'' # tag"]) simp

lemma write_step_other:
  "q \<noteq> p \<Longrightarrow> write_step k fault p data f = (x, f') \<Longrightarrow> map_of f' q = map_of f q"
  "q \<noteq> p \<Longrightarrow> write_step k fault p data f = (Inr f1, f') \<Longrightarrow> map_of f1 q = map_of f q"
  by (auto simp: write_step_def write_file_def map_of_dict_set split: sum.splits option.splits prod.splits if_splits)

lemma write_step_ok: "write_step k fault p data f = (Inr f1, f') \<Longrightarrow> map_of f1 p = Some data"
  by (auto simp: write_step_def write_file_def map_of_dict_set split: sum.splits option.splits prod.splits if_splits)

lemma replace_file_ok:
  "replace_file src dst f = Inr f' \<Longrightarrow> map_of f src = Some x \<Longrightarrow> src \<noteq> dst \<Longrightarrow>
     map_of f' q = (if q = dst then Some x else if q = src then None else map_of f q)"
  by (auto simp: replace_file_def map_of_dict_set map_of_dict_pop split: option.splits if_splits)

lemma local_put_effect:
  assumes tgt: "norm_path (join_path (local_root root) (default_filename c b)) = p" and "p \<noteq> []"
    and q: "q \<noteq> part_path tag p" "q \<noteq> sidecar_of p"
    and put: "local_put c root tag fault b f = (res, f')"
  shows "(q \<noteq> p \<longrightarrow> map_of f' q = map_of f q) \<and> (q = p \<longrightarrow> map_of f' q = map_of f q \<or> map_of f' q = Some (bb_data b)) \<and>
    (q = p \<longrightarrow> res = Inr r \<longrightarrow> map_of f' q = Some (bb_data b)) \<and>
    (res = Inr r \<longrightarrow> sw_locator r = default_filename c b)"
proof -
  let ?tmp = "part_path tag p"
  have tmp: "sibling (\<lambda>n. n @ ''.'' @ tag @ ''.part'') p = ?tmp"
    by (simp add: sibling_def part_path_def)
  have ne: "?tmp \<noteq> p"
  proof
    assume "?tmp = p"
    then have "last ?tmp = last p" by simp
    then show False by (simp add: part_path_def)
  qed
  have old: "map_of g q = map_of f q" if "write_step (Suc 0) fault ?tmp (bb_data b) f = (x, g)" for x g
    using write_step_other(1) [OF q(1) that] .
  have old1: "map_of f1 q = map_of f q" if "write_step (Suc 0) fault ?tmp (bb_data b) f = (Inr f1, g)" for f1 g
    using write_step_other(2) [OF q(1) that] .
  have new: "map_of f2 q = (if q = p then Some (bb_data b) else map_of f q)"
    if "write_step (Suc 0) fault ?tmp (bb_data b) f = (Inr f1, g)" "replace_file ?tmp p f1 = Inr f2" for f1 f2 g
    using replace_file_ok [OF that(2) write_step_ok [OF that(1)] ne, of q] old1 [OF that(1)] q(1) by auto
  note put' = put [unfolded local_put_def Let_def tgt tmp, simplified]
  obtain r1 g1 where w1: "write_step (Suc 0) fault ?tmp (bb_data b) f = (r1, g1)" by fastforce
  show ?thesis
  proof (cases "(\<exists>n. fault = Some (0, n)) \<or> (\<exists>x. r1 = Inl x)")
    case True
    then show ?thesis using put' w1 old [OF w1] by (auto split: if_splits)
  next
    case False
    then obtain f1 where w: "write_step (Suc 0) fault ?tmp (bb_data b) f = (Inr f1, g1)"
      and nz: "\<nexists>n. fault = Some (0, n)" using w1 by (cases r1) auto
    show ?thesis
    proof (cases "(\<exists>n. fault = Some (2, n)) \<or> (\<exists>x. replace_file ?tmp p f1 = Inl x)")
      case True
      then show ?thesis using put' w nz old1 [OF w] by (auto split: if_splits sum.splits)
    next
      case False
      then obtain f2 where f2: "replace_file ?tmp p f1 = Inr f2" and n2: "\<nexists>n. fault = Some (2, n)"
        by (cases "replace_file ?tmp p f1") auto
      obtain r3 g3 where w3: "write_step 3 fault (sidecar_of p) (cd_dumps c (sidecar_meta c b)) f2 = (r3, g3)" by fastforce
      show ?thesis
      proof (cases r3)
        case (Inl x)
        then show ?thesis using put' w nz f2 n2 w3 write_step_other(1) [OF q(2) w3] new [OF w f2] by auto
      next
        case (Inr f3)
        then show ?thesis using put' w nz f2 n2 w3 write_step_other(2) [OF q(2) w3 [unfolded Inr]] new [OF w f2] by auto
      qed
    qed
  qed
qed


lemma snap_apart:
  assumes "qs \<noteq> []" "\<not> ends_with ''.meta.json'' (last qs)" "\<not> ends_with ''.part'' (last qs)"
  shows "root @ qs \<noteq> part_path tag p \<and> root @ qs \<noteq> sidecar_of p"
proof -
  have "last (root @ qs) = last qs" using assms(1) by simp
  moreover have "last (part_path tag p) = last p @ ''.'' @ tag @ ''.part''" by (simp add: part_path_def)
  moreover have "last (sidecar_of p) = last p @ ''.meta.json''" by (simp add: sidecar_of_eq)
  ultimately show ?thesis using assms(2,3) ends_part by (metis append_Cons append_Nil ends_with_append)
qed



lemma resolve_snap:
  "ps \<noteq> [] \<Longrightarrow> list_all clean ps \<Longrightarrow> resolve_locator root (join_with ''/'' ps) f =
     (if map_of f (local_root root @ ps) = None then Inl (sink_not_found (''no snapshot at '' @ join_with ''/'' ps))
      else Inr (local_root root @ ps))"
  by (simp add: resolve_locator_def Let_def resolve_join is_within_def)

lemma local_delete_gone:
  assumes "ps \<noteq> []" "list_all clean ps" and "local_delete root (join_with ''/'' ps) f = Inr f'"
  shows "map_of f' (local_root root @ ps) = None"
  using assms by (auto simp: local_delete_def resolve_snap unlink_file_def map_of_dict_pop Let_def split: if_splits)

lemma local_delete_other:
  assumes "qs \<noteq> []" "\<not> ends_with ''.meta.json'' (last qs)" and ps: "ps \<noteq> []" "list_all clean ps" and "qs \<noteq> ps"
    and del: "local_delete root (join_with ''/'' ps) f = Inr f'"
  shows "map_of f' (local_root root @ qs) = map_of f (local_root root @ qs)"
proof -
  have "last (sidecar_of (local_root root @ ps)) = last (local_root root @ ps) @ ''.meta.json''"
    by (simp add: sidecar_of_eq)
  then have "local_root root @ qs \<noteq> sidecar_of (local_root root @ ps)"
    using assms(1,2) by (metis ends_with_append last_appendR)
  with del ps assms(5) show ?thesis
    by (auto simp: local_delete_def resolve_snap unlink_file_def map_of_dict_pop Let_def split: if_splits)
qed

interpretation local_disk: storage_sink "local_put_op c root tag fault" "local_get root" "local_delete root" snap_locator
  for c root tag fault
proof
  fix b w r w'
  assume put: "local_put_op c root tag fault b w = Inr (r, w')" and s: "snap_locator (sw_locator r)"
  from put have put': "local_put c root tag fault b w = (Inr r, w')"
    by (auto simp: local_put_op_def split: prod.splits sum.splits)
  then have loc: "sw_locator r = default_filename c b"
    by (auto simp: local_put_def Let_def split: prod.splits sum.splits if_splits)
  obtain ps where ps: "ps \<noteq> []" "list_all clean ps" "default_filename c b = join_with ''/'' ps"
    "\<not> ends_with ''.meta.json'' (last ps)" "\<not> ends_with ''.part'' (last ps)"
    using s loc snap_locatorE by metis
  have tgt: "norm_path (join_path (local_root root) (default_filename c b)) = local_root root @ ps"
    using ps resolve_join by simp
  have ne: "local_root root @ ps \<noteq> []" using ps(1) by simp
  note eff = local_put_effect [OF tgt ne _ _ put']
  have P: "map_of w' (local_root root @ ps) = Some (bb_data b)"
    using eff [of "local_root root @ ps" r] snap_apart [OF ps(1,4,5)] by blast
  then show "local_get root (sw_locator r) w' = Inr (bb_data b)"
    using loc ps local_get_snap [OF ps(1,2)] by simp
  fix m
  assume "snap_locator m" and ne_m: "m \<noteq> sw_locator r"
  then obtain ms where ms: "ms \<noteq> []" "list_all clean ms" "m = join_with ''/'' ms"
    "\<not> ends_with ''.meta.json'' (last ms)" "\<not> ends_with ''.part'' (last ms)" by (blast elim: snap_locatorE)
  have "local_root root @ ms \<noteq> local_root root @ ps" using ne_m loc ms(3) ps(3) by auto
  then have "map_of w' (local_root root @ ms) = map_of w (local_root root @ ms)"
    using eff [of "local_root root @ ms"] snap_apart [OF ms(1,4,5)] by blast
  then show "local_get root m w' = local_get root m w"
    using ms local_get_snap [OF ms(1,2)] by simp
next
  fix l w w'
  assume l: "snap_locator l" and del: "local_delete root l w = Inr w'"
  then obtain ps where ps: "ps \<noteq> []" "list_all clean ps" "l = join_with ''/'' ps"
    "\<not> ends_with ''.meta.json'' (last ps)" by (blast elim: snap_locatorE)
  have d: "local_delete root (join_with ''/'' ps) w = Inr w'" using del ps(3) by simp
  show "\<exists>x. local_get root l w' = Inl x"
    using local_delete_gone [OF ps(1,2) d] local_get_snap [OF ps(1,2)] ps(3) by simp
  fix m
  assume "snap_locator m" and ne: "m \<noteq> l"
  then obtain ms where ms: "ms \<noteq> []" "list_all clean ms" "m = join_with ''/'' ms"
    "\<not> ends_with ''.meta.json'' (last ms)" by (blast elim: snap_locatorE)
  have "ms \<noteq> ps" using ne ms(3) ps(3) by auto
  then show "local_get root m w' = local_get root m w"
    using local_delete_other [OF ms(1,4) ps(1,2) _ d] ms local_get_snap [OF ms(1,2)] by simp
qed


text \<open>Reading the hash in chunks and pulling the whole blob give the same verdict.\<close>

lemma local_verify_default: "local_verify cr root l h f = sink_verify cr (local_get root) l h f"
  by (simp add: local_verify_def sink_verify_def local_get_def split: sum.splits)

lemma take_butlast_root:
  assumes "is_within root p" and "p \<noteq> root"
  shows "is_within root (butlast p @ [x])"
proof -
  obtain q where p: "p = root @ q" using assms(1) by (metis append_take_drop_id is_within_def)
  with assms(2) have "q \<noteq> []" by auto
  then show ?thesis by (simp add: p is_within_def butlast_append)
qed

text \<open>
  Whatever locator it is asked for, absolute or full of dots, the local disk sink reads only
  files under its root directory, and deleting removes only files under it.
\<close>

theorem local_sink_confined:
  assumes "map_of f (local_root root) = None"
  shows "(local_get root l f = Inr x \<longrightarrow> (\<exists>p. is_within (local_root root) p \<and> map_of f p = Some x)) \<and>
    (local_delete root l f = Inr f' \<longrightarrow> \<not> is_within (local_root root) q \<longrightarrow> map_of f' q = map_of f q)"
proof (intro conjI impI)
  assume "local_get root l f = Inr x"
  then show "\<exists>p. is_within (local_root root) p \<and> map_of f p = Some x"
    by (auto simp: local_get_def resolve_locator_def Let_def split: sum.splits if_splits)
next
  assume del: "local_delete root l f = Inr f'" and q: "\<not> is_within (local_root root) q"
  then obtain p where p: "resolve_locator root l f = Inr p" by (auto simp: local_delete_def split: sum.splits)
  then have w: "is_within (local_root root) p" and m: "map_of f p \<noteq> None"
    by (auto simp: resolve_locator_def Let_def split: if_splits)
  then have "p \<noteq> local_root root" using assms by auto
  with w have "is_within (local_root root) (sidecar_of p)"
    unfolding sidecar_of_eq by (rule take_butlast_root)
  then have "q \<noteq> sidecar_of p" "q \<noteq> p" using q w by auto
  then show "map_of f' q = map_of f q"
    using del p by (auto simp: local_delete_def Let_def unlink_file_def map_of_dict_pop)
qed

lemma collect_mem:
  "collect_snapshots g xs = Inr out \<Longrightarrow> x \<in> set xs \<Longrightarrow> g x = Inr (Some s) \<Longrightarrow> s \<in> set out"
  by (induction xs arbitrary: out) (auto split: sum.splits option.splits)

lemma local_put_sidecar:
  assumes "local_put c root tag fault b f = (Inr r, f')"
    and "norm_path (join_path (local_root root) (default_filename c b)) = p"
  shows "map_of f' (sidecar_of p) = Some (cd_dumps c (sidecar_meta c b))"
proof -
  obtain f2 g where w: "write_step 3 fault (sidecar_of p) (cd_dumps c (sidecar_meta c b)) f2 = (Inr f', g)"
    using assms by (auto simp: local_put_def Let_def split: if_splits prod.splits sum.splits)
  then show ?thesis by (rule write_step_ok)
qed

text \<open>
  A snapshot that was put is listed, with its locator, size, digest and time, whenever the listing
  succeeds.
\<close>

theorem put_is_listed:
  assumes "codec_ok c" and "snap_locator (default_filename c b)"
    and put: "local_put c root tag fault b f = (Inr r, f')"
    and list: "local_list_snapshots c now root None None f' = Inr out"
  shows "\<exists>s \<in> set out. sn_locator s = sw_locator r \<and> sn_size s = bb_size b \<and>
     sn_sha256 s = Some (JStr (bb_sha256 b)) \<and> sn_created_at s = bb_created_at b"
proof -
  obtain ps where ps: "ps \<noteq> []" "list_all clean ps" "default_filename c b = join_with ''/'' ps"
    "\<not> ends_with ''.meta.json'' (last ps)" "\<not> ends_with ''.part'' (last ps)"
    using assms(2) snap_locatorE by metis
  have tgt: "norm_path (join_path (local_root root) (default_filename c b)) = local_root root @ ps"
    using ps resolve_join by simp
  let ?p = "local_root root @ ps" and ?m = "cd_dumps c (sidecar_meta c b)"
  have side: "map_of f' (sidecar_of ?p) = Some ?m" by (rule local_put_sidecar [OF put tgt])
  have data: "map_of f' ?p = Some (bb_data b)" and loc: "sw_locator r = default_filename c b"
    using local_put_effect [OF tgt _ _ _ put, of ?p r] snap_apart [OF ps(1,4,5), of "local_root root"] ps(1) by auto
  have sp: "sidecar_of ?p = local_root root @ butlast ps @ [last ps @ meta_suffix]"
    using ps(1) by (simp add: sidecar_of_eq butlast_append meta_suffix_def)
  have mem: "(sidecar_of ?p, ?m) \<in> set (filter (\<lambda>(p, _). is_within (local_root root) p \<and> length (local_root root) < length p \<and> ends_with meta_suffix (last p)) f')"
    using map_of_SomeD [OF side] by (simp add: sp is_within_def ends_with_append)
  have "last ps \<noteq> []" using ps(1,2) by (simp add: list_all_iff clean_def)
  define s where "s = \<lparr>sn_locator = default_filename c b, sn_app_slug = JStr (bb_app_slug b),
     sn_scope = JStr (bb_scope b), sn_kind = JStr (bb_kind b), sn_size = bb_size b,
     sn_created_at = bb_created_at b, sn_encrypted = bb_encrypted b, sn_sha256 = Some (JStr (bb_sha256 b)),
     sn_key_fingerprint = Some (opt_json (bb_key_fingerprint b)), sn_tenant_slug = Some (opt_json (bb_tenant_slug b))\<rparr>"
  have bnd: "butlast (sidecar_of ?p) @ [take (length (last (sidecar_of ?p)) - length meta_suffix) (last (sidecar_of ?p))] = ?p"
    using ps(1) by (simp add: sp butlast_append)
  have "snapshot_of c now (local_root root) None None f' (sidecar_of ?p, ?m) = Inr (Some s)"
    using assms(1) data \<open>last ps \<noteq> []\<close> bnd
    by (simp add: snapshot_of_def codec_ok_def sidecar_meta_def truthy_str_def s_def sink_parse_ts_def Let_def
        ps(3)) (simp add: sp)
  then have "s \<in> set out"
    using list mem collect_mem unfolding local_list_snapshots_def Let_def
    by (auto split: sum.splits dest: collect_mem)
  then show ?thesis using loc by (intro bexI [of _ s]) (simp_all add: s_def)
qed


subsection \<open>A concrete store\<close>

definition demo_blob :: backup_blob where
  "demo_blob = \<lparr>bb_data = ''data'', bb_sha256 = ''data'', bb_size = 4, bb_app_slug = ''app'',
     bb_scope = ''platform'', bb_kind = ''full'', bb_created_at = 1000, bb_encrypted = False,
     bb_key_fingerprint = None, bb_tenant_slug = None, bb_metadata = []\<rparr>"

lemma demo_filename: "default_filename demo_codec demo_blob = ''app/platform/20260101T000000Z-full.tar.gz''"
  by (simp add: default_filename_def filename_parts_def snapshot_name_def demo_blob_def demo_codec_def)

lemma demo_snap: "snap_locator ''app/platform/20260101T000000Z-full.tar.gz''"
  by (simp add: snap_locator_def path_parts_def clean_def ends_with_def Let_def)

lemma demo_target:
  "norm_path (join_path (local_root ''/b'') ''app/platform/20260101T000000Z-full.tar.gz'') =
     [''b'', ''app'', ''platform'', ''20260101T000000Z-full.tar.gz'']"
  by (simp add: norm_path_def join_path_def local_root_def path_parts_def starts_with_def)

text \<open>The disk fills up while the sidecar is written: the put fails with the snapshot in place.\<close>

lemma demo_put_fault:
  "\<exists>x f'. local_put demo_codec ''/b'' ''1'' (Some (3, 0)) demo_blob [] = (Inl x, f')"
  by (auto simp: local_put_def demo_filename demo_target Let_def write_step_def write_file_def replace_file_def
      is_dir_def under_file_def dict_set_def dict_pop_def sibling_def)

lemma demo_put:
  "\<exists>r f'. local_put demo_codec ''/b'' ''1'' None demo_blob [] = (Inr r, f')"
  by (auto simp: local_put_def demo_filename demo_target Let_def write_step_def write_file_def replace_file_def
      is_dir_def under_file_def dict_set_def dict_pop_def sibling_def sidecar_of_eq)


theorem put_is_listed_witness:
  "\<exists>r f'. local_put demo_codec ''/b'' ''1'' None demo_blob [] = (Inr r, f') \<and>
     (case local_list_snapshots demo_codec 0 ''/b'' None None f' of
        Inl x \<Rightarrow> True | Inr out \<Rightarrow> sw_locator r \<in> sn_locator ` set out)"
proof -
  obtain r f' where put: "local_put demo_codec ''/b'' ''1'' None demo_blob [] = (Inr r, f')"
    using demo_put by blast
  have snap: "snap_locator (default_filename demo_codec demo_blob)" by (simp only: demo_filename demo_snap)
  have "sw_locator r \<in> sn_locator ` set out" if "local_list_snapshots demo_codec 0 ''/b'' None None f' = Inr out" for out
    using put_is_listed [OF demo_codec_ok snap put that] by force
  with put show ?thesis by (auto split: sum.splits)
qed

theorem local_sink_confined_witness:
  "local_get ''/b'' ''../secret'' [([''secret''], ''x'')] \<noteq> Inr ''x'' \<and>
   local_get ''/b'' ''a'' [([''b'', ''a''], ''x'')] = Inr ''x''"
proof -
  have none: "map_of [([''secret''], ''x'')] (local_root ''/b'') = None" and root: "local_root ''/b'' = [''b'']"
    by (simp_all add: local_root_def norm_path_def path_parts_def)
  have "local_get ''/b'' ''../secret'' [([''secret''], ''x'')] \<noteq> Inr ''x''"
    using local_sink_confined [OF none, of "''../secret''" "''x''", THEN conjunct1]
    by (auto simp: root is_within_def split: if_splits)
  moreover have "local_get ''/b'' ''a'' [([''b'', ''a''], ''x'')] = Inr ''x''"
    by (simp add: local_get_def resolve_locator_def Let_def root join_path_def norm_path_def path_parts_def
        starts_with_def is_within_def)
  ultimately show ?thesis ..
qed

end
