(* ===== verification/Contributors.thy ===== *)
theory Contributors
  imports Sinks AuditLog
begin

section \<open>Backup contributors\<close>

text \<open>
  \<open>services/backup/contributor.py\<close> (the protocol), \<open>contributors.py\<close>, \<open>secrets_contributor.py\<close> and
  \<open>files_contributor.py\<close>.  A contributor is a record of its attributes and methods, the optional ones
  as options; they act on a \<open>world\<close>, the database and the file system.  \<open>restore\<close> runs one session: it
  commits all rows or none, and fails when a unique constraint does not hold after some row.  A NULL in a
  unique constraint is never equal to another.
\<close>

datatype backup_scope = PLATFORM | TENANT

fun scope_value :: "backup_scope \<Rightarrow> string" where
  "scope_value PLATFORM = ''platform''"
| "scope_value TENANT = ''tenant''"

record world =
  w_db :: db
  w_fs :: fs

record contributor_export =
  ce_rows :: "row_dict list"
  ce_files :: "(string \<times> string) list"

record contributor =
  co_id :: string
  co_scopes :: "backup_scope list"
  co_description :: string
  co_export :: "backup_scope \<Rightarrow> string option \<Rightarrow> world \<Rightarrow> error + contributor_export"
  co_export_delta :: "(backup_scope \<Rightarrow> string option \<Rightarrow> time option \<Rightarrow> string list \<Rightarrow> world \<Rightarrow> error + contributor_export) option"
  co_get_row :: "(string \<Rightarrow> string \<Rightarrow> world \<Rightarrow> row_dict option) option"
  co_restore :: "backup_scope \<Rightarrow> string option \<Rightarrow> env \<Rightarrow> json \<Rightarrow> (string \<times> string) list \<Rightarrow> world \<Rightarrow> (error + nat) \<times> world"

subsection \<open>Rows from a document\<close>

fun py_iter :: "json \<Rightarrow> error + json list" where
  "py_iter (JList js) = Inr js"
| "py_iter (JObj m) = Inr (map (\<lambda>(k, _). JStr k) m)"
| "py_iter (JStr s) = Inr (map (\<lambda>ch. JStr [ch]) s)"
| "py_iter _ = Inl (TypeError ''object is not iterable'')"

fun as_dicts :: "json list \<Rightarrow> error + row_dict list" where
  \<comment> \<open>A row that is no dict raises (\<open>.get\<close>, or a subscript) before anything is committed.\<close>
  "as_dicts [] = Inr []"
| "as_dicts (JObj m # js) = (case as_dicts js of Inl x \<Rightarrow> Inl x | Inr ms \<Rightarrow> Inr (m # ms))"
| "as_dicts (_ # js) = Inl (OtherException ''AttributeError'')"

definition rows_of :: "json \<Rightarrow> error + row_dict list" where
  "rows_of rows = (case py_iter rows of Inl x \<Rightarrow> Inl x | Inr js \<Rightarrow> as_dicts js)"

definition strip_tag :: "row_dict \<Rightarrow> row_dict" where
  "strip_tag row = dict_pop ''_table'' row"

definition tagged :: "string \<Rightarrow> row_dict \<Rightarrow> row_dict" where
  "tagged t row = (''_table'', JStr t) # row"

definition with_tag :: "string \<Rightarrow> row_dict list \<Rightarrow> row_dict list" where
  "with_tag t rows = map strip_tag (filter (\<lambda>r. map_of r ''_table'' = Some (JStr t)) rows)"

definition set_db :: "world \<Rightarrow> db \<Rightarrow> world" where
  "set_db w d = w\<lparr>w_db := d\<rparr>"

definition committed :: "nat \<Rightarrow> world \<Rightarrow> error + db \<Rightarrow> (error + nat) \<times> world" where
  "committed n w r = (case r of Inl x \<Rightarrow> (Inl x, w) | Inr d \<Rightarrow> (Inr n, set_db w d))"

subsection \<open>Users, tenants, settings, items, audit log\<close>

definition users_ok :: "user list \<Rightarrow> bool" where
  "users_ok t \<longleftrightarrow> distinct (map u_id t) \<and> distinct (map u_email t)"

definition utrs_ok :: "user_tenant_role list \<Rightarrow> bool" where
  "utrs_ok t \<longleftrightarrow> distinct (map utr_id t) \<and> distinct (map (\<lambda>r. (utr_user_id r, utr_tenant_id r)) t)"

definition tenants_ok :: "tenant list \<Rightarrow> bool" where
  "tenants_ok t \<longleftrightarrow> distinct (map te_id t) \<and> distinct (map te_name t) \<and> distinct (map te_slug t)"

definition roles_ok :: "role list \<Rightarrow> bool" where
  "roles_ok t \<longleftrightarrow> distinct (map ro_id t) \<and> distinct (map ro_name t)"

definition settings_ok :: "setting list \<Rightarrow> bool" where
  "settings_ok t \<longleftrightarrow> distinct (map se_id t) \<and>
     distinct (map (\<lambda>s. (se_scope s, se_scope_id s, se_key s)) (filter (\<lambda>s. se_scope_id s \<noteq> None) t))"

definition items_ok :: "item list \<Rightarrow> bool" where
  "items_ok t \<longleftrightarrow> distinct (map it_id t)"

definition audit_ok :: "audit_log list \<Rightarrow> bool" where
  "audit_ok t \<longleftrightarrow> distinct (map al_id t)"

lemmas constraint_defs = users_ok_def utrs_ok_def tenants_ok_def roles_ok_def settings_ok_def items_ok_def audit_ok_def

definition users_contributor :: "codec \<Rightarrow> contributor" where
  "users_contributor c =
     \<lparr>co_id = ''users'', co_scopes = [PLATFORM],
      co_description = ''All users and their tenant role assignments (platform scope).'',
      co_export = (\<lambda>scope tid w. Inr
        \<lparr>ce_rows = map (\<lambda>u. tagged ''users'' (row_to_dict (user_cols c) u)) (users (w_db w)) @
           map (\<lambda>r. tagged ''user_tenant_roles'' (row_to_dict (utr_cols c) r)) (user_tenant_roles (w_db w)),
         ce_files = []\<rparr>),
      co_export_delta = None,
      co_get_row = Some (\<lambda>cid i w. map_option (\<lambda>u. tagged ''users'' (row_to_dict (user_cols c) u)) (get_by u_id i (users (w_db w)))),
      co_restore = (\<lambda>scope tid e rows files w.
        case rows_of rows of
          Inl x \<Rightarrow> (Inl x, w)
        | Inr rs \<Rightarrow>
            let us = with_tag ''users'' rs; utrs = with_tag ''user_tenant_roles'' rs
            in committed (length us + length utrs) w
                 (case upsert_rows (user_table c) users_ok e 0 us (users (w_db w)) of
                    Inl x \<Rightarrow> Inl x
                  | Inr t \<Rightarrow>
                      (case upsert_rows (utr_table c) utrs_ok e (length us) utrs (user_tenant_roles (w_db w)) of
                         Inl x \<Rightarrow> Inl x
                       | Inr t' \<Rightarrow> Inr ((w_db w)\<lparr>users := t, user_tenant_roles := t'\<rparr>))))\<rparr>"

definition tenants_contributor :: "codec \<Rightarrow> contributor" where
  "tenants_contributor c =
     \<lparr>co_id = ''tenants'', co_scopes = [PLATFORM],
      co_description = ''All tenants and role definitions (platform scope).'',
      co_export = (\<lambda>scope tid w. Inr
        \<lparr>ce_rows = map (\<lambda>t. tagged ''tenants'' (row_to_dict (tenant_cols c) t)) (tenants (w_db w)) @
           map (\<lambda>r. tagged ''roles'' (row_to_dict role_cols r)) (roles (w_db w)),
         ce_files = []\<rparr>),
      co_export_delta = None,
      co_get_row = Some (\<lambda>cid i w. map_option (\<lambda>t. tagged ''tenants'' (row_to_dict (tenant_cols c) t)) (get_by te_id i (tenants (w_db w)))),
      co_restore = (\<lambda>scope tid e rows files w.
        case rows_of rows of
          Inl x \<Rightarrow> (Inl x, w)
        | Inr rs \<Rightarrow>
            let ts = with_tag ''tenants'' rs; ros = with_tag ''roles'' rs
            in committed (length ros + length ts) w
                 (case upsert_rows role_table roles_ok e 0 ros (roles (w_db w)) of
                    Inl x \<Rightarrow> Inl x
                  | Inr t \<Rightarrow>
                      (case upsert_rows (tenant_table c) tenants_ok e (length ros) ts (tenants (w_db w)) of
                         Inl x \<Rightarrow> Inl x
                       | Inr t' \<Rightarrow> Inr ((w_db w)\<lparr>roles := t, tenants := t'\<rparr>))))\<rparr>"

definition exported_settings :: "backup_scope \<Rightarrow> string option \<Rightarrow> db \<Rightarrow> setting list" where
  "exported_settings scope tid d =
     (case scope of
        PLATFORM \<Rightarrow> filter (\<lambda>s. se_scope s = ''global'') (settings d)
      | TENANT \<Rightarrow> filter (\<lambda>s. se_scope s = ''tenant'' \<and> se_scope_id s = tid) (settings d))"

definition restore_settings :: "codec \<Rightarrow> env \<Rightarrow> row_dict list \<Rightarrow> world \<Rightarrow> (error + nat) \<times> world" where
  "restore_settings c e rs w =
     committed (length rs) w
       (case upsert_rows (setting_table c) settings_ok e 0 rs (settings (w_db w)) of
          Inl x \<Rightarrow> Inl x | Inr t \<Rightarrow> Inr ((w_db w)\<lparr>settings := t\<rparr>))"

definition settings_contributor :: "codec \<Rightarrow> contributor" where
  "settings_contributor c =
     \<lparr>co_id = ''settings'', co_scopes = [PLATFORM, TENANT],
      co_description = ''Global settings (platform) or per-tenant settings (tenant scope).'',
      co_export = (\<lambda>scope tid w. Inr
        \<lparr>ce_rows = map (row_to_dict (setting_cols c)) (exported_settings scope tid (w_db w)), ce_files = []\<rparr>),
      co_export_delta = None,
      co_get_row = Some (\<lambda>cid i w. map_option (row_to_dict (setting_cols c)) (get_by se_id i (settings (w_db w)))),
      co_restore = (\<lambda>scope tid e rows files w.
        case rows_of rows of Inl x \<Rightarrow> (Inl x, w) | Inr rs \<Rightarrow> restore_settings c e rs w)\<rparr>"

definition items_contributor :: "codec \<Rightarrow> contributor" where
  "items_contributor c =
     \<lparr>co_id = ''items'', co_scopes = [TENANT], co_description = ''All items for the target tenant.'',
      co_export = (\<lambda>scope tid w. Inr
        \<lparr>ce_rows = map (row_to_dict (item_cols c)) (filter (\<lambda>i. Some (it_tenant_id i) = tid) (items (w_db w))), ce_files = []\<rparr>),
      co_export_delta = Some (\<lambda>scope tid since exclude_origins w. Inr
        \<lparr>ce_rows = map (row_to_dict (item_cols c))
           (filter (\<lambda>i. Some (it_tenant_id i) = tid \<and> (case since of None \<Rightarrow> True | Some t \<Rightarrow> t \<le> it_updated_at i)) (items (w_db w))),
         ce_files = []\<rparr>),
      co_get_row = Some (\<lambda>cid i w. map_option (row_to_dict (item_cols c)) (get_by it_id i (items (w_db w)))),
      co_restore = (\<lambda>scope tid e rows files w.
        case rows_of rows of
          Inl x \<Rightarrow> (Inl x, w)
        | Inr rs \<Rightarrow> committed (length rs) w
            (case upsert_rows (item_table c) items_ok e 0 rs (items (w_db w)) of
               Inl x \<Rightarrow> Inl x | Inr t \<Rightarrow> Inr ((w_db w)\<lparr>items := t\<rparr>)))\<rparr>"

definition exported_audit :: "backup_scope \<Rightarrow> string option \<Rightarrow> db \<Rightarrow> audit_log list" where
  "exported_audit scope tid d =
     (case scope of PLATFORM \<Rightarrow> audit_rows d | TENANT \<Rightarrow> filter (\<lambda>r. al_tenant_id r = tid) (audit_rows d))"

definition audit_contributor :: "codec \<Rightarrow> contributor" where
  \<comment> \<open>The delta export names the column \<open>AuditLog.created_at\<close>, which the class does not have.\<close>
  "audit_contributor c =
     \<lparr>co_id = ''audit_log'', co_scopes = [PLATFORM, TENANT],
      co_description = ''Audit log entries (all at platform scope; tenant-filtered at tenant scope).'',
      co_export = (\<lambda>scope tid w. Inr
        \<lparr>ce_rows = map (row_to_dict (audit_cols c)) (exported_audit scope tid (w_db w)), ce_files = []\<rparr>),
      co_export_delta = Some (\<lambda>scope tid since exclude_origins w.
        if since \<noteq> None
        then Inl (OtherException ''AttributeError: type object AuditLog has no attribute created_at'')
        else Inr \<lparr>ce_rows = map (row_to_dict (audit_cols c)) (exported_audit scope tid (w_db w)), ce_files = []\<rparr>),
      co_get_row = None,
      co_restore = (\<lambda>scope tid e rows files w.
        case rows_of rows of
          Inl x \<Rightarrow> (Inl x, w)
        | Inr rs \<Rightarrow> committed (length rs) w
            (case upsert_rows (audit_table c) audit_ok e 0 rs (audit_rows (w_db w)) of
               Inl x \<Rightarrow> Inl x | Inr t \<Rightarrow> Inr ((w_db w)\<lparr>audit_rows := t\<rparr>)))\<rparr>"


subsection \<open>Secrets\<close>

definition SECRET_SUFFIXES :: "string list" where
  "SECRET_SUFFIXES = [''_secret'', ''_password'', ''_pwd'', ''_token'', ''_api_key'', ''_apikey'',
     ''_private_key'', ''_passphrase'', ''_webhook'']"

definition is_secret :: "string \<Rightarrow> bool" where
  \<comment> \<open>A full match of \<open>.*<suffix>\<close>, ignoring case; \<open>.\<close> does not match a line feed.\<close>
  "is_secret key \<longleftrightarrow> CHR 0x0A \<notin> set key \<and> list_ex (\<lambda>s. ends_with s (py_lower key)) SECRET_SUFFIXES"

fun secret_rows :: "row_dict list \<Rightarrow> error + row_dict list" where
  "secret_rows [] = Inr []"
| "secret_rows (r # rs) =
     (case (case map_of r ''key'' of None \<Rightarrow> Inr [] | Some (JStr k) \<Rightarrow> Inr k
            | Some _ \<Rightarrow> Inl (TypeError ''expected string or bytes-like object'')) of
        Inl x \<Rightarrow> Inl x
      | Inr k \<Rightarrow> (case secret_rows rs of Inl x \<Rightarrow> Inl x | Inr out \<Rightarrow> Inr (if is_secret k then r # out else out)))"

definition secrets_contributor :: "codec \<Rightarrow> contributor" where
  "secrets_contributor c =
     \<lparr>co_id = ''secrets'', co_scopes = [PLATFORM, TENANT],
      co_description = ''Settings whose keys match secret patterns (passwords, tokens, API keys). Export without a passphrase will include plaintext -- use bundle encryption.'',
      co_export = (\<lambda>scope tid w. Inr
        \<lparr>ce_rows = map (row_to_dict (setting_cols c)) (filter (\<lambda>s. is_secret (se_key s)) (exported_settings scope tid (w_db w))),
         ce_files = []\<rparr>),
      co_export_delta = None, co_get_row = None,
      co_restore = (\<lambda>scope tid e rows files w.
        case rows_of rows of
          Inl x \<Rightarrow> (Inl x, w)
        | Inr rs \<Rightarrow>
            (case secret_rows rs of Inl x \<Rightarrow> (Inl x, w) | Inr safe_rows \<Rightarrow> restore_settings c e safe_rows w))\<rparr>"

subsection \<open>Uploaded files\<close>

definition tenant_slug_for :: "backup_scope \<Rightarrow> string option \<Rightarrow> db \<Rightarrow> string option" where
  "tenant_slug_for scope tid d =
     (if scope \<noteq> TENANT then None
      else case tid of None \<Rightarrow> None | Some i \<Rightarrow> map_option te_slug (get_by te_id i (tenants d)))"

definition walk_root :: "path \<Rightarrow> backup_scope \<Rightarrow> string option \<Rightarrow> path option" where
  "walk_root base scope slug =
     (case scope of
        PLATFORM \<Rightarrow> Some base
      | TENANT \<Rightarrow> if truthy_str slug then Some (join_path base (the slug)) else None)"

definition uploaded_files :: "path \<Rightarrow> nat \<Rightarrow> backup_scope \<Rightarrow> string option \<Rightarrow> world \<Rightarrow> (string \<times> string) list" where
  \<comment> \<open>The regular files below the walk root, in path order, without those over the size cap.\<close>
  "uploaded_files base max_bytes scope tid w =
     (case walk_root base scope (tenant_slug_for scope tid (w_db w)) of
        None \<Rightarrow> []
      | Some root \<Rightarrow>
          map (\<lambda>(p, raw). (join_with ''/'' (drop (length base) p), raw))
            (filter (\<lambda>(p, raw). is_within root p \<and> p \<noteq> root \<and> length raw \<le> max_bytes) (sort_key fst (w_fs w))))"

definition part_of :: "path \<Rightarrow> path" where
  "part_of p = norm_path (sibling (\<lambda>n. with_suffix n (py_suffix n @ ''.part'')) p)"

definition restore_file :: "path \<Rightarrow> string \<times> string \<Rightarrow> fs \<Rightarrow> (error + unit) \<times> fs" where
  \<comment> \<open>The base directory exists: it cannot be replaced by a file.\<close>
  "restore_file base entry f =
     (let raw_path = join_path base (fst entry); target = norm_path raw_path
      in if \<not> is_within base target then (Inr (), f)
         else case write_file (part_of raw_path) (snd entry) f of
                Inl x \<Rightarrow> (Inl x, f)
              | Inr f1 \<Rightarrow>
                  if target = base then (Inl os_error, f1)
                  else (case replace_file (part_of raw_path) target f1 of Inl x \<Rightarrow> (Inl x, f1) | Inr f2 \<Rightarrow> (Inr (), f2)))"

fun restore_files :: "path \<Rightarrow> (string \<times> string) list \<Rightarrow> fs \<Rightarrow> (error + unit) \<times> fs" where
  "restore_files base [] f = (Inr (), f)"
| "restore_files base (entry # entries) f =
     (case restore_file base entry f of
        (Inl x, f') \<Rightarrow> (Inl x, f')
      | (Inr _, f') \<Rightarrow> restore_files base entries f')"

definition files_contributor :: "string \<Rightarrow> nat \<Rightarrow> contributor" where
  "files_contributor uploads_base_dir max_bytes =
     \<lparr>co_id = ''files'', co_scopes = [PLATFORM, TENANT],
      co_description = ''Tenant-uploaded files under uploads_base_dir.'',
      co_export = (\<lambda>scope tid w. Inr
        \<lparr>ce_rows = [], ce_files = uploaded_files (local_root uploads_base_dir) max_bytes scope tid w\<rparr>),
      co_export_delta = None, co_get_row = None,
      co_restore = (\<lambda>scope tid e rows files w.
        case restore_files (local_root uploads_base_dir) files (w_fs w) of
          (Inl x, f) \<Rightarrow> (Inl x, w\<lparr>w_fs := f\<rparr>)
        | (Inr _, f) \<Rightarrow> (Inr 0, w\<lparr>w_fs := f\<rparr>))\<rparr>"

subsection \<open>Facts\<close>

lemma as_dicts_objs [simp]: "as_dicts (map JObj ms) = Inr ms"
  by (induction ms) auto

lemma rows_of_objs [simp]: "rows_of (JList (map JObj ms)) = Inr ms"
  by (simp add: rows_of_def)

lemma with_tag_tagged:
  "with_tag t (map (\<lambda>r. tagged t' (f r)) rs) = (if t = t' then map (\<lambda>r. strip_tag (tagged t' (f r))) rs else [])"
  by (induction rs) (auto simp: with_tag_def tagged_def)

lemma with_tag_append [simp]: "with_tag t (rs @ rs') = with_tag t rs @ with_tag t rs'"
  by (simp add: with_tag_def)

lemma strip_tagged: "''_table'' \<notin> col_name ` set cols \<Longrightarrow> strip_tag (tagged t (row_to_dict cols r)) = row_to_dict cols r"
  by (force simp: strip_tag_def tagged_def row_to_dict_def dict_pop_def filter_id_conv)

lemma no_table_column [simp]:
  "''_table'' \<notin> col_name ` set (user_cols c)" "''_table'' \<notin> col_name ` set (utr_cols c)"
  "''_table'' \<notin> col_name ` set (tenant_cols c)" "''_table'' \<notin> col_name ` set role_cols"
  by (simp_all add: user_cols_def utr_cols_def tenant_cols_def role_cols_def col_defs)

text \<open>The secrets export is a part of the settings export, and only secrets are restored from it.\<close>

lemma secret_rows_only:
  "secret_rows rs = Inr out \<Longrightarrow> r \<in> set out \<Longrightarrow> r \<in> set rs \<and> (\<exists>k. map_of r ''key'' = Some (JStr k) \<and> is_secret k)"
  by (induction rs arbitrary: out)
    (auto split: option.splits json.splits sum.splits if_splits simp: is_secret_def SECRET_SUFFIXES_def ends_with_def py_lower_def)

lemma secret_rows_settings:
  "secret_rows (map (row_to_dict (setting_cols c)) ss) =
     Inr (map (row_to_dict (setting_cols c)) (filter (\<lambda>s. is_secret (se_key s)) ss))"
proof (induction ss)
  case Nil
  then show ?case by simp
next
  case (Cons s ss)
  have "map_of (row_to_dict (setting_cols c) s) ''key'' = Some (JStr (se_key s))"
    by (simp add: row_to_dict_def setting_cols_def col_defs)
  with Cons show ?case by simp
qed


subsection \<open>The file contributor stays under its base directory\<close>

lemma norm_path_snoc:
  "norm_path (xs @ [x]) = (if x = ''..'' then butlast (norm_path xs) else norm_path xs @ [x])"
  by (simp add: norm_path_def butlast_rev [symmetric] del: butlast_rev)

lemma is_within_append: "is_within r p \<Longrightarrow> is_within r (p @ q)"
  by (simp add: is_within_def) (metis append_take_drop_id length_take min.cobounded1 take_append take_all_iff diff_is_0_eq take0 append_Nil2 length_append le_add1)

lemma part_of_snoc: "part_of (xs @ [x]) = norm_path xs @ [x @ ''.part'']"
proof -
  have "x @ ''.part'' \<noteq> ''..''" by (cases x; cases "tl x") auto
  then show ?thesis by (simp add: part_of_def sibling_def with_suffix_append norm_path_snoc)
qed

lemma part_within:
  assumes "is_within base (norm_path p)" and "norm_path p \<noteq> base"
  shows "is_within base (part_of p)"
proof (cases p rule: rev_cases)
  case Nil
  then show ?thesis using assms by (simp add: is_within_def norm_path_def)
next
  case (snoc xs x)
  show ?thesis
  proof (cases "x = ''..''")
    case True
    then have b: "norm_path p = butlast (norm_path xs)" by (simp add: snoc norm_path_snoc)
    show ?thesis
    proof (cases "norm_path xs = []")
      case True
      with assms b show ?thesis by (simp add: is_within_def)
    next
      case False
      then have "norm_path xs = norm_path p @ [last (norm_path xs)]" by (simp add: b)
      then show ?thesis
        using is_within_append [OF assms(1), of "[last (norm_path xs), x @ ''.part'']"]
        by (metis append.assoc append_Cons append_Nil part_of_snoc snoc)
    qed
  next
    case False
    then have "norm_path p = norm_path xs @ [x]" by (simp add: snoc norm_path_snoc)
    then show ?thesis
      using take_butlast_root [OF assms, of "x @ ''.part''"] by (simp add: snoc part_of_snoc)
  qed
qed

lemma write_file_other: "write_file p data f = Inr f' \<Longrightarrow> q \<noteq> p \<Longrightarrow> map_of f' q = map_of f q"
  by (auto simp: write_file_def map_of_dict_set split: if_splits)

lemma replace_file_other: "replace_file s t f = Inr f' \<Longrightarrow> q \<noteq> s \<Longrightarrow> q \<noteq> t \<Longrightarrow> map_of f' q = map_of f q"
  by (auto simp: replace_file_def map_of_dict_set map_of_dict_pop split: if_splits option.splits)

lemma restore_file_confined:
  assumes "norm_path (join_path base (fst entry)) \<noteq> base" and "restore_file base entry f = (res, f')"
    and "\<not> is_within base q"
  shows "map_of f' q = map_of f q"
proof -
  let ?raw = "join_path base (fst entry)"
  have "is_within base (norm_path ?raw) \<Longrightarrow> q \<noteq> part_of ?raw \<and> q \<noteq> norm_path ?raw"
    using part_within [of base ?raw] assms(1,3) by auto
  then show ?thesis
    using assms(2) by (auto simp: restore_file_def Let_def split: if_splits sum.splits)
      (metis write_file_other replace_file_other)+
qed

text \<open>
  Restoring uploaded files from a bundle, whatever paths the bundle names, changes no file outside
  the uploads directory; the one exception is an entry that resolves to the directory itself.
\<close>

theorem restore_files_confined:
  assumes "\<And>entry. entry \<in> set entries \<Longrightarrow> norm_path (join_path base (fst entry)) \<noteq> base"
    and "restore_files base entries f = (res, f')" and "\<not> is_within base q"
  shows "map_of f' q = map_of f q"
  using assms(1,2)
proof (induction entries arbitrary: f)
  case Nil
  then show ?case by simp
next
  case (Cons entry entries)
  obtain r g where g: "restore_file base entry f = (r, g)" by fastforce
  have one: "map_of g q = map_of f q"
    using restore_file_confined [OF _ g assms(3)] Cons.prems(1) by simp
  show ?case
  proof (cases r)
    case (Inl x)
    then show ?thesis using Cons.prems(2) g one by simp
  next
    case (Inr u)
    then have "restore_files base entries g = (res, f')" using Cons.prems(2) g by simp
    then show ?thesis using Cons.IH [of g] Cons.prems(1) one by simp
  qed
qed

text \<open>That exception is real: a bundle entry \<open>.\<close> leaves a file next to the uploads directory.\<close>

lemma restore_dot_escapes:
  "restore_file [''srv'', ''uploads''] (''.'', ''x'') [] = (Inl os_error, [([''srv'', ''uploads.part''], ''x'')])"
  by (simp add: restore_file_def join_path_def norm_path_def path_parts_def starts_with_def is_within_def part_of_def
      sibling_def with_suffix_append write_file_def is_dir_def under_file_def dict_set_def)

theorem restore_files_confined_witness:
  "\<exists>res f'. restore_files [''srv''] [(''../etc/passwd'', ''x''), (''a/b'', ''y'')] [([''etc'', ''passwd''], ''p'')] = (res, f') \<and>
     map_of f' [''etc'', ''passwd''] = Some ''p''"
proof -
  obtain res f' where r: "restore_files [''srv''] [(''../etc/passwd'', ''x''), (''a/b'', ''y'')] [([''etc'', ''passwd''], ''p'')] = (res, f')"
    by fastforce
  have "map_of f' [''etc'', ''passwd''] = map_of [([''etc'', ''passwd''], ''p'')] [''etc'', ''passwd'']"
    by (rule restore_files_confined [OF _ r])
      (auto simp: join_path_def norm_path_def path_parts_def starts_with_def is_within_def)
  with r show ?thesis by auto
qed


subsection \<open>Uploaded files survive export and restore\<close>

definition fs_ok :: "fs \<Rightarrow> bool" where
  \<comment> \<open>What a directory tree gives: each path once, plain components, and no file above another.\<close>
  "fs_ok f \<longleftrightarrow> distinct (map fst f) \<and> (\<forall>p \<in> fst ` set f. list_all clean p \<and> p \<noteq> []) \<and>
     (\<forall>p \<in> fst ` set f. \<forall>q \<in> fst ` set f. length p < length q \<longrightarrow> take (length p) q \<noteq> p)"

lemma list_less_append: "z \<noteq> [] \<Longrightarrow> x < x @ (z :: 'a::linorder list)"
  unfolding list_less_def by (rule lexord_append_rightI) (cases z; auto)

lemma path_less_part:
  assumes "p \<noteq> []"
  shows "p < butlast p @ [last p @ ''.part'']"
proof -
  have "last p < last p @ ''.part''" by (rule list_less_append) simp
  then have "([last p], [last p @ ''.part'']) \<in> lexord {(u, v). u < v}" by simp
  then have "(butlast p @ [last p], butlast p @ [last p @ ''.part'']) \<in> lexord {(u, v). u < v}"
    by (rule lexord_append_leftI)
  then show ?thesis using assms by (simp add: list_less_def)
qed

lemma path_less_ext: "length p < length q \<Longrightarrow> take (length p) q = p \<Longrightarrow> p < (q :: 'a::linorder list)"
  using list_less_append [of "drop (length p) q" p] append_take_drop_id [of "length p" q] by auto

lemma restore_files_append:
  "restore_files base (es @ es') f =
     (case restore_files base es f of (Inl x, g) \<Rightarrow> (Inl x, g) | (Inr _, g) \<Rightarrow> restore_files base es' g)"
  by (induction es arbitrary: f) (auto split: prod.splits sum.splits)

lemma dom_eq_keys: "map_of f = map_of g \<Longrightarrow> fst ` set f = fst ` set g"
  by (metis dom_map_of_conv_image_fst)

text \<open>One more file, in path order, into a tree that holds the earlier ones.\<close>

lemma restore_next:
  assumes p: "list_all clean p" "is_within base p" "p \<noteq> base" "list_all clean base" "p \<noteq> []"
    and old: "\<And>q. q \<in> fst ` set f \<Longrightarrow> q < p \<and> (length q < length p \<longrightarrow> take (length q) p \<noteq> q) \<and>
       (length p < length q \<longrightarrow> take (length p) q \<noteq> p)"
  shows "\<exists>g. restore_file base (join_with ''/'' (drop (length base) p), raw) f = (Inr (), g) \<and> map_of g = (map_of f)(p \<mapsto> raw)"
proof -
  let ?rel = "drop (length base) p" and ?part = "butlast p @ [last p @ ''.part'']"
  have pre: "p = base @ ?rel" using p(2) by (metis append_take_drop_id is_within_def)
  have rel: "?rel \<noteq> []" "list_all clean ?rel"
    using p(1,3) pre by (auto simp: list_all_iff dest: in_set_dropD)
  then have jp: "join_path base (join_with ''/'' ?rel) = p"
    using pre by (simp add: join_path_def join_relative path_parts_join)
  have np: "norm_path p = p" using p(1) by (rule norm_path_clean)
  have part: "part_of p = ?part"
  proof -
    have "norm_path (butlast p) = butlast p" using p(1) by (intro norm_path_clean) (auto simp: list_all_iff dest: in_set_butlastD)
    then show ?thesis using part_of_snoc [of "butlast p" "last p"] p(5) by simp
  qed
  have less: "p < ?part" using p(5) by (rule path_less_part)
  have len: "length ?part = length p" using p(5) by simp
  have "\<not> is_dir ?part f"
  proof
    assume "is_dir ?part f"
    then obtain q where q: "q \<in> fst ` set f" "length ?part < length q" "take (length ?part) q = ?part"
      by (force simp: is_dir_def list_ex_iff)
    then have "?part < q" by (intro path_less_ext)
    moreover have "q < p" using old [OF q(1)] by blast
    ultimately have "?part < p" by (rule order.strict_trans)
    with less show False by (rule order.asym)
  qed
  moreover have "\<not> under_file ?part f"
  proof
    assume "under_file ?part f"
    then obtain q where q: "q \<in> fst ` set f" "length q < length ?part" "take (length q) ?part = q"
      by (force simp: under_file_def list_ex_iff)
    then have lt: "length q < length p" using len by (simp only:)
    then have "take (length q) ?part = take (length q) (butlast p)" by simp
    also have "\<dots> = take (length q) p" using lt by (rule take_butlast)
    finally have "take (length q) p = q" using q(3) by (simp only:)
    with old [OF q(1)] lt show False by blast
  qed
  ultimately have wr: "write_file ?part raw f = Inr (dict_set ?part raw f)" by (simp add: write_file_def)
  have keys: "q \<in> fst ` set f \<or> q = ?part" if "q \<in> fst ` set (dict_set ?part raw f)" for q
    using that by (auto simp: dict_set_def split: if_splits)
  have "\<not> is_dir p (dict_set ?part raw f)"
  proof
    assume "is_dir p (dict_set ?part raw f)"
    then obtain q where q: "q \<in> fst ` set (dict_set ?part raw f)" "length p < length q" "take (length p) q = p"
      by (force simp: is_dir_def list_ex_iff)
    with keys [OF q(1)] old [of q] len show False by auto
  qed
  moreover have "\<not> under_file p (dict_set ?part raw f)"
  proof
    assume "under_file p (dict_set ?part raw f)"
    then obtain q where q: "q \<in> fst ` set (dict_set ?part raw f)" "length q < length p" "take (length q) p = q"
      by (force simp: under_file_def list_ex_iff)
    with keys [OF q(1)] old [of q] len show False by auto
  qed
  ultimately have rp: "replace_file ?part p (dict_set ?part raw f) =
      Inr (dict_set p raw (dict_pop ?part (dict_set ?part raw f)))"
    by (simp add: replace_file_def map_of_dict_set)
  have "map_of f ?part = None"
    using old [of ?part] less by (auto simp: map_of_eq_None_iff dest: less_asym')
  then show ?thesis
    using wr rp p(2,3) by (auto simp: restore_file_def Let_def jp np part map_of_dict_set map_of_dict_pop fun_eq_iff)
qed


definition as_entry :: "path \<Rightarrow> path \<times> string \<Rightarrow> string \<times> string" where
  "as_entry base file = (join_with ''/'' (drop (length base) (fst file)), snd file)"

lemma restore_sorted:
  assumes "list_all clean base"
    and "\<And>p. p \<in> fst ` set es \<Longrightarrow> list_all clean p \<and> is_within base p \<and> p \<noteq> base \<and> p \<noteq> []"
    and "sorted_wrt (<) (map fst es)"
    and "\<And>p q. p \<in> fst ` set es \<Longrightarrow> q \<in> fst ` set es \<Longrightarrow> length p < length q \<Longrightarrow> take (length p) q \<noteq> p"
  shows "\<exists>g. restore_files base (map (as_entry base) es) [] = (Inr (), g) \<and> map_of g = map_of es"
  using assms(2-)
proof (induction es rule: rev_induct)
  case Nil
  then show ?case by simp
next
  case (snoc e es)
  have "sorted_wrt (<) (map fst es)" and last: "\<And>q. q \<in> fst ` set es \<Longrightarrow> q < fst e"
    using snoc.prems(2) by (auto simp: sorted_wrt_append)
  moreover have "\<exists>g. restore_files base (map (as_entry base) es) [] = (Inr (), g) \<and> map_of g = map_of es"
    by (rule snoc.IH) (use snoc.prems calculation(1) in \<open>auto\<close>)
  then obtain g where g: "restore_files base (map (as_entry base) es) [] = (Inr (), g)" "map_of g = map_of es" by blast
  have keys: "fst ` set g = fst ` set es" by (rule dom_eq_keys [OF g(2)])
  have e: "list_all clean (fst e)" "is_within base (fst e)" "fst e \<noteq> base" "fst e \<noteq> []"
    using snoc.prems(1) [of "fst e"] by auto
  have fresh: "fst e \<notin> fst ` set es" using last by blast
  obtain h where h: "restore_file base (join_with ''/'' (drop (length base) (fst e)), snd e) g = (Inr (), h)"
    "map_of h = (map_of g)(fst e \<mapsto> snd e)"
  proof -
    have "q < fst e \<and> (length q < length (fst e) \<longrightarrow> take (length q) (fst e) \<noteq> q) \<and>
       (length (fst e) < length q \<longrightarrow> take (length (fst e)) q \<noteq> fst e)" if "q \<in> fst ` set g" for q
      using that last [of q] snoc.prems(3) [of q "fst e"] snoc.prems(3) [of "fst e" q] by (simp add: keys)
    from restore_next [OF e(1-3) assms(1) e(4) this, where raw = "snd e"] that show thesis by blast
  qed
  have "restore_files base (map (as_entry base) (es @ [e])) [] = (Inr (), h)"
    by (simp add: restore_files_append g as_entry_def h)
  moreover have "map_of h p = map_of (es @ [e]) p" for p
  proof -
    have "map_of es (fst e) = None" using fresh by (simp add: map_of_eq_None_iff)
    then show ?thesis
      by (cases e; cases "p = fst e") (simp_all add: h(2) g(2) map_of_append map_add_def split: option.split)
  qed
  then have "map_of h = map_of (es @ [e])" by (rule ext)
  ultimately show ?case by blast
qed

text \<open>
  Uploaded files come back byte for byte: exporting all uploads and restoring them into an empty
  directory tree gives exactly the files below the uploads directory that are within the size cap.
\<close>

theorem uploads_roundtrip:
  assumes "fs_ok (w_fs w)"
  shows "\<exists>f'. restore_files (local_root dir) (uploaded_files (local_root dir) cap PLATFORM tid w) [] = (Inr (), f') \<and>
     (\<forall>p. map_of f' p = (if is_within (local_root dir) p \<and> p \<noteq> local_root dir
        then Option.bind (map_of (w_fs w) p) (\<lambda>x. if length x \<le> cap then Some x else None) else None))"
proof -
  let ?base = "local_root dir"
  define P where "P = (\<lambda>(p, raw :: string). is_within ?base p \<and> p \<noteq> ?base \<and> length raw \<le> cap)"
  define es where "es = filter P (sort_key fst (w_fs w))"
  have dist: "distinct (map fst (w_fs w))" using assms by (simp add: fs_ok_def)
  have set_es: "set es = {x \<in> set (w_fs w). P x}" by (simp add: es_def)
  have "sorted (map fst es)" unfolding es_def by (rule sorted_filter) simp
  moreover have d: "distinct (map fst es)"
  proof -
    have "distinct (sort_key fst (w_fs w))" using dist by (simp add: distinct_map)
    then show ?thesis using dist by (auto simp: distinct_map es_def inj_on_def)
  qed
  ultimately have strict: "sorted_wrt (<) (map fst es)" by (simp add: strict_sorted_iff)
  have "\<exists>g. restore_files ?base (map (as_entry ?base) es) [] = (Inr (), g) \<and> map_of g = map_of es"
  proof (rule restore_sorted [OF local_root_clean _ strict])
    show "list_all clean p \<and> is_within ?base p \<and> p \<noteq> ?base \<and> p \<noteq> []" if "p \<in> fst ` set es" for p
      using that assms by (auto simp: set_es P_def fs_ok_def)
    show "take (length p) q \<noteq> p" if "p \<in> fst ` set es" "q \<in> fst ` set es" "length p < length q" for p q
      using that assms by (auto simp: set_es fs_ok_def)
  qed
  then obtain g where g: "restore_files ?base (map (as_entry ?base) es) [] = (Inr (), g)" "map_of g = map_of es" by blast
  have up: "uploaded_files ?base cap PLATFORM tid w = map (as_entry ?base) es"
    by (auto simp: uploaded_files_def walk_root_def es_def P_def as_entry_def)
  have val: "map_of es p = (if is_within ?base p \<and> p \<noteq> ?base
      then Option.bind (map_of (w_fs w) p) (\<lambda>x. if length x \<le> cap then Some x else None) else None)" for p
  proof -
    have "map_of es p = Some x \<longleftrightarrow> map_of (w_fs w) p = Some x \<and> P (p, x)" for x
      using map_of_eq_Some_iff [OF d, of p x] map_of_eq_Some_iff [OF dist, of p x] by (auto simp: set_es)
    note iff = this
    show ?thesis
    proof (cases "map_of (w_fs w) p")
      case None
      then have "map_of es p \<noteq> Some x" for x using iff by simp
      then have "map_of es p = None" by (metis not_Some_eq)
      then show ?thesis using None by simp
    next
      case (Some x)
      show ?thesis
      proof (cases "P (p, x)")
        case True
        then have "map_of es p = Some x" using iff Some by simp
        then show ?thesis using True Some by (simp add: P_def)
      next
        case False
        then have "map_of es p \<noteq> Some y" for y using iff [of y] Some by (cases "x = y") simp_all
        then have "map_of es p = None" by (metis not_Some_eq)
        then show ?thesis using False Some by (auto simp: P_def)
      qed
    qed
  qed
  show ?thesis unfolding up g(2) [symmetric] using g by (intro exI [of _ g]) (simp add: val)
qed

theorem uploads_roundtrip_witness:
  "\<exists>f'. restore_files (local_root ''/up'') (uploaded_files (local_root ''/up'') 9 PLATFORM None
       \<lparr>w_db = empty_db, w_fs = [([''up'', ''a''], ''x''), ([''etc''], ''y'')]\<rparr>) [] = (Inr (), f') \<and>
     map_of f' [''up'', ''a''] = Some ''x'' \<and> map_of f' [''etc''] = None"
proof -
  have ok: "fs_ok (w_fs \<lparr>w_db = empty_db, w_fs = [([''up'', ''a''], ''x''), ([''etc''], ''y'')]\<rparr>)"
    by (auto simp: fs_ok_def clean_def)
  have root: "local_root ''/up'' = [''up'']" by (simp add: local_root_def norm_path_def path_parts_def)
  show ?thesis
    using uploads_roundtrip [OF ok, of "''/up''" 9 None] unfolding root by (force simp: is_within_def)
qed

end
