(* ===== verification/BackupSvc.thy ===== *)
theory BackupSvc
  imports Contributors
begin

section \<open>Backup bundles: export and restore\<close>

text \<open>
  \<open>services/backup/service.py\<close>, \<open>schemas.py\<close> and \<open>wiring.py\<close>.  A bundle is the bytes of a \<open>tar.gz\<close>
  archive with \<open>manifest.json\<close>, one \<open>data/<id>.json\<close> per contributor and its files under
  \<open>files/<id>/\<close>.  A document that pydantic would have to convert to the manifest's types counts as
  invalid.  \<open>restore_bundle\<close> returns the world with its result: contributors that committed before a
  later failure stay restored.
\<close>

definition SUPPORTED_SCHEMA_VERSION :: int where "SUPPORTED_SCHEMA_VERSION = 1"

record manifest_entry =
  me_id :: string
  me_rows :: int
  me_files :: int

record backup_manifest =
  bm_schema_version :: int
  bm_scope :: backup_scope
  bm_tenant_slug :: "string option"
  bm_timestamp :: time
  bm_app_name :: string
  bm_app_version :: string
  bm_contributors :: "manifest_entry list"

record contributor_info =
  cinf_id :: string
  cinf_scopes :: "backup_scope list"
  cinf_description :: string

record restore_summary =
  rs_scope :: backup_scope
  rs_tenant_slug :: "string option"
  rs_contributors_restored :: "string list"
  rs_total_rows_upserted :: nat
  rs_warnings :: "string list"

record backup_service =
  svc_app_name :: string
  svc_app_version :: string
  svc_contributors :: "(string \<times> contributor) list"

subsection \<open>Registration\<close>

definition register :: "contributor \<Rightarrow> backup_service \<Rightarrow> backup_service" where
  "register c svc = svc\<lparr>svc_contributors := dict_set (co_id c) c (svc_contributors svc)\<rparr>"

definition list_contributors :: "backup_scope option \<Rightarrow> backup_service \<Rightarrow> contributor_info list" where
  \<comment> \<open>The scopes sorted by their value.\<close>
  "list_contributors scope svc =
     map (\<lambda>c. \<lparr>cinf_id = co_id c, cinf_scopes = sort_key scope_value (co_scopes c), cinf_description = co_description c\<rparr>)
       (filter (\<lambda>c. scope = None \<or> the scope \<in> set (co_scopes c)) (map snd (svc_contributors svc)))"

definition build_backup_service :: "codec \<Rightarrow> string \<Rightarrow> string \<Rightarrow> string option \<Rightarrow> backup_service" where
  "build_backup_service c app_name app_version uploads_base_dir =
     fold register
       ([tenants_contributor c, users_contributor c, settings_contributor c, secrets_contributor c,
         items_contributor c, audit_contributor c] @
        (if truthy_str uploads_base_dir then [files_contributor (the uploads_base_dir) (256 * 1024 * 1024)] else []))
       \<lparr>svc_app_name = app_name, svc_app_version = app_version, svc_contributors = []\<rparr>"

subsection \<open>The manifest document\<close>

fun entry_to_json :: "manifest_entry \<Rightarrow> json" where
  "entry_to_json e = JObj [(''id'', JStr (me_id e)), (''rows'', JInt (me_rows e)), (''files'', JInt (me_files e))]"

definition manifest_to_json :: "codec \<Rightarrow> backup_manifest \<Rightarrow> json" where
  "manifest_to_json c m = JObj
     [(''schema_version'', JInt (bm_schema_version m)), (''scope'', JStr (scope_value (bm_scope m))),
      (''tenant_slug'', opt_json (bm_tenant_slug m)), (''timestamp'', JStr (cd_iso c (bm_timestamp m))),
      (''app_name'', JStr (bm_app_name m)), (''app_version'', JStr (bm_app_version m)),
      (''contributors'', JList (map entry_to_json (bm_contributors m)))]"

fun entry_of_json :: "json \<Rightarrow> manifest_entry option" where
  "entry_of_json (JObj m) =
     (case (map_of m ''id'', map_of m ''rows'', map_of m ''files'') of
        (Some (JStr i), Some (JInt r), Some (JInt f)) \<Rightarrow>
          Some \<lparr>me_id = i, me_rows = r, me_files = f\<rparr>
      | _ \<Rightarrow> None)"
| "entry_of_json _ = None"

fun entries_of_json :: "json list \<Rightarrow> manifest_entry list option" where
  "entries_of_json [] = Some []"
| "entries_of_json (j # js) =
     (case (entry_of_json j, entries_of_json js) of (Some e, Some es) \<Rightarrow> Some (e # es) | _ \<Rightarrow> None)"

definition scope_of_json :: "json \<Rightarrow> backup_scope option" where
  "scope_of_json j = (if j = JStr ''platform'' then Some PLATFORM else if j = JStr ''tenant'' then Some TENANT else None)"

fun manifest_of_json :: "codec \<Rightarrow> json \<Rightarrow> backup_manifest option" where
  "manifest_of_json c (JObj m) =
     (case ((case map_of m ''schema_version'' of None \<Rightarrow> Some SUPPORTED_SCHEMA_VERSION | Some (JInt v) \<Rightarrow> Some v | _ \<Rightarrow> None),
            Option.bind (map_of m ''scope'') scope_of_json,
            (case map_of m ''tenant_slug'' of None \<Rightarrow> Some None | Some JNull \<Rightarrow> Some None | Some (JStr s) \<Rightarrow> Some (Some s) | _ \<Rightarrow> None),
            (case map_of m ''timestamp'' of Some (JStr s) \<Rightarrow> cd_fromiso c s | _ \<Rightarrow> None),
            (case (map_of m ''app_name'', map_of m ''app_version'') of (Some (JStr a), Some (JStr v)) \<Rightarrow> Some (a, v) | _ \<Rightarrow> None),
            (case map_of m ''contributors'' of None \<Rightarrow> Some [] | Some (JList js) \<Rightarrow> entries_of_json js | _ \<Rightarrow> None)) of
        (Some v, Some scope, Some slug, Some ts, Some (a, av), Some es) \<Rightarrow>
          Some \<lparr>bm_schema_version = v, bm_scope = scope, bm_tenant_slug = slug, bm_timestamp = ts,
                bm_app_name = a, bm_app_version = av, bm_contributors = es\<rparr>
      | _ \<Rightarrow> None)"
| "manifest_of_json c _ = None"

subsection \<open>Building and extracting bundles\<close>

type_synonym payloads = "(string \<times> contributor_export) list"

definition build_tarball :: "codec \<Rightarrow> backup_manifest \<Rightarrow> payloads \<Rightarrow> string" where
  "build_tarball c manifest payloads =
     cd_tar c ((''manifest.json'', cd_dumps c (manifest_to_json c manifest)) #
       concat (map (\<lambda>(cid, ex). (''data/'' @ cid @ ''.json'', cd_dumps c (JList (map JObj (ce_rows ex)))) #
         map (\<lambda>(rel, raw). (''files/'' @ cid @ ''/'' @ rel, raw)) (ce_files ex)) payloads))"

record contributor_data =
  cdt_rows :: json
  cdt_files :: "(string \<times> string) list"

definition no_data :: contributor_data where
  "no_data = \<lparr>cdt_rows = JList [], cdt_files = []\<rparr>"

definition data_for :: "string \<Rightarrow> (string \<times> contributor_data) list \<Rightarrow> contributor_data" where
  "data_for cid cdata = (case map_of cdata cid of None \<Rightarrow> no_data | Some x \<Rightarrow> x)"

definition extract_member ::
  "codec \<Rightarrow> string \<times> string \<Rightarrow> (string \<times> contributor_data) list \<Rightarrow> error + (string \<times> contributor_data) list" where
  "extract_member c m cdata =
     (let name = fst m in
      if starts_with ''data/'' name \<and> ends_with ''.json'' name then
        let cid = take (length name - 10) (drop 5 name)
        in (case cd_loads c (snd m) of
              None \<Rightarrow> Inl (ValueError ''JSONDecodeError'')
            | Some j \<Rightarrow> Inr (dict_set cid ((data_for cid cdata)\<lparr>cdt_rows := j\<rparr>) cdata))
      else if starts_with ''files/'' name then
        (case split_first (CHR ''/'') (drop 6 name) of
           None \<Rightarrow> Inr cdata
         | Some (cid, rel) \<Rightarrow>
             Inr (dict_set cid (let x = data_for cid cdata in x\<lparr>cdt_files := cdt_files x @ [(rel, snd m)]\<rparr>) cdata))
      else Inr cdata)"

fun extract_members ::
  "codec \<Rightarrow> (string \<times> string) list \<Rightarrow> (string \<times> contributor_data) list \<Rightarrow> error + (string \<times> contributor_data) list" where
  "extract_members c [] cdata = Inr cdata"
| "extract_members c (m # ms) cdata =
     (case extract_member c m cdata of Inl x \<Rightarrow> Inl x | Inr cdata' \<Rightarrow> extract_members c ms cdata')"

definition read_manifest :: "codec \<Rightarrow> (string \<times> string) list \<Rightarrow> error + backup_manifest" where
  \<comment> \<open>\<open>getmember\<close> finds the last member of that name.\<close>
  "read_manifest c ms =
     (case map_of (rev ms) ''manifest.json'' of
        None \<Rightarrow> Inl (KeyError ''filename manifest.json not found'')
      | Some raw \<Rightarrow>
          (case Option.bind (cd_loads c raw) (manifest_of_json c) of
             None \<Rightarrow> Inl (ValueError ''validation error for BackupManifest'') | Some m \<Rightarrow> Inr m))"

definition extract_bundle ::
  "codec \<Rightarrow> string \<Rightarrow> error + (backup_manifest \<times> (string \<times> contributor_data) list)" where
  "extract_bundle c bundle =
     (case cd_untar c bundle of
        None \<Rightarrow> Inl (OtherException ''ReadError'')
      | Some ms \<Rightarrow>
          (case read_manifest c ms of
             Inl x \<Rightarrow> Inl x
           | Inr m \<Rightarrow> (case extract_members c ms [] of Inl x \<Rightarrow> Inl x | Inr cdata \<Rightarrow> Inr (m, cdata))))"


subsection \<open>Export\<close>

definition is_hex :: "char \<Rightarrow> bool" where
  "is_hex ch \<longleftrightarrow> is_digit ch \<or> (65 \<le> code_of ch \<and> code_of ch \<le> 70) \<or> (97 \<le> code_of ch \<and> code_of ch \<le> 102)"

definition is_uuid :: "string \<Rightarrow> bool" where
  \<comment> \<open>What \<open>UUID(s)\<close> accepts.\<close>
  "is_uuid s \<longleftrightarrow> (let t = replace_all ''-'' '''' (strip_where (\<lambda>ch. ch \<in> set ''{}'')
       (replace_all ''uuid:'' '''' (replace_all ''urn:'' '''' s)))
     in length t = 32 \<and> list_all is_hex t)"

definition in_scope :: "backup_scope \<Rightarrow> backup_service \<Rightarrow> (string \<times> contributor) list" where
  "in_scope scope svc = filter (\<lambda>(_, c). scope \<in> set (co_scopes c)) (svc_contributors svc)"

fun collect_exports ::
  "(contributor \<Rightarrow> error + contributor_export) \<Rightarrow> (string \<times> contributor) list \<Rightarrow> error + payloads" where
  "collect_exports f [] = Inr []"
| "collect_exports f ((cid, c) # cs) =
     (case f c of
        Inl x \<Rightarrow> Inl x
      | Inr ex \<Rightarrow> (case collect_exports f cs of Inl x \<Rightarrow> Inl x | Inr ps \<Rightarrow> Inr ((cid, ex) # ps)))"

definition manifest_for :: "backup_service \<Rightarrow> backup_scope \<Rightarrow> string option \<Rightarrow> time \<Rightarrow> payloads \<Rightarrow> backup_manifest" where
  "manifest_for svc scope tenant_slug now ps =
     \<lparr>bm_schema_version = SUPPORTED_SCHEMA_VERSION, bm_scope = scope, bm_tenant_slug = tenant_slug,
      bm_timestamp = now, bm_app_name = svc_app_name svc, bm_app_version = svc_app_version svc,
      bm_contributors = map (\<lambda>(cid, ex). \<lparr>me_id = cid, me_rows = int (length (ce_rows ex)), me_files = int (length (ce_files ex))\<rparr>) ps\<rparr>"

definition run_export ::
  "codec \<Rightarrow> backup_service \<Rightarrow> backup_scope \<Rightarrow> string option \<Rightarrow> string option \<Rightarrow> time \<Rightarrow> world \<Rightarrow> error + string" where
  "run_export c svc scope tenant_id tenant_slug now w =
     (case collect_exports (\<lambda>co. co_export co scope tenant_id w) (in_scope scope svc) of
        Inl x \<Rightarrow> Inl x
      | Inr ps \<Rightarrow> Inr (build_tarball c (manifest_for svc scope tenant_slug now ps) ps))"

definition delta_of ::
  "backup_scope \<Rightarrow> string option \<Rightarrow> time option \<Rightarrow> string list \<Rightarrow> world \<Rightarrow> contributor \<Rightarrow> error + contributor_export" where
  "delta_of scope tenant_id since exclude_origins w co =
     (case co_export_delta co of
        Some f \<Rightarrow> f scope tenant_id since exclude_origins w
      | None \<Rightarrow> co_export co scope tenant_id w)"

definition run_delta_export ::
  "codec \<Rightarrow> backup_service \<Rightarrow> backup_scope \<Rightarrow> string option \<Rightarrow> string option \<Rightarrow> time option \<Rightarrow> string list \<Rightarrow>
   time \<Rightarrow> world \<Rightarrow> error + string" where
  "run_delta_export c svc scope tenant_id tenant_slug since exclude_origins now w =
     (case collect_exports (delta_of scope tenant_id since exclude_origins w) (in_scope scope svc) of
        Inl x \<Rightarrow> Inl x
      | Inr ps \<Rightarrow> Inr (build_tarball c (manifest_for svc scope tenant_slug now ps) ps))"

definition audited ::
  "env \<Rightarrow> string \<Rightarrow> string option \<Rightarrow> string \<Rightarrow> string \<Rightarrow> string \<Rightarrow> json option \<Rightarrow> string \<Rightarrow> world \<Rightarrow> world" where
  "audited e user_id tenant_id action target_type target_id detail ip w =
     set_db w (audit_log_entry e (env_ids e 0)
       \<lparr>ac_tenant_id = tenant_id, ac_user_id = user_id, ac_action = action, ac_target_type = target_type,
        ac_target_id = target_id, ac_detail = detail, ac_ip_address = ip\<rparr> (w_db w))"

definition export_platform :: "codec \<Rightarrow> backup_service \<Rightarrow> env \<Rightarrow> string \<Rightarrow> string \<Rightarrow> world \<Rightarrow> error + (string \<times> world)" where
  "export_platform c svc e user_id ip w =
     (case run_export c svc PLATFORM None None (env_now e) w of
        Inl x \<Rightarrow> Inl x
      | Inr b \<Rightarrow> Inr (b, audited e user_id None ''backup.platform.export'' ''system'' '''' None ip w))"

definition export_platform_delta ::
  "codec \<Rightarrow> backup_service \<Rightarrow> env \<Rightarrow> time option \<Rightarrow> string list option \<Rightarrow> string \<Rightarrow> string \<Rightarrow> world \<Rightarrow> error + (string \<times> world)" where
  "export_platform_delta c svc e since exclude_origins user_id ip w =
     (case run_delta_export c svc PLATFORM None None since (case exclude_origins of None \<Rightarrow> [] | Some os \<Rightarrow> os) (env_now e) w of
        Inl x \<Rightarrow> Inl x
      | Inr b \<Rightarrow> Inr (b, audited e user_id None ''backup.platform.export_delta'' ''system'' '''' None ip w))"

definition export_tenant ::
  "codec \<Rightarrow> backup_service \<Rightarrow> env \<Rightarrow> string \<Rightarrow> string \<Rightarrow> string \<Rightarrow> string \<Rightarrow> world \<Rightarrow> error + (string \<times> world)" where
  "export_tenant c svc e tenant_id tenant_slug user_id ip w =
     (case run_export c svc TENANT (Some tenant_id) (Some tenant_slug) (env_now e) w of
        Inl x \<Rightarrow> Inl x
      | Inr b \<Rightarrow>
          if is_uuid tenant_id
          then Inr (b, audited e user_id (Some tenant_id) ''backup.tenant.export'' ''tenant'' tenant_id None ip w)
          else Inl (ValueError ''badly formed hexadecimal UUID string''))"

definition export_tenant_delta ::
  "codec \<Rightarrow> backup_service \<Rightarrow> env \<Rightarrow> string \<Rightarrow> string \<Rightarrow> time option \<Rightarrow> string list option \<Rightarrow> string \<Rightarrow> string \<Rightarrow>
   world \<Rightarrow> error + (string \<times> world)" where
  "export_tenant_delta c svc e tenant_id tenant_slug since exclude_origins user_id ip w =
     (case run_delta_export c svc TENANT (Some tenant_id) (Some tenant_slug) since
             (case exclude_origins of None \<Rightarrow> [] | Some os \<Rightarrow> os) (env_now e) w of
        Inl x \<Rightarrow> Inl x
      | Inr b \<Rightarrow>
          if is_uuid tenant_id
          then Inr (b, audited e user_id (Some tenant_id) ''backup.tenant.export_delta'' ''tenant'' tenant_id None ip w)
          else Inl (ValueError ''badly formed hexadecimal UUID string''))"

subsection \<open>Restore\<close>

fun json_str :: "json option \<Rightarrow> string" where
  \<comment> \<open>\<open>str(row.get(...))\<close>; of a list or a dict some text that is no UUID.\<close>
  "json_str None = ''None''"
| "json_str (Some JNull) = ''None''"
| "json_str (Some (JBool b)) = bool_str b"
| "json_str (Some (JInt i)) = int_str i"
| "json_str (Some (JStr s)) = s"
| "json_str (Some _) = ''[...]''"

fun tenant_row_id :: "string option \<Rightarrow> json list \<Rightarrow> error + string option" where
  "tenant_row_id slug [] = Inr None"
| "tenant_row_id slug (JObj m # rows) =
     (if (case map_of m ''slug'' of None \<Rightarrow> None | Some (JStr s) \<Rightarrow> Some s | _ \<Rightarrow> None) = slug
      then Inr (Some (json_str (map_of m ''id''))) else tenant_row_id slug rows)"
| "tenant_row_id slug (_ # rows) = Inl (OtherException ''AttributeError'')"

definition resolve_tenant_id_from_bundle ::
  "backup_manifest \<Rightarrow> (string \<times> contributor_data) list \<Rightarrow> error + string option" where
  "resolve_tenant_id_from_bundle m cdata =
     (case py_iter (cdt_rows (data_for ''tenants'' cdata)) of
        Inl x \<Rightarrow> Inl x | Inr rows \<Rightarrow> tenant_row_id (bm_tenant_slug m) rows)"

definition restore_one ::
  "env \<Rightarrow> backup_scope \<Rightarrow> string option \<Rightarrow> (string \<times> contributor_data) list \<Rightarrow> string \<times> contributor \<Rightarrow>
   restore_summary \<times> world \<Rightarrow> restore_summary \<times> world" where
  "restore_one e scope tenant_id cdata cc sw =
     (let (cid, co) = cc; (s, w) = sw in
      if scope \<notin> set (co_scopes co) \<or> map_of cdata cid = None then sw
      else
        let x = data_for cid cdata
        in case co_restore co scope tenant_id e (cdt_rows x) (cdt_files x) w of
             (Inr n, w') \<Rightarrow> (s\<lparr>rs_total_rows_upserted := rs_total_rows_upserted s + n,
                rs_contributors_restored := rs_contributors_restored s @ [cid]\<rparr>, w')
           | (Inl err, w') \<Rightarrow> (s\<lparr>rs_warnings := rs_warnings s @ [cid @ '': '' @ err_message err]\<rparr>, w'))"

definition id_stream :: "nat \<Rightarrow> nat \<Rightarrow> env \<Rightarrow> env" where
  \<comment> \<open>Fresh ids of its own for each contributor.\<close>
  "id_stream m k e = e\<lparr>env_ids := (\<lambda>n. env_ids e (m * n + k))\<rparr>"

definition restore_all ::
  "env \<Rightarrow> backup_scope \<Rightarrow> string option \<Rightarrow> (string \<times> contributor_data) list \<Rightarrow> backup_service \<Rightarrow>
   restore_summary \<times> world \<Rightarrow> restore_summary \<times> world" where
  "restore_all e scope tenant_id cdata svc sw =
     fold (\<lambda>(k, cc). restore_one (id_stream (Suc (length (svc_contributors svc))) (Suc k) e) scope tenant_id cdata cc)
       (zip [0..<length (svc_contributors svc)] (svc_contributors svc)) sw"

definition restore_detail :: "restore_summary \<Rightarrow> json" where
  "restore_detail s = JObj [(''contributors'', JList (map JStr (rs_contributors_restored s))),
     (''total_rows'', JInt (int (rs_total_rows_upserted s))), (''warnings'', JList (map JStr (rs_warnings s)))]"

definition unsupported_bundle :: "string \<Rightarrow> int \<Rightarrow> error" where
  "unsupported_bundle framework_name v = ValueError (''bundle schema_version='' @ int_str v @ '' exceeds supported='' @
     int_str SUPPORTED_SCHEMA_VERSION @ ''; upgrade '' @ framework_name @ '' to restore'')"

definition restore_bundle ::
  "codec \<Rightarrow> string \<Rightarrow> backup_service \<Rightarrow> env \<Rightarrow> string \<Rightarrow> string \<Rightarrow> string \<Rightarrow> world \<Rightarrow> (error + restore_summary) \<times> world" where
  "restore_bundle c framework_name svc e bundle user_id ip w =
     (case extract_bundle c bundle of
        Inl x \<Rightarrow> (Inl x, w)
      | Inr (m, cdata) \<Rightarrow>
          if bm_schema_version m > SUPPORTED_SCHEMA_VERSION then (Inl (unsupported_bundle framework_name (bm_schema_version m)), w)
          else
            (case (if bm_scope m = TENANT \<and> truthy_str (bm_tenant_slug m)
                   then resolve_tenant_id_from_bundle m cdata else Inr None) of
               Inl x \<Rightarrow> (Inl x, w)
             | Inr tenant_id \<Rightarrow>
                 let (s, w') = restore_all e (bm_scope m) tenant_id cdata svc
                       (\<lparr>rs_scope = bm_scope m, rs_tenant_slug = bm_tenant_slug m, rs_contributors_restored = [],
                         rs_total_rows_upserted = 0, rs_warnings = []\<rparr>, w)
                 in if truthy_str tenant_id \<and> \<not> is_uuid (the tenant_id) then (Inl (ValueError ''badly formed hexadecimal UUID string''), w')
                    else (Inr s, audited e user_id (if truthy_str tenant_id then tenant_id else None)
                      (if bm_scope m = PLATFORM then ''backup.platform.restore'' else ''backup.tenant.restore'')
                      (if bm_scope m = PLATFORM then ''system'' else ''tenant'')
                      (if bm_scope m = PLATFORM then '''' else (case tenant_id of None \<Rightarrow> '''' | Some i \<Rightarrow> i))
                      (Some (restore_detail s)) ip w')))"


subsection \<open>A bundle gives back what was packed\<close>

lemma entries_of_json_map: "entries_of_json (map entry_to_json es) = Some es"
  by (induction es) auto

lemma manifest_roundtrip: "codec_ok c \<Longrightarrow> manifest_of_json c (manifest_to_json c m) = Some m"
  by (cases m; cases "bm_scope m"; cases "bm_tenant_slug m")
    (simp_all add: manifest_to_json_def codec_ok_def scope_of_json_def opt_json_def entries_of_json_map)

definition packed :: "contributor_export \<Rightarrow> contributor_data" where
  "packed ex = \<lparr>cdt_rows = JList (map JObj (ce_rows ex)), cdt_files = ce_files ex\<rparr>"

lemma extract_members_append:
  "extract_members c (ms @ ms') d = (case extract_members c ms d of Inl x \<Rightarrow> Inl x | Inr d' \<Rightarrow> extract_members c ms' d')"
  by (induction ms arbitrary: d) (auto split: sum.splits)

lemma key_none: "k \<notin> fst ` set d \<Longrightarrow> map_of d k = None"
  by (simp add: map_of_eq_None_iff)

lemma dict_set_last:
  assumes "k \<notin> fst ` set d"
  shows "dict_set k v (d @ [(k, u)]) = d @ [(k, v)]"
proof -
  have "map (\<lambda>(k', v'). if k' = k then (k', v) else (k', v')) d = d"
    using assms by (intro map_idI) force
  then show ?thesis using key_none [OF assms] by (simp add: dict_set_def map_of_append map_add_def)
qed

lemma dict_set_new: "k \<notin> fst ` set d \<Longrightarrow> dict_set k v d = d @ [(k, v)]"
  by (simp add: dict_set_def key_none)

lemma data_for_last: "k \<notin> fst ` set d \<Longrightarrow> data_for k (d @ [(k, u)]) = u"
  by (simp add: data_for_def map_of_append map_add_def key_none)

lemma data_for_none: "k \<notin> fst ` set d \<Longrightarrow> data_for k d = no_data"
  by (simp add: data_for_def key_none)

lemma extract_data_member:
  assumes "codec_ok c" and "cid \<notin> fst ` set d"
  shows "extract_member c (''data/'' @ cid @ ''.json'', cd_dumps c j) d = Inr (d @ [(cid, no_data\<lparr>cdt_rows := j\<rparr>)])"
proof -
  have "ends_with ''.json'' (''data/'' @ cid @ ''.json'')"
    unfolding ends_with_iff by (rule exI [of _ "''data/'' @ cid"]) simp
  moreover have "data_for cid d = no_data" using assms(2) by (rule data_for_none)
  ultimately show ?thesis
    using assms dict_set_new [OF assms(2)]
    by (simp add: extract_member_def Let_def starts_with_def codec_ok_def)
qed

lemma extract_file_member:
  assumes "cid \<notin> fst ` set d" and "CHR ''/'' \<notin> set cid"
  shows "extract_member c (''files/'' @ cid @ ''/'' @ rel, raw) (d @ [(cid, x)]) =
    Inr (d @ [(cid, x\<lparr>cdt_files := cdt_files x @ [(rel, raw)]\<rparr>)])"
proof -
  have "split_first (CHR ''/'') (cid @ CHR ''/'' # rel) = Some (cid, rel)"
  proof -
    have "takeWhile (\<lambda>y. y \<noteq> CHR ''/'') (cid @ CHR ''/'' # rel) = cid"
      using assms(2) by (subst takeWhile_append2) auto
    moreover have "dropWhile (\<lambda>y. y \<noteq> CHR ''/'') (cid @ CHR ''/'' # rel) = CHR ''/'' # rel"
      using assms(2) by (subst dropWhile_append2) auto
    ultimately show ?thesis by (simp add: split_first_def)
  qed
  then show ?thesis
    by (simp add: extract_member_def Let_def starts_with_def data_for_last [OF assms(1)] dict_set_last [OF assms(1)])
qed

lemma extract_file_members:
  assumes "cid \<notin> fst ` set d" and "CHR ''/'' \<notin> set cid"
  shows "extract_members c (map (\<lambda>(rel, raw). (''files/'' @ cid @ ''/'' @ rel, raw)) fs) (d @ [(cid, x)]) =
    Inr (d @ [(cid, x\<lparr>cdt_files := cdt_files x @ fs\<rparr>)])"
proof (induction fs arbitrary: x)
  case Nil
  then show ?case by simp
next
  case (Cons m ms)
  obtain rel raw where m: "m = (rel, raw)" by (cases m)
  show ?case
    using extract_file_member [OF assms, of c rel raw x] Cons.IH [of "x\<lparr>cdt_files := cdt_files x @ [m]\<rparr>"]
    by (simp add: m)
qed

lemma extract_payloads:
  assumes "codec_ok c" and "distinct (map fst d @ map fst ps)" and "\<And>cid. cid \<in> fst ` set ps \<Longrightarrow> CHR ''/'' \<notin> set cid"
  shows "extract_members c (concat (map (\<lambda>(cid, ex). (''data/'' @ cid @ ''.json'', cd_dumps c (JList (map JObj (ce_rows ex)))) #
       map (\<lambda>(rel, raw). (''files/'' @ cid @ ''/'' @ rel, raw)) (ce_files ex)) ps)) d =
     Inr (d @ map (\<lambda>(cid, ex). (cid, packed ex)) ps)"
  using assms(2,3)
proof (induction ps arbitrary: d)
  case Nil
  then show ?case by simp
next
  case (Cons p ps)
  obtain cid ex where p: "p = (cid, ex)" by (cases p)
  have fresh: "cid \<notin> fst ` set d" and slash: "CHR ''/'' \<notin> set cid"
    using Cons.prems p by auto
  have "extract_members c (map (\<lambda>(rel, raw). (''files/'' @ cid @ ''/'' @ rel, raw)) (ce_files ex))
      (d @ [(cid, no_data\<lparr>cdt_rows := JList (map JObj (ce_rows ex))\<rparr>)]) = Inr (d @ [(cid, packed ex)])"
    unfolding extract_file_members [OF fresh slash] by (simp add: packed_def no_data_def)
  moreover have "distinct (map fst (d @ [(cid, packed ex)]) @ map fst ps)" using Cons.prems p by auto
  ultimately show ?case
    using Cons.IH [of "d @ [(cid, packed ex)]"] Cons.prems(2) extract_data_member [OF assms(1) fresh]
    by (simp add: p extract_members_append)
qed

lemma extract_built:
  assumes "codec_ok c" and "distinct (map fst ps)" and "\<And>cid. cid \<in> fst ` set ps \<Longrightarrow> CHR ''/'' \<notin> set cid"
  shows "extract_bundle c (build_tarball c m ps) = Inr (m, map (\<lambda>(cid, ex). (cid, packed ex)) ps)"
proof -
  let ?ms = "concat (map (\<lambda>(cid, ex). (''data/'' @ cid @ ''.json'', cd_dumps c (JList (map JObj (ce_rows ex)))) #
       map (\<lambda>(rel, raw). (''files/'' @ cid @ ''/'' @ rel, raw)) (ce_files ex)) ps)"
  let ?m = "(''manifest.json'', cd_dumps c (manifest_to_json c m))"
  have "''manifest.json'' \<notin> fst ` set ?ms" by auto
  then have "map_of (rev ?ms) ''manifest.json'' = None" by (simp add: map_of_eq_None_iff)
  then have "read_manifest c (?m # ?ms) = Inr m"
    using assms(1) manifest_roundtrip [OF assms(1)]
    by (simp add: read_manifest_def map_of_append map_add_def codec_ok_def)
  moreover have "extract_members c (?m # ?ms) [] = Inr (map (\<lambda>(cid, ex). (cid, packed ex)) ps)"
    using extract_payloads [OF assms(1), of "[]" ps] assms(2,3)
    by (simp add: extract_member_def starts_with_def)
  moreover have "cd_untar c (build_tarball c m ps) = Some (?m # ?ms)"
    using assms(1) by (simp add: build_tarball_def codec_ok_def)
  ultimately show ?thesis by (simp add: extract_bundle_def)
qed

text \<open>
  A bundle gives back what was packed into it: extracting a built bundle yields its manifest and,
  for every contributor, its rows and files in order.
\<close>

theorem bundle_roundtrip:
  assumes "codec_ok c" and "distinct (map fst ps)" and "\<And>cid. cid \<in> fst ` set ps \<Longrightarrow> CHR ''/'' \<notin> set cid"
  shows "extract_bundle c (build_tarball c m ps) = Inr (m, map (\<lambda>(cid, ex). (cid, packed ex)) ps)"
  using assms by (rule extract_built)

definition demo_payloads :: payloads where
  "demo_payloads = [(''items'', \<lparr>ce_rows = [[(''id'', JStr ''i1'')]], ce_files = []\<rparr>),
     (''files'', \<lparr>ce_rows = [], ce_files = [(''a/b.txt'', ''x''), (''c'', ''y'')]\<rparr>)]"

definition demo_manifest :: backup_manifest where
  "demo_manifest = \<lparr>bm_schema_version = 1, bm_scope = TENANT, bm_tenant_slug = Some ''acme'', bm_timestamp = 5,
     bm_app_name = ''app'', bm_app_version = ''1'', bm_contributors = []\<rparr>"

theorem bundle_roundtrip_witness:
  "extract_bundle demo_codec (build_tarball demo_codec demo_manifest demo_payloads) =
     Inr (demo_manifest, map (\<lambda>(cid, ex). (cid, packed ex)) demo_payloads)"
  by (rule bundle_roundtrip) (auto simp: demo_payloads_def)


subsection \<open>A platform backup restores the platform\<close>

definition db_good :: "codec \<Rightarrow> db \<Rightarrow> bool" where
  \<comment> \<open>The constraints of the database hold, and its text columns hold what \<open>json.dumps\<close> writes.\<close>
  "db_good c d \<longleftrightarrow> users_ok (users d) \<and> utrs_ok (user_tenant_roles d) \<and> tenants_ok (tenants d) \<and> roles_ok (roles d) \<and>
     settings_ok (settings d) \<and> audit_ok (audit_rows d) \<and>
     (\<forall>u \<in> set (users d). user_good c u) \<and> (\<forall>s \<in> set (settings d). text_ok c (se_value_json s)) \<and>
     (\<forall>r \<in> set (audit_rows d). al_detail r \<noteq> Some JNull)"

lemma distinct_map_take: "distinct (map f xs) \<Longrightarrow> distinct (map f (take k xs))"
  by (simp add: take_map [symmetric])

lemma distinct_map_filter_take: "distinct (map f (filter P xs)) \<Longrightarrow> distinct (map f (filter P (take k xs)))"
proof -
  assume "distinct (map f (filter P xs))"
  then have "distinct (map f (filter P (take k xs @ drop k xs)))" by simp
  then show ?thesis unfolding filter_append map_append distinct_append by blast
qed

lemma constraints_take:
  "users_ok us \<Longrightarrow> users_ok (take k us)" "utrs_ok rs \<Longrightarrow> utrs_ok (take k rs)" "tenants_ok ts \<Longrightarrow> tenants_ok (take k ts)"
  "roles_ok ros \<Longrightarrow> roles_ok (take k ros)" "settings_ok ss \<Longrightarrow> settings_ok (take k ss)" "audit_ok as \<Longrightarrow> audit_ok (take k as)"
  by (simp_all add: constraint_defs distinct_map_take distinct_map_filter_take)

lemma distinct_JStr: "distinct (map f xs) \<Longrightarrow> distinct (map (\<lambda>x. JStr (f x)) xs)"
  by (auto simp: distinct_map inj_on_def)

lemma distinct_JInt: "distinct (map f xs) \<Longrightarrow> distinct (map (\<lambda>x. JInt (f x)) xs)"
  by (auto simp: distinct_map inj_on_def)

lemma tb_cols_simps [simp]:
  "tb_cols (user_table c) = user_cols c" "tb_cols (utr_table c) = utr_cols c" "tb_cols (tenant_table c) = tenant_cols c"
  "tb_cols role_table = role_cols" "tb_cols (setting_table c) = setting_cols c" "tb_cols (audit_table c) = audit_cols c"
  "tb_cols (item_table c) = item_cols c"
  by (simp_all add: user_table_def utr_table_def tenant_table_def role_table_def setting_table_def audit_table_def item_table_def)

lemma upsert_users: "codec_ok c \<Longrightarrow> users_ok us \<Longrightarrow> (\<And>u. u \<in> set us \<Longrightarrow> user_good c u) \<Longrightarrow>
    upsert_rows (user_table c) users_ok e n (map (row_to_dict (user_cols c)) us) [] = Inr us"
  using upsert_fresh [OF user_table_ok, of c us users_ok e n]
  by (simp add: constraints_take) (simp add: constraint_defs distinct_JStr)

lemma upsert_utrs: "codec_ok c \<Longrightarrow> utrs_ok rs \<Longrightarrow>
    upsert_rows (utr_table c) utrs_ok e n (map (row_to_dict (utr_cols c)) rs) [] = Inr rs"
  using upsert_fresh [OF utr_table_ok, of c rs utrs_ok e n]
  by (simp add: constraints_take) (simp add: constraint_defs distinct_JStr)

lemma upsert_tenants: "codec_ok c \<Longrightarrow> tenants_ok ts \<Longrightarrow>
    upsert_rows (tenant_table c) tenants_ok e n (map (row_to_dict (tenant_cols c)) ts) [] = Inr ts"
  using upsert_fresh [OF tenant_table_ok, of c ts tenants_ok e n]
  by (simp add: constraints_take) (simp add: constraint_defs distinct_JStr)

lemma upsert_roles: "roles_ok rs \<Longrightarrow>
    upsert_rows role_table roles_ok e n (map (row_to_dict role_cols) rs) [] = Inr rs"
  using upsert_fresh [OF role_table_ok, of rs roles_ok e n]
  by (simp add: constraints_take) (simp add: constraint_defs distinct_JInt)

lemma upsert_audit: "codec_ok c \<Longrightarrow> audit_ok rs \<Longrightarrow> (\<And>r. r \<in> set rs \<Longrightarrow> al_detail r \<noteq> Some JNull) \<Longrightarrow>
    upsert_rows (audit_table c) audit_ok e n (map (row_to_dict (audit_cols c)) rs) [] = Inr rs"
  using upsert_fresh [OF audit_table_ok, of c rs audit_ok e n]
  by (simp add: constraints_take) (simp add: constraint_defs distinct_JStr)

lemma upsert_settings: "codec_ok c \<Longrightarrow> settings_ok ss \<Longrightarrow> (\<And>s. s \<in> set ss \<Longrightarrow> text_ok c (se_value_json s)) \<Longrightarrow>
    upsert_rows (setting_table c) settings_ok e n (map (row_to_dict (setting_cols c)) ss) [] = Inr ss"
  using upsert_fresh [OF setting_table_ok, of c ss settings_ok e n]
  by (simp add: constraints_take) (simp add: constraint_defs distinct_JStr)

lemma upsert_settings_again:
  assumes "codec_ok c" "settings_ok ss" "\<And>s. s \<in> set ss \<Longrightarrow> text_ok c (se_value_json s)"
  shows "upsert_rows (setting_table c) settings_ok e n (map (row_to_dict (setting_cols c)) (filter P ss)) ss = Inr ss"
proof -
  have d: "distinct (map (\<lambda>s. JStr (se_id s)) ss)" using assms(2) by (simp add: constraint_defs distinct_JStr)
  then have "distinct (map (\<lambda>s. JStr (se_id s)) (filter P ss))" by (rule distinct_map_filter)
  with upsert_present [OF setting_table_ok [OF assms(1)] assms(3) d] assms(2) show ?thesis by simp
qed

lemma registered:
  "svc_contributors (build_backup_service c a v None) =
    [(''tenants'', tenants_contributor c), (''users'', users_contributor c), (''settings'', settings_contributor c),
     (''secrets'', secrets_contributor c), (''items'', items_contributor c), (''audit_log'', audit_contributor c)]"
  by (simp add: build_backup_service_def register_def dict_set_def truthy_str_def tenants_contributor_def
      users_contributor_def settings_contributor_def secrets_contributor_def items_contributor_def audit_contributor_def)

lemma restore_tenants:
  assumes "codec_ok c" "tenants_ok ts" "roles_ok ros" "tenants (w_db v) = []" "roles (w_db v) = []"
  shows "co_restore (tenants_contributor c) scope tid e
      (JList (map JObj (map (\<lambda>t. tagged ''tenants'' (row_to_dict (tenant_cols c) t)) ts @
         map (\<lambda>r. tagged ''roles'' (row_to_dict role_cols r)) ros))) files v =
    (Inr (length ros + length ts), set_db v ((w_db v)\<lparr>roles := ros, tenants := ts\<rparr>))"
  unfolding tenants_contributor_def
  by (simp only: rows_of_objs contributor.simps sum.simps Let_def with_tag_append with_tag_tagged)
    (simp add: strip_tagged upsert_roles upsert_tenants assms committed_def set_db_def)

lemma restore_users:
  assumes "codec_ok c" "users_ok us" "utrs_ok rs" "\<And>u. u \<in> set us \<Longrightarrow> user_good c u"
    "users (w_db v) = []" "user_tenant_roles (w_db v) = []"
  shows "co_restore (users_contributor c) scope tid e
      (JList (map JObj (map (\<lambda>u. tagged ''users'' (row_to_dict (user_cols c) u)) us @
         map (\<lambda>r. tagged ''user_tenant_roles'' (row_to_dict (utr_cols c) r)) rs))) files v =
    (Inr (length us + length rs), set_db v ((w_db v)\<lparr>users := us, user_tenant_roles := rs\<rparr>))"
  unfolding users_contributor_def
  by (simp only: rows_of_objs contributor.simps sum.simps Let_def with_tag_append with_tag_tagged)
    (simp add: strip_tagged upsert_users upsert_utrs assms committed_def set_db_def)


lemma restore_setting_rows:
  assumes "codec_ok c" "settings_ok ss" "\<And>s. s \<in> set ss \<Longrightarrow> text_ok c (se_value_json s)" "settings (w_db v) = []"
  shows "co_restore (settings_contributor c) scope tid e (JList (map JObj (map (row_to_dict (setting_cols c)) ss))) files v =
    (Inr (length ss), set_db v ((w_db v)\<lparr>settings := ss\<rparr>))"
  unfolding settings_contributor_def
  by (simp only: rows_of_objs contributor.simps sum.simps)
    (simp add: restore_settings_def upsert_settings assms committed_def set_db_def)

lemma restore_secret_rows:
  assumes "codec_ok c" "settings_ok ss" "\<And>s. s \<in> set ss \<Longrightarrow> text_ok c (se_value_json s)" "settings (w_db v) = ss"
  shows "co_restore (secrets_contributor c) scope tid e
      (JList (map JObj (map (row_to_dict (setting_cols c)) (filter (\<lambda>s. is_secret (se_key s)) ss)))) files v =
    (Inr (length (filter (\<lambda>s. is_secret (se_key s)) ss)), v)"
  using secret_rows_settings [of c "filter (\<lambda>s. is_secret (se_key s)) ss"]
  unfolding secrets_contributor_def
  by (simp only: rows_of_objs contributor.simps sum.simps)
    (simp add: restore_settings_def upsert_settings_again assms committed_def set_db_def)

lemma restore_audit_rows:
  assumes "codec_ok c" "audit_ok rs" "\<And>r. r \<in> set rs \<Longrightarrow> al_detail r \<noteq> Some JNull" "audit_rows (w_db v) = []"
  shows "co_restore (audit_contributor c) scope tid e (JList (map JObj (map (row_to_dict (audit_cols c)) rs))) files v =
    (Inr (length rs), set_db v ((w_db v)\<lparr>audit_rows := rs\<rparr>))"
  unfolding audit_contributor_def
  by (simp only: rows_of_objs contributor.simps sum.simps)
    (simp add: upsert_audit assms committed_def set_db_def)

definition platform_payloads :: "codec \<Rightarrow> db \<Rightarrow> payloads" where
  "platform_payloads c d =
    [(''tenants'', \<lparr>ce_rows = map (\<lambda>t. tagged ''tenants'' (row_to_dict (tenant_cols c) t)) (tenants d) @
        map (\<lambda>r. tagged ''roles'' (row_to_dict role_cols r)) (roles d), ce_files = []\<rparr>),
     (''users'', \<lparr>ce_rows = map (\<lambda>u. tagged ''users'' (row_to_dict (user_cols c) u)) (users d) @
        map (\<lambda>r. tagged ''user_tenant_roles'' (row_to_dict (utr_cols c) r)) (user_tenant_roles d), ce_files = []\<rparr>),
     (''settings'', \<lparr>ce_rows = map (row_to_dict (setting_cols c)) (exported_settings PLATFORM None d), ce_files = []\<rparr>),
     (''secrets'', \<lparr>ce_rows = map (row_to_dict (setting_cols c))
        (filter (\<lambda>s. is_secret (se_key s)) (exported_settings PLATFORM None d)), ce_files = []\<rparr>),
     (''audit_log'', \<lparr>ce_rows = map (row_to_dict (audit_cols c)) (audit_rows d), ce_files = []\<rparr>)]"

lemma run_export_platform:
  "run_export c (build_backup_service c a v None) PLATFORM None None now w =
     Inr (build_tarball c (manifest_for (build_backup_service c a v None) PLATFORM None now (platform_payloads c (w_db w)))
       (platform_payloads c (w_db w)))"
  by (simp add: run_export_def in_scope_def registered tenants_contributor_def users_contributor_def
      settings_contributor_def secrets_contributor_def items_contributor_def audit_contributor_def
      platform_payloads_def exported_audit_def)

lemma scopes_of:
  "set (co_scopes (tenants_contributor c)) = {PLATFORM}" "set (co_scopes (users_contributor c)) = {PLATFORM}"
  "set (co_scopes (settings_contributor c)) = {PLATFORM, TENANT}" "set (co_scopes (secrets_contributor c)) = {PLATFORM, TENANT}"
  "set (co_scopes (items_contributor c)) = {TENANT}" "set (co_scopes (audit_contributor c)) = {PLATFORM, TENANT}"
  by (simp_all add: tenants_contributor_def users_contributor_def settings_contributor_def secrets_contributor_def
      items_contributor_def audit_contributor_def)

definition tables_empty :: "db \<Rightarrow> bool" where
  "tables_empty d \<longleftrightarrow> users d = [] \<and> user_tenant_roles d = [] \<and> tenants d = [] \<and> roles d = [] \<and>
     settings d = [] \<and> audit_rows d = []"

lemma settings_ok_filter:
  assumes "settings_ok ss"
  shows "settings_ok (filter P ss)"
proof -
  have "filter (\<lambda>s. se_scope_id s \<noteq> None) (filter P ss) = filter P (filter (\<lambda>s. se_scope_id s \<noteq> None) ss)"
    by (simp add: conj_commute)
  then show ?thesis using assms unfolding settings_ok_def by (simp only: distinct_map_filter)
qed

lemma restore_hit:
  assumes "map_of cdata cid = Some x" "scope \<in> set (co_scopes co)"
    and "co_restore co scope tid e (cdt_rows x) (cdt_files x) w = (Inr n, w')"
  shows "\<exists>s'. restore_one e scope tid cdata (cid, co) (s, w) = (s', w') \<and> rs_warnings s' = rs_warnings s"
  using assms by (simp add: restore_one_def data_for_def)

lemma restore_skip: "scope \<notin> set (co_scopes co) \<Longrightarrow> restore_one e scope tid cdata (cid, co) sw = sw"
  by (simp add: restore_one_def split: prod.split)

lemma restored_payloads:
  assumes "codec_ok c" and good: "db_good c d" and empty: "tables_empty (w_db v)"
  shows "\<exists>s. restore_all e PLATFORM None (map (\<lambda>(cid, ex). (cid, packed ex)) (platform_payloads c d))
      (build_backup_service c a av None) (s0, v) =
    (s, set_db v ((w_db v)\<lparr>users := users d, user_tenant_roles := user_tenant_roles d, tenants := tenants d,
       roles := roles d, settings := exported_settings PLATFORM None d, audit_rows := audit_rows d\<rparr>)) \<and>
    rs_warnings s = rs_warnings s0"
proof -
  let ?ss = "exported_settings PLATFORM None d"
  let ?cd = "map (\<lambda>(cid, ex). (cid, packed ex)) (platform_payloads c d)"
  let ?r = "\<lambda>k. restore_one (id_stream 7 k e) PLATFORM None ?cd"
  have ss: "settings_ok ?ss" "\<And>s. s \<in> set ?ss \<Longrightarrow> text_ok c (se_value_json s)"
    using good by (auto simp: db_good_def exported_settings_def intro: settings_ok_filter)
  note tables = empty [unfolded tables_empty_def] good [unfolded db_good_def]
  define v1 where "v1 = set_db v ((w_db v)\<lparr>roles := roles d, tenants := tenants d\<rparr>)"
  define v2 where "v2 = set_db v1 ((w_db v1)\<lparr>users := users d, user_tenant_roles := user_tenant_roles d\<rparr>)"
  define v3 where "v3 = set_db v2 ((w_db v2)\<lparr>settings := ?ss\<rparr>)"
  define v4 where "v4 = set_db v3 ((w_db v3)\<lparr>audit_rows := audit_rows d\<rparr>)"
  have cd: "map_of ?cd ''tenants'' = Some (packed (the (map_of (platform_payloads c d) ''tenants'')))"
    "map_of ?cd ''users'' = Some (packed (the (map_of (platform_payloads c d) ''users'')))"
    "map_of ?cd ''settings'' = Some (packed (the (map_of (platform_payloads c d) ''settings'')))"
    "map_of ?cd ''secrets'' = Some (packed (the (map_of (platform_payloads c d) ''secrets'')))"
    "map_of ?cd ''audit_log'' = Some (packed (the (map_of (platform_payloads c d) ''audit_log'')))"
    by (simp_all add: platform_payloads_def)
  obtain s1 where s1: "?r 1 (''tenants'', tenants_contributor c) (s0, v) = (s1, v1)" "rs_warnings s1 = rs_warnings s0"
    using restore_hit [OF cd(1), of PLATFORM "tenants_contributor c" None "id_stream 7 1 e" v _ v1 s0]
      restore_tenants [OF assms(1), of "tenants d" "roles d" v] tables
    by (auto simp: scopes_of platform_payloads_def packed_def v1_def simp del: map_append map_map)
  obtain s2 where s2: "?r 2 (''users'', users_contributor c) (s1, v1) = (s2, v2)" "rs_warnings s2 = rs_warnings s0"
    using restore_hit [OF cd(2), of PLATFORM "users_contributor c" None "id_stream 7 2 e" v1 _ v2 s1]
      restore_users [OF assms(1), of "users d" "user_tenant_roles d" v1] tables s1(2)
    by (auto simp: scopes_of platform_payloads_def packed_def v2_def v1_def set_db_def simp del: map_append map_map)
  obtain s3 where s3: "?r 3 (''settings'', settings_contributor c) (s2, v2) = (s3, v3)" "rs_warnings s3 = rs_warnings s0"
    using restore_hit [OF cd(3), of PLATFORM "settings_contributor c" None "id_stream 7 3 e" v2 _ v3 s2]
      restore_setting_rows [OF assms(1) ss, of v2] tables s2(2)
    by (auto simp: scopes_of platform_payloads_def packed_def v3_def v2_def v1_def set_db_def simp del: map_append map_map)
  obtain s4 where s4: "?r 4 (''secrets'', secrets_contributor c) (s3, v3) = (s4, v3)" "rs_warnings s4 = rs_warnings s0"
    using restore_hit [OF cd(4), of PLATFORM "secrets_contributor c" None "id_stream 7 4 e" v3 _ v3 s3]
      restore_secret_rows [OF assms(1) ss, of v3] s3(2)
    by (auto simp: scopes_of platform_payloads_def packed_def v3_def set_db_def simp del: map_append map_map)
  have s5: "?r 5 (''items'', items_contributor c) (s4, v3) = (s4, v3)" by (rule restore_skip) (simp add: scopes_of)
  obtain s6 where s6: "?r 6 (''audit_log'', audit_contributor c) (s4, v3) = (s6, v4)" "rs_warnings s6 = rs_warnings s0"
    using restore_hit [OF cd(5), of PLATFORM "audit_contributor c" None "id_stream 7 6 e" v3 _ v4 s4]
      restore_audit_rows [OF assms(1), of "audit_rows d" v3] tables s4(2)
    by (auto simp: scopes_of platform_payloads_def packed_def v4_def v3_def v2_def v1_def set_db_def simp del: map_append map_map)
  have "restore_all e PLATFORM None ?cd (build_backup_service c a av None) (s0, v) = (s6, v4)"
    unfolding restore_all_def registered
    using s1(1) s2(1) s3(1) s4(1) s5 s6(1) by (simp add: upt_rec numeral_eq_Suc)
  moreover have "v4 = set_db v ((w_db v)\<lparr>users := users d, user_tenant_roles := user_tenant_roles d, tenants := tenants d,
       roles := roles d, settings := ?ss, audit_rows := audit_rows d\<rparr>)"
    by (simp add: v4_def v3_def v2_def v1_def set_db_def)
  ultimately show ?thesis using s6(2) by blast
qed


lemma platform_extract:
  assumes "codec_ok c"
  shows "extract_bundle c (build_tarball c m (platform_payloads c d)) =
    Inr (m, map (\<lambda>(cid, ex). (cid, packed ex)) (platform_payloads c d))"
  using assms by (intro extract_built) (auto simp: platform_payloads_def)

text \<open>
  A full platform backup restored into an empty platform gives back the platform: no warning, the same users,
  memberships, tenants and roles, the platform's settings, and the audit log followed by the one entry that
  records the restore.
\<close>

lemma platform_restored:
  assumes "codec_ok c" and "db_good c (w_db w)" and "tables_empty (w_db v)" and "env_audit_ok e'"
    and "export_platform c (build_backup_service c a av None) e uid ip w = Inr (b, w1)"
  shows "\<exists>s v' entry. restore_bundle c fw (build_backup_service c a' av' None) e' b uid' ip' v = (Inr s, v') \<and>
    rs_warnings s = [] \<and> users (w_db v') = users (w_db w) \<and> user_tenant_roles (w_db v') = user_tenant_roles (w_db w) \<and>
    tenants (w_db v') = tenants (w_db w) \<and> roles (w_db v') = roles (w_db w) \<and>
    settings (w_db v') = exported_settings PLATFORM None (w_db w) \<and> audit_rows (w_db v') = audit_rows (w_db w) @ [entry] \<and>
    al_action entry = ''backup.platform.restore'' \<and> al_user_id entry = uid'"
proof -
  let ?m = "manifest_for (build_backup_service c a av None) PLATFORM None (env_now e) (platform_payloads c (w_db w))"
  have b: "b = build_tarball c ?m (platform_payloads c (w_db w))"
    using assms(5) by (simp add: export_platform_def run_export_platform)
  obtain s where s: "restore_all e' PLATFORM None (map (\<lambda>(cid, ex). (cid, packed ex)) (platform_payloads c (w_db w)))
      (build_backup_service c a' av' None) (\<lparr>rs_scope = PLATFORM, rs_tenant_slug = None, rs_contributors_restored = [],
        rs_total_rows_upserted = 0, rs_warnings = []\<rparr>, v) =
      (s, set_db v ((w_db v)\<lparr>users := users (w_db w), user_tenant_roles := user_tenant_roles (w_db w),
        tenants := tenants (w_db w), roles := roles (w_db w), settings := exported_settings PLATFORM None (w_db w),
        audit_rows := audit_rows (w_db w)\<rparr>))" and nowarn: "rs_warnings s = []"
    using restored_payloads [OF assms(1-3)] by (metis (no_types, lifting) restore_summary.select_convs(5))
  then show ?thesis
    using platform_extract [OF assms(1), of ?m "w_db w"] assms(4)
    by (simp add: restore_bundle_def b manifest_for_def SUPPORTED_SCHEMA_VERSION_def truthy_str_def audited_def
        set_db_def audit_log_entry_def add_row_def audit_create_row_def)
qed

definition demo_user_world :: world where
  "demo_user_world = \<lparr>w_db = empty_db\<lparr>tenants := [
     \<lparr>te_id = ''t1'', te_name = ''Acme'', te_slug = ''acme'', te_api_key_hash = None, te_api_key_prefix = None,
      te_is_active = True, te_created_at = 1, te_updated_at = 1\<rparr>]\<rparr>, w_fs = []\<rparr>"

text \<open>
  The audit contributor's delta export needs a column the table does not have, so no delta export since a
  point in time succeeds: only the first push of a peer, which has no such point, can.
\<close>

lemma collect_exports_fails:
  assumes "c \<in> set cs" and "f (snd c) = Inl x"
  shows "\<exists>y. collect_exports f cs = Inl y"
  using assms by (induction f cs rule: collect_exports.induct) (auto split: sum.splits)

lemma delta_since_raises:
  "\<exists>x. export_platform_delta c (build_backup_service c a av up) e (Some since) origins uid ip w = Inl x"
proof -
  let ?svc = "build_backup_service c a av up"
  have "(''audit_log'', audit_contributor c) \<in> set (in_scope PLATFORM ?svc)"
    by (simp add: in_scope_def build_backup_service_def register_def dict_set_def tenants_contributor_def
        users_contributor_def settings_contributor_def secrets_contributor_def items_contributor_def
        audit_contributor_def files_contributor_def)
  moreover have "\<exists>x. delta_of PLATFORM None (Some since) os w (snd (''audit_log'', audit_contributor c)) = Inl x" for os
    by (simp add: delta_of_def audit_contributor_def)
  ultimately have "\<exists>y. collect_exports (delta_of PLATFORM None (Some since) os w) (in_scope PLATFORM ?svc) = Inl y" for os
    using collect_exports_fails by metis
  then obtain y where "collect_exports (delta_of PLATFORM None (Some since) (case origins of None \<Rightarrow> [] | Some os \<Rightarrow> os) w)
      (in_scope PLATFORM ?svc) = Inl y" by blast
  then show ?thesis by (simp add: export_platform_delta_def run_delta_export_def)
qed

text \<open>
  Delta export works for a full history and fails for anything later: asked for the rows since any point
  in time, it raises whatever the database holds, because the audit contributor names a missing column.
\<close>

theorem delta_export_since_fails:
  "(\<exists>x. export_platform_delta c (build_backup_service c a av up) e (Some since) origins uid ip w = Inl x) \<and>
   (\<exists>b. export_platform_delta c (build_backup_service c a av None) e None origins uid ip w = Inr b)"
  using delta_since_raises
  by (simp add: export_platform_delta_def [where since = None] run_delta_export_def [where since = None] in_scope_def
      registered delta_of_def tenants_contributor_def users_contributor_def settings_contributor_def
      secrets_contributor_def items_contributor_def audit_contributor_def)

text \<open>
  A tenant bundle written by the framework holds no tenants, so its restore never learns the tenant: the
  entry it leaves in the audit log names no tenant.
\<close>

lemma tenant_bundle_has_no_tenants:
  assumes "run_export c (build_backup_service c a av None) TENANT tid slug now w = Inr b" "codec_ok c"
    and "extract_bundle c b = Inr (m, cdata)"
  shows "resolve_tenant_id_from_bundle m cdata = Inr None"
proof -
  have scope: "map fst (in_scope TENANT (build_backup_service c a av None)) = [''settings'', ''secrets'', ''items'', ''audit_log'']"
    by (simp add: in_scope_def registered tenants_contributor_def users_contributor_def settings_contributor_def
      secrets_contributor_def items_contributor_def audit_contributor_def)
  have keys: "collect_exports f cs = Inr ps \<Longrightarrow> map fst ps = map fst cs" for f cs ps
    by (induction f cs arbitrary: ps rule: collect_exports.induct) (auto split: sum.splits)
  obtain ps where col: "collect_exports (\<lambda>co. co_export co TENANT tid w) (in_scope TENANT (build_backup_service c a av None)) = Inr ps"
    and b: "b = build_tarball c (manifest_for (build_backup_service c a av None) TENANT slug now ps) ps"
    using assms(1) unfolding run_export_def by (auto simp only: sum.simps split: sum.splits)
  have ps: "map fst ps = [''settings'', ''secrets'', ''items'', ''audit_log'']" using keys [OF col] scope by simp
  have ids: "fst ` set ps = {''settings'', ''secrets'', ''items'', ''audit_log''}"
    using arg_cong [OF ps, of set] by simp
  have slash: "CHR ''/'' \<notin> set cid" if "cid \<in> fst ` set ps" for cid using that unfolding ids by auto
  have dist: "distinct (map fst ps)" unfolding ps by simp
  have "extract_bundle c b = Inr (manifest_for (build_backup_service c a av None) TENANT slug now ps,
      map (\<lambda>(cid, ex). (cid, packed ex)) ps)"
    unfolding b by (rule extract_built [OF assms(2) dist slash])
  then have "cdata = map (\<lambda>(cid, ex). (cid, packed ex)) ps" using assms(3) by simp
  then have "fst ` set cdata = fst ` set ps" by (simp add: image_image split_beta)
  then have "''tenants'' \<notin> fst ` set cdata" unfolding ids by simp
  then show ?thesis by (simp add: resolve_tenant_id_from_bundle_def data_for_none no_data_def)
qed

end
