(* ===== verification/Crypto.thy ===== *)
theory Crypto
  imports Creds
begin

section \<open>Encryption of bundles\<close>

text \<open>
  \<open>services/backup/crypto.py\<close>.  The \<open>gpg\<close> program is a pair of functions from the passphrase file and the
  standard input to exit code, output and error text; that decryption undoes encryption under the same
  passphrase, and that a ciphertext is never empty, is the hypothesis \<open>gpg_ok\<close>.  The fingerprint is the first
  four bytes of the SHA-256 digest, the first eight characters of its hexadecimal form.
\<close>

record gpg =
  gpg_symmetric :: "string \<Rightarrow> string \<Rightarrow> int \<times> string \<times> string"
  gpg_decrypt :: "string \<Rightarrow> string \<Rightarrow> int \<times> string \<times> string"

definition gpg_ok :: "gpg \<Rightarrow> bool" where
  "gpg_ok g \<longleftrightarrow> (\<forall>p data. p \<noteq> [] \<and> CHR 0x0A \<notin> set p \<longrightarrow>
     (\<exists>c e e'. c \<noteq> [] \<and> gpg_symmetric g p data = (0, c, e) \<and> gpg_decrypt g p c = (0, data, e')))"

definition crypto_error :: "string \<Rightarrow> error" where
  "crypto_error m = OtherException m"

definition normalise_passphrase :: "string \<Rightarrow> string" where
  "normalise_passphrase p = rstrip_where (\<lambda>ch. ch = CHR 0x0A \<or> ch = CHR 0x0D) p"

definition fingerprint :: "creds \<Rightarrow> string \<Rightarrow> string" where
  "fingerprint cr passphrase = take 8 (cr_sha256_hex cr (normalise_passphrase passphrase))"

definition encrypt_bundle :: "gpg \<Rightarrow> string \<Rightarrow> string \<Rightarrow> error + string" where
  "encrypt_bundle g data passphrase =
     (let p = normalise_passphrase passphrase
      in if p = [] then Inl (crypto_error ''empty passphrase is not allowed'')
         else let (rc, out, err) = gpg_symmetric g p data
              in if rc \<noteq> 0 \<or> out = [] then Inl (crypto_error (''gpg encrypt failed ('' @ int_str rc @ ''): '' @ err))
                 else Inr out)"

definition decrypt_bundle :: "gpg \<Rightarrow> string \<Rightarrow> string \<Rightarrow> error + string" where
  "decrypt_bundle g data passphrase =
     (let p = normalise_passphrase passphrase
      in if p = [] then Inl (crypto_error ''empty passphrase is not allowed'')
         else let (rc, out, err) = gpg_decrypt g p data
              in if rc \<noteq> 0 then Inl (crypto_error (''gpg decrypt failed ('' @ int_str rc @ ''): '' @ err))
                 else Inr out)"

lemma normalise_idem [simp]: "normalise_passphrase (normalise_passphrase p) = normalise_passphrase p"
  by (simp add: normalise_passphrase_def)

text \<open>
  An encrypted bundle opens with every passphrase that differs from the one used only in trailing line
  breaks, and these are the passphrases with its fingerprint's input.
\<close>

lemma decrypt_encrypted:
  assumes "gpg_ok g" and p: "CHR 0x0A \<notin> set (normalise_passphrase p)" "normalise_passphrase p \<noteq> []"
    and q: "normalise_passphrase q = normalise_passphrase p"
  shows "\<exists>c. encrypt_bundle g data p = Inr c \<and> decrypt_bundle g c q = Inr data \<and> fingerprint cr q = fingerprint cr p"
proof -
  obtain c e e' where "c \<noteq> []" "gpg_symmetric g (normalise_passphrase p) data = (0, c, e)"
    "gpg_decrypt g (normalise_passphrase p) c = (0, data, e')"
    using assms(1) p unfolding gpg_ok_def by meson
  then show ?thesis using p q by (simp add: encrypt_bundle_def decrypt_bundle_def fingerprint_def)
qed

definition demo_gpg :: gpg where
  "demo_gpg = \<lparr>gpg_symmetric = (\<lambda>p d. (0, p @ CHR 0x0A # d, '''')),
     gpg_decrypt = (\<lambda>p d. if starts_with (p @ [CHR 0x0A]) d then (0, drop (Suc (length p)) d, '''') else (2, '''', ''bad key''))\<rparr>"

lemma demo_gpg_ok [simp]: "gpg_ok demo_gpg"
proof -
  have "starts_with (p @ [CHR 0x0A]) (p @ CHR 0x0A # d)" for p d by (simp add: starts_with_def)
  then show ?thesis by (simp add: gpg_ok_def demo_gpg_def)
qed

end
