(* ===== verification/Scheduler.thy ===== *)
theory Scheduler
  imports BackupSvc Crypto AuditLog
begin

section \<open>The backup scheduler\<close>

text \<open>
  \<open>services/backup/scheduler.py\<close>: the schedules that are due, the dispatch of one (export, encryption,
  sink, the state of its run row), the next run time, and the retention that follows a success.  The cron
  library, the passphrase provider, \<open>gpg\<close> and the sinks that are not on the local disk are fields of
  \<open>sched_cfg\<close>; \<open>'x\<close> is the state of the outside world.  A step that can raise returns the world with its
  error, because what was committed before the exception stays.  One instant stands for all the clock
  readings of a dispatch.  Times are microseconds since 1970.
\<close>

fun json_true :: "json \<Rightarrow> bool" where
  "json_true JNull = False"
| "json_true (JBool b) = b"
| "json_true (JInt i) = (i \<noteq> 0)"
| "json_true (JStr s) = (s \<noteq> [])"
| "json_true (JList l) = (l \<noteq> [])"
| "json_true (JObj m) = (m \<noteq> [])"

definition json_or :: "json option \<Rightarrow> json \<Rightarrow> json" where
  \<comment> \<open>\<open>config.get(key) or default\<close>.\<close>
  "json_or v dflt = (case v of None \<Rightarrow> dflt | Some j \<Rightarrow> if json_true j then j else dflt)"

fun path_arg :: "json \<Rightarrow> error + string" where
  "path_arg (JStr s) = Inr s"
| "path_arg _ = Inl (TypeError ''expected str, bytes or os.PathLike object'')"

record git_config =
  gc_repo_url :: json
  gc_clone_dir :: string
  gc_branch :: json
  gc_path_template :: json
  gc_lfs_enabled :: bool

datatype sink = LocalDisk string | ScottyDev string "json option" | GitRepo git_config

definition git_sink :: "row_dict \<Rightarrow> error + sink" where
  "git_sink config =
     (let repo_url = json_or (map_of config ''repo_url'') JNull
      in if \<not> json_true repo_url then Inl (ValueError ''git_repo sink requires repo_url'')
         else case path_arg (json_or (map_of config ''clone_dir'') (JStr ''/app/data/backups-git'')) of
           Inl x \<Rightarrow> Inl x
         | Inr clone_dir \<Rightarrow> Inr (GitRepo
             \<lparr>gc_repo_url = repo_url, gc_clone_dir = clone_dir,
              gc_branch = json_or (map_of config ''branch'') (JStr ''backups''),
              gc_path_template = json_or (map_of config ''path_template'') (JStr ''snapshots/{app_slug}/{scope}/{tenant_slug}''),
              gc_lfs_enabled = (case map_of config ''lfs_enabled'' of None \<Rightarrow> True | Some j \<Rightarrow> json_true j)\<rparr>))"

definition scottydev_sink :: "row_dict \<Rightarrow> error + sink" where
  "scottydev_sink config =
     (case json_or (map_of config ''base_url'') JNull of
        JStr b \<Rightarrow> Inr (ScottyDev (rstrip_where (\<lambda>ch. ch = CHR ''/'') b) (map_of config ''token''))
      | j \<Rightarrow> if json_true j then Inl (OtherException ''AttributeError: rstrip'')
             else Inl (ValueError ''orchestrator sink requires base_url''))"

definition build_sink_from_config :: "string \<Rightarrow> row_dict \<Rightarrow> error + sink" where
  "build_sink_from_config sink_type config =
     (if sink_type = ''local_disk'' then
        (case path_arg (json_or (map_of config ''root_dir'') (JStr ''/app/data/backups'')) of
           Inl x \<Rightarrow> Inl x | Inr r \<Rightarrow> Inr (LocalDisk r))
      else if sink_type = ''scottydev'' then scottydev_sink config
      else if sink_type = ''git_repo'' then git_sink config
      else Inl (ValueError (''unsupported sink_type for scheduler: '' @ sink_type)))"

subsection \<open>The world of the scheduler\<close>

record 'x sched_world =
  sw_world :: world
  sw_ext :: 'x

record 'x sched_cfg =
  sc_codec :: codec
  sc_creds :: creds
  sc_gpg :: gpg
  sc_service :: backup_service
  sc_passphrase :: "backup_schedule \<Rightarrow> error + string option"
  sc_cron :: "string \<Rightarrow> time \<Rightarrow> time option"
  sc_tag :: string
  sc_fault :: "(nat \<times> nat) option"
  sc_put :: "sink \<Rightarrow> backup_blob \<Rightarrow> 'x \<Rightarrow> (error + sink_write_result) \<times> 'x"
  sc_delete :: "sink \<Rightarrow> string \<Rightarrow> 'x \<Rightarrow> (error + unit) \<times> 'x"

definition sw_db :: "'x sched_world \<Rightarrow> db" where
  "sw_db w = w_db (sw_world w)"

definition sw_set_db :: "db \<Rightarrow> 'x sched_world \<Rightarrow> 'x sched_world" where
  "sw_set_db d w = w\<lparr>sw_world := set_db (sw_world w) d\<rparr>"

definition sw_fs :: "'x sched_world \<Rightarrow> fs" where
  "sw_fs w = w_fs (sw_world w)"

definition sw_set_fs :: "fs \<Rightarrow> 'x sched_world \<Rightarrow> 'x sched_world" where
  "sw_set_fs f w = w\<lparr>sw_world := (sw_world w)\<lparr>w_fs := f\<rparr>\<rparr>"

fun sink_put :: "'x sched_cfg \<Rightarrow> sink \<Rightarrow> backup_blob \<Rightarrow> 'x sched_world \<Rightarrow> (error + sink_write_result) \<times> 'x sched_world" where
  "sink_put g (LocalDisk root) b w =
     (let (r, f) = local_put (sc_codec g) root (sc_tag g) (sc_fault g) b (sw_fs w) in (r, sw_set_fs f w))"
| "sink_put g s b w = (let (r, x) = sc_put g s b (sw_ext w) in (r, w\<lparr>sw_ext := x\<rparr>))"

fun sink_delete :: "'x sched_cfg \<Rightarrow> sink \<Rightarrow> string \<Rightarrow> 'x sched_world \<Rightarrow> (error + unit) \<times> 'x sched_world" where
  "sink_delete g (LocalDisk root) l w =
     (case local_delete root l (sw_fs w) of Inl x \<Rightarrow> (Inl x, w) | Inr f \<Rightarrow> (Inr (), sw_set_fs f w))"
| "sink_delete g s l w = (let (r, x) = sc_delete g s l (sw_ext w) in (r, w\<lparr>sw_ext := x\<rparr>))"

subsection \<open>Runs\<close>

definition STATUS_PENDING :: string where "STATUS_PENDING = ''pending''"
definition STATUS_RUNNING :: string where "STATUS_RUNNING = ''running''"
definition STATUS_SUCCESS :: string where "STATUS_SUCCESS = ''success''"
definition STATUS_FAILED :: string where "STATUS_FAILED = ''failed''"
definition KIND_DELTA :: string where "KIND_DELTA = ''delta''"
definition SCHEDULER_USER_ID :: string where
  "SCHEDULER_USER_ID = ''00000000-0000-0000-0000-00000000bcac''"

definition pending_run :: "'x sched_cfg \<Rightarrow> env \<Rightarrow> backup_schedule \<Rightarrow> backup_run" where
  "pending_run g e s =
     \<lparr>br_id = env_ids e 1, br_schedule_id = Some (bs_id s), br_app_slug = svc_app_name (sc_service g),
      br_scope = bs_scope s, br_tenant_slug = bs_tenant_slug s, br_kind = bs_kind s, br_status = STATUS_PENDING,
      br_sink_type = bs_sink_type s, br_sink_locator = None, br_bytes_written = None, br_sha256 = None,
      br_encrypted = False, br_key_fingerprint = None, br_started_at = Some (env_now e), br_finished_at = None,
      br_error = None, br_managed_by = bs_managed_by s, br_created_at = env_now e, br_updated_at = env_now e\<rparr>"

definition mark_run_pending :: "'x sched_cfg \<Rightarrow> env \<Rightarrow> backup_schedule \<Rightarrow> db \<Rightarrow> db" where
  "mark_run_pending g e s d = d\<lparr>backup_runs := add_row (pending_run g e s) (backup_runs d)\<rparr>"

definition change_run :: "time \<Rightarrow> string \<Rightarrow> (backup_run \<Rightarrow> backup_run) \<Rightarrow> db \<Rightarrow> db" where
  "change_run now run_id f d =
     d\<lparr>backup_runs := update_by br_id run_id (touched (touch_run now) f) (backup_runs d)\<rparr>"

definition mark_run_status :: "time \<Rightarrow> string \<Rightarrow> string \<Rightarrow> db \<Rightarrow> db" where
  "mark_run_status now run_id status = change_run now run_id (\<lambda>r. r\<lparr>br_status := status\<rparr>)"

definition mark_run_success :: "time \<Rightarrow> string \<Rightarrow> backup_blob \<Rightarrow> string \<Rightarrow> int \<Rightarrow> db \<Rightarrow> db" where
  "mark_run_success now run_id blob locator bytes_written =
     change_run now run_id (\<lambda>r. r\<lparr>br_status := STATUS_SUCCESS, br_sink_locator := Some locator,
       br_bytes_written := Some bytes_written, br_sha256 := Some (bb_sha256 blob), br_encrypted := bb_encrypted blob,
       br_key_fingerprint := bb_key_fingerprint blob, br_finished_at := Some now\<rparr>)"

definition mark_run_failed :: "time \<Rightarrow> string \<Rightarrow> string \<Rightarrow> db \<Rightarrow> db" where
  "mark_run_failed now run_id err =
     change_run now run_id (\<lambda>r. r\<lparr>br_status := STATUS_FAILED, br_error := Some err, br_finished_at := Some now\<rparr>)"

subsection \<open>Export\<close>

definition last_success_time :: "backup_schedule \<Rightarrow> time option" where
  "last_success_time s = None"

definition run_scheduled_export ::
  "'x sched_cfg \<Rightarrow> env \<Rightarrow> backup_schedule \<Rightarrow> world \<Rightarrow> error + ((string \<times> string option) \<times> world)" where
  "run_scheduled_export g e s w =
     (let c = sc_codec g; svc = sc_service g; uid = SCHEDULER_USER_ID; ip = ''scheduler''
      in if bs_scope s = ''platform'' then
           (case (if bs_kind s = KIND_DELTA then export_platform_delta c svc e (last_success_time s) None uid ip w
                  else export_platform c svc e uid ip w) of
              Inl x \<Rightarrow> Inl x | Inr (b, w') \<Rightarrow> Inr ((b, None), w'))
         else if bs_scope s = ''tenant'' then
           (if \<not> truthy_str (bs_tenant_id s) \<or> \<not> truthy_str (bs_tenant_slug s)
            then Inl (ValueError ''tenant schedule missing tenant_id/slug'')
            else let tid = the (bs_tenant_id s); slug = the (bs_tenant_slug s)
              in case (if bs_kind s = KIND_DELTA then export_tenant_delta c svc e tid slug None None uid ip w
                       else export_tenant c svc e tid slug uid ip w) of
                   Inl x \<Rightarrow> Inl x | Inr (b, w') \<Rightarrow> Inr ((b, Some slug), w'))
         else Inl (ValueError (''unknown scope: '' @ bs_scope s)))"

definition seal :: "'x sched_cfg \<Rightarrow> backup_schedule \<Rightarrow> string \<Rightarrow> error + (string \<times> string option)" where
  \<comment> \<open>The bundle as it is stored, and the fingerprint of the passphrase when it was encrypted.\<close>
  "seal g s bundle =
     (case sc_passphrase g s of
        Inl x \<Rightarrow> Inl x
      | Inr p \<Rightarrow>
          if truthy_str p
          then (case encrypt_bundle (sc_gpg g) bundle (the p) of
                  Inl x \<Rightarrow> Inl x | Inr c \<Rightarrow> Inr (c, Some (fingerprint (sc_creds g) (the p))))
          else Inr (bundle, None))"

definition scheduled_blob ::
  "'x sched_cfg \<Rightarrow> env \<Rightarrow> backup_schedule \<Rightarrow> string option \<Rightarrow> string \<times> string option \<Rightarrow> backup_blob" where
  "scheduled_blob g e s tenant_slug sealed =
     \<lparr>bb_data = fst sealed, bb_sha256 = cr_sha256_hex (sc_creds g) (fst sealed), bb_size = int (length (fst sealed)),
      bb_app_slug = svc_app_name (sc_service g), bb_scope = bs_scope s, bb_kind = bs_kind s,
      bb_created_at = env_now e, bb_encrypted = (snd sealed \<noteq> None), bb_key_fingerprint = snd sealed,
      bb_tenant_slug = tenant_slug, bb_metadata = []\<rparr>"

subsection \<open>The next run\<close>

definition change_schedule :: "time \<Rightarrow> string \<Rightarrow> (backup_schedule \<Rightarrow> backup_schedule) \<Rightarrow> db \<Rightarrow> db" where
  "change_schedule now i f d =
     d\<lparr>backup_schedules := update_by bs_id i (touched (touch_schedule now) f) (backup_schedules d)\<rparr>"

definition advance_next_run_at ::
  "'x sched_cfg \<Rightarrow> env \<Rightarrow> backup_schedule \<Rightarrow> 'x sched_world \<Rightarrow> (error + unit) \<times> 'x sched_world" where
  "advance_next_run_at g e s w =
     (if \<not> truthy_str (bs_cron_expr s)
      then (Inr (), sw_set_db (change_schedule (env_now e) (bs_id s)
              (\<lambda>r. r\<lparr>bs_next_run_at := None, bs_is_active := False\<rparr>) (sw_db w)) w)
      else case sc_cron g (the (bs_cron_expr s)) (env_now e) of
        None \<Rightarrow> (Inl (ValueError ''CroniterBadCronError''), w)
      | Some nxt \<Rightarrow> (Inr (), sw_set_db (change_schedule (env_now e) (bs_id s)
              (\<lambda>r. r\<lparr>bs_next_run_at := Some nxt\<rparr>) (sw_db w)) w))"

subsection \<open>Retention\<close>

definition MIN_TIME :: time where "MIN_TIME = seconds (-62135596800)"
definition MAX_TIME :: time where "MAX_TIME = seconds 253402300800 - 1"

definition days_before :: "int \<Rightarrow> time \<Rightarrow> error + time" where
  \<comment> \<open>\<open>now - timedelta(days=n)\<close>: both the interval and the result are range checked.\<close>
  "days_before n now =
     (if n < -999999999 \<or> 999999999 < n then Inl (OtherException ''OverflowError: days out of range'')
      else if now - days n < MIN_TIME \<or> MAX_TIME < now - days n then Inl (OtherException ''OverflowError: date value out of range'')
      else Inr (now - days n))"

definition int_true :: "int option \<Rightarrow> bool" where
  "int_true n \<longleftrightarrow> (case n of None \<Rightarrow> False | Some k \<Rightarrow> k \<noteq> 0)"

definition successful_runs :: "backup_schedule \<Rightarrow> db \<Rightarrow> backup_run list" where
  "successful_runs s d = sort_desc br_created_at
     (filter (\<lambda>r. br_schedule_id r = Some (bs_id s) \<and> br_status r = STATUS_SUCCESS) (backup_runs d))"

definition kept_ids :: "int option \<Rightarrow> time option \<Rightarrow> backup_run list \<Rightarrow> string list" where
  "kept_ids keep_last cutoff runs =
     (if int_true keep_last then map br_id (py_take (the keep_last) runs) else []) @
     (case cutoff of None \<Rightarrow> [] | Some t \<Rightarrow> map br_id (filter (\<lambda>r. t \<le> br_created_at r) runs))"

definition prune_one :: "'x sched_cfg \<Rightarrow> sink \<Rightarrow> backup_run \<Rightarrow> 'x sched_world \<Rightarrow> 'x sched_world" where
  \<comment> \<open>A sink that cannot delete is only logged; the row goes either way.\<close>
  "prune_one g snk r w =
     (let w1 = (if truthy_str (br_sink_locator r) then snd (sink_delete g snk (the (br_sink_locator r)) w) else w)
      in sw_set_db ((sw_db w1)\<lparr>backup_runs := delete_by br_id (br_id r) (backup_runs (sw_db w1))\<rparr>) w1)"

definition expired_runs :: "backup_schedule \<Rightarrow> time option \<Rightarrow> db \<Rightarrow> backup_run list" where
  "expired_runs s cutoff d =
     (let runs = successful_runs s d; keep = kept_ids (bs_keep_last s) cutoff runs
      in if cutoff = None \<and> bs_keep_last s = None then [] else filter (\<lambda>r. br_id r \<notin> set keep) runs)"

definition prune ::
  "'x sched_cfg \<Rightarrow> env \<Rightarrow> backup_schedule \<Rightarrow> sink \<Rightarrow> 'x sched_world \<Rightarrow> (error + unit) \<times> 'x sched_world" where
  "prune g e s snk w =
     (case (if int_true (bs_retention_days s)
            then (case days_before (the (bs_retention_days s)) (env_now e) of Inl x \<Rightarrow> Inl x | Inr t \<Rightarrow> Inr (Some t))
            else Inr None) of
        Inl x \<Rightarrow> (Inl x, w)
      | Inr cutoff \<Rightarrow> (Inr (), fold (prune_one g snk) (expired_runs s cutoff (sw_db w)) w))"

subsection \<open>Dispatch and ticks\<close>

definition run_backup ::
  "'x sched_cfg \<Rightarrow> env \<Rightarrow> backup_schedule \<Rightarrow> string \<Rightarrow> 'x sched_world \<Rightarrow> (error + unit) \<times> 'x sched_world" where
  \<comment> \<open>The body of the \<open>try\<close> block after the run is marked running.\<close>
  "run_backup g e s run_id w0 =
     attempt (case run_scheduled_export g e s (sw_world w0) of
                Inl x \<Rightarrow> (Inl x, w0) | Inr (b, w') \<Rightarrow> (Inr b, w0\<lparr>sw_world := w'\<rparr>)) (\<lambda>(bundle, tenant_slug) w1.
     attempt (seal g s bundle, w1) (\<lambda>sealed w2.
     attempt (build_sink_from_config (bs_sink_type s) (bs_sink_config s), w2) (\<lambda>snk w3.
     attempt (sink_put g snk (scheduled_blob g e s tenant_slug sealed) w3) (\<lambda>res w4.
     attempt (advance_next_run_at g e s
                (sw_set_db (mark_run_success (env_now e) run_id (scheduled_blob g e s tenant_slug sealed)
                   (sw_locator res) (sw_bytes_written res) (sw_db w4)) w4)) (\<lambda>_ w5.
     if int_true (bs_retention_days s) \<or> int_true (bs_keep_last s) then prune g e s snk w5 else (Inr (), w5))))))"

definition dispatch :: "'x sched_cfg \<Rightarrow> env \<Rightarrow> backup_schedule \<Rightarrow> 'x sched_world \<Rightarrow> string \<times> 'x sched_world" where
  "dispatch g e s w =
     (let run_id = env_ids e 1; now = env_now e;
          w1 = sw_set_db (mark_run_status now run_id STATUS_RUNNING (mark_run_pending g e s (sw_db w))) w
      in case run_backup g e s run_id w1 of
           (Inr _, w2) \<Rightarrow> (run_id, w2)
         | (Inl x, w2) \<Rightarrow> (run_id, sw_set_db (mark_run_failed now run_id (err_message x) (sw_db w2)) w2))"

definition due_schedules :: "time \<Rightarrow> db \<Rightarrow> backup_schedule list" where
  "due_schedules now d =
     filter (\<lambda>s. bs_is_active s \<and> (case bs_next_run_at s of None \<Rightarrow> True | Some t \<Rightarrow> t \<le> now)) (backup_schedules d)"

fun dispatch_all ::
  "'x sched_cfg \<Rightarrow> (nat \<Rightarrow> env) \<Rightarrow> backup_schedule list \<Rightarrow> 'x sched_world \<Rightarrow> string list \<times> 'x sched_world" where
  "dispatch_all g es [] w = ([], w)"
| "dispatch_all g es (s # ss) w =
     (let (i, w1) = dispatch g (es 0) s w; (ids, w2) = dispatch_all g (\<lambda>n. es (Suc n)) ss w1
      in (if i \<noteq> [] then i # ids else ids, w2))"

definition tick_once :: "'x sched_cfg \<Rightarrow> time \<Rightarrow> (nat \<Rightarrow> env) \<Rightarrow> 'x sched_world \<Rightarrow> string list \<times> 'x sched_world" where
  "tick_once g now es w = dispatch_all g es (due_schedules now (sw_db w)) w"

definition run_loop :: "'x sched_cfg \<Rightarrow> (time \<times> (nat \<Rightarrow> env)) list \<Rightarrow> 'x sched_world \<Rightarrow> 'x sched_world" where
  \<comment> \<open>The ticks that elapse until the loop is stopped.\<close>
  "run_loop g ticks w = fold (\<lambda>(now, es) w. snd (tick_once g now es w)) ticks w"


subsection \<open>What the steps leave alone\<close>

lemma sw_simps [simp]:
  "sw_db (sw_set_db d w) = d" "sw_fs (sw_set_db d w) = sw_fs w" "sw_db (sw_set_fs f w) = sw_db w"
  "sw_fs (sw_set_fs f w) = f" "sw_db (w\<lparr>sw_ext := x\<rparr>) = sw_db w" "sw_fs (w\<lparr>sw_ext := x\<rparr>) = sw_fs w"
  "sw_db (w\<lparr>sw_world := v\<rparr>) = w_db v" "sw_fs (w\<lparr>sw_world := v\<rparr>) = w_fs v"
  by (simp_all add: sw_db_def sw_set_db_def sw_fs_def sw_set_fs_def set_db_def)

lemma run_changes [simp]:
  "backup_schedules (change_run now i f d) = backup_schedules d"
  "backup_schedules (mark_run_pending g e s d) = backup_schedules d"
  "backup_schedules (mark_run_status now i st d) = backup_schedules d"
  "backup_schedules (mark_run_success now i b l n d) = backup_schedules d"
  "backup_schedules (mark_run_failed now i err d) = backup_schedules d"
  "backup_runs (change_schedule now j h d) = backup_runs d"
  by (simp_all add: change_run_def mark_run_pending_def mark_run_status_def mark_run_success_def
      mark_run_failed_def change_schedule_def)

lemma audited_keeps [simp]:
  "backup_runs (w_db (audited e u t a tt ti dt ip w)) = backup_runs (w_db w)"
  "backup_schedules (w_db (audited e u t a tt ti dt ip w)) = backup_schedules (w_db w)"
  "w_fs (audited e u t a tt ti dt ip w) = w_fs w"
  by (simp_all add: audited_def set_db_def audit_log_entry_def)

lemma scheduled_export_keeps:
  assumes "run_scheduled_export g e s w = Inr (b, w')"
  shows "backup_runs (w_db w') = backup_runs (w_db w)" "backup_schedules (w_db w') = backup_schedules (w_db w)"
    "w_fs w' = w_fs w"
  using assms
  by (auto simp: run_scheduled_export_def export_platform_def export_platform_delta_def export_tenant_def
      export_tenant_delta_def Let_def split: sum.splits if_splits)

lemma sink_put_db: "sink_put g snk b w = (r, w') \<Longrightarrow> sw_db w' = sw_db w"
  by (cases snk) (auto split: prod.splits)

lemma sink_delete_db [simp]: "sw_db (snd (sink_delete g snk l w)) = sw_db w"
  by (cases snk) (auto split: prod.splits sum.splits)

lemma prune_one_db [simp]:
  "sw_db (prune_one g snk r w) = (sw_db w)\<lparr>backup_runs := delete_by br_id (br_id r) (backup_runs (sw_db w))\<rparr>"
  by (simp add: prune_one_def Let_def)

lemma fold_prune_db:
  "sw_db (fold (prune_one g snk) rs w) =
     (sw_db w)\<lparr>backup_runs := filter (\<lambda>r. br_id r \<notin> br_id ` set rs) (backup_runs (sw_db w))\<rparr>"
  by (induction rs arbitrary: w) (auto simp: delete_by_def filter_filter intro: filter_cong)

lemma fold_prune_fs:
  "sw_fs (fold (prune_one g (LocalDisk root)) rs w) =
     fold (storage_sink.remove (local_delete root)) (map (\<lambda>r. the (br_sink_locator r)) (filter (\<lambda>r. truthy_str (br_sink_locator r)) rs)) (sw_fs w)"
  by (induction rs arbitrary: w) (auto simp: prune_one_def Let_def local_disk.remove_def split: sum.splits)

lemma advance_keeps:
  assumes "advance_next_run_at g e s w = (r, w')"
  shows "backup_runs (sw_db w') = backup_runs (sw_db w)" "sw_fs w' = sw_fs w"
  using assms by (auto simp: advance_next_run_at_def split: if_splits option.splits)

lemma prune_keeps:
  assumes "prune g e s snk w = (r, w')"
  shows "backup_schedules (sw_db w') = backup_schedules (sw_db w)"
  using assms by (auto simp: prune_def fold_prune_db split: sum.splits)

subsection \<open>Retention deletes exactly the expired runs\<close>

text \<open>The rule of the documentation: a run is kept if either setting keeps it.\<close>

definition retained :: "backup_schedule \<Rightarrow> time \<Rightarrow> db \<Rightarrow> backup_run \<Rightarrow> bool" where
  "retained s now d r \<longleftrightarrow>
     (int_true (bs_retention_days s) \<and> now - days (the (bs_retention_days s)) \<le> br_created_at r) \<or>
     (int_true (bs_keep_last s) \<and> r \<in> set (py_take (the (bs_keep_last s)) (successful_runs s d)))"

lemma set_py_take: "set (py_take n xs) \<subseteq> set xs"
  by (auto simp: py_take_def dest: in_set_takeD)

lemma set_successful:
  "set (successful_runs s d) = {r \<in> set (backup_runs d). br_schedule_id r = Some (bs_id s) \<and> br_status r = STATUS_SUCCESS}"
  by (auto simp: successful_runs_def)

lemma prune_cutoff:
  assumes "prune g e s snk w = (Inr (), w')"
  obtains cutoff where "w' = fold (prune_one g snk) (expired_runs s cutoff (sw_db w)) w"
    "cutoff = (if int_true (bs_retention_days s) then Some (env_now e - days (the (bs_retention_days s))) else None)"
  using assms by (auto simp: prune_def days_before_def split: sum.splits if_splits)

lemma expired_iff:
  assumes "distinct (map br_id (backup_runs d))" and "int_true (bs_retention_days s) \<or> int_true (bs_keep_last s)"
    and "cutoff = (if int_true (bs_retention_days s) then Some (now - days (the (bs_retention_days s))) else None)"
  shows "r \<in> set (expired_runs s cutoff d) \<longleftrightarrow> r \<in> set (successful_runs s d) \<and> \<not> retained s now d r"
proof -
  have same: "br_id r \<in> br_id ` A \<longleftrightarrow> r \<in> A" if "r \<in> set (successful_runs s d)" "A \<subseteq> set (successful_runs s d)" for A r
    using that distinct_keyD [OF assms(1)] by (auto simp: set_successful)
  have none: "cutoff = None \<and> bs_keep_last s = None \<Longrightarrow> False" using assms(2,3) by (auto simp: int_true_def)
  have take: "set (py_take (the (bs_keep_last s)) (successful_runs s d)) \<subseteq> set (successful_runs s d)"
    by (rule set_py_take)
  show ?thesis
    using none same [OF _ take] same [of r "{q \<in> set (successful_runs s d). now - days (the (bs_retention_days s)) \<le> br_created_at q}"] assms(3)
    by (auto simp: expired_runs_def Let_def kept_ids_def retained_def)
qed

text \<open>
  C14: Retention deletes exactly what its two rules do not keep: after pruning, the run table is the old one
  without the successful runs of this schedule that are older than the retention period and not among the
  \<open>keep_last\<close> newest; runs of other schedules and failed runs stay, in their order.
\<close>

theorem prune_keeps_exactly:
  assumes "distinct (map br_id (backup_runs (sw_db w)))" and "int_true (bs_retention_days s) \<or> int_true (bs_keep_last s)"
    and "prune g e s snk w = (Inr (), w')"
  shows "backup_runs (sw_db w') = filter (\<lambda>r. \<not> (br_schedule_id r = Some (bs_id s) \<and> br_status r = STATUS_SUCCESS) \<or>
      retained s (env_now e) (sw_db w) r) (backup_runs (sw_db w))"
proof -
  obtain cutoff where w': "w' = fold (prune_one g snk) (expired_runs s cutoff (sw_db w)) w"
    and c: "cutoff = (if int_true (bs_retention_days s) then Some (env_now e - days (the (bs_retention_days s))) else None)"
    using assms(3) by (rule prune_cutoff)
  note ex = expired_iff [OF assms(1,2) c]
  have sub: "set (expired_runs s cutoff (sw_db w)) \<subseteq> set (backup_runs (sw_db w))" by (auto simp: ex set_successful)
  have "br_id r \<in> br_id ` set (expired_runs s cutoff (sw_db w)) \<longleftrightarrow> r \<in> set (expired_runs s cutoff (sw_db w))"
    if "r \<in> set (backup_runs (sw_db w))" for r
    using that sub distinct_keyD [OF assms(1) that] by auto
  then show ?thesis unfolding w' fold_prune_db by (auto simp: ex set_successful intro!: filter_cong)
qed


subsection \<open>The outcome of a dispatch\<close>

lemma set_change_run:
  "set (backup_runs (change_run now i f d)) =
     (\<lambda>r. if br_id r = i then touched (touch_run now) f r else r) ` set (backup_runs d)"
  by (simp add: change_run_def set_update_by)

lemma touch_run_fields [simp]:
  "br_id (touch_run t r) = br_id r" "br_status (touch_run t r) = br_status r"
  "br_sink_locator (touch_run t r) = br_sink_locator r" "br_sha256 (touch_run t r) = br_sha256 r"
  "br_bytes_written (touch_run t r) = br_bytes_written r" "br_schedule_id (touch_run t r) = br_schedule_id r"
  "br_created_at (touch_run t r) = br_created_at r" "br_error (touch_run t r) = br_error r"
  by (simp_all add: touch_run_def)

lemma touched_run [simp]:
  "br_id (touched (touch_run t) f r) = br_id (f r)" "br_status (touched (touch_run t) f r) = br_status (f r)"
  "br_sink_locator (touched (touch_run t) f r) = br_sink_locator (f r)" "br_sha256 (touched (touch_run t) f r) = br_sha256 (f r)"
  "br_bytes_written (touched (touch_run t) f r) = br_bytes_written (f r)"
  "br_schedule_id (touched (touch_run t) f r) = br_schedule_id (f r)"
  "br_created_at (touched (touch_run t) f r) = br_created_at (f r)" "br_error (touched (touch_run t) f r) = br_error (f r)"
  by (simp_all add: touched_proj)

lemma touched_schedule [simp]:
  "bs_id (touched (touch_schedule t) h s) = bs_id (h s)" "bs_is_active (touched (touch_schedule t) h s) = bs_is_active (h s)"
  "bs_next_run_at (touched (touch_schedule t) h s) = bs_next_run_at (h s)"
  by (simp_all add: touched_proj touch_schedule_def)

lemma status_distinct [simp]: "STATUS_SUCCESS \<noteq> STATUS_FAILED" "STATUS_FAILED \<noteq> STATUS_SUCCESS"
  "STATUS_RUNNING \<noteq> STATUS_SUCCESS" "STATUS_RUNNING \<noteq> STATUS_FAILED"
  by (simp_all add: STATUS_SUCCESS_def STATUS_FAILED_def STATUS_RUNNING_def)

text \<open>The steps before the run is marked successful, and what they leave of tables and files.\<close>

definition stored :: "'x sched_cfg \<Rightarrow> env \<Rightarrow> backup_schedule \<Rightarrow> string \<Rightarrow> sink \<Rightarrow> backup_blob \<Rightarrow> sink_write_result \<Rightarrow>
    'x sched_world \<Rightarrow> 'x sched_world \<Rightarrow> bool" where
  "stored g e s i snk b res w w5 \<longleftrightarrow>
     (\<exists>raw slug sealed v w4. run_scheduled_export g e s (sw_world w) = Inr ((raw, slug), v) \<and>
        seal g s raw = Inr sealed \<and> build_sink_from_config (bs_sink_type s) (bs_sink_config s) = Inr snk \<and>
        b = scheduled_blob g e s slug sealed \<and> sink_put g snk b (w\<lparr>sw_world := v\<rparr>) = (Inr res, w4) \<and>
        w5 = sw_set_db (mark_run_success (env_now e) i b (sw_locator res) (sw_bytes_written res) (sw_db w4)) w4)"

lemma stored_keeps:
  assumes "stored g e s i snk b res w w5"
  shows "backup_schedules (sw_db w5) = backup_schedules (sw_db w)"
    "backup_runs (sw_db w5) = backup_runs (mark_run_success (env_now e) i b (sw_locator res) (sw_bytes_written res) (sw_db w))"
proof -
  obtain raw slug v w4 where v: "run_scheduled_export g e s (sw_world w) = Inr ((raw, slug), v)"
    and put: "sink_put g snk b (w\<lparr>sw_world := v\<rparr>) = (Inr res, w4)"
    and w5: "w5 = sw_set_db (mark_run_success (env_now e) i b (sw_locator res) (sw_bytes_written res) (sw_db w4)) w4"
    using assms unfolding stored_def by blast
  note k = scheduled_export_keeps [OF v, folded sw_db_def] sink_put_db [OF put]
  show "backup_schedules (sw_db w5) = backup_schedules (sw_db w)"
    "backup_runs (sw_db w5) = backup_runs (mark_run_success (env_now e) i b (sw_locator res) (sw_bytes_written res) (sw_db w))"
    using k by (simp_all add: w5 mark_run_success_def change_run_def)
qed

lemma run_backup_cases:
  assumes "run_backup g e s i w = (r, w')"
  obtains (early) x where "r = Inl x" "backup_schedules (sw_db w') = backup_schedules (sw_db w)"
      "backup_runs (sw_db w') = backup_runs (sw_db w)"
  | (cron) x snk b res where "r = Inl x" "stored g e s i snk b res w w'" "truthy_str (bs_cron_expr s)"
      "sc_cron g (the (bs_cron_expr s)) (env_now e) = None"
  | (late) snk b res w5 w6 where "stored g e s i snk b res w w5" "advance_next_run_at g e s w5 = (Inr (), w6)"
      "(if int_true (bs_retention_days s) \<or> int_true (bs_keep_last s) then prune g e s snk w6 else (Inr (), w6)) = (r, w')"
proof (cases "run_scheduled_export g e s (sw_world w)")
  case (Inl x)
  with assms show ?thesis by (intro early) (auto simp: run_backup_def attempt_def)
next
  case (Inr bv)
  obtain raw slug v where bv: "bv = ((raw, slug), v)" by (metis surj_pair)
  note ex = Inr [unfolded bv]
  note k = scheduled_export_keeps [OF ex]
  have start: "run_backup g e s i w = attempt (seal g s raw, w\<lparr>sw_world := v\<rparr>) (\<lambda>sealed w2.
     attempt (build_sink_from_config (bs_sink_type s) (bs_sink_config s), w2) (\<lambda>snk w3.
     attempt (sink_put g snk (scheduled_blob g e s slug sealed) w3) (\<lambda>res w4.
     attempt (advance_next_run_at g e s
                (sw_set_db (mark_run_success (env_now e) i (scheduled_blob g e s slug sealed)
                   (sw_locator res) (sw_bytes_written res) (sw_db w4)) w4)) (\<lambda>_ w5.
     if int_true (bs_retention_days s) \<or> int_true (bs_keep_last s) then prune g e s snk w5 else (Inr (), w5)))))"
    by (simp add: run_backup_def ex attempt_def)
  have same: "backup_schedules (sw_db (w\<lparr>sw_world := v\<rparr>)) = backup_schedules (sw_db w)"
    "backup_runs (sw_db (w\<lparr>sw_world := v\<rparr>)) = backup_runs (sw_db w)" using k by (simp_all add: sw_db_def)
  consider (sealed) x where "seal g s raw = Inl x"
    | (sink) sealed x where "seal g s raw = Inr sealed" "build_sink_from_config (bs_sink_type s) (bs_sink_config s) = Inl x"
    | (ok) sealed snk where "seal g s raw = Inr sealed" "build_sink_from_config (bs_sink_type s) (bs_sink_config s) = Inr snk"
    by (cases "seal g s raw"; cases "build_sink_from_config (bs_sink_type s) (bs_sink_config s)") auto
  then show ?thesis
  proof cases
    case sealed
    then show ?thesis using assms start same by (intro early) (auto simp: attempt_def)
  next
    case sink
    then show ?thesis using assms start same by (intro early) (auto simp: attempt_def)
  next
    case ok
    obtain pr w4 where put: "sink_put g snk (scheduled_blob g e s slug sealed) (w\<lparr>sw_world := v\<rparr>) = (pr, w4)"
      by (metis surj_pair)
    show ?thesis
    proof (cases pr)
      case (Inl x)
      then show ?thesis using assms start same ok put sink_put_db [OF put] by (intro early) (auto simp: attempt_def)
    next
      case (Inr res)
      define b where "b = scheduled_blob g e s slug sealed"
      define w5 where "w5 = sw_set_db (mark_run_success (env_now e) i b (sw_locator res) (sw_bytes_written res) (sw_db w4)) w4"
      have st: "stored g e s i snk b res w w5"
        unfolding stored_def using ex ok put Inr b_def w5_def by blast
      have body: "run_backup g e s i w = attempt (advance_next_run_at g e s w5) (\<lambda>_ w6.
          if int_true (bs_retention_days s) \<or> int_true (bs_keep_last s) then prune g e s snk w6 else (Inr (), w6))"
        using start ok put Inr by (simp add: attempt_def w5_def b_def)
      obtain ar w6 where adv: "advance_next_run_at g e s w5 = (ar, w6)" by (metis surj_pair)
      show ?thesis
      proof (cases ar)
        case (Inl x)
        then have "w6 = w5" "truthy_str (bs_cron_expr s)" "sc_cron g (the (bs_cron_expr s)) (env_now e) = None"
          using adv by (auto simp: advance_next_run_at_def split: if_splits option.splits)
        then show ?thesis using assms body adv Inl st by (intro cron [of x]) (auto simp: attempt_def)
      next
        case (Inr u)
        then show ?thesis using assms body adv st by (intro late [OF st]) (auto simp: attempt_def)
      qed
    qed
  qed
qed


definition started :: "'x sched_cfg \<Rightarrow> env \<Rightarrow> backup_schedule \<Rightarrow> 'x sched_world \<Rightarrow> 'x sched_world" where
  \<comment> \<open>The world in which the export of a dispatch begins.\<close>
  "started g e s w =
     sw_set_db (mark_run_status (env_now e) (env_ids e 1) STATUS_RUNNING (mark_run_pending g e s (sw_db w))) w"

lemma started_runs:
  "backup_schedules (sw_db (started g e s w)) = backup_schedules (sw_db w)"
  "sw_fs (started g e s w) = sw_fs w"
  by (simp_all add: started_def)

lemma dispatch_eq:
  "dispatch g e s w = (case run_backup g e s (env_ids e 1) (started g e s w) of
     (Inr _, w2) \<Rightarrow> (env_ids e 1, w2)
   | (Inl x, w2) \<Rightarrow> (env_ids e 1, sw_set_db (mark_run_failed (env_now e) (env_ids e 1) (err_message x) (sw_db w2)) w2))"
  unfolding dispatch_def started_def Let_def by (rule refl)

lemma dispatch_cases:
  assumes "dispatch g e s w = (i, w')"
  obtains (finished) "i = env_ids e 1" "run_backup g e s i (started g e s w) = (Inr (), w')"
  | (failed) x w2 where "i = env_ids e 1" "run_backup g e s i (started g e s w) = (Inl x, w2)"
      "w' = sw_set_db (mark_run_failed (env_now e) i (err_message x) (sw_db w2)) w2"
  using assms unfolding dispatch_eq by (auto split: prod.splits sum.splits)

lemma changed_row:
  assumes "r \<in> set (backup_runs (change_run now i f d))" and "br_id r = i"
  shows "\<exists>q. r = touched (touch_run now) f q"
  using assms by (auto simp: change_run_def elim: updated_row)

lemma stored_row:
  assumes "stored g e s i snk b res w w5" and "r \<in> set (backup_runs (sw_db w5))" and "br_id r = i"
  shows "br_status r = STATUS_SUCCESS" "br_sink_locator r = Some (sw_locator res)" "br_sha256 r = Some (bb_sha256 b)"
    "br_bytes_written r = Some (sw_bytes_written res)"
proof -
  obtain q where "r = touched (touch_run (env_now e)) (\<lambda>r. r\<lparr>br_status := STATUS_SUCCESS, br_sink_locator := Some (sw_locator res),
       br_bytes_written := Some (sw_bytes_written res), br_sha256 := Some (bb_sha256 b), br_encrypted := bb_encrypted b,
       br_key_fingerprint := bb_key_fingerprint b, br_finished_at := Some (env_now e)\<rparr>) q"
    using changed_row assms(2,3) unfolding stored_keeps(2) [OF assms(1)] mark_run_success_def by blast
  then show "br_status r = STATUS_SUCCESS" "br_sink_locator r = Some (sw_locator res)" "br_sha256 r = Some (bb_sha256 b)"
    "br_bytes_written r = Some (sw_bytes_written res)" by simp_all
qed

lemma failed_row:
  assumes "r \<in> set (backup_runs (mark_run_failed now i err d))" and "br_id r = i"
  shows "br_status r = STATUS_FAILED" "br_error r = Some err"
proof -
  obtain q where "r = touched (touch_run now) (\<lambda>r. r\<lparr>br_status := STATUS_FAILED, br_error := Some err, br_finished_at := Some now\<rparr>) q"
    using changed_row assms unfolding mark_run_failed_def by blast
  then show "br_status r = STATUS_FAILED" "br_error r = Some err" by simp_all
qed

lemma late_runs:
  assumes "(if int_true (bs_retention_days s) \<or> int_true (bs_keep_last s) then prune g e s snk w6 else (Inr (), w6)) = (r, w')"
  shows "set (backup_runs (sw_db w')) \<subseteq> set (backup_runs (sw_db w6))"
    "backup_schedules (sw_db w') = backup_schedules (sw_db w6)"
  using assms prune_keeps by (auto simp: prune_def fold_prune_db split: if_splits sum.splits)

text \<open>
  Every dispatch settles its run: when it returns, the row it created, if retention left it there, is
  successful or failed, never pending or running, and a failed one carries its error.
\<close>

theorem dispatch_settles:
  assumes "dispatch g e s w = (i, w')" and "r \<in> set (backup_runs (sw_db w'))" and "br_id r = i"
  shows "br_status r = STATUS_SUCCESS \<or> (br_status r = STATUS_FAILED \<and> br_error r \<noteq> None)"
  using assms(1)
proof (cases rule: dispatch_cases)
  case finished
  from finished(2) show ?thesis
  proof (cases rule: run_backup_cases)
    case (late snk b res w5 w6)
    have "r \<in> set (backup_runs (sw_db w5))"
      using assms(2) late_runs(1) [OF late(3)] advance_keeps(1) [OF late(2)] by auto
    then show ?thesis using stored_row [OF late(1)] assms(3) by simp
  qed auto
next
  case (failed x w2)
  then show ?thesis using failed_row assms(2,3) by (metis option.discI sw_simps(1))
qed

lemma succeeded:
  assumes "dispatch g e s w = (i, w')" and "r \<in> set (backup_runs (sw_db w'))" "br_id r = i" "br_status r = STATUS_SUCCESS"
  obtains snk b res w5 w6 where "i = env_ids e 1" "stored g e s i snk b res (started g e s w) w5"
    "advance_next_run_at g e s w5 = (Inr (), w6)"
    "(if int_true (bs_retention_days s) \<or> int_true (bs_keep_last s) then prune g e s snk w6 else (Inr (), w6)) = (Inr (), w')"
  using assms(1)
proof (cases rule: dispatch_cases)
  case finished
  from finished(2) show ?thesis by (cases rule: run_backup_cases) (auto intro: that finished(1))
next
  case (failed x w2)
  then show ?thesis using failed_row(1) assms by (metis status_distinct(1) sw_simps(1))
qed

text \<open>
  A failed backup is retried: when the run of a dispatch failed, whether in the export, the encryption, the
  sink or the cron expression, the table of schedules is untouched, so that a schedule that was due
  still is at every later tick.
\<close>

theorem failed_run_retried:
  assumes "dispatch g e s w = (i, w')" and "r \<in> set (backup_runs (sw_db w'))" "br_id r = i" "br_status r = STATUS_FAILED"
    and range: "\<And>n x. bs_retention_days s = Some n \<Longrightarrow> days_before n (env_now e) \<noteq> Inl x"
    and "q \<in> set (due_schedules t (sw_db w))" "t \<le> t'"
  shows "backup_schedules (sw_db w') = backup_schedules (sw_db w) \<and> q \<in> set (due_schedules t' (sw_db w'))"
proof -
  have "backup_schedules (sw_db w') = backup_schedules (sw_db w)"
    using assms(1)
  proof (cases rule: dispatch_cases)
    case finished
    from finished(2) show ?thesis
    proof (cases rule: run_backup_cases)
      case (late snk b res w5 w6)
      have "r \<in> set (backup_runs (sw_db w5))"
        using assms(2) late_runs(1) [OF late(3)] advance_keeps(1) [OF late(2)] by auto
      then show ?thesis using stored_row(1) [OF late(1)] assms(3,4) by simp
    qed auto
  next
    case (failed x w2)
    have w': "backup_schedules (sw_db w') = backup_schedules (sw_db w2)" by (simp add: failed(3))
    from failed(2) show ?thesis
    proof (cases rule: run_backup_cases)
      case early
      then show ?thesis by (simp add: w' started_runs)
    next
      case (cron y snk b res)
      then show ?thesis by (simp add: w' stored_keeps(1) [OF cron(2)] started_runs)
    next
      case (late snk b res w5 w6)
      then show ?thesis using range by (auto simp: prune_def int_true_def split: if_splits sum.splits option.splits)
    qed
  qed
  then show ?thesis using assms(6,7) by (auto simp: due_schedules_def split: option.splits)
qed

text \<open>
  A schedule without a cron expression runs once: after its successful dispatch no schedule with its id is
  due at any time.
\<close>

theorem one_shot_runs_once:
  assumes "dispatch g e s w = (i, w')" and "r \<in> set (backup_runs (sw_db w'))" "br_id r = i" "br_status r = STATUS_SUCCESS"
    and "\<not> truthy_str (bs_cron_expr s)"
  shows "bs_id s \<notin> bs_id ` set (due_schedules t (sw_db w'))"
proof -
  obtain snk b res w5 w6 where adv: "advance_next_run_at g e s w5 = (Inr (), w6)"
    and last: "(if int_true (bs_retention_days s) \<or> int_true (bs_keep_last s) then prune g e s snk w6 else (Inr (), w6)) = (Inr (), w')"
    using assms(1-4) by (rule succeeded)
  have "backup_schedules (sw_db w6) = update_by bs_id (bs_id s)
      (touched (touch_schedule (env_now e)) (\<lambda>r. r\<lparr>bs_next_run_at := None, bs_is_active := False\<rparr>)) (backup_schedules (sw_db w5))"
    using adv assms(5) by (auto simp: advance_next_run_at_def change_schedule_def)
  then have rows: "backup_schedules (sw_db w') = update_by bs_id (bs_id s)
      (touched (touch_schedule (env_now e)) (\<lambda>r. r\<lparr>bs_next_run_at := None, bs_is_active := False\<rparr>)) (backup_schedules (sw_db w5))"
    using late_runs(2) [OF last] by simp
  have "\<not> bs_is_active q" if "q \<in> set (backup_schedules (sw_db w'))" "bs_id q = bs_id s" for q
    using that(1) unfolding rows by (rule updated_row) (use that(2) in simp_all)
  then show ?thesis by (auto simp: due_schedules_def)
qed


lemma set_expired: "set (expired_runs s cutoff d) \<subseteq> set (successful_runs s d)"
  by (auto simp: expired_runs_def Let_def)

lemma stored_local:
  assumes "stored g e s i (LocalDisk root) b res w w5"
  shows "local_put_op (sc_codec g) root (sc_tag g) (sc_fault g) b (sw_fs w) = Inr (res, sw_fs w5)"
    "bb_sha256 b = cr_sha256_hex (sc_creds g) (bb_data b)"
proof -
  obtain raw slug sealed v w4 where v: "run_scheduled_export g e s (sw_world w) = Inr ((raw, slug), v)"
    and b: "b = scheduled_blob g e s slug sealed"
    and put: "sink_put g (LocalDisk root) b (w\<lparr>sw_world := v\<rparr>) = (Inr res, w4)"
    and w5: "w5 = sw_set_db (mark_run_success (env_now e) i b (sw_locator res) (sw_bytes_written res) (sw_db w4)) w4"
    using assms unfolding stored_def by blast
  have "w_fs v = sw_fs w" using scheduled_export_keeps(3) [OF v] by (simp add: sw_fs_def)
  with put show "local_put_op (sc_codec g) root (sc_tag g) (sc_fault g) b (sw_fs w) = Inr (res, sw_fs w5)"
    by (auto simp: local_put_op_def w5 split: prod.splits)
  show "bb_sha256 b = cr_sha256_hex (sc_creds g) (bb_data b)" by (simp add: b scheduled_blob_def)
qed

lemma stored_old_row:
  assumes "stored g e s i snk b res (started g e s w) w5" and "i = env_ids e 1"
    and "p \<in> set (backup_runs (sw_db w5))" "br_id p \<noteq> i"
  shows "p \<in> set (backup_runs (sw_db w))"
proof -
  have "p \<in> set (backup_runs (sw_db (started g e s w)))"
    using assms(3) unfolding stored_keeps(2) [OF assms(1)] mark_run_success_def change_run_def
    by (auto elim!: updated_row simp: assms(4) split: if_splits) (use assms(4) in simp_all)
  then show ?thesis
    using assms(2,4) unfolding started_def mark_run_status_def mark_run_pending_def change_run_def
    by (auto elim!: updated_row simp: add_row_def pending_run_def)
qed

text \<open>
  A successful scheduled backup is really there: when a dispatch to a local sink leaves its run marked
  successful, the locator of the run reads back data with exactly the digest the run records, even after
  the retention that followed, provided no earlier run of the schedule used the same file name.
\<close>

theorem scheduled_snapshot_stored:
  assumes "dispatch g e s w = (i, w')" and "r \<in> set (backup_runs (sw_db w'))" "br_id r = i" "br_status r = STATUS_SUCCESS"
    and snk: "build_sink_from_config (bs_sink_type s) (bs_sink_config s) = Inr (LocalDisk root)"
    and l: "br_sink_locator r = Some l" "snap_locator l"
    and others: "\<And>q m. q \<in> set (backup_runs (sw_db w)) \<Longrightarrow> br_schedule_id q = Some (bs_id s) \<Longrightarrow>
      br_sink_locator q = Some m \<Longrightarrow> m \<noteq> [] \<Longrightarrow> snap_locator m \<and> m \<noteq> l"
  shows "\<exists>data. local_get root l (sw_fs w') = Inr data \<and> br_sha256 r = Some (cr_sha256_hex (sc_creds g) data)"
proof -
  obtain k b res w5 w6 where i: "i = env_ids e 1" and st: "stored g e s i k b res (started g e s w) w5"
    and adv: "advance_next_run_at g e s w5 = (Inr (), w6)"
    and last: "(if int_true (bs_retention_days s) \<or> int_true (bs_keep_last s) then prune g e s k w6 else (Inr (), w6)) = (Inr (), w')"
    using assms(1-4) by (rule succeeded)
  have k: "k = LocalDisk root" using st snk by (auto simp: stored_def)
  note put = stored_local [OF st [unfolded k]]
  have w6: "backup_runs (sw_db w6) = backup_runs (sw_db w5)" "sw_fs w6 = sw_fs w5" using advance_keeps [OF adv] by auto
  have "r \<in> set (backup_runs (sw_db w5))" using assms(2) late_runs(1) [OF last] w6 by auto
  note row = stored_row [OF st this assms(3)]
  have loc: "sw_locator res = l" using row(2) l(1) by simp
  have "local_get root l (sw_fs w') = Inr (bb_data b)"
  proof (cases "int_true (bs_retention_days s) \<or> int_true (bs_keep_last s)")
    case False
    then show ?thesis using last w6 local_disk.get_put [OF put(1)] loc l(2) by simp
  next
    case True
    then obtain cutoff where w': "w' = fold (prune_one g k) (expired_runs s cutoff (sw_db w6)) w6"
      using last prune_cutoff by (metis (no_types, lifting))
    let ?ls = "map (\<lambda>r. the (br_sink_locator r)) (filter (\<lambda>r. truthy_str (br_sink_locator r)) (expired_runs s cutoff (sw_db w6)))"
    have "snap_locator m \<and> m \<noteq> l" if m: "m \<in> set ?ls" for m
    proof -
      obtain p where p: "p \<in> set (expired_runs s cutoff (sw_db w6))" "br_sink_locator p = Some m" "m \<noteq> []"
      proof -
        from m obtain p where "p \<in> set (expired_runs s cutoff (sw_db w6))" "truthy_str (br_sink_locator p)"
          "m = the (br_sink_locator p)" by auto
        then show ?thesis by (cases "br_sink_locator p") (auto simp: truthy_str_def intro: that)
      qed
      have "p \<in> set (backup_runs (sw_db w5))" "br_schedule_id p = Some (bs_id s)"
        using p(1) set_expired w6(1) by (fastforce simp: set_successful)+
      moreover have "br_id r \<notin> br_id ` set (expired_runs s cutoff (sw_db w6))"
        using assms(2) unfolding w' fold_prune_db by simp
      then have "br_id p \<noteq> i" using p(1) assms(3) by blast
      ultimately show ?thesis using others p stored_old_row [OF st i] by blast
    qed
    then show ?thesis
      using local_disk.get_put_then_remove [OF put(1), of ?ls] loc l(2) w6(2)
      unfolding w' k fold_prune_fs by (metis (no_types, lifting))
  qed
  then show ?thesis using row(3) put(2) by (intro exI [of _ "bb_data b"]) simp
qed

text \<open>
  A cron expression the library rejects is found out only after the snapshot is stored: the run is marked
  failed with its snapshot in place, the schedule stays due, and retention, which only looks at successful
  runs, never removes the snapshot.
\<close>

lemma bad_cron_keeps_piling_up:
  assumes "stored g e s i snk b res (started g e s w) w5" "i = env_ids e 1"
    and "truthy_str (bs_cron_expr s)" "sc_cron g (the (bs_cron_expr s)) (env_now e) = None"
  shows "\<exists>w'. dispatch g e s w = (i, w') \<and> backup_schedules (sw_db w') = backup_schedules (sw_db w) \<and> sw_fs w' = sw_fs w5 \<and>
    (\<forall>r \<in> set (backup_runs (sw_db w')). br_id r = i \<longrightarrow> br_status r = STATUS_FAILED) \<and>
    i \<notin> br_id ` set (successful_runs q (sw_db w'))"
proof -
  obtain raw slug sealed v w4 where v: "run_scheduled_export g e s (sw_world (started g e s w)) = Inr ((raw, slug), v)"
    "seal g s raw = Inr sealed" "build_sink_from_config (bs_sink_type s) (bs_sink_config s) = Inr snk"
    "b = scheduled_blob g e s slug sealed" "sink_put g snk b ((started g e s w)\<lparr>sw_world := v\<rparr>) = (Inr res, w4)"
    "w5 = sw_set_db (mark_run_success (env_now e) i b (sw_locator res) (sw_bytes_written res) (sw_db w4)) w4"
    using assms(1) unfolding stored_def by blast
  have "run_backup g e s i (started g e s w) = (Inl (ValueError ''CroniterBadCronError''), w5)"
    using v assms(3,4) by (simp add: run_backup_def attempt_def advance_next_run_at_def)
  then have d: "dispatch g e s w = (i, sw_set_db (mark_run_failed (env_now e) i ''CroniterBadCronError'' (sw_db w5)) w5)"
    unfolding dispatch_eq assms(2) by simp
  have "br_status r = STATUS_FAILED" if "r \<in> set (backup_runs (mark_run_failed (env_now e) i err (sw_db w5)))" "br_id r = i" for r err
    using failed_row(1) that by blast
  then show ?thesis
    using d stored_keeps(1) [OF assms(1)] by (auto simp: started_runs set_successful)
qed

text \<open>
  The scheduler's delta backup is a full one: since the scheduler never looks up the last success, the
  bundle of a schedule of kind \<open>delta\<close> is, for the platform, the very bundle of kind \<open>full\<close>.
\<close>

theorem scheduled_delta_is_full:
  assumes "sc_service g = build_backup_service (sc_codec g) a v None" and "bs_scope s = ''platform''"
  shows "map_sum id fst (run_scheduled_export g e (s\<lparr>bs_kind := KIND_DELTA\<rparr>) w) =
     map_sum id fst (run_scheduled_export g e (s\<lparr>bs_kind := ''full''\<rparr>) w) \<and>
     (\<exists>raw w'. run_scheduled_export g e (s\<lparr>bs_kind := KIND_DELTA\<rparr>) w = Inr ((raw, None), w'))"
proof -
  have "run_delta_export c (build_backup_service c a v None) PLATFORM None None None [] now w =
      run_export c (build_backup_service c a v None) PLATFORM None None now w" for c now
    by (simp add: run_export_def run_delta_export_def in_scope_def registered delta_of_def tenants_contributor_def
        users_contributor_def settings_contributor_def secrets_contributor_def items_contributor_def audit_contributor_def)
  then show ?thesis
    using assms by (simp add: run_scheduled_export_def KIND_DELTA_def last_success_time_def export_platform_delta_def
        export_platform_def Let_def run_export_platform)
qed

subsection \<open>A concrete scheduler\<close>

definition demo_sched :: "unit sched_cfg" where
  "demo_sched = \<lparr>sc_codec = demo_codec, sc_creds = demo_creds, sc_gpg = demo_gpg,
     sc_service = build_backup_service demo_codec ''app'' ''1'' None, sc_passphrase = (\<lambda>s. Inr None),
     sc_cron = (\<lambda>x t. if x = ''@daily'' then Some (t + days 1) else None), sc_tag = ''1'', sc_fault = None,
     sc_put = (\<lambda>s b x. (Inl os_error, x)), sc_delete = (\<lambda>s l x. (Inl os_error, x))\<rparr>"

definition demo_schedule :: "string option \<Rightarrow> string \<Rightarrow> backup_schedule" where
  "demo_schedule cron sink_type =
     \<lparr>bs_id = ''s1'', bs_name = ''nightly'', bs_scope = ''platform'', bs_tenant_id = None, bs_tenant_slug = None,
      bs_sink_type = sink_type, bs_sink_config = [(''root_dir'', JStr ''/b'')], bs_cron_expr = cron, bs_next_run_at = None,
      bs_kind = ''full'', bs_retention_days = None, bs_keep_last = Some 1, bs_passphrase_override_fingerprint = None,
      bs_is_active = True, bs_managed_by = ''local'', bs_remote_id = None, bs_last_sync_at = None, bs_created_by = None,
      bs_created_at = 0, bs_updated_at = 0\<rparr>"

definition demo_sched_world :: "string option \<Rightarrow> string \<Rightarrow> unit sched_world" where
  "demo_sched_world cron sink_type = \<lparr>sw_world =
     \<lparr>w_db = empty_db\<lparr>backup_schedules := [demo_schedule cron sink_type]\<rparr>, w_fs = []\<rparr>, sw_ext = ()\<rparr>"

lemma demo_schedule_simps [simp]:
  "bs_id (demo_schedule cron t) = ''s1''" "bs_scope (demo_schedule cron t) = ''platform''" "bs_tenant_id (demo_schedule
  cron t) = None" "bs_tenant_slug (demo_schedule cron t) = None" "bs_sink_type (demo_schedule cron t) = t"
  "bs_sink_config (demo_schedule cron t) = [(''root_dir'', JStr ''/b'')]" "bs_cron_expr (demo_schedule cron t) = cron"
  "bs_next_run_at (demo_schedule cron t) = None" "bs_kind (demo_schedule cron t) = ''full''" "bs_retention_days
  (demo_schedule cron t) = None" "bs_keep_last (demo_schedule cron t) = Some 1" "bs_is_active (demo_schedule cron t) =
  True"
  by (simp_all add: demo_schedule_def)

lemma demo_sched_simps [simp]:
  "sc_codec demo_sched = demo_codec" "sc_service demo_sched = build_backup_service demo_codec ''app'' ''1'' None"
  "sc_passphrase demo_sched s = Inr None" "sc_tag demo_sched = ''1''" "sc_fault demo_sched = None"
  "sc_cron demo_sched x t = (if x = ''@daily'' then Some (t + days 1) else None)"
  by (simp_all add: demo_sched_def)

lemma demo_world_simps [simp]:
  "backup_runs (sw_db (demo_sched_world cron t)) = []" "sw_fs (demo_sched_world cron t) = []"
  "backup_schedules (sw_db (demo_sched_world cron t)) = [demo_schedule cron t]"
  by (simp_all add: demo_sched_world_def sw_db_def sw_fs_def empty_db_def)

abbreviation demo_start :: "string option \<Rightarrow> unit sched_world" where
  "demo_start cron \<equiv> started demo_sched demo_env (demo_schedule cron ''local_disk'') (demo_sched_world cron ''local_disk'')"

lemma demo_ids: "env_ids demo_env 1 = ''ix''" "env_now demo_env = 1000" "env_ids demo_env (Suc 0) = ''ix''"
  by (simp_all add: demo_env_def)

lemma demo_stored:
  "\<exists>b res w5. stored demo_sched demo_env (demo_schedule cron ''local_disk'') ''ix'' (LocalDisk ''/b'') b res (demo_start cron) w5 \<and>
     sw_locator res = ''app/platform/20260101T000000Z-full.tar.gz''"
proof -
  let ?s = "demo_schedule cron ''local_disk''"
  obtain raw v where v: "run_scheduled_export demo_sched demo_env ?s (sw_world (demo_start cron)) = Inr ((raw, None), v)"
    by (simp add: run_scheduled_export_def export_platform_def run_export_platform
        KIND_DELTA_def Let_def)
  let ?b = "scheduled_blob demo_sched demo_env ?s None (raw, None)"
  have name: "default_filename demo_codec ?b = ''app/platform/20260101T000000Z-full.tar.gz''"
    by (simp add: default_filename_def filename_parts_def snapshot_name_def scheduled_blob_def demo_codec_def
        build_backup_service_def register_def truthy_str_def)
  obtain res f where put: "local_put demo_codec ''/b'' ''1'' None ?b [] = (Inr res, f)"
    and loc: "sw_locator res = ''app/platform/20260101T000000Z-full.tar.gz''"
    by (simp add: local_put_def name demo_target Let_def write_step_def write_file_def replace_file_def
        is_dir_def under_file_def dict_set_def dict_pop_def sibling_def sidecar_of_eq)
  have "w_fs v = []"
    using scheduled_export_keeps(3) [OF v] by (simp add: started_def sw_set_db_def set_db_def demo_sched_world_def)
  then have "sink_put demo_sched (LocalDisk ''/b'') ?b ((demo_start cron)\<lparr>sw_world := v\<rparr>) =
      (Inr res, sw_set_fs f ((demo_start cron)\<lparr>sw_world := v\<rparr>))"
    using put by simp
  moreover have "seal demo_sched ?s raw = Inr (raw, None)" by (simp add: seal_def truthy_str_def)
  moreover have "build_sink_from_config (bs_sink_type ?s) (bs_sink_config ?s) = Inr (LocalDisk ''/b'')"
    by (simp add: build_sink_from_config_def json_or_def)
  ultimately show ?thesis using v loc unfolding stored_def by blast
qed

lemma demo_runs:
  assumes "stored demo_sched demo_env (demo_schedule cron ''local_disk'') ''ix'' snk b res (demo_start cron) w5"
  shows "\<exists>r. backup_runs (sw_db w5) = [r] \<and> br_id r = ''ix'' \<and> br_schedule_id r = Some ''s1'' \<and> br_created_at r = 1000"
  unfolding stored_keeps(2) [OF assms] mark_run_success_def change_run_def started_def mark_run_status_def mark_run_pending_def
  by (simp add: update_by_def update_where_def add_row_def pending_run_def demo_ids)

text \<open>A daily schedule that keeps one snapshot: the run succeeds and its row and snapshot stay.\<close>

lemma demo_success:
  "\<exists>w' r. dispatch demo_sched demo_env (demo_schedule cron ''local_disk'') (demo_sched_world cron ''local_disk'') = (''ix'', w') \<and>
     backup_runs (sw_db w') = [r] \<and> br_id r = ''ix'' \<and> br_status r = STATUS_SUCCESS \<and>
     br_sink_locator r = Some ''app/platform/20260101T000000Z-full.tar.gz''"
  if cron: "cron = None \<or> cron = Some ''@daily''"
proof -
  let ?s = "demo_schedule cron ''local_disk''"
  obtain b res w5 where st: "stored demo_sched demo_env ?s ''ix'' (LocalDisk ''/b'') b res (demo_start cron) w5"
    and loc: "sw_locator res = ''app/platform/20260101T000000Z-full.tar.gz''" using demo_stored by blast
  obtain r where r: "backup_runs (sw_db w5) = [r]" "br_id r = ''ix''" "br_schedule_id r = Some ''s1''" using demo_runs [OF st] by blast
  then have rs: "r \<in> set (backup_runs (sw_db w5))" by simp
  note row = stored_row [OF st rs r(2)]
  obtain w6 where adv: "advance_next_run_at demo_sched demo_env ?s w5 = (Inr (), w6)"
    using cron by (auto simp: advance_next_run_at_def truthy_str_def)
  have w6: "backup_runs (sw_db w6) = [r]" using advance_keeps(1) [OF adv] r(1) by simp
  have "expired_runs ?s None (sw_db w6) = []"
    by (simp add: expired_runs_def successful_runs_def w6 kept_ids_def int_true_def sort_desc_def py_take_def)
  then have "prune demo_sched demo_env ?s (LocalDisk ''/b'') w6 = (Inr (), w6)"
    by (simp add: prune_def int_true_def)
  then have "run_backup demo_sched demo_env ?s ''ix'' (demo_start cron) = (Inr (), w6)"
    using st adv unfolding stored_def run_backup_def
    by (auto simp: attempt_def int_true_def)
  then show ?thesis
    using r w6 row loc unfolding dispatch_eq demo_ids(1,2) by simp
qed

theorem scheduled_snapshot_stored_witness:
  "\<exists>w' data. dispatch demo_sched demo_env (demo_schedule None ''local_disk'') (demo_sched_world None ''local_disk'') = (''ix'', w') \<and>
     local_get ''/b'' ''app/platform/20260101T000000Z-full.tar.gz'' (sw_fs w') = Inr data"
proof -
  obtain w' r where d: "dispatch demo_sched demo_env (demo_schedule None ''local_disk'') (demo_sched_world None ''local_disk'') = (''ix'', w')"
    and r: "r \<in> set (backup_runs (sw_db w'))" "br_id r = ''ix''" "br_status r = STATUS_SUCCESS"
      "br_sink_locator r = Some ''app/platform/20260101T000000Z-full.tar.gz''"
    using demo_success [of None] by auto
  have "build_sink_from_config (bs_sink_type (demo_schedule None ''local_disk'')) (bs_sink_config (demo_schedule None ''local_disk'')) =
      Inr (LocalDisk ''/b'')"
    by (simp add: build_sink_from_config_def json_or_def)
  from scheduled_snapshot_stored [OF d r(1-3) this r(4) demo_snap] d show ?thesis
    by auto
qed

theorem dispatch_settles_witness:
  "\<exists>w' r. dispatch demo_sched demo_env (demo_schedule None ''local_disk'') (demo_sched_world None ''local_disk'') = (''ix'', w') \<and>
     backup_runs (sw_db w') = [r] \<and> br_status r \<in> {STATUS_SUCCESS, STATUS_FAILED}"
proof -
  obtain w' r where d: "dispatch demo_sched demo_env (demo_schedule None ''local_disk'') (demo_sched_world None ''local_disk'') = (''ix'', w')"
    and r: "backup_runs (sw_db w') = [r]" "br_id r = ''ix''" using demo_success [of None] by auto
  show ?thesis using dispatch_settles [OF d, of r] r d by auto
qed

theorem one_shot_runs_once_witness:
  "\<exists>w'. dispatch demo_sched demo_env (demo_schedule None ''local_disk'') (demo_sched_world None ''local_disk'') = (''ix'', w') \<and>
     ''s1'' \<notin> bs_id ` set (due_schedules 99999 (sw_db w'))"
proof -
  obtain w' r where d: "dispatch demo_sched demo_env (demo_schedule None ''local_disk'') (demo_sched_world None ''local_disk'') = (''ix'', w')"
    and r: "r \<in> set (backup_runs (sw_db w'))" "br_id r = ''ix''" "br_status r = STATUS_SUCCESS"
    using demo_success [of None] by auto
  have none: "\<not> truthy_str (bs_cron_expr (demo_schedule None ''local_disk''))" "bs_id (demo_schedule None ''local_disk'') = ''s1''"
    by (simp_all add: truthy_str_def)
  show ?thesis using one_shot_runs_once [OF d r none(1), of 99999] d unfolding none(2) by blast
qed

text \<open>A schedule whose sink type the scheduler does not know fails, and stays due.\<close>

theorem failed_run_retried_witness:
  "\<exists>w'. dispatch demo_sched demo_env (demo_schedule None ''download'') (demo_sched_world None ''download'') = (''ix'', w') \<and>
     demo_schedule None ''download'' \<in> set (due_schedules 5000 (sw_db w'))"
proof -
  let ?s = "demo_schedule None ''download''"
  obtain raw v where v: "run_scheduled_export demo_sched demo_env ?s (sw_world (started demo_sched demo_env ?s (demo_sched_world None ''download''))) = Inr ((raw, None), v)"
    by (simp add: run_scheduled_export_def export_platform_def run_export_platform
        KIND_DELTA_def Let_def)
  have "run_backup demo_sched demo_env ?s ''ix'' (started demo_sched demo_env ?s (demo_sched_world None ''download'')) =
      (Inl (ValueError ''unsupported sink_type for scheduler: download''),
       (started demo_sched demo_env ?s (demo_sched_world None ''download''))\<lparr>sw_world := v\<rparr>)"
    by (simp add: run_backup_def v attempt_def seal_def truthy_str_def build_sink_from_config_def)
  then obtain w' err where d: "dispatch demo_sched demo_env ?s (demo_sched_world None ''download'') = (''ix'', w')"
    and w': "backup_runs (sw_db w') = backup_runs (mark_run_failed 1000 ''ix'' err (w_db v))"
    unfolding dispatch_eq demo_ids(1,2) by simp
  have "backup_runs (w_db v) = backup_runs (sw_db (started demo_sched demo_env ?s (demo_sched_world None ''download'')))"
    using scheduled_export_keeps(1) [OF v] by (simp add: sw_db_def)
  then obtain r where r: "r \<in> set (backup_runs (sw_db w'))" "br_id r = ''ix''"
    unfolding w' mark_run_failed_def change_run_def started_def mark_run_status_def mark_run_pending_def
    by (simp add: update_by_def update_where_def add_row_def pending_run_def demo_ids)
  have "br_status r = STATUS_FAILED" using r failed_row(1) unfolding w' by blast
  from failed_run_retried [OF d r this, of ?s 1000 5000] d show ?thesis
    by (auto simp: due_schedules_def)
qed

theorem prune_keeps_exactly_witness:
  "\<exists>w'. prune demo_sched demo_env (demo_schedule None ''local_disk'') (LocalDisk ''/b'') (demo_sched_world None ''local_disk'') = (Inr (), w') \<and>
     backup_runs (sw_db w') = []"
proof -
  let ?s = "demo_schedule None ''local_disk''"
  have keep: "int_true (bs_retention_days ?s) \<or> int_true (bs_keep_last ?s)" by (simp add: int_true_def)
  have dist: "distinct (map br_id (backup_runs (sw_db (demo_sched_world None ''local_disk''))))"
    by simp
  obtain w' where p: "prune demo_sched demo_env ?s (LocalDisk ''/b'') (demo_sched_world None ''local_disk'') = (Inr (), w')"
    by (simp add: prune_def int_true_def)
  from prune_keeps_exactly [OF dist keep p] p show ?thesis by simp
qed

theorem scheduled_delta_is_full_witness:
  "\<exists>raw w'. run_scheduled_export demo_sched demo_env ((demo_schedule None ''local_disk'')\<lparr>bs_kind := KIND_DELTA\<rparr>)
     (sw_world (demo_sched_world None ''local_disk'')) = Inr ((raw, None), w')"
  by (rule scheduled_delta_is_full [of demo_sched "''app''" "''1''", THEN conjunct2])
    simp_all

end
