(* ===== verification/Brand.thy ===== *)
theory Brand
  imports PyStr Prelude
begin

section \<open>The brand\<close>

text \<open>
  \<open>core/brand.py\<close>: the names a deployment derives its paths, variables and units from, read once from the
  environment (a map from variable names to values).
\<close>

record brand_config =
  framework_name :: string
  family_name :: string
  orchestrator_name :: string
  infra_worker_name :: string
  infra_worker_url :: string
  domain_root :: string
  framework_repo_url :: string
  display_name :: string

definition environ_get :: "(string \<rightharpoonup> string) \<Rightarrow> string \<Rightarrow> string \<Rightarrow> string" where
  "environ_get env k dflt = (case env k of None \<Rightarrow> dflt | Some v \<Rightarrow> v)"

definition str_or :: "string \<Rightarrow> string \<Rightarrow> string" where
  "str_or s dflt = (if s = [] then dflt else s)"

definition brand_from_env :: "(string \<rightharpoonup> string) \<Rightarrow> brand_config" where
  "brand_from_env env =
     (let name = (\<lambda>k dflt. py_lower (py_strip (environ_get env k dflt)));
          text_of = (\<lambda>k dflt. py_strip (environ_get env k dflt))
      in \<lparr>framework_name = str_or (name ''BRAND_FRAMEWORK_NAME'' ''scottycore'') ''scottycore'',
          family_name = str_or (name ''BRAND_FAMILY_NAME'' ''scotty'') ''scotty'',
          orchestrator_name = str_or (name ''BRAND_ORCHESTRATOR_NAME'' ''scottydev'') ''scottydev'',
          infra_worker_name = name ''BRAND_INFRA_WORKER_NAME'' ''scottylab'',
          infra_worker_url = text_of ''BRAND_INFRA_WORKER_URL'' '''',
          domain_root = str_or (name ''BRAND_DOMAIN_ROOT'' ''scotty.consulting'') ''scotty.consulting'',
          framework_repo_url = str_or (text_of ''BRAND_FRAMEWORK_REPO_URL'' ''https://github.com/scrampker/scottycore.git'')
            ''https://github.com/scrampker/scottycore.git'',
          display_name = str_or (text_of ''BRAND_DISPLAY_NAME'' ''Scotty'') ''Scotty''\<rparr>)"

definition config_dir :: "brand_config \<Rightarrow> string" where
  "config_dir b = ''/etc/'' @ framework_name b"

definition apps_root :: "brand_config \<Rightarrow> string" where
  "apps_root b = ''/opt/'' @ framework_name b"

definition data_dir_env_var :: "brand_config \<Rightarrow> string" where
  "data_dir_env_var b = py_upper (framework_name b) @ ''_DATA_DIR''"

definition systemd_unit_prefix :: "brand_config \<Rightarrow> string" where
  "systemd_unit_prefix b = framework_name b @ ''-update-check''"

definition systemd_app_unit_prefix :: "brand_config \<Rightarrow> string" where
  "systemd_app_unit_prefix b = framework_name b @ ''-app-update-check''"

definition update_mode_path :: "brand_config \<Rightarrow> string" where
  "update_mode_path b = config_dir b @ ''/update-mode''"

definition update_setting_key_mode :: "brand_config \<Rightarrow> string" where
  "update_setting_key_mode b = framework_name b @ ''.update.mode''"

definition update_setting_key_pending :: "brand_config \<Rightarrow> string" where
  "update_setting_key_pending b = framework_name b @ ''.update.pending''"

definition rebuild_flag_filename :: "brand_config \<Rightarrow> string" where
  "rebuild_flag_filename b = ''.'' @ framework_name b @ ''-auto-update-requested''"

definition has_infra_worker :: "brand_config \<Rightarrow> bool" where
  "has_infra_worker b \<longleftrightarrow> infra_worker_url b \<noteq> []"

definition infra_worker_fqdn_default :: "brand_config \<Rightarrow> string" where
  "infra_worker_fqdn_default b =
     (if infra_worker_name b = [] then '''' else infra_worker_name b @ ''.'' @ domain_root b)"

definition orchestrator_fqdn_default :: "brand_config \<Rightarrow> string" where
  "orchestrator_fqdn_default b = orchestrator_name b @ ''.'' @ domain_root b"

text \<open>Whatever the environment holds, the names the paths are built from are non-empty, lower case and
  have no blanks around them.\<close>

definition clean_name :: "string \<Rightarrow> bool" where
  "clean_name s \<longleftrightarrow> s \<noteq> [] \<and> py_lower s = s \<and> py_strip s = s"

lemma clean_str_or: "clean_name d \<Longrightarrow> clean_name (str_or (py_lower (py_strip s)) d)"
  by (auto simp: str_or_def clean_name_def strip_lower)

lemma clean_defaults: "clean_name ''scottycore''" "clean_name ''scotty''" "clean_name ''scottydev''" "clean_name ''scotty.consulting''"
  by code_simp+

lemma brand_names_clean:
  "clean_name (framework_name (brand_from_env env))" "clean_name (family_name (brand_from_env env))"
  "clean_name (orchestrator_name (brand_from_env env))" "clean_name (domain_root (brand_from_env env))"
  by (simp_all add: brand_from_env_def Let_def clean_str_or clean_defaults)

end
