(* ===== verification/BackupApi.thy ===== *)
theory BackupApi
  imports Scheduler CoreAuth Brand
begin

section \<open>The backup endpoints\<close>

text \<open>
  \<open>api/v1/backup.py\<close>: export to a sink or to the browser, restore from a sink or an upload, the tables of runs
  and schedules, and the store that receives the backups of other applications.  An \<open>HTTPException\<close> is the
  \<open>AppError\<close> with its status and detail.  The endpoints use the parameters of the scheduler's \<open>sched_cfg\<close>;
  reading from a sink that is not on the local disk is the field \<open>ap_get\<close>.
\<close>

definition http_exception :: "int \<Rightarrow> string \<Rightarrow> error" where
  "http_exception status detail = AppError detail status"

record 'x api_cfg =
  ap_sched :: "'x sched_cfg"
  ap_get :: "sink \<Rightarrow> string \<Rightarrow> 'x \<Rightarrow> error + string"
  ap_brand :: brand_config

record export_request =
  er_scope :: backup_scope
  er_tenant_slug :: "string option"
  er_sink_type :: string
  er_sink_config :: row_dict
  er_passphrase :: "string option"

record export_response =
  ex_locator :: string
  ex_sink_type :: string
  ex_size :: int
  ex_sha256 :: string
  ex_encrypted :: bool
  ex_key_fingerprint :: "string option"

record restore_request =
  rr_sink_type :: string
  rr_locator :: string
  rr_sink_config :: row_dict
  rr_passphrase :: "string option"

record schedule_create =
  sc_name :: string
  sc_scope :: backup_scope
  sc_tenant_slug :: "string option"
  sc_sink_type :: string
  sc_sink_config :: row_dict
  sc_cron_expr :: "string option"
  sc_kind :: string
  sc_retention_days :: "int option"
  sc_keep_last :: "int option"

subsection \<open>Sinks of a request\<close>

fun as_http_400 :: "error + 'a \<Rightarrow> error + 'a" where
  "as_http_400 (Inl (ValueError m)) = Inl (http_exception 400 m)"
| "as_http_400 r = r"

definition build_sink :: "string \<Rightarrow> row_dict \<Rightarrow> error + sink option" where
  \<comment> \<open>\<open>None\<close> is the download sink.\<close>
  "build_sink sink_type config =
     (let some = (\<lambda>r. case r of Inl x \<Rightarrow> Inl x | Inr s \<Rightarrow> Inr (Some s))
      in if sink_type = ''download'' then Inr None
         else if sink_type = ''local_disk'' then some (build_sink_from_config ''local_disk'' config)
         else if sink_type = ''scottydev'' then some (as_http_400 (scottydev_sink config))
         else if sink_type = ''git_repo'' then some (as_http_400 (git_sink config))
         else Inl (http_exception 400 (''unsupported sink_type: '' @ sink_type)))"

definition api_put ::
  "'x api_cfg \<Rightarrow> sink option \<Rightarrow> backup_blob \<Rightarrow> 'x sched_world \<Rightarrow> (error + sink_write_result) \<times> 'x sched_world" where
  "api_put g s b w =
     (case s of
        None \<Rightarrow> (case download_put (sc_codec (ap_sched g)) b None of Inl x \<Rightarrow> (Inl x, w) | Inr (r, _) \<Rightarrow> (Inr r, w))
      | Some snk \<Rightarrow> sink_put (ap_sched g) snk b w)"

definition api_get :: "'x api_cfg \<Rightarrow> sink option \<Rightarrow> string \<Rightarrow> 'x sched_world \<Rightarrow> error + string" where
  "api_get g s l w =
     (case s of
        None \<Rightarrow> download_get l None
      | Some (LocalDisk root) \<Rightarrow> local_get root l (sw_fs w)
      | Some snk \<Rightarrow> ap_get g snk l (sw_ext w))"

definition blob_from_bytes ::
  "'x api_cfg \<Rightarrow> env \<Rightarrow> string \<Rightarrow> backup_scope \<Rightarrow> string option \<Rightarrow> bool \<Rightarrow> string option \<Rightarrow> backup_blob" where
  "blob_from_bytes g e data scope tenant_slug encrypted key_fp =
     \<lparr>bb_data = data, bb_sha256 = cr_sha256_hex (sc_creds (ap_sched g)) data, bb_size = int (length data),
      bb_app_slug = svc_app_name (sc_service (ap_sched g)), bb_scope = scope_value scope, bb_kind = ''full'',
      bb_created_at = env_now e, bb_encrypted = encrypted, bb_key_fingerprint = key_fp,
      bb_tenant_slug = tenant_slug, bb_metadata = []\<rparr>"

subsection \<open>Export\<close>

definition api_bundle ::
  "'x api_cfg \<Rightarrow> env \<Rightarrow> export_request \<Rightarrow> user_context \<Rightarrow> string \<Rightarrow> world \<Rightarrow> error + ((string \<times> string option) \<times> world)" where
  \<comment> \<open>The common beginning of both export endpoints.\<close>
  "api_bundle g e payload user ip w =
     (let c = sc_codec (ap_sched g); svc = sc_service (ap_sched g)
      in if er_scope payload = PLATFORM then
           (case export_platform c svc e (uctx_user_id user) ip w of
              Inl x \<Rightarrow> Inl x | Inr (b, w') \<Rightarrow> Inr ((b, None), w'))
         else if \<not> truthy_str (er_tenant_slug payload)
         then Inl (http_exception 400 ''tenant_slug is required for TENANT scope'')
         else case get_by te_slug (the (er_tenant_slug payload)) (tenants (w_db w)) of
           None \<Rightarrow> Inl (http_exception 404 ''tenant not found'')
         | Some t \<Rightarrow>
             (case export_tenant c svc e (te_id t) (te_slug t) (uctx_user_id user) ip w of
                Inl x \<Rightarrow> Inl x | Inr (b, w') \<Rightarrow> Inr ((b, Some (te_slug t)), w')))"

definition api_encrypt :: "'x api_cfg \<Rightarrow> string option \<Rightarrow> string \<Rightarrow> error + (string \<times> string option)" where
  "api_encrypt g passphrase raw =
     (if truthy_str passphrase
      then (case encrypt_bundle (sc_gpg (ap_sched g)) raw (the passphrase) of
              Inl x \<Rightarrow> Inl x | Inr c \<Rightarrow> Inr (c, Some (fingerprint (sc_creds (ap_sched g)) (the passphrase))))
      else Inr (raw, None))"

definition export_run ::
  "'x api_cfg \<Rightarrow> env \<Rightarrow> string \<Rightarrow> backup_blob \<Rightarrow> sink_write_result \<Rightarrow> backup_run" where
  "export_run g e sink_type blob result =
     \<lparr>br_id = env_ids e 1, br_schedule_id = None, br_app_slug = bb_app_slug blob, br_scope = bb_scope blob,
      br_tenant_slug = bb_tenant_slug blob, br_kind = ''full'', br_status = ''success'', br_sink_type = sink_type,
      br_sink_locator = Some (sw_locator result), br_bytes_written = Some (sw_bytes_written result),
      br_sha256 = Some (bb_sha256 blob), br_encrypted = bb_encrypted blob, br_key_fingerprint = bb_key_fingerprint blob,
      br_started_at = Some (bb_created_at blob), br_finished_at = Some (env_now e), br_error = None,
      br_managed_by = ''local'', br_created_at = env_now e, br_updated_at = env_now e\<rparr>"

definition export_ep ::
  "'x api_cfg \<Rightarrow> env \<Rightarrow> export_request \<Rightarrow> user_context \<Rightarrow> string \<Rightarrow> 'x sched_world \<Rightarrow> (error + export_response) \<times> 'x sched_world" where
  "export_ep g e payload user ip w =
     (case require_superadmin user of
        Inl x \<Rightarrow> (Inl x, w)
      | Inr _ \<Rightarrow>
          attempt (case api_bundle g e payload user ip (sw_world w) of
                     Inl x \<Rightarrow> (Inl x, w) | Inr (b, v) \<Rightarrow> (Inr b, w\<lparr>sw_world := v\<rparr>)) (\<lambda>(raw, tenant_slug) w1.
          attempt (api_encrypt g (er_passphrase payload) raw, w1) (\<lambda>(data, key_fp) w2.
          let blob = blob_from_bytes g e data (er_scope payload) tenant_slug (truthy_str (er_passphrase payload)) key_fp
          in attempt (build_sink (er_sink_type payload) (er_sink_config payload), w2) (\<lambda>snk w3.
             attempt (api_put g snk blob w3) (\<lambda>res w4.
               (Inr \<lparr>ex_locator = sw_locator res, ex_sink_type = er_sink_type payload, ex_size = bb_size blob,
                     ex_sha256 = bb_sha256 blob, ex_encrypted = bb_encrypted blob, ex_key_fingerprint = key_fp\<rparr>,
                sw_set_db ((sw_db w4)\<lparr>backup_runs := add_row (export_run g e (er_sink_type payload) blob res)
                   (backup_runs (sw_db w4))\<rparr>) w4))))))"

definition export_download ::
  "'x api_cfg \<Rightarrow> env \<Rightarrow> export_request \<Rightarrow> user_context \<Rightarrow> string \<Rightarrow> 'x sched_world \<Rightarrow>
   (error + (string \<times> string)) \<times> 'x sched_world" where
  \<comment> \<open>The file name of the response and its content.\<close>
  "export_download g e payload user ip w =
     (case require_superadmin user of
        Inl x \<Rightarrow> (Inl x, w)
      | Inr _ \<Rightarrow>
          attempt (case api_bundle g e payload user ip (sw_world w) of
                     Inl x \<Rightarrow> (Inl x, w) | Inr (b, v) \<Rightarrow> (Inr b, w\<lparr>sw_world := v\<rparr>)) (\<lambda>(raw, tenant_slug) w1.
          attempt (api_encrypt g (er_passphrase payload) raw, w1) (\<lambda>(data, _) w2.
            (Inr (svc_app_name (sc_service (ap_sched g)) @ ''-'' @
                  (case tenant_slug of None \<Rightarrow> scope_value (er_scope payload) | Some s \<Rightarrow> ''tenant-'' @ s) @ ''-'' @
                  cd_stamp (sc_codec (ap_sched g)) (env_now e) @
                  (if truthy_str (er_passphrase payload) then ''.tar.gz.gpg'' else ''.tar.gz''), data), w2))))"

subsection \<open>Restore\<close>

definition sink_http_error :: "error \<Rightarrow> error" where
  \<comment> \<open>\<open>SinkNotFoundError\<close> is 404, any other \<open>SinkError\<close> 502; other exceptions pass.\<close>
  "sink_http_error x =
     (case x of
        OtherException m \<Rightarrow>
          if starts_with ''SinkNotFoundError: '' m then http_exception 404 (drop 19 m)
          else if starts_with ''SinkError: '' m then http_exception 502 (drop 11 m) else x
      | _ \<Rightarrow> x)"

definition api_decrypt :: "'x api_cfg \<Rightarrow> string option \<Rightarrow> string \<Rightarrow> error + string" where
  "api_decrypt g passphrase data =
     (if truthy_str passphrase
      then (case decrypt_bundle (sc_gpg (ap_sched g)) data (the passphrase) of
              Inl x \<Rightarrow> Inl (http_exception 400 (''decrypt failed: '' @ err_message x)) | Inr d \<Rightarrow> Inr d)
      else Inr data)"

definition bundle_http_error :: "error \<Rightarrow> error" where
  "bundle_http_error x =
     (case x of ValueError m \<Rightarrow> if starts_with ''bundle schema_version='' m then http_exception 409 m else x | _ \<Rightarrow> x)"

definition restore_data ::
  "'x api_cfg \<Rightarrow> env \<Rightarrow> string \<Rightarrow> string option \<Rightarrow> user_context \<Rightarrow> string \<Rightarrow> 'x sched_world \<Rightarrow>
   (error + restore_summary) \<times> 'x sched_world" where
  "restore_data g e data passphrase user ip w =
     (case api_decrypt g passphrase data of
        Inl x \<Rightarrow> (Inl x, w)
      | Inr raw \<Rightarrow>
          (case restore_bundle (sc_codec (ap_sched g)) (framework_name (ap_brand g)) (sc_service (ap_sched g)) e raw
                  (uctx_user_id user) ip (sw_world w) of
             (Inl x, v) \<Rightarrow> (Inl (bundle_http_error x), w\<lparr>sw_world := v\<rparr>)
           | (Inr s, v) \<Rightarrow> (Inr s, w\<lparr>sw_world := v\<rparr>)))"

definition restore_ep ::
  "'x api_cfg \<Rightarrow> env \<Rightarrow> restore_request \<Rightarrow> user_context \<Rightarrow> string \<Rightarrow> 'x sched_world \<Rightarrow>
   (error + restore_summary) \<times> 'x sched_world" where
  "restore_ep g e payload user ip w =
     (case require_superadmin user of
        Inl x \<Rightarrow> (Inl x, w)
      | Inr _ \<Rightarrow>
          (case build_sink (rr_sink_type payload) (rr_sink_config payload) of
             Inl x \<Rightarrow> (Inl x, w)
           | Inr snk \<Rightarrow>
               (case api_get g snk (rr_locator payload) w of
                  Inl x \<Rightarrow> (Inl (sink_http_error x), w)
                | Inr data \<Rightarrow> restore_data g e data (rr_passphrase payload) user ip w)))"

definition restore_upload ::
  "'x api_cfg \<Rightarrow> env \<Rightarrow> string \<Rightarrow> string option \<Rightarrow> user_context \<Rightarrow> string \<Rightarrow> 'x sched_world \<Rightarrow>
   (error + restore_summary) \<times> 'x sched_world" where
  "restore_upload g e data passphrase user ip w =
     (case require_superadmin user of Inl x \<Rightarrow> (Inl x, w) | Inr _ \<Rightarrow> restore_data g e data passphrase user ip w)"

subsection \<open>Runs and schedules\<close>

definition list_contributors_ep :: "'x api_cfg \<Rightarrow> backup_scope option \<Rightarrow> user_context \<Rightarrow> error + contributor_info list" where
  "list_contributors_ep g scope user =
     (case require_superadmin user of Inl x \<Rightarrow> Inl x | Inr _ \<Rightarrow> Inr (list_contributors scope (sc_service (ap_sched g))))"

definition list_runs :: "int \<Rightarrow> string option \<Rightarrow> user_context \<Rightarrow> db \<Rightarrow> error + backup_run list" where
  "list_runs lim schedule_id user d =
     (case require_superadmin user of
        Inl x \<Rightarrow> Inl x
      | Inr _ \<Rightarrow> Inr (sql_limit lim (sort_desc br_created_at
          (filter (\<lambda>r. truthy_str schedule_id \<longrightarrow> br_schedule_id r = schedule_id) (backup_runs d)))))"

definition list_schedules :: "string option \<Rightarrow> user_context \<Rightarrow> db \<Rightarrow> error + backup_schedule list" where
  "list_schedules managed_by user d =
     (case require_superadmin user of
        Inl x \<Rightarrow> Inl x
      | Inr _ \<Rightarrow> Inr (sort_desc bs_created_at
          (filter (\<lambda>s. truthy_str managed_by \<longrightarrow> Some (bs_managed_by s) = managed_by) (backup_schedules d))))"

definition new_schedule :: "env \<Rightarrow> schedule_create \<Rightarrow> user_context \<Rightarrow> backup_schedule" where
  "new_schedule e payload user =
     \<lparr>bs_id = env_ids e 1, bs_name = sc_name payload, bs_scope = scope_value (sc_scope payload), bs_tenant_id = None,
      bs_tenant_slug = sc_tenant_slug payload, bs_sink_type = sc_sink_type payload,
      bs_sink_config = sc_sink_config payload, bs_cron_expr = sc_cron_expr payload, bs_next_run_at = None,
      bs_kind = sc_kind payload, bs_retention_days = sc_retention_days payload, bs_keep_last = sc_keep_last payload,
      bs_passphrase_override_fingerprint = None, bs_is_active = True, bs_managed_by = ''local'', bs_remote_id = None,
      bs_last_sync_at = None, bs_created_by = Some (uctx_user_id user), bs_created_at = env_now e,
      bs_updated_at = env_now e\<rparr>"

definition create_schedule ::
  "env \<Rightarrow> schedule_create \<Rightarrow> user_context \<Rightarrow> db \<Rightarrow> error + (backup_schedule \<times> db)" where
  "create_schedule e payload user d =
     (case require_superadmin user of
        Inl x \<Rightarrow> Inl x
      | Inr _ \<Rightarrow> let row = new_schedule e payload user
          in Inr (row, d\<lparr>backup_schedules := add_row row (backup_schedules d)\<rparr>))"

definition orchestrator_label :: "brand_config \<Rightarrow> string" where
  "orchestrator_label b =
     (if orchestrator_name b = family_name b @ ''dev'' then display_name b @ ''Dev'' else orchestrator_name b)"

definition delete_schedule :: "brand_config \<Rightarrow> string \<Rightarrow> user_context \<Rightarrow> db \<Rightarrow> error + db" where
  "delete_schedule b schedule_id user d =
     (case require_superadmin user of
        Inl x \<Rightarrow> Inl x
      | Inr _ \<Rightarrow>
          (case get_by bs_id schedule_id (backup_schedules d) of
             None \<Rightarrow> Inl (http_exception 404 ''schedule not found'')
           | Some row \<Rightarrow>
               if bs_managed_by row \<noteq> ''local''
               then Inl (http_exception 409 (''schedule is managed by '' @ orchestrator_label b @ '' - detach or promote before delete''))
               else Inr (d\<lparr>backup_schedules := delete_by bs_id schedule_id (backup_schedules d)\<rparr>)))"

subsection \<open>The store for other applications\<close>

definition path_text :: "path \<Rightarrow> string" where
  "path_text p = CHR ''/'' # join_with ''/'' p"

definition store_target :: "string \<Rightarrow> string \<Rightarrow> error + path" where
  \<comment> \<open>The confinement check compares the texts of the paths.\<close>
  "store_target root rest =
     (let target = norm_path (join_path (local_root root) rest)
      in if \<not> starts_with (path_text (local_root root)) (path_text target)
         then Inl (http_exception 400 ''path escapes store root'') else Inr target)"

definition sink_store_put :: "string \<Rightarrow> string \<Rightarrow> string \<Rightarrow> user_context \<Rightarrow> fs \<Rightarrow> error + fs" where
  "sink_store_put root rest body user f =
     (case require_superadmin user of
        Inl x \<Rightarrow> Inl x
      | Inr _ \<Rightarrow> (case store_target root rest of Inl x \<Rightarrow> Inl x | Inr p \<Rightarrow> write_file p body f))"

definition sink_store_get :: "string \<Rightarrow> string \<Rightarrow> user_context \<Rightarrow> fs \<Rightarrow> error + string" where
  "sink_store_get root rest user f =
     (case require_superadmin user of
        Inl x \<Rightarrow> Inl x
      | Inr _ \<Rightarrow>
          (case store_target root rest of
             Inl x \<Rightarrow> Inl x
           | Inr p \<Rightarrow> (case map_of f p of None \<Rightarrow> Inl (http_exception 404 ''not found'') | Some data \<Rightarrow> Inr data)))"

definition sink_store_delete :: "string \<Rightarrow> string \<Rightarrow> user_context \<Rightarrow> fs \<Rightarrow> error + fs" where
  "sink_store_delete root rest user f =
     (case require_superadmin user of
        Inl x \<Rightarrow> Inl x
      | Inr _ \<Rightarrow>
          (case store_target root rest of
             Inl x \<Rightarrow> Inl x
           | Inr p \<Rightarrow>
               if map_of f p = None then Inl (http_exception 404 ''not found'')
               else let f' = unlink_file p f
                 in Inr (if map_of f' (sidecar_of p) \<noteq> None then unlink_file (sidecar_of p) f' else f')))"

definition index_entry :: "codec \<Rightarrow> path \<Rightarrow> string option \<Rightarrow> string option \<Rightarrow> fs \<Rightarrow> path \<times> string \<Rightarrow> error + row_dict option" where
  \<comment> \<open>The keys of the sidecar override the locator.\<close>
  "index_entry c root app_slug tenant_slug f pd =
     (let (p, raw) = pd; b = butlast p @ [take (length (last p) - length meta_suffix) (last p)];
          missing = (map_of f b = None \<and> \<not> is_dir b f)
      in case cd_loads c raw of
        None \<Rightarrow> Inr None
      | Some (JObj meta) \<Rightarrow>
          if truthy_str app_slug \<and> map_of meta ''app_slug'' \<noteq> Some (JStr (the app_slug)) then Inr None
          else if truthy_str tenant_slug \<and> map_of meta ''tenant_slug'' \<noteq> Some (JStr (the tenant_slug)) then Inr None
          else if missing then Inr None
          else Inr (Some (dict_update [(''locator'', JStr (join_with ''/'' (drop (length root) b)))] meta))
      | Some _ \<Rightarrow> if truthy_str app_slug \<or> truthy_str tenant_slug then Inl (OtherException ''AttributeError: get'')
                   else if missing then Inr None
                   else Inl (TypeError ''object is not a mapping''))"

fun collect_index :: "(path \<times> string \<Rightarrow> error + row_dict option) \<Rightarrow> (path \<times> string) list \<Rightarrow> error + row_dict list" where
  "collect_index h [] = Inr []"
| "collect_index h (x # xs) =
     (case h x of
        Inl y \<Rightarrow> Inl y
      | Inr s \<Rightarrow> (case collect_index h xs of
          Inl y \<Rightarrow> Inl y | Inr out \<Rightarrow> Inr (case s of None \<Rightarrow> out | Some r \<Rightarrow> r # out)))"

fun json_text_of :: "json \<Rightarrow> string option" where
  "json_text_of (JStr s) = Some s"
| "json_text_of _ = None"

definition index_key :: "row_dict \<Rightarrow> json" where
  "index_key r = (case map_of r ''created_at'' of None \<Rightarrow> JStr '''' | Some j \<Rightarrow> j)"

definition sink_store_index ::
  "codec \<Rightarrow> string \<Rightarrow> string option \<Rightarrow> string option \<Rightarrow> user_context \<Rightarrow> fs \<Rightarrow> error + row_dict list" where
  \<comment> \<open>Two entries whose creation times are not both texts do not compare.\<close>
  "sink_store_index c root app_slug tenant_slug user f =
     (case require_superadmin user of
        Inl x \<Rightarrow> Inl x
      | Inr _ \<Rightarrow>
          (let r = local_root root;
               sidecars = filter (\<lambda>(p, _). is_within r p \<and> length r < length p \<and> ends_with meta_suffix (last p)) f
           in case collect_index (index_entry c r app_slug tenant_slug f) sidecars of
                Inl x \<Rightarrow> Inl x
              | Inr out \<Rightarrow>
                  if 1 < length out \<and> list_ex (\<lambda>row. json_text_of (index_key row) = None) out
                  then Inl (TypeError ''not supported between instances'')
                  else Inr (sort_desc (\<lambda>row. case json_text_of (index_key row) of None \<Rightarrow> '''' | Some s \<Rightarrow> s) out)))"


subsection \<open>Only superadmins\<close>

definition superadmin_only :: error where
  "superadmin_only = ForbiddenError ''Superadmin access required''"

text \<open>
  Backups are for superadmins: whoever else calls an endpoint of the backup API, the store included, gets
  403 and changes nothing.
\<close>

theorem backup_endpoints_guarded:
  assumes "\<not> uctx_is_superadmin user"
  shows "status_code superadmin_only = Some 403 \<and> export_ep g e er user ip w = (Inl superadmin_only, w) \<and>
    export_download g e er user ip w = (Inl superadmin_only, w) \<and> restore_ep g e rr user ip w = (Inl superadmin_only, w) \<and>
    restore_upload g e data pass user ip w = (Inl superadmin_only, w) \<and> list_contributors_ep g scope user = Inl superadmin_only \<and>
    list_runs lim sid user d = Inl superadmin_only \<and> list_schedules managed user d = Inl superadmin_only \<and>
    create_schedule e sc user d = Inl superadmin_only \<and> delete_schedule b i user d = Inl superadmin_only \<and>
    sink_store_put root rest data user f = Inl superadmin_only \<and> sink_store_get root rest user f = Inl superadmin_only \<and>
    sink_store_delete root rest user f = Inl superadmin_only \<and> sink_store_index c root app_slug tenant_slug user f = Inl superadmin_only"
  using assms unfolding superadmin_only_def
  by (simp add: require_superadmin_def export_ep_def export_download_def restore_ep_def restore_upload_def
      list_contributors_ep_def list_runs_def list_schedules_def create_schedule_def delete_schedule_def
      sink_store_put_def sink_store_get_def sink_store_delete_def sink_store_index_def)

subsection \<open>Export and restore\<close>

lemma api_open_sealed:
  assumes "gpg_ok (sc_gpg (ap_sched g))" and "api_encrypt g p raw = Inr (data, fp)"
    and "CHR 0x0A \<notin> set (normalise_passphrase (the p))"
    and "p = q \<or> truthy_str p \<and> truthy_str q \<and> normalise_passphrase (the p) = normalise_passphrase (the q)"
  shows "api_decrypt g q data = Inr raw"
proof (cases "truthy_str p")
  case False
  then show ?thesis using assms(2,4) by (auto simp: api_encrypt_def api_decrypt_def)
next
  case True
  then have q: "truthy_str q" "normalise_passphrase (the q) = normalise_passphrase (the p)" using assms(4) by auto
  have data: "encrypt_bundle (sc_gpg (ap_sched g)) raw (the p) = Inr data"
    using assms(2) True by (auto simp: api_encrypt_def split: sum.splits)
  then have "normalise_passphrase (the p) \<noteq> []" by (auto simp: encrypt_bundle_def Let_def)
  from decrypt_encrypted [OF assms(1,3) this q(2), of raw] data q(1) show ?thesis
    by (auto simp: api_decrypt_def)
qed

lemma export_ep_local:
  assumes "export_ep g e er user ip w = (Inr resp, w1)" and "er_scope er = PLATFORM" and "er_sink_type er = ''local_disk''"
  obtains root raw data fp res v where
    "build_sink_from_config ''local_disk'' (er_sink_config er) = Inr (LocalDisk root)"
    "export_platform (sc_codec (ap_sched g)) (sc_service (ap_sched g)) e (uctx_user_id user) ip (sw_world w) = Inr (raw, v)"
    "api_encrypt g (er_passphrase er) raw = Inr (data, fp)" "ex_locator resp = sw_locator res"
    "local_put_op (sc_codec (ap_sched g)) root (sc_tag (ap_sched g)) (sc_fault (ap_sched g))
       (blob_from_bytes g e data PLATFORM None (truthy_str (er_passphrase er)) fp) (w_fs v) = Inr (res, sw_fs w1)"
  using assms
  by (auto simp: export_ep_def attempt_Inr Let_def api_bundle_def build_sink_def api_put_def build_sink_from_config_def
      local_put_op_def split: sum.splits prod.splits intro: that)

lemma exported_restorable:
  assumes codec: "codec_ok (sc_codec (ap_sched g))" and gpg: "gpg_ok (sc_gpg (ap_sched g))"
    and svc: "sc_service (ap_sched g) = build_backup_service (sc_codec (ap_sched g)) a av None"
    and good: "db_good (sc_codec (ap_sched g)) (w_db (sw_world w))"
    and export: "export_ep g e er user ip w = (Inr resp, w1)" "er_scope er = PLATFORM" "er_sink_type er = ''local_disk''"
    and snap: "snap_locator (ex_locator resp)" and line: "CHR 0x0A \<notin> set (normalise_passphrase (the (er_passphrase er)))"
    and v: "tables_empty (w_db (sw_world v))" "sw_fs v = sw_fs w1" and "env_audit_ok e'"
  obtains root raw data s x' entry where "build_sink_from_config ''local_disk'' (er_sink_config er) = Inr (LocalDisk root)"
    and "local_get root (ex_locator resp) (sw_fs v) = Inr data"
    and "\<And>q. er_passphrase er = q \<or> truthy_str (er_passphrase er) \<and> truthy_str q \<and>
      normalise_passphrase (the (er_passphrase er)) = normalise_passphrase (the q) \<Longrightarrow> api_decrypt g q data = Inr raw"
    and "restore_bundle (sc_codec (ap_sched g)) (framework_name (ap_brand g)) (sc_service (ap_sched g)) e' raw i' ip' (sw_world v) = (Inr s, x')"
    and "rs_warnings s = []" and "users (w_db x') = users (sw_db w)" and "user_tenant_roles (w_db x') = user_tenant_roles (sw_db w)"
    and "tenants (w_db x') = tenants (sw_db w)" and "roles (w_db x') = roles (sw_db w)"
    and "settings (w_db x') = exported_settings PLATFORM None (sw_db w)" and "audit_rows (w_db x') = audit_rows (sw_db w) @ [entry]"
proof -
  obtain root raw data fp res u where sink: "build_sink_from_config ''local_disk'' (er_sink_config er) = Inr (LocalDisk root)"
    and raw: "export_platform (sc_codec (ap_sched g)) (sc_service (ap_sched g)) e (uctx_user_id user) ip (sw_world w) = Inr (raw, u)"
    and enc: "api_encrypt g (er_passphrase er) raw = Inr (data, fp)" and loc: "ex_locator resp = sw_locator res"
    and put: "local_put_op (sc_codec (ap_sched g)) root (sc_tag (ap_sched g)) (sc_fault (ap_sched g))
       (blob_from_bytes g e data PLATFORM None (truthy_str (er_passphrase er)) fp) (w_fs u) = Inr (res, sw_fs w1)"
    using export by (rule export_ep_local)
  have get: "local_get root (ex_locator resp) (sw_fs v) = Inr data"
    using local_disk.get_put [OF put] snap loc v(2) by (simp add: blob_from_bytes_def)
  show thesis
    using platform_restored [OF codec good v(1) \<open>env_audit_ok e'\<close> raw [unfolded svc], of "framework_name (ap_brand g)" a av i' ip']
      that [OF sink get api_open_sealed [OF gpg enc line]] unfolding svc sw_db_def by blast
qed


subsection \<open>Tenant schedules made with the API\<close>

lemma dispatch_export_fails:
  assumes "run_scheduled_export g e s (sw_world (started g e s w)) = Inl x"
  shows "dispatch g e s w = (env_ids e 1, sw_set_db (mark_run_failed (env_now e) (env_ids e 1) (err_message x)
      (sw_db (started g e s w))) (started g e s w))"
  using assms unfolding dispatch_eq by (simp add: run_backup_def attempt_def)

text \<open>
  A tenant schedule made with the API never works: the endpoint does not store the tenant's id, so every
  dispatch of the schedule fails with the same message, whatever the database, and the schedule stays due.
\<close>

theorem api_tenant_schedules_fail:
  assumes "create_schedule e0 payload user d = Inr (s, d')" and "sc_scope payload = TENANT"
  shows "\<exists>w'. dispatch g e s w = (env_ids e 1, w') \<and> backup_schedules (sw_db w') = backup_schedules (sw_db w) \<and>
    (\<exists>r \<in> set (backup_runs (sw_db w')). br_id r = env_ids e 1 \<and> br_status r = STATUS_FAILED \<and>
       br_error r = Some ''tenant schedule missing tenant_id/slug'')"
proof -
  have s: "bs_scope s = ''tenant''" "bs_tenant_id s = None"
    using assms by (auto simp: create_schedule_def new_schedule_def Let_def split: sum.splits)
  then have ex: "run_scheduled_export g e s v = Inl (ValueError ''tenant schedule missing tenant_id/slug'')" for v
    by (simp add: run_scheduled_export_def truthy_str_def Let_def)
  let ?d = "sw_db (started g e s w)"
  have "pending_run g e s \<in> set (backup_runs (mark_run_pending g e s (sw_db w)))" "br_id (pending_run g e s) = env_ids e 1"
    by (simp_all add: mark_run_pending_def add_row_def pending_run_def)
  then obtain r where "r \<in> set (backup_runs ?d)" "br_id r = env_ids e 1"
    unfolding started_def mark_run_status_def sw_simps set_change_run by force
  then obtain q where q: "q \<in> set (backup_runs (mark_run_failed (env_now e) (env_ids e 1) ''tenant schedule missing tenant_id/slug'' ?d))"
    "br_id q = env_ids e 1"
    unfolding mark_run_failed_def set_change_run by force
  with failed_row [OF q] show ?thesis
    unfolding dispatch_export_fails [OF ex] by (auto simp: started_runs)
qed

text \<open>The text of a path is a prefix of the text of a sibling: the store writes beside its root.\<close>

lemma store_sibling_escape:
  assumes "uctx_is_superadmin user"
  shows "sink_store_put ''/data/backup-store'' ''../backup-store-other/x'' ''evil'' user [] =
     Inr [([''data'', ''backup-store-other'', ''x''], ''evil'')]"
  using assms by (simp add: sink_store_put_def require_superadmin_def store_target_def norm_path_def join_path_def
      path_parts_def local_root_def starts_with_def path_text_def write_file_def is_dir_def under_file_def dict_set_def)


subsection \<open>A concrete backup\<close>

definition demo_caller :: "bool \<Rightarrow> user_context" where
  "demo_caller super = \<lparr>uctx_user_id = ''u1'', uctx_email = ''a@x'', uctx_display_name = ''A'', uctx_is_superadmin = super,
     uctx_totp_enabled = False, uctx_tenant_roles = [(''acme'', ADMIN)]\<rparr>"

definition demo_api :: "unit api_cfg" where
  "demo_api = \<lparr>ap_sched = demo_sched, ap_get = (\<lambda>s l x. Inl os_error), ap_brand = brand_from_env Map.empty\<rparr>"

definition demo_export :: export_request where
  "demo_export = \<lparr>er_scope = PLATFORM, er_tenant_slug = None, er_sink_type = ''local_disk'',
     er_sink_config = [(''root_dir'', JStr ''/b'')], er_passphrase = Some ''pw''\<rparr>"

definition demo_restore :: "string \<Rightarrow> restore_request" where
  "demo_restore l = \<lparr>rr_sink_type = ''local_disk'', rr_locator = l, rr_sink_config = [(''root_dir'', JStr ''/b'')],
     rr_passphrase = Some (''pw'' @ [CHR 0x0A])\<rparr>"

definition demo_platform :: "unit sched_world" where
  "demo_platform = \<lparr>sw_world = demo_user_world, sw_ext = ()\<rparr>"

lemma demo_normalise: "normalise_passphrase ''pw'' = ''pw''" "normalise_passphrase [CHR ''p'', CHR ''w'', CHR 0x0A] = ''pw''"
  by (simp_all add: normalise_passphrase_def rstrip_where_def)

lemma demo_export_ok:
  "\<exists>resp w1. export_ep demo_api demo_env demo_export (demo_caller True) ip demo_platform = (Inr resp, w1) \<and>
     ex_locator resp = ''app/platform/20260101T000000Z-full.tar.gz.gpg''"
proof -
  obtain raw v where raw: "api_bundle demo_api demo_env demo_export (demo_caller True) ip demo_user_world = Inr ((raw, None), v)"
    and v: "w_fs v = []"
    by (auto simp: api_bundle_def demo_api_def demo_export_def export_platform_def run_export_platform demo_user_world_def Let_def)
  obtain data fp where enc: "api_encrypt demo_api (Some ''pw'') raw = Inr (data, fp)"
    by (simp add: api_encrypt_def truthy_str_def demo_api_def demo_sched_def encrypt_bundle_def demo_gpg_def demo_normalise Let_def)
  let ?b = "blob_from_bytes demo_api demo_env data PLATFORM None True fp"
  have name: "default_filename demo_codec ?b = ''app/platform/20260101T000000Z-full.tar.gz.gpg''"
    by (simp add: default_filename_def filename_parts_def snapshot_name_def blob_from_bytes_def demo_codec_def demo_api_def
        build_backup_service_def register_def truthy_str_def)
  have tgt: "norm_path (join_path (local_root ''/b'') ''app/platform/20260101T000000Z-full.tar.gz.gpg'') =
      [''b'', ''app'', ''platform'', ''20260101T000000Z-full.tar.gz.gpg'']"
    by (simp add: norm_path_def join_path_def local_root_def path_parts_def starts_with_def)
  obtain res f where put: "local_put demo_codec ''/b'' ''1'' None ?b [] = (Inr res, f)"
    and loc: "sw_locator res = ''app/platform/20260101T000000Z-full.tar.gz.gpg''"
    by (simp add: local_put_def name tgt Let_def write_step_def write_file_def replace_file_def
        is_dir_def under_file_def dict_set_def dict_pop_def sibling_def sidecar_of_eq)
  have sink: "build_sink ''local_disk'' (er_sink_config demo_export) = Inr (Some (LocalDisk ''/b''))"
    by (simp add: build_sink_def build_sink_from_config_def json_or_def demo_export_def)
  have ap: "ap_sched demo_api = demo_sched" by (simp add: demo_api_def)
  have er: "er_passphrase demo_export = Some ''pw''" "er_scope demo_export = PLATFORM" "er_sink_type demo_export = ''local_disk''"
    by (simp_all add: demo_export_def)
  have dw: "sw_world demo_platform = demo_user_world" by (simp add: demo_platform_def)
  have super: "uctx_is_superadmin (demo_caller True)" by (simp add: demo_caller_def)
  show ?thesis
    using put loc v
    by (simp add: export_ep_def require_superadmin_def super attempt_def dw raw er enc sink api_put_def ap
        truthy_str_def Let_def)
qed


theorem backup_endpoints_guarded_witness:
  "export_ep demo_api demo_env demo_export (demo_caller False) '''' demo_platform = (Inl superadmin_only, demo_platform) \<and>
   sink_store_get ''/b'' ''x'' (demo_caller False) [] = Inl superadmin_only"
proof -
  have "\<not> uctx_is_superadmin (demo_caller False)" by (simp add: demo_caller_def)
  from backup_endpoints_guarded [OF this, where g = demo_api and e = demo_env and er = demo_export and ip = "''''"
      and w = demo_platform and root = "''/b''" and rest = "''x''" and f = "[]"] show ?thesis by simp
qed

definition demo_new_schedule :: schedule_create where
  "demo_new_schedule = \<lparr>sc_name = ''acme nightly'', sc_scope = TENANT, sc_tenant_slug = Some ''acme'', sc_sink_type = ''local_disk'',
     sc_sink_config = [], sc_cron_expr = Some ''@daily'', sc_kind = ''full'', sc_retention_days = None, sc_keep_last = None\<rparr>"

theorem api_tenant_schedules_fail_witness:
  "\<exists>s d' w'. create_schedule demo_env demo_new_schedule (demo_caller True) empty_db = Inr (s, d') \<and>
     dispatch demo_sched demo_env s demo_platform = (''ix'', w') \<and>
     (\<exists>r. r \<in> set (backup_runs (sw_db w')) \<and> br_status r = STATUS_FAILED)"
proof -
  obtain s d' where c: "create_schedule demo_env demo_new_schedule (demo_caller True) empty_db = Inr (s, d')"
    by (simp add: create_schedule_def require_superadmin_def demo_caller_def Let_def)
  have "sc_scope demo_new_schedule = TENANT" by (simp add: demo_new_schedule_def)
  from api_tenant_schedules_fail [OF c this, of demo_sched demo_env demo_platform] c show ?thesis
    unfolding demo_ids(1) by blast
qed

end
