(* ===== verification/SyncSvc.thy ===== *)
theory SyncSvc
  imports BackupSvc
begin

section \<open>Mesh sync: peers, keys, conflicts and row origins\<close>

text \<open>
  \<open>services/sync/auth.py\<close>, \<open>repository.py\<close>, \<open>schemas.py\<close> and \<open>service.py\<close>.  The vault lives in another
  package: \<open>vault\<close> holds its session key, the nonces drawn and AES-GCM in hexadecimal, with the law
  \<open>vault_ok\<close>.  The last argument of the operations that draw a key is what \<open>secrets.token_urlsafe(40)\<close>
  returned.  \<open>fk\<close> says whether the database enforces foreign keys: PostgreSQL does, SQLite as it is
  configured here does not.
\<close>

subsection \<open>Schemas\<close>

datatype sync_mode = FULL | TENANTS_ONLY | SELECTED

fun sync_mode_value :: "sync_mode \<Rightarrow> string" where
  "sync_mode_value FULL = ''full''"
| "sync_mode_value TENANTS_ONLY = ''tenants_only''"
| "sync_mode_value SELECTED = ''selected''"

datatype sync_direction = IN | OUT | BOTH

fun sync_direction_value :: "sync_direction \<Rightarrow> string" where
  "sync_direction_value IN = ''in''"
| "sync_direction_value OUT = ''out''"
| "sync_direction_value BOTH = ''both''"

record node_info =
  ni_node_id :: string
  ni_node_name :: string
  ni_schema_version :: int
  ni_capabilities :: "string list"

record sync_peer_create =
  pc_name :: string
  pc_base_url :: string
  pc_their_key_for_us :: "string option"
  pc_sync_mode :: sync_mode
  pc_auto_include_new_tenants :: bool
  pc_enabled :: bool

record sync_peer_update =
  pu_name :: "string option"
  pu_base_url :: "string option"
  pu_their_key_for_us :: "string option"
  pu_sync_mode :: "sync_mode option"
  pu_auto_include_new_tenants :: "bool option"
  pu_enabled :: "bool option"

record sync_peer_read =
  pr_id :: string
  pr_peer_node_id :: "string option"
  pr_name :: string
  pr_base_url :: string
  pr_has_their_key :: bool
  pr_our_key_for_them_prefix :: "string option"
  pr_enabled :: bool
  pr_sync_mode :: string
  pr_auto_include_new_tenants :: bool
  pr_last_pulled_ts :: "time option"
  pr_last_pushed_ts :: "time option"
  pr_last_error :: "string option"
  pr_last_error_ts :: "time option"
  pr_backoff_seconds :: int
  pr_created_at :: time
  pr_updated_at :: time

record sync_conflict_read =
  cf_id :: string
  cf_peer_id :: string
  cf_tenant_id :: "string option"
  cf_resource_type :: string
  cf_resource_id :: string
  cf_local_payload :: "json option"
  cf_remote_payload :: "json option"
  cf_detected_at :: time
  cf_resolved_at :: "time option"
  cf_resolved_by :: "string option"
  cf_resolution :: "string option"

record peer_sync_status =
  ps_peer_id :: string
  ps_peer_name :: string
  ps_enabled :: bool
  ps_last_pulled_ts :: "time option"
  ps_last_pushed_ts :: "time option"
  ps_last_error :: "string option"
  ps_backoff_seconds :: int
  ps_is_running :: bool

record sync_status =
  ss_local_node_id :: string
  ss_local_node_name :: string
  ss_peers :: "peer_sync_status list"

subsection \<open>Keys\<close>

definition KEY_PREFIX_LEN :: nat where "KEY_PREFIX_LEN = 8"

definition KEY_TOTAL_LEN :: nat where "KEY_TOTAL_LEN = 40"

definition hash_peer_key :: "creds \<Rightarrow> nat \<Rightarrow> string \<Rightarrow> string \<times> string" where
  "hash_peer_key cr salt plaintext = (hash_password cr salt plaintext, take KEY_PREFIX_LEN plaintext)"

definition generate_peer_key :: "creds \<Rightarrow> nat \<Rightarrow> string \<Rightarrow> string \<times> string \<times> string" where
  "generate_peer_key cr salt token =
     (let plaintext = take KEY_TOTAL_LEN token
      in (plaintext, hash_password cr salt plaintext, take KEY_PREFIX_LEN plaintext))"

definition verify_peer_key :: "creds \<Rightarrow> string \<Rightarrow> string \<Rightarrow> bool" where
  "verify_peer_key cr plaintext hashed = verify_password cr plaintext hashed"

subsection \<open>Repository\<close>

definition insert_pk :: "('r \<Rightarrow> 'k) \<Rightarrow> 'r \<Rightarrow> 'r list \<Rightarrow> error + 'r list" where
  "insert_pk key r t = (if key r \<in> key ` set t then Inl IntegrityError else Inr (add_row r t))"

definition get_platform_node :: "db \<Rightarrow> platform_node option" where
  "get_platform_node d = (case platform_nodes d of [] \<Rightarrow> None | n # _ \<Rightarrow> Some n)"

definition create_platform_node :: "env \<Rightarrow> string \<Rightarrow> db \<Rightarrow> error + db" where
  "create_platform_node e node_name d =
     map_sum id (\<lambda>t. d\<lparr>platform_nodes := t\<rparr>)
       (insert_pk pn_id \<lparr>pn_id = env_ids e 0, pn_node_name = node_name, pn_install_ts = env_now e\<rparr> (platform_nodes d))"

definition SINGLETON_ID :: string where "SINGLETON_ID = ''singleton''"

definition create_platform_node_idempotent :: "env \<Rightarrow> string \<Rightarrow> db \<Rightarrow> db" where
  "create_platform_node_idempotent e node_name d =
     (if get_by pn_id SINGLETON_ID (platform_nodes d) \<noteq> None then d
      else d\<lparr>platform_nodes := add_row \<lparr>pn_id = SINGLETON_ID, pn_node_name = node_name, pn_install_ts = env_now e\<rparr>
               (platform_nodes d)\<rparr>)"

definition repo_get_peer :: "string \<Rightarrow> db \<Rightarrow> sync_peer option" where
  "repo_get_peer i d = get_by sp_id i (sync_peers d)"

definition repo_list_peers :: "db \<Rightarrow> sync_peer list" where
  "repo_list_peers d = sort_key sp_created_at (sync_peers d)"

definition list_enabled_peers :: "db \<Rightarrow> sync_peer list" where
  "list_enabled_peers d = sort_key sp_created_at (filter sp_enabled (sync_peers d))"

definition repo_create_peer :: "sync_peer \<Rightarrow> db \<Rightarrow> error + db" where
  "repo_create_peer p d = map_sum id (\<lambda>t. d\<lparr>sync_peers := t\<rparr>) (insert_pk sp_id p (sync_peers d))"

definition change_peer :: "string \<Rightarrow> (sync_peer \<Rightarrow> sync_peer) \<Rightarrow> db \<Rightarrow> db" where
  "change_peer i f d = d\<lparr>sync_peers := update_by sp_id i f (sync_peers d)\<rparr>"

definition update_peer_fields :: "env \<Rightarrow> string \<Rightarrow> (sync_peer \<Rightarrow> sync_peer) \<Rightarrow> db \<Rightarrow> (sync_peer \<times> db) option" where
  "update_peer_fields e i f d =
     (case repo_get_peer i d of
        None \<Rightarrow> None
      | Some p \<Rightarrow> (let g = touched (touch_peer (env_now e)) f in Some (g p, change_peer i g d)))"

text \<open>The three \<open>UPDATE\<close> statements set \<open>updated_at\<close> whether or not a column changes.\<close>

definition record_pull_success :: "time \<Rightarrow> string \<Rightarrow> db \<Rightarrow> db" where
  "record_pull_success now i d = change_peer i (\<lambda>p. touch_peer now
     (p\<lparr>sp_last_pulled_ts := Some now, sp_last_error := None, sp_last_error_ts := None, sp_backoff_seconds := 0\<rparr>)) d"

definition record_push_success :: "time \<Rightarrow> string \<Rightarrow> db \<Rightarrow> db" where
  "record_push_success now i d = change_peer i (\<lambda>p. touch_peer now
     (p\<lparr>sp_last_pushed_ts := Some now, sp_last_error := None, sp_last_error_ts := None, sp_backoff_seconds := 0\<rparr>)) d"

definition record_peer_error :: "time \<Rightarrow> string \<Rightarrow> string \<Rightarrow> int \<Rightarrow> db \<Rightarrow> db" where
  "record_peer_error now i err backoff d = change_peer i (\<lambda>p. touch_peer now
     (p\<lparr>sp_last_error := Some err, sp_last_error_ts := Some now, sp_backoff_seconds := backoff\<rparr>)) d"

definition peer_exists :: "bool \<Rightarrow> string \<Rightarrow> db \<Rightarrow> bool" where
  \<comment> \<open>The foreign key to \<open>sync_peers.id\<close>.\<close>
  "peer_exists fk i d \<longleftrightarrow> fk \<longrightarrow> repo_get_peer i d \<noteq> None"

definition list_tenant_subs :: "string \<Rightarrow> db \<Rightarrow> sync_tenant_sub list" where
  "list_tenant_subs peer_id d = sort_key ts_created_at (filter (\<lambda>s. ts_peer_id s = peer_id) (sync_tenant_subs d))"

definition create_tenant_sub ::
  "bool \<Rightarrow> env \<Rightarrow> string \<Rightarrow> string \<Rightarrow> sync_direction \<Rightarrow> db \<Rightarrow> error + (sync_tenant_sub \<times> db)" where
  "create_tenant_sub fk e peer_id tenant_id direction d =
     (let s = \<lparr>ts_id = env_ids e 0, ts_peer_id = peer_id, ts_tenant_id = tenant_id,
               ts_direction = sync_direction_value direction, ts_created_at = env_now e\<rparr>
      in if \<not> peer_exists fk peer_id d then Inl IntegrityError
         else map_sum id (\<lambda>t. (s, d\<lparr>sync_tenant_subs := t\<rparr>)) (insert_pk ts_id s (sync_tenant_subs d)))"

definition delete_tenant_sub :: "string \<Rightarrow> db \<Rightarrow> error + db" where
  "delete_tenant_sub sub_id d =
     (if get_by ts_id sub_id (sync_tenant_subs d) = None then Inl (NotFoundError ''SyncTenantSubscription'' sub_id)
      else Inr (d\<lparr>sync_tenant_subs := delete_by ts_id sub_id (sync_tenant_subs d)\<rparr>))"

definition create_conflict :: "bool \<Rightarrow> sync_conflict \<Rightarrow> db \<Rightarrow> error + db" where
  "create_conflict fk c d =
     (if \<not> peer_exists fk (sc_peer_id c) d then Inl IntegrityError
      else map_sum id (\<lambda>t. d\<lparr>sync_conflicts := t\<rparr>) (insert_pk sc_id c (sync_conflicts d)))"

definition repo_list_conflicts :: "string option \<Rightarrow> bool \<Rightarrow> int \<Rightarrow> int \<Rightarrow> db \<Rightarrow> sync_conflict list" where
  "repo_list_conflicts peer_id unresolved_only lim off d =
     sql_limit lim (drop (nat off) (sort_desc sc_detected_at
       (filter (\<lambda>c. (peer_id = None \<or> peer_id = Some (sc_peer_id c)) \<and> (unresolved_only \<longrightarrow> sc_resolved_at c = None))
         (sync_conflicts d))))"

definition get_active_key_by_prefix :: "string \<Rightarrow> db \<Rightarrow> peer_api_key option" where
  "get_active_key_by_prefix p d = find (\<lambda>k. pk_key_prefix k = p \<and> pk_is_active k) (peer_api_keys d)"

definition create_peer_api_key :: "bool \<Rightarrow> time \<Rightarrow> string \<Rightarrow> string \<Rightarrow> string \<Rightarrow> string \<Rightarrow> db \<Rightarrow> error + db" where
  "create_peer_api_key fk now i peer_id key_hash key_prefix d =
     (if \<not> peer_exists fk peer_id d then Inl IntegrityError
      else map_sum id (\<lambda>t. d\<lparr>peer_api_keys := t\<rparr>)
        (insert_pk pk_id \<lparr>pk_id = i, pk_peer_id = peer_id, pk_key_hash = key_hash, pk_key_prefix = key_prefix,
           pk_is_active = True, pk_created_at = now, pk_rotated_at = None\<rparr> (peer_api_keys d)))"

definition deactivate_peer_keys :: "time \<Rightarrow> string \<Rightarrow> db \<Rightarrow> db" where
  "deactivate_peer_keys now peer_id d =
     d\<lparr>peer_api_keys := update_where (\<lambda>k. pk_peer_id k = peer_id \<and> pk_is_active k)
         (\<lambda>k. k\<lparr>pk_is_active := False, pk_rotated_at := Some now\<rparr>) (peer_api_keys d)\<rparr>"

definition origin_key :: "sync_row_origin \<Rightarrow> string \<times> string" where
  "origin_key r = (so_table_name r, so_row_id r)"

definition record_row_origin :: "time \<Rightarrow> string \<Rightarrow> string \<Rightarrow> string \<Rightarrow> db \<Rightarrow> db" where
  \<comment> \<open>\<open>upsert_row_origin\<close> and its commit.\<close>
  "record_row_origin now table_name row_id origin_node_id d =
     d\<lparr>sync_row_origins := merge_row origin_key
         \<lparr>so_table_name = table_name, so_row_id = row_id, so_origin_node_id = origin_node_id, so_last_synced_ts = now\<rparr>
         (sync_row_origins d)\<rparr>"

definition get_row_origin :: "string \<Rightarrow> string \<Rightarrow> db \<Rightarrow> sync_row_origin option" where
  "get_row_origin table_name row_id d = get_by origin_key (table_name, row_id) (sync_row_origins d)"


subsection \<open>Peer authentication\<close>

definition authenticate_peer :: "creds \<Rightarrow> string \<Rightarrow> db \<Rightarrow> error + sync_peer" where
  "authenticate_peer cr bearer d =
     (if bearer = [] \<or> length bearer < KEY_PREFIX_LEN then Inl (AuthenticationError ''Invalid peer credentials'')
      else (case get_active_key_by_prefix (take KEY_PREFIX_LEN bearer) d of
        None \<Rightarrow> Inl (AuthenticationError ''Invalid peer credentials'')
      | Some k \<Rightarrow>
          if \<not> verify_peer_key cr bearer (pk_key_hash k) then Inl (AuthenticationError ''Invalid peer credentials'')
          else (case repo_get_peer (pk_peer_id k) d of
                  None \<Rightarrow> Inl (AuthenticationError ''Peer not found or disabled'')
                | Some p \<Rightarrow>
                    if sp_enabled p then Inr p else Inl (AuthenticationError ''Peer not found or disabled''))))"

subsection \<open>Keys at rest\<close>

record vault =
  va_key :: "string option"
  va_nonce :: "nat \<Rightarrow> string"
  va_encrypt :: "string \<Rightarrow> string \<Rightarrow> string \<Rightarrow> string"
  va_decrypt :: "string \<Rightarrow> string \<Rightarrow> string \<Rightarrow> string option"

definition vault_ok :: "vault \<Rightarrow> bool" where
  \<comment> \<open>AES-GCM decrypts what it encrypted; a nonce is written in hexadecimal.\<close>
  "vault_ok va \<longleftrightarrow> (\<forall>k n p. va_decrypt va k n (va_encrypt va k n p) = Some p) \<and> (\<forall>i. list_all is_hex (va_nonce va i))"

definition VAULT_PREFIX :: string where "VAULT_PREFIX = ''vault:''"

definition encrypt_peer_key :: "vault \<Rightarrow> nat \<Rightarrow> string \<Rightarrow> string \<Rightarrow> string" where
  "encrypt_peer_key va i plaintext key =
     VAULT_PREFIX @ va_nonce va i @ '':'' @ va_encrypt va key (va_nonce va i) plaintext"

definition decrypt_peer_key :: "vault \<Rightarrow> string \<Rightarrow> string \<Rightarrow> error + string" where
  "decrypt_peer_key va stored key =
     (case split_first (CHR '':'') stored of
        None \<Rightarrow> Inl (ValueError ''not enough values to unpack'')
      | Some (_, rest) \<Rightarrow>
          (case split_first (CHR '':'') rest of
             None \<Rightarrow> Inl (ValueError ''not enough values to unpack'')
           | Some (nonce, ct) \<Rightarrow>
               (case va_decrypt va key nonce ct of None \<Rightarrow> Inl (OtherException ''InvalidTag'') | Some p \<Rightarrow> Inr p)))"

definition encrypt_their_key :: "vault \<Rightarrow> nat \<Rightarrow> string \<Rightarrow> string" where
  "encrypt_their_key va i plaintext =
     (case va_key va of None \<Rightarrow> plaintext | Some key \<Rightarrow> encrypt_peer_key va i plaintext key)"

definition decrypt_their_key :: "vault \<Rightarrow> string option \<Rightarrow> string option" where
  "decrypt_their_key va stored =
     (case stored of
        None \<Rightarrow> None
      | Some s \<Rightarrow>
          if \<not> starts_with VAULT_PREFIX s then Some s
          else (case va_key va of
                  None \<Rightarrow> None
                | Some key \<Rightarrow> (case decrypt_peer_key va s key of Inl _ \<Rightarrow> None | Inr p \<Rightarrow> Some p)))"

definition needs_migration :: "sync_peer \<Rightarrow> bool" where
  "needs_migration p \<longleftrightarrow> truthy_str (sp_their_key_for_us p) \<and> \<not> starts_with VAULT_PREFIX (the (sp_their_key_for_us p))"

fun migrate_peers :: "vault \<Rightarrow> time \<Rightarrow> string \<Rightarrow> nat \<Rightarrow> sync_peer list \<Rightarrow> sync_peer list" where
  "migrate_peers va now key i [] = []"
| "migrate_peers va now key i (p # ps) =
     (if needs_migration p
      then touched (touch_peer now) (\<lambda>p. p\<lparr>sp_their_key_for_us := Some (encrypt_peer_key va i (the (sp_their_key_for_us p)) key)\<rparr>) p
             # migrate_peers va now key (Suc i) ps
      else p # migrate_peers va now key i ps)"

definition migrate_plaintext_peer_keys :: "vault \<Rightarrow> env \<Rightarrow> db \<Rightarrow> nat \<times> db" where
  "migrate_plaintext_peer_keys va e d =
     (case va_key va of
        None \<Rightarrow> (0, d)
      | Some key \<Rightarrow> (length (filter needs_migration (sync_peers d)),
                     d\<lparr>sync_peers := migrate_peers va (env_now e) key 0 (sync_peers d)\<rparr>))"

subsection \<open>Read models\<close>

definition peer_to_read :: "sync_peer \<Rightarrow> sync_peer_read" where
  "peer_to_read p =
     \<lparr>pr_id = sp_id p, pr_peer_node_id = sp_peer_node_id p, pr_name = sp_name p, pr_base_url = sp_base_url p,
      pr_has_their_key = truthy_str (sp_their_key_for_us p), pr_our_key_for_them_prefix = sp_our_key_for_them_prefix p,
      pr_enabled = sp_enabled p, pr_sync_mode = sp_sync_mode p,
      pr_auto_include_new_tenants = sp_auto_include_new_tenants p, pr_last_pulled_ts = sp_last_pulled_ts p,
      pr_last_pushed_ts = sp_last_pushed_ts p, pr_last_error = sp_last_error p, pr_last_error_ts = sp_last_error_ts p,
      pr_backoff_seconds = sp_backoff_seconds p, pr_created_at = sp_created_at p, pr_updated_at = sp_updated_at p\<rparr>"

definition conflict_to_read :: "sync_conflict \<Rightarrow> sync_conflict_read" where
  "conflict_to_read c =
     \<lparr>cf_id = sc_id c, cf_peer_id = sc_peer_id c, cf_tenant_id = sc_tenant_id c, cf_resource_type = sc_resource_type c,
      cf_resource_id = sc_resource_id c, cf_local_payload = Option.bind (sc_local_payload c) json_loads,
      cf_remote_payload = Option.bind (sc_remote_payload c) json_loads, cf_detected_at = sc_detected_at c,
      cf_resolved_at = sc_resolved_at c, cf_resolved_by = sc_resolved_by c, cf_resolution = sc_resolution c\<rparr>"

subsection \<open>Service\<close>

definition ensure_local_node :: "env \<Rightarrow> string \<Rightarrow> db \<Rightarrow> error + (platform_node \<times> db)" where
  "ensure_local_node e node_name d =
     (let d' = create_platform_node_idempotent e node_name d
      in case get_platform_node d' of
           None \<Rightarrow> Inl (RuntimeError ''Failed to create PlatformNode - check DB connectivity'')
         | Some n \<Rightarrow> Inr (n, d'))"

definition SCHEMA_VERSION :: int where "SCHEMA_VERSION = 1"

definition CAPABILITIES :: "string list" where "CAPABILITIES = [''delta_export'', ''lww_conflict'']"

definition get_local_node_info :: "db \<Rightarrow> error + node_info" where
  "get_local_node_info d =
     (case get_platform_node d of
        None \<Rightarrow> Inl (RuntimeError ''PlatformNode not initialised - call ensure_local_node() first'')
      | Some n \<Rightarrow> Inr \<lparr>ni_node_id = pn_id n, ni_node_name = pn_node_name n, ni_schema_version = SCHEMA_VERSION,
                        ni_capabilities = CAPABILITIES\<rparr>)"

definition create_peer ::
  "creds \<Rightarrow> vault \<Rightarrow> bool \<Rightarrow> env \<Rightarrow> nat \<Rightarrow> string \<Rightarrow> sync_peer_create \<Rightarrow> db \<Rightarrow> error + ((sync_peer_read \<times> string) \<times> db)" where
  "create_peer cr va fk e salt token data d =
     (let (plaintext, key_hash, key_prefix) = generate_peer_key cr salt token;
          p = \<lparr>sp_id = env_ids e 0, sp_peer_node_id = None, sp_name = pc_name data, sp_base_url = pc_base_url data,
               sp_their_key_for_us = (if truthy_str (pc_their_key_for_us data)
                 then Some (encrypt_their_key va 0 (the (pc_their_key_for_us data))) else None),
               sp_our_key_for_them_hash = Some key_hash, sp_our_key_for_them_prefix = Some key_prefix,
               sp_enabled = pc_enabled data, sp_sync_mode = sync_mode_value (pc_sync_mode data),
               sp_auto_include_new_tenants = pc_auto_include_new_tenants data, sp_last_pulled_ts = None,
               sp_last_pushed_ts = None, sp_last_error = None, sp_last_error_ts = None, sp_backoff_seconds = 0,
               sp_created_at = env_now e, sp_updated_at = env_now e\<rparr>
      in case repo_create_peer p d of
           Inl x \<Rightarrow> Inl x
         | Inr d1 \<Rightarrow>
             map_sum id (\<lambda>d2. ((peer_to_read p, plaintext), d2))
               (create_peer_api_key fk (env_now e) (env_ids e 1) (sp_id p) key_hash key_prefix d1))"

definition list_peers :: "db \<Rightarrow> sync_peer_read list" where
  "list_peers d = map peer_to_read (repo_list_peers d)"

definition get_peer :: "string \<Rightarrow> db \<Rightarrow> error + sync_peer_read" where
  "get_peer i d =
     (case repo_get_peer i d of None \<Rightarrow> Inl (NotFoundError ''SyncPeer'' i) | Some p \<Rightarrow> Inr (peer_to_read p))"

definition set_peer_fields :: "vault \<Rightarrow> sync_peer_update \<Rightarrow> sync_peer \<Rightarrow> sync_peer" where
  \<comment> \<open>Fields that are unset or null are left alone.\<close>
  "set_peer_fields va data p =
     p\<lparr>sp_name := (case pu_name data of None \<Rightarrow> sp_name p | Some x \<Rightarrow> x),
       sp_base_url := (case pu_base_url data of None \<Rightarrow> sp_base_url p | Some x \<Rightarrow> x),
       sp_their_key_for_us := (case pu_their_key_for_us data of None \<Rightarrow> sp_their_key_for_us p
         | Some x \<Rightarrow> Some (if x \<noteq> [] then encrypt_their_key va 0 x else x)),
       sp_sync_mode := (case pu_sync_mode data of None \<Rightarrow> sp_sync_mode p | Some m \<Rightarrow> sync_mode_value m),
       sp_auto_include_new_tenants := (case pu_auto_include_new_tenants data of None \<Rightarrow> sp_auto_include_new_tenants p | Some b \<Rightarrow> b),
       sp_enabled := (case pu_enabled data of None \<Rightarrow> sp_enabled p | Some b \<Rightarrow> b)\<rparr>"

definition update_peer :: "vault \<Rightarrow> env \<Rightarrow> string \<Rightarrow> sync_peer_update \<Rightarrow> db \<Rightarrow> error + (sync_peer_read \<times> db)" where
  "update_peer va e i data d =
     (case update_peer_fields e i (set_peer_fields va data) d of
        None \<Rightarrow> Inl (NotFoundError ''SyncPeer'' i)
      | Some (p, d') \<Rightarrow> Inr (peer_to_read p, d'))"

definition delete_peer :: "bool \<Rightarrow> string \<Rightarrow> db \<Rightarrow> error + db" where
  \<comment> \<open>Enforced foreign keys cascade.\<close>
  "delete_peer fk i d =
     (if repo_get_peer i d = None then Inl (NotFoundError ''SyncPeer'' i)
      else let d1 = d\<lparr>sync_peers := delete_by sp_id i (sync_peers d)\<rparr>
        in Inr (if fk then d1\<lparr>sync_tenant_subs := delete_by ts_peer_id i (sync_tenant_subs d),
                  sync_conflicts := delete_by sc_peer_id i (sync_conflicts d),
                  peer_api_keys := delete_by pk_peer_id i (peer_api_keys d)\<rparr> else d1))"

definition rotate_peer_key ::
  "creds \<Rightarrow> bool \<Rightarrow> env \<Rightarrow> nat \<Rightarrow> string \<Rightarrow> string \<Rightarrow> db \<Rightarrow> error + (string \<times> db)" where
  "rotate_peer_key cr fk e salt token i d =
     (let (plaintext, key_hash, key_prefix) = generate_peer_key cr salt token
      in if repo_get_peer i d = None then Inl (NotFoundError ''SyncPeer'' i)
         else (case create_peer_api_key fk (env_now e) (env_ids e 0) i key_hash key_prefix (deactivate_peer_keys (env_now e) i d) of
           Inl x \<Rightarrow> Inl x
         | Inr d1 \<Rightarrow>
             (case update_peer_fields e i (\<lambda>p. p\<lparr>sp_our_key_for_them_hash := Some key_hash,
                     sp_our_key_for_them_prefix := Some key_prefix\<rparr>) d1 of
                None \<Rightarrow> Inr (plaintext, d1) | Some (_, d2) \<Rightarrow> Inr (plaintext, d2))))"

definition probe_peer ::
  "(string \<Rightarrow> string \<Rightarrow> error + node_info) \<Rightarrow> env \<Rightarrow> string \<Rightarrow> db \<Rightarrow> error + (node_info \<times> db)" where
  \<comment> \<open>The first argument is \<open>call_peer_info\<close>.  The stored key goes out as it is.\<close>
  "probe_peer call_info e i d =
     (case repo_get_peer i d of
        None \<Rightarrow> Inl (NotFoundError ''SyncPeer'' i)
      | Some p \<Rightarrow>
          if \<not> truthy_str (sp_their_key_for_us p)
          then Inl (ConflictError ''Cannot probe peer - their_key_for_us not configured'')
          else (case call_info (sp_base_url p) (the (sp_their_key_for_us p)) of
            Inl x \<Rightarrow> Inl x
          | Inr info \<Rightarrow>
              Inr (info,
                if sp_peer_node_id p \<noteq> Some (ni_node_id info)
                then (case update_peer_fields e i (\<lambda>p. p\<lparr>sp_peer_node_id := Some (ni_node_id info)\<rparr>) d of
                        None \<Rightarrow> d | Some (_, d') \<Rightarrow> d')
                else d)))"

definition list_conflicts :: "string option \<Rightarrow> bool \<Rightarrow> int \<Rightarrow> int \<Rightarrow> db \<Rightarrow> sync_conflict_read list" where
  "list_conflicts peer_id unresolved_only lim off d =
     map conflict_to_read (repo_list_conflicts peer_id unresolved_only lim off d)"

definition resolve_conflict ::
  "env \<Rightarrow> string \<Rightarrow> string \<Rightarrow> string \<Rightarrow> db \<Rightarrow> error + (sync_conflict_read \<times> db)" where
  "resolve_conflict e i resolution resolved_by d =
     (case get_by sc_id i (sync_conflicts d) of
        None \<Rightarrow> Inl (NotFoundError ''SyncConflict'' i)
      | Some c \<Rightarrow>
          let f = (\<lambda>c. c\<lparr>sc_resolved_at := Some (env_now e), sc_resolved_by := Some resolved_by,
                         sc_resolution := Some resolution\<rparr>)
          in Inr (conflict_to_read (f c), d\<lparr>sync_conflicts := update_by sc_id i f (sync_conflicts d)\<rparr>))"

definition peer_status :: "string set \<Rightarrow> sync_peer \<Rightarrow> peer_sync_status" where
  "peer_status running p =
     \<lparr>ps_peer_id = sp_id p, ps_peer_name = sp_name p, ps_enabled = sp_enabled p,
      ps_last_pulled_ts = sp_last_pulled_ts p, ps_last_pushed_ts = sp_last_pushed_ts p,
      ps_last_error = sp_last_error p, ps_backoff_seconds = sp_backoff_seconds p, ps_is_running = (sp_id p \<in> running)\<rparr>"

definition status_summary :: "string set \<Rightarrow> db \<Rightarrow> sync_status" where
  "status_summary running d =
     \<lparr>ss_local_node_id = (case get_platform_node d of None \<Rightarrow> ''unknown'' | Some n \<Rightarrow> pn_id n),
      ss_local_node_name = (case get_platform_node d of None \<Rightarrow> ''unknown'' | Some n \<Rightarrow> pn_node_name n),
      ss_peers = map (peer_status running) (repo_list_peers d)\<rparr>"


subsection \<open>Lookups\<close>

lemma insert_pk_Inr: "insert_pk key r t = Inr t' \<longleftrightarrow> key r \<notin> key ` set t \<and> t' = t @ [r]"
  by (auto simp: insert_pk_def add_row_def)

lemma map_sum_Inr: "map_sum f g r = Inr y \<longleftrightarrow> (\<exists>x. r = Inr x \<and> y = g x)"
  by (cases r) auto

lemma map_sum_Inl: "map_sum f g r = Inl y \<longleftrightarrow> (\<exists>x. r = Inl x \<and> y = f x)"
  by (cases r) auto

lemma repo_get_change_peer:
  assumes "\<And>p. sp_id (f p) = sp_id p"
  shows "repo_get_peer i (change_peer j f d) = (if i = j then map_option f (repo_get_peer i d) else repo_get_peer i d)"
  using assms by (simp add: repo_get_peer_def change_peer_def get_by_update_by)

lemma change_peer_keys [simp]: "peer_api_keys (change_peer i f d) = peer_api_keys d"
  by (simp add: change_peer_def)

lemma touched_peer: "sp_id (f p) = sp_id p \<Longrightarrow> sp_id (touched (touch_peer now) f p) = sp_id p"
  "sp_enabled (touched (touch_peer now) f p) = sp_enabled (f p)"
  by (simp_all add: touch_defs)

lemma update_peer_fields_Some:
  assumes "update_peer_fields e i f d = Some (q, d')" and "\<And>p. sp_id (f p) = sp_id p"
  obtains p where "repo_get_peer i d = Some p" "q = touched (touch_peer (env_now e)) f p"
    "repo_get_peer i d' = Some q" "peer_api_keys d' = peer_api_keys d"
proof -
  have "sp_id (touched (touch_peer (env_now e)) f p) = sp_id p" for p using assms(2) by (simp add: touch_defs)
  then show ?thesis using assms(1) that
    by (auto simp: update_peer_fields_def repo_get_change_peer Let_def split: option.splits)
qed

lemma repo_get_peer_id: "repo_get_peer i d = Some p \<Longrightarrow> sp_id p = i"
  by (auto simp: repo_get_peer_def dest: get_by_SomeD)

subsection \<open>Peer keys\<close>

lemma authenticated:
  assumes "authenticate_peer cr b d = Inr q"
  obtains k where "k \<in> set (peer_api_keys d)" "pk_is_active k" "pk_key_prefix k = take KEY_PREFIX_LEN b"
    "verify_peer_key cr b (pk_key_hash k)" "pk_peer_id k = sp_id q" "sp_enabled q" "repo_get_peer (sp_id q) d = Some q"
proof -
  from assms obtain k where k: "find (\<lambda>k. pk_key_prefix k = take KEY_PREFIX_LEN b \<and> pk_is_active k) (peer_api_keys d) = Some k"
    "verify_peer_key cr b (pk_key_hash k)" "repo_get_peer (pk_peer_id k) d = Some q" "sp_enabled q"
    by (auto simp: authenticate_peer_def get_active_key_by_prefix_def split: if_splits option.splits)
  from k(1) have "k \<in> set (peer_api_keys d)" "pk_key_prefix k = take KEY_PREFIX_LEN b" "pk_is_active k"
    by (auto simp: find_Some_iff)
  with k show ?thesis using repo_get_peer_id [OF k(3)] by (intro that) auto
qed

lemma find_no_prefix:
  assumes "\<And>k. k \<in> set ks \<Longrightarrow> pk_is_active k \<Longrightarrow> pk_key_prefix k \<noteq> p"
  shows "find (\<lambda>k. pk_key_prefix k = p \<and> pk_is_active k) (ks @ [n]) =
    (if pk_key_prefix n = p \<and> pk_is_active n then Some n else None)"
  using assms by (induction ks) auto

lemma rotated:
  assumes "rotate_peer_key cr fk e salt token i d = Inr (key, d')" and "repo_get_peer i d = Some p"
  obtains n q where "key = take KEY_TOTAL_LEN token"
    "peer_api_keys d' = peer_api_keys (deactivate_peer_keys (env_now e) i d) @ [n]" "pk_is_active n" "pk_peer_id n = i"
    "pk_key_hash n = hash_password cr salt key" "pk_key_prefix n = take KEY_PREFIX_LEN key"
    "repo_get_peer i d' = Some q" "sp_enabled q = sp_enabled p"
proof -
  let ?n = "\<lparr>pk_id = env_ids e 0, pk_peer_id = i, pk_key_hash = hash_password cr salt key,
     pk_key_prefix = take KEY_PREFIX_LEN key, pk_is_active = True, pk_created_at = env_now e, pk_rotated_at = None\<rparr>"
  let ?f = "\<lambda>p. p\<lparr>sp_our_key_for_them_hash := Some (hash_password cr salt key),
     sp_our_key_for_them_prefix := Some (take KEY_PREFIX_LEN key)\<rparr>"
  have get: "repo_get_peer i (deactivate_peer_keys (env_now e) i d) = Some p"
    using assms(2) by (simp add: repo_get_peer_def deactivate_peer_keys_def)
  from assms obtain d1 where key: "key = take KEY_TOTAL_LEN token"
    and d1: "create_peer_api_key fk (env_now e) (env_ids e 0) i (hash_password cr salt key) (take KEY_PREFIX_LEN key)
      (deactivate_peer_keys (env_now e) i d) = Inr d1"
    and upd: "(case update_peer_fields e i ?f d1 of None \<Rightarrow> Inr (take KEY_TOTAL_LEN token, d1)
      | Some (_, d2) \<Rightarrow> Inr (take KEY_TOTAL_LEN token, d2)) = (Inr (key, d') :: error + string \<times> db)"
    by (auto simp: rotate_peer_key_def generate_peer_key_def Let_def split: sum.splits)
      (auto split: option.splits prod.splits)
  have keys: "peer_api_keys d1 = peer_api_keys (deactivate_peer_keys (env_now e) i d) @ [?n]"
    and peers: "repo_get_peer i d1 = Some p"
    using d1 get by (auto simp: create_peer_api_key_def map_sum_Inr insert_pk_Inr repo_get_peer_def split: if_splits)
  obtain q d2 where q: "update_peer_fields e i ?f d1 = Some (q, d2)"
    using peers by (auto simp: update_peer_fields_def Let_def)
  from q obtain p' where "repo_get_peer i d1 = Some p'" "q = touched (touch_peer (env_now e)) ?f p'"
    "repo_get_peer i d2 = Some q" "peer_api_keys d2 = peer_api_keys d1"
    by (rule update_peer_fields_Some) auto
  then show ?thesis
    using that [OF key, of ?n q] keys peers upd q by (simp add: touched_peer)
qed

lemma deactivated:
  assumes "k \<in> set (peer_api_keys (deactivate_peer_keys now i d))" and "pk_is_active k"
  shows "k \<in> set (peer_api_keys d) \<and> pk_peer_id k \<noteq> i"
  using assms by (auto simp: deactivate_peer_keys_def update_where_def split: if_splits)

text \<open>
  Rotating a peer's key works: the key handed out authenticates as that peer, and from then on no
  other text does, so the keys issued before are dead.
\<close>

theorem rotated_peer_key:
  assumes "hash_exact cr" and "rotate_peer_key cr fk e salt token i d = Inr (key, d')"
    and "repo_get_peer i d = Some p" "sp_enabled p" and "KEY_PREFIX_LEN \<le> length token"
    and fresh: "\<And>k. k \<in> set (peer_api_keys d) \<Longrightarrow> pk_is_active k \<Longrightarrow> pk_peer_id k \<noteq> i \<Longrightarrow>
      pk_key_prefix k \<noteq> take KEY_PREFIX_LEN token"
  shows "(\<exists>q. authenticate_peer cr key d' = Inr q \<and> sp_id q = i) \<and>
    (\<forall>b q. length b \<le> 72 \<longrightarrow> authenticate_peer cr b d' = Inr q \<longrightarrow> sp_id q = i \<longrightarrow> b = key)"
proof -
  obtain n q where n: "key = take KEY_TOTAL_LEN token"
    "peer_api_keys d' = peer_api_keys (deactivate_peer_keys (env_now e) i d) @ [n]" "pk_is_active n" "pk_peer_id n = i"
    "pk_key_hash n = hash_password cr salt key" "pk_key_prefix n = take KEY_PREFIX_LEN key"
    and q: "repo_get_peer i d' = Some q" "sp_enabled q = sp_enabled p"
    using assms(2,3) by (rule rotated)
  have len: "length key \<le> 72" "KEY_PREFIX_LEN \<le> length key" and pre: "take KEY_PREFIX_LEN key = take KEY_PREFIX_LEN token"
    using assms(5) by (simp_all add: n(1) KEY_TOTAL_LEN_def KEY_PREFIX_LEN_def)
  have "get_active_key_by_prefix (take KEY_PREFIX_LEN key) d' = Some n"
    unfolding get_active_key_by_prefix_def n(2) pre using n(3,6) pre fresh deactivated
    by (subst find_no_prefix) auto
  then have "authenticate_peer cr key d' = Inr q"
    using len q assms(4) n(4,5) by (auto simp: authenticate_peer_def verify_peer_key_def hash_exactD [OF assms(1)] KEY_PREFIX_LEN_def)
  moreover have "b = key" if "length b \<le> 72" "authenticate_peer cr b d' = Inr q'" "sp_id q' = i" for b q'
    using that(2)
  proof (rule authenticated)
    fix k
    assume k: "k \<in> set (peer_api_keys d')" "pk_is_active k" "verify_peer_key cr b (pk_key_hash k)" "pk_peer_id k = sp_id q'"
    then have "k = n" using that(3) n(2) deactivated by auto
    then show "b = key" using k(3) n(5) len that(1) by (simp add: verify_peer_key_def hash_exactD [OF assms(1)])
  qed
  ultimately show ?thesis using repo_get_peer_id q(1) by blast
qed

text \<open>A peer that is disabled or deleted cannot authenticate, whatever key it holds.\<close>

lemma disabled_peer_refused:
  assumes "update_peer va e i data d = Inr (r, d')" and "pu_enabled data = Some False"
  shows "authenticate_peer cr b d' = Inr q \<Longrightarrow> sp_id q \<noteq> i"
proof -
  obtain p' where u: "update_peer_fields e i (set_peer_fields va data) d = Some (p', d')"
    using assms(1) by (auto simp: update_peer_def split: option.splits prod.splits)
  have "sp_id (set_peer_fields va data p) = sp_id p" for p by (simp add: set_peer_fields_def)
  with u obtain p where "p' = touched (touch_peer (env_now e)) (set_peer_fields va data) p" "repo_get_peer i d' = Some p'"
    by (rule update_peer_fields_Some)
  then have "\<not> sp_enabled p'" "repo_get_peer i d' = Some p'" using assms(2) by (simp_all add: touched_peer set_peer_fields_def)
  then show "authenticate_peer cr b d' = Inr q \<Longrightarrow> sp_id q \<noteq> i" by (auto elim: authenticated)
qed

lemma deleted_peer_refused:
  assumes "delete_peer fk i d = Inr d'"
  shows "authenticate_peer cr b d' = Inr q \<Longrightarrow> sp_id q \<noteq> i"
  using assms by (auto simp: delete_peer_def Let_def repo_get_peer_def get_by_None_iff delete_by_def
      split: if_splits dest!: get_by_SomeD elim!: authenticated)


subsection \<open>Keys at rest\<close>

lemma hex_no_colon: "list_all is_hex s \<Longrightarrow> CHR '':'' \<notin> set s"
  by (auto simp: list_all_iff is_hex_def is_digit_def code_of_def)

lemma split_first_at: "c \<notin> set s \<Longrightarrow> split_first c (s @ c # t) = Some (s, t)"
  by (simp add: split_first_def takeWhile_append dropWhile_append takeWhile_eq_all_conv dropWhile_eq_Nil_conv)

lemma sealed_prefix [simp]: "starts_with VAULT_PREFIX (encrypt_peer_key va i p key)"
  by (simp add: starts_with_def encrypt_peer_key_def)

lemma unsealed:
  assumes "vault_ok va"
  shows "decrypt_peer_key va (encrypt_peer_key va i p key) key = Inr p"
proof -
  have n: "CHR '':'' \<notin> set (va_nonce va i)" using assms by (simp add: vault_ok_def hex_no_colon)
  have "split_first (CHR '':'') (encrypt_peer_key va i p key) =
      Some (''vault'', va_nonce va i @ CHR '':'' # va_encrypt va key (va_nonce va i) p)"
    using split_first_at [of "CHR '':''" "''vault''"] by (simp add: encrypt_peer_key_def VAULT_PREFIX_def)
  then show ?thesis using assms split_first_at [OF n] by (simp add: decrypt_peer_key_def vault_ok_def)
qed

lemma their_key_roundtrip:
  assumes "vault_ok va" and "va_key va = None \<Longrightarrow> \<not> starts_with VAULT_PREFIX p"
  shows "decrypt_their_key va (Some (encrypt_their_key va i p)) = Some p"
  using assms by (cases "va_key va") (simp_all add: decrypt_their_key_def encrypt_their_key_def unsealed)

abbreviation key_of :: "vault \<Rightarrow> sync_peer \<Rightarrow> string option" where
  "key_of va p \<equiv> decrypt_their_key va (sp_their_key_for_us p)"

lemma migrate_peer:
  assumes "vault_ok va" "va_key va = Some key" "needs_migration p"
    and q: "q = touched (touch_peer now) (\<lambda>p. p\<lparr>sp_their_key_for_us := Some (encrypt_peer_key va i (the (sp_their_key_for_us p)) key)\<rparr>) p"
  shows "sp_id q = sp_id p" "key_of va q = key_of va p" "\<not> needs_migration q"
proof -
  have k: "sp_their_key_for_us q = Some (encrypt_peer_key va i (the (sp_their_key_for_us p)) key)"
    by (simp add: q touched_proj [where p = sp_their_key_for_us] touch_peer_def)
  show "sp_id q = sp_id p" by (simp add: q touched_peer)
  show "key_of va q = key_of va p"
    using assms(1-3) by (auto simp: k decrypt_their_key_def needs_migration_def truthy_str_def unsealed split: option.splits)
  show "\<not> needs_migration q" by (simp add: needs_migration_def k)
qed

lemma migrated:
  assumes "vault_ok va" "va_key va = Some key"
  shows "map (\<lambda>p. (sp_id p, key_of va p)) (migrate_peers va now key i ps) = map (\<lambda>p. (sp_id p, key_of va p)) ps \<and>
    filter needs_migration (migrate_peers va now key i ps) = []"
proof (induction ps arbitrary: i)
  case (Cons p ps)
  then show ?case using migrate_peer [OF assms _ refl, of p now i] by (cases "needs_migration p") simp_all
qed simp

lemma migrate_settled: "filter needs_migration ps = [] \<Longrightarrow> migrate_peers va now key i ps = ps"
  by (induction ps arbitrary: i) (auto split: if_splits)

text \<open>
  The migration of peer keys into the vault loses none: every peer keeps its key as the engine decrypts
  it, no plain key is left once the vault is unlocked, and a second run finds nothing to do.
\<close>

theorem migration_keeps_keys:
  assumes "vault_ok va" and "migrate_plaintext_peer_keys va e d = (n, d')"
  shows "map (\<lambda>p. (sp_id p, key_of va p)) (sync_peers d') = map (\<lambda>p. (sp_id p, key_of va p)) (sync_peers d) \<and>
    (va_key va \<noteq> None \<longrightarrow> (\<forall>p \<in> set (sync_peers d'). \<not> needs_migration p)) \<and>
    migrate_plaintext_peer_keys va e' d' = (0, d')"
proof (cases "va_key va")
  case None
  then show ?thesis using assms(2) by (simp add: migrate_plaintext_peer_keys_def)
next
  case (Some key)
  note m = migrated [OF assms(1) Some, of "env_now e" 0 "sync_peers d"]
  have d': "sync_peers d' = migrate_peers va (env_now e) key 0 (sync_peers d)"
    using assms(2) by (auto simp: migrate_plaintext_peer_keys_def Some)
  have none: "\<not> needs_migration p" if "p \<in> set (sync_peers d')" for p
    using m that unfolding d' by (metis (no_types, lifting) filter_empty_conv)
  then have "migrate_plaintext_peer_keys va e' d' = (0, d')"
    by (simp add: migrate_plaintext_peer_keys_def Some migrate_settled filter_empty_conv)
  with m none show ?thesis by (simp add: d')
qed

text \<open>
  The handshake sends the stored text, not the key: a peer that accepts only the key it issued refuses
  the call as soon as the vault is in use.
\<close>

lemma probe_sends_sealed_key:
  assumes "repo_get_peer i d = Some p" and "sp_their_key_for_us p = Some (encrypt_their_key va n key)" and "va_key va \<noteq> None"
    and "\<not> starts_with VAULT_PREFIX key" and "\<And>url s. s \<noteq> key \<Longrightarrow> call_info url s = Inl x"
  shows "probe_peer call_info e i d = Inl x"
proof -
  obtain k where "va_key va = Some k" using assms(3) by blast
  then have "starts_with VAULT_PREFIX (encrypt_their_key va n key)" by (simp add: encrypt_their_key_def)
  then have "encrypt_their_key va n key \<noteq> key" "encrypt_their_key va n key \<noteq> []"
    using assms(4) by (auto simp: starts_with_def VAULT_PREFIX_def)
  then show ?thesis using assms by (simp add: probe_peer_def truthy_str_def)
qed

subsection \<open>Instances\<close>

definition demo_vault :: vault where
  "demo_vault = \<lparr>va_key = Some ''k'', va_nonce = (\<lambda>i. ''ab''), va_encrypt = (\<lambda>k n p. p), va_decrypt = (\<lambda>k n c. Some c)\<rparr>"

lemma demo_vault_ok [simp]: "vault_ok demo_vault"
  by (simp add: vault_ok_def demo_vault_def is_hex_def is_digit_def code_of_def)

definition demo_peer :: sync_peer where
  "demo_peer = \<lparr>sp_id = ''p1'', sp_peer_node_id = None, sp_name = ''north'', sp_base_url = ''http://north/'',
     sp_their_key_for_us = Some ''plain-key'', sp_our_key_for_them_hash = None, sp_our_key_for_them_prefix = None,
     sp_enabled = True, sp_sync_mode = ''full'', sp_auto_include_new_tenants = True, sp_last_pulled_ts = None,
     sp_last_pushed_ts = None, sp_last_error = None, sp_last_error_ts = None, sp_backoff_seconds = 0,
     sp_created_at = 1, sp_updated_at = 1\<rparr>"

definition demo_peer_db :: db where
  "demo_peer_db = empty_db\<lparr>sync_peers := [demo_peer]\<rparr>"

lemma demo_hash_exact: "hash_exact demo_creds"
  by (simp add: hash_exact_def demo_creds_def eq_commute)

theorem rotated_peer_key_witness:
  "\<exists>d'. rotate_peer_key demo_creds True demo_env 0 ''0123456789'' ''p1'' demo_peer_db = Inr (''0123456789'', d') \<and>
     (\<exists>q. authenticate_peer demo_creds ''0123456789'' d' = Inr q \<and> sp_id q = ''p1'')"
proof -
  obtain d' where d': "rotate_peer_key demo_creds True demo_env 0 ''0123456789'' ''p1'' demo_peer_db = Inr (''0123456789'', d')"
    by (simp add: rotate_peer_key_def generate_peer_key_def KEY_TOTAL_LEN_def KEY_PREFIX_LEN_def demo_peer_db_def
        repo_get_peer_def demo_peer_def create_peer_api_key_def peer_exists_def deactivate_peer_keys_def empty_db_def
        update_where_def insert_pk_def add_row_def update_peer_fields_def Let_def)
  have "repo_get_peer ''p1'' demo_peer_db = Some demo_peer" "sp_enabled demo_peer" "peer_api_keys demo_peer_db = []"
    by (simp_all add: repo_get_peer_def demo_peer_db_def demo_peer_def empty_db_def)
  then have "\<exists>q. authenticate_peer demo_creds ''0123456789'' d' = Inr q \<and> sp_id q = ''p1''"
    using rotated_peer_key [OF demo_hash_exact d'] by (simp add: KEY_PREFIX_LEN_def)
  with d' show ?thesis by blast
qed

theorem migration_keeps_keys_witness:
  "map (\<lambda>p. (sp_id p, key_of demo_vault p)) (sync_peers (snd (migrate_plaintext_peer_keys demo_vault demo_env demo_peer_db))) =
     [(''p1'', Some ''plain-key'')]"
  using migration_keeps_keys [OF demo_vault_ok prod.collapse [symmetric], of demo_env demo_peer_db demo_env]
  by (simp add: demo_peer_db_def demo_peer_def decrypt_their_key_def VAULT_PREFIX_def starts_with_def)

end
