(* ===== verification/SyncEngine.thy ===== *)
theory SyncEngine
  imports SyncSvc
begin

section \<open>Mesh sync: transport and engine\<close>

text \<open>
  \<open>services/sync/transport.py\<close> and \<open>engine.py\<close>.  httpx is the parameter \<open>http\<close>: a request is answered
  by a status and a body, or by the text of its \<open>RequestError\<close>.  One cycle reads the clock once.  A
  response that pydantic would have to convert counts as invalid.  Every row of a bundle draws its
  fresh ids from a stream of its own (\<open>row_env\<close>).  What the event loop does around the cycles is the
  dictionary of tasks and kick events; the semaphore that bounds how many run at once is not modelled.
\<close>

subsection \<open>Transport\<close>

datatype http_body = NoBody | JsonBody json | BundleBody string string

record http_request =
  hq_method :: string
  hq_url :: string
  hq_headers :: "(string \<times> string) list"
  hq_body :: http_body

type_synonym http = "http_request \<Rightarrow> string + (int \<times> string)"

definition transport_error :: "string \<Rightarrow> error" where
  "transport_error m = OtherException m"

definition make_headers :: "string \<Rightarrow> (string \<times> string) list" where
  "make_headers bearer_key = [(''Authorization'', ''Bearer '' @ bearer_key), (''X-Sync-Schema-Version'', ''1'')]"

definition sync_url :: "string \<Rightarrow> string \<Rightarrow> string" where
  "sync_url base_url p = rstrip_where (\<lambda>ch. ch = CHR ''/'') base_url @ p"

definition send :: "http \<Rightarrow> http_request \<Rightarrow> error + string" where
  "send http q =
     (case http q of
        Inl t \<Rightarrow> Inl (transport_error (''Network error calling '' @ hq_url q @ '': '' @ t))
      | Inr (code, body) \<Rightarrow>
          if code \<noteq> 200 then Inl (transport_error (hq_method q @ '' '' @ hq_url q @ '' returned '' @ int_str code))
          else Inr body)"

fun all_strings :: "json list \<Rightarrow> string list option" where
  "all_strings [] = Some []"
| "all_strings (JStr s # js) = map_option ((#) s) (all_strings js)"
| "all_strings _ = None"

fun node_info_of_json :: "json \<Rightarrow> node_info option" where
  "node_info_of_json (JObj m) =
     (case (map_of m ''node_id'', map_of m ''node_name'',
            (case map_of m ''schema_version'' of None \<Rightarrow> Some 1 | Some (JInt v) \<Rightarrow> Some v | _ \<Rightarrow> None),
            (case map_of m ''capabilities'' of None \<Rightarrow> Some [] | Some (JList js) \<Rightarrow> all_strings js | _ \<Rightarrow> None)) of
        (Some (JStr i), Some (JStr n), Some v, Some cs) \<Rightarrow>
          Some \<lparr>ni_node_id = i, ni_node_name = n, ni_schema_version = v, ni_capabilities = cs\<rparr>
      | _ \<Rightarrow> None)"
| "node_info_of_json _ = None"

definition call_peer_info :: "codec \<Rightarrow> http \<Rightarrow> string \<Rightarrow> string \<Rightarrow> error + node_info" where
  "call_peer_info c http base_url key =
     (let url = sync_url base_url ''/sync/info''
      in case send http \<lparr>hq_method = ''GET'', hq_url = url, hq_headers = make_headers key, hq_body = NoBody\<rparr> of
           Inl x \<Rightarrow> Inl x
         | Inr body \<Rightarrow>
             (case Option.bind (cd_loads c body) node_info_of_json of
                None \<Rightarrow> Inl (transport_error (''Invalid NodeInfo from '' @ url)) | Some n \<Rightarrow> Inr n))"

definition pull_request :: "codec \<Rightarrow> string \<Rightarrow> string \<Rightarrow> time option \<Rightarrow> (string \<times> json) list \<Rightarrow> string list \<Rightarrow> http_request" where
  "pull_request c base_url key since scope exclude_origins =
     \<lparr>hq_method = ''POST'', hq_url = sync_url base_url ''/sync/pull'',
      hq_headers = make_headers key @ [(''Content-Type'', ''application/json'')],
      hq_body = JsonBody (JObj [(''since'', (case since of None \<Rightarrow> JNull | Some t \<Rightarrow> JStr (cd_iso c t))),
        (''scope'', JObj scope), (''exclude_origins'', JList (map JStr exclude_origins))])\<rparr>"

definition call_peer_pull ::
  "codec \<Rightarrow> http \<Rightarrow> string \<Rightarrow> string \<Rightarrow> time option \<Rightarrow> (string \<times> json) list \<Rightarrow> string list \<Rightarrow> error + string" where
  "call_peer_pull c http base_url key since scope exclude_origins =
     send http (pull_request c base_url key since scope exclude_origins)"

record push_response =
  pp_rows_applied :: int
  pp_rows_skipped :: int
  pp_conflicts_created :: int
  pp_peer_last_pulled_ts :: "time option"

fun push_response_of_json :: "codec \<Rightarrow> json \<Rightarrow> push_response option" where
  "push_response_of_json c (JObj m) =
     (case (map_of m ''rows_applied'', map_of m ''rows_skipped'', map_of m ''conflicts_created'',
            (case map_of m ''peer_last_pulled_ts'' of Some JNull \<Rightarrow> Some None
             | Some (JStr s) \<Rightarrow> map_option Some (cd_fromiso c s) | _ \<Rightarrow> None)) of
        (Some (JInt a), Some (JInt s), Some (JInt k), Some t) \<Rightarrow>
          Some \<lparr>pp_rows_applied = a, pp_rows_skipped = s, pp_conflicts_created = k, pp_peer_last_pulled_ts = t\<rparr>
      | _ \<Rightarrow> None)"
| "push_response_of_json c _ = None"

definition call_peer_push :: "codec \<Rightarrow> http \<Rightarrow> string \<Rightarrow> string \<Rightarrow> string \<Rightarrow> string \<Rightarrow> error + push_response" where
  "call_peer_push c http base_url key bundle our_node_id =
     (let url = sync_url base_url ''/sync/push''
      in case send http \<lparr>hq_method = ''POST'', hq_url = url, hq_headers = make_headers key, hq_body = BundleBody bundle our_node_id\<rparr> of
           Inl x \<Rightarrow> Inl x
         | Inr body \<Rightarrow>
             (case Option.bind (cd_loads c body) (push_response_of_json c) of
                None \<Rightarrow> Inl (transport_error (''Invalid PushResponse from '' @ url)) | Some r \<Rightarrow> Inr r))"

definition call_peer_heartbeat :: "http \<Rightarrow> string \<Rightarrow> string \<Rightarrow> bool" where
  "call_peer_heartbeat http base_url key =
     (case http \<lparr>hq_method = ''POST'', hq_url = sync_url base_url ''/sync/heartbeat'', hq_headers = make_headers key,
                 hq_body = NoBody\<rparr> of
        Inl _ \<Rightarrow> False | Inr (code, _) \<Rightarrow> code = 200)"

subsection \<open>Last write wins\<close>

record mesh_cfg =
  mc_codec :: codec
  mc_backup :: backup_service
  mc_vault :: vault
  mc_http :: http
  mc_node :: string
  mc_fk :: bool
  mc_interval :: int

definition DEFAULT_INTERVAL_S :: int where "DEFAULT_INTERVAL_S = 30"
definition MAX_BACKOFF_S :: int where "MAX_BACKOFF_S = 3600"
definition BACKOFF_MULTIPLIER :: int where "BACKOFF_MULTIPLIER = 2"
definition CLOCK_SKEW_TOLERANCE_S :: int where "CLOCK_SKEW_TOLERANCE_S = 60"

definition lww_remote_wins :: "time option \<Rightarrow> time option \<Rightarrow> string \<Rightarrow> string \<Rightarrow> bool" where
  "lww_remote_wins remote_ts local_ts remote_node_id local_node_id =
     (case (remote_ts, local_ts) of
        (Some r, Some l) \<Rightarrow> if l < r then True else if r < l then False else local_node_id \<le> remote_node_id
      | _ \<Rightarrow> True)"

definition parse_ts :: "codec \<Rightarrow> json option \<Rightarrow> time option" where
  "parse_ts c v = (case v of Some (JStr s) \<Rightarrow> parse_iso c s | _ \<Rightarrow> None)"

definition row_id_of :: "row_dict \<Rightarrow> string" where
  "row_id_of m = (case map_of m ''id'' of None \<Rightarrow> '''' | Some j \<Rightarrow> json_str (Some j))"

definition filter_rows_by_origin :: "string \<Rightarrow> string list \<Rightarrow> db \<Rightarrow> row_dict list \<Rightarrow> row_dict list" where
  "filter_rows_by_origin cid exclude_origins d rows =
     (if exclude_origins = [] then rows
      else filter (\<lambda>m. row_id_of m = [] \<or>
             (case get_row_origin cid (row_id_of m) d of None \<Rightarrow> True | Some r \<Rightarrow> so_origin_node_id r \<notin> set exclude_origins)) rows)"

datatype row_outcome = Applied | Skipped | Conflicting

definition row_tenant :: "row_dict \<Rightarrow> error + string option" where
  \<comment> \<open>What the column \<open>tenant_id\<close> of a conflict takes.\<close>
  "row_tenant m = (case map_of m ''tenant_id'' of None \<Rightarrow> Inr None | Some JNull \<Rightarrow> Inr None | Some (JStr s) \<Rightarrow> Inr (Some s)
     | _ \<Rightarrow> Inl data_error)"

definition lww_conflict :: "env \<Rightarrow> string \<Rightarrow> string \<Rightarrow> string option \<Rightarrow> row_dict \<Rightarrow> row_dict \<Rightarrow> sync_conflict" where
  "lww_conflict e peer_id cid tenant_id local_row m =
     \<lparr>sc_id = env_ids e 0, sc_peer_id = peer_id, sc_tenant_id = tenant_id, sc_resource_type = cid,
      sc_resource_id = row_id_of m, sc_local_payload = Some (json_dumps (JObj local_row)),
      sc_remote_payload = Some (json_dumps (JObj m)), sc_detected_at = env_now e, sc_resolved_at = None,
      sc_resolved_by = None, sc_resolution = Some ''lww_local_kept''\<rparr>"

definition local_row_of :: "contributor \<Rightarrow> string \<Rightarrow> row_dict \<Rightarrow> world \<Rightarrow> row_dict option" where
  "local_row_of co cid m w =
     (case co_get_row co of None \<Rightarrow> None | Some get_row \<Rightarrow> if row_id_of m = [] then None else get_row cid (row_id_of m) w)"

definition local_ts_of :: "codec \<Rightarrow> row_dict option \<Rightarrow> time option" where
  "local_ts_of c local_row = (case local_row of None \<Rightarrow> None | Some l \<Rightarrow> parse_ts c (map_of l ''updated_at''))"

definition apply_row ::
  "mesh_cfg \<Rightarrow> env \<Rightarrow> string \<Rightarrow> string \<Rightarrow> string \<Rightarrow> contributor \<Rightarrow> row_dict \<Rightarrow> world \<Rightarrow> row_outcome \<times> world" where
  \<comment> \<open>One turn of the loop: any exception counts the row as skipped.\<close>
  "apply_row g e peer_id origin cid co m w =
     (let remote_ts = parse_ts (mc_codec g) (map_of m ''updated_at'');
          local_row = local_row_of co cid m w;
          local_ts = local_ts_of (mc_codec g) local_row
      in if \<not> lww_remote_wins remote_ts local_ts origin (mc_node g) \<and> local_ts \<noteq> None \<and> remote_ts \<noteq> None then
           (case row_tenant m of
              Inl _ \<Rightarrow> (Skipped, w)
            | Inr tid \<Rightarrow>
                (case create_conflict (mc_fk g) (lww_conflict e peer_id cid tid (the local_row) m) (w_db w) of
                   Inl _ \<Rightarrow> (Skipped, w) | Inr d \<Rightarrow> (Conflicting, set_db w d)))
         else
           (case co_restore co PLATFORM (case row_tenant m of Inl _ \<Rightarrow> None | Inr tid \<Rightarrow> tid) e (JList [JObj m]) [] w of
              (Inl _, w') \<Rightarrow> (Skipped, w')
            | (Inr _, w') \<Rightarrow> (Applied, set_db w' (record_row_origin (env_now e) cid (row_id_of m) origin (w_db w')))))"


subsection \<open>Bundles\<close>

definition row_env :: "nat \<Rightarrow> env \<Rightarrow> env" where
  \<comment> \<open>The ids drawn for the \<open>k\<close>-th row: the numbers \<open>2^k * (2 * n + 1)\<close>, so no two rows share one and 0 is free.\<close>
  "row_env k e = e\<lparr>env_ids := (\<lambda>n. env_ids e (2 ^ k * (2 * n + 1)))\<rparr>"

type_synonym counts = "nat \<times> nat \<times> nat"

fun count_row :: "row_outcome \<Rightarrow> counts \<Rightarrow> counts" where
  "count_row Applied (a, s, c) = (Suc a, s, c)"
| "count_row Skipped (a, s, c) = (a, Suc s, c)"
| "count_row Conflicting (a, s, c) = (a, s, Suc c)"

fun apply_contributor_rows ::
  "mesh_cfg \<Rightarrow> env \<Rightarrow> string \<Rightarrow> string \<Rightarrow> string \<Rightarrow> contributor \<Rightarrow> nat \<Rightarrow> row_dict list \<Rightarrow> world \<Rightarrow> counts \<times> world" where
  "apply_contributor_rows g e peer_id origin cid co k [] w = ((0, 0, 0), w)"
| "apply_contributor_rows g e peer_id origin cid co k (m # ms) w =
     (let (r, w1) = apply_row g (row_env k e) peer_id origin cid co m w;
          (n, w2) = apply_contributor_rows g e peer_id origin cid co (Suc k) ms w1
      in (count_row r n, w2))"

fun sync_extract_members :: "codec \<Rightarrow> (string \<times> string) list \<Rightarrow> (string \<times> json) list \<Rightarrow> error + (string \<times> json) list" where
  "sync_extract_members c [] acc = Inr acc"
| "sync_extract_members c (m # ms) acc =
     (if starts_with ''data/'' (fst m) \<and> ends_with ''.json'' (fst m) then
        (case cd_loads c (snd m) of
           None \<Rightarrow> Inl (ValueError ''JSONDecodeError'')
         | Some j \<Rightarrow> sync_extract_members c ms (dict_set (take (length (fst m) - 10) (drop 5 (fst m))) j acc))
      else sync_extract_members c ms acc)"

definition sync_extract_bundle :: "codec \<Rightarrow> string \<Rightarrow> error + (backup_manifest \<times> (string \<times> json) list)" where
  "sync_extract_bundle c bundle =
     (case cd_untar c bundle of
        None \<Rightarrow> Inl (OtherException ''ReadError'')
      | Some ms \<Rightarrow>
          (case read_manifest c ms of
             Inl x \<Rightarrow> Inl x
           | Inr m \<Rightarrow> (case sync_extract_members c ms [] of Inl x \<Rightarrow> Inl x | Inr cdata \<Rightarrow> Inr (m, cdata))))"

fun add_counts :: "counts \<Rightarrow> counts \<Rightarrow> counts" where
  "add_counts (a, s, c) (a', s', c') = (a + a', s + s', c + c')"

fun apply_contributors ::
  "mesh_cfg \<Rightarrow> env \<Rightarrow> string \<Rightarrow> string \<Rightarrow> nat \<Rightarrow> (string \<times> json) list \<Rightarrow> world \<Rightarrow> (error + counts) \<times> world" where
  "apply_contributors g e peer_id origin k [] w = (Inr (0, 0, 0), w)"
| "apply_contributors g e peer_id origin k ((cid, j) # rest) w =
     (case map_of (svc_contributors (mc_backup g)) cid of
        None \<Rightarrow> apply_contributors g e peer_id origin k rest w
      | Some co \<Rightarrow>
          (case rows_of j of
             Inl x \<Rightarrow> (Inl x, w)
           | Inr rows \<Rightarrow>
               let kept = filter_rows_by_origin cid [mc_node g] (w_db w) rows;
                   (n, w1) = apply_contributor_rows g e peer_id origin cid co k kept w
               in attempt (apply_contributors g e peer_id origin (k + length kept) rest w1) (\<lambda>n' w2.
                    (Inr (add_counts (add_counts n (0, length rows - length kept, 0)) n'), w2))))"

definition apply_bundle ::
  "mesh_cfg \<Rightarrow> env \<Rightarrow> string \<Rightarrow> string \<Rightarrow> string option \<Rightarrow> world \<Rightarrow> (error + counts) \<times> world" where
  "apply_bundle g e bundle peer_id origin w =
     (if bundle = [] then (Inr (0, 0, 0), w)
      else case sync_extract_bundle (mc_codec g) bundle of
        Inl _ \<Rightarrow> (Inr (0, 0, 0), w)
      | Inr (_, cdata) \<Rightarrow>
          apply_contributors g e peer_id (if truthy_str origin then the origin else ''unknown'') 0 cdata w)"

definition apply_inbound_bundle ::
  "mesh_cfg \<Rightarrow> env \<Rightarrow> string \<Rightarrow> string \<Rightarrow> string \<Rightarrow> world \<Rightarrow> (error + counts) \<times> world" where
  "apply_inbound_bundle g e bundle origin peer_id w = apply_bundle g e bundle peer_id (Some origin) w"

subsection \<open>The cycle\<close>

definition build_scope :: "sync_peer \<Rightarrow> db \<Rightarrow> (string \<times> json) list" where
  "build_scope p d =
     (if sp_sync_mode p = ''full'' then []
      else if sp_sync_mode p = ''tenants_only'' then [(''mode'', JStr ''tenants_only'')]
      else [(''mode'', JStr ''selected''),
            (''tenant_ids'', JList (map (\<lambda>s. JStr (ts_tenant_id s))
               (filter (\<lambda>s. ts_direction s = ''in'' \<or> ts_direction s = ''both'') (list_tenant_subs (sp_id p) d))))])"

definition skewed :: "time option \<Rightarrow> time option" where
  "skewed ts = map_option (\<lambda>t. t - seconds CLOCK_SKEW_TOLERANCE_S) ts"

definition build_push_bundle :: "mesh_cfg \<Rightarrow> env \<Rightarrow> sync_peer \<Rightarrow> world \<Rightarrow> string \<times> world" where
  "build_push_bundle g e p w =
     (case export_platform_delta (mc_codec g) (mc_backup g) e (skewed (sp_last_pushed_ts p)) (Some [mc_node g])
             ''00000000-0000-0000-0000-000000000000'' ''sync-engine'' w of
        Inl _ \<Rightarrow> ('''', w) | Inr (b, w') \<Rightarrow> (b, w'))"

definition push_cycle :: "mesh_cfg \<Rightarrow> env \<Rightarrow> sync_peer \<Rightarrow> string \<Rightarrow> world \<Rightarrow> (error + unit) \<times> world" where
  "push_cycle g e p bundle w =
     (if \<not> truthy_str (sp_their_key_for_us p) \<or> bundle = [] then (Inr (), w)
      else let key = decrypt_their_key (mc_vault g) (sp_their_key_for_us p)
        in if \<not> truthy_str key then (Inr (), w)
           else case call_peer_push (mc_codec g) (mc_http g) (sp_base_url p) (the key) bundle (mc_node g) of
             Inl x \<Rightarrow> (Inl x, w)
           | Inr _ \<Rightarrow> (Inr (), set_db w (record_push_success (env_now e) (sp_id p) (w_db w))))"

definition push_stage :: "mesh_cfg \<Rightarrow> env \<Rightarrow> string \<Rightarrow> world \<Rightarrow> (error + unit) \<times> world" where
  "push_stage g e peer_id w =
     (case repo_get_peer peer_id (w_db w) of
        None \<Rightarrow> (Inr (), w)
      | Some p \<Rightarrow> (let (b, w') = build_push_bundle g e p w in push_cycle g e p b w'))"

definition sync_cycle :: "mesh_cfg \<Rightarrow> env \<Rightarrow> string \<Rightarrow> world \<Rightarrow> (error + unit) \<times> world" where
  "sync_cycle g e peer_id w =
     (case repo_get_peer peer_id (w_db w) of
        None \<Rightarrow> (Inr (), w)
      | Some p \<Rightarrow>
          if \<not> sp_enabled p then (Inr (), w)
          else if \<not> truthy_str (sp_their_key_for_us p) then push_cycle g e p '''' w
          else let key = decrypt_their_key (mc_vault g) (sp_their_key_for_us p)
            in if \<not> truthy_str key then (Inr (), w)
               else attempt (call_peer_pull (mc_codec g) (mc_http g) (sp_base_url p) (the key) (skewed (sp_last_pulled_ts p))
                       (build_scope p (w_db w)) [mc_node g], w) (\<lambda>bundle w1.
                    attempt (apply_bundle g e bundle peer_id None w1) (\<lambda>_ w2.
                    push_stage g e peer_id (set_db w2 (record_pull_success (env_now e) peer_id (w_db w2))))))"

definition handle_error :: "time \<Rightarrow> string \<Rightarrow> error \<Rightarrow> world \<Rightarrow> int \<times> world" where
  "handle_error now peer_id x w =
     (case repo_get_peer peer_id (w_db w) of
        None \<Rightarrow> (MAX_BACKOFF_S, w)
      | Some p \<Rightarrow>
          (let new_backoff = min (max (sp_backoff_seconds p * BACKOFF_MULTIPLIER) DEFAULT_INTERVAL_S) MAX_BACKOFF_S
           in (new_backoff, set_db w (record_peer_error now peer_id (err_message x) new_backoff (w_db w)))))"

definition peer_round :: "mesh_cfg \<Rightarrow> env \<Rightarrow> string \<Rightarrow> world \<Rightarrow> int \<times> world" where
  \<comment> \<open>One turn of \<open>_peer_loop\<close>: the seconds it then sleeps, unless it is kicked.\<close>
  "peer_round g e peer_id w =
     (case sync_cycle g e peer_id w of
        (Inr _, w') \<Rightarrow> (mc_interval g, w')
      | (Inl x, w') \<Rightarrow> handle_error (env_now e) peer_id x w')"

fun peer_loop :: "mesh_cfg \<Rightarrow> string \<Rightarrow> env list \<Rightarrow> world \<Rightarrow> int list \<times> world" where
  \<comment> \<open>As many turns as there are environments.\<close>
  "peer_loop g peer_id [] w = ([], w)"
| "peer_loop g peer_id (e # es) w =
     (let (s, w1) = peer_round g e peer_id w; (ss, w2) = peer_loop g peer_id es w1 in (s # ss, w2))"

subsection \<open>Tasks\<close>

text \<open>A task is there with whether it is still running; a kick event with whether it is set.\<close>

record mesh =
  me_running :: bool
  me_tasks :: "(string, bool) alist"
  me_kicks :: "(string, bool) alist"

definition new_mesh :: mesh where
  "new_mesh = \<lparr>me_running = False, me_tasks = [], me_kicks = []\<rparr>"

definition start_peer_task :: "string \<Rightarrow> mesh \<Rightarrow> mesh" where
  "start_peer_task i M =
     (if map_of (me_tasks M) i = Some True then M
      else M\<lparr>me_kicks := dict_set i False (me_kicks M), me_tasks := dict_set i True (me_tasks M)\<rparr>)"

definition stop_peer_task :: "string \<Rightarrow> mesh \<Rightarrow> mesh" where
  "stop_peer_task i M = M\<lparr>me_tasks := dict_pop i (me_tasks M), me_kicks := dict_pop i (me_kicks M)\<rparr>"

definition start_mesh :: "db \<Rightarrow> mesh \<Rightarrow> mesh" where
  "start_mesh d M = fold (\<lambda>p. start_peer_task (sp_id p)) (list_enabled_peers d) (M\<lparr>me_running := True\<rparr>)"

definition stop_mesh :: "mesh \<Rightarrow> mesh" where
  "stop_mesh M = M\<lparr>me_running := False, me_tasks := []\<rparr>"

definition kick :: "string \<Rightarrow> mesh \<Rightarrow> mesh" where
  "kick i M = (if map_of (me_kicks M) i = None then M else M\<lparr>me_kicks := dict_set i True (me_kicks M)\<rparr>)"

definition on_peer_config_change :: "db \<Rightarrow> mesh \<Rightarrow> mesh" where
  \<comment> \<open>The two loops run over sets: their order does not matter.\<close>
  "on_peer_config_change d M =
     (let enabled = map sp_id (list_enabled_peers d); running = dict_keys (me_tasks M)
      in fold stop_peer_task (filter (\<lambda>i. i \<notin> set enabled) running)
           (fold start_peer_task (filter (\<lambda>i. i \<notin> set running) enabled) M))"

definition running_peer_ids :: "mesh \<Rightarrow> string set" where
  "running_peer_ids M = {i. map_of (me_tasks M) i = Some True}"


section \<open>What the engine guarantees\<close>

subsection \<open>Every row is accounted for\<close>

fun total :: "counts \<Rightarrow> nat" where
  "total (a, s, c) = a + s + c"

lemma total_count_row [simp]: "total (count_row r n) = Suc (total n)"
  by (cases r; cases n) auto

lemma total_add [simp]: "total (add_counts n n') = total n + total n'"
  by (cases n; cases n') auto

lemma contributor_rows_total: "total (fst (apply_contributor_rows g e peer_id origin cid co k ms w)) = length ms"
  by (induction ms arbitrary: k w) (simp_all add: Let_def split_beta)

lemma filtered_length: "length (filter_rows_by_origin cid os d rows) \<le> length rows"
  by (simp add: filter_rows_by_origin_def)

definition bundle_rows :: "backup_service \<Rightarrow> (string \<times> json) list \<Rightarrow> nat" where
  "bundle_rows svc cdata = sum_list (map (\<lambda>(cid, j). case map_of (svc_contributors svc) cid of
     None \<Rightarrow> 0 | Some _ \<Rightarrow> (case rows_of j of Inl _ \<Rightarrow> 0 | Inr rows \<Rightarrow> length rows)) cdata)"

lemma contributors_total:
  "apply_contributors g e peer_id origin k cdata w = (Inr n, w') \<Longrightarrow> total n = bundle_rows (mc_backup g) cdata"
proof (induction cdata arbitrary: k w n w')
  case Nil
  then show ?case by (auto simp: bundle_rows_def)
next
  case (Cons x rest)
  obtain cid j where x: "x = (cid, j)" by (cases x)
  show ?case
  proof (cases "map_of (svc_contributors (mc_backup g)) cid")
    case None
    then show ?thesis using Cons by (simp add: x bundle_rows_def)
  next
    case (Some co)
    obtain rows where rows: "rows_of j = Inr rows" using Cons.prems by (auto simp: x Some split: sum.splits)
    let ?kept = "filter_rows_by_origin cid [mc_node g] (w_db w) rows"
    obtain n1 w1 where a: "apply_contributor_rows g e peer_id origin cid co k ?kept w = (n1, w1)" by (metis surj_pair)
    with Cons.prems obtain n2 where r: "apply_contributors g e peer_id origin (k + length ?kept) rest w1 = (Inr n2, w')"
      and n: "n = add_counts (add_counts n1 (0, length rows - length ?kept, 0)) n2"
      by (auto simp: x Some rows Let_def attempt_Inr)
    have "total n1 = length ?kept" using contributor_rows_total [of g e peer_id origin cid co k ?kept w] a by simp
    with Cons.IH [OF r] n show ?thesis
      using filtered_length [of cid "[mc_node g]" "w_db w" rows] by (simp add: x bundle_rows_def Some rows)
  qed
qed

text \<open>
  A received bundle is accounted for row by row: when it is applied, every row of a registered contributor
  counts as exactly one of applied, skipped or in conflict.
\<close>

theorem rows_accounted_for:
  assumes "apply_bundle g e bundle peer_id origin w = (Inr (a, s, c), w')"
    and "bundle \<noteq> []" "sync_extract_bundle (mc_codec g) bundle = Inr (m, cdata)"
  shows "a + s + c = bundle_rows (mc_backup g) cdata"
  using assms contributors_total [of g e peer_id _ 0 cdata w "(a, s, c)" w'] by (simp add: apply_bundle_def)

subsection \<open>Tasks follow the configuration\<close>

lemma start_tasks [simp]:
  "map_of (me_tasks (start_peer_task i M)) = (map_of (me_tasks M))(i \<mapsto> True)"
  by (auto simp: start_peer_task_def map_of_dict_set fun_eq_iff)

lemma stop_tasks [simp]: "map_of (me_tasks (stop_peer_task i M)) = (map_of (me_tasks M))(i := None)"
  by (simp add: stop_peer_task_def map_of_dict_pop)

lemma fold_start_tasks:
  "map_of (me_tasks (fold start_peer_task is M)) j = (if j \<in> set is then Some True else map_of (me_tasks M) j)"
  by (induction "is" arbitrary: M) auto

lemma fold_stop_tasks:
  "map_of (me_tasks (fold stop_peer_task is M)) j = (if j \<in> set is then None else map_of (me_tasks M) j)"
  by (induction "is" arbitrary: M) auto

lemma enabled_ids: "set (map sp_id (list_enabled_peers d)) = sp_id ` {p \<in> set (sync_peers d). sp_enabled p}"
  by (auto simp: list_enabled_peers_def)

lemma in_dict_keys: "i \<in> set (dict_keys t) \<longleftrightarrow> map_of t i \<noteq> None"
  by (auto simp: dict_keys_def map_of_eq_None_iff)

lemma reconciled:
  "map_of (me_tasks (on_peer_config_change d M)) i =
     (if i \<in> sp_id ` {p \<in> set (sync_peers d). sp_enabled p}
      then (case map_of (me_tasks M) i of None \<Rightarrow> Some True | Some b \<Rightarrow> Some b) else None)"
  unfolding on_peer_config_change_def Let_def fold_stop_tasks fold_start_tasks enabled_ids [symmetric]
  by (simp add: in_dict_keys split: option.split)

text \<open>
  The engine runs a task for exactly the enabled peers: after a reconciliation the peers with a task are
  the enabled ones, whatever ran before, and so are the running ones unless a task had died.
\<close>

theorem reconcile_matches_enabled:
  "dom (map_of (me_tasks (on_peer_config_change d M))) = sp_id ` {p \<in> set (sync_peers d). sp_enabled p} \<and>
   running_peer_ids (on_peer_config_change d M) =
     sp_id ` {p \<in> set (sync_peers d). sp_enabled p} - {i. map_of (me_tasks M) i = Some False}"
  by (auto simp: dom_def running_peer_ids_def reconciled split: if_splits option.splits)

text \<open>A task that died (its error handler raised, say) stays dead: the reconciliation counts it as running.\<close>

lemma dead_task_stays_dead:
  assumes "map_of (me_tasks M) i = Some False"
  shows "i \<notin> running_peer_ids (on_peer_config_change d M)"
  using assms by (simp add: running_peer_ids_def reconciled)

subsection \<open>Backoff\<close>

lemma w_db_set_db [simp]: "w_db (set_db w d) = d"
  by (simp add: set_db_def)

lemma repo_get_recorded [simp]:
  "repo_get_peer i (record_peer_error now j err b d) = (if i = j then map_option (\<lambda>p. touch_peer now
     (p\<lparr>sp_last_error := Some err, sp_last_error_ts := Some now, sp_backoff_seconds := b\<rparr>)) (repo_get_peer i d) else repo_get_peer i d)"
  "repo_get_peer i (record_pull_success now j d) = (if i = j then map_option (\<lambda>p. touch_peer now (p\<lparr>sp_last_pulled_ts := Some now,
     sp_last_error := None, sp_last_error_ts := None, sp_backoff_seconds := 0\<rparr>)) (repo_get_peer i d) else repo_get_peer i d)"
  "repo_get_peer i (record_push_success now j d) = (if i = j then map_option (\<lambda>p. touch_peer now (p\<lparr>sp_last_pushed_ts := Some now,
     sp_last_error := None, sp_last_error_ts := None, sp_backoff_seconds := 0\<rparr>)) (repo_get_peer i d) else repo_get_peer i d)"
  by (simp_all add: record_peer_error_def record_pull_success_def record_push_success_def repo_get_change_peer touch_peer_def)

lemma handle_error_bounds:
  assumes "handle_error now i x w = (s, w')"
  shows "DEFAULT_INTERVAL_S \<le> s \<and> s \<le> MAX_BACKOFF_S"
  using assms by (auto simp: handle_error_def DEFAULT_INTERVAL_S_def MAX_BACKOFF_S_def Let_def split: option.splits)

text \<open>While the peer cannot be reached: \<open>outage\<close> holds before each turn.\<close>

definition outage :: "mesh_cfg \<Rightarrow> string \<Rightarrow> int \<Rightarrow> world \<Rightarrow> bool" where
  "outage g i b w \<longleftrightarrow> (\<exists>p. repo_get_peer i (w_db w) = Some p \<and> sp_enabled p \<and> sp_backoff_seconds p = b \<and>
     truthy_str (sp_their_key_for_us p) \<and> truthy_str (decrypt_their_key (mc_vault g) (sp_their_key_for_us p)))"

lemma failed_call:
  assumes "\<And>q. \<exists>t. http q = Inl t"
  shows "\<exists>x. call_peer_pull c http u k since sc os = Inl x"
proof -
  obtain t where "http (pull_request c u k since sc os) = Inl t" using assms by blast
  then show ?thesis by (simp add: call_peer_pull_def send_def)
qed

lemma next_backoff: "(1::int) \<le> x \<Longrightarrow> min (max (min (30 * x) 3600 * 2) 30) 3600 = min (60 * x) 3600"
  by (simp add: min_def max_def)

lemma outage_round:
  assumes "\<And>q. \<exists>t. mc_http g q = Inl t" and "outage g i b w"
  shows "\<exists>w'. peer_round g e i w = (min (max (b * 2) 30) 3600, w') \<and> outage g i (min (max (b * 2) 30) 3600) w'"
proof -
  obtain p where p: "repo_get_peer i (w_db w) = Some p" "sp_enabled p" "sp_backoff_seconds p = b" "truthy_str (sp_their_key_for_us p)"
    "truthy_str (decrypt_their_key (mc_vault g) (sp_their_key_for_us p))"
    using assms(2) by (auto simp: outage_def)
  obtain x where "call_peer_pull (mc_codec g) (mc_http g) (sp_base_url p) (the (decrypt_their_key (mc_vault g) (sp_their_key_for_us p)))
      (skewed (sp_last_pulled_ts p)) (build_scope p (w_db w)) [mc_node g] = Inl x"
    using failed_call [of "mc_http g", OF assms(1)] by blast
  then have "sync_cycle g e i w = (Inl x, w)"
    using p by (simp add: sync_cycle_def attempt_def Let_def)
  then show ?thesis
    using p by (simp add: peer_round_def handle_error_def Let_def BACKOFF_MULTIPLIER_def DEFAULT_INTERVAL_S_def
        MAX_BACKOFF_S_def outage_def touch_peer_def)
qed

text \<open>
  C39: During an outage the engine backs off: from a peer whose calls all fail it waits 30 seconds after the
  first failure, twice as long after each further one, and never more than an hour.
\<close>

theorem outage_backoff:
  assumes "\<And>q. \<exists>t. mc_http g q = Inl t" and "outage g i 0 w"
  shows "fst (peer_loop g i es w) = map (\<lambda>k. min (30 * 2 ^ k) 3600) [0..<length es]"
proof -
  have "fst (peer_loop g i es w) = map (\<lambda>k. min (30 * 2 ^ (n + k)) 3600) [0..<length es]"
    if "outage g i b w" "min (max (b * 2) 30) 3600 = min (30 * 2 ^ n) 3600" for b n w
    using that
  proof (induction es arbitrary: b n w)
    case (Cons e es)
    obtain w' where w': "peer_round g e i w = (min (30 * 2 ^ n) 3600, w')" "outage g i (min (30 * 2 ^ n) 3600) w'"
      using outage_round [OF assms(1) Cons.prems(1), of e] Cons.prems(2) by auto
    have "min (max (min (30 * 2 ^ n) 3600 * 2) 30) 3600 = min (30 * 2 ^ Suc n) (3600::int)"
      using next_backoff [of "2 ^ n"] by simp
    from Cons.IH [OF w'(2) this] show ?case
      by (simp add: w'(1) Let_def split_beta upt_conv_Cons map_Suc_upt [symmetric] del: upt_Suc)
  qed simp
  from this [OF assms(2), of 0] show ?thesis by simp
qed


subsection \<open>Two nodes that hold the same row\<close>

lemma remote_newer:
  assumes "local_ts_of (mc_codec g) (local_row_of co cid m w) = Some l" "parse_ts (mc_codec g) (map_of m ''updated_at'') = Some r" "l < r"
  shows "\<exists>t. apply_row g e peer_id origin cid co m w =
    (case co_restore co PLATFORM t e (JList [JObj m]) [] w of
       (Inl _, w') \<Rightarrow> (Skipped, w')
     | (Inr _, w') \<Rightarrow> (Applied, set_db w' (record_row_origin (env_now e) cid (row_id_of m) origin (w_db w'))))"
  unfolding apply_row_def Let_def assms(1,2) using assms(3) by (simp add: lww_remote_wins_def) blast

lemma local_newer:
  assumes "local_ts_of (mc_codec g) (local_row_of co cid m w) = Some l" "parse_ts (mc_codec g) (map_of m ''updated_at'') = Some r" "r < l"
    and "apply_row g e peer_id origin cid co m w = (x, w')"
  obtains (kept) "x \<noteq> Applied" "w' = w" | (conflict) t d where "x \<noteq> Applied" "w' = set_db w d"
      "create_conflict (mc_fk g) (lww_conflict e peer_id cid t (the (local_row_of co cid m w)) m) (w_db w) = Inr d"
  using assms(4) unfolding apply_row_def Let_def assms(1,2) using assms(3)
  by (auto simp: lww_remote_wins_def split: sum.splits)

text \<open>What the engine needs of a contributor whose rows carry \<open>updated_at\<close>.\<close>

locale synced_table =
  fixes c :: codec and co :: contributor and dict :: "'r \<Rightarrow> row_dict" and key :: "'r \<Rightarrow> string" and stamp :: "'r \<Rightarrow> time"
    and lookup :: "string \<Rightarrow> db \<Rightarrow> 'r option" and admits :: "db \<Rightarrow> 'r \<Rightarrow> bool"
  assumes get_row: "\<exists>f. co_get_row co = Some f \<and> (\<forall>cid i w. f cid i w = map_option dict (lookup i (w_db w)))"
    and dict_id: "map_of (dict r) ''id'' = Some (JStr (key r))"
    and dict_ts: "codec_ok c \<Longrightarrow> parse_ts c (map_of (dict r) ''updated_at'') = Some (stamp r)"
    and lookup_key: "lookup i d = Some r \<Longrightarrow> key r = i"
    and restores: "codec_ok c \<Longrightarrow> admits (w_db w) r \<Longrightarrow> lookup (key r) (w_db w) = Some s \<Longrightarrow> stamp s \<noteq> stamp r \<Longrightarrow>
      \<exists>n w'. co_restore co PLATFORM t e (JList [JObj (dict r)]) [] w = (Inr n, w') \<and> lookup (key r) (w_db w') = Some r"
    and origin_apart: "lookup i (record_row_origin now cid j org d) = lookup i d"
    and conflict_apart: "create_conflict fk x d = Inr d' \<Longrightarrow> lookup i d' = lookup i d"
begin

lemma local_row:
  assumes "lookup (key r) (w_db w) = Some s" "key r \<noteq> []"
  shows "local_row_of co cid (dict r) w = Some (dict s)"
proof -
  have "row_id_of (dict r) = key r" by (simp add: row_id_of_def dict_id)
  then show ?thesis using get_row assms by (auto simp: local_row_of_def)
qed

lemma one_side:
  assumes "codec_ok c" "mc_codec g = c" and s: "lookup i (w_db w) = Some s" and r: "key r = i" "i \<noteq> []"
    and "stamp s \<noteq> stamp r" "admits (w_db w) r"
    and a: "apply_row g e peer_id origin cid co (dict r) w = (x, w')"
  shows "lookup i (w_db w') = Some (if stamp s < stamp r then r else s) \<and> (x = Applied \<longleftrightarrow> stamp s < stamp r)"
proof -
  have l: "local_ts_of (mc_codec g) (local_row_of co cid (dict r) w) = Some (stamp s)"
    "parse_ts (mc_codec g) (map_of (dict r) ''updated_at'') = Some (stamp r)"
    using local_row [of r w s cid] s r assms(1,2) by (simp_all add: local_ts_of_def dict_ts)
  show ?thesis
  proof (cases "stamp s < stamp r")
    case True
    obtain t where t: "apply_row g e peer_id origin cid co (dict r) w = (case co_restore co PLATFORM t e (JList [JObj (dict r)]) [] w of
         (Inl _, w') \<Rightarrow> (Skipped, w')
       | (Inr _, w') \<Rightarrow> (Applied, set_db w' (record_row_origin (env_now e) cid (row_id_of (dict r)) origin (w_db w'))))"
      using remote_newer [OF l True] by blast
    obtain n w1 where "co_restore co PLATFORM t e (JList [JObj (dict r)]) [] w = (Inr n, w1)" "lookup (key r) (w_db w1) = Some r"
      using restores [OF assms(1,7), of s t e] s r assms(6) by blast
    with t a True r show ?thesis by (auto simp: origin_apart set_db_def)
  next
    case False
    then have "stamp r < stamp s" using assms(6) by simp
    from l this a show ?thesis
      by (rule local_newer) (use False s conflict_apart in \<open>auto simp: set_db_def\<close>)
  qed
qed

end

lemma dict_no_clash:
  assumes "table_ok tb good pk" "\<And>s. s \<in> set t \<Longrightarrow> pk s = pk r \<Longrightarrow> col_json (tb_cols tb) ''updated_at'' s \<noteq> col_json (tb_cols tb) ''updated_at'' r"
  shows "no_clash tb pk t r"
  using assms by (auto simp: no_clash_def)

lemma iso_inj: "codec_ok c \<Longrightarrow> cd_iso c s = cd_iso c t \<longleftrightarrow> s = t"
  by (metis codec_ok_def option.inject)


lemma get_by_JStr: "get_by (\<lambda>r. JStr (k r)) (JStr i) t = get_by k i t"
  by (simp add: get_by_def)

lemma restored_row:
  assumes ok: "table_ok tb good (\<lambda>r. JStr (k r))" and "good r" and "no_clash tb (\<lambda>r. JStr (k r)) t r"
    and "constraint (merge_row (\<lambda>r. JStr (k r)) r t)"
  shows "upsert_rows tb constraint e n [row_to_dict (tb_cols tb) r] t = Inr (merge_row (\<lambda>r. JStr (k r)) r t) \<and>
    get_by k (k r) (merge_row (\<lambda>r. JStr (k r)) r t) = Some r"
  using merge_exported [OF assms(1-3)] assms(4) get_by_merge_row [of "\<lambda>r. JStr (k r)" "JStr (k r)" r t] by (simp add: get_by_JStr)

lemma rows_of_single [simp]: "rows_of (JList [JObj m]) = Inr [m]"
  using rows_of_objs [of "[m]"] by simp

lemma tables_apart:
  "items (record_row_origin now cid j org d) = items d" "settings (record_row_origin now cid j org d) = settings d"
  "create_conflict fk x d = Inr d' \<Longrightarrow> items d' = items d" "create_conflict fk x d = Inr d' \<Longrightarrow> settings d' = settings d"
  by (auto simp: record_row_origin_def create_conflict_def map_sum_Inr split: if_splits)

lemma same_keys: "get_by k (k r) t = Some s \<Longrightarrow> map k (merge_row (\<lambda>r. JStr (k r)) r t) = map k t"
  by (auto simp: merge_row_def get_by_JStr update_by_def update_where_def)

lemma stored_stamp_differs:
  assumes "distinct (map k t)" "get_by k (k r) t = Some s" "P s" "q \<in> set t" "JStr (k q) = JStr (k r)"
  shows "P q"
  using assms by (metis distinct_keyD get_by_SomeD json.inject(3))

lemma item_dict:
  "map_of (row_to_dict (item_cols c) r) ''id'' = Some (JStr (it_id r))"
  "codec_ok c \<Longrightarrow> parse_ts c (map_of (row_to_dict (item_cols c) r) ''updated_at'') = Some (it_updated_at r)"
  "codec_ok c \<Longrightarrow> col_json (item_cols c) ''updated_at'' q = col_json (item_cols c) ''updated_at'' r \<longleftrightarrow> it_updated_at q = it_updated_at r"
  by (simp_all add: item_cols_def col_json_def row_to_dict_def col_defs parse_ts_def iso_inj)

lemma setting_dict:
  "map_of (row_to_dict (setting_cols c) s) ''id'' = Some (JStr (se_id s))"
  "codec_ok c \<Longrightarrow> parse_ts c (map_of (row_to_dict (setting_cols c) s) ''updated_at'') = Some (se_updated_at s)"
  "codec_ok c \<Longrightarrow> col_json (setting_cols c) ''updated_at'' q = col_json (setting_cols c) ''updated_at'' s \<longleftrightarrow> se_updated_at q = se_updated_at s"
  by (simp_all add: setting_cols_def col_json_def row_to_dict_def col_defs parse_ts_def iso_inj)

lemma restored_item:
  assumes "codec_ok c" "items_ok (items (w_db w))" "get_by it_id (it_id r) (items (w_db w)) = Some s" "it_updated_at s \<noteq> it_updated_at r"
  shows "\<exists>n w'. co_restore (items_contributor c) PLATFORM t e (JList [JObj (row_to_dict (item_cols c) r)]) [] w = (Inr n, w') \<and>
    get_by it_id (it_id r) (items (w_db w')) = Some r"
proof -
  have cols: "tb_cols (item_table c) = item_cols c" by (simp add: item_table_def)
  have "no_clash (item_table c) (\<lambda>r. JStr (it_id r)) (items (w_db w)) r"
    using stored_stamp_differs [of it_id "items (w_db w)" r s "\<lambda>q. it_updated_at q \<noteq> it_updated_at r"] assms
    by (intro dict_no_clash [OF item_table_ok]) (auto simp: items_ok_def cols item_dict)
  then show ?thesis
    using restored_row [OF item_table_ok [OF assms(1)], where r = r and t = "items (w_db w)" and constraint = items_ok and e = e and n = 0] assms(2,3)
    by (auto simp: items_contributor_def committed_def set_db_def items_ok_def same_keys cols)
qed

interpretation items_sync: synced_table c "items_contributor c" "row_to_dict (item_cols c)" it_id it_updated_at
  "\<lambda>i d. get_by it_id i (items d)" "\<lambda>d r. items_ok (items d)" for c
proof unfold_locales
  show "\<exists>f. co_get_row (items_contributor c) = Some f \<and>
      (\<forall>cid i w. f cid i w = map_option (row_to_dict (item_cols c)) (get_by it_id i (items (w_db w))))"
    by (simp add: items_contributor_def)
qed (auto simp: item_dict tables_apart dest: get_by_SomeD intro: restored_item)

text \<open>A setting is admitted when it takes no scope and key that another row has.\<close>

definition setting_admitted :: "codec \<Rightarrow> db \<Rightarrow> setting \<Rightarrow> bool" where
  "setting_admitted c d s \<longleftrightarrow> text_ok c (se_value_json s) \<and> settings_ok (settings d) \<and>
     settings_ok (merge_row (\<lambda>s. JStr (se_id s)) s (settings d))"

lemma restored_setting:
  assumes "codec_ok c" "setting_admitted c (w_db w) r" "get_by se_id (se_id r) (settings (w_db w)) = Some s" "se_updated_at s \<noteq> se_updated_at r"
  shows "\<exists>n w'. co_restore (settings_contributor c) PLATFORM t e (JList [JObj (row_to_dict (setting_cols c) r)]) [] w = (Inr n, w') \<and>
    get_by se_id (se_id r) (settings (w_db w')) = Some r"
proof -
  have cols: "tb_cols (setting_table c) = setting_cols c" by (simp add: setting_table_def)
  have "no_clash (setting_table c) (\<lambda>r. JStr (se_id r)) (settings (w_db w)) r"
    using stored_stamp_differs [of se_id "settings (w_db w)" r s "\<lambda>q. se_updated_at q \<noteq> se_updated_at r"] assms
    by (intro dict_no_clash [OF setting_table_ok]) (auto simp: setting_admitted_def settings_ok_def cols setting_dict)
  then show ?thesis
    using restored_row [OF setting_table_ok [OF assms(1)], where r = r and t = "settings (w_db w)" and constraint = settings_ok and e = e and n = 0] assms(2,3)
    by (auto simp: settings_contributor_def restore_settings_def committed_def set_db_def setting_admitted_def cols)
qed

interpretation settings_sync: synced_table c "settings_contributor c" "row_to_dict (setting_cols c)" se_id se_updated_at
  "\<lambda>i d. get_by se_id i (settings d)" "setting_admitted c" for c
proof unfold_locales
  show "\<exists>f. co_get_row (settings_contributor c) = Some f \<and>
      (\<forall>cid i w. f cid i w = map_option (row_to_dict (setting_cols c)) (get_by se_id i (settings (w_db w))))"
    by (simp add: settings_contributor_def)
qed (auto simp: setting_dict tables_apart dest: get_by_SomeD intro: restored_setting)


text \<open>
  Equal times: the rows of a pull have no known origin and are applied as if from \<open>unknown\<close>, which comes after
  every hexadecimal id and after \<open>singleton\<close>, so both nodes take the other's version.
\<close>

lemma pull_ties_swap: "node \<le> ''unknown'' \<Longrightarrow> lww_remote_wins (Some t) (Some t) ''unknown'' node"
  by (simp add: lww_remote_wins_def)

text \<open>With the ids of two nodes the tie is broken the same way on both.\<close>

lemma push_ties_agree: "a \<noteq> b \<Longrightarrow> lww_remote_wins (Some s) (Some t) a b \<longleftrightarrow> \<not> lww_remote_wins (Some t) (Some s) b a"
  by (auto simp: lww_remote_wins_def)


subsection \<open>Pushes\<close>

lemma fold_register:
  "snd ` set (svc_contributors (fold register cs svc)) \<subseteq> set cs \<union> snd ` set (svc_contributors svc)"
  by (induction cs arbitrary: svc) (fastforce simp: register_def dict_set_def split: if_splits)+

lemma built_contributors:
  assumes "(cid, co) \<in> set (svc_contributors (build_backup_service c a v up))"
  shows "co \<in> {tenants_contributor c, users_contributor c, settings_contributor c, secrets_contributor c, items_contributor c,
       audit_contributor c, files_contributor (the up) (256 * 1024 * 1024)}"
proof -
  let ?cs = "[tenants_contributor c, users_contributor c, settings_contributor c, secrets_contributor c, items_contributor c,
     audit_contributor c] @ (if truthy_str up then [files_contributor (the up) (256 * 1024 * 1024)] else [])"
  have "co \<in> set ?cs"
    using assms fold_register [of ?cs "\<lparr>svc_app_name = a, svc_app_version = v, svc_contributors = []\<rparr>"]
    unfolding build_backup_service_def by force
  then show ?thesis by (simp split: if_splits) blast
qed

lemma committed_peers:
  "(\<And>d. r = Inr d \<Longrightarrow> sync_peers d = sync_peers (w_db w)) \<Longrightarrow> sync_peers (w_db (snd (committed n w r))) = sync_peers (w_db w)"
  by (auto simp: committed_def split: sum.splits)

lemma restore_keeps_peers:
  assumes "(cid, co) \<in> set (svc_contributors (build_backup_service c a v up))"
  shows "sync_peers (w_db (snd (co_restore co scope t e rows files w))) = sync_peers (w_db w)"
  using built_contributors [OF assms]
  by (auto simp: tenants_contributor_def users_contributor_def settings_contributor_def secrets_contributor_def
      items_contributor_def audit_contributor_def files_contributor_def restore_settings_def Let_def
      split: sum.splits prod.splits intro!: committed_peers)

lemma apply_row_peers:
  assumes "(cid, co) \<in> set (svc_contributors (build_backup_service c a v up))"
  shows "sync_peers (w_db (snd (apply_row g e peer_id origin cid co m w))) = sync_peers (w_db w)"
  using restore_keeps_peers [OF assms]
  by (auto simp: apply_row_def Let_def create_conflict_def map_sum_Inr record_row_origin_def split: sum.splits prod.splits if_splits)
    (metis snd_conv)+

lemma apply_rows_peers:
  assumes "(cid, co) \<in> set (svc_contributors (build_backup_service c a v up))"
  shows "sync_peers (w_db (snd (apply_contributor_rows g e peer_id origin cid co k ms w))) = sync_peers (w_db w)"
  using apply_row_peers [OF assms] by (induction ms arbitrary: k w) (simp_all add: Let_def split_beta)

lemma apply_contributors_peers:
  assumes "mc_backup g = build_backup_service c a v up"
  shows "sync_peers (w_db (snd (apply_contributors g e peer_id origin k cdata w))) = sync_peers (w_db w)"
proof (induction cdata arbitrary: k w)
  case (Cons x rest)
  obtain cid j where x: "x = (cid, j)" by (cases x)
  show ?case
  proof (cases "map_of (svc_contributors (mc_backup g)) cid")
    case (Some co)
    then have co: "(cid, co) \<in> set (svc_contributors (build_backup_service c a v up))" using assms by (metis map_of_SomeD)
    show ?thesis
      using Cons.IH apply_rows_peers [OF co]
      by (simp add: x Some Let_def split_beta attempt_def split: sum.split prod.split)
  qed (simp add: x Cons.IH)
qed simp

lemma apply_bundle_peers:
  assumes "mc_backup g = build_backup_service c a v up"
  shows "sync_peers (w_db (snd (apply_bundle g e bundle peer_id origin w))) = sync_peers (w_db w)"
  using apply_contributors_peers [OF assms] by (simp add: apply_bundle_def split: sum.split prod.split)

text \<open>Applying rows makes no calls.\<close>

lemma apply_row_offline: "apply_row (g\<lparr>mc_http := h\<rparr>) e peer_id origin cid co m w = apply_row g e peer_id origin cid co m w"
  by (simp add: apply_row_def Let_def split: sum.split)

lemma apply_rows_offline:
  "apply_contributor_rows (g\<lparr>mc_http := h\<rparr>) e peer_id origin cid co k ms w = apply_contributor_rows g e peer_id origin cid co k ms w"
  by (induction ms arbitrary: k w) (simp_all add: apply_row_offline)

lemma apply_contributors_offline:
  "apply_contributors (g\<lparr>mc_http := h\<rparr>) e peer_id origin k cdata w = apply_contributors g e peer_id origin k cdata w"
proof (induction cdata arbitrary: k w)
  case (Cons x rest)
  then show ?case by (cases x) (simp add: apply_rows_offline split: option.split sum.split)
qed simp

lemma apply_bundle_offline: "apply_bundle (g\<lparr>mc_http := h\<rparr>) e raw peer_id origin w = apply_bundle g e raw peer_id origin w"
  by (simp add: apply_bundle_def apply_contributors_offline split: sum.split prod.split)

lemma no_push_bundle:
  assumes "mc_backup g = build_backup_service (mc_codec g) a v up" and "sp_last_pushed_ts p = Some t"
  shows "build_push_bundle g e p w = ('''', w)"
proof -
  obtain x where "export_platform_delta (mc_codec g) (mc_backup g) e (skewed (sp_last_pushed_ts p)) (Some [mc_node g])
      ''00000000-0000-0000-0000-000000000000'' ''sync-engine'' w = Inl x"
    unfolding assms skewed_def option.map using delta_since_raises by blast
  then show ?thesis by (simp add: build_push_bundle_def)
qed

text \<open>
  A peer is pushed to once and never again: from the first successful push on, no cycle sends a bundle,
  because the delta export of the changes since then fails and the failure is taken for an empty bundle;
  the cycle succeeds all the same, and the time of the last push never moves.
\<close>

theorem pushes_stop_after_first:
  assumes "mc_backup g = build_backup_service (mc_codec g) a v up"
    and "repo_get_peer i (w_db w) = Some p" "sp_last_pushed_ts p = Some t"
    and same: "\<And>q. (\<And>b n. hq_body q \<noteq> BundleBody b n) \<Longrightarrow> h q = mc_http g q"
  shows "sync_cycle (g\<lparr>mc_http := h\<rparr>) e i w = sync_cycle g e i w \<and>
    (\<forall>q. repo_get_peer i (w_db (snd (sync_cycle g e i w))) = Some q \<longrightarrow> sp_last_pushed_ts q = Some t)"
proof -
  have push: "push_stage f e i (set_db w2 (record_pull_success (env_now e) i (w_db w2))) =
      (Inr (), set_db w2 (record_pull_success (env_now e) i (w_db w2)))"
    if "sync_peers (w_db w2) = sync_peers (w_db w)" "mc_backup f = mc_backup g" "mc_codec f = mc_codec g" for f w2
  proof -
    have "repo_get_peer i (w_db w2) = Some p" using that(1) assms(2) by (simp add: repo_get_peer_def)
    then show ?thesis
      using no_push_bundle [of f a v up] that assms(1,3) by (simp add: push_stage_def touch_peer_def push_cycle_def)
  qed
  have pull: "call_peer_pull c h u k since sc os = call_peer_pull c (mc_http g) u k since sc os" for c u k since sc os
    by (simp add: call_peer_pull_def send_def same pull_request_def)
  show ?thesis
  proof (cases "sp_enabled p \<and> truthy_str (sp_their_key_for_us p) \<and> truthy_str (key_of (mc_vault g) p)")
    case False
    then have "sync_cycle f e i w = (Inr (), w)" if "mc_vault f = mc_vault g" for f
      using assms(2) that by (auto simp: sync_cycle_def push_cycle_def Let_def)
    then show ?thesis using assms(2,3) by simp
  next
    case True
    show ?thesis
    proof (cases "call_peer_pull (mc_codec g) (mc_http g) (sp_base_url p) (the (key_of (mc_vault g) p))
        (skewed (sp_last_pulled_ts p)) (build_scope p (w_db w)) [mc_node g]")
      case (Inl x)
      then show ?thesis using True assms(2,3) by (simp add: sync_cycle_def Let_def pull attempt_def)
    next
      case (Inr raw)
      obtain r w2 where r: "apply_bundle g e raw i None w = (r, w2)" by (metis surj_pair)
      have r': "apply_bundle (g\<lparr>mc_http := h\<rparr>) e raw i None w = (r, w2)"
        using r by (simp add: apply_bundle_offline)
      have keep: "sync_peers (w_db w2) = sync_peers (w_db w)" using apply_bundle_peers [OF assms(1)] r by (metis snd_conv)
      then have "repo_get_peer i (w_db w2) = Some p" using assms(2) by (simp add: repo_get_peer_def)
      then show ?thesis
        using True assms(2,3) Inr r r' push [OF keep, of g] push [OF keep, of "g\<lparr>mc_http := h\<rparr>"]
        by (cases r) (simp_all add: sync_cycle_def Let_def pull attempt_def touch_peer_def)
    qed
  qed
qed


text \<open>The pull that precedes a push resets the backoff, so a peer whose pushes fail is tried again every 30 seconds.\<close>

lemma push_bundle_peers: "build_push_bundle g e p w = (b, w') \<Longrightarrow> sync_peers (w_db w') = sync_peers (w_db w)"
  by (auto simp: build_push_bundle_def export_platform_delta_def audited_def set_db_def audit_log_entry_def split: sum.splits if_splits)

lemma push_failures_never_back_off:
  assumes "mc_backup g = build_backup_service c a v up"
    and p: "repo_get_peer i (w_db w) = Some p" "sp_enabled p" "truthy_str (sp_their_key_for_us p)" "truthy_str (key_of (mc_vault g) p)"
    and pull: "call_peer_pull (mc_codec g) (mc_http g) (sp_base_url p) (the (key_of (mc_vault g) p)) (skewed (sp_last_pulled_ts p))
      (build_scope p (w_db w)) [mc_node g] = Inr raw" "apply_bundle g e raw i None w = (Inr n, w2)"
    and failed: "sync_cycle g e i w = (Inl x, w')"
  shows "fst (peer_round g e i w) = DEFAULT_INTERVAL_S"
proof -
  have keep: "repo_get_peer i (w_db w2) = Some p" using apply_bundle_peers [OF assms(1)] pull(2) p(1) by (metis repo_get_peer_def snd_conv)
  let ?w = "set_db w2 (record_pull_success (env_now e) i (w_db w2))"
  have "push_stage g e i ?w = (Inl x, w')"
    using failed p pull by (simp add: sync_cycle_def attempt_def Let_def)
  then have "sync_peers (w_db w') = sync_peers (w_db ?w)"
    using push_bundle_peers [of g e _ ?w]
    by (auto simp: push_stage_def push_cycle_def Let_def split: option.splits prod.splits if_splits sum.splits)
  then have "\<exists>q. repo_get_peer i (w_db w') = Some q \<and> sp_backoff_seconds q = 0"
    using keep repo_get_recorded(2) [of i "env_now e" i "w_db w2"] by (simp add: repo_get_peer_def touch_peer_def)
  then show ?thesis
    using failed by (auto simp: peer_round_def handle_error_def DEFAULT_INTERVAL_S_def MAX_BACKOFF_S_def)
qed

subsection \<open>Every installation has the same name\<close>

lemma first_node:
  assumes "ensure_local_node e n d = Inr (node, d')" "platform_nodes d = []"
  shows "pn_id node = SINGLETON_ID"
  using assms by (auto simp: ensure_local_node_def create_platform_node_idempotent_def get_platform_node_def add_row_def)

lemma applied_origin:
  assumes "apply_row g e peer_id origin cid co m w = (Applied, w')"
  shows "get_row_origin cid (row_id_of m) (w_db w') =
    Some \<lparr>so_table_name = cid, so_row_id = row_id_of m, so_origin_node_id = origin, so_last_synced_ts = env_now e\<rparr>"
  using assms by (auto simp: apply_row_def Let_def get_row_origin_def record_row_origin_def get_by_merge_row origin_key_def
      split: if_splits sum.splits prod.splits)

text \<open>
  A mesh of two fresh installations loses updates: both nodes are called \<open>singleton\<close>, so a row one of them
  pushed is recorded by the other as its own, and every later version of that row it is sent is dropped as
  an echo.
\<close>

theorem mesh_updates_dropped:
  assumes "ensure_local_node e1 n1 d1 = Inr (local, d1')" "platform_nodes d1 = []" "mc_node g = pn_id local"
    and "ensure_local_node e2 n2 d2 = Inr (sender, d2')" "platform_nodes d2 = []"
    and first: "apply_row g e peer_id (pn_id sender) cid co m w = (Applied, w')"
    and "row_id_of m \<noteq> []" "row_id_of m' = row_id_of m" "map_of (svc_contributors (mc_backup g)) cid = Some co"
    and later: "later \<noteq> []" "sync_extract_bundle (mc_codec g) later = Inr (mf, [(cid, JList [JObj m'])])"
  shows "apply_bundle g e' later peer_id origin w' = (Inr (0, 1, 0), w')"
proof -
  have "pn_id local = pn_id sender" using first_node assms(1,2,4,5) by metis
  then have "filter_rows_by_origin cid [mc_node g] (w_db w') [m'] = []"
    using applied_origin [OF first] assms(3,7,8) by (simp add: filter_rows_by_origin_def)
  then show ?thesis using later assms(9) by (simp add: apply_bundle_def attempt_def)
qed


subsection \<open>Instances\<close>

text \<open>The codec of the other witnesses, with archives that are never empty.\<close>

definition mesh_codec :: codec where
  "mesh_codec = demo_codec\<lparr>cd_tar := (\<lambda>ms. CHR ''T'' # replicate (to_nat ms) (CHR ''m'')),
     cd_untar := (\<lambda>s. Some (from_nat (length (tl s))))\<rparr>"

lemma mesh_codec_ok [simp]: "codec_ok mesh_codec"
  using demo_codec_ok by (simp add: codec_ok_def mesh_codec_def parse_iso_def)

definition mesh_bundle :: "row_dict \<Rightarrow> string" where
  "mesh_bundle m = cd_tar mesh_codec [(''manifest.json'', cd_dumps mesh_codec (manifest_to_json mesh_codec demo_manifest)),
     (''data/settings.json'', cd_dumps mesh_codec (JList [JObj m]))]"

lemma mesh_bundle_nonempty: "mesh_bundle m \<noteq> []"
  by (simp add: mesh_bundle_def mesh_codec_def)

lemma mesh_bundle_extracted:
  "sync_extract_bundle mesh_codec (mesh_bundle m) = Inr (demo_manifest, [(''settings'', JList [JObj m])])"
proof -
  have "cd_untar mesh_codec (cd_tar mesh_codec ms) = Some ms" "cd_loads mesh_codec (cd_dumps mesh_codec j) = Some j" for ms j
    using mesh_codec_ok by (simp_all add: codec_ok_def)
  then show ?thesis
    by (simp add: sync_extract_bundle_def mesh_bundle_def read_manifest_def manifest_roundtrip starts_with_def ends_with_def dict_set_def)
qed

definition demo_mesh :: mesh_cfg where
  "demo_mesh = \<lparr>mc_codec = mesh_codec, mc_backup = build_backup_service mesh_codec ''app'' ''1'' None, mc_vault = demo_vault,
     mc_http = (\<lambda>q. Inl ''down''), mc_node = ''singleton'', mc_fk = True, mc_interval = 30\<rparr>"

lemma demo_mesh_simps: "mc_codec demo_mesh = mesh_codec" "mc_node demo_mesh = ''singleton''"
  by (simp_all add: demo_mesh_def)

definition demo_mesh_world :: world where
  "demo_mesh_world = \<lparr>w_db = demo_peer_db, w_fs = []\<rparr>"

lemma demo_mesh_settings: "map_of (svc_contributors (mc_backup demo_mesh)) ''settings'' = Some (settings_contributor mesh_codec)"
  by (simp add: demo_mesh_def registered)

theorem rows_accounted_for_witness:
  "\<exists>a s c w'. apply_bundle demo_mesh demo_env (mesh_bundle []) ''p1'' None demo_mesh_world = (Inr (a, s, c), w') \<and> a + s + c = 1"
proof -
  have "\<exists>n w'. apply_bundle demo_mesh demo_env (mesh_bundle []) ''p1'' None demo_mesh_world = (Inr n, w')"
    by (simp add: apply_bundle_def mesh_bundle_nonempty demo_mesh_def mesh_bundle_extracted registered attempt_def Let_def split_beta truthy_str_def)
      (metis prod_cases3)
  then obtain a s c w' where r: "apply_bundle demo_mesh demo_env (mesh_bundle []) ''p1'' None demo_mesh_world = (Inr (a, s, c), w')"
    by (metis prod_cases3)
  have "sync_extract_bundle (mc_codec demo_mesh) (mesh_bundle []) = Inr (demo_manifest, [(''settings'', JList [JObj []])])"
    by (simp add: mesh_bundle_extracted demo_mesh_def)
  from rows_accounted_for [OF r mesh_bundle_nonempty this] have "a + s + c = 1"
    by (simp add: bundle_rows_def demo_mesh_settings)
  with r show ?thesis by blast
qed

theorem outage_backoff_witness:
  "fst (peer_loop demo_mesh ''p1'' (replicate 9 demo_env) demo_mesh_world) = [30, 60, 120, 240, 480, 960, 1920, 3600, 3600]"
proof -
  have "\<exists>t. mc_http demo_mesh q = Inl t" for q by (simp add: demo_mesh_def)
  moreover have "outage demo_mesh ''p1'' 0 demo_mesh_world"
    by (simp add: outage_def demo_mesh_world_def demo_peer_db_def repo_get_peer_def demo_peer_def truthy_str_def
        decrypt_their_key_def VAULT_PREFIX_def starts_with_def)
  ultimately have "fst (peer_loop demo_mesh ''p1'' (replicate 9 demo_env) demo_mesh_world) =
      map (\<lambda>k. min (30 * 2 ^ k) 3600) [0..<length (replicate 9 demo_env)]" by (rule outage_backoff)
  then show ?thesis by (simp add: upt_rec)
qed

definition demo_mesh_item :: "time \<Rightarrow> string \<Rightarrow> item" where
  "demo_mesh_item t n = \<lparr>it_id = ''i1'', it_tenant_id = ''t1'', it_name = n, it_description = None, it_is_active = True,
     it_created_by = None, it_search_vector = None, it_created_at = 0, it_updated_at = t\<rparr>"

definition demo_item_world :: "item \<Rightarrow> world" where
  "demo_item_world x = \<lparr>w_db = demo_peer_db\<lparr>items := [x]\<rparr>, w_fs = []\<rparr>"


theorem pushes_stop_after_first_witness:
  "sync_cycle (demo_mesh\<lparr>mc_http := (\<lambda>q. case hq_body q of BundleBody b n \<Rightarrow> Inr (200, ''{}'') | _ \<Rightarrow> Inl ''down'')\<rparr>) demo_env ''p1''
     \<lparr>w_db = empty_db\<lparr>sync_peers := [demo_peer\<lparr>sp_last_pushed_ts := Some 5\<rparr>]\<rparr>, w_fs = []\<rparr> =
   sync_cycle demo_mesh demo_env ''p1'' \<lparr>w_db = empty_db\<lparr>sync_peers := [demo_peer\<lparr>sp_last_pushed_ts := Some 5\<rparr>]\<rparr>, w_fs = []\<rparr>"
proof -
  let ?p = "demo_peer\<lparr>sp_last_pushed_ts := Some 5\<rparr>"
  have "mc_backup demo_mesh = build_backup_service (mc_codec demo_mesh) ''app'' ''1'' None" by (simp add: demo_mesh_def)
  moreover have "repo_get_peer ''p1'' (w_db \<lparr>w_db = empty_db\<lparr>sync_peers := [?p]\<rparr>, w_fs = []\<rparr>) = Some ?p" "sp_last_pushed_ts ?p = Some 5"
    by (simp_all add: repo_get_peer_def demo_peer_def)
  moreover have "(case hq_body q of BundleBody b n \<Rightarrow> Inr (200, ''{}'') | _ \<Rightarrow> Inl ''down'') = mc_http demo_mesh q"
    if "\<And>b n. hq_body q \<noteq> BundleBody b n" for q
    using that by (simp add: demo_mesh_def split: http_body.split)
  ultimately show ?thesis by (intro pushes_stop_after_first [THEN conjunct1]) auto
qed

definition demo_mesh_setting :: "time \<Rightarrow> setting" where
  "demo_mesh_setting t = \<lparr>se_id = ''s1'', se_scope = ''global'', se_scope_id = None, se_key = ''k'', se_value_json = JText (JInt 1),
     se_updated_by = None, se_created_at = 0, se_updated_at = t\<rparr>"

abbreviation setting_dict_at :: "time \<Rightarrow> row_dict" where
  "setting_dict_at t \<equiv> row_to_dict (setting_cols mesh_codec) (demo_mesh_setting t)"

lemma demo_first_push:
  "\<exists>w'. apply_row demo_mesh demo_env ''p1'' ''singleton'' ''settings'' (settings_contributor mesh_codec) (setting_dict_at 5) demo_mesh_world = (Applied, w')"
proof -
  have cols: "tb_cols (setting_table mesh_codec) = setting_cols mesh_codec" by (simp add: setting_table_def)
  have none: "settings (w_db demo_mesh_world) = []" by (simp add: demo_mesh_world_def demo_peer_db_def empty_db_def)
  have "upsert_rows (setting_table mesh_codec) settings_ok demo_env 0 [setting_dict_at 5] [] =
      Inr (merge_row (\<lambda>s. JStr (se_id s)) (demo_mesh_setting 5) [])"
    using restored_row [OF setting_table_ok [OF mesh_codec_ok], where r = "demo_mesh_setting 5" and t = "[]" and constraint = settings_ok]
    by (simp add: cols demo_mesh_setting_def merge_row_def add_row_def settings_ok_def)
  moreover have "local_row_of (settings_contributor mesh_codec) ''settings'' (setting_dict_at 5) demo_mesh_world = None"
    by (simp add: local_row_of_def settings_contributor_def none)
  ultimately show ?thesis
    by (simp add: apply_row_def Let_def local_ts_of_def lww_remote_wins_def settings_contributor_def restore_settings_def none
        committed_def split: option.split)
qed

theorem mesh_updates_dropped_witness:
  "\<exists>w'. apply_row demo_mesh demo_env ''p1'' ''singleton'' ''settings'' (settings_contributor mesh_codec) (setting_dict_at 5) demo_mesh_world = (Applied, w') \<and>
     apply_bundle demo_mesh demo_env (mesh_bundle (setting_dict_at 900)) ''p1'' None w' = (Inr (0, 1, 0), w')"
proof -
  obtain w' where w': "apply_row demo_mesh demo_env ''p1'' ''singleton'' ''settings'' (settings_contributor mesh_codec) (setting_dict_at 5)
      demo_mesh_world = (Applied, w')" using demo_first_push by blast
  obtain n d where n: "ensure_local_node demo_env ''a'' empty_db = Inr (n, d)" "pn_id n = ''singleton''"
    by (simp add: ensure_local_node_def create_platform_node_idempotent_def get_platform_node_def add_row_def empty_db_def SINGLETON_ID_def)
  have "row_id_of (setting_dict_at t) = ''s1''" for t by (simp add: row_id_of_def setting_dict demo_mesh_setting_def)
  then have "apply_bundle demo_mesh demo_env (mesh_bundle (setting_dict_at 900)) ''p1'' None w' = (Inr (0, 1, 0), w')"
    using mesh_updates_dropped [OF n(1) _ _ n(1) _ w' [folded n(2)], where m' = "setting_dict_at 900"
        and later = "mesh_bundle (setting_dict_at 900)" and mf = demo_manifest and origin = None and e' = demo_env]
    by (simp add: n(2) demo_mesh_settings demo_mesh_simps mesh_bundle_nonempty mesh_bundle_extracted empty_db_def)
  with w' show ?thesis by blast
qed

end
