(* ===== verification/TaskEngine.thy ===== *)
theory TaskEngine
  imports CoreTypes
begin

section \<open>The task engine\<close>

text \<open>
  \<open>core/task_engine.py\<close> and \<open>api/v1/tasks.py\<close>, with the streaming loop of \<open>api/v1/ws.py\<close>.  The engine
  is its four dictionaries; what \<open>asyncio\<close> adds is a handle per task (not started, executing, suspended in
  a question, ended, each with the flag a call of \<open>cancel\<close> sets) and the queue of notifications that
  \<open>ensure_future\<close> has scheduled but the loop has not run.  The coroutines the callers submit are unknown: the
  step relation allows them every call of the engine at every moment, and every outcome.  One question is
  open per task at a time.
\<close>

subsection \<open>State\<close>

datatype task_status = PENDING | RUNNING | COMPLETED | FAILED | CANCELLED | WAITING

fun task_status_value :: "task_status \<Rightarrow> string" where
  "task_status_value PENDING = ''pending''"
| "task_status_value RUNNING = ''running''"
| "task_status_value COMPLETED = ''completed''"
| "task_status_value FAILED = ''failed''"
| "task_status_value CANCELLED = ''cancelled''"
| "task_status_value WAITING = ''waiting''"

record task =
  ta_id :: string
  ta_name :: string
  ta_type :: string
  ta_status :: task_status
  ta_progress :: int
  ta_status_text :: string
  ta_result :: json
  ta_error :: string
  ta_output_lines :: "string list"
  ta_created_at :: time
  ta_started_at :: "time option"
  ta_completed_at :: "time option"
  ta_metadata :: "(string \<times> json) list"
  ta_pending_question :: "(string \<times> string list option) option"

datatype event =
    EvOutput string
  | EvProgress int string
  | EvQuestion string "string list option"
  | EvDone task_status json string

datatype handle = Unstarted bool | Executing bool | Asking bool | Ended

datatype future = Unresolved | Resolved string

record engine =
  en_tasks :: "(string, task) alist"
  en_running :: "(string, handle) alist"
  en_subscribers :: "(string, (nat \<times> event list) list) alist"
  en_answers :: "(string, future) alist"
  en_scheduled :: "(string \<times> event) list"

definition empty_engine :: engine where
  "empty_engine = \<lparr>en_tasks = [], en_running = [], en_subscribers = [], en_answers = [], en_scheduled = []\<rparr>"

definition is_terminal :: "task_status \<Rightarrow> bool" where
  "is_terminal st \<longleftrightarrow> st = COMPLETED \<or> st = FAILED \<or> st = CANCELLED"

subsection \<open>Queries\<close>

definition list_tasks :: "bool \<Rightarrow> engine \<Rightarrow> task list" where
  "list_tasks include_completed E =
     sort_desc ta_created_at (filter (\<lambda>t. include_completed \<or> ta_status t = PENDING \<or> ta_status t = RUNNING)
       (map snd (en_tasks E)))"

definition get_task :: "string \<Rightarrow> engine \<Rightarrow> task option" where
  "get_task i E = map_of (en_tasks E) i"

definition status_count :: "task_status \<Rightarrow> engine \<Rightarrow> nat" where
  "status_count st E = length (filter (\<lambda>(_, t). ta_status t = st) (en_tasks E))"

definition get_summary :: "engine \<Rightarrow> (string \<times> nat) list" where
  "get_summary E =
     (let counts = map (\<lambda>st. (task_status_value st, status_count st E)) [RUNNING, PENDING, COMPLETED, FAILED, CANCELLED, WAITING]
      in counts @ [(''total'', sum_list (map snd counts))])"

subsection \<open>Notifications\<close>

definition put_nowait :: "event \<Rightarrow> nat \<times> event list \<Rightarrow> nat \<times> event list" where
  "put_nowait ev q = (if length (snd q) < 256 then (fst q, snd q @ [ev]) else q)"

definition notify :: "string \<Rightarrow> event \<Rightarrow> engine \<Rightarrow> engine" where
  "notify i ev E = E\<lparr>en_subscribers := map (\<lambda>(k, qs). (k, if k = i then map (put_nowait ev) qs else qs)) (en_subscribers E)\<rparr>"

definition schedule_notify :: "string \<Rightarrow> event \<Rightarrow> engine \<Rightarrow> engine" where
  "schedule_notify i ev E = E\<lparr>en_scheduled := en_scheduled E @ [(i, ev)]\<rparr>"

subsection \<open>Lifecycle\<close>

definition set_task :: "string \<Rightarrow> task \<Rightarrow> engine \<Rightarrow> engine" where
  "set_task i t E = E\<lparr>en_tasks := dict_set i t (en_tasks E)\<rparr>"

definition set_handle :: "string \<Rightarrow> handle \<Rightarrow> engine \<Rightarrow> engine" where
  "set_handle i h E = E\<lparr>en_running := dict_set i h (en_running E)\<rparr>"

definition new_task :: "time \<Rightarrow> string \<Rightarrow> string \<Rightarrow> string \<Rightarrow> (string \<times> json) list \<Rightarrow> task" where
  "new_task now i name ty metadata =
     \<lparr>ta_id = i, ta_name = name, ta_type = ty, ta_status = PENDING, ta_progress = 0, ta_status_text = '''',
      ta_result = JNull, ta_error = '''', ta_output_lines = [], ta_created_at = now, ta_started_at = None,
      ta_completed_at = None, ta_metadata = metadata, ta_pending_question = None\<rparr>"

definition submit :: "time \<Rightarrow> string \<Rightarrow> string \<Rightarrow> string \<Rightarrow> (string \<times> json) list \<Rightarrow> engine \<Rightarrow> engine" where
  "submit now i name ty metadata E = set_handle i (Unstarted False) (set_task i (new_task now i name ty metadata) E)"

definition run_start :: "time \<Rightarrow> string \<Rightarrow> task \<Rightarrow> engine \<Rightarrow> engine" where
  \<comment> \<open>The first step of the wrapper coroutine.\<close>
  "run_start now i t E = set_handle i (Executing False) (set_task i (t\<lparr>ta_status := RUNNING, ta_started_at := Some now\<rparr>) E)"

datatype outcome = Returned json | Raised string | WasCancelled

fun finished_task :: "time \<Rightarrow> outcome \<Rightarrow> task \<Rightarrow> task" where
  "finished_task now (Returned r) t = t\<lparr>ta_result := r, ta_status := COMPLETED, ta_progress := 100, ta_completed_at := Some now\<rparr>"
| "finished_task now (Raised m) t = t\<lparr>ta_error := m, ta_status := FAILED, ta_completed_at := Some now\<rparr>"
| "finished_task now WasCancelled t = t\<lparr>ta_status := CANCELLED, ta_completed_at := Some now\<rparr>"

definition done_event :: "task \<Rightarrow> event" where
  "done_event t = EvDone (ta_status t) (ta_result t) (ta_error t)"

definition run_finish :: "time \<Rightarrow> string \<Rightarrow> outcome \<Rightarrow> task \<Rightarrow> engine \<Rightarrow> engine" where
  "run_finish now i r t E =
     (let t' = finished_task now r t in set_handle i Ended (notify i (done_event t') (set_task i t' E)))"

fun cancelled_handle :: "handle \<Rightarrow> handle" where
  "cancelled_handle (Unstarted c) = Unstarted True"
| "cancelled_handle (Executing c) = Executing True"
| "cancelled_handle (Asking c) = Asking True"
| "cancelled_handle Ended = Ended"

definition cancel :: "string \<Rightarrow> engine \<Rightarrow> bool \<times> engine" where
  "cancel i E =
     (case map_of (en_running E) i of
        None \<Rightarrow> (False, E)
      | Some h \<Rightarrow> if h = Ended then (False, E) else (True, set_handle i (cancelled_handle h) E))"

subsection \<open>Calls from within a task\<close>

definition emit_output :: "string \<Rightarrow> string \<Rightarrow> engine \<Rightarrow> engine" where
  "emit_output i line E =
     (case map_of (en_tasks E) i of
        None \<Rightarrow> E
      | Some t \<Rightarrow> schedule_notify i (EvOutput line) (set_task i (t\<lparr>ta_output_lines := ta_output_lines t @ [line]\<rparr>) E))"

definition update_progress :: "string \<Rightarrow> int \<Rightarrow> string \<Rightarrow> engine \<Rightarrow> engine" where
  "update_progress i progress status_text E =
     (case map_of (en_tasks E) i of
        None \<Rightarrow> E
      | Some t \<Rightarrow>
          let t' = t\<lparr>ta_progress := min 100 (max 0 progress),
                     ta_status_text := if status_text \<noteq> [] then status_text else ta_status_text t\<rparr>
          in schedule_notify i (EvProgress (ta_progress t') (ta_status_text t')) (set_task i t' E))"

definition ask_begin :: "string \<Rightarrow> string \<Rightarrow> string list option \<Rightarrow> engine \<Rightarrow> error + engine" where
  \<comment> \<open>\<open>ask_question\<close> up to its \<open>await\<close>.\<close>
  "ask_begin i question options E =
     (case map_of (en_tasks E) i of
        None \<Rightarrow> Inl (ValueError (''Task '' @ quoted i @ '' not found''))
      | Some t \<Rightarrow> Inr (notify i (EvQuestion question options)
          ((set_task i (t\<lparr>ta_status := WAITING, ta_pending_question := Some (question, options)\<rparr>) E)
             \<lparr>en_answers := dict_set i Unresolved (en_answers E)\<rparr>)))"

definition ask_end :: "string \<Rightarrow> task \<Rightarrow> engine \<Rightarrow> string \<times> engine" where
  \<comment> \<open>The rest: the answer, or the empty string when the time ran out.\<close>
  "ask_end i t E =
     ((case map_of (en_answers E) i of Some (Resolved a) \<Rightarrow> a | _ \<Rightarrow> ''''),
      (set_task i (t\<lparr>ta_status := RUNNING, ta_pending_question := None\<rparr>) E)\<lparr>en_answers := dict_pop i (en_answers E)\<rparr>)"

definition submit_answer :: "string \<Rightarrow> string \<Rightarrow> engine \<Rightarrow> bool \<times> engine" where
  "submit_answer i answer E =
     (case map_of (en_answers E) i of
        Some Unresolved \<Rightarrow> (True, E\<lparr>en_answers := dict_set i (Resolved answer) (en_answers E)\<rparr>)
      | _ \<Rightarrow> (False, E))"

subsection \<open>Subscriptions and maintenance\<close>

definition queues_of :: "string \<Rightarrow> engine \<Rightarrow> (nat \<times> event list) list" where
  "queues_of i E = (case map_of (en_subscribers E) i of None \<Rightarrow> [] | Some qs \<Rightarrow> qs)"

definition subscribe :: "string \<Rightarrow> nat \<Rightarrow> engine \<Rightarrow> engine" where
  "subscribe i q E = E\<lparr>en_subscribers := dict_set i (queues_of i E @ [(q, [])]) (en_subscribers E)\<rparr>"

definition unsubscribe :: "string \<Rightarrow> nat \<Rightarrow> engine \<Rightarrow> engine" where
  "unsubscribe i q E =
     (if map_of (en_subscribers E) i = None then E
      else E\<lparr>en_subscribers := dict_set i (filter (\<lambda>p. fst p \<noteq> q) (queues_of i E)) (en_subscribers E)\<rparr>)"

definition consume :: "string \<Rightarrow> nat \<Rightarrow> engine \<Rightarrow> engine" where
  \<comment> \<open>\<open>queue.get\<close> of a subscriber.\<close>
  "consume i q E =
     E\<lparr>en_subscribers := map (\<lambda>(k, qs). (k, map (\<lambda>p. if k = i \<and> fst p = q then (fst p, tl (snd p)) else p) qs)) (en_subscribers E)\<rparr>"

definition drop_task :: "string \<Rightarrow> engine \<Rightarrow> engine" where
  "drop_task i E = E\<lparr>en_tasks := dict_pop i (en_tasks E), en_running := dict_pop i (en_running E),
     en_subscribers := dict_pop i (en_subscribers E)\<rparr>"

definition completed_key :: "task \<Rightarrow> int" where
  \<comment> \<open>\<open>t.completed_at or ""\<close>: a missing time sorts before every other.\<close>
  "completed_key t = (case ta_completed_at t of None \<Rightarrow> 0 | Some x \<Rightarrow> 1 + max 0 x)"

definition cleanup_victims :: "int \<Rightarrow> engine \<Rightarrow> string list" where
  "cleanup_victims max_completed E =
     map ta_id (py_drop max_completed
       (sort_desc completed_key (filter (\<lambda>t. is_terminal (ta_status t)) (map snd (en_tasks E)))))"

definition cleanup_old :: "int \<Rightarrow> engine \<Rightarrow> nat \<times> engine" where
  "cleanup_old max_completed E =
     (let vs = cleanup_victims max_completed E in (length vs, fold drop_task vs E))"

definition deliver :: "engine \<Rightarrow> engine" where
  \<comment> \<open>The loop runs the oldest scheduled notification.\<close>
  "deliver E =
     (case en_scheduled E of [] \<Rightarrow> E | (i, ev) # rest \<Rightarrow> notify i ev (E\<lparr>en_scheduled := rest\<rparr>))"

subsection \<open>The endpoints\<close>

definition cancel_task :: "string \<Rightarrow> engine \<Rightarrow> error + engine" where
  "cancel_task i E =
     (case get_task i E of
        None \<Rightarrow> Inl (AppError ''Task not found'' 404)
      | Some t \<Rightarrow>
          if ta_status t \<notin> {PENDING, RUNNING, WAITING} then Inl (AppError ''Task is not in a cancellable state'' 400)
          else let (ok, E') = cancel i E
            in if ok then Inr E' else Inl (AppError ''Task could not be cancelled'' 400))"

definition respond_to_task :: "string \<Rightarrow> string \<Rightarrow> engine \<Rightarrow> error + engine" where
  "respond_to_task i answer E =
     (if answer = [] then Inl (AppError ''answer is required'' 400)
      else case get_task i E of
        None \<Rightarrow> Inl (AppError ''Task not found'' 404)
      | Some t \<Rightarrow>
          if ta_status t \<noteq> WAITING then Inl (AppError ''Task is not waiting for input'' 400)
          else let (ok, E') = submit_answer i answer E
            in if ok then Inr E' else Inl (AppError ''No pending question to answer'' 400))"

definition clear_finished :: "engine \<Rightarrow> nat \<times> engine" where
  "clear_finished E =
     (let vs = map fst (filter (\<lambda>(_, t). is_terminal (ta_status t)) (en_tasks E))
      in (length vs, fold drop_task vs E))"

definition get_task_ep :: "string \<Rightarrow> engine \<Rightarrow> error + task" where
  "get_task_ep i E = (case get_task i E of None \<Rightarrow> Inl (AppError ''Task not found'' 404) | Some t \<Rightarrow> Inr t)"

fun stream_until_done :: "event list \<Rightarrow> event list" where
  \<comment> \<open>What \<open>task_stream\<close> sends of the events its queue yields.\<close>
  "stream_until_done [] = []"
| "stream_until_done (EvDone st r m # evs) = [EvDone st r m]"
| "stream_until_done (ev # evs) = ev # stream_until_done evs"

subsection \<open>The steps of the event loop\<close>

inductive step :: "engine \<Rightarrow> engine \<Rightarrow> bool" where
  submit: "map_of (en_tasks E) i = None \<Longrightarrow> map_of (en_running E) i = None \<Longrightarrow> step E (submit now i name ty metadata E)"
| start: "map_of (en_running E) i = Some (Unstarted False) \<Longrightarrow> map_of (en_tasks E) i = Some t \<Longrightarrow> step E (run_start now i t E)"
| never_start: "map_of (en_running E) i = Some (Unstarted True) \<Longrightarrow> step E (set_handle i Ended E)"
| emit: "step E (emit_output i line E)"
| progress: "step E (update_progress i n text_of E)"
| ask: "map_of (en_running E) i = Some (Executing c) \<Longrightarrow> ask_begin i q os E = Inr E' \<Longrightarrow> step E (set_handle i (Asking c) E')"
| answer: "step E (snd (submit_answer i a E))"
| resume: "map_of (en_running E) i = Some (Asking c) \<Longrightarrow> map_of (en_tasks E) i = Some t \<Longrightarrow>
    step E (set_handle i (Executing c) (snd (ask_end i t E)))"
| finish: "map_of (en_running E) i = Some (Executing c) \<Longrightarrow> map_of (en_tasks E) i = Some t \<Longrightarrow> step E (run_finish now i r t E)"
| cancel: "step E (snd (cancel i E))"
| deliver: "step E (deliver E)"
| subscribe: "step E (subscribe i q E)"
| unsubscribe: "step E (unsubscribe i q E)"
| consume: "step E (consume i q E)"
| cleanup: "step E (snd (cleanup_old n E))"
| clear: "step E (snd (clear_finished E))"

inductive reachable :: "engine \<Rightarrow> bool" where
  init: "reachable empty_engine"
| step: "reachable E \<Longrightarrow> step E E' \<Longrightarrow> reachable E'"


subsection \<open>Projections\<close>

lemma engine_simps [simp]:
  "en_tasks (notify i ev E) = en_tasks E" "en_running (notify i ev E) = en_running E"
  "en_answers (notify i ev E) = en_answers E" "en_scheduled (notify i ev E) = en_scheduled E"
  "en_tasks (schedule_notify i ev E) = en_tasks E" "en_running (schedule_notify i ev E) = en_running E"
  "en_answers (schedule_notify i ev E) = en_answers E" "en_subscribers (schedule_notify i ev E) = en_subscribers E"
  "en_tasks (set_task i t E) = dict_set i t (en_tasks E)" "en_running (set_task i t E) = en_running E"
  "en_answers (set_task i t E) = en_answers E" "en_subscribers (set_task i t E) = en_subscribers E"
  "en_tasks (set_handle i h E) = en_tasks E" "en_running (set_handle i h E) = dict_set i h (en_running E)"
  "en_answers (set_handle i h E) = en_answers E" "en_subscribers (set_handle i h E) = en_subscribers E"
  "en_tasks (subscribe i q E) = en_tasks E" "en_running (subscribe i q E) = en_running E" "en_answers (subscribe i q E) = en_answers E"
  "en_tasks (unsubscribe i q E) = en_tasks E" "en_running (unsubscribe i q E) = en_running E" "en_answers (unsubscribe i q E) = en_answers E"
  "en_tasks (consume i q E) = en_tasks E" "en_running (consume i q E) = en_running E" "en_answers (consume i q E) = en_answers E"
  "en_tasks (drop_task i E) = dict_pop i (en_tasks E)" "en_running (drop_task i E) = dict_pop i (en_running E)"
  "en_answers (drop_task i E) = en_answers E"
  by (simp_all add: notify_def schedule_notify_def set_task_def set_handle_def subscribe_def unsubscribe_def consume_def drop_task_def)

lemma deliver_simps [simp]:
  "en_tasks (deliver E) = en_tasks E" "en_running (deliver E) = en_running E" "en_answers (deliver E) = en_answers E"
  by (auto simp: deliver_def split: list.split)

lemma fold_drop:
  "map_of (en_tasks (fold drop_task vs E)) = (\<lambda>j. if j \<in> set vs then None else map_of (en_tasks E) j)"
  "map_of (en_running (fold drop_task vs E)) = (\<lambda>j. if j \<in> set vs then None else map_of (en_running E) j)"
  "en_answers (fold drop_task vs E) = en_answers E"
  by (induction vs arbitrary: E) (auto simp: map_of_dict_pop fun_eq_iff)

lemma distinct_dict_pop: "distinct (map fst d) \<Longrightarrow> distinct (map fst (dict_pop k d))"
  by (simp add: dict_pop_def distinct_map_filter)

lemma fold_drop_distinct: "distinct (map fst (en_tasks E)) \<Longrightarrow> distinct (map fst (en_tasks (fold drop_task vs E)))"
  by (induction vs arbitrary: E) (simp_all add: distinct_dict_pop)

subsection \<open>The invariant\<close>

text \<open>What holds of one task: its entries in the three dictionaries and its own fields agree.\<close>

fun handle_fits :: "task_status \<Rightarrow> handle \<Rightarrow> bool" where
  "handle_fits PENDING h = (case h of Unstarted _ \<Rightarrow> True | Ended \<Rightarrow> True | _ \<Rightarrow> False)"
| "handle_fits RUNNING h = (case h of Executing _ \<Rightarrow> True | _ \<Rightarrow> False)"
| "handle_fits WAITING h = (case h of Asking _ \<Rightarrow> True | _ \<Rightarrow> False)"
| "handle_fits _ h = (h = Ended)"

definition task_sound :: "string \<Rightarrow> task \<Rightarrow> handle \<Rightarrow> future option \<Rightarrow> bool" where
  "task_sound i t h f \<longleftrightarrow> ta_id t = i \<and> 0 \<le> ta_progress t \<and> ta_progress t \<le> 100 \<and> handle_fits (ta_status t) h \<and>
     (f \<noteq> None \<longleftrightarrow> ta_status t = WAITING) \<and> (ta_pending_question t \<noteq> None \<longleftrightarrow> ta_status t = WAITING) \<and>
     (is_terminal (ta_status t) \<longleftrightarrow> ta_completed_at t \<noteq> None)"

definition entry_sound :: "string \<Rightarrow> task option \<Rightarrow> handle option \<Rightarrow> future option \<Rightarrow> bool" where
  "entry_sound i t h f \<longleftrightarrow> (case (t, h) of
     (None, None) \<Rightarrow> f = None | (Some t, Some h) \<Rightarrow> task_sound i t h f | _ \<Rightarrow> False)"

definition engine_sound :: "engine \<Rightarrow> bool" where
  "engine_sound E \<longleftrightarrow> distinct (map fst (en_tasks E)) \<and>
     (\<forall>i. entry_sound i (map_of (en_tasks E) i) (map_of (en_running E) i) (map_of (en_answers E) i))"

lemma engine_sound_at: "engine_sound E \<Longrightarrow> entry_sound i (map_of (en_tasks E) i) (map_of (en_running E) i) (map_of (en_answers E) i)"
  by (simp add: engine_sound_def)

lemma engine_soundD:
  assumes "engine_sound E" and "map_of (en_tasks E) i = Some t"
  obtains h where "map_of (en_running E) i = Some h" "task_sound i t h (map_of (en_answers E) i)"
  using engine_sound_at [OF assms(1), of i] assms(2) by (auto simp: entry_sound_def split: option.splits)

lemma handle_of_task:
  assumes "engine_sound E" and "map_of (en_running E) i = Some h"
  obtains t where "map_of (en_tasks E) i = Some t" "task_sound i t h (map_of (en_answers E) i)"
  using engine_sound_at [OF assms(1), of i] assms(2) by (auto simp: entry_sound_def split: option.splits)

lemma entry_future: "entry_sound i t h (Some f) \<longleftrightarrow> entry_sound i t h (Some f')"
  by (simp add: entry_sound_def task_sound_def split: option.split)

text \<open>A step that changes the entries of one task only.\<close>

lemma engine_sound_local:
  assumes "engine_sound E" and "distinct (map fst (en_tasks E'))"
    and "\<And>j. j \<noteq> i \<Longrightarrow> map_of (en_tasks E') j = map_of (en_tasks E) j \<and> map_of (en_running E') j = map_of (en_running E) j \<and>
      map_of (en_answers E') j = map_of (en_answers E) j"
    and "entry_sound i (map_of (en_tasks E') i) (map_of (en_running E') i) (map_of (en_answers E') i)"
  shows "engine_sound E'"
  using assms unfolding engine_sound_def by metis

lemma terminal_entry:
  assumes "engine_sound E" and "(k, t) \<in> set (en_tasks E)" and "is_terminal (ta_status t)"
  shows "map_of (en_tasks E) k = Some t" "ta_id t = k"
proof -
  show k: "map_of (en_tasks E) k = Some t" using assms by (simp add: engine_sound_def)
  show "ta_id t = k" using engine_soundD [OF assms(1) k] by (auto simp: task_sound_def)
qed

lemma cleanup_terminal:
  assumes "engine_sound E" and "i \<in> set (cleanup_victims n E)"
  shows "\<exists>t. map_of (en_tasks E) i = Some t \<and> is_terminal (ta_status t)"
proof -
  have "set (py_drop n xs) \<subseteq> set xs" for xs :: "task list"
    by (auto simp: py_drop_def dest: in_set_dropD)
  then obtain k t where "(k, t) \<in> set (en_tasks E)" "is_terminal (ta_status t)" "i = ta_id t"
    using assms(2) unfolding cleanup_victims_def by fastforce
  then show ?thesis using terminal_entry [OF assms(1)] by metis
qed

lemma clear_terminal:
  assumes "engine_sound E" and "i \<in> set (map fst (filter (\<lambda>(_, t). is_terminal (ta_status t)) (en_tasks E)))"
  shows "\<exists>t. map_of (en_tasks E) i = Some t \<and> is_terminal (ta_status t)"
  using assms(2) terminal_entry(1) [OF assms(1)] by auto

lemma drop_sound:
  assumes "engine_sound E" and "\<And>i. i \<in> set vs \<Longrightarrow> \<exists>t. map_of (en_tasks E) i = Some t \<and> is_terminal (ta_status t)"
  shows "engine_sound (fold drop_task vs E)"
proof -
  have none: "map_of (en_answers E) i = None" if v: "i \<in> set vs" for i
  proof -
    obtain t where t: "map_of (en_tasks E) i = Some t" "is_terminal (ta_status t)" using assms(2) [OF v] by blast
    then show ?thesis using assms(1) by (auto elim!: engine_soundD simp: task_sound_def is_terminal_def)
  qed
  then show ?thesis
    using assms(1) by (simp add: engine_sound_def fold_drop fold_drop_distinct entry_sound_def)
qed

lemma fits_cancelled: "handle_fits st h \<Longrightarrow> handle_fits st (cancelled_handle h)"
  by (cases st; cases h) auto

lemmas sound_simps = map_of_dict_set map_of_dict_pop distinct_dict_set entry_sound_def task_sound_def is_terminal_def

lemma step_sound:
  assumes "step E E'" and "engine_sound E"
  shows "engine_sound E'"
proof -
  have distinct: "distinct (map fst (en_tasks E))" using assms(2) by (simp add: engine_sound_def)
  note local = engine_sound_local [OF assms(2)]
  from assms(1) show ?thesis
  proof cases
  case (cleanup n)
  then have "E' = fold drop_task (cleanup_victims n E) E" by (simp add: cleanup_old_def Let_def)
  then show ?thesis using drop_sound [OF assms(2)] cleanup_terminal [OF assms(2)] by blast
next
  case clear
  then have "E' = fold drop_task (map fst (filter (\<lambda>(_, t). is_terminal (ta_status t)) (en_tasks E))) E"
    by (simp add: clear_finished_def Let_def)
  then show ?thesis using drop_sound [OF assms(2)] clear_terminal [OF assms(2)] by blast
next
  case (submit i now name ty metadata)
  moreover have "map_of (en_answers E) i = None"
    using engine_sound_at [OF assms(2), of i] submit by (simp add: entry_sound_def)
  ultimately show ?thesis
    using distinct by (intro local [where i = i]) (simp_all add: submit_def sound_simps new_task_def)
next
  case (start i t now)
  then show ?thesis using assms(2) distinct
    by (elim engine_soundD [OF assms(2)]) (intro local [where i = i], auto simp: run_start_def sound_simps)
next
  case (never_start i)
  then obtain t where "map_of (en_tasks E) i = Some t" "task_sound i t (Unstarted True) (map_of (en_answers E) i)"
    using handle_of_task [OF assms(2)] by blast
  then show ?thesis using never_start distinct
    by (intro local [where i = i]) (cases "ta_status t"; auto simp: sound_simps)+
next
  case (emit i line)
  show ?thesis
  proof (cases "map_of (en_tasks E) i")
    case (Some t)
    then obtain h where "map_of (en_running E) i = Some h" "task_sound i t h (map_of (en_answers E) i)"
      using engine_soundD [OF assms(2)] by blast
    then show ?thesis using emit Some distinct by (intro local [where i = i]) (simp_all add: emit_output_def sound_simps)
  qed (use emit assms(2) in \<open>simp add: emit_output_def\<close>)
next
  case (progress i n text_of)
  show ?thesis
  proof (cases "map_of (en_tasks E) i")
    case (Some t)
    then obtain h where "map_of (en_running E) i = Some h" "task_sound i t h (map_of (en_answers E) i)"
      using engine_soundD [OF assms(2)] by blast
    then show ?thesis using progress Some distinct
      by (intro local [where i = i]) (simp_all add: update_progress_def Let_def sound_simps)
  qed (use progress assms(2) in \<open>simp add: update_progress_def\<close>)
next
  case (ask i c q os E1)
  then obtain t where t: "map_of (en_tasks E) i = Some t" "task_sound i t (Executing c) (map_of (en_answers E) i)"
    using handle_of_task [OF assms(2)] by blast
  then show ?thesis using ask distinct
    by (intro local [where i = i]) (auto simp: ask_begin_def sound_simps)
next
  case (answer i a)
  show ?thesis
  proof (cases "map_of (en_answers E) i = Some Unresolved")
    case True
    then have "entry_sound i (map_of (en_tasks E) i) (map_of (en_running E) i) (Some (Resolved a))"
      using engine_sound_at [OF assms(2), of i] entry_future by metis
    with True show ?thesis using answer distinct
      by (intro local [where i = i]) (simp_all add: submit_answer_def map_of_dict_set)
  next
    case False
    then have "E' = E" using answer by (auto simp: submit_answer_def split: option.splits future.splits)
    with assms(2) show ?thesis by simp
  qed
next
  case (resume i c t)
  then show ?thesis using distinct
    by (elim engine_soundD [OF assms(2)]) (intro local [where i = i], auto simp: ask_end_def sound_simps)
next
  case (finish i c t now r)
  then show ?thesis using distinct
    by (elim engine_soundD [OF assms(2)]) (intro local [where i = i]; cases r; auto simp: run_finish_def Let_def sound_simps)
next
  case (cancel i)
  show ?thesis
  proof (cases "map_of (en_running E) i")
    case (Some h)
    then obtain t where t: "map_of (en_tasks E) i = Some t" "task_sound i t h (map_of (en_answers E) i)"
      using handle_of_task [OF assms(2)] by blast
    have "E' = E \<or> E' = set_handle i (cancelled_handle h) E" using cancel Some by (auto simp: cancel_def)
    moreover have "task_sound i t (cancelled_handle h) (map_of (en_answers E) i)"
      using t(2) fits_cancelled by (simp add: task_sound_def)
    ultimately show ?thesis using assms(2) distinct t(1) local [where i = i]
      by (auto simp: map_of_dict_set entry_sound_def)
  qed (use cancel assms(2) in \<open>simp add: cancel_def\<close>)
qed (use assms(2) in \<open>simp_all add: engine_sound_def\<close>)
qed


lemma reachable_sound: "reachable E \<Longrightarrow> engine_sound E"
proof (induction rule: reachable.induct)
  case init
  show ?case by (simp add: engine_sound_def empty_engine_def entry_sound_def)
next
  case (step E E')
  then show ?case using step_sound by blast
qed

text \<open>
  C15: In every reachable state every task is consistent: its progress lies between 0 and 100, it waits exactly
  when a question is pending and an answer can be delivered, it has a completion time exactly when it is
  finished, and only a task that is pending, running or waiting can have a coroutine left to run.
\<close>

theorem task_state_sound:
  assumes "reachable E" and "get_task i E = Some t"
  shows "ta_id t = i \<and> 0 \<le> ta_progress t \<and> ta_progress t \<le> 100 \<and>
    (ta_status t = WAITING \<longleftrightarrow> ta_pending_question t \<noteq> None) \<and> (ta_status t = WAITING \<longleftrightarrow> map_of (en_answers E) i \<noteq> None) \<and>
    (is_terminal (ta_status t) \<longleftrightarrow> ta_completed_at t \<noteq> None) \<and>
    (\<exists>h. map_of (en_running E) i = Some h \<and> handle_fits (ta_status t) h \<and> (is_terminal (ta_status t) \<longrightarrow> h = Ended))"
proof -
  obtain h where h: "map_of (en_running E) i = Some h" "task_sound i t h (map_of (en_answers E) i)"
    using engine_soundD [OF reachable_sound] assms unfolding get_task_def by blast
  moreover from h have "is_terminal (ta_status t) \<longrightarrow> h = Ended" by (auto simp: task_sound_def is_terminal_def)
  ultimately show ?thesis unfolding task_sound_def by metis
qed

subsection \<open>The lifecycle of a task\<close>

text \<open>What the engine promises of one task.  A task cancelled before its first step is doomed: it stays
  pending.\<close>

datatype life = Absent | Queued | Active | Blocked | Doomed | Finished task_status

fun life_of :: "task_status \<Rightarrow> handle \<Rightarrow> life" where
  "life_of PENDING h = (if h = Unstarted False then Queued else Doomed)"
| "life_of RUNNING h = Active"
| "life_of WAITING h = Blocked"
| "life_of st h = Finished st"

definition life :: "engine \<Rightarrow> string \<Rightarrow> life" where
  "life E i = (case (map_of (en_tasks E) i, map_of (en_running E) i) of (Some t, Some h) \<Rightarrow> life_of (ta_status t) h | _ \<Rightarrow> Absent)"

inductive life_step :: "life \<Rightarrow> life \<Rightarrow> bool" where
  "life_step Absent Queued"
| "life_step Queued Active"
| "life_step Queued Doomed"
| "life_step Active Blocked"
| "life_step Blocked Active"
| "is_terminal st \<Longrightarrow> life_step Active (Finished st)"
| "is_terminal st \<Longrightarrow> life_step (Finished st) Absent"

inductive_cases life_step_from_doomed: "life_step Doomed l"

lemma life_same:
  "map_of (en_tasks E') i = map_of (en_tasks E) i \<Longrightarrow> map_of (en_running E') i = map_of (en_running E) i \<Longrightarrow> life E' i = life E i"
  by (simp add: life_def)

lemma life_drop:
  assumes "engine_sound E" and "\<And>i. i \<in> set vs \<Longrightarrow> \<exists>t. map_of (en_tasks E) i = Some t \<and> is_terminal (ta_status t)"
  shows "life (fold drop_task vs E) i = life E i \<or> life_step (life E i) (life (fold drop_task vs E) i)"
proof (cases "i \<in> set vs")
  case True
  then obtain t where t: "map_of (en_tasks E) i = Some t" "is_terminal (ta_status t)" using assms(2) by blast
  then obtain h where h: "map_of (en_running E) i = Some h" using engine_soundD [OF assms(1)] by blast
  have "life E i = Finished (ta_status t)" using t h by (auto simp: life_def is_terminal_def)
  moreover have "life (fold drop_task vs E) i = Absent" using True by (simp add: life_def fold_drop)
  ultimately show ?thesis using t(2) by (simp add: life_step.intros)
qed (simp add: life_def fold_drop)

lemma step_life:
  assumes "step E E'" and "engine_sound E"
  shows "life E' i = life E i \<or> life_step (life E i) (life E' i)"
  using assms(1)
proof cases
  case (submit j now name ty metadata)
  then show ?thesis by (cases "i = j") (auto simp: submit_def life_def map_of_dict_set new_task_def intro: life_step.intros)
next
  case (start j t now)
  then obtain u where "map_of (en_tasks E) j = Some u" "task_sound j u (Unstarted False) (map_of (en_answers E) j)"
    using handle_of_task [OF assms(2)] by blast
  then show ?thesis using start
    by (cases "i = j"; cases "ta_status t") (auto simp: run_start_def life_def map_of_dict_set task_sound_def intro: life_step.intros)
next
  case (never_start j)
  then obtain t where "map_of (en_tasks E) j = Some t" "task_sound j t (Unstarted True) (map_of (en_answers E) j)"
    using handle_of_task [OF assms(2)] by blast
  then show ?thesis using never_start
    by (cases "i = j"; cases "ta_status t") (auto simp: life_def map_of_dict_set task_sound_def)
next
  case (emit j line)
  then show ?thesis by (cases "i = j") (auto simp: emit_output_def life_def map_of_dict_set split: option.splits)
next
  case (progress j n text_of)
  then show ?thesis by (cases "i = j") (auto simp: update_progress_def Let_def life_def map_of_dict_set split: option.splits)
next
  case (ask j c q os E1)
  then obtain t where "map_of (en_tasks E) j = Some t" "task_sound j t (Executing c) (map_of (en_answers E) j)"
    using handle_of_task [OF assms(2)] by blast
  note t = this
  show ?thesis
  proof (cases "i = j")
    case True
    with t ask show ?thesis
      by (cases "ta_status t") (auto simp: ask_begin_def life_def map_of_dict_set task_sound_def intro: life_step.intros)
  next
    case False
    with t ask show ?thesis by (intro disjI1 life_same) (auto simp: ask_begin_def map_of_dict_set)
  qed
next
  case (answer j a)
  then show ?thesis by (auto simp: submit_answer_def intro!: life_same split: option.splits future.splits)
next
  case (resume j c t)
  then obtain u where "map_of (en_tasks E) j = Some u" "task_sound j u (Asking c) (map_of (en_answers E) j)"
    using handle_of_task [OF assms(2)] by blast
  then show ?thesis using resume
    by (cases "i = j"; cases "ta_status t") (auto simp: ask_end_def life_def map_of_dict_set task_sound_def intro: life_step.intros)
next
  case (finish j c t now r)
  then obtain u where "map_of (en_tasks E) j = Some u" "task_sound j u (Executing c) (map_of (en_answers E) j)"
    using handle_of_task [OF assms(2)] by blast
  then show ?thesis using finish
    by (cases "i = j"; cases "ta_status t"; cases r)
      (auto simp: run_finish_def Let_def life_def map_of_dict_set task_sound_def is_terminal_def intro!: life_step.intros)
next
  case (cancel j)
  show ?thesis
  proof (cases "map_of (en_running E) j")
    case (Some h)
    then obtain t where t: "map_of (en_tasks E) j = Some t" "task_sound j t h (map_of (en_answers E) j)"
      using handle_of_task [OF assms(2)] by blast
    have "E' = E \<or> E' = set_handle j (cancelled_handle h) E" using cancel Some by (auto simp: cancel_def)
    moreover have "life (set_handle j (cancelled_handle h) E) j = life E j \<or>
        life_step (life E j) (life (set_handle j (cancelled_handle h) E) j)"
      using Some t by (cases "ta_status t"; cases h) (auto simp: life_def map_of_dict_set task_sound_def intro: life_step.intros)
    moreover have "life (set_handle j (cancelled_handle h) E) i = life E i" if "i \<noteq> j"
      using that by (intro life_same) (simp_all add: map_of_dict_set)
    ultimately show ?thesis by (cases "i = j") auto
  qed (use cancel in \<open>simp add: cancel_def\<close>)
next
  case (cleanup n)
  then have "E' = fold drop_task (cleanup_victims n E) E" by (simp add: cleanup_old_def Let_def)
  then show ?thesis using life_drop [OF assms(2)] cleanup_terminal [OF assms(2)] by blast
next
  case clear
  then have "E' = fold drop_task (map fst (filter (\<lambda>(_, t). is_terminal (ta_status t)) (en_tasks E))) E"
    by (simp add: clear_finished_def Let_def)
  then show ?thesis using life_drop [OF assms(2)] clear_terminal [OF assms(2)] by blast
qed (simp_all add: life_def)

text \<open>
  C16: The engine implements the task lifecycle: whatever step the event loop takes from a reachable state, each
  task either stays as it is or moves along an edge of the lifecycle, so a finished task is never
  restarted or finished twice, and only a finished one disappears.
\<close>

theorem engine_refines_lifecycle:
  assumes "reachable E" and "step E E'"
  shows "life E' i = life E i \<or> life_step (life E i) (life E' i)"
  using assms by (intro step_life reachable_sound)

lemma doomed_forever: "step\<^sup>*\<^sup>* E E' \<Longrightarrow> reachable E \<Longrightarrow> life E i = Doomed \<Longrightarrow> reachable E' \<and> life E' i = Doomed"
proof (induction rule: rtranclp_induct)
  case base
  then show ?case by simp
next
  case (step E1 E2)
  then show ?case using step_life [OF step.hyps(2) reachable_sound, of i]
    by (auto elim: life_step_from_doomed intro: reachable.step)
qed

text \<open>
  A task cancelled before its first step is never cancelled: the call reports success, and in every state
  the engine can reach from then on the task is still there and still pending; it is never started,
  finished or cleared.
\<close>

theorem early_cancel_never_finishes:
  assumes "reachable E" and "map_of (en_running E) i = Some (Unstarted c)"
    and "step\<^sup>*\<^sup>* (snd (cancel i E)) E'"
  shows "fst (cancel i E) \<and> (\<exists>t. get_task i E' = Some t \<and> ta_status t = PENDING) \<and>
    get_task i (snd (clear_finished E')) = get_task i E'"
proof -
  obtain t where t: "map_of (en_tasks E) i = Some t" "task_sound i t (Unstarted c) (map_of (en_answers E) i)"
    using handle_of_task [OF reachable_sound assms(2)] assms(1) by blast
  have "ta_status t = PENDING" using t(2) by (cases "ta_status t") (auto simp: task_sound_def)
  with t assms(2) have "life (snd (cancel i E)) i = Doomed" by (simp add: cancel_def life_def map_of_dict_set)
  moreover have "reachable (snd (cancel i E))" using assms(1) by (rule reachable.step) (rule step.cancel)
  ultimately have E': "reachable E'" "life E' i = Doomed" using doomed_forever [OF assms(3)] by auto
  have "life (snd (clear_finished E')) i = Doomed"
    using doomed_forever [OF r_into_rtranclp, of E' "snd (clear_finished E')"] E' step.clear by blast
  then have kept: "map_of (en_tasks (snd (clear_finished E'))) i \<noteq> None" by (auto simp: life_def split: option.splits)
  obtain u h where u: "map_of (en_tasks E') i = Some u" "map_of (en_running E') i = Some h" "life_of (ta_status u) h = Doomed"
    using E'(2) by (auto simp: life_def split: option.splits)
  then have "ta_status u = PENDING" by (cases "ta_status u") (auto split: if_splits)
  with u kept assms(2) show ?thesis
    by (auto simp: cancel_def get_task_def clear_finished_def Let_def fold_drop split: if_splits)
qed

text \<open>A task that waits for an answer is not finished, yet the listing of unfinished tasks leaves it out.\<close>

lemma unfinished_listing_omits_waiting: "t \<in> set (list_tasks False E) \<Longrightarrow> ta_status t \<noteq> WAITING"
  by (auto simp: list_tasks_def)

text \<open>The last output of a task is scheduled, its end is put into the queues at once: a subscriber gets the
  end first, and the stream stops there.\<close>

lemma last_output_never_streamed:
  assumes "map_of (en_tasks E) i = Some t" "en_subscribers E = [(i, [(n, [])])]" "en_scheduled E = []"
  shows "queues_of i (deliver (run_finish now i r (t\<lparr>ta_output_lines := ta_output_lines t @ [line]\<rparr>) (emit_output i line E))) =
      [(n, [done_event (finished_task now r t), EvOutput line])] \<and>
    stream_until_done [done_event (finished_task now r t), EvOutput line] = [done_event (finished_task now r t)]"
  using assms
  by (cases r) (simp_all add: emit_output_def run_finish_def Let_def deliver_def queues_of_def schedule_notify_def notify_def
      set_task_def set_handle_def put_nowait_def done_event_def)

subsection \<open>A concrete run\<close>

definition demo_engine :: engine where
  "demo_engine = submit 5 ''a1'' ''export'' ''backup'' [] empty_engine"

lemma demo_engine_reachable: "reachable demo_engine"
  unfolding demo_engine_def by (rule reachable.step [OF reachable.init]) (rule step.submit; simp add: empty_engine_def)

lemma demo_engine_entries:
  "map_of (en_tasks demo_engine) ''a1'' = Some (new_task 5 ''a1'' ''export'' ''backup'' [])"
  "map_of (en_running demo_engine) ''a1'' = Some (Unstarted False)"
  by (simp_all add: demo_engine_def submit_def empty_engine_def map_of_dict_set)

theorem task_state_sound_witness:
  "\<exists>t. get_task ''a1'' demo_engine = Some t \<and> 0 \<le> ta_progress t \<and> ta_progress t \<le> 100"
proof -
  have t: "get_task ''a1'' demo_engine = Some (new_task 5 ''a1'' ''export'' ''backup'' [])"
    by (simp add: get_task_def demo_engine_entries)
  from task_state_sound [OF demo_engine_reachable t] t show ?thesis by blast
qed

theorem engine_refines_lifecycle_witness:
  "life demo_engine ''a1'' = Queued \<and>
   life (run_start 6 ''a1'' (new_task 5 ''a1'' ''export'' ''backup'' []) demo_engine) ''a1'' \<in> {Queued, Active, Doomed}"
proof -
  have s: "step demo_engine (run_start 6 ''a1'' (new_task 5 ''a1'' ''export'' ''backup'' []) demo_engine)"
    by (rule step.start) (simp_all add: demo_engine_entries)
  have q: "life demo_engine ''a1'' = Queued" by (simp add: life_def demo_engine_entries new_task_def)
  show ?thesis using engine_refines_lifecycle [OF demo_engine_reachable s, of "''a1''"] unfolding q
    by (auto elim: life_step.cases)
qed

theorem early_cancel_never_finishes_witness:
  "fst (cancel ''a1'' demo_engine) \<and>
   (\<exists>t. get_task ''a1'' (set_handle ''a1'' Ended (snd (cancel ''a1'' demo_engine))) = Some t \<and> ta_status t = PENDING)"
proof -
  let ?E = "snd (cancel ''a1'' demo_engine)"
  have "step ?E (set_handle ''a1'' Ended ?E)"
    by (rule step.never_start) (simp add: cancel_def demo_engine_entries map_of_dict_set)
  from early_cancel_never_finishes [OF demo_engine_reachable demo_engine_entries(2) r_into_rtranclp [of step, OF this]]
  show ?thesis by blast
qed

end
