(* ===== verification/FileTree.thy ===== *)
theory FileTree
  imports Sinks
begin

section \<open>A directory tree\<close>

text \<open>
  What the files service sees of the file system: folders and documents by their absolute normalised
  path, each with its modification time, in the order a directory scan meets them.  The root folder is
  always there.  There are no symbolic links and no permissions; creating, removing or renaming an
  entry sets the modification time of the folder that holds it.
\<close>

datatype node = Folder time | Doc string time

type_synonym tree = "(path \<times> node) list"

fun is_folder_node :: "node option \<Rightarrow> bool" where
  "is_folder_node (Some (Folder m)) = True"
| "is_folder_node _ = False"

definition node_at :: "tree \<Rightarrow> path \<Rightarrow> node option" where
  "node_at t p = (if p = [] then Some (Folder 0) else map_of t p)"

abbreviation is_folder :: "tree \<Rightarrow> path \<Rightarrow> bool" where
  "is_folder t p \<equiv> is_folder_node (node_at t p)"

definition add_node :: "path \<Rightarrow> node \<Rightarrow> tree \<Rightarrow> tree" where
  "add_node p n t = t @ [(p, n)]"

definition del_node :: "path \<Rightarrow> tree \<Rightarrow> tree" where
  "del_node p t = dict_pop p t"

fun set_mtime :: "time \<Rightarrow> node \<Rightarrow> node" where
  "set_mtime now (Folder m) = Folder now"
| "set_mtime now (Doc c m) = Doc c m"

definition touch_dir :: "time \<Rightarrow> path \<Rightarrow> tree \<Rightarrow> tree" where
  "touch_dir now p t = map (\<lambda>(q, n). (q, if q = p then set_mtime now n else n)) t"

definition rebase :: "path \<Rightarrow> path \<Rightarrow> path \<Rightarrow> path" where
  "rebase s d p = (if is_within s p then d @ drop (length s) p else p)"

definition move_nodes :: "path \<Rightarrow> path \<Rightarrow> tree \<Rightarrow> tree" where
  \<comment> \<open>\<open>rename\<close> of an entry takes what is below it along.\<close>
  "move_nodes s d t = map (\<lambda>(p, n). (rebase s d p, n)) t"

definition child_of :: "path \<Rightarrow> string \<Rightarrow> path" where
  \<comment> \<open>\<open>p / name\<close>, resolved.\<close>
  "child_of p name = (if name = ''.'' then p else norm_path (p @ [name]))"

fun mkdirs :: "time \<Rightarrow> path \<Rightarrow> string list \<Rightarrow> tree \<Rightarrow> error + tree" where
  \<comment> \<open>\<open>(p / names).mkdir(parents=True, exist_ok=True)\<close>\<close>
  "mkdirs now p [] t = Inr t"
| "mkdirs now p (x # xs) t =
     (case node_at t (child_of p x) of
        Some (Doc c m) \<Rightarrow> Inl os_error
      | Some (Folder m) \<Rightarrow> mkdirs now (child_of p x) xs t
      | None \<Rightarrow> mkdirs now (child_of p x) xs (add_node (child_of p x) (Folder now) (touch_dir now p t)))"

definition wf_tree :: "tree \<Rightarrow> bool" where
  \<comment> \<open>Every entry lies in a folder, and no path is listed twice.\<close>
  "wf_tree t \<longleftrightarrow> distinct (map fst t) \<and> [] \<notin> fst ` set t \<and>
     (\<forall>p. p \<noteq> [] \<longrightarrow> node_at t p \<noteq> None \<longrightarrow> is_folder t (butlast p))"

subsection \<open>Facts\<close>

lemma is_folder_node_iff: "is_folder_node x \<longleftrightarrow> (\<exists>m. x = Some (Folder m))"
  by (cases x rule: is_folder_node.cases) auto

lemma node_at_Nil [simp]: "node_at t [] = Some (Folder 0)"
  by (simp add: node_at_def)

lemma node_at_add [table_simps]:
  "p \<noteq> [] \<Longrightarrow> node_at t p = None \<Longrightarrow> node_at (add_node p n t) q = (if q = p then Some n else node_at t q)"
  by (auto simp: node_at_def add_node_def map_of_append map_add_def split: option.splits)

lemma node_at_del [table_simps]:
  "p \<noteq> [] \<Longrightarrow> node_at (del_node p t) q = (if q = p then None else node_at t q)"
  by (simp add: node_at_def del_node_def map_of_dict_pop)

lemma node_at_touch [table_simps]:
  "node_at (touch_dir now p t) q =
     (if q = p \<and> q \<noteq> [] then map_option (set_mtime now) (node_at t q) else node_at t q)"
proof -
  have "map_of (touch_dir now p t) q = (if q = p then map_option (set_mtime now) (map_of t q) else map_of t q)"
    by (induction t) (auto simp: touch_dir_def)
  then show ?thesis by (auto simp: node_at_def)
qed

lemma keys_touch [simp]: "map fst (touch_dir now p t) = map fst t"
  by (induction t) (auto simp: touch_dir_def)

lemma keys_touch_set [simp]: "fst ` set (touch_dir now p t) = fst ` set t"
  by (metis keys_touch set_map)

lemma is_folder_set_mtime [simp]: "is_folder_node (map_option (set_mtime now) x) = is_folder_node x"
  by (cases x rule: is_folder_node.cases) auto

lemma is_folder_touch [simp]: "is_folder (touch_dir now p t) q = is_folder t q"
  by (simp add: node_at_touch)

lemma node_at_touch_None [simp]: "node_at (touch_dir now p t) q = None \<longleftrightarrow> node_at t q = None"
  by (simp add: node_at_touch)

lemma node_at_mem: "node_at t p = None \<longleftrightarrow> p \<noteq> [] \<and> p \<notin> fst ` set t"
  by (simp add: node_at_def map_of_eq_None_iff)

lemma wf_touch [simp]: "wf_tree (touch_dir now p t) = wf_tree t"
  by (simp add: wf_tree_def)

lemma wf_parent: "wf_tree t \<Longrightarrow> p \<noteq> [] \<Longrightarrow> node_at t p \<noteq> None \<Longrightarrow> is_folder t (butlast p)"
  by (simp add: wf_tree_def)

lemma wf_prefix: "wf_tree t \<Longrightarrow> node_at t (p @ q) \<noteq> None \<Longrightarrow> q \<noteq> [] \<Longrightarrow> is_folder t p"
proof (induction q rule: rev_induct)
  case (snoc x q)
  from wf_parent [OF snoc.prems(1), of "p @ q @ [x]"] snoc.prems(2)
  have f: "is_folder t (p @ q)" by (simp add: butlast_append)
  show ?case
  proof (cases "q = []")
    case True with f show ?thesis by simp
  next
    case False
    from f have "node_at t (p @ q) \<noteq> None" by (auto simp: is_folder_node_iff)
    with snoc.IH [OF snoc.prems(1)] False show ?thesis by blast
  qed
qed simp

lemma wf_no_children: "wf_tree t \<Longrightarrow> \<not> is_folder t p \<Longrightarrow> q \<noteq> [] \<Longrightarrow> node_at t (p @ q) = None"
  using wf_prefix by blast

lemma butlast_neq: "p \<noteq> [] \<Longrightarrow> butlast p \<noteq> p"
  by (metis append_butlast_last_id list.distinct(1) self_append_conv)

lemma wf_add:
  assumes "wf_tree t" "p \<noteq> []" "node_at t p = None" "is_folder t (butlast p)"
  shows "wf_tree (add_node p n t)"
  unfolding wf_tree_def
proof (intro conjI allI impI)
  show "distinct (map fst (add_node p n t))" "[] \<notin> fst ` set (add_node p n t)"
    using assms by (auto simp: wf_tree_def add_node_def node_at_mem)
next
  fix q assume q: "q \<noteq> []" "node_at (add_node p n t) q \<noteq> None"
  have "is_folder t (butlast q)"
    using q assms by (auto simp: node_at_add wf_tree_def split: if_splits)
  moreover from this assms(3) have "butlast q \<noteq> p" by auto
  ultimately show "is_folder (add_node p n t) (butlast q)"
    using assms by (simp add: node_at_add)
qed

lemma wf_del:
  assumes "wf_tree t" "p \<noteq> []" "\<And>x. node_at t (p @ [x]) = None"
  shows "wf_tree (del_node p t)"
  unfolding wf_tree_def
proof (intro conjI allI impI)
  have "fst ` set (del_node p t) \<subseteq> fst ` set t"
    by (auto simp: del_node_def dict_pop_def)
  then show "[] \<notin> fst ` set (del_node p t)" using assms(1) by (auto simp: wf_tree_def)
  show "distinct (map fst (del_node p t))"
    using assms(1) by (simp add: wf_tree_def del_node_def dict_pop_def distinct_map_filter)
next
  fix q assume q: "q \<noteq> []" "node_at (del_node p t) q \<noteq> None"
  then have q': "node_at t q \<noteq> None" using assms(2) by (auto simp: node_at_del split: if_splits)
  with assms(3) [of "last q"] q(1) have "butlast q \<noteq> p" by (metis append_butlast_last_id)
  with wf_parent [OF assms(1) q(1) q'] assms(2) show "is_folder (del_node p t) (butlast q)"
    by (simp add: node_at_del)
qed

subsection \<open>Moving a subtree\<close>

lemma is_within_iff: "is_within r p \<longleftrightarrow> (\<exists>q. p = r @ q)"
  by (metis append_eq_conv_conj append_take_drop_id is_within_def)

lemma is_within_refl [simp]: "is_within r r" "is_within r (r @ q)" "is_within [] q"
  by (simp_all add: is_within_def)

lemma is_within_trans: "is_within r s \<Longrightarrow> is_within s p \<Longrightarrow> is_within r p"
  by (auto simp: is_within_iff)

lemma rebase_inj:
  assumes "\<not> is_within d p" "\<not> is_within d q" "rebase s d p = rebase s d q"
  shows "p = q"
  using assms by (auto simp: rebase_def is_within_iff split: if_splits)

definition moved_ok :: "path \<Rightarrow> path \<Rightarrow> tree \<Rightarrow> bool" where
  \<comment> \<open>The target of a rename: a free sibling of an existing entry.\<close>
  "moved_ok s d t \<longleftrightarrow> s \<noteq> [] \<and> d \<noteq> [] \<and> butlast d = butlast s \<and> node_at t s \<noteq> None \<and> node_at t d = None"

lemma moved_free:
  assumes "wf_tree t" "moved_ok s d t" "p \<in> fst ` set t"
  shows "\<not> is_within d p"
proof
  assume "is_within d p"
  then obtain q where p: "p = d @ q" by (auto simp: is_within_iff)
  have n: "node_at t p \<noteq> None" using assms(3) by (simp add: node_at_mem)
  show False
  proof (cases "q = []")
    case True with n p assms(2) show False by (simp add: moved_ok_def)
  next
    case False
    have "is_folder t d" using wf_prefix [OF assms(1) _ False] n p by simp
    with assms(2) show False by (simp add: moved_ok_def)
  qed
qed

lemma moved_parallel:
  assumes "moved_ok s d t"
  shows "\<not> is_within d s" "\<not> is_within s d"
proof -
  from assms have "length (butlast s) = length (butlast d)" "s \<noteq> []" "d \<noteq> []"
    by (simp_all add: moved_ok_def)
  then have l: "length s = length d" by (cases s rule: rev_cases; cases d rule: rev_cases) simp_all
  have "s \<noteq> d" using assms by (auto simp: moved_ok_def)
  with l show "\<not> is_within d s" "\<not> is_within s d" by (simp_all add: is_within_def)
qed

lemma within_parallel: "\<not> is_within d s \<Longrightarrow> \<not> is_within s d \<Longrightarrow> is_within d p \<Longrightarrow> \<not> is_within s p"
  by (auto simp: is_within_iff append_eq_append_conv2)

lemma rebase_eq_iff:
  assumes "\<not> is_within d p" "\<not> is_within d s" "\<not> is_within s d"
  shows "rebase s d p = q \<longleftrightarrow>
    (if is_within d q then p = s @ drop (length d) q else if is_within s q then False else p = q)"
proof (cases "is_within d q")
  case True
  then obtain r where r: "q = d @ r" by (auto simp: is_within_iff)
  show ?thesis
  proof (cases "is_within s p")
    case True
    then obtain u where "p = s @ u" by (auto simp: is_within_iff)
    with r show ?thesis by (auto simp: rebase_def)
  next
    case False
    with r assms(1) show ?thesis by (auto simp: rebase_def)
  qed
next
  case False
  then show ?thesis by (auto simp: rebase_def)
qed

lemma node_at_move [table_simps]:
  assumes "wf_tree t" "moved_ok s d t"
  shows "node_at (move_nodes s d t) q =
    (if is_within d q then node_at t (s @ drop (length d) q) else if is_within s q then None else node_at t q)"
proof (cases "q = []")
  case True
  with assms(2) show ?thesis by (auto simp: moved_ok_def is_within_def)
next
  case False
  have free: "\<forall>p \<in> fst ` set t. \<not> is_within d p" using moved_free [OF assms] by blast
  have "map_of (move_nodes s d t) q =
    (if is_within d q then map_of t (s @ drop (length d) q) else if is_within s q then None else map_of t q)"
    using free
  proof (induction t)
    case Nil then show ?case by (simp add: move_nodes_def)
  next
    case (Cons x t)
    obtain p n where x: "x = (p, n)" by (cases x)
    have p: "\<not> is_within d p" using Cons.prems by (simp add: x)
    have eq: "rebase s d p = q \<longleftrightarrow>
        (if is_within d q then p = s @ drop (length d) q else if is_within s q then False else p = q)"
      by (rule rebase_eq_iff [OF p moved_parallel [OF assms(2)]])
    have "map_of (move_nodes s d (x # t)) q = (if rebase s d p = q then Some n else map_of (move_nodes s d t) q)"
      by (simp add: x move_nodes_def)
    with eq Cons.IH Cons.prems show ?case by (auto simp: x)
  qed
  with False assms(2) show ?thesis by (simp add: node_at_def moved_ok_def)
qed

lemma wf_move:
  assumes "wf_tree t" "moved_ok s d t"
  shows "wf_tree (move_nodes s d t)"
  unfolding wf_tree_def
proof (intro conjI allI impI)
  have keys: "map fst (move_nodes s d t) = map (rebase s d) (map fst t)"
    by (induction t) (auto simp: move_nodes_def)
  have "inj_on (rebase s d) (fst ` set t)"
    using rebase_inj moved_free [OF assms] by (meson inj_onI)
  with assms(1) show "distinct (map fst (move_nodes s d t))"
    by (simp add: keys distinct_map wf_tree_def image_image del: map_map)
  have "rebase s d p \<noteq> []" if "p \<noteq> []" for p
    using that assms(2) by (auto simp: rebase_def moved_ok_def)
  then have "[] \<notin> rebase s d ` set (map fst t)"
    using assms(1) by (metis (no_types, lifting) image_iff set_map wf_tree_def)
  then show "[] \<notin> fst ` set (move_nodes s d t)"
    by (metis keys set_map)
next
  fix q assume q: "q \<noteq> []" "node_at (move_nodes s d t) q \<noteq> None"
  have sd: "butlast d = butlast s" "s \<noteq> []" "d \<noteq> []" using assms(2) by (auto simp: moved_ok_def)
  note par = moved_parallel [OF assms(2)]
  have out: "\<not> is_within x (butlast x)" if "x \<noteq> []" for x :: path
  proof
    assume "is_within x (butlast x)"
    then obtain r where "butlast x = x @ r" by (auto simp: is_within_iff)
    then have "length (butlast x) = length x + length r" by (metis length_append)
    with that show False by (cases x rule: rev_cases) simp_all
  qed
  show "is_folder (move_nodes s d t) (butlast q)"
  proof (cases "is_within d q")
    case True
    then obtain r where r: "q = d @ r" by (auto simp: is_within_iff)
    have n: "node_at t (s @ r) \<noteq> None" using q r by (simp add: node_at_move [OF assms])
    show ?thesis
    proof (cases "r = []")
      case True
      have "is_folder t (butlast s)" using wf_parent [OF assms(1) sd(2)] n True by simp
      with r True sd out [of d] out [of s] show ?thesis by (simp add: node_at_move [OF assms])
    next
      case False
      have "is_folder t (s @ butlast r)"
        using wf_parent [OF assms(1), of "s @ r"] n sd(2) False by (simp add: butlast_append)
      with r False show ?thesis by (simp add: node_at_move [OF assms] butlast_append)
    qed
  next
    case False
    then have n: "node_at t q \<noteq> None" "\<not> is_within s q"
      using q by (auto simp: node_at_move [OF assms] split: if_splits)
    have f: "is_folder t (butlast q)" using wf_parent [OF assms(1) q(1) n(1)] .
    have b: "\<not> is_within x (butlast q)" if "\<not> is_within x q" for x
      using that by (metis append_butlast_last_id is_within_iff is_within_refl(2) is_within_trans q(1))
    from f b [OF False] b [OF n(2)] show ?thesis by (simp add: node_at_move [OF assms])
  qed
qed

subsection \<open>Creating directories\<close>

lemma norm_no_dots: "''..'' \<notin> set p \<Longrightarrow> norm_path p = p"
proof -
  have "''..'' \<notin> set p \<Longrightarrow> fold (\<lambda>p acc. if p = ''..'' then tl acc else p # acc) p acc = rev p @ acc" for acc
    by (induction p arbitrary: acc) auto
  then show "''..'' \<notin> set p \<Longrightarrow> norm_path p = p" by (simp add: norm_path_def)
qed

lemma clean_child: "x \<noteq> ''.'' \<Longrightarrow> x \<noteq> ''..'' \<Longrightarrow> ''..'' \<notin> set p \<Longrightarrow> child_of p x = p @ [x]"
  by (simp add: child_of_def norm_no_dots)

lemma child_dotdot: "''..'' \<notin> set p \<Longrightarrow> child_of p ''..'' = butlast p"
proof -
  assume p: "''..'' \<notin> set p"
  have "fold (\<lambda>p acc. if p = ''..'' then tl acc else p # acc) p [] = rev p"
    using arg_cong [OF norm_no_dots [OF p], of rev] by (simp only: norm_path_def rev_rev_ident)
  then show ?thesis by (simp add: child_of_def norm_path_def) (metis butlast_rev rev_rev_ident)
qed

lemma child_cases:
  assumes "''..'' \<notin> set p"
  obtains (here) "child_of p x = p" | (up) "child_of p x = butlast p"
    | (down) "child_of p x = p @ [x]" "x \<noteq> ''..''"
  using assms child_dotdot [OF assms] clean_child [of x p] by (cases "x = ''..''"; cases "x = ''.''") (auto simp: child_of_def)

lemma mkdirs_exists:
  assumes "wf_tree t" "is_folder t (p @ xs)" "''..'' \<notin> set p" "list_all clean xs"
  shows "mkdirs now p xs t = Inr t"
  using assms
proof (induction xs arbitrary: p)
  case (Cons x xs)
  have c: "child_of p x = p @ [x]" using Cons.prems by (intro clean_child) (auto simp: clean_def)
  have "is_folder t (p @ [x])"
  proof (cases "xs = []")
    case False
    moreover have "node_at t ((p @ [x]) @ xs) \<noteq> None" using Cons.prems(2) by (auto simp: is_folder_node_iff)
    ultimately show ?thesis using wf_prefix [OF Cons.prems(1)] by blast
  qed (use Cons.prems(2) in simp)
  moreover have "''..'' \<notin> set (p @ [x])" using Cons.prems by (auto simp: clean_def)
  ultimately show ?case
    using Cons.IH [of "p @ [x]"] Cons.prems by (auto simp: c is_folder_node_iff)
qed simp

lemma mkdirs_effect:
  assumes "mkdirs now p xs t = Inr t'" "wf_tree t" "is_folder t p" "''..'' \<notin> set p" "list_all clean xs"
  shows "wf_tree t' \<and> is_folder t' (p @ xs) \<and>
    (\<forall>q. if is_within q (p @ xs) then is_folder t' q \<and> (node_at t q = None \<or> is_folder t q)
         else node_at t' q = node_at t q)"
  using assms
proof (induction xs arbitrary: p t)
  case Nil
  have "is_folder t q" if "is_within q p" for q
  proof -
    from that obtain r where r: "p = q @ r" by (auto simp: is_within_iff)
    show ?thesis
    proof (cases "r = []")
      case True with r Nil.prems(3) show ?thesis by simp
    next
      case False
      have "node_at t (q @ r) \<noteq> None" using Nil.prems(3) r by (auto simp: is_folder_node_iff)
      with wf_prefix [OF Nil.prems(2)] False show ?thesis by blast
    qed
  qed
  with Nil show ?case by auto
next
  case (Cons x xs)
  let ?q = "p @ [x]"
  have c: "child_of p x = ?q" using Cons.prems by (intro clean_child) (auto simp: clean_def)
  have "list_all clean xs" using Cons.prems(5) by simp
  moreover have "''..'' \<notin> set ?q" using Cons.prems by (auto simp: clean_def)
  ultimately have d: "''..'' \<notin> set ?q" "list_all clean xs" by blast+
  show ?case
  proof (cases "node_at t ?q")
    case None
    let ?t = "add_node ?q (Folder now) (touch_dir now p t)"
    have free: "node_at (touch_dir now p t) ?q = None" using None by simp
    have m: "mkdirs now ?q xs ?t = Inr t'" using Cons.prems(1) None by (simp add: c)
    have w: "wf_tree ?t" using Cons.prems None by (intro wf_add) simp_all
    have f: "is_folder ?t ?q" using free by (simp add: node_at_add)
    have old: "node_at ?t q = (if q = ?q then Some (Folder now) else node_at (touch_dir now p t) q)" for q
      using free by (simp add: node_at_add)
    note ih = Cons.IH [OF m w f d]
    have "if is_within q (p @ x # xs) then is_folder t' q \<and> (node_at t q = None \<or> is_folder t q)
          else node_at t' q = node_at t q" for q
    proof (cases "is_within q (p @ x # xs)")
      case True
      with ih have "is_folder t' q" "node_at ?t q = None \<or> is_folder ?t q" by auto
      with True None show ?thesis by (cases "q = ?q") (simp_all add: old)
    next
      case False
      then have "q \<noteq> ?q" "q \<noteq> p" by (auto simp: is_within_iff)
      moreover from False ih have "node_at t' q = node_at ?t q" by simp
      ultimately show ?thesis using False by (simp add: old node_at_touch)
    qed
    moreover have "wf_tree t'" "is_folder t' (p @ x # xs)" using ih by simp_all
    ultimately show ?thesis by blast
  next
    case (Some n)
    with Cons.prems(1) obtain m where n: "n = Folder m" and m: "mkdirs now ?q xs t = Inr t'"
      by (cases n) (auto simp: c)
    from Cons.IH [OF m Cons.prems(2) _ d] Some n show ?thesis by simp
  qed
qed

end
