(* ===== verification/FilesSvc.thy ===== *)
theory FilesSvc
  imports FileTree Api
begin

section \<open>Files service and uploads\<close>

text \<open>
  \<open>services/files\<close>, \<open>api/v1/files.py\<close> and \<open>api/v1/upload.py\<close>: the tenant's part of the uploads
  directory.  The state is the directory tree and the database (for the audit entries and the tenant
  lookup); an operation that raises may have created the tenant's root first.  A file name is at most
  255 bytes; longer ones are an \<open>OSError\<close> of the operating system that is not modelled.
\<close>

record file_entry =
  fe_name :: string
  fe_path :: string
  fe_type :: string
  fe_size :: nat
  fe_mtime :: time
  fe_ext :: string

record file_list_response =
  fl_ok :: bool
  fl_entries :: "file_entry list"
  fl_path :: string
  fl_tenant_slug :: string

type_synonym fworld = "tree \<times> db"

subsection \<open>Names and paths\<close>

definition safe_name_char :: "char \<Rightarrow> bool" where
  "safe_name_char c \<longleftrightarrow> is_word c \<or> is_space c \<or> c = CHR ''-'' \<or> c = CHR ''.''"

definition secure_filename :: "string \<Rightarrow> string" where
  "secure_filename name =
     py_strip (lstrip_where (\<lambda>c. c = CHR ''.'' \<or> c = CHR '' '') (filter safe_name_char (basename name)))"

definition resolve_under :: "path \<Rightarrow> string list \<Rightarrow> path" where
  "resolve_under root names = norm_path (root @ filter (\<lambda>n. n \<noteq> ''.'') names)"

definition safe_resolve :: "path \<Rightarrow> string \<Rightarrow> string \<Rightarrow> path option" where
  "safe_resolve base tenant_slug rel_path =
     (let safe_slug = secure_filename tenant_slug
      in if safe_slug = [] then None
         else
           let tenant_root = child_of base safe_slug;
               safe_components = filter (\<lambda>s. s \<noteq> []) (map secure_filename (path_parts rel_path));
               target = resolve_under tenant_root safe_components
           in if is_within tenant_root target then Some target else None)"

definition ensure_tenant_dir :: "time \<Rightarrow> path \<Rightarrow> string \<Rightarrow> tree \<Rightarrow> error + (path \<times> tree)" where
  "ensure_tenant_dir now base tenant_slug t =
     (let safe_slug = secure_filename tenant_slug
      in if safe_slug = [] then Inl (ForbiddenError ''Invalid tenant slug'')
         else (case mkdirs now [] (base @ [safe_slug]) t of
                 Inl x \<Rightarrow> Inl x | Inr t' \<Rightarrow> Inr (child_of base safe_slug, t')))"

definition entry_from_path :: "path \<Rightarrow> path \<Rightarrow> node \<Rightarrow> file_entry" where
  "entry_from_path tenant_root p n =
     \<lparr>fe_name = last p, fe_path = join_with ''/'' (drop (length tenant_root) p),
      fe_type = (case n of Folder m \<Rightarrow> ''folder'' | Doc c m \<Rightarrow> ''file''),
      fe_size = (case n of Folder m \<Rightarrow> 0 | Doc c m \<Rightarrow> length c),
      fe_mtime = (case n of Folder m \<Rightarrow> m | Doc c m \<Rightarrow> m),
      fe_ext = (case n of Folder m \<Rightarrow> [] | Doc c m \<Rightarrow>
        py_lower (lstrip_where (\<lambda>x. x = CHR ''.'') (py_suffix (last p))))\<rparr>"

definition path_exists :: "tree \<Rightarrow> path \<Rightarrow> bool" where
  "path_exists t p \<longleftrightarrow> node_at t p \<noteq> None"

definition child_exists :: "tree \<Rightarrow> path \<Rightarrow> string \<Rightarrow> bool" where
  \<comment> \<open>\<open>(p / name).exists()\<close>: below a document nothing exists.\<close>
  "child_exists t p name =
     (if name = ''.'' then path_exists t p else is_folder t p \<and> path_exists t (child_of p name))"

definition children :: "tree \<Rightarrow> path \<Rightarrow> (path \<times> node) list" where
  \<comment> \<open>\<open>iterdir\<close>\<close>
  "children t p = filter (\<lambda>(q, _). q \<noteq> [] \<and> butlast q = p) t"

definition path_str :: "string \<Rightarrow> string" where
  \<comment> \<open>\<open>str(Path(s))\<close>\<close>
  "path_str s =
     (let lead = (if starts_with ''//'' s \<and> \<not> starts_with ''///'' s then ''//''
                  else if starts_with ''/'' s then ''/'' else '''');
          r = lead @ join_with ''/'' (path_parts s)
      in if r = [] then ''.'' else r)"

subsection \<open>Operations\<close>

definition listing_of :: "path \<Rightarrow> string \<Rightarrow> string \<Rightarrow> path \<Rightarrow> tree \<Rightarrow> error + file_list_response" where
  "listing_of tenant_root tenant_slug rel_path target t =
     (case node_at t target of
        None \<Rightarrow> Inl (NotFoundError ''Directory'' (if rel_path = [] then ''/'' else rel_path))
      | Some (Doc c m) \<Rightarrow> Inl (ValidationError (''Path '' @ quoted rel_path @ '' is not a directory''))
      | Some (Folder m) \<Rightarrow>
          let raw = children t target;
              name = (\<lambda>(p, _). py_lower (last p));
              folders = sort_key name (filter (\<lambda>(_, n). is_folder_node (Some n)) raw);
              files = sort_key name (filter (\<lambda>(_, n). \<not> is_folder_node (Some n)) raw)
          in Inr \<lparr>fl_ok = True,
               fl_entries = map (\<lambda>(p, n). entry_from_path tenant_root p n) (folders @ files),
               fl_path = (if rel_path = [] then [] else path_str rel_path),
               fl_tenant_slug = tenant_slug\<rparr>)"

definition files_list :: "time \<Rightarrow> path \<Rightarrow> string \<Rightarrow> string \<Rightarrow> tree \<Rightarrow> (error + file_list_response) \<times> tree" where
  "files_list now base tenant_slug rel_path t =
     (case ensure_tenant_dir now base tenant_slug t of
        Inl x \<Rightarrow> (Inl x, t)
      | Inr (tenant_root, t') \<Rightarrow>
          ((case safe_resolve base tenant_slug rel_path of
              None \<Rightarrow> Inl (ForbiddenError ''Path traversal detected'')
            | Some target \<Rightarrow> listing_of tenant_root tenant_slug rel_path target t'), t'))"

definition files_audit :: "env \<Rightarrow> audit_context \<Rightarrow> string \<Rightarrow> string \<Rightarrow> string \<Rightarrow> (string \<times> json) list \<Rightarrow> db \<Rightarrow> db" where
  "files_audit e ctx action target_type target_id detail d =
     audit_log_entry e (env_ids e 0)
       \<lparr>ac_tenant_id = ctx_tenant_id ctx, ac_user_id = ctx_user_id ctx, ac_action = action,
        ac_target_type = target_type, ac_target_id = target_id, ac_detail = Some (JObj detail),
        ac_ip_address = ctx_ip_address ctx\<rparr> d"

definition os_mkdir :: "time \<Rightarrow> path \<Rightarrow> string \<Rightarrow> tree \<Rightarrow> error + tree" where
  "os_mkdir now p name t =
     (if is_folder t p then Inr (add_node (child_of p name) (Folder now) (touch_dir now p t)) else Inl os_error)"

definition files_mkdir ::
  "env \<Rightarrow> path \<Rightarrow> string \<Rightarrow> string \<Rightarrow> string \<Rightarrow> audit_context \<Rightarrow> fworld \<Rightarrow> (error + file_entry) \<times> fworld" where
  "files_mkdir e base tenant_slug rel_path name ctx w =
     (let safe_name = secure_filename name; (t, d) = w
      in if safe_name = [] then (Inl (ValidationError ''Invalid directory name''), w)
         else (case safe_resolve base tenant_slug rel_path of
           None \<Rightarrow> (Inl (ForbiddenError ''Path traversal detected''), w)
         | Some parent \<Rightarrow>
             if \<not> path_exists t parent
             then (Inl (NotFoundError ''Parent directory'' (if rel_path = [] then ''/'' else rel_path)), w)
             else if child_exists t parent safe_name
             then (Inl (ValidationError (quoted safe_name @ '' already exists'')), w)
             else (case os_mkdir (env_now e) parent safe_name t of
               Inl x \<Rightarrow> (Inl x, w)
             | Inr t1 \<Rightarrow>
                 (case ensure_tenant_dir (env_now e) base tenant_slug t1 of
                    Inl x \<Rightarrow> (Inl x, (t1, d))
                  | Inr (tenant_root, t2) \<Rightarrow>
                      let entry = entry_from_path tenant_root (child_of parent safe_name) (Folder (env_now e))
                      in (Inr entry, (t2, files_audit e ctx ''file.mkdir'' ''directory'' (fe_path entry)
                           [(''tenant_slug'', JStr tenant_slug), (''path'', JStr rel_path), (''name'', JStr safe_name)] d))))))"

definition files_rename ::
  "env \<Rightarrow> path \<Rightarrow> string \<Rightarrow> string \<Rightarrow> string \<Rightarrow> audit_context \<Rightarrow> fworld \<Rightarrow> (error + file_entry) \<times> fworld" where
  "files_rename e base tenant_slug rel_path new_name ctx w =
     (let safe_new_name = secure_filename new_name; (t, d) = w
      in if safe_new_name = [] then (Inl (ValidationError ''Invalid new name''), w)
         else (case safe_resolve base tenant_slug rel_path of
           None \<Rightarrow> (Inl (ForbiddenError ''Path traversal detected''), w)
         | Some target \<Rightarrow>
             (case node_at t target of
                None \<Rightarrow> (Inl (NotFoundError ''File or directory'' rel_path), w)
              | Some n \<Rightarrow>
                  (case ensure_tenant_dir (env_now e) base tenant_slug t of
                     Inl x \<Rightarrow> (Inl x, w)
                   | Inr (tenant_root, t1) \<Rightarrow>
                       if target = tenant_root
                       then (Inl (ForbiddenError ''Cannot rename the tenant root directory''), (t1, d))
                       else
                         let parent = butlast target; dest = child_of parent safe_new_name
                         in if \<not> is_within tenant_root dest
                            then (Inl (ForbiddenError ''Path traversal detected in destination''), (t1, d))
                            else if child_exists t1 parent safe_new_name
                            then (Inl (ValidationError (quoted safe_new_name @ '' already exists'')), (t1, d))
                            else
                              let entry = entry_from_path tenant_root dest n
                              in (Inr entry,
                                  (touch_dir (env_now e) parent (move_nodes target dest t1),
                                   files_audit e ctx ''file.rename''
                                     (if is_folder_node (Some n) then ''directory'' else ''file'') (fe_path entry)
                                     [(''tenant_slug'', JStr tenant_slug), (''old_path'', JStr rel_path),
                                      (''new_name'', JStr safe_new_name)] d))))))"

definition files_delete ::
  "env \<Rightarrow> path \<Rightarrow> string \<Rightarrow> string \<Rightarrow> audit_context \<Rightarrow> fworld \<Rightarrow> (error + unit) \<times> fworld" where
  "files_delete e base tenant_slug rel_path ctx w =
     (let (t, d) = w
      in case safe_resolve base tenant_slug rel_path of
           None \<Rightarrow> (Inl (ForbiddenError ''Path traversal detected''), w)
         | Some target \<Rightarrow>
             (case ensure_tenant_dir (env_now e) base tenant_slug t of
                Inl x \<Rightarrow> (Inl x, w)
              | Inr (tenant_root, t1) \<Rightarrow>
                  if target = tenant_root
                  then (Inl (ForbiddenError ''Cannot delete the tenant root directory''), (t1, d))
                  else (case node_at t1 target of
                    None \<Rightarrow> (Inl (NotFoundError ''File or directory'' rel_path), (t1, d))
                  | Some n \<Rightarrow>
                      if is_folder_node (Some n) \<and> children t1 target \<noteq> []
                      then (Inl (ValidationError ''Directory is not empty; remove contents first''), (t1, d))
                      else (Inr (), (touch_dir (env_now e) (butlast target) (del_node target t1),
                             files_audit e ctx ''file.delete''
                               (if is_folder_node (Some n) then ''directory'' else ''file'') rel_path
                               [(''tenant_slug'', JStr tenant_slug), (''path'', JStr rel_path)] d)))))"

subsection \<open>Endpoints\<close>

definition request_invalid :: error where
  \<comment> \<open>FastAPI's answer to a body that does not fit its model.\<close>
  "request_invalid = AppError ''Unprocessable Entity'' 422"

definition name_field_ok :: "string \<Rightarrow> bool" where
  "name_field_ok s \<longleftrightarrow> 1 \<le> length s \<and> length s \<le> 255"

definition files_guard :: "string \<Rightarrow> user_context \<Rightarrow> bool \<Rightarrow> db \<Rightarrow> error + tenant_read" where
  "files_guard slug user body_ok d =
     (case require_role ANALYST (Some slug) user of
        Inl x \<Rightarrow> Inl x
      | Inr _ \<Rightarrow> if \<not> body_ok then Inl request_invalid else tenant_get_by_slug slug d)"

definition list_files_ep ::
  "time \<Rightarrow> path \<Rightarrow> string \<Rightarrow> string \<Rightarrow> user_context \<Rightarrow> fworld \<Rightarrow> (error + file_list_response) \<times> fworld" where
  "list_files_ep now base slug rel_path user w =
     (case files_guard slug user True (snd w) of
        Inl x \<Rightarrow> (Inl x, w)
      | Inr tenant \<Rightarrow> (case files_list now base slug rel_path (fst w) of (r, t') \<Rightarrow> (r, (t', snd w))))"

definition mkdir_ep ::
  "env \<Rightarrow> path \<Rightarrow> string \<Rightarrow> string \<Rightarrow> string \<Rightarrow> request \<Rightarrow> user_context \<Rightarrow> fworld \<Rightarrow> (error + file_entry) \<times> fworld" where
  "mkdir_ep e base slug rel_path name rq user w =
     (case files_guard slug user (name_field_ok name) (snd w) of
        Inl x \<Rightarrow> (Inl x, w)
      | Inr tenant \<Rightarrow> files_mkdir e base slug rel_path name (build_audit_ctx user rq (Some (tr_id tenant))) w)"

definition rename_ep ::
  "env \<Rightarrow> path \<Rightarrow> string \<Rightarrow> string \<Rightarrow> string \<Rightarrow> request \<Rightarrow> user_context \<Rightarrow> fworld \<Rightarrow> (error + file_entry) \<times> fworld" where
  "rename_ep e base slug rel_path new_name rq user w =
     (case files_guard slug user (name_field_ok new_name) (snd w) of
        Inl x \<Rightarrow> (Inl x, w)
      | Inr tenant \<Rightarrow> files_rename e base slug rel_path new_name (build_audit_ctx user rq (Some (tr_id tenant))) w)"

definition delete_ep ::
  "env \<Rightarrow> path \<Rightarrow> string \<Rightarrow> string \<Rightarrow> request \<Rightarrow> user_context \<Rightarrow> fworld \<Rightarrow> (error + unit) \<times> fworld" where
  "delete_ep e base slug rel_path rq user w =
     (case files_guard slug user True (snd w) of
        Inl x \<Rightarrow> (Inl x, w)
      | Inr tenant \<Rightarrow> files_delete e base slug rel_path (build_audit_ctx user rq (Some (tr_id tenant))) w)"

subsection \<open>Uploads\<close>

record uploaded_file =
  uf_filename :: string
  uf_saved_as :: string
  uf_size :: nat

definition os_write :: "time \<Rightarrow> path \<Rightarrow> string \<Rightarrow> tree \<Rightarrow> error + tree" where
  \<comment> \<open>\<open>write_bytes\<close>: a new document, or a new content of the old one.\<close>
  "os_write now p content t =
     (case node_at t p of
        Some (Folder m) \<Rightarrow> Inl os_error
      | Some (Doc c m) \<Rightarrow> Inr (map (\<lambda>(q, n). (q, if q = p then Doc content now else n)) t)
      | None \<Rightarrow> if is_folder t (butlast p) then Inr (add_node p (Doc content now) (touch_dir now (butlast p) t))
                else Inl os_error)"

definition upload_name :: "string option \<Rightarrow> string" where
  "upload_name filename =
     (let original_name = (if truthy_str filename then the filename else ''file'');
          s = secure_filename original_name
      in if s = [] then ''file'' else s)"

fun save_uploads ::
  "time \<Rightarrow> path \<Rightarrow> string list \<Rightarrow> (string option \<times> string) list \<Rightarrow> tree \<Rightarrow> (error + uploaded_file list) \<times> tree" where
  "save_uploads now dir hexes [] t = (Inr [], t)"
| "save_uploads now dir hexes ((filename, content) # rest) t =
     (let safe_name = upload_name filename; name = hd hexes @ ''_'' @ safe_name
      in case os_write now (dir @ [name]) content t of
           Inl x \<Rightarrow> (Inl x, t)
         | Inr t' \<Rightarrow> attempt (save_uploads now dir (tl hexes) rest t') (\<lambda>files t''.
             (Inr (\<lparr>uf_filename = safe_name, uf_saved_as = name,
                    uf_size = length content\<rparr> # files), t'')))"

definition upload_files ::
  "time \<Rightarrow> string list \<Rightarrow> path \<Rightarrow> (string option \<times> string) list \<Rightarrow> user_context \<Rightarrow> tree \<Rightarrow>
     (error + uploaded_file list) \<times> tree" where
  "upload_files now hexes dir files user t =
     (case require_role VIEWER None user of
        Inl x \<Rightarrow> (Inl x, t)
      | Inr _ \<Rightarrow>
          if files = [] then (Inl (AppError ''No files provided'' 400), t)
          else (case mkdirs now [] dir t of
                  Inl x \<Rightarrow> (Inl x, t)
                | Inr t' \<Rightarrow> save_uploads now dir hexes files t'))"

subsection \<open>Names: facts\<close>

lemma set_strip_where: "set (strip_where P s) \<subseteq> set s"
  unfolding strip_where_def lstrip_where_def rstrip_where_def
  by (metis order_trans set_dropWhileD set_rev subsetI)

lemma set_basename: "set (basename s) \<subseteq> set s"
proof -
  have "set w \<subseteq> set s" if "w \<in> set (split_on c s)" for c w
    using that by (induction s arbitrary: w) (fastforce split: if_splits list.splits)+
  then show ?thesis by (metis basename_def last_in_set split_on_nonempty)
qed

lemma secure_chars: "c \<in> set (secure_filename s) \<Longrightarrow> safe_name_char c"
  using set_strip_where [of is_space "lstrip_where (\<lambda>c. c = CHR ''.'' \<or> c = CHR '' '') (filter safe_name_char (basename s))"]
  by (auto simp: secure_filename_def py_strip_def lstrip_where_def dest!: set_dropWhileD subsetD)

lemma slash_unsafe: "\<not> safe_name_char (CHR ''/'')"
  by code_simp

lemma secure_no_slash: "CHR ''/'' \<notin> set (secure_filename s)"
  using secure_chars slash_unsafe by blast

lemma slug_char_safe: "slug_char c \<Longrightarrow> safe_name_char c \<and> c \<noteq> CHR ''.'' \<and> \<not> is_space c \<and> c \<noteq> CHR ''/''"
  by (auto simp: slug_char_def safe_name_char_def is_word_def is_alpha_def is_digit_def is_space_def code_of_def)

lemma secure_slug:
  assumes "slug_ok s"
  shows "secure_filename s = s"
proof -
  have a: "\<forall>c \<in> set s. slug_char c" using assms by (simp add: slug_ok_def list_all_iff)
  then have b: "basename s = s" "filter safe_name_char s = s"
    using slug_char_safe by (auto intro!: basename_id filter_True)
  have "s = [] \<or> \<not> (hd s = CHR ''.'' \<or> hd s = CHR '' '')"
    using a slug_char_safe [of "hd s"] by (cases s) (auto simp: is_space_def code_of_def)
  then have "lstrip_where (\<lambda>c. c = CHR ''.'' \<or> c = CHR '' '') s = s" by (rule lstrip_id)
  moreover have "py_strip s = s" unfolding py_strip_def using a slug_char_safe by (intro strip_id_none) blast
  ultimately show ?thesis by (simp add: secure_filename_def b)
qed

lemma clean_slug: "slug_ok s \<Longrightarrow> s \<noteq> [] \<Longrightarrow> clean s"
  using slug_char_safe by (fastforce simp: slug_ok_def list_all_iff clean_def)

text \<open>Without white space other than blanks, a secured name is no dot name and is never hidden.\<close>

lemma secure_plain:
  assumes "\<forall>c \<in> set s. is_space c \<longrightarrow> c = CHR '' ''" and "secure_filename s \<noteq> []"
  shows "hd (secure_filename s) \<noteq> CHR ''.'' \<and> \<not> is_space (hd (secure_filename s))"
proof -
  let ?P = "\<lambda>c. c = CHR ''.'' \<or> c = CHR '' ''"
  let ?l = "lstrip_where ?P (filter safe_name_char (basename s))"
  have sub: "set ?l \<subseteq> set s"
    unfolding lstrip_where_def using set_basename by (force dest!: set_dropWhileD)
  have sec: "secure_filename s = rstrip_where is_space (lstrip_where is_space ?l)"
    by (simp add: secure_filename_def py_strip_def strip_where_def)
  have ne: "?l \<noteq> []"
  proof
    assume "?l = []"
    then have "secure_filename s = rstrip_where is_space (lstrip_where is_space [])" by (simp only: sec)
    with assms(2) show False by (simp add: rstrip_where_def lstrip_where_def)
  qed
  then have h: "\<not> ?P (hd ?l)" by (rule hd_lstrip)
  moreover have "hd ?l \<in> set s" using sub hd_in_set [OF ne] by blast
  ultimately have "\<not> is_space (hd ?l)" using assms(1) by blast
  then have "lstrip_where is_space ?l = ?l" by (intro lstrip_id) simp
  with sec assms(2) have "hd (secure_filename s) = hd ?l" by (simp add: hd_rstrip)
  with h \<open>\<not> is_space (hd ?l)\<close> show ?thesis by simp
qed

text \<open>A tab before the dots survives the first strip and goes with the second.\<close>

lemma secure_tab_dots: "secure_filename (CHR 0x09 # ''..'') = ''..''"
  by code_simp

subsection \<open>What an operation leaves alone\<close>

definition part :: "path \<Rightarrow> tree \<Rightarrow> tree" where
  \<comment> \<open>The entries at and below a path, in scan order.\<close>
  "part r t = filter (\<lambda>(q, n). is_within r q) t"

definition apart :: "path \<Rightarrow> path \<Rightarrow> bool" where
  "apart r s \<longleftrightarrow> \<not> is_within r s \<and> \<not> is_within s r"

definition confined :: "path \<Rightarrow> tree \<Rightarrow> tree \<Rightarrow> bool" where
  \<comment> \<open>Beside the root nothing changes; above it folders stay folders and may appear.\<close>
  "confined root t t' \<longleftrightarrow>
     (\<forall>r. apart root r \<longrightarrow> part r t' = part r t) \<and>
     (\<forall>q. is_within q root \<longrightarrow> q \<noteq> root \<longrightarrow>
        node_at t' q = node_at t q \<or> is_folder t' q \<and> (node_at t q = None \<or> is_folder t q))"

lemma confined_refl [simp]: "confined root t t"
  by (simp add: confined_def)

lemma confined_trans: "confined root t t' \<Longrightarrow> confined root t' t'' \<Longrightarrow> confined root t t''"
  unfolding confined_def by (metis is_folder_node.simps(3))

lemma part_add [table_simps]: "\<not> is_within r p \<Longrightarrow> part r (add_node p n t) = part r t"
  by (simp add: part_def add_node_def)

lemma part_del [table_simps]: "\<not> is_within r p \<Longrightarrow> part r (del_node p t) = part r t"
  by (induction t) (auto simp: part_def del_node_def dict_pop_def)

lemma part_touch [table_simps]: "\<not> is_within r p \<Longrightarrow> part r (touch_dir now p t) = part r t"
  by (induction t) (auto simp: part_def touch_dir_def)

lemma part_move [table_simps]:
  assumes "apart r s" "apart r d"
  shows "part r (move_nodes s d t) = part r t"
proof (induction t)
  case (Cons x t)
  obtain p n where x: "x = (p, n)" by (cases x)
  have "is_within r (rebase s d p) = is_within r p \<and> (is_within r p \<longrightarrow> rebase s d p = p)"
  proof (cases "is_within s p")
    case True
    have "\<not> is_within r p" using assms(1) True within_parallel by (auto simp: apart_def)
    moreover have "is_within d (rebase s d p)" using True by (simp add: rebase_def)
    then have "\<not> is_within r (rebase s d p)" using assms(2) within_parallel by (auto simp: apart_def)
    ultimately show ?thesis by simp
  qed (simp add: rebase_def)
  with Cons show ?case by (simp add: x part_def move_nodes_def)
qed (simp add: part_def move_nodes_def)

lemma node_at_part: "is_within r p \<Longrightarrow> p \<noteq> [] \<Longrightarrow> node_at (part r t) p = node_at t p"
  by (induction t) (auto simp: node_at_def part_def)

lemma apart_within: "apart root r \<Longrightarrow> is_within root p \<Longrightarrow> apart r p"
  unfolding apart_def by (metis is_within_trans within_parallel)

lemma above_within: "is_within q root \<Longrightarrow> q \<noteq> root \<Longrightarrow> is_within root p \<Longrightarrow> q \<noteq> p \<and> \<not> is_within p q"
  by (auto simp: is_within_iff)

lemma apart_not: "apart root r \<Longrightarrow> is_within root p \<Longrightarrow> \<not> is_within r p"
  by (metis apart_def apart_within)

lemma confinedI:
  assumes "\<And>r. apart root r \<Longrightarrow> part r t' = part r t"
    and "\<And>q. is_within q root \<Longrightarrow> q \<noteq> root \<Longrightarrow> node_at t' q = node_at t q"
  shows "confined root t t'"
  using assms by (simp add: confined_def)

lemma confined_by_nodes:
  assumes "is_within root p" "\<And>r. \<not> is_within r p \<Longrightarrow> part r t' = part r t"
    and "\<And>q. q \<noteq> p \<Longrightarrow> node_at t' q = node_at t q"
  shows "confined root t t'"
proof (rule confinedI)
  show "part r t' = part r t" if "apart root r" for r
    using assms(2) apart_not [OF that assms(1)] by blast
  show "node_at t' q = node_at t q" if "is_within q root" "q \<noteq> root" for q
    using assms(3) above_within [OF that assms(1)] by blast
qed

lemma confined_add: "is_within root p \<Longrightarrow> p \<noteq> [] \<Longrightarrow> node_at t p = None \<Longrightarrow> confined root t (add_node p n t)"
  by (rule confined_by_nodes [where p = p]) (simp_all add: part_add node_at_add)

lemma confined_del: "is_within root p \<Longrightarrow> p \<noteq> [] \<Longrightarrow> confined root t (del_node p t)"
  by (rule confined_by_nodes [where p = p]) (simp_all add: part_del node_at_del)

lemma confined_touch: "is_within root p \<Longrightarrow> confined root t (touch_dir now p t)"
  by (rule confined_by_nodes [where p = p]) (simp_all add: part_touch node_at_touch)

lemma confined_move:
  assumes "is_within root s" "is_within root d" "wf_tree t" "moved_ok s d t"
  shows "confined root t (move_nodes s d t)"
proof (rule confinedI)
  fix r assume "apart root r"
  from apart_within [OF this] assms(1,2) show "part r (move_nodes s d t) = part r t"
    by (intro part_move) blast+
next
  fix q assume q: "is_within q root" "q \<noteq> root"
  have "\<not> is_within s q" "\<not> is_within d q" using above_within [OF q] assms(1,2) by blast+
  then show "node_at (move_nodes s d t) q = node_at t q"
    by (simp add: node_at_move [OF assms(3,4)])
qed

lemma mkdirs_part:
  assumes "mkdirs now p xs t = Inr t'" "''..'' \<notin> set p" "list_all clean xs" "\<not> is_within r (p @ xs)"
  shows "part r t' = part r t"
  using assms
proof (induction xs arbitrary: p t)
  case (Cons x xs)
  let ?q = "p @ [x]"
  have c: "child_of p x = ?q" using Cons.prems by (intro clean_child) (auto simp: clean_def)
  have l: "list_all clean xs" using Cons.prems(3) by simp
  have d: "''..'' \<notin> set ?q" using Cons.prems by (auto simp: clean_def)
  have "is_within ?q (p @ x # xs)" "is_within p (p @ x # xs)" by (simp_all add: is_within_def)
  with Cons.prems(4) is_within_trans [of r] have n: "\<not> is_within r (?q @ xs)" "\<not> is_within r ?q" "\<not> is_within r p"
    by auto
  show ?case
  proof (cases "node_at t ?q")
    case None
    with Cons.prems(1) have "mkdirs now ?q xs (add_node ?q (Folder now) (touch_dir now p t)) = Inr t'"
      by (simp add: c)
    from Cons.IH [OF this d l n(1)] n show ?thesis by (simp add: part_add part_touch)
  next
    case (Some z)
    with Cons.prems(1) have "mkdirs now ?q xs t = Inr t'" by (cases z) (simp_all add: c)
    from Cons.IH [OF this d l n(1)] show ?thesis .
  qed
qed simp

lemma mkdirs_confined:
  assumes "mkdirs now [] root t = Inr t'" "wf_tree t" "list_all clean root"
  shows "wf_tree t' \<and> is_folder t' root \<and> confined root t t'"
proof -
  from mkdirs_effect [OF assms(1,2) _ _ assms(3)]
  have e: "wf_tree t'" "is_folder t' root"
    "\<And>q. is_within q root \<Longrightarrow> is_folder t' q \<and> (node_at t q = None \<or> is_folder t q)"
    by auto
  moreover have "part r t' = part r t" if "apart root r" for r
    using mkdirs_part [OF assms(1) _ assms(3)] that by (simp add: apart_def)
  ultimately show ?thesis by (auto simp: confined_def)
qed

subsection \<open>The operations are confined\<close>

definition tenant_root :: "path \<Rightarrow> string \<Rightarrow> path" where
  "tenant_root base slug = base @ [slug]"

definition files_pre :: "path \<Rightarrow> string \<Rightarrow> bool" where
  \<comment> \<open>A resolved base directory and a slug as the tenants service makes them.\<close>
  "files_pre base slug \<longleftrightarrow> list_all clean base \<and> slug_ok slug \<and> slug \<noteq> []"

lemma files_preD:
  assumes "files_pre base slug"
  shows "secure_filename slug = slug" "slug \<noteq> []" "''..'' \<notin> set base" "child_of base slug = tenant_root base slug"
    "list_all clean (base @ [slug])" "''..'' \<notin> set (tenant_root base slug)"
proof -
  have c: "list_all clean base" "clean slug" using assms clean_slug by (simp_all add: files_pre_def)
  then show l: "list_all clean (base @ [slug])" by simp
  show b: "''..'' \<notin> set base" using c by (auto simp: list_all_iff clean_def)
  with c show "''..'' \<notin> set (tenant_root base slug)" by (auto simp: clean_def tenant_root_def)
  from b c show "child_of base slug = tenant_root base slug"
    unfolding tenant_root_def by (intro clean_child) (auto simp: clean_def)
  show "secure_filename slug = slug" "slug \<noteq> []" using assms secure_slug by (auto simp: files_pre_def)
qed

lemma norm_path_dots: "''..'' \<notin> set (norm_path p)"
  using fold_norm_set [of p "[]"] by (auto simp: norm_path_def)

lemma safe_resolve_in:
  assumes "files_pre base slug" "safe_resolve base slug rel = Some p"
  shows "is_within (tenant_root base slug) p" "''..'' \<notin> set p"
  using assms(2) norm_path_dots
  by (auto simp: safe_resolve_def Let_def files_preD [OF assms(1)] resolve_under_def split: if_splits)

lemma ensure_tenant_dir_in:
  assumes "files_pre base slug" "wf_tree t" "ensure_tenant_dir now base slug t = Inr (r, t')"
  shows "r = tenant_root base slug" "wf_tree t'" "is_folder t' r" "confined r t t'"
proof -
  note pre = files_preD [OF assms(1)]
  from assms(3) have m: "mkdirs now [] (base @ [slug]) t = Inr t'" and r: "r = tenant_root base slug"
    by (auto simp: ensure_tenant_dir_def Let_def pre split: sum.splits)
  from mkdirs_confined [OF m assms(2) pre(5)] r
  show "r = tenant_root base slug" "wf_tree t'" "is_folder t' r" "confined r t t'"
    by (simp_all add: tenant_root_def)
qed

lemma ensure_tenant_dir_id:
  assumes "files_pre base slug" "wf_tree t" "is_within (tenant_root base slug) p" "node_at t p \<noteq> None"
    "is_folder t p \<or> p \<noteq> tenant_root base slug"
  shows "ensure_tenant_dir now base slug t = Inr (tenant_root base slug, t)"
proof -
  note pre = files_preD [OF assms(1)]
  have "is_folder t (base @ [slug])"
  proof (cases "p = tenant_root base slug")
    case True with assms(5) show ?thesis by (simp add: tenant_root_def)
  next
    case False
    obtain q where q: "p = tenant_root base slug @ q" using assms(3) by (auto simp: is_within_iff)
    with False have "q \<noteq> []" by auto
    with wf_prefix [OF assms(2)] assms(4) q show ?thesis by (auto simp: tenant_root_def)
  qed
  then have "mkdirs now [] (base @ [slug]) t = Inr t"
    using mkdirs_exists [OF assms(2), of "[]" "base @ [slug]"] pre(5) by simp
  then show ?thesis by (simp add: ensure_tenant_dir_def Let_def pre)
qed

definition files_safe :: "path \<Rightarrow> tree \<Rightarrow> tree \<Rightarrow> bool" where
  "files_safe root t t' \<longleftrightarrow> wf_tree t' \<and> confined root t t'"

lemma files_safe_refl: "wf_tree t \<Longrightarrow> files_safe root t t"
  by (simp add: files_safe_def)

lemma files_safe_trans: "files_safe root t t' \<Longrightarrow> files_safe root t' t'' \<Longrightarrow> files_safe root t t''"
  using confined_trans by (auto simp: files_safe_def)

lemma ensure_safe:
  assumes "files_pre base slug" "wf_tree t" "ensure_tenant_dir now base slug t = Inr (r, t')"
  shows "files_safe (tenant_root base slug) t t'"
  using ensure_tenant_dir_in [OF assms] by (simp add: files_safe_def)

lemma files_list_safe:
  assumes "files_pre base slug" "wf_tree t" "files_list now base slug rel t = (r, t')"
  shows "files_safe (tenant_root base slug) t t'"
  using assms(3) ensure_safe [OF assms(1,2)] files_safe_refl [OF assms(2)]
  by (auto simp: files_list_def split: sum.splits prod.splits)

lemma mkdir_step_safe:
  assumes "wf_tree t" "is_within root p" "''..'' \<notin> set p" "os_mkdir now p name t = Inr t'"
    "\<not> child_exists t p name"
  shows "files_safe root t t' \<and> child_of p name = p @ [name] \<and> node_at t' (p @ [name]) = Some (Folder now)"
proof -
  have f: "is_folder t p" and t': "t' = add_node (child_of p name) (Folder now) (touch_dir now p t)"
    using assms(4) by (auto simp: os_mkdir_def split: if_splits)
  have ne: "node_at t (child_of p name) = None" "name \<noteq> ''.''"
    using assms(5) f by (auto simp: child_exists_def path_exists_def is_folder_node_iff split: if_splits)
  have up: "node_at t (butlast p) \<noteq> None"
    using wf_parent [OF assms(1), of p] f by (cases "p = []") (auto simp: is_folder_node_iff)
  have c: "child_of p name = p @ [name]"
  proof (rule child_cases [OF assms(3), of name])
    assume "child_of p name = p"
    with ne f show ?thesis by simp
  next
    assume "child_of p name = butlast p"
    with ne up show ?thesis by simp
  qed
  have w: "is_within root (p @ [name])" using assms(2) by (auto simp: is_within_iff)
  have free: "node_at (touch_dir now p t) (p @ [name]) = None" using ne c by simp
  have "wf_tree t'" unfolding t' c using assms(1) f free by (intro wf_add) simp_all
  moreover have "confined root t t'" unfolding t' c
    by (rule confined_trans [OF confined_touch [OF assms(2)] confined_add [OF w _ free]]) simp
  ultimately show ?thesis using c free by (simp add: files_safe_def t' node_at_add)
qed

lemma files_mkdir_safe:
  assumes pre: "files_pre base slug" and wf: "wf_tree t"
    and step: "files_mkdir e base slug rel name ctx (t, d) = (r, (t', d'))"
  shows "files_safe (tenant_root base slug) t t'"
proof (cases "safe_resolve base slug rel")
  case None
  with step files_safe_refl [OF wf] show ?thesis by (auto simp: files_mkdir_def Let_def split: if_splits)
next
  case (Some p)
  note p = safe_resolve_in [OF pre Some]
  have mk: "files_safe (tenant_root base slug) t t1"
    if "os_mkdir (env_now e) p (secure_filename name) t = Inr t1" "\<not> child_exists t p (secure_filename name)" for t1
    using mkdir_step_safe [OF wf p that] by blast
  have en: "files_safe (tenant_root base slug) t t2"
    if "os_mkdir (env_now e) p (secure_filename name) t = Inr t1" "\<not> child_exists t p (secure_filename name)"
      "ensure_tenant_dir (env_now e) base slug t1 = Inr (x, t2)" for t1 t2 x
    using files_safe_trans [OF mk [OF that(1,2)] ensure_safe [OF pre _ that(3)]] mk [OF that(1,2)]
    by (simp add: files_safe_def)
  from step Some mk en files_safe_refl [OF wf] show ?thesis
    by (auto simp: files_mkdir_def Let_def split: if_splits sum.splits prod.splits)
qed

lemma within_butlast:
  assumes "is_within root p" "p \<noteq> root"
  shows "is_within root (butlast p)" "p \<noteq> []"
proof -
  obtain q where "p = root @ q" using assms(1) by (auto simp: is_within_iff)
  with assms(2) show "is_within root (butlast p)" "p \<noteq> []" by (auto simp: butlast_append)
qed

lemma rename_step:
  assumes wf: "wf_tree t" and w: "is_within root p" "p \<noteq> root" "''..'' \<notin> set p" and n: "node_at t p = Some n"
    and free: "\<not> child_exists t (butlast p) name" and dw: "is_within root (child_of (butlast p) name)"
  shows "moved_ok p (child_of (butlast p) name) t" "child_of (butlast p) name = butlast p @ [name]"
proof -
  let ?b = "butlast p"
  have pne: "p \<noteq> []" using within_butlast [OF w(1,2)] by blast
  have f: "is_folder t ?b" using wf_parent [OF wf pne] n by simp
  have b: "''..'' \<notin> set ?b" using w(3) in_set_butlastD by fast
  have ne: "node_at t (child_of ?b name) = None" "name \<noteq> ''.''"
    using free f by (auto simp: child_exists_def path_exists_def is_folder_node_iff split: if_splits)
  have up: "node_at t (butlast ?b) \<noteq> None"
    using wf_parent [OF wf, of ?b] f by (cases "?b = []") (auto simp: is_folder_node_iff)
  show c: "child_of ?b name = ?b @ [name]"
  proof (rule child_cases [OF b, of name])
    assume "child_of ?b name = ?b"
    with ne f show ?thesis by simp
  next
    assume "child_of ?b name = butlast ?b"
    with ne up show ?thesis by simp
  qed
  with ne n pne show "moved_ok p (child_of ?b name) t" by (simp add: moved_ok_def)
qed

lemma rename_step_safe:
  assumes wf: "wf_tree t" and w: "is_within root p" "p \<noteq> root" and ok: "moved_ok p q t" and dw: "is_within root q"
  shows "files_safe root t (touch_dir now (butlast p) (move_nodes p q t))"
proof -
  have "files_safe root t (move_nodes p q t)"
    using wf_move [OF wf ok] confined_move [OF w(1) dw wf ok] by (simp add: files_safe_def)
  moreover from this have "files_safe root (move_nodes p q t) (touch_dir now (butlast p) (move_nodes p q t))"
    using confined_touch [OF within_butlast(1) [OF w]] by (simp add: files_safe_def)
  ultimately show ?thesis by (rule files_safe_trans)
qed

lemma files_rename_safe:
  assumes pre: "files_pre base slug" and wf: "wf_tree t"
    and step: "files_rename e base slug rel name ctx (t, d) = (r, (t', d'))"
  shows "files_safe (tenant_root base slug) t t'"
proof (cases "safe_resolve base slug rel")
  case None
  with step files_safe_refl [OF wf] show ?thesis by (auto simp: files_rename_def Let_def split: if_splits)
next
  case (Some p)
  let ?root = "tenant_root base slug"
  note p = safe_resolve_in [OF pre Some]
  show ?thesis
  proof (cases "node_at t p")
    case None
    with step Some files_safe_refl [OF wf] show ?thesis
      by (auto simp: files_rename_def Let_def split: if_splits)
  next
    case (Some n)
    show ?thesis
    proof (cases "p = ?root \<and> \<not> is_folder t p")
      case True
      then have "files_safe ?root t t''" if "ensure_tenant_dir now base slug t = Inr (x, t'')" for now x t''
        using ensure_safe [OF pre wf that] by simp
      moreover have "fst (snd (files_rename e base slug rel name ctx (t, d))) = t \<or>
          (\<exists>x. ensure_tenant_dir (env_now e) base slug t = Inr (x, fst (snd (files_rename e base slug rel name ctx (t, d)))))"
        using \<open>safe_resolve base slug rel = Some p\<close> Some True ensure_tenant_dir_in(1) [OF pre wf]
        by (auto simp: files_rename_def Let_def split: sum.splits)
      ultimately show ?thesis using step files_safe_refl [OF wf] by auto
    next
      case False
      then have en: "ensure_tenant_dir now base slug t = Inr (?root, t)" for now
        using ensure_tenant_dir_id [OF pre wf p(1)] Some by auto
      have mv: "files_safe ?root t (touch_dir now (butlast p) (move_nodes p (child_of (butlast p) nm) t))"
        if "p \<noteq> ?root" "\<not> child_exists t (butlast p) nm" "is_within ?root (child_of (butlast p) nm)" for nm now
        using rename_step_safe [OF wf p(1) that(1) rename_step(1) [OF wf p(1) that(1) p(2) Some that(2,3)] that(3)] .
      from step \<open>safe_resolve base slug rel = Some p\<close> Some mv files_safe_refl [OF wf] show ?thesis
        by (auto simp: files_rename_def Let_def en split: if_splits)
    qed
  qed
qed

lemma children_Nil_iff: "children t p = [] \<longleftrightarrow> (\<forall>x. node_at t (p @ [x]) = None)"
proof -
  have "children t p = [] \<longleftrightarrow> (\<forall>k \<in> fst ` set t. \<not> (k \<noteq> [] \<and> butlast k = p))"
    by (auto simp: children_def filter_empty_conv)
  also have "\<dots> \<longleftrightarrow> (\<forall>x. p @ [x] \<notin> fst ` set t)"
    by (metis append_butlast_last_id append_is_Nil_conv butlast_snoc list.distinct(1))
  finally show ?thesis by (simp add: node_at_mem)
qed

lemma files_delete_safe:
  assumes pre: "files_pre base slug" and wf: "wf_tree t"
    and step: "files_delete e base slug rel ctx (t, d) = (r, (t', d'))"
  shows "files_safe (tenant_root base slug) t t'"
proof (cases "safe_resolve base slug rel")
  case None
  with step files_safe_refl [OF wf] show ?thesis by (auto simp: files_delete_def)
next
  case (Some p)
  let ?root = "tenant_root base slug"
  note p = safe_resolve_in [OF pre Some]
  show ?thesis
  proof (cases "ensure_tenant_dir (env_now e) base slug t")
    case (Inl x)
    with step Some files_safe_refl [OF wf] show ?thesis by (auto simp: files_delete_def)
  next
    case (Inr y)
    obtain x t1 where y: "y = (x, t1)" by (cases y)
    note en = ensure_tenant_dir_in [OF pre wf Inr [unfolded y]]
    have t1: "files_safe ?root t t1" using en by (simp add: files_safe_def)
    have del: "files_safe ?root t (touch_dir now (butlast p) (del_node p t1))"
      if ne: "p \<noteq> ?root" and n: "node_at t1 p = Some n" and c: "is_folder_node (Some n) \<Longrightarrow> children t1 p = []" for n now
    proof -
      have "node_at t1 (p @ [z]) = None" for z
      proof (cases "is_folder_node (Some n)")
        case True with c children_Nil_iff [of t1 p] show ?thesis by blast
      next
        case False with n wf_no_children [OF en(2)] show ?thesis by simp
      qed
      then have "wf_tree (del_node p t1)" using wf_del [OF en(2) within_butlast(2) [OF p(1) ne]] by blast
      moreover have "confined ?root t1 (del_node p t1)" using confined_del [OF p(1) within_butlast(2) [OF p(1) ne]] .
      moreover have "confined ?root (del_node p t1) (touch_dir now (butlast p) (del_node p t1))"
        using confined_touch [OF within_butlast(1) [OF p(1) ne]] .
      ultimately have "files_safe ?root t1 (touch_dir now (butlast p) (del_node p t1))"
        using confined_trans by (auto simp: files_safe_def)
      with t1 show ?thesis by (rule files_safe_trans)
    qed
    from step Some Inr y en(1) t1 del show ?thesis
      by (auto simp: files_delete_def split: if_splits option.splits)
  qed
qed

subsection \<open>Sequences of operations\<close>

datatype files_op =
    FList string
  | FMkdir string string
  | FRename string string
  | FDelete string

fun files_step :: "env \<Rightarrow> path \<Rightarrow> string \<Rightarrow> audit_context \<Rightarrow> files_op \<Rightarrow> fworld \<Rightarrow> fworld" where
  "files_step e base slug ctx (FList rel) w = (snd (files_list (env_now e) base slug rel (fst w)), snd w)"
| "files_step e base slug ctx (FMkdir rel name) w = snd (files_mkdir e base slug rel name ctx w)"
| "files_step e base slug ctx (FRename rel name) w = snd (files_rename e base slug rel name ctx w)"
| "files_step e base slug ctx (FDelete rel) w = snd (files_delete e base slug rel ctx w)"

definition files_run :: "path \<Rightarrow> string \<Rightarrow> (env \<times> audit_context \<times> files_op) list \<Rightarrow> fworld \<Rightarrow> fworld" where
  "files_run base slug ops w = fold (\<lambda>(e, ctx, op) w. files_step e base slug ctx op w) ops w"

lemma files_step_safe:
  assumes "files_pre base slug" "wf_tree (fst w)"
  shows "files_safe (tenant_root base slug) (fst w) (fst (files_step e base slug ctx op w))"
proof (cases op)
  case (FList rel)
  with files_list_safe [OF assms(1,2)] show ?thesis by (metis files_step.simps(1) fst_conv prod.collapse)
next
  case (FMkdir rel name)
  with files_mkdir_safe [OF assms(1,2)] show ?thesis by (metis files_step.simps(2) prod.collapse)
next
  case (FRename rel name)
  with files_rename_safe [OF assms(1,2)] show ?thesis by (metis files_step.simps(3) prod.collapse)
next
  case (FDelete rel)
  with files_delete_safe [OF assms(1,2)] show ?thesis by (metis files_step.simps(4) prod.collapse)
qed

lemma files_run_safe:
  "files_pre base slug \<Longrightarrow> wf_tree (fst w) \<Longrightarrow>
     files_safe (tenant_root base slug) (fst w) (fst (files_run base slug ops w))"
proof (induction ops arbitrary: w)
  case Nil
  then show ?case by (simp add: files_run_def files_safe_refl)
next
  case (Cons x ops)
  obtain e ctx op where x: "x = (e, ctx, op)" by (cases x)
  note s = files_step_safe [OF Cons.prems, of e ctx op]
  then have "wf_tree (fst (files_step e base slug ctx op w))" by (simp add: files_safe_def)
  from files_safe_trans [OF s Cons.IH [OF Cons.prems(1) this]] show ?case
    by (simp add: files_run_def x)
qed

subsection \<open>A listing reads its own part\<close>

lemma children_part: "is_within r p \<Longrightarrow> children t p = children (part r t) p"
proof -
  assume w: "is_within r p"
  have "q \<noteq> [] \<Longrightarrow> butlast q = p \<Longrightarrow> is_within r q" for q
    using w by (metis append_butlast_last_id is_within_iff is_within_refl(2) is_within_trans)
  then show ?thesis by (auto simp: children_def part_def intro!: filter_cong)
qed

lemma mkdirs_last:
  assumes "wf_tree t" "is_folder t (p @ xs)" "''..'' \<notin> set p" "list_all clean xs"
  shows "mkdirs now p (xs @ [y]) t = mkdirs now (p @ xs) [y] t"
  using assms
proof (induction xs arbitrary: p)
  case (Cons x xs)
  have c: "child_of p x = p @ [x]" using Cons.prems by (intro clean_child) (auto simp: clean_def)
  have f: "is_folder t (p @ [x])"
  proof (cases "xs = []")
    case False
    moreover have "node_at t ((p @ [x]) @ xs) \<noteq> None" using Cons.prems(2) by (auto simp: is_folder_node_iff)
    ultimately show ?thesis using wf_prefix [OF Cons.prems(1)] by blast
  qed (use Cons.prems(2) in simp)
  have "''..'' \<notin> set (p @ [x])" using Cons.prems by (auto simp: clean_def)
  with Cons.IH [of "p @ [x]"] Cons.prems f show ?case by (auto simp: c is_folder_node_iff)
qed simp

lemma ensure_cases:
  assumes "files_pre base slug" "wf_tree t" "is_folder t base"
  shows "ensure_tenant_dir now base slug t =
    (case node_at t (tenant_root base slug) of
       Some (Folder m) \<Rightarrow> Inr (tenant_root base slug, t)
     | Some (Doc c m) \<Rightarrow> Inl os_error
     | None \<Rightarrow> Inr (tenant_root base slug, add_node (tenant_root base slug) (Folder now) (touch_dir now base t)))"
proof -
  note pre = files_preD [OF assms(1)]
  have "mkdirs now [] (base @ [slug]) t = mkdirs now base [slug] t"
    using mkdirs_last [OF assms(2), of "[]" base now slug] assms(3) pre(5) by simp
  with pre(4) show ?thesis
    by (auto simp: ensure_tenant_dir_def Let_def pre split: option.splits node.splits)
qed

lemma listing_of_cong:
  assumes "node_at t p = node_at u p" and "children t p = children u p"
  shows "listing_of root slug rel p t = listing_of root slug rel p u"
  unfolding listing_of_def assms ..

lemma files_list_part:
  assumes pre: "files_pre base slug" and wf: "wf_tree t" "wf_tree u" and base: "is_folder t base" "is_folder u base"
    and eq: "part (tenant_root base slug) t = part (tenant_root base slug) u"
  shows "fst (files_list now base slug rel t) = fst (files_list now base slug rel u)"
proof -
  let ?r = "tenant_root base slug"
  have ne: "is_within ?r p \<Longrightarrow> p \<noteq> []" for p by (auto simp: tenant_root_def is_within_iff)
  have nodes: "is_within ?r p \<Longrightarrow> node_at t p = node_at u p" for p
    using node_at_part [OF _ ne] eq by metis
  have kids: "is_within ?r p \<Longrightarrow> children t p = children u p" for p
    using children_part eq by metis
  show ?thesis
  proof (cases "safe_resolve base slug rel")
    case no_target: None
    note ens = ensure_cases [OF pre wf(1) base(1)] ensure_cases [OF pre wf(2) base(2)]
    show ?thesis
    proof (cases "node_at t ?r")
      case None
      moreover from this have "node_at u ?r = None" using nodes [of ?r] by simp
      ultimately show ?thesis using no_target by (simp add: files_list_def ens)
    next
      case (Some n)
      moreover from this have "node_at u ?r = Some n" using nodes [of ?r] by simp
      ultimately show ?thesis using no_target by (cases n) (simp_all add: files_list_def ens)
    qed
  next
    case (Some p)
    note p = safe_resolve_in [OF pre Some]
    show ?thesis
    proof (cases "node_at t ?r")
      case None
      let ?t = "\<lambda>t. add_node ?r (Folder now) (touch_dir now base t)"
      have "is_within ?r q \<Longrightarrow> q \<noteq> base" for q by (auto simp: tenant_root_def is_within_iff)
      then have "node_at (?t t) p = node_at (?t u) p"
        using None nodes [of ?r] nodes [OF p(1)] p(1) by (simp add: node_at_add node_at_touch ne)
      moreover have "part ?r (?t t) = part ?r (?t u)"
      proof -
        have "\<not> is_within ?r base" by (auto simp: tenant_root_def is_within_iff)
        then have "part ?r (touch_dir now base t) = part ?r (touch_dir now base u)"
          using eq by (simp add: part_touch)
        then show ?thesis by (simp add: part_def add_node_def)
      qed
      then have "children (?t t) p = children (?t u) p" using children_part [OF p(1)] by metis
      ultimately have "listing_of ?r slug rel p (?t t) = listing_of ?r slug rel p (?t u)" by (rule listing_of_cong)
      moreover have "node_at u ?r = None" using None nodes [of ?r] by simp
      ultimately show ?thesis using None Some
        by (simp add: files_list_def ensure_cases [OF pre wf(1) base(1)] ensure_cases [OF pre wf(2) base(2)])
    next
      case (Some n)
      have "listing_of ?r slug rel p t = listing_of ?r slug rel p u"
        by (rule listing_of_cong [OF nodes [OF p(1)] kids [OF p(1)]])
      moreover have "node_at u ?r = Some n" using Some nodes [of ?r] by simp
      ultimately show ?thesis using Some \<open>safe_resolve base slug rel = Some p\<close>
        by (cases n) (simp_all add: files_list_def ensure_cases [OF pre wf(1) base(1)] ensure_cases [OF pre wf(2) base(2)])
    qed
  qed
qed

lemma tenant_roots_apart: "a \<noteq> b \<Longrightarrow> apart (tenant_root base a) (tenant_root base b)"
  by (simp add: apart_def tenant_root_def is_within_iff)

text \<open>
  C17: Whatever sequence of listings, directory creations, renames and deletions is issued under one
  tenant's slug, with whatever paths and names, the directory tree stays well formed and the part of
  every other tenant is untouched: the same entries, contents, times and scan order, and the same
  answer to every listing of the other tenant.
\<close>

theorem files_tenant_isolated:
  assumes "files_pre base a" and "files_pre base b" and "a \<noteq> b" and "wf_tree (fst w)" and "is_folder (fst w) base"
  shows "wf_tree (fst (files_run base a ops w)) \<and>
    part (tenant_root base b) (fst (files_run base a ops w)) = part (tenant_root base b) (fst w) \<and>
    fst (files_list now base b rel (fst (files_run base a ops w))) = fst (files_list now base b rel (fst w))"
proof -
  let ?u = "fst (files_run base a ops w)"
  from files_run_safe [OF assms(1,4)] have u: "wf_tree ?u" "confined (tenant_root base a) (fst w) ?u"
    by (simp_all add: files_safe_def)
  have p: "part (tenant_root base b) ?u = part (tenant_root base b) (fst w)"
    using u(2) tenant_roots_apart [OF assms(3)] by (simp add: confined_def)
  have "is_within base (tenant_root base a)" "base \<noteq> tenant_root base a" by (simp_all add: tenant_root_def)
  with u(2) assms(5) have "is_folder ?u base" by (auto simp: confined_def)
  with files_list_part [OF assms(2) u(1) assms(4) _ assms(5) p] u(1) p show ?thesis by simp
qed

definition demo_tree :: tree where
  "demo_tree = [([''up''], Folder 1), ([''up'', ''acme''], Folder 2), ([''up'', ''acme'', ''a.txt''], Doc ''hi'' 3),
     ([''up'', ''beta''], Folder 4), ([''up'', ''beta'', ''B.PDF''], Doc ''secret'' 5), ([''up'', ''beta'', ''a''], Folder 6)]"

definition demo_files_ctx :: audit_context where
  "demo_files_ctx = \<lparr>ctx_user_id = ''u1'', ctx_tenant_id = Some ''t1'', ctx_ip_address = ''::1''\<rparr>"

definition demo_files_ops :: "(env \<times> audit_context \<times> files_op) list" where
  "demo_files_ops = [(demo_env, demo_files_ctx, FMkdir ''../beta'' ''x''), (demo_env, demo_files_ctx, FMkdir ''/'' ''beta''),
     (demo_env, demo_files_ctx, FRename ''a.txt'' ''../../b.txt''), (demo_env, demo_files_ctx, FDelete (CHR 0x09 # ''../beta/B.PDF''))]"

lemma wf_treeI:
  assumes "distinct (map fst t)" "[] \<notin> fst ` set t" "\<forall>p \<in> fst ` set t. is_folder t (butlast p)"
  shows "wf_tree t"
  using assms by (auto simp: wf_tree_def node_at_mem simp del: not_None_eq)

lemma demo_tree_ok: "wf_tree demo_tree" "is_folder demo_tree [''up'']"
  by (rule wf_treeI) (simp_all add: demo_tree_def node_at_def)

lemma demo_files_pre: "files_pre [''up''] ''acme''" "files_pre [''up''] ''beta''"
  by code_simp+

theorem files_tenant_isolated_witness:
  "map fst (fst (files_run [''up''] ''acme'' demo_files_ops (demo_tree, empty_db))) =
     [[''up''], [''up'', ''acme''], [''up'', ''acme'', ''b.txt''], [''up'', ''beta''], [''up'', ''beta'', ''B.PDF''],
      [''up'', ''beta'', ''a''], [''up'', ''acme'', ''beta'']] \<and>
   fst (files_list 9 [''up''] ''beta'' '''' (fst (files_run [''up''] ''acme'' demo_files_ops (demo_tree, empty_db)))) =
     fst (files_list 9 [''up''] ''beta'' '''' demo_tree)"
proof
  show "map fst (fst (files_run [''up''] ''acme'' demo_files_ops (demo_tree, empty_db))) =
     [[''up''], [''up'', ''acme''], [''up'', ''acme'', ''b.txt''], [''up'', ''beta''], [''up'', ''beta'', ''B.PDF''],
      [''up'', ''beta'', ''a''], [''up'', ''acme'', ''beta'']]"
    by code_simp
  show "fst (files_list 9 [''up''] ''beta'' '''' (fst (files_run [''up''] ''acme'' demo_files_ops (demo_tree, empty_db)))) =
     fst (files_list 9 [''up''] ''beta'' '''' demo_tree)"
    using files_tenant_isolated [OF demo_files_pre _ , of "(demo_tree, empty_db)" demo_files_ops 9 "''''"] demo_tree_ok by simp
qed

subsection \<open>A new directory is listed\<close>

text \<open>
  A directory the service reports created did not exist before, is listed by the next listing of its
  parent with the entry the call returned, and its creation is in the audit log.
\<close>

theorem files_mkdir_listed:
  assumes "files_pre base slug" and "wf_tree t" and "files_mkdir e base slug rel name ctx (t, d) = (Inr entry, (t', d'))"
  shows "(\<exists>out. fst (files_list now base slug rel t') = Inr out \<and> entry \<in> set (fl_entries out)) \<and>
    fe_type entry = ''folder'' \<and> fe_name entry = secure_filename name \<and>
    (\<exists>p. safe_resolve base slug rel = Some p \<and> node_at t (p @ [secure_filename name]) = None) \<and>
    d' = files_audit e ctx ''file.mkdir'' ''directory'' (fe_path entry)
       [(''tenant_slug'', JStr slug), (''path'', JStr rel), (''name'', JStr (secure_filename name))] d"
proof -
  let ?n = "secure_filename name" and ?root = "tenant_root base slug" and ?now = "env_now e"
  from assms(3) obtain p t1 where p: "safe_resolve base slug rel = Some p" and ne: "\<not> child_exists t p ?n"
    and mk: "os_mkdir ?now p ?n t = Inr t1"
    by (auto simp: files_mkdir_def Let_def split: if_splits option.splits sum.splits)
  note pw = safe_resolve_in [OF assms(1) p]
  from mkdir_step_safe [OF assms(2) pw mk ne]
  have t1: "wf_tree t1" "child_of p ?n = p @ [?n]" "node_at t1 (p @ [?n]) = Some (Folder ?now)"
    by (simp_all add: files_safe_def)
  have w: "is_within ?root (p @ [?n])" using pw(1) by (auto simp: is_within_iff)
  have en: "ensure_tenant_dir nw base slug t1 = Inr (?root, t1)" for nw
    using ensure_tenant_dir_id [OF assms(1) t1(1) w] t1(3) by simp
  from assms(3) p ne mk en t1(2) have entry: "entry = entry_from_path ?root (p @ [?n]) (Folder ?now)" and t': "t' = t1"
    and d': "d' = files_audit e ctx ''file.mkdir'' ''directory'' (fe_path entry)
       [(''tenant_slug'', JStr slug), (''path'', JStr rel), (''name'', JStr ?n)] d"
    by (auto simp: files_mkdir_def Let_def split: if_splits)
  have "is_folder t p" using mk by (simp add: os_mkdir_def split: if_splits)
  with ne t1(2) have free: "node_at t (p @ [?n]) = None"
    using child_of_def by (auto simp: child_exists_def path_exists_def split: if_splits)
  obtain m where f: "node_at t1 p = Some (Folder m)"
    using wf_parent [OF t1(1), of "p @ [?n]"] t1(3) by (auto simp: is_folder_node_iff)
  have "(p @ [?n], Folder ?now) \<in> set (children t1 p)"
    using t1(3) by (auto simp: children_def node_at_def dest: map_of_SomeD)
  then have "\<exists>out. fst (files_list now base slug rel t1) = Inr out \<and> entry \<in> set (fl_entries out)"
    using entry f p by (force simp: files_list_def listing_of_def en Let_def)
  with entry t' d' p free show ?thesis by (auto simp: entry_from_path_def)
qed

theorem files_mkdir_listed_witness:
  "map fe_name (fl_entries (projr (fst (files_list 9 [''up''] ''acme'' '''' (fst (snd (files_mkdir demo_env [''up''] ''acme'' '''' ''New dir!'' demo_files_ctx
     (demo_tree, empty_db)))))))) = [''New dir'', ''a.txt''] \<and>
   fe_type (projr (fst (files_mkdir demo_env [''up''] ''acme'' '''' ''New dir!'' demo_files_ctx (demo_tree, empty_db)))) = ''folder''"
proof
  show "map fe_name (fl_entries (projr (fst (files_list 9 [''up''] ''acme'' '''' (fst (snd (files_mkdir demo_env [''up''] ''acme'' '''' ''New dir!'' demo_files_ctx
     (demo_tree, empty_db)))))))) = [''New dir'', ''a.txt'']"
    by code_simp
  let ?r = "files_mkdir demo_env [''up''] ''acme'' '''' ''New dir!'' demo_files_ctx (demo_tree, empty_db)"
  have "isl (fst ?r) = False" by code_simp
  then obtain x t' d' where "?r = (Inr x, (t', d'))" by (cases ?r; cases "fst ?r") auto
  with files_mkdir_listed [OF demo_files_pre(1) demo_tree_ok(1) this]
  show "fe_type (projr (fst ?r)) = ''folder''" by simp
qed

subsection \<open>Where the service differs from its documents\<close>

text \<open>Creating a directory at the root of a tenant whose root does not exist yet fails; a listing creates it.\<close>

lemma mkdir_fresh_tenant:
  "fst (files_mkdir demo_env [''up''] ''new'' '''' ''x'' demo_files_ctx (demo_tree, empty_db)) =
     Inl (NotFoundError ''Parent directory'' ''/'')"
  by code_simp

lemma mkdir_after_listing:
  "isl (fst (files_mkdir demo_env [''up''] ''new'' '''' ''x'' demo_files_ctx
     (snd (files_list 9 [''up''] ''new'' '''' demo_tree), empty_db))) = False"
  by code_simp

lemma mkdir_below_document:
  "fst (files_mkdir demo_env [''up''] ''acme'' ''a.txt'' ''x'' demo_files_ctx (demo_tree, empty_db)) = Inl os_error"
  by code_simp

text \<open>The upload endpoint has no slug in its path: only a superadmin passes its role check.\<close>

theorem upload_needs_superadmin:
  "\<not> uctx_is_superadmin user \<Longrightarrow>
     upload_files now hexes dir files user t = (Inl (ForbiddenError ''No tenant context''), t)"
  by (simp add: upload_files_def require_role_no_slug)

subsection \<open>Uploads stay out of the tenants' parts\<close>

lemma os_write_part:
  assumes "os_write now p content t = Inr t'" "\<not> is_within r p" "\<not> is_within r (butlast p)"
  shows "part r t' = part r t"
proof -
  have m: "part r (map (\<lambda>(q, n). (q, if q = p then Doc content now else n)) t) = part r t"
    using assms(2) by (induction t) (auto simp: part_def)
  from assms m show ?thesis
    by (auto simp: os_write_def part_add part_touch split: option.splits node.splits if_splits)
qed

lemma save_uploads_part:
  assumes "save_uploads now dir hexes files t = (r, t')" "slug_ok slug"
  shows "part (tenant_root dir slug) t' = part (tenant_root dir slug) t"
  using assms(1)
proof (induction files arbitrary: hexes t r)
  case Nil
  then show ?case by simp
next
  case (Cons x files)
  obtain f c where fc: "x = (f, c)" by (cases x)
  let ?p = "dir @ [hd hexes @ ''_'' @ upload_name f]"
  have out: "\<not> is_within (tenant_root dir slug) ?p" "\<not> is_within (tenant_root dir slug) (butlast ?p)"
  proof -
    have "CHR ''_'' \<notin> set slug"
    proof
      assume "CHR ''_'' \<in> set slug"
      then have "slug_char (CHR ''_'')" using assms(2) by (auto simp: slug_ok_def list_all_iff)
      moreover have "\<not> slug_char (CHR ''_'')" by code_simp
      ultimately show False by simp
    qed
    then have "slug \<noteq> hd hexes @ ''_'' @ upload_name f" by auto
    then show "\<not> is_within (tenant_root dir slug) ?p" "\<not> is_within (tenant_root dir slug) (butlast ?p)"
      by (auto simp: tenant_root_def is_within_iff)
  qed
  show ?case
  proof (cases "os_write now ?p c t")
    case (Inl y)
    with Cons.prems show ?thesis by (simp add: fc Let_def)
  next
    case (Inr t1)
    obtain r2 t2 where s: "save_uploads now dir (tl hexes) files t1 = (r2, t2)" by fastforce
    with Inr Cons.prems have "t' = t2" by (auto simp: fc Let_def attempt_def split: sum.splits)
    with Cons.IH [of "tl hexes" t1 r2] s os_write_part [OF Inr out] show ?thesis by simp
  qed
qed

text \<open>An upload lands beside the tenants' directories, never inside one, whatever the file is called.\<close>

theorem uploads_keep_tenants:
  assumes "upload_files now hexes dir files user t = (r, t')" "slug_ok slug" "list_all clean dir"
  shows "part (tenant_root dir slug) t' = part (tenant_root dir slug) t"
proof -
  have out: "\<not> is_within (tenant_root dir slug) ([] @ dir)" by (auto simp: tenant_root_def is_within_iff)
  have "part (tenant_root dir slug) t2 = part (tenant_root dir slug) t"
    if "mkdirs now [] dir t = Inr t1" "save_uploads now dir hexes files t1 = (r2, t2)" for t1 r2 t2
    using mkdirs_part [OF that(1) _ assms(3) out] save_uploads_part [OF that(2) assms(2)] by simp
  with assms(1) show ?thesis
    by (auto simp: upload_files_def split: sum.splits if_splits)
qed

end
