(* ===== verification/AIBackends.thy ===== *)
theory AIBackends
  imports Api Sinks
begin

section \<open>AI backends\<close>

text \<open>
  \<open>services/ai_backends\<close> and \<open>api/v1/ai_backends.py\<close>: the configuration of the providers (stored settings
  over environment variables over \<open>BASELINE_ENDPOINTS\<close>), the provider a request is sent to, and the health
  report.  The state of the service is its configuration and the cache of reachability checks.  What a URL
  answers, whether the Claude CLI is installed and what \<open>nvidia-smi\<close> prints are parameters; the clock does
  not advance within a call.
\<close>

datatype ai_provider = CLAUDE_CLI | CLAUDE_API | OLLAMA | DGX | OPENAI | AZURE_OPENAI | CUSTOM

fun provider_value :: "ai_provider \<Rightarrow> string" where
  "provider_value CLAUDE_CLI = ''claude_cli''"
| "provider_value CLAUDE_API = ''claude_api''"
| "provider_value OLLAMA = ''ollama''"
| "provider_value DGX = ''dgx''"
| "provider_value OPENAI = ''openai''"
| "provider_value AZURE_OPENAI = ''azure_openai''"
| "provider_value CUSTOM = ''custom''"

definition all_providers :: "ai_provider list" where
  "all_providers = [CLAUDE_CLI, CLAUDE_API, OLLAMA, DGX, OPENAI, AZURE_OPENAI, CUSTOM]"

definition provider_named :: "string \<Rightarrow> error + ai_provider" where
  \<comment> \<open>\<open>AIProviderName(s)\<close>\<close>
  "provider_named s =
     (case find (\<lambda>p. provider_value p = s) all_providers of
        None \<Rightarrow> Inl (ValueError (quoted s @ '' is not a valid AIProviderName'')) | Some p \<Rightarrow> Inr p)"

record endpoint_config =
  ep_provider :: ai_provider
  ep_url :: string
  ep_model :: string
  ep_api_key :: string
  ep_enabled :: bool
  ep_context_window :: int
  ep_priority :: int
  ep_notes :: string

record endpoint_health =
  eh_provider :: ai_provider
  eh_url :: string
  eh_reachable :: bool
  eh_model :: string
  eh_detail :: string
  eh_gpu_name :: "string option"
  eh_gpu_vram_mb :: "int option"

record ai_backend_config =
  ab_default_provider :: ai_provider
  ab_fallback_chain :: "ai_provider list"
  ab_endpoints :: "(ai_provider, endpoint_config) alist"

record ai_backend_status =
  as_active_provider :: "ai_provider option"
  as_endpoints :: "endpoint_health list"
  as_claude_cli_available :: bool

definition baseline :: "ai_provider \<Rightarrow> string \<Rightarrow> string \<Rightarrow> bool \<Rightarrow> int \<Rightarrow> int \<Rightarrow> string \<Rightarrow> ai_provider \<times> endpoint_config" where
  "baseline p url model enabled window priority notes =
     (p, \<lparr>ep_provider = p, ep_url = url, ep_model = model, ep_api_key = '''', ep_enabled = enabled,
          ep_context_window = window, ep_priority = priority, ep_notes = notes\<rparr>)"

definition BASELINE_ENDPOINTS :: "(ai_provider, endpoint_config) alist" where
  "BASELINE_ENDPOINTS =
    [baseline CLAUDE_CLI '''' ''opus'' True 200000 30
       ''Uses host Claude Code auth. No API key needed. Always available.'',
     baseline DGX ''http://192.168.150.111:11434'' ''qwen3.5:35b-a3b'' True 131072 10
       ''DGX Spark on homelab. MoE model: 3B active params, ~55-70 tok/s.'',
     baseline OLLAMA ''http://192.168.150.210:11434'' ''qwen2.5:7b'' True 32768 20
       ''Local Ollama on CT 114 (GPU passthrough).'',
     baseline CLAUDE_API '''' ''claude-sonnet-4-6'' False 200000 40
       ''Anthropic SDK direct. Needs API key or Claude Code OAuth token.'',
     baseline OPENAI ''https://api.openai.com/v1'' ''gpt-4o'' False 128000 50
       ''OpenAI API. Needs OPENAI_API_KEY.'',
     baseline AZURE_OPENAI '''' '''' False 128000 50
       ''Azure OpenAI Service. Needs AZURE_OPENAI_ENDPOINT + AZURE_OPENAI_KEY.'']"

subsection \<open>Reachability\<close>

text \<open>What a GET of a URL yields: an exception's text, or a body that is JSON or is not.\<close>

datatype fetched = FetchFailed string | Fetched "json option"

record ai_world =
  aw_fetch :: "string \<Rightarrow> fetched"
  aw_claude_cli :: bool

type_synonym health_cache = "(string, bool \<times> time) alist"

definition HEALTH_TTL :: int where "HEALTH_TTL = seconds 30"

datatype model_names = Names string | AttributeFault | TypeFault

definition model_entry_name :: "json \<Rightarrow> json" where
  "model_entry_name m = (case m of JObj d \<Rightarrow> (case map_of d ''name'' of None \<Rightarrow> JStr ''?'' | Some j \<Rightarrow> j) | _ \<Rightarrow> JNull)"

fun is_obj :: "json \<Rightarrow> bool" where "is_obj (JObj d) = True" | "is_obj _ = False"

fun str_of :: "json \<Rightarrow> string option" where "str_of (JStr s) = Some s" | "str_of _ = None"

definition joined_names :: "json \<Rightarrow> model_names" where
  \<comment> \<open>\<open>", ".join(m.get("name", "?") for m in models[:3])\<close>\<close>
  "joined_names models =
     (case models of
        JList ms \<Rightarrow>
          if \<not> list_all is_obj (take 3 ms) then AttributeFault
          else if list_all (\<lambda>m. str_of (model_entry_name m) \<noteq> None) (take 3 ms)
          then Names (join_with '', '' (map (\<lambda>m. the (str_of (model_entry_name m))) (take 3 ms)))
          else TypeFault
      | JStr s \<Rightarrow> AttributeFault
      | _ \<Rightarrow> TypeFault)"

definition tags_detail :: "json option \<Rightarrow> bool \<times> string" where
  "tags_detail body =
     (case body of
        Some (JObj d) \<Rightarrow>
          if \<not> truthy_json (map_of d ''models'') then (True, ''reachable'')
          else (case joined_names (the (map_of d ''models'')) of
                  Names ns \<Rightarrow> (True, ''models: '' @ ns)
                | AttributeFault \<Rightarrow> (True, ''reachable'')
                | TypeFault \<Rightarrow> (False, ''TypeError''))
      | _ \<Rightarrow> (True, ''reachable''))"

definition rstrip_slash :: "string \<Rightarrow> string" where
  "rstrip_slash s = rstrip_where (\<lambda>c. c = CHR ''/'') s"

definition check_url_reachable ::
  "ai_world \<Rightarrow> time \<Rightarrow> string \<Rightarrow> health_cache \<Rightarrow> (bool \<times> string) \<times> health_cache" where
  "check_url_reachable w now url cache =
     (let key = url @ ''/api/tags'' in
      case (case map_of cache key of Some (ok, t) \<Rightarrow> if now - t < HEALTH_TTL then Some ok else None | None \<Rightarrow> None) of
        Some ok \<Rightarrow> ((ok, ''cached''), cache)
      | None \<Rightarrow>
          (case aw_fetch w (rstrip_slash url @ ''/api/tags'') of
             FetchFailed detail \<Rightarrow> ((False, take 100 detail), dict_set key (False, now) cache)
           | Fetched body \<Rightarrow>
               (case tags_detail body of (ok, detail) \<Rightarrow> ((ok, detail), dict_set key (ok, now) cache))))"

definition detect_local_gpu :: "string option \<Rightarrow> (string \<times> int) option" where
  \<comment> \<open>The argument is the output of \<open>nvidia-smi\<close>, if it ran.\<close>
  "detect_local_gpu out =
     (case out of
        None \<Rightarrow> None
      | Some s \<Rightarrow>
          (case map py_strip (split_on (CHR '','') (py_strip s)) of
             name # vram # _ \<Rightarrow> (case py_int (JStr vram) of Inl x \<Rightarrow> None | Inr n \<Rightarrow> Some (name, n))
           | _ \<Rightarrow> None))"

subsection \<open>Configuration\<close>

definition set_endpoint ::
  "ai_provider \<Rightarrow> (endpoint_config \<Rightarrow> endpoint_config) \<Rightarrow> (ai_provider, endpoint_config) alist \<Rightarrow>
     (ai_provider, endpoint_config) alist" where
  \<comment> \<open>Nothing happens for a provider that is not configured.\<close>
  "set_endpoint p f eps = (case map_of eps p of None \<Rightarrow> eps | Some ep \<Rightarrow> dict_set p (f ep) eps)"

definition env_map :: "(string \<times> ai_provider \<times> (string \<Rightarrow> endpoint_config \<Rightarrow> endpoint_config)) list" where
  "env_map =
    [(''OLLAMA_URL'', OLLAMA, \<lambda>v ep. ep\<lparr>ep_url := v, ep_enabled := True\<rparr>),
     (''OLLAMA_MODEL_CHAT'', OLLAMA, \<lambda>v ep. ep\<lparr>ep_model := v\<rparr>),
     (''DGX_OLLAMA_URL'', DGX, \<lambda>v ep. ep\<lparr>ep_url := v, ep_enabled := True\<rparr>),
     (''DGX_OLLAMA_MODEL'', DGX, \<lambda>v ep. ep\<lparr>ep_model := v\<rparr>),
     (''OPENAI_API_KEY'', OPENAI, \<lambda>v ep. ep\<lparr>ep_api_key := v, ep_enabled := True\<rparr>),
     (''AZURE_OPENAI_ENDPOINT'', AZURE_OPENAI, \<lambda>v ep. ep\<lparr>ep_url := v, ep_enabled := True\<rparr>),
     (''AZURE_OPENAI_KEY'', AZURE_OPENAI, \<lambda>v ep. ep\<lparr>ep_api_key := v, ep_enabled := True\<rparr>),
     (''ANTHROPIC_API_KEY'', CLAUDE_API, \<lambda>v ep. ep\<lparr>ep_api_key := v, ep_enabled := True\<rparr>)]"

definition build_default_config :: "(string \<Rightarrow> string) \<Rightarrow> ai_backend_config" where
  "build_default_config environ =
     \<lparr>ab_default_provider = CLAUDE_CLI, ab_fallback_chain = [DGX, OLLAMA, CLAUDE_CLI],
      ab_endpoints = fold (\<lambda>(k, p, f) eps. if environ k = [] then eps else set_endpoint p (f (environ k)) eps)
        env_map BASELINE_ENDPOINTS\<rparr>"

definition st_str :: "dict \<Rightarrow> string \<Rightarrow> string" where
  "st_str s k = (case map_of s k of Some (JStr v) \<Rightarrow> v | _ \<Rightarrow> '''')"

definition st_int :: "dict \<Rightarrow> string \<Rightarrow> int" where
  "st_int s k = (case map_of s k of Some (JInt v) \<Rightarrow> v | _ \<Rightarrow> 0)"

definition st_bool :: "dict \<Rightarrow> string \<Rightarrow> bool" where
  "st_bool s k = (map_of s k = Some (JBool True))"

definition keep_str :: "string \<Rightarrow> string \<Rightarrow> string" where
  "keep_str v old = (if v = [] then old else v)"

definition keep_int :: "int \<Rightarrow> int \<Rightarrow> int" where
  "keep_int v old = (if v = 0 then old else v)"

definition overlay_setting :: "dict \<Rightarrow> endpoint_config \<Rightarrow> endpoint_config" where
  "overlay_setting s ep = ep\<lparr>ep_url := keep_str (st_str s ''url'') (ep_url ep), ep_model := keep_str (st_str s ''model'') (ep_model ep),
     ep_api_key := keep_str (st_str s ''api_key'') (ep_api_key ep), ep_enabled := st_bool s ''enabled'',
     ep_context_window := keep_int (st_int s ''context_window'') (ep_context_window ep),
     ep_priority := keep_int (st_int s ''priority'') (ep_priority ep), ep_notes := keep_str (st_str s ''notes'') (ep_notes ep)\<rparr>"

definition setting_map :: "(ai_provider \<times> string) list" where
  "setting_map = [(OLLAMA, ''ai_endpoint_ollama''), (DGX, ''ai_endpoint_dgx''), (CLAUDE_CLI, ''ai_endpoint_claude_cli''),
     (CLAUDE_API, ''ai_endpoint_claude_api''), (OPENAI, ''ai_endpoint_openai''), (AZURE_OPENAI, ''ai_endpoint_azure_openai'')]"

definition endpoint_dict :: "dict \<Rightarrow> string \<Rightarrow> dict" where
  "endpoint_dict stored k = (case map_of stored k of Some (JObj s) \<Rightarrow> s | _ \<Rightarrow> [])"

fun providers_named :: "json list \<Rightarrow> error + ai_provider list" where
  "providers_named [] = Inr []"
| "providers_named (j # js) =
     (case (case j of JStr s \<Rightarrow> provider_named s | _ \<Rightarrow> Inl (ValueError ''is not a valid AIProviderName'')) of
        Inl x \<Rightarrow> Inl x
      | Inr p \<Rightarrow> (case providers_named js of Inl x \<Rightarrow> Inl x | Inr ps \<Rightarrow> Inr (p # ps)))"

definition load_from_settings ::
  "(string \<Rightarrow> string) \<Rightarrow> (error + dict) option \<Rightarrow> ai_backend_config \<Rightarrow> error + ai_backend_config" where
  \<comment> \<open>The second argument is what \<open>get_global\<close> of the settings service does, if there is one.\<close>
  "load_from_settings environ settings_result config =
     (case settings_result of
        None \<Rightarrow> Inr config
      | Some (Inl x) \<Rightarrow> Inr config
      | Some (Inr stored) \<Rightarrow>
          (case provider_named (st_str stored ''ai_default_provider'') of
             Inl x \<Rightarrow> Inl x
           | Inr dflt \<Rightarrow>
               (case providers_named (case map_of stored ''ai_fallback_chain'' of Some (JList l) \<Rightarrow> l | _ \<Rightarrow> []) of
                  Inl x \<Rightarrow> Inl x
                | Inr chain \<Rightarrow>
                    let base = build_default_config environ
                    in Inr \<lparr>ab_default_provider = dflt, ab_fallback_chain = chain,
                        ab_endpoints = fold (\<lambda>(p, k) eps. set_endpoint p (overlay_setting (endpoint_dict stored k)) eps)
                          setting_map (ab_endpoints base)\<rparr>)))"

subsection \<open>Resolution\<close>

definition get_endpoint :: "ai_provider \<Rightarrow> ai_backend_config \<Rightarrow> endpoint_config option" where
  "get_endpoint p config = map_of (ab_endpoints config) p"

fun walk_chain ::
  "ai_world \<Rightarrow> time \<Rightarrow> ai_backend_config \<Rightarrow> ai_provider list \<Rightarrow> health_cache \<Rightarrow> ai_provider \<times> health_cache" where
  "walk_chain w now config [] cache = (CLAUDE_CLI, cache)"
| "walk_chain w now config (p # ps) cache =
     (case get_endpoint p config of
        None \<Rightarrow> walk_chain w now config ps cache
      | Some ep \<Rightarrow>
          if \<not> ep_enabled ep then walk_chain w now config ps cache
          else if p = CLAUDE_CLI
          then (if aw_claude_cli w then (p, cache) else walk_chain w now config ps cache)
          else if ep_url ep = [] then walk_chain w now config ps cache
          else (case check_url_reachable w now (ep_url ep) cache of
                  ((ok, _), cache') \<Rightarrow> if ok then (p, cache') else walk_chain w now config ps cache'))"

definition resolve_provider ::
  "ai_world \<Rightarrow> time \<Rightarrow> ai_backend_config \<Rightarrow> string \<Rightarrow> health_cache \<Rightarrow> (error + ai_provider) \<times> health_cache" where
  "resolve_provider w now config requested cache =
     (let auto_resolve = (\<lambda>c. case walk_chain w now config (ab_fallback_chain config) c of (p, c') \<Rightarrow> (Inr p, c'))
      in if requested = ''auto'' then auto_resolve cache
         else (case provider_named requested of
                 Inl x \<Rightarrow> (Inl x, cache)
               | Inr p \<Rightarrow>
                   if p = CLAUDE_CLI then (Inr p, cache)
                   else (case get_endpoint p config of
                           None \<Rightarrow> auto_resolve cache
                         | Some ep \<Rightarrow>
                             if \<not> (ep_enabled ep \<and> ep_url ep \<noteq> []) then auto_resolve cache
                             else (case check_url_reachable w now (ep_url ep) cache of
                                     ((ok, _), cache') \<Rightarrow> if ok then (Inr p, cache') else auto_resolve cache'))))"

subsection \<open>Health\<close>

definition gpu_vram :: "fetched \<Rightarrow> int option" where
  \<comment> \<open>The first model of \<open>/api/ps\<close>; every exception is swallowed.\<close>
  "gpu_vram r =
     (case r of
        Fetched (Some (JObj d)) \<Rightarrow>
          (case map_of d ''models'' of
             Some (JList (JObj m # _)) \<Rightarrow>
               (case map_of m ''size_vram'' of
                  Some (JInt v) \<Rightarrow> if v = 0 then None else Some (v div 1048576)
                | Some (JBool b) \<Rightarrow> if b then Some 0 else None
                | _ \<Rightarrow> None)
           | _ \<Rightarrow> None)
      | _ \<Rightarrow> None)"

definition endpoint_check ::
  "ai_world \<Rightarrow> time \<Rightarrow> ai_provider \<Rightarrow> endpoint_config \<Rightarrow> health_cache \<Rightarrow> endpoint_health option \<times> health_cache" where
  \<comment> \<open>One round of the loop: \<open>None\<close> where it continues without a result.\<close>
  "endpoint_check w now p ep cache =
     (if \<not> ep_enabled ep then (None, cache)
      else if p = CLAUDE_CLI
      then (Some \<lparr>eh_provider = p, eh_url = ''(local CLI)'', eh_reachable = aw_claude_cli w, eh_model = ep_model ep,
              eh_detail = (if aw_claude_cli w then ''claude binary found'' else ''claude binary not in PATH''),
              eh_gpu_name = None, eh_gpu_vram_mb = None\<rparr>, cache)
      else if p = CLAUDE_API
      then (Some \<lparr>eh_provider = p, eh_url = ''api.anthropic.com'', eh_reachable = (ep_api_key ep \<noteq> []), eh_model = ep_model ep,
              eh_detail = (if ep_api_key ep \<noteq> [] then ''API key configured'' else ''no API key''),
              eh_gpu_name = None, eh_gpu_vram_mb = None\<rparr>, cache)
      else if ep_url ep = [] then (None, cache)
      else (case check_url_reachable w now (ep_url ep) cache of
              ((ok, detail), cache') \<Rightarrow>
                (Some \<lparr>eh_provider = p, eh_url = ep_url ep, eh_reachable = ok, eh_model = ep_model ep, eh_detail = detail,
                  eh_gpu_name = None,
                  eh_gpu_vram_mb = (if ok \<and> (p = OLLAMA \<or> p = DGX)
                    then gpu_vram (aw_fetch w (rstrip_slash (ep_url ep) @ ''/api/ps'')) else None)\<rparr>, cache')))"

fun check_endpoints ::
  "ai_world \<Rightarrow> time \<Rightarrow> (ai_provider, endpoint_config) alist \<Rightarrow> health_cache \<Rightarrow> endpoint_health list \<times> health_cache" where
  "check_endpoints w now [] cache = ([], cache)"
| "check_endpoints w now ((p, ep) # eps) cache =
     (case endpoint_check w now p ep cache of
        (h, cache') \<Rightarrow>
          (case check_endpoints w now eps cache' of
             (hs, cache'') \<Rightarrow> ((case h of None \<Rightarrow> hs | Some x \<Rightarrow> x # hs), cache'')))"

definition check_all_health ::
  "ai_world \<Rightarrow> time \<Rightarrow> ai_backend_config \<Rightarrow> health_cache \<Rightarrow> ai_backend_status \<times> health_cache" where
  \<comment> \<open>The active provider is the first reachable one that is checked; the API provider is only reported.\<close>
  "check_all_health w now config cache =
     (case check_endpoints w now (ab_endpoints config) cache of
        (hs, cache') \<Rightarrow>
          (\<lparr>as_active_provider = map_option eh_provider (find (\<lambda>h. eh_reachable h \<and> eh_provider h \<noteq> CLAUDE_API) hs),
            as_endpoints = hs, as_claude_cli_available = aw_claude_cli w\<rparr>, cache'))"

subsection \<open>Endpoints\<close>

record ai_state =
  ai_config_of :: ai_backend_config
  ai_cache :: health_cache

definition AI_API_KEY_MASKED :: string where "AI_API_KEY_MASKED = ''*****''"

definition ai_reload :: "coercion \<Rightarrow> (string \<Rightarrow> string) \<Rightarrow> db \<Rightarrow> ai_state \<Rightarrow> error + ai_state" where
  "ai_reload coerce environ d s =
     (case load_from_settings environ (Some (get_global coerce d)) (ai_config_of s) of
        Inl x \<Rightarrow> Inl x | Inr c \<Rightarrow> Inr (s\<lparr>ai_config_of := c\<rparr>))"

definition ai_health ::
  "coercion \<Rightarrow> (string \<Rightarrow> string) \<Rightarrow> ai_world \<Rightarrow> time \<Rightarrow> user_context option \<Rightarrow> db \<Rightarrow> ai_state \<Rightarrow> (error + ai_backend_status) \<times> ai_state" where
  "ai_health coerce environ w now user d s =
     (case require_auth user of
        Inl x \<Rightarrow> (Inl x, s)
      | Inr _ \<Rightarrow>
          (case ai_reload coerce environ d s of
             Inl x \<Rightarrow> (Inl x, s)
           | Inr s' \<Rightarrow>
               (case check_all_health w now (ai_config_of s') (ai_cache s') of
                  (st, cache) \<Rightarrow> (Inr st, s'\<lparr>ai_cache := cache\<rparr>))))"

definition ai_resolve ::
  "coercion \<Rightarrow> (string \<Rightarrow> string) \<Rightarrow> ai_world \<Rightarrow> time \<Rightarrow> string \<Rightarrow> user_context option \<Rightarrow> db \<Rightarrow> ai_state \<Rightarrow>
     (error + (string \<times> string) list) \<times> ai_state" where
  "ai_resolve coerce environ w now requested user d s =
     (case require_auth user of
        Inl x \<Rightarrow> (Inl x, s)
      | Inr _ \<Rightarrow>
          (case ai_reload coerce environ d s of
             Inl x \<Rightarrow> (Inl x, s)
           | Inr s' \<Rightarrow>
               (case resolve_provider w now (ai_config_of s') requested (ai_cache s') of
                  (Inl x, cache) \<Rightarrow> (Inl x, s'\<lparr>ai_cache := cache\<rparr>)
                | (Inr p, cache) \<Rightarrow>
                    (let ep = get_endpoint p (ai_config_of s')
                     in (Inr [(''requested'', requested), (''resolved'', provider_value p),
                          (''model'', case ep of None \<Rightarrow> '''' | Some x \<Rightarrow> ep_model x),
                          (''url'', case ep of None \<Rightarrow> '''' | Some x \<Rightarrow> ep_url x)], s'\<lparr>ai_cache := cache\<rparr>)))))"

definition dump_endpoint :: "endpoint_config \<Rightarrow> dict" where
  "dump_endpoint ep =
     [(''provider'', JStr (provider_value (ep_provider ep))), (''url'', JStr (ep_url ep)), (''model'', JStr (ep_model ep)),
      (''api_key'', JStr (ep_api_key ep)), (''enabled'', JBool (ep_enabled ep)),
      (''context_window'', JInt (ep_context_window ep)), (''priority'', JInt (ep_priority ep)), (''notes'', JStr (ep_notes ep))]"

definition masked_endpoint :: "endpoint_config \<Rightarrow> dict" where
  "masked_endpoint ep = (let m = dump_endpoint ep
     in if truthy_json (map_of m ''api_key'') then dict_set ''api_key'' (JStr AI_API_KEY_MASKED) m else m)"

definition ai_config ::
  "coercion \<Rightarrow> (string \<Rightarrow> string) \<Rightarrow> user_context \<Rightarrow> db \<Rightarrow> ai_state \<Rightarrow> (error + dict) \<times> ai_state" where
  "ai_config coerce environ user d s =
     (case require_superadmin user of
        Inl x \<Rightarrow> (Inl x, s)
      | Inr _ \<Rightarrow>
          (case ai_reload coerce environ d s of
             Inl x \<Rightarrow> (Inl x, s)
           | Inr s' \<Rightarrow>
               let c = ai_config_of s'
               in (Inr [(''default_provider'', JStr (provider_value (ab_default_provider c))),
                    (''fallback_chain'', JList (map (\<lambda>p. JStr (provider_value p)) (ab_fallback_chain c))),
                    (''endpoints'', JObj (map (\<lambda>(p, ep). (provider_value p, JObj (masked_endpoint ep))) (ab_endpoints c)))], s')))"

definition strip_masked_keys :: "dict \<Rightarrow> dict" where
  "strip_masked_keys body = map (\<lambda>(k, v). (k, case v of
     JObj m \<Rightarrow> if map_of m ''api_key'' = Some (JStr AI_API_KEY_MASKED) then JObj (dict_pop ''api_key'' m) else v
   | _ \<Rightarrow> v)) body"

definition ai_config_save ::
  "coercion \<Rightarrow> env \<Rightarrow> (string \<Rightarrow> string) \<Rightarrow> dict \<Rightarrow> user_context \<Rightarrow> db \<times> ai_state \<Rightarrow> (error + unit) \<times> (db \<times> ai_state)" where
  "ai_config_save coerce e environ body user w =
     (case require_superadmin user of
        Inl x \<Rightarrow> (Inl x, w)
      | Inr _ \<Rightarrow>
          (case set_global coerce e (strip_masked_keys body) (uctx_user_id user) (fst w) of
             Inl x \<Rightarrow> (Inl x, w)
           | Inr (_, d') \<Rightarrow>
               (case ai_reload coerce environ d' (snd w) of
                  Inl x \<Rightarrow> (Inl x, (d', snd w))
                | Inr s' \<Rightarrow> (Inr (), (d', s')))))"

subsection \<open>Reachability: facts\<close>

definition url_up :: "ai_world \<Rightarrow> string \<Rightarrow> bool" where
  \<comment> \<open>What an uncached check of the URL says.\<close>
  "url_up w url =
     (case aw_fetch w (rstrip_slash url @ ''/api/tags'') of
        FetchFailed detail \<Rightarrow> False | Fetched body \<Rightarrow> fst (tags_detail body))"

definition cache_fresh :: "ai_world \<Rightarrow> time \<Rightarrow> health_cache \<Rightarrow> bool" where
  \<comment> \<open>The entries still in force agree with what a check would say now.\<close>
  "cache_fresh w now cache \<longleftrightarrow>
     (\<forall>url ok t. map_of cache (url @ ''/api/tags'') = Some (ok, t) \<longrightarrow> now - t < HEALTH_TTL \<longrightarrow> ok = url_up w url)"

lemma cache_fresh_Nil [simp]: "cache_fresh w now []"
  by (simp add: cache_fresh_def)

lemma check_url_cases:
  obtains (cached) ok t where "map_of cache (url @ ''/api/tags'') = Some (ok, t)" "now - t < HEALTH_TTL"
      "check_url_reachable w now url cache = ((ok, ''cached''), cache)"
  | (asked) detail where "check_url_reachable w now url cache =
      ((url_up w url, detail), dict_set (url @ ''/api/tags'') (url_up w url, now) cache)"
proof (cases "\<exists>ok t. map_of cache (url @ ''/api/tags'') = Some (ok, t) \<and> now - t < HEALTH_TTL")
  case True
  then show ?thesis by (auto simp: check_url_reachable_def intro: that(1))
next
  case False
  then have "(case map_of cache (url @ ''/api/tags'') of
      Some (ok, t) \<Rightarrow> if now - t < HEALTH_TTL then Some ok else None | None \<Rightarrow> None) = None"
    by (auto split: option.split)
  note none = this
  show ?thesis
  proof (cases "aw_fetch w (rstrip_slash url @ ''/api/tags'')")
    case (FetchFailed x)
    with none show ?thesis by (auto simp: check_url_reachable_def Let_def url_up_def intro: that(2))
  next
    case (Fetched body)
    with none show ?thesis
      by (cases "tags_detail body") (auto simp: check_url_reachable_def Let_def url_up_def intro: that(2))
  qed
qed

lemma check_url_spec:
  assumes "cache_fresh w now cache" and "check_url_reachable w now url cache = ((ok, detail), cache')"
  shows "ok = url_up w url" and "cache_fresh w now cache'"
proof -
  have "ok = url_up w url \<and> cache_fresh w now cache'"
  proof (cases rule: check_url_cases [of cache url now w])
    case (cached b t)
    with assms show ?thesis by (simp add: cache_fresh_def)
  next
    case (asked dt)
    moreover have "cache_fresh w now (dict_set (url @ ''/api/tags'') (url_up w url, now) cache)"
      unfolding cache_fresh_def
    proof (intro allI impI)
      fix u b t
      assume "map_of (dict_set (url @ ''/api/tags'') (url_up w url, now) cache) (u @ ''/api/tags'') = Some (b, t)"
        and "now - t < HEALTH_TTL"
      with assms(1) show "b = url_up w u" by (cases "u = url") (auto simp: map_of_dict_set cache_fresh_def)
    qed
    ultimately show ?thesis using assms(2) by simp
  qed
  then show "ok = url_up w url" and "cache_fresh w now cache'" by blast+
qed

subsection \<open>Resolution against its specification\<close>

definition usable :: "ai_world \<Rightarrow> ai_backend_config \<Rightarrow> ai_provider \<Rightarrow> bool" where
  "usable w c p =
     (case get_endpoint p c of
        None \<Rightarrow> False
      | Some ep \<Rightarrow> ep_enabled ep \<and> (if p = CLAUDE_CLI then aw_claude_cli w else ep_url ep \<noteq> [] \<and> url_up w (ep_url ep)))"

definition first_usable :: "ai_world \<Rightarrow> ai_backend_config \<Rightarrow> ai_provider" where
  "first_usable w c = (case find (usable w c) (ab_fallback_chain c) of None \<Rightarrow> CLAUDE_CLI | Some p \<Rightarrow> p)"

lemma walk_chain_spec:
  assumes "cache_fresh w now cache"
  shows "fst (walk_chain w now c ps cache) = (case find (usable w c) ps of None \<Rightarrow> CLAUDE_CLI | Some p \<Rightarrow> p)"
  using assms
proof (induction ps arbitrary: cache)
  case (Cons p ps)
  show ?case
  proof (cases "get_endpoint p c")
    case None
    with Cons show ?thesis by (simp add: usable_def)
  next
    case (Some ep)
    show ?thesis
    proof (cases "ep_enabled ep \<and> p \<noteq> CLAUDE_CLI \<and> ep_url ep \<noteq> []")
      case True
      obtain ok dt cache' where r: "check_url_reachable w now (ep_url ep) cache = ((ok, dt), cache')"
        by (metis prod.collapse)
      from check_url_spec [OF Cons.prems r] Cons.IH [of cache'] Some True r show ?thesis
        by (simp add: usable_def)
    next
      case False
      with Some Cons show ?thesis by (auto simp: usable_def)
    qed
  qed
qed simp

definition resolve_spec :: "ai_world \<Rightarrow> ai_backend_config \<Rightarrow> string \<Rightarrow> error + ai_provider" where
  \<comment> \<open>The provider asked for when it is the CLI or can be used, else the first usable one of the chain.\<close>
  "resolve_spec w c requested =
     (if requested = ''auto'' then Inr (first_usable w c)
      else (case provider_named requested of
              Inl x \<Rightarrow> Inl x
            | Inr p \<Rightarrow> Inr (if p = CLAUDE_CLI \<or> usable w c p then p else first_usable w c)))"


definition demo_ai_world :: ai_world where
  "demo_ai_world = \<lparr>aw_fetch = \<lambda>u. if u = ''http://192.168.150.210:11434/api/tags'' then Fetched (Some (JObj [])) else FetchFailed ''refused'',
     aw_claude_cli = True\<rparr>"


text \<open>A provider whose endpoint has no URL is never resolved, even when it is enabled and asked for by name.\<close>

lemma resolve_needs_url:
  assumes "get_endpoint p c = Some ep" and "ep_url ep = []" and "p \<noteq> CLAUDE_CLI"
  shows "resolve_spec w c req \<noteq> Inr p"
proof -
  have u: "\<not> usable w c p" using assms by (simp add: usable_def)
  then have "first_usable w c \<noteq> p" using assms(3)
    by (auto simp: first_usable_def find_Some_iff split: option.splits)
  with u assms(3) show ?thesis
    by (auto simp: resolve_spec_def split: sum.splits)
qed

subsection \<open>Keys in the configuration endpoints\<close>

lemma masked_endpoint_key:
  "map_of (masked_endpoint ep) ''api_key'' \<in> {Some (JStr ''''), Some (JStr AI_API_KEY_MASKED)}"
  by (simp add: masked_endpoint_def dump_endpoint_def Let_def truthy_json_def map_of_dict_set)

definition shown_endpoints :: "dict \<Rightarrow> dict" where
  "shown_endpoints m = endpoint_dict m ''endpoints''"

text \<open>The dedicated configuration endpoint shows no key: each is empty or the mask.\<close>

theorem ai_config_hides_keys:
  assumes "ai_config coerce environ user d s = (Inr m, s')" and "(p, JObj ep) \<in> set (shown_endpoints m)"
  shows "uctx_is_superadmin user \<and> map_of ep ''api_key'' \<in> {Some (JStr ''''), Some (JStr AI_API_KEY_MASKED)}"
proof -
  from assms(1) have sup: "uctx_is_superadmin user"
    by (auto simp: ai_config_def require_superadmin_def split: if_splits sum.splits)
  from assms obtain x where "ep = masked_endpoint x"
    by (auto simp: ai_config_def shown_endpoints_def endpoint_dict_def Let_def split: sum.splits)
  with sup masked_endpoint_key show ?thesis by simp
qed

subsection \<open>Saving a masked key\<close>

definition endpoint_defaults_ok :: "coercion \<Rightarrow> bool" where
  \<comment> \<open>pydantic: a field of \<open>AIEndpointSetting\<close> that is not given takes its default.\<close>
  "endpoint_defaults_ok coerce \<longleftrightarrow>
     (\<forall>m w. map_of m ''api_key'' = None \<longrightarrow> coerce TEndpoint (JObj m) = Some w \<longrightarrow>
        (\<exists>n. w = JObj n \<and> map_of n ''api_key'' = Some (JStr '''')))"

lemma validate_each:
  "validate coerce fs x = Inr m \<Longrightarrow> f \<in> set fs \<Longrightarrow> \<exists>v. validate_field coerce x f = Some v \<and> (fs_name f, v) \<in> set m"
  by (induction fs arbitrary: m) (auto split: option.splits sum.splits)

lemma endpoint_field: "(p, k) \<in> set setting_map \<Longrightarrow> \<exists>f \<in> set GlobalSettings. fs_name f = k \<and> fs_type f = TEndpoint \<and> k \<noteq> ''smtp_password''"
  by (auto simp: setting_map_def GlobalSettings_def fld_def)

lemma map_of_strip_masked:
  "map_of (strip_masked_keys body) k = map_option (\<lambda>v. case v of
     JObj m \<Rightarrow> if map_of m ''api_key'' = Some (JStr AI_API_KEY_MASKED) then JObj (dict_pop ''api_key'' m) else v
   | _ \<Rightarrow> v) (map_of body k)"
  by (induction body) (auto simp: strip_masked_keys_def split: json.split)

lemma map_of_incoming: "k \<noteq> ''smtp_password'' \<Longrightarrow> map_of (incoming_global data) k = map_of data k"
  by (simp add: incoming_global_def Let_def map_of_dict_pop)

text \<open>
  The configuration page sends an endpoint back with its key masked; the save drops the masked key and the
  settings service replaces the stored endpoint as a whole, so the stored key is erased.
\<close>

theorem masked_save_erases_key:
  assumes "endpoint_defaults_ok coerce" and "(p, k) \<in> set setting_map" and "distinct (map fst body)"
    and "map_of body k = Some (JObj m)" and "map_of m ''api_key'' = Some (JStr AI_API_KEY_MASKED)"
    and "ai_config_save coerce e environ body user (d, s) = (Inr (), (d', s'))"
  shows "\<exists>n. kv_get (''global'', None, k) d' = Some (json_dumps (JObj n)) \<and> map_of n ''api_key'' = Some (JStr '''')"
proof -
  from assms(6) obtain v where "set_global coerce e (strip_masked_keys body) (uctx_user_id user) d = Inr (v, d')"
    by (auto simp: ai_config_save_def split: sum.splits)
  then show ?thesis
  proof (rule set_global_ok)
    fix old pw validated
    let ?x = "dict_update (dict_set ''smtp_password'' (the pw) (mask_smtp old)) (incoming_global (strip_masked_keys body))"
    assume val: "validate coerce GlobalSettings ?x = Inr validated"
      and d': "d' = write_tier e 0 ''global'' None (uctx_user_id user) validated d"
    note dist = validated_distinct [OF tiers_ok(1) val]
    obtain f where f: "f \<in> set GlobalSettings" "fs_name f = k" "fs_type f = TEndpoint" "k \<noteq> ''smtp_password''"
      using endpoint_field [OF assms(2)] by blast
    have keys: "map fst (strip_masked_keys body) = map fst body"
      by (induction body) (auto simp: strip_masked_keys_def)
    have db: "distinct (map fst (incoming_global (strip_masked_keys body)))"
      using assms(3) keys by (simp add: incoming_global_def Let_def dict_pop_def distinct_map_filter)
    have "map_of (incoming_global (strip_masked_keys body)) k = Some (JObj (dict_pop ''api_key'' m))"
      using assms(4,5) f(4) by (simp add: map_of_incoming map_of_strip_masked)
    then have x: "map_of ?x k = Some (JObj (dict_pop ''api_key'' m))"
      using db by (simp add: map_of_dict_update map_of_rev_distinct)
    obtain w where w: "validate_field coerce ?x f = Some w" "(k, w) \<in> set validated"
      using validate_each [OF val f(1)] f(2) by blast
    from w(1) have "coerce TEndpoint (JObj (dict_pop ''api_key'' m)) = Some w"
      using x f(2,3) by (auto simp: validate_field_def split: option.splits if_splits)
    moreover have "map_of (dict_pop ''api_key'' m) ''api_key'' = None" by (simp add: map_of_dict_pop)
    ultimately obtain n where n: "w = JObj n" "map_of n ''api_key'' = Some (JStr '''')"
      using assms(1) unfolding endpoint_defaults_ok_def by blast
    have "kv_get (''global'', None, k) d' = Some (json_dumps w)"
      using w(2) dist by (force simp: d' write_tier_get [OF dist])
    with n show ?thesis by blast
  qed
qed

definition demo_fill :: coercion where
  \<comment> \<open>Accepts typed values and fills the missing fields of an endpoint.\<close>
  "demo_fill t v =
     (case v of
        JObj m \<Rightarrow>
          if t = TEndpoint \<and> list_all (\<lambda>(k, x). endpoint_value_ok k x) m
          then Some (JObj (map (\<lambda>(k, dv). (k, case map_of m k of Some x \<Rightarrow> x | None \<Rightarrow> dv))
            [(''url'', JStr ''''), (''model'', JStr ''''), (''api_key'', JStr ''''), (''enabled'', JBool False),
             (''context_window'', JInt 0), (''priority'', JInt 0), (''notes'', JStr '''')]))
          else None
      | _ \<Rightarrow> if has_type t v then Some v else None)"

lemma demo_fill_ok: "endpoint_defaults_ok demo_fill"
  by (auto simp: endpoint_defaults_ok_def demo_fill_def split: if_splits)

definition demo_ai_db :: db where
  "demo_ai_db = empty_db\<lparr>settings := [\<lparr>se_id = ''s1'', se_scope = ''global'', se_scope_id = None,
     se_key = ''ai_endpoint_openai'', se_value_json = json_dumps (JObj [(''url'', JStr ''u''), (''model'', JStr ''m''),
       (''api_key'', JStr ''sk''), (''enabled'', JBool True), (''context_window'', JInt 0), (''priority'', JInt 0),
       (''notes'', JStr '''')]), se_updated_by = None, se_created_at = 1, se_updated_at = 1\<rparr>]\<rparr>"

definition demo_ai_state :: ai_state where
  "demo_ai_state = \<lparr>ai_config_of = build_default_config (\<lambda>k. ''''), ai_cache = []\<rparr>"

definition demo_ai_body :: dict where
  "demo_ai_body = [(''ai_endpoint_openai'', JObj [(''url'', JStr ''u''), (''api_key'', JStr AI_API_KEY_MASKED), (''enabled'', JBool True)])]"

theorem masked_save_erases_key_witness:
  "\<exists>d' s' n. ai_config_save demo_fill demo_env (\<lambda>k. '''') demo_ai_body demo_super (demo_ai_db, demo_ai_state) = (Inr (), (d', s')) \<and>
     kv_get (''global'', None, ''ai_endpoint_openai'') d' = Some (json_dumps (JObj n)) \<and> map_of n ''api_key'' = Some (JStr '''')"
proof -
  let ?r = "ai_config_save demo_fill demo_env (\<lambda>k. '''') demo_ai_body demo_super (demo_ai_db, demo_ai_state)"
  have "isl (fst ?r) = False" by code_simp
  then obtain d' s' where r: "?r = (Inr (), (d', s'))"
    by (cases ?r; cases "fst ?r") auto
  have "\<exists>n. kv_get (''global'', None, ''ai_endpoint_openai'') d' = Some (json_dumps (JObj n)) \<and>
      map_of n ''api_key'' = Some (JStr '''')"
    by (rule masked_save_erases_key [OF demo_fill_ok _ _ _ _ r, where p = OPENAI
        and m = "[(''url'', JStr ''u''), (''api_key'', JStr AI_API_KEY_MASKED), (''enabled'', JBool True)]"])
      (simp_all add: setting_map_def demo_ai_body_def)
  with r show ?thesis by blast
qed

end
