(* ===== verification/AutoUpdate.thy ===== *)
theory AutoUpdate
  imports Brand SettingsSvc Sinks "HOL-Library.Option_ord" "HOL-Library.Product_Lexorder"
begin

section \<open>Auto update\<close>

text \<open>
  \<open>services/auto_update\<close>: one poll of the framework pin of an application.  The pin is the ref of the
  \<open>name @ git+URL@ref\<close> dependency in \<open>pyproject.toml\<close>, found by the brand's regular expression, whose
  deterministic matcher is written out for a framework name without regex metacharacters.  The forge is a
  parameter (what a GET answers), and so is \<open>packaging.version\<close> (a partial map to a linear order).  The
  arrow of the messages is written in ASCII.
\<close>

subsection \<open>Versions and pins\<close>

definition lstrip_v :: "string \<Rightarrow> string" where
  "lstrip_v s = lstrip_where (\<lambda>c. c = CHR ''v'') s"

definition version_key :: "(string \<Rightarrow> 'v::linorder option) \<Rightarrow> string \<Rightarrow> 'v option \<times> string" where
  \<comment> \<open>Tags that are no versions sort below all that are, among themselves as strings.\<close>
  "version_key parse tag = (case parse (lstrip_v tag) of Some v \<Rightarrow> (Some v, []) | None \<Rightarrow> (None, tag))"

definition is_newer :: "(string \<Rightarrow> 'v::linorder option) \<Rightarrow> string \<Rightarrow> string \<Rightarrow> bool" where
  "is_newer parse current latest \<longleftrightarrow>
     current \<noteq> [] \<and> latest \<noteq> [] \<and>
     (case (parse (lstrip_v current), parse (lstrip_v latest)) of
        (Some c, Some l) \<Rightarrow> c < l | _ \<Rightarrow> current \<noteq> latest)"

definition pin_char :: "char \<Rightarrow> bool" where
  "pin_char c \<longleftrightarrow> \<not> is_space c \<and> c \<noteq> CHR 0x22 \<and> c \<noteq> CHR 0x27 \<and> c \<noteq> CHR '';''"

definition match_pin :: "string \<Rightarrow> string \<Rightarrow> string option" where
  \<comment> \<open>\<open>name\s*@\s*git\+[^@]+@([^\s"';]+)\<close> at the start of the text, ignoring case.\<close>
  "match_pin name s =
     (if py_lower (take (length name) s) \<noteq> py_lower name \<or> length s < length name then None
      else (case dropWhile is_space (drop (length name) s) of
              [] \<Rightarrow> None
            | c # r1 \<Rightarrow>
                if c \<noteq> CHR ''@'' then None
                else
                  let r2 = dropWhile is_space r1; r3 = drop 4 r2; url = takeWhile (\<lambda>x. x \<noteq> CHR ''@'') r3;
                      r4 = dropWhile (\<lambda>x. x \<noteq> CHR ''@'') r3; ref = takeWhile pin_char (tl r4)
                  in if py_lower (take 4 r2) \<noteq> ''git+'' \<or> url = [] \<or> r4 = [] \<or> ref = [] then None else Some ref))"

fun search_pin :: "string \<Rightarrow> string \<Rightarrow> string option" where
  "search_pin name [] = match_pin name []"
| "search_pin name (c # s) =
     (case match_pin name (c # s) of Some ref \<Rightarrow> Some ref | None \<Rightarrow> search_pin name s)"

definition auto_update_error :: "string \<Rightarrow> error" where
  "auto_update_error m = OtherException (''AutoUpdateError: '' @ m)"

definition read_current_pin :: "brand_config \<Rightarrow> string option \<Rightarrow> error + string" where
  "read_current_pin b pyproject =
     (case pyproject of
        None \<Rightarrow> Inl (auto_update_error ''no pyproject.toml'')
      | Some text \<Rightarrow>
          (case search_pin (framework_name b) text of
             None \<Rightarrow> Inl (auto_update_error (framework_name b @ '' @ git+ dep not found in pyproject''))
           | Some ref \<Rightarrow> Inr ref))"

definition bump_pin :: "string \<Rightarrow> string \<Rightarrow> string \<Rightarrow> error + string" where
  "bump_pin current latest text =
     (let updated = replace_first (''@'' @ current) (''@'' @ latest) text
      in if updated = text then Inl (auto_update_error (''failed to bump pin '' @ current @ '' -> '' @ latest))
         else Inr updated)"

subsection \<open>The forge\<close>

datatype forge_reply = HttpFault string | Reply int string "json option"

definition default_forge_api :: "brand_config \<Rightarrow> string" where
  "default_forge_api b =
     (let u = rstrip_where (\<lambda>c. c = CHR ''/'') (framework_repo_url b);
          url = (if ends_with ''.git'' u then take (length u - 4) u else u)
      in if starts_with ''https://github.com/'' url
         then ''https://api.github.com/repos/'' @ drop 19 url
         else ''https://api.github.com/repos/scrampker/scottycore'')"

definition forge_api_of :: "string option \<Rightarrow> brand_config \<Rightarrow> string" where
  "forge_api_of forge_api b =
     rstrip_where (\<lambda>c. c = CHR ''/'') (if truthy_str forge_api then the forge_api else default_forge_api b)"

fun tag_names :: "json list \<Rightarrow> string list" where
  \<comment> \<open>The string \<open>name\<close>s of the entries that are objects.\<close>
  "tag_names [] = []"
| "tag_names (JObj d # js) = (case map_of d ''name'' of Some (JStr s) \<Rightarrow> s # tag_names js | _ \<Rightarrow> tag_names js)"
| "tag_names (_ # js) = tag_names js"

definition fetch_latest_from_tags ::
  "(string \<Rightarrow> 'v::linorder option) \<Rightarrow> (string \<Rightarrow> forge_reply) \<Rightarrow> string \<Rightarrow> error + string" where
  "fetch_latest_from_tags parse get api =
     (case get (api @ ''/tags'') of
        HttpFault m \<Rightarrow> Inl (OtherException (''HTTPError: '' @ m))
      | Reply code body js \<Rightarrow>
          if 400 \<le> code then Inl (auto_update_error (''forge tags API '' @ int_str code @ '': '' @ take 200 body))
          else
            (case js of
               None \<Rightarrow> Inl (ValueError ''JSONDecodeError'')
             | Some j \<Rightarrow>
                 (case (case j of JList l \<Rightarrow> Inr (tag_names l) | JObj d \<Rightarrow> Inr [] | JStr s \<Rightarrow> Inr []
                        | _ \<Rightarrow> Inl (TypeError ''object is not iterable'')) of
                    Inl x \<Rightarrow> Inl x
                  | Inr tags \<Rightarrow>
                      if tags = [] then Inl (auto_update_error ''no tags on remote'')
                      else Inr (hd (sort_desc (version_key parse) tags)))))"

definition fetch_latest_tag ::
  "(string \<Rightarrow> 'v::linorder option) \<Rightarrow> (string \<Rightarrow> forge_reply) \<Rightarrow> string \<Rightarrow> error + string" where
  "fetch_latest_tag parse get api =
     (case get (api @ ''/releases/latest'') of
        HttpFault m \<Rightarrow> Inl (auto_update_error (''forge HTTP error: '' @ m))
      | Reply code body js \<Rightarrow>
          if code = 404 then fetch_latest_from_tags parse get api
          else if 400 \<le> code then Inl (auto_update_error (''forge release API '' @ int_str code @ '': '' @ take 200 body))
          else
            (case js of
               None \<Rightarrow> Inl (auto_update_error ''malformed release JSON'')
             | Some (JObj d) \<Rightarrow>
                 (case (if truthy_json (map_of d ''tag_name'') then map_of d ''tag_name'' else map_of d ''name'') of
                    Some (JStr s) \<Rightarrow> if s = [] then Inl (auto_update_error ''release payload missing tag name'') else Inr s
                  | _ \<Rightarrow> Inl (auto_update_error ''release payload missing tag name''))
             | Some _ \<Rightarrow> Inl (OtherException ''AttributeError'')))"

subsection \<open>One poll\<close>

record update_check_result =
  uc_current_pin :: "string option"
  uc_latest_pin :: "string option"
  uc_mode :: string
  uc_action_taken :: string
  uc_detail :: string

record update_world =
  up_pyproject :: "string option"
  up_flag :: "string option"
  up_db :: db

definition MODE_OFF :: string where "MODE_OFF = ''off''"
definition MODE_NOTIFY :: string where "MODE_NOTIFY = ''notify''"
definition MODE_AUTO :: string where "MODE_AUTO = ''auto''"

definition read_mode :: "brand_config \<Rightarrow> bool \<Rightarrow> db \<Rightarrow> string" where
  \<comment> \<open>\<open>db_ok\<close>: the lookup did not raise.\<close>
  "read_mode b db_ok d =
     (if \<not> db_ok then MODE_NOTIFY
      else (case settings_get ''global'' None (update_setting_key_mode b) d of
              None \<Rightarrow> MODE_NOTIFY
            | Some row \<Rightarrow>
                (case json_loads (se_value_json row) of
                   Some (JStr raw) \<Rightarrow> if raw \<in> {MODE_OFF, MODE_NOTIFY, MODE_AUTO} then raw else MODE_NOTIFY
                 | _ \<Rightarrow> MODE_NOTIFY)))"

definition emit_notify :: "brand_config \<Rightarrow> codec \<Rightarrow> env \<Rightarrow> bool \<Rightarrow> string \<Rightarrow> string \<Rightarrow> db \<Rightarrow> db" where
  "emit_notify b c e db_ok current latest d =
     (if \<not> db_ok then d
      else settings_upsert e (env_ids e 0) ''global'' None (update_setting_key_pending b)
        (json_dumps (JObj [(''current'', JStr current), (''latest'', JStr latest), (''ts'', JStr (cd_iso c (env_now e)))])) None d)"

definition rebuild_flag :: "brand_config \<Rightarrow> codec \<Rightarrow> env \<Rightarrow> string" where
  "rebuild_flag b c e = cd_dumps c (JObj [(''requested_at'', JStr (cd_iso c (env_now e))),
     (''reason'', JStr (framework_name b @ '' auto-update bump''))])"

definition is_update_error :: "error \<Rightarrow> bool" where
  "is_update_error x = (case x of OtherException m \<Rightarrow> starts_with ''AutoUpdateError: '' m | _ \<Rightarrow> False)"

definition check_once ::
  "brand_config \<Rightarrow> codec \<Rightarrow> (string \<Rightarrow> 'v::linorder option) \<Rightarrow> (string \<Rightarrow> forge_reply) \<Rightarrow> string \<Rightarrow> env \<Rightarrow> bool \<Rightarrow>
     update_world \<Rightarrow> (error + update_check_result) \<times> update_world" where
  "check_once b c parse get api e db_ok w =
     (let result = (\<lambda>cur lat mode action detail. (Inr \<lparr>uc_current_pin = cur, uc_latest_pin = lat, uc_mode = mode,
            uc_action_taken = action, uc_detail = detail\<rparr> :: error + update_check_result));
          mode = read_mode b db_ok (up_db w)
      in case read_current_pin b (up_pyproject w) of
           Inl x \<Rightarrow> (result None None MODE_OFF ''error'' (err_message x), w)
         | Inr current \<Rightarrow>
             (case fetch_latest_tag parse get api of
                Inl x \<Rightarrow>
                  (if is_update_error x then result (Some current) None mode ''error'' (err_message x) else Inl x, w)
              | Inr latest \<Rightarrow>
                  if \<not> is_newer parse current latest
                  then (result (Some current) (Some latest) mode ''none'' ''up-to-date'', w)
                  else if mode = MODE_OFF
                  then (result (Some current) (Some latest) mode ''none'' ''update available but mode=off'', w)
                  else if mode = MODE_NOTIFY
                  then (result (Some current) (Some latest) mode ''notified'' (current @ '' -> '' @ latest),
                        w\<lparr>up_db := emit_notify b c e db_ok current latest (up_db w)\<rparr>)
                  else
                    (case bump_pin current latest (the (up_pyproject w)) of
                       Inl x \<Rightarrow> (Inl x, w)
                     | Inr text \<Rightarrow>
                         (result (Some current) (Some latest) mode ''auto-updated''
                            (''bumped '' @ current @ '' -> '' @ latest @ ''; rebuild flag dropped''),
                          w\<lparr>up_pyproject := Some text, up_flag := Some (rebuild_flag b c e)\<rparr>))))"

definition update_exit_code :: "update_check_result \<Rightarrow> int" where
  \<comment> \<open>The status the command line ends with.\<close>
  "update_exit_code r =
     (if uc_action_taken r = ''auto-updated'' then 75 else if uc_action_taken r = ''error'' then 1 else 0)"

subsection \<open>Unit templates\<close>

definition unit_mapping :: "brand_config \<Rightarrow> (string \<times> string) list" where
  "unit_mapping b =
     [(''update-check@.service.j2'', framework_name b @ ''-update-check@.service''),
      (''update-check@.timer.j2'', framework_name b @ ''-update-check@.timer''),
      (''app-update-check@.service.j2'', framework_name b @ ''-app-update-check@.service''),
      (''app-update-check@.timer.j2'', framework_name b @ ''-app-update-check@.timer'')]"

definition render_template :: "brand_config \<Rightarrow> string \<Rightarrow> string" where
  "render_template b content =
     fold (\<lambda>(k, v) s. replace_all (''{{ '' @ k @ '' }}'') v s)
       [(''framework_name'', framework_name b), (''apps_root'', apps_root b), (''display_name'', display_name b)] content"

definition render_systemd_units :: "brand_config \<Rightarrow> (string \<Rightarrow> string) \<Rightarrow> (string \<times> string) list" where
  \<comment> \<open>The files written, by name; the argument reads a template.\<close>
  "render_systemd_units b templ = map (\<lambda>(tmpl_name, out_name). (out_name, render_template b (templ tmpl_name))) (unit_mapping b)"

subsection \<open>Finding the pin\<close>

definition name_ok :: "string \<Rightarrow> bool" where
  \<comment> \<open>A framework name with nothing the pattern would read as an operator.\<close>
  "name_ok s \<longleftrightarrow> s \<noteq> [] \<and> list_all (\<lambda>c. is_word c \<or> c = CHR ''-'') s"

lemma name_char: "is_word c \<or> c = CHR ''-'' \<Longrightarrow> c \<noteq> CHR ''@'' \<and> \<not> is_space c"
  by (auto simp: is_word_def is_alpha_def is_digit_def is_space_def code_of_def)

lemma match_no_at: "CHR ''@'' \<notin> set s \<Longrightarrow> match_pin name s = None"
proof -
  assume n: "CHR ''@'' \<notin> set s"
  have "c \<noteq> CHR ''@''" if "dropWhile is_space (drop (length name) s) = c # r" for c r
  proof -
    have "c \<in> set (dropWhile is_space (drop (length name) s))" by (simp add: that)
    then have "c \<in> set s" by (meson in_set_dropD set_dropWhileD)
    with n show ?thesis by blast
  qed
  then show ?thesis by (auto simp: match_pin_def split: list.splits)
qed

lemma dropWhile_blocked:
  assumes "CHR ''@'' \<notin> set q" and "\<not> list_all is_space q" and "dropWhile is_space (q @ r) = c # t"
  shows "c \<noteq> CHR ''@''"
proof -
  from assms(2) obtain x where "x \<in> set q" "\<not> is_space x" by (auto simp: list_all_iff)
  then have "dropWhile is_space (q @ r) = dropWhile is_space q @ r" by (simp add: dropWhile_append1)
  moreover have "dropWhile is_space q \<noteq> []" using \<open>x \<in> set q\<close> \<open>\<not> is_space x\<close> by auto
  then obtain c' t' where q: "dropWhile is_space q = c' # t'" by (cases "dropWhile is_space q") auto
  ultimately have "c = c'" using assms(3) by simp
  moreover have "c' \<in> set (dropWhile is_space q)" by (simp add: q)
  ultimately have "c \<in> set q" by (meson set_dropWhileD)
  with assms(1) show ?thesis by blast
qed

lemma match_before_pin:
  assumes "name_ok name" and "CHR ''@'' \<notin> set q" and "q \<noteq> []"
  shows "match_pin name (q @ name @ '' @ git+'' @ r) = None"
proof -
  let ?x = "drop (length name) (q @ name @ '' @ git+'' @ r)"
  have "?x = drop (length name) (q @ name) @ '' @ git+'' @ r" using assms(3) by simp
  moreover have "\<not> list_all is_space (drop (length name) (q @ name) @ '' '')"
  proof -
    have ne: "name \<noteq> []" using assms(1) by (simp add: name_ok_def)
    have "length name < length (q @ name)" using assms(3) by simp
    then have "last (drop (length name) (q @ name)) = last (q @ name)" "drop (length name) (q @ name) \<noteq> []"
      by (simp_all del: drop_append)
    then have "last name \<in> set (drop (length name) (q @ name))"
      using ne by (metis last_appendR last_in_set)
    moreover have "\<not> is_space (last name)"
    proof -
      have "is_word (last name) \<or> last name = CHR ''-''"
        using assms(1) last_in_set [OF ne] unfolding name_ok_def list_all_iff by blast
      then show ?thesis using name_char by blast
    qed
    ultimately show ?thesis by (auto simp: list_all_iff)
  qed
  moreover have "CHR ''@'' \<notin> set (drop (length name) (q @ name) @ '' '')"
  proof -
    have "CHR ''@'' \<notin> set name" using assms(1) name_char by (auto simp: name_ok_def list_all_iff)
    with assms(2) show ?thesis by (auto dest: in_set_dropD)
  qed
  ultimately have "c \<noteq> CHR ''@''" if "dropWhile is_space ?x = c # t" for c t
    using dropWhile_blocked [of "drop (length name) (q @ name) @ '' ''" "''@ git+'' @ r" c t] that by simp
  then show ?thesis by (auto simp: match_pin_def split: list.splits)
qed

lemma match_at_pin:
  assumes "url \<noteq> []" and "CHR ''@'' \<notin> set url" and "ref \<noteq> []" and "list_all pin_char ref"
    and "r = [] \<or> \<not> pin_char (hd r)"
  shows "match_pin name (name @ '' @ git+'' @ url @ ''@'' @ ref @ r) = Some ref"
proof -
  have "takeWhile (\<lambda>x. x \<noteq> CHR ''@'') (url @ CHR ''@'' # ref @ r) = url"
    "dropWhile (\<lambda>x. x \<noteq> CHR ''@'') (url @ CHR ''@'' # ref @ r) = CHR ''@'' # ref @ r"
    using assms(2) by (auto simp: takeWhile_append dropWhile_append)
  moreover have "takeWhile pin_char (ref @ r) = ref"
    using assms(4,5) by (cases r) (auto simp: takeWhile_append list_all_iff)
  moreover have "is_space (CHR '' '')" "\<not> is_space (CHR ''@'')" "\<not> is_space (CHR ''g'')"
    by (simp_all add: is_space_def code_of_def)
  moreover have "py_lower ''git+'' = ''git+''" by code_simp
  ultimately show ?thesis using assms(1,3) by (simp add: match_pin_def Let_def)
qed

lemma search_pin_app:
  assumes "name_ok name" and "CHR ''@'' \<notin> set p" and "match_pin name (name @ '' @ git+'' @ r) = Some ref"
  shows "search_pin name (p @ name @ '' @ git+'' @ r) = Some ref"
  using assms(2)
proof (induction p)
  case Nil
  from assms(1) obtain c n where "name = c # n" by (cases name) (auto simp: name_ok_def)
  with assms(3) show ?case by simp
next
  case (Cons c p)
  from match_before_pin [OF assms(1), of "c # p" r] Cons show ?case by simp
qed

lemma replace_first_skip:
  assumes "CHR ''@'' \<notin> set p"
  shows "replace_first (CHR ''@'' # old) new (p @ s) = p @ replace_first (CHR ''@'' # old) new s"
  using assms by (induction p) (auto simp: starts_with_def)

lemma replace_first_here: "old \<noteq> [] \<Longrightarrow> replace_first old new (old @ s) = new @ s"
  by (cases old) (auto simp: starts_with_def)

definition pinned :: "string \<Rightarrow> string \<Rightarrow> string \<Rightarrow> string \<Rightarrow> string \<Rightarrow> string" where
  \<comment> \<open>A \<open>pyproject.toml\<close> around its one dependency on the framework.\<close>
  "pinned name p url ref r = p @ name @ '' @ git+'' @ url @ ''@'' @ ref @ r"

definition pinned_ok :: "string \<Rightarrow> string \<Rightarrow> string \<Rightarrow> string \<Rightarrow> bool" where
  \<comment> \<open>No other \<open>@\<close> before the pin, as in an \<open>https\<close> URL without user, and a delimiter after it.\<close>
  "pinned_ok name p url r \<longleftrightarrow> name_ok name \<and> CHR ''@'' \<notin> set p \<and> url \<noteq> [] \<and> CHR ''@'' \<notin> set url \<and>
     (r = [] \<or> \<not> pin_char (hd r))"

definition ref_ok :: "string \<Rightarrow> bool" where
  "ref_ok ref \<longleftrightarrow> ref \<noteq> [] \<and> list_all pin_char ref"

lemma search_pinned:
  "pinned_ok name p url r \<Longrightarrow> ref_ok ref \<Longrightarrow> search_pin name (pinned name p url ref r) = Some ref"
  unfolding pinned_def pinned_ok_def ref_ok_def by (intro search_pin_app match_at_pin) auto

lemma bump_pinned:
  assumes "pinned_ok name p url r" and "ref_ok cur" and "cur \<noteq> lat"
  shows "bump_pin cur lat (pinned name p url cur r) = Inr (pinned name p url lat r)"
proof -
  have at: "CHR ''@'' \<notin> set name"
    using assms(1) name_char by (auto simp: pinned_ok_def name_ok_def list_all_iff)
  have blank: "\<not> pin_char (CHR '' '')" by code_simp
  obtain c t where cur: "cur = c # t" "pin_char c"
    using assms(2) by (cases cur) (auto simp: ref_ok_def)
  with blank have "c \<noteq> CHR '' ''" by blast
  have no: "CHR ''@'' \<notin> set ('' git+'' @ url)" "CHR ''@'' \<notin> set (p @ name @ '' '')"
    using assms(1) at by (auto simp: pinned_ok_def)
  have "replace_first (''@'' @ cur) (''@'' @ lat) (pinned name p url cur r) =
      (p @ name @ '' '') @ replace_first (CHR ''@'' # cur) (CHR ''@'' # lat) (''@ git+'' @ url @ ''@'' @ cur @ r)"
    using replace_first_skip [OF no(2), of cur "CHR ''@'' # lat" "''@ git+'' @ url @ ''@'' @ cur @ r"]
    by (simp add: pinned_def)
  also have "replace_first (CHR ''@'' # cur) (CHR ''@'' # lat) (''@ git+'' @ url @ ''@'' @ cur @ r) =
      CHR ''@'' # replace_first (CHR ''@'' # cur) (CHR ''@'' # lat) (('' git+'' @ url) @ ''@'' @ cur @ r)"
    using cur(1) \<open>c \<noteq> CHR '' ''\<close> by (simp add: starts_with_def)
  also have "replace_first (CHR ''@'' # cur) (CHR ''@'' # lat) (('' git+'' @ url) @ ''@'' @ cur @ r) =
      ('' git+'' @ url) @ (CHR ''@'' # lat) @ r"
    using replace_first_skip [OF no(1), of cur "CHR ''@'' # lat" "''@'' @ cur @ r"]
      replace_first_here [of "CHR ''@'' # cur" "CHR ''@'' # lat" r] by simp
  finally have "replace_first (''@'' @ cur) (''@'' @ lat) (pinned name p url cur r) = pinned name p url lat r"
    by (simp add: pinned_def)
  moreover have "pinned name p url lat r \<noteq> pinned name p url cur r" using assms(3) by (simp add: pinned_def)
  ultimately show ?thesis by (simp add: bump_pin_def Let_def)
qed

subsection \<open>A poll that updates settles\<close>

lemma not_newer_self: "\<not> is_newer parse v v"
  by (auto simp: is_newer_def split: option.splits)

lemma newer_neq: "is_newer parse c l \<Longrightarrow> c \<noteq> l \<and> l \<noteq> []"
  using not_newer_self by (auto simp: is_newer_def)


definition demo_parse :: "string \<Rightarrow> int option" where
  "demo_parse s = (if s \<noteq> [] \<and> list_all is_digit s then Some (digits_val s) else None)"

definition demo_forge :: "string \<Rightarrow> forge_reply" where
  "demo_forge u = (if ends_with ''/tags'' u then Reply 200 '''' (Some (JList [JObj [(''name'', JStr ''v9'')], JObj [(''name'', JStr ''v12'')], JNull]))
     else Reply 404 '''' None)"

definition demo_brand :: brand_config where
  "demo_brand = brand_from_env (\<lambda>k. None)"

definition demo_update_world :: update_world where
  "demo_update_world = \<lparr>up_pyproject = Some (pinned ''scottycore'' ''deps = [ '' ''https://x/y.git'' ''v9'' '' ]''), up_flag = None,
     up_db = empty_db\<lparr>settings := [\<lparr>se_id = ''s'', se_scope = ''global'', se_scope_id = None, se_key = ''scottycore.update.mode'',
       se_value_json = json_dumps (JStr ''auto''), se_updated_by = None, se_created_at = 1, se_updated_at = 1\<rparr>]\<rparr>\<rparr>"

lemma demo_brand_name: "framework_name demo_brand = ''scottycore''"
  by code_simp

lemma demo_update_facts:
  "pinned_ok ''scottycore'' ''deps = [ '' ''https://x/y.git'' '' ]''" "ref_ok ''v9''" "ref_ok ''v12''"
  "read_mode demo_brand True (up_db demo_update_world) = MODE_AUTO"
  "fetch_latest_tag demo_parse demo_forge ''api'' = Inr ''v12''" "is_newer demo_parse ''v9'' ''v12''"
  by code_simp+


subsection \<open>Pins the rewrite gets wrong\<close>

text \<open>With an ssh URL the first \<open>@\<close> is the one of the user: the host and path are read as part of the pin, are
  never a version, so every poll finds an update, and the rewrite throws them away.\<close>

lemma ssh_pin_destroyed:
  "read_current_pin demo_brand (Some ''scottycore @ git+ssh://git@host/y.git@v9'') = Inr ''host/y.git@v9''"
  "is_newer demo_parse ''host/y.git@v9'' ''v9''"
  "bump_pin ''host/y.git@v9'' ''v9'' ''scottycore @ git+ssh://git@host/y.git@v9'' = Inr ''scottycore @ git+ssh://git@v9''"
  by code_simp+

text \<open>The first \<open>@current\<close> of the file is rewritten, whichever dependency it pins.\<close>

lemma other_pin_bumped:
  "read_current_pin demo_brand (Some ''other @ git+https://o@v9 scottycore @ git+https://s@v9'') = Inr ''v9''"
  "bump_pin ''v9'' ''v12'' ''other @ git+https://o@v9 scottycore @ git+https://s@v9'' =
     Inr ''other @ git+https://o@v12 scottycore @ git+https://s@v9''"
  by code_simp+

text \<open>Errors of the tag listing escape the poll, unlike those of the release lookup.\<close>

lemma tags_fault_escapes:
  assumes "get (api @ ''/releases/latest'') = Reply 404 body js" and "get (api @ ''/tags'') = HttpFault m"
    and "read_current_pin b (up_pyproject w) = Inr cur"
  shows "check_once b c parse get api e db_ok w = (Inl (OtherException (''HTTPError: '' @ m)), w)"
  using assms by (simp add: check_once_def fetch_latest_tag_def fetch_latest_from_tags_def is_update_error_def starts_with_def)

end
