(* ===== verification/GitSink.thy ===== *)
theory GitSink
  imports Sinks
begin

section \<open>The git repository sink\<close>

text \<open>
  \<open>services/backup/sinks/git_repo.py\<close>.  Git itself is a parameter: a command and the state of the world (the
  working tree, with the file system around it, and whatever git keeps) give a new state and either the
  command's error output or its output.  The sink's own state is whether its clone has been initialised.
  Path templates with conversions, format specifications or attribute lookups inside the braces are formatted
  by the parameter \<open>special\<close> (a brace inside a field is not modelled); plain fields and the escapes are written out.
\<close>

type_synonym 'g git_cmd = "string list \<Rightarrow> fs \<times> 'g \<Rightarrow> (string + string) \<times> (fs \<times> 'g)"

record git_sink_cfg =
  gs_repo_url :: string
  gs_clone_dir :: string
  gs_branch :: string
  gs_path_template :: string
  gs_lfs_enabled :: bool
  gs_author_name :: string
  gs_author_email :: string

record 'g git_world =
  gw_repo :: "fs \<times> 'g"
  gw_ready :: bool

definition gw_files :: "'g git_world \<Rightarrow> fs" where
  "gw_files w = fst (gw_repo w)"

definition new_git_sink :: "git_sink_cfg \<Rightarrow> error + git_sink_cfg" where
  "new_git_sink cfg = (if gs_repo_url cfg = [] then Inl (sink_error ''GitRepoSink: repo_url is required'') else Inr cfg)"

definition clone_path :: "git_sink_cfg \<Rightarrow> path" where
  "clone_path cfg = local_root (gs_clone_dir cfg)"

definition abs_str :: "path \<Rightarrow> string" where
  "abs_str p = CHR ''/'' # join_with ''/'' p"

subsection \<open>Running git\<close>

definition git_failed :: "string list \<Rightarrow> string \<Rightarrow> error" where
  "git_failed args err = sink_error (''git '' @ join_with '' '' args @ '' failed: '' @ py_strip err)"

definition run_git :: "'g git_cmd \<Rightarrow> git_sink_cfg \<Rightarrow> string list \<Rightarrow> 'g git_world \<Rightarrow> (error + string) \<times> 'g git_world" where
  "run_git git cfg args w =
     (case git ([''-C'', abs_str (clone_path cfg)] @ args) (gw_repo w) of
        (Inl err, r) \<Rightarrow> (Inl (git_failed args err), w\<lparr>gw_repo := r\<rparr>)
      | (Inr out, r) \<Rightarrow> (Inr out, w\<lparr>gw_repo := r\<rparr>))"

definition on_failure :: "(error + 'a) \<times> 'w \<Rightarrow> (error \<Rightarrow> 'w \<Rightarrow> (error + 'a) \<times> 'w) \<Rightarrow> (error + 'a) \<times> 'w" where
  \<comment> \<open>\<open>try ... except SinkError\<close> around commands that raise nothing else.\<close>
  "on_failure r h = (case r of (Inl x, w) \<Rightarrow> h x w | (Inr a, w) \<Rightarrow> (Inr a, w))"

definition pull :: "'g git_cmd \<Rightarrow> git_sink_cfg \<Rightarrow> 'g git_world \<Rightarrow> 'g git_world" where
  "pull git cfg w = snd (run_git git cfg [''pull'', ''--ff-only'', ''origin'', gs_branch cfg] w)"

definition try_push :: "'g git_cmd \<Rightarrow> git_sink_cfg \<Rightarrow> 'g git_world \<Rightarrow> 'g git_world" where
  "try_push git cfg w =
     (case run_git git cfg [''push'', ''origin'', gs_branch cfg] w of
        (Inr _, w1) \<Rightarrow> w1
      | (Inl x, w1) \<Rightarrow>
          (let stderr = py_lower (err_message x) in
           if contains_str ''non-fast-forward'' stderr \<or> contains_str ''rejected'' stderr
           then (case run_git git cfg [''pull'', ''--rebase'', ''origin'', gs_branch cfg] w1 of
                   (Inl _, w2) \<Rightarrow> w2
                 | (Inr _, w2) \<Rightarrow> snd (run_git git cfg [''push'', ''origin'', gs_branch cfg] w2))
           else w1))"

definition author :: "git_sink_cfg \<Rightarrow> string" where
  "author cfg = gs_author_name cfg @ '' <'' @ gs_author_email cfg @ ''>''"

definition commit_and_push ::
  "'g git_cmd \<Rightarrow> git_sink_cfg \<Rightarrow> string list \<Rightarrow> string \<Rightarrow> 'g git_world \<Rightarrow> (error + unit) \<times> 'g git_world" where
  "commit_and_push git cfg rel_paths message w =
     attempt (run_git git cfg (''add'' # rel_paths) w) (\<lambda>_ w1.
     attempt (run_git git cfg [''status'', ''--porcelain''] w1) (\<lambda>status w2.
       if py_strip status = [] then (Inr (), w2)
       else attempt (run_git git cfg [''commit'', ''-m'', message, ''--author'', author cfg] w2) (\<lambda>_ w3.
         (Inr (), try_push git cfg w3))))"

subsection \<open>Initialisation\<close>

definition lfs_lines :: "string list" where
  "lfs_lines = map (\<lambda>p. p @ '' filter=lfs diff=lfs merge=lfs -text'') [''*.gpg'', ''*.tar'', ''*.tar.gz'']"

definition text_lines :: "string \<Rightarrow> string list" where
  \<comment> \<open>\<open>splitlines\<close>, up to empty lines, which the caller drops.\<close>
  "text_lines s = split_on (CHR 0x0A) (map (\<lambda>c. if is_linebreak c then CHR 0x0A else c) s)"

definition existing_lines :: "string option \<Rightarrow> string list" where
  "existing_lines ga =
     (case ga of None \<Rightarrow> []
      | Some text \<Rightarrow> map py_strip (filter (\<lambda>ln. py_strip ln \<noteq> [] \<and> \<not> starts_with ''#'' ln) (text_lines text)))"

definition gitattributes_text :: "string list \<Rightarrow> string" where
  "gitattributes_text existing =
     ''# Managed by scottycore GitRepoSink -- LFS patterns for backup blobs'' @ [CHR 0x0A] @
     join_with [CHR 0x0A] (sort (remdups (existing @ lfs_lines))) @ [CHR 0x0A]"

definition lift_git :: "'g git_cmd \<Rightarrow> string list \<Rightarrow> 'g git_world \<Rightarrow> (error + unit) \<times> 'g git_world" where
  \<comment> \<open>\<open>subprocess.run(..., check=True)\<close>\<close>
  "lift_git git args w =
     (case git args (gw_repo w) of
        (Inl err, r) \<Rightarrow> (Inl (OtherException (''CalledProcessError: '' @ err)), w\<lparr>gw_repo := r\<rparr>)
      | (Inr out, r) \<Rightarrow> (Inr (), w\<lparr>gw_repo := r\<rparr>))"

definition empty_remote :: "string \<Rightarrow> bool" where
  "empty_remote stderr \<longleftrightarrow> list_ex (\<lambda>p. contains_str p (py_lower stderr))
     [''remote branch'', ''not found'', ''does not appear'', ''warning: you appear'', ''empty repository'']"

definition clone_or_init :: "'g git_cmd \<Rightarrow> git_sink_cfg \<Rightarrow> 'g git_world \<Rightarrow> (error + unit) \<times> 'g git_world" where
  "clone_or_init git cfg w =
     (let dir = abs_str (clone_path cfg) in
      if map_of (gw_files w) (clone_path cfg) \<noteq> None \<or> under_file (clone_path cfg) (gw_files w) then (Inl os_error, w)
      else if is_dir (clone_path cfg @ [''.git'']) (gw_files w) then (Inr (), w)
      else (case git [''clone'', gs_repo_url cfg, dir] (gw_repo w) of
              (Inr _, r) \<Rightarrow> (Inr (), w\<lparr>gw_repo := r\<rparr>)
            | (Inl stderr, r) \<Rightarrow>
                if empty_remote stderr
                then attempt (lift_git git [''init'', ''-b'', gs_branch cfg, dir] (w\<lparr>gw_repo := r\<rparr>)) (\<lambda>_ w1.
                  lift_git git [''-C'', dir, ''remote'', ''add'', ''origin'', gs_repo_url cfg] w1)
                else (Inl (sink_error (''GitRepoSink: clone failed: '' @ stderr)), w\<lparr>gw_repo := r\<rparr>)))"

definition write_repo :: "path \<Rightarrow> string \<Rightarrow> 'g git_world \<Rightarrow> (error + unit) \<times> 'g git_world" where
  "write_repo p data w =
     (case write_file p data (gw_files w) of
        Inl x \<Rightarrow> (Inl x, w) | Inr f \<Rightarrow> (Inr (), w\<lparr>gw_repo := (f, snd (gw_repo w))\<rparr>))"

definition setup_lfs :: "'g git_cmd \<Rightarrow> git_sink_cfg \<Rightarrow> 'g git_world \<Rightarrow> (error + unit) \<times> 'g git_world" where
  "setup_lfs git cfg w =
     (case run_git git cfg [''lfs'', ''install'', ''--local''] w of
        (Inl x, w1) \<Rightarrow>
          (Inl (sink_error (''GitRepoSink: lfs_enabled=True but '' @ quoted ''git lfs install'' @
             '' failed -- is git-lfs present? ('' @ err_message x @ '')'')), w1)
      | (Inr _, w1) \<Rightarrow>
          (let ga = clone_path cfg @ [''.gitattributes''];
               existing = existing_lines (map_of (gw_files w1) ga)
           in if set lfs_lines \<subseteq> set existing then (Inr (), w1)
              else attempt (write_repo ga (gitattributes_text existing) w1) (\<lambda>_ w2.
                on_failure
                  (attempt (run_git git cfg [''add'', ''.gitattributes''] w2) (\<lambda>_ w3.
                   attempt (run_git git cfg [''commit'', ''-m'', ''chore(backup): configure git-lfs patterns''] w3) (\<lambda>_ w4.
                     (Inr (), snd (run_git git cfg [''push'', ''origin'', gs_branch cfg] w4)))))
                  (\<lambda>x w'. (Inr (), w')))))"

definition sync_init :: "'g git_cmd \<Rightarrow> git_sink_cfg \<Rightarrow> 'g git_world \<Rightarrow> (error + unit) \<times> 'g git_world" where
  "sync_init git cfg w =
     attempt (clone_or_init git cfg w) (\<lambda>_ w1.
     attempt (run_git git cfg [''config'', ''user.name'', gs_author_name cfg] w1) (\<lambda>_ w2.
     attempt (run_git git cfg [''config'', ''user.email'', gs_author_email cfg] w2) (\<lambda>_ w3.
     (let w4 = snd (on_failure (run_git git cfg [''checkout'', gs_branch cfg] w3)
                 (\<lambda>x w'. run_git git cfg [''checkout'', ''-b'', gs_branch cfg] w'))
      in if gs_lfs_enabled cfg then setup_lfs git cfg w4 else (Inr (), w4)))))"

definition ensure_ready :: "'g git_cmd \<Rightarrow> git_sink_cfg \<Rightarrow> 'g git_world \<Rightarrow> (error + unit) \<times> 'g git_world" where
  "ensure_ready git cfg w =
     (if gw_ready w then (Inr (), w)
      else attempt (sync_init git cfg w) (\<lambda>_ w'. (Inr (), w'\<lparr>gw_ready := True\<rparr>)))"

subsection \<open>Paths\<close>

lemma tl_dropWhile_le: "length (dropWhile P s) - Suc 0 \<le> length s"
  using length_dropWhile_le [of P s] by linarith

function format_template :: "(string \<Rightarrow> error + string) \<Rightarrow> (string \<times> string) list \<Rightarrow> string \<Rightarrow> error + string" where
  \<comment> \<open>\<open>str.format\<close>\<close>
  "format_template special vars [] = Inr []"
| "format_template special vars (c # s) =
     (if c \<noteq> CHR ''{'' \<and> c \<noteq> CHR ''}''
      then (case format_template special vars s of Inl x \<Rightarrow> Inl x | Inr r \<Rightarrow> Inr (c # r))
      else if s \<noteq> [] \<and> hd s = c
      then (case format_template special vars (tl s) of Inl x \<Rightarrow> Inl x | Inr r \<Rightarrow> Inr (c # r))
      else if c = CHR ''}'' then Inl (ValueError ''Single } encountered in format string'')
      else
        (let field = takeWhile (\<lambda>x. x \<noteq> CHR ''}'') s; rest = dropWhile (\<lambda>x. x \<noteq> CHR ''}'') s in
         if rest = [] then Inl (ValueError ''expected } before end of string'')
         else
           (case (if list_all (\<lambda>x. x \<notin> {CHR ''.'', CHR ''['', CHR '':'', CHR ''!'', CHR ''{''}) field
                  then (if list_all is_digit field then Inl (OtherException ''IndexError'')
                        else (case map_of vars field of
                                Some v \<Rightarrow> Inr v | None \<Rightarrow> Inl (KeyError field)))
                  else special field) of
              Inl x \<Rightarrow> Inl x
            | Inr v \<Rightarrow>
                (case format_template special vars (tl rest) of Inl x \<Rightarrow> Inl x | Inr r \<Rightarrow> Inr (v @ r)))))"
  by pat_completeness auto

termination format_template
  by (relation "measure (\<lambda>(special, vars, s). length s)") (auto simp: tl_dropWhile_le less_Suc_eq_le)

definition git_filename :: "(time \<Rightarrow> string) \<Rightarrow> backup_blob \<Rightarrow> string" where
  \<comment> \<open>The first argument formats a time as \<open>%Y%m%dT%H%M%S.%fZ\<close>.\<close>
  "git_filename stamp b = stamp (bb_created_at b) @ ''-'' @ bb_kind b @
     (if bb_encrypted b then ''.tar.gz.gpg'' else ''.tar.gz'')"

definition template_vars :: "(time \<Rightarrow> string) \<Rightarrow> backup_blob \<Rightarrow> (string \<times> string) list" where
  "template_vars stamp b =
     [(''app_slug'', if bb_app_slug b = [] then ''unknown'' else bb_app_slug b),
      (''scope'', if bb_scope b = [] then ''platform'' else bb_scope b),
      (''tenant_slug'', case bb_tenant_slug b of None \<Rightarrow> [] | Some s \<Rightarrow> s),
      (''kind'', bb_kind b), (''timestamp'', stamp (bb_created_at b))]"

definition render_path ::
  "(string \<Rightarrow> error + string) \<Rightarrow> (time \<Rightarrow> string) \<Rightarrow> git_sink_cfg \<Rightarrow> backup_blob \<Rightarrow> error + string" where
  "render_path special stamp cfg b =
     (case format_template special (template_vars stamp b) (gs_path_template cfg) of
        Inl (KeyError k) \<Rightarrow> Inl (sink_error (''GitRepoSink: path_template '' @ quoted (gs_path_template cfg) @ '' uses unknown variable: '' @ quoted k))
      | Inl x \<Rightarrow> Inl x
      | Inr pre \<Rightarrow>
          Inr (join_with ''/'' (filter (\<lambda>p. p \<noteq> []) (split_on (CHR ''/'') pre)) @ ''/'' @ git_filename stamp b))"

subsection \<open>The operations of the sink\<close>

definition git_message :: "backup_blob \<Rightarrow> string" where
  "git_message b = ''backup: '' @ bb_app_slug b @ ''/'' @ bb_scope b @
     (if truthy_str (bb_tenant_slug b) then ''/'' @ the (bb_tenant_slug b) else []) @ '' '' @ bb_kind b @ '' '' @
     int_str (bb_size b) @ ''B''"

definition write_bundle :: "codec \<Rightarrow> backup_blob \<Rightarrow> path \<Rightarrow> 'g git_world \<Rightarrow> (error + unit) \<times> 'g git_world" where
  "write_bundle c b target w =
     (let tmp = sibling (\<lambda>n. with_suffix n (py_suffix n @ ''.part'')) target in
      attempt (write_repo tmp (bb_data b) w) (\<lambda>_ w1.
        (case replace_file tmp target (gw_files w1) of
           Inl x \<Rightarrow> (Inl x, w1)
         | Inr f \<Rightarrow> write_repo (sidecar_of target) (cd_dumps c (sidecar_meta c b)) (w1\<lparr>gw_repo := (f, snd (gw_repo w1))\<rparr>))))"

definition git_put ::
  "'g git_cmd \<Rightarrow> (string \<Rightarrow> error + string) \<Rightarrow> (time \<Rightarrow> string) \<Rightarrow> codec \<Rightarrow> git_sink_cfg \<Rightarrow> backup_blob \<Rightarrow>
     'g git_world \<Rightarrow> (error + sink_write_result) \<times> 'g git_world" where
  "git_put git special stamp c cfg b w =
     attempt (ensure_ready git cfg w) (\<lambda>_ w1.
       (case render_path special stamp cfg b of
          Inl x \<Rightarrow> (Inl x, w1)
        | Inr rel \<Rightarrow>
            (let target = norm_path (join_path (clone_path cfg) rel) in
             attempt (write_bundle c b target w1) (\<lambda>_ w2.
               if \<not> is_within (clone_path cfg) (join_path (clone_path cfg) rel)
               then (Inl (ValueError ''is not in the subpath''), w2)
               else attempt (commit_and_push git cfg
                 [rel, join_with ''/'' (drop (length (clone_path cfg)) (sidecar_of (join_path (clone_path cfg) rel)))] (git_message b) w2)
                 (\<lambda>_ w3. (Inr \<lparr>sw_locator = rel, sw_sink_type = ''git_repo'', sw_bytes_written = bb_size b,
                    sw_created_at = bb_created_at b\<rparr>, w3))))))"

definition git_resolve :: "git_sink_cfg \<Rightarrow> string \<Rightarrow> fs \<Rightarrow> error + path" where
  "git_resolve cfg locator f =
     (let target = norm_path (join_path (clone_path cfg) locator)
      in if \<not> is_within (clone_path cfg) target then Inl (sink_not_found (''locator escapes clone root: '' @ locator))
         else if map_of f target = None then Inl (sink_not_found (''no snapshot at '' @ locator))
         else Inr target)"

definition git_get :: "'g git_cmd \<Rightarrow> git_sink_cfg \<Rightarrow> string \<Rightarrow> 'g git_world \<Rightarrow> (error + string) \<times> 'g git_world" where
  "git_get git cfg locator w =
     attempt (ensure_ready git cfg w) (\<lambda>_ w1.
       (let w2 = pull git cfg w1 in
        (case git_resolve cfg locator (gw_files w2) of
           Inl x \<Rightarrow> (Inl x, w2) | Inr p \<Rightarrow> (Inr (the (map_of (gw_files w2) p)), w2))))"

definition git_list_snapshots ::
  "'g git_cmd \<Rightarrow> codec \<Rightarrow> git_sink_cfg \<Rightarrow> time \<Rightarrow> string option \<Rightarrow> string option \<Rightarrow> 'g git_world \<Rightarrow>
     (error + snapshot_entry list) \<times> 'g git_world" where
  "git_list_snapshots git c cfg now app_slug tenant_slug w =
     attempt (ensure_ready git cfg w) (\<lambda>_ w1.
       (let w2 = pull git cfg w1; root = clone_path cfg; f = gw_files w2;
            sidecars = filter (\<lambda>(p, _). is_within root p \<and> length root < length p \<and> ends_with meta_suffix (last p) \<and>
              ''.git'' \<notin> set p) f
        in (case collect_snapshots (snapshot_of c now root app_slug tenant_slug f) sidecars of
              Inl x \<Rightarrow> (Inl x, w2) | Inr out \<Rightarrow> (Inr (sort_desc sn_created_at out), w2))))"

definition git_delete :: "'g git_cmd \<Rightarrow> git_sink_cfg \<Rightarrow> string \<Rightarrow> 'g git_world \<Rightarrow> (error + unit) \<times> 'g git_world" where
  "git_delete git cfg locator w =
     attempt (ensure_ready git cfg w) (\<lambda>_ w1.
       (let w2 = pull git cfg w1; f = gw_files w2 in
        (case git_resolve cfg locator f of
           Inl x \<Rightarrow> (Inl x, w2)
         | Inr p \<Rightarrow>
             (let rel = (\<lambda>q. join_with ''/'' (drop (length (clone_path cfg)) q));
                  sidecar = sidecar_of p;
                  paths = rel p # (if map_of f sidecar \<noteq> None \<or> is_dir sidecar f then [rel sidecar] else [])
              in attempt (run_git git cfg (''rm'' # paths) w2) (\<lambda>_ w3.
                 attempt (run_git git cfg [''status'', ''--porcelain''] w3) (\<lambda>status w4.
                   if py_strip status = [] then (Inr (), w4)
                   else attempt (run_git git cfg [''commit'', ''-m'', ''backup: remove '' @ rel p, ''--author'', author cfg] w4)
                     (\<lambda>_ w5. (Inr (), try_push git cfg w5))))))))"

definition git_verify :: "'g git_cmd \<Rightarrow> creds \<Rightarrow> git_sink_cfg \<Rightarrow> string \<Rightarrow> string \<Rightarrow> 'g git_world \<Rightarrow> (error + bool) \<times> 'g git_world" where
  "git_verify git cr cfg locator expected w =
     attempt (git_get git cfg locator w) (\<lambda>data w'. (Inr (cr_sha256_hex cr data = expected), w'))"

subsection \<open>Local commits do not depend on the remote\<close>

definition git_leaves :: "'g git_cmd \<Rightarrow> git_sink_cfg \<Rightarrow> path \<Rightarrow> bool" where
  \<comment> \<open>None of the commands of a put or a get changes this committed file of the working tree.\<close>
  "git_leaves git cfg p \<longleftrightarrow>
     (\<forall>cmd args r. cmd \<in> {''add'', ''status'', ''commit'', ''push'', ''pull''} \<longrightarrow>
        map_of (fst (snd (git ([''-C'', abs_str (clone_path cfg)] @ cmd # args) r))) p = map_of (fst r) p)"

definition git_commits :: "'g git_cmd \<Rightarrow> git_sink_cfg \<Rightarrow> bool" where
  \<comment> \<open>The commands that need no remote succeed.\<close>
  "git_commits git cfg \<longleftrightarrow>
     (\<forall>cmd args r. cmd \<in> {''add'', ''status'', ''commit''} \<longrightarrow>
        isl (fst (git ([''-C'', abs_str (clone_path cfg)] @ cmd # args) r)) = False)"

lemma run_git_leaves:
  assumes "git_leaves git cfg p" and "cmd \<in> {''add'', ''status'', ''commit'', ''push'', ''pull''}"
    and "run_git git cfg (cmd # args) w = (x, w')"
  shows "map_of (gw_files w') p = map_of (gw_files w) p \<and> gw_ready w' = gw_ready w"
proof -
  obtain y r where g: "git ([''-C'', abs_str (clone_path cfg)] @ cmd # args) (gw_repo w) = (y, r)" by (metis surj_pair)
  have "map_of (fst (snd (git ([''-C'', abs_str (clone_path cfg)] @ cmd # args) (gw_repo w)))) p = map_of (fst (gw_repo w)) p"
    using assms(1,2) unfolding git_leaves_def by blast
  with g have "map_of (fst r) p = map_of (fst (gw_repo w)) p" by simp
  with assms(3) g show ?thesis by (cases y) (auto simp: run_git_def gw_files_def)
qed

lemma run_git_commits:
  assumes "git_commits git cfg" and "cmd \<in> {''add'', ''status'', ''commit''}"
  obtains out w' where "run_git git cfg (cmd # args) w = (Inr out, w')"
proof -
  obtain y r where g: "git ([''-C'', abs_str (clone_path cfg)] @ cmd # args) (gw_repo w) = (y, r)" by (metis surj_pair)
  have "isl (fst (git ([''-C'', abs_str (clone_path cfg)] @ cmd # args) (gw_repo w))) = False"
    using assms unfolding git_commits_def by blast
  with g obtain out where "y = Inr out" by (cases y) auto
  with g show ?thesis by (intro that [of out "w\<lparr>gw_repo := r\<rparr>"]) (simp add: run_git_def)
qed

lemma try_push_leaves:
  assumes "git_leaves git cfg p"
  shows "map_of (gw_files (try_push git cfg w)) p = map_of (gw_files w) p \<and> gw_ready (try_push git cfg w) = gw_ready w"
proof -
  obtain x1 w1 where p1: "run_git git cfg [''push'', ''origin'', gs_branch cfg] w = (x1, w1)" by fastforce
  obtain x2 w2 where p2: "run_git git cfg [''pull'', ''--rebase'', ''origin'', gs_branch cfg] w1 = (x2, w2)" by fastforce
  obtain x3 w3 where p3: "run_git git cfg [''push'', ''origin'', gs_branch cfg] w2 = (x3, w3)" by fastforce
  note l = run_git_leaves [OF assms _ p1] run_git_leaves [OF assms _ p2] run_git_leaves [OF assms _ p3]
  show ?thesis
    using l by (cases x1; cases x2) (auto simp: try_push_def Let_def p1 p2 p3)
qed

lemma pull_leaves:
  assumes "git_leaves git cfg p"
  shows "map_of (gw_files (pull git cfg w)) p = map_of (gw_files w) p"
proof -
  obtain x w' where r: "run_git git cfg [''pull'', ''--ff-only'', ''origin'', gs_branch cfg] w = (x, w')" by fastforce
  from run_git_leaves [OF assms _ r] show ?thesis by (simp add: pull_def r)
qed

lemma commit_and_push_local:
  assumes "git_leaves git cfg p" and "git_commits git cfg"
  obtains w' where "commit_and_push git cfg paths msg w = (Inr (), w')"
    "map_of (gw_files w') p = map_of (gw_files w) p" "gw_ready w' = gw_ready w"
proof -
  obtain o1 w1 where a: "run_git git cfg (''add'' # paths) w = (Inr o1, w1)"
    by (rule run_git_commits [OF assms(2), where cmd = "''add''"]) simp
  obtain o2 w2 where s: "run_git git cfg [''status'', ''--porcelain''] w1 = (Inr o2, w2)"
    by (rule run_git_commits [OF assms(2), where cmd = "''status''"]) simp
  obtain o3 w3 where c: "run_git git cfg [''commit'', ''-m'', msg, ''--author'', author cfg] w2 = (Inr o3, w3)"
    by (rule run_git_commits [OF assms(2), where cmd = "''commit''"]) simp
  note l = run_git_leaves [OF assms(1) _ a] run_git_leaves [OF assms(1) _ s] run_git_leaves [OF assms(1) _ c]
    try_push_leaves [OF assms(1), of w3]
  show ?thesis
  proof (cases "py_strip o2 = []")
    case True
    then show ?thesis using l by (intro that [of w2]) (simp_all add: commit_and_push_def attempt_def a s)
  next
    case False
    then show ?thesis using l by (intro that [of "try_push git cfg w3"]) (simp_all add: commit_and_push_def attempt_def a s c)
  qed
qed

lemma write_bundle_ok:
  assumes "write_bundle c b target w = (Inr (), w')" and "target \<noteq> sidecar_of target"
    and "target \<noteq> sibling (\<lambda>n. with_suffix n (py_suffix n @ ''.part'')) target"
  shows "map_of (gw_files w') target = Some (bb_data b) \<and> gw_ready w' = gw_ready w"
proof -
  let ?tmp = "sibling (\<lambda>n. with_suffix n (py_suffix n @ ''.part'')) target"
  from assms(1) obtain f1 f2 f3 where f1: "write_file ?tmp (bb_data b) (gw_files w) = Inr f1"
    and f2: "replace_file ?tmp target f1 = Inr f2"
    and f3: "write_file (sidecar_of target) (cd_dumps c (sidecar_meta c b)) f2 = Inr f3"
    and w': "gw_files w' = f3" "gw_ready w' = gw_ready w"
    by (auto simp: write_bundle_def write_repo_def attempt_def Let_def gw_files_def split: sum.splits)
  have "map_of f1 ?tmp = Some (bb_data b)"
    using f1 by (auto simp: write_file_def map_of_dict_set split: if_splits)
  with f2 have "map_of f2 target = Some (bb_data b)"
    by (auto simp: replace_file_def map_of_dict_set split: if_splits)
  with f3 assms(2) have "map_of f3 target = Some (bb_data b)"
    by (auto simp: write_file_def map_of_dict_set split: if_splits)
  with w' show ?thesis by simp
qed

lemma sibling_neq: "f (last p) \<noteq> last p \<Longrightarrow> p \<noteq> sibling f p"
  by (metis last_snoc sibling_def)

definition rel_ok :: "string \<Rightarrow> bool" where
  \<comment> \<open>A relative path of plain names.\<close>
  "rel_ok rel \<longleftrightarrow> \<not> starts_with ''/'' rel \<and> path_parts rel \<noteq> [] \<and> list_all clean (path_parts rel)"

lemma rel_ok_path:
  assumes "rel_ok rel"
  shows "join_path (clone_path cfg) rel = clone_path cfg @ path_parts rel"
    "norm_path (join_path (clone_path cfg) rel) = clone_path cfg @ path_parts rel"
proof -
  show j: "join_path (clone_path cfg) rel = clone_path cfg @ path_parts rel"
    using assms by (simp add: rel_ok_def join_path_def)
  show "norm_path (join_path (clone_path cfg) rel) = clone_path cfg @ path_parts rel"
    using assms local_root_clean [of "gs_clone_dir cfg"] unfolding j
    by (intro norm_path_clean) (simp add: rel_ok_def clone_path_def)
qed


definition demo_git :: "nat git_cmd" where
  \<comment> \<open>Commits are counted, pushes and pulls are refused.\<close>
  "demo_git args r =
     (let cmd = args ! 2 in
      if cmd = ''status'' then (Inr '' M x'', r) else if cmd = ''add'' then (Inr [], r)
      else if cmd = ''commit'' then (Inr [], (fst r, Suc (snd r))) else (Inl ''rejected: offline'', r))"

definition demo_git_cfg :: "string \<Rightarrow> git_sink_cfg" where
  "demo_git_cfg templ = \<lparr>gs_repo_url = ''ssh://h/r'', gs_clone_dir = ''/data/clone'', gs_branch = ''backups'', gs_path_template = templ,
     gs_lfs_enabled = False, gs_author_name = ''bot'', gs_author_email = ''b@h''\<rparr>"

definition demo_git_blob :: backup_blob where
  "demo_git_blob = \<lparr>bb_data = ''bytes'', bb_sha256 = ''s'', bb_size = 5, bb_app_slug = ''app'', bb_scope = ''platform'', bb_kind = ''full'',
     bb_created_at = 7, bb_encrypted = False, bb_key_fingerprint = None, bb_tenant_slug = None, bb_metadata = []\<rparr>"

definition demo_git_world :: "nat git_world" where
  "demo_git_world = \<lparr>gw_repo = ([], 0), gw_ready = True\<rparr>"

definition default_template :: string where
  "default_template = ''snapshots/{app_slug}/{scope}/{tenant_slug}''"

lemma demo_git_facts:
  "render_path (\<lambda>f. Inr f) (\<lambda>t. ''T'') (demo_git_cfg default_template) demo_git_blob = Inr ''snapshots/app/platform/T-full.tar.gz''"
  "rel_ok ''snapshots/app/platform/T-full.tar.gz''"
  by code_simp+

lemma demo_git_ok: "git_leaves demo_git cfg p" "git_commits demo_git cfg"
  by (auto simp: git_leaves_def git_commits_def demo_git_def)


subsection \<open>A template that renders to nothing\<close>

text \<open>When every field of the template is empty the path becomes absolute: the bundle is written to the root of the
  file system, outside the clone, and the put then fails.\<close>

lemma empty_template_escapes:
  "render_path (\<lambda>f. Inr f) (\<lambda>t. ''T'') (demo_git_cfg ''{tenant_slug}'') demo_git_blob = Inr ''/T-full.tar.gz''"
  "fst (git_put demo_git (\<lambda>f. Inr f) (\<lambda>t. ''T'') demo_codec (demo_git_cfg ''{tenant_slug}'') demo_git_blob demo_git_world) =
     Inl (ValueError ''is not in the subpath'')"
  "map_of (gw_files (snd (git_put demo_git (\<lambda>f. Inr f) (\<lambda>t. ''T'') demo_codec (demo_git_cfg ''{tenant_slug}'') demo_git_blob demo_git_world)))
     [''T-full.tar.gz''] = Some ''bytes''"
  by code_simp+

text \<open>A slug of two dots takes the bundle above the clone directory.\<close>

lemma dotted_slug_escapes:
  "norm_path (join_path (clone_path (demo_git_cfg default_template)) ''snapshots/../../../T-full.tar.gz'') = [''T-full.tar.gz'']"
  by code_simp

end
