(* ===== verification/RemoteSinks.thy ===== *)
theory RemoteSinks
  imports BackupApi
begin

section \<open>The sinks of the orchestrator and of a remote node\<close>

text \<open>
  \<open>services/backup/sinks/scottydev.py\<close> over an HTTP client and \<open>remote_node.py\<close> over \<open>ssh\<close> and \<open>scp\<close>; the client
  and the commands are parameters that act on a world \<open>'w\<close>.  Pointed at the store endpoints of \<open>BackupApi\<close>, the
  first is again a storage sink: the interface of the scheduler holds of client and server together.
\<close>

definition meta_snapshot :: "codec \<Rightarrow> time \<Rightarrow> string \<Rightarrow> row_dict \<Rightarrow> error + snapshot_entry" where
  \<comment> \<open>The entry for a row or sidecar; a missing size is 0.\<close>
  "meta_snapshot c now l meta =
     (case (case map_of meta ''size'' of None \<Rightarrow> Inr 0 | Some j \<Rightarrow> py_int j) of
        Inl x \<Rightarrow> Inl x
      | Inr n \<Rightarrow> Inr
          \<lparr>sn_locator = l,
           sn_app_slug = (case map_of meta ''app_slug'' of None \<Rightarrow> JStr '''' | Some j \<Rightarrow> j),
           sn_scope = (case map_of meta ''scope'' of None \<Rightarrow> JStr '''' | Some j \<Rightarrow> j),
           sn_kind = (case map_of meta ''kind'' of None \<Rightarrow> JStr ''full'' | Some j \<Rightarrow> j),
           sn_size = n, sn_created_at = sink_parse_ts c now (map_of meta ''created_at''),
           sn_encrypted = truthy_json (map_of meta ''encrypted''),
           sn_sha256 = map_of meta ''sha256'', sn_key_fingerprint = map_of meta ''key_fingerprint'',
           sn_tenant_slug = map_of meta ''tenant_slug''\<rparr>)"

subsection \<open>The orchestrator's store\<close>

datatype http_verb = VPut | VGet | VDelete

record http_answer =
  ha_status :: int
  ha_text :: string
  ha_json :: "json option"

type_synonym 'w http_client =
  "http_verb \<Rightarrow> string \<Rightarrow> (string \<times> string) list \<Rightarrow> (string \<times> string) list \<Rightarrow> string \<Rightarrow> 'w \<Rightarrow> (error + http_answer) \<times> 'w"

definition session_headers :: "string option \<Rightarrow> (string \<times> string) list" where
  "session_headers token = (if truthy_str token then [(''authorization'', ''Bearer '' @ the token)] else [])"

definition answer_ok :: "string \<Rightarrow> http_answer \<Rightarrow> error + http_answer" where
  \<comment> \<open>\<open>_raise_for_status\<close>\<close>
  "answer_ok what r =
     (if 400 \<le> ha_status r
      then Inl (sink_error (''orchestrator sink '' @ what @ '' failed: HTTP '' @ int_str (ha_status r) @ '' '' @ take 400 (ha_text r)))
      else Inr r)"

definition store_url :: "string \<Rightarrow> string \<Rightarrow> string" where
  "store_url base l = base @ ''/api/v1/backups/store/'' @ l"

definition dev_locator :: "codec \<Rightarrow> backup_blob \<Rightarrow> string" where
  "dev_locator c b = bb_app_slug b @ ''/'' @ default_filename c b"

definition scottydev_put ::
  "'w http_client \<Rightarrow> codec \<Rightarrow> string \<Rightarrow> string option \<Rightarrow> backup_blob \<Rightarrow> 'w \<Rightarrow> (error + sink_write_result) \<times> 'w" where
  "scottydev_put client c base token b w =
     (let l = dev_locator c b; h = session_headers token in
      attempt (client VPut (store_url base l) (h @ [(''content-type'', ''application/gzip'')]) [] (bb_data b) w) (\<lambda>r1 w1.
        (case answer_ok ''bundle upload'' r1 of
           Inl x \<Rightarrow> (Inl x, w1)
         | Inr _ \<Rightarrow>
             attempt (client VPut (store_url base l @ ''.meta.json'') (h @ [(''content-type'', ''application/json'')]) []
               (cd_dumps c (sidecar_meta c b)) w1) (\<lambda>r2 w2.
               (case answer_ok ''sidecar upload'' r2 of
                  Inl x \<Rightarrow> (Inl x, w2)
                | Inr _ \<Rightarrow> (Inr \<lparr>sw_locator = l, sw_sink_type = ''scottydev'', sw_bytes_written = bb_size b,
                    sw_created_at = bb_created_at b\<rparr>, w2))))))"

definition scottydev_get ::
  "'w http_client \<Rightarrow> string \<Rightarrow> string option \<Rightarrow> string \<Rightarrow> 'w \<Rightarrow> (error + string) \<times> 'w" where
  "scottydev_get client base token l w =
     attempt (client VGet (store_url base l) (session_headers token) [] [] w) (\<lambda>r w1.
       if ha_status r = 404 then (Inl (sink_not_found (''no snapshot at '' @ l)), w1)
       else (case answer_ok ''bundle download'' r of Inl x \<Rightarrow> (Inl x, w1) | Inr a \<Rightarrow> (Inr (ha_text a), w1)))"

definition scottydev_delete ::
  "'w http_client \<Rightarrow> string \<Rightarrow> string option \<Rightarrow> string \<Rightarrow> 'w \<Rightarrow> (error + unit) \<times> 'w" where
  "scottydev_delete client base token l w =
     attempt (client VDelete (store_url base l) (session_headers token) [] [] w) (\<lambda>r w1.
       if ha_status r = 404 then (Inl (sink_not_found (''no snapshot at '' @ l)), w1)
       else (case answer_ok ''delete'' r of Inl x \<Rightarrow> (Inl x, w1) | Inr _ \<Rightarrow> (Inr (), w1)))"

fun index_entries :: "codec \<Rightarrow> time \<Rightarrow> json list \<Rightarrow> error + snapshot_entry list" where
  \<comment> \<open>A locator is a text.\<close>
  "index_entries c now [] = Inr []"
| "index_entries c now (JObj row # rows) =
     (case map_of row ''locator'' of
        None \<Rightarrow> Inl (KeyError ''locator'')
      | Some (JStr l) \<Rightarrow>
          (case meta_snapshot c now l row of
             Inl x \<Rightarrow> Inl x
           | Inr s \<Rightarrow> (case index_entries c now rows of Inl x \<Rightarrow> Inl x | Inr ss \<Rightarrow> Inr (s # ss)))
      | Some _ \<Rightarrow> Inl (TypeError ''locator''))"
| "index_entries c now (_ # rows) = Inl (TypeError ''indices must be integers'')"

definition scottydev_list ::
  "'w http_client \<Rightarrow> codec \<Rightarrow> time \<Rightarrow> string \<Rightarrow> string option \<Rightarrow> string option \<Rightarrow> string option \<Rightarrow> 'w \<Rightarrow>
     (error + snapshot_entry list) \<times> 'w" where
  "scottydev_list client c now base token app_slug tenant_slug w =
     (let params = (if truthy_str app_slug then [(''app_slug'', the app_slug)] else []) @
            (if truthy_str tenant_slug then [(''tenant_slug'', the tenant_slug)] else []) in
      attempt (client VGet (base @ ''/api/v1/backups/index'') (session_headers token) params [] w) (\<lambda>r w1.
        (case answer_ok ''index'' r of
           Inl x \<Rightarrow> (Inl x, w1)
         | Inr a \<Rightarrow>
             ((case ha_json a of
                 None \<Rightarrow> Inl (ValueError ''JSONDecodeError'')
               | Some (JList rows) \<Rightarrow> index_entries c now rows
               | Some (JObj m) \<Rightarrow> index_entries c now (map (\<lambda>(k, v). JStr k) m)
               | Some (JStr s) \<Rightarrow> index_entries c now (map (\<lambda>ch. JStr [ch]) s)
               | Some _ \<Rightarrow> Inl (TypeError ''object is not iterable'')), w1))))"

subsection \<open>Client and server together\<close>

definition answer_of :: "(error + 'a) \<Rightarrow> ('a \<Rightarrow> string) \<Rightarrow> http_answer" where
  \<comment> \<open>What the application answers when an endpoint returns or raises.\<close>
  "answer_of r text =
     (case r of
        Inr a \<Rightarrow> \<lparr>ha_status = 200, ha_text = text a, ha_json = None\<rparr>
      | Inl x \<Rightarrow> \<lparr>ha_status = (case status_code x of None \<Rightarrow> 500 | Some n \<Rightarrow> n), ha_text = err_message x, ha_json = None\<rparr>)"

definition store_server :: "string \<Rightarrow> string \<Rightarrow> user_context \<Rightarrow> fs http_client" where
  \<comment> \<open>The store endpoints under \<open>base\<close>, called as \<open>user\<close>.\<close>
  "store_server root base user verb url headers params body f =
     (let rest = drop (length (store_url base [])) url in
      if \<not> starts_with (store_url base []) url then (Inr \<lparr>ha_status = 404, ha_text = ''Not Found'', ha_json = None\<rparr>, f)
      else (case verb of
              VPut \<Rightarrow> let r = sink_store_put root rest body user f
                      in (Inr (answer_of r (\<lambda>_. [])), case r of Inl x \<Rightarrow> f | Inr f' \<Rightarrow> f')
            | VGet \<Rightarrow> (Inr (answer_of (sink_store_get root rest user f) id), f)
            | VDelete \<Rightarrow> let r = sink_store_delete root rest user f
                         in (Inr (answer_of r (\<lambda>_. [])), case r of Inl x \<Rightarrow> f | Inr f' \<Rightarrow> f')))"

definition store_user :: "string \<Rightarrow> user_context" where
  "store_user i = \<lparr>uctx_user_id = i, uctx_email = i, uctx_display_name = i, uctx_is_superadmin = True,
     uctx_totp_enabled = False, uctx_tenant_roles = []\<rparr>"

definition dev_put ::
  "codec \<Rightarrow> string \<Rightarrow> string \<Rightarrow> string \<Rightarrow> string option \<Rightarrow> backup_blob \<Rightarrow> fs \<Rightarrow> error + (sink_write_result \<times> fs)" where
  "dev_put c root i base token b f =
     (case scottydev_put (store_server root base (store_user i)) c base token b f of
        (Inl x, _) \<Rightarrow> Inl x | (Inr r, f') \<Rightarrow> Inr (r, f'))"

definition dev_get :: "string \<Rightarrow> string \<Rightarrow> string \<Rightarrow> string option \<Rightarrow> string \<Rightarrow> fs \<Rightarrow> error + string" where
  "dev_get root i base token l f = fst (scottydev_get (store_server root base (store_user i)) base token l f)"

definition dev_delete :: "string \<Rightarrow> string \<Rightarrow> string \<Rightarrow> string option \<Rightarrow> string \<Rightarrow> fs \<Rightarrow> error + fs" where
  "dev_delete root i base token l f =
     (case scottydev_delete (store_server root base (store_user i)) base token l f of
        (Inl x, _) \<Rightarrow> Inl x | (Inr _, f') \<Rightarrow> Inr f')"

lemma store_url_starts [simp]: "starts_with (store_url base []) (store_url base l)"
  by (simp add: store_url_def starts_with_def)

lemma store_url_rest [simp]: "drop (length (store_url base [])) (store_url base l) = l"
  by (simp add: store_url_def)

lemma store_url_append: "store_url base l @ s = store_url base (l @ s)"
  by (simp add: store_url_def)

lemma store_user_super [simp]: "require_superadmin (store_user i) = Inr (store_user i)"
  by (simp add: require_superadmin_def store_user_def)

lemma join_with_append:
  "ps \<noteq> [] \<Longrightarrow> qs \<noteq> [] \<Longrightarrow> join_with s (ps @ qs) = join_with s ps @ s @ join_with s qs"
proof (induction ps rule: induct_list012)
  case (2 p)
  then show ?case by (cases qs) auto
qed auto

lemma store_target_clean:
  assumes "ps \<noteq> []" and "list_all clean ps"
  shows "store_target root (join_with ''/'' ps) = Inr (local_root root @ ps)"
proof -
  have "starts_with (path_text (local_root root)) (path_text (local_root root @ ps))"
    using assms(1) by (cases "local_root root = []") (auto simp: path_text_def join_with_append starts_with_def)
  then show ?thesis using resolve_join [OF assms] by (simp add: store_target_def Let_def)
qed

lemma clean_meta: "clean p \<Longrightarrow> clean (p @ ''.meta.json'')"
  by (auto simp: clean_def)

lemma join_last:
  "ps \<noteq> [] \<Longrightarrow> join_with ''/'' ps @ s = join_with ''/'' (butlast ps @ [last ps @ s])"
  by (induction ps rule: induct_list012) auto

lemma store_target_meta:
  assumes "ps \<noteq> []" and "list_all clean ps"
  shows "store_target root (join_with ''/'' ps @ ''.meta.json'') = Inr (sidecar_of (local_root root @ ps))"
proof -
  have "list_all clean (butlast ps @ [last ps @ ''.meta.json''])"
    using assms clean_meta by (auto simp: list_all_iff dest: in_set_butlastD)
  from store_target_clean [OF _ this, of root] assms(1) show ?thesis
    by (simp add: join_last sidecar_of_def sibling_def with_suffix_append butlast_append)
qed

lemma dev_get_snap:
  assumes "ps \<noteq> []" and "list_all clean ps"
  shows "dev_get root i base token (join_with ''/'' ps) f =
    (case map_of f (local_root root @ ps) of
       None \<Rightarrow> Inl (sink_not_found (''no snapshot at '' @ join_with ''/'' ps)) | Some x \<Rightarrow> Inr x)"
  by (auto simp: dev_get_def scottydev_get_def store_server_def sink_store_get_def store_target_clean [OF assms] answer_of_def
      attempt_def answer_ok_def http_exception_def Let_def split: option.splits)

lemma dev_put_effect:
  assumes "ps \<noteq> []" and "list_all clean ps" and "dev_locator c b = join_with ''/'' ps"
    and "dev_put c root i base token b f = Inr (r, f')"
  shows "sw_locator r = join_with ''/'' ps \<and>
    map_of f' q = (if q = sidecar_of (local_root root @ ps) then Some (cd_dumps c (sidecar_meta c b))
      else if q = local_root root @ ps then Some (bb_data b) else map_of f q)"
proof -
  let ?p = "local_root root @ ps"
  from assms(4) obtain f1 where
    f1: "write_file ?p (bb_data b) f = Inr f1"
    and f2: "write_file (sidecar_of ?p) (cd_dumps c (sidecar_meta c b)) f1 = Inr f'"
    and r: "sw_locator r = join_with ''/'' ps"
    by (auto simp: dev_put_def scottydev_put_def store_server_def sink_store_put_def store_url_append assms(3) Let_def
        store_target_clean [OF assms(1,2)] store_target_meta [OF assms(1,2)] attempt_def answer_ok_def answer_of_def
        write_file_def os_error_def split: if_splits sum.splits)
  from f1 f2 r show ?thesis by (auto simp: write_file_def map_of_dict_set split: if_splits)
qed

lemma dev_delete_effect:
  assumes "ps \<noteq> []" and "list_all clean ps" and "dev_delete root i base token (join_with ''/'' ps) f = Inr f'"
  shows "map_of f' (local_root root @ ps) = None \<and>
    (q \<noteq> local_root root @ ps \<longrightarrow> q \<noteq> sidecar_of (local_root root @ ps) \<longrightarrow> map_of f' q = map_of f q)"
  using assms(3)
  by (auto simp: dev_delete_def scottydev_delete_def store_server_def sink_store_delete_def store_target_clean [OF assms(1,2)]
      answer_of_def attempt_def answer_ok_def http_exception_def Let_def unlink_file_def map_of_dict_pop
      split: if_splits sum.splits)

lemma snap_not_sidecar:
  assumes "ps \<noteq> []" and "ms \<noteq> []" and "\<not> ends_with ''.meta.json'' (last ms)"
  shows "r @ ms \<noteq> sidecar_of (r @ ps)"
proof
  assume "r @ ms = sidecar_of (r @ ps)"
  then have "last (r @ ms) = last (sidecar_of (r @ ps))" by simp
  then have "last ms = last ps @ ''.meta.json''"
    using assms(1,2) by (simp add: sidecar_of_def sibling_def with_suffix_append)
  with assms(3) show False by simp
qed

interpretation orchestrator: storage_sink "dev_put c root i base token" "dev_get root i base token"
    "dev_delete root i base token" snap_locator
  for c root i base token
proof
  fix b w r w'
  assume put: "dev_put c root i base token b w = Inr (r, w')" and s: "snap_locator (sw_locator r)"
  from put have loc: "sw_locator r = dev_locator c b"
    by (auto simp: dev_put_def scottydev_put_def attempt_def Let_def split: prod.splits sum.splits)
  obtain ps where ps: "ps \<noteq> []" "list_all clean ps" "dev_locator c b = join_with ''/'' ps"
    "\<not> ends_with ''.meta.json'' (last ps)"
    using s loc snap_locatorE by metis
  note eff = dev_put_effect [OF ps(1-3) put]
  have "map_of w' (local_root root @ ps) = Some (bb_data b)"
    using eff [of "local_root root @ ps"] snap_not_sidecar [OF ps(1,1,4)] by simp
  then show "dev_get root i base token (sw_locator r) w' = Inr (bb_data b)"
    using loc ps(3) dev_get_snap [OF ps(1,2)] by simp
  fix m
  assume "snap_locator m" and ne: "m \<noteq> sw_locator r"
  then obtain ms where ms: "ms \<noteq> []" "list_all clean ms" "m = join_with ''/'' ms"
    "\<not> ends_with ''.meta.json'' (last ms)" by (blast elim: snap_locatorE)
  have "ms \<noteq> ps" using ne loc ms(3) ps(3) by auto
  then have "map_of w' (local_root root @ ms) = map_of w (local_root root @ ms)"
    using eff [of "local_root root @ ms"] snap_not_sidecar [OF ps(1) ms(1,4)] by simp
  then show "dev_get root i base token m w' = dev_get root i base token m w"
    using ms(3) dev_get_snap [OF ms(1,2)] by simp
next
  fix l w w'
  assume l: "snap_locator l" and del: "dev_delete root i base token l w = Inr w'"
  then obtain ps where ps: "ps \<noteq> []" "list_all clean ps" "l = join_with ''/'' ps" by (blast elim: snap_locatorE)
  note eff = dev_delete_effect [OF ps(1,2) del [unfolded ps(3)]]
  show "\<exists>x. dev_get root i base token l w' = Inl x"
    using eff ps(3) dev_get_snap [OF ps(1,2)] by simp
  fix m
  assume "snap_locator m" and ne: "m \<noteq> l"
  then obtain ms where ms: "ms \<noteq> []" "list_all clean ms" "m = join_with ''/'' ms"
    "\<not> ends_with ''.meta.json'' (last ms)" by (blast elim: snap_locatorE)
  have "ms \<noteq> ps" using ne ms(3) ps(3) by auto
  then have "map_of w' (local_root root @ ms) = map_of w (local_root root @ ms)"
    using eff snap_not_sidecar [OF ps(1) ms(1,4)] by simp
  then show "dev_get root i base token m w' = dev_get root i base token m w"
    using ms(3) dev_get_snap [OF ms(1,2)] by simp
qed


definition demo_dev_blob :: backup_blob where
  "demo_dev_blob = \<lparr>bb_data = ''bytes'', bb_sha256 = ''s'', bb_size = 5, bb_app_slug = ''app'', bb_scope = ''platform'', bb_kind = ''full'',
     bb_created_at = 7, bb_encrypted = False, bb_key_fingerprint = None, bb_tenant_slug = None, bb_metadata = []\<rparr>"


subsection \<open>A remote node\<close>

record 'w node_transport =
  nt_ssh :: "string list \<Rightarrow> 'w \<Rightarrow> (int \<times> string \<times> string) \<times> 'w"
  nt_scp_put :: "string list \<Rightarrow> string \<Rightarrow> string \<Rightarrow> 'w \<Rightarrow> (int \<times> string) \<times> 'w"
  nt_scp_get :: "string list \<Rightarrow> string \<Rightarrow> 'w \<Rightarrow> (int \<times> string \<times> string) \<times> 'w"

text \<open>\<open>ssh\<close>: exit status, output, error output.  \<open>scp\<close> from a local file: its content and the destination.
  \<open>scp\<close> to a local file: the source, and the content it leaves there.\<close>

record node_cfg =
  nc_host :: string
  nc_remote_dir :: string
  nc_user :: "string option"
  nc_port :: int
  nc_ssh_key :: "string option"
  nc_ssh_options :: "string list"

definition node_dir :: "node_cfg \<Rightarrow> string" where
  "node_dir n = rstrip_where (\<lambda>ch. ch = CHR ''/'') (nc_remote_dir n)"

definition node_target :: "node_cfg \<Rightarrow> string" where
  "node_target n = (if truthy_str (nc_user n) then the (nc_user n) @ ''@'' @ nc_host n else nc_host n)"

definition key_args :: "node_cfg \<Rightarrow> string list" where
  "key_args n = (if truthy_str (nc_ssh_key n) then [''-i'', the (nc_ssh_key n)] else []) @
     concat (map (\<lambda>opt. [''-o'', opt]) (nc_ssh_options n))"

definition ssh_base :: "node_cfg \<Rightarrow> string list" where
  "ssh_base n = [''ssh'', ''-p'', int_str (nc_port n)] @ key_args n @ [node_target n]"

definition scp_base :: "node_cfg \<Rightarrow> string list" where
  "scp_base n = [''scp'', ''-P'', int_str (nc_port n)] @ key_args n"

definition shell_safe :: "char \<Rightarrow> bool" where
  "shell_safe ch \<longleftrightarrow> is_word ch \<or> ch \<in> set ''@%+=:,./-''"

definition shlex_quote :: "string \<Rightarrow> string" where
  "shlex_quote s =
     (if s = [] then [CHR 0x27, CHR 0x27]
      else if list_all shell_safe s then s
      else CHR 0x27 # concat (map (\<lambda>ch. if ch = CHR 0x27 then [CHR 0x27, CHR 0x22, CHR 0x27, CHR 0x22, CHR 0x27] else [ch]) s) @ [CHR 0x27])"

definition run_ssh :: "'w node_transport \<Rightarrow> node_cfg \<Rightarrow> string list \<Rightarrow> 'w \<Rightarrow> (int \<times> string \<times> string) \<times> 'w" where
  "run_ssh t n argv w = nt_ssh t (ssh_base n @ [''--''] @ map shlex_quote argv) w"

definition ssh_checked :: "'w node_transport \<Rightarrow> node_cfg \<Rightarrow> string list \<Rightarrow> 'w \<Rightarrow> (error + unit) \<times> 'w" where
  "ssh_checked t n argv w =
     (case run_ssh t n argv w of
        ((rc, out, err), w') \<Rightarrow>
          (if rc \<noteq> 0 then Inl (sink_error (''ssh '' @ join_with '' '' argv @ '' failed ('' @ int_str rc @ ''): '' @ err)) else Inr (), w'))"

definition scp_put :: "'w node_transport \<Rightarrow> node_cfg \<Rightarrow> string \<Rightarrow> string \<Rightarrow> 'w \<Rightarrow> (error + unit) \<times> 'w" where
  "scp_put t n content remote w =
     (case nt_scp_put t (scp_base n) content (node_target n @ '':'' @ remote) w of
        ((rc, err), w') \<Rightarrow> (if rc \<noteq> 0 then Inl (sink_error (''scp put failed: '' @ err)) else Inr (), w'))"

definition scp_get :: "'w node_transport \<Rightarrow> node_cfg \<Rightarrow> string \<Rightarrow> 'w \<Rightarrow> (error + string) \<times> 'w" where
  "scp_get t n remote w =
     (case nt_scp_get t (scp_base n) (node_target n @ '':'' @ remote) w of
        ((rc, content, err), w') \<Rightarrow> (if rc \<noteq> 0 then Inl (sink_error (''scp get failed: '' @ err)) else Inr content, w'))"

definition up_to_slash :: "string \<Rightarrow> string" where
  \<comment> \<open>\<open>s.rsplit("/", 1)[0]\<close> of a text with a slash.\<close>
  "up_to_slash s = rev (tl (dropWhile (\<lambda>ch. ch \<noteq> CHR ''/'') (rev s)))"

definition remote_path :: "node_cfg \<Rightarrow> string \<Rightarrow> string" where
  "remote_path n l = node_dir n @ ''/'' @ l"

definition node_put :: "'w node_transport \<Rightarrow> codec \<Rightarrow> node_cfg \<Rightarrow> backup_blob \<Rightarrow> 'w \<Rightarrow> (error + sink_write_result) \<times> 'w" where
  "node_put t c n b w =
     (let rel = default_filename c b; p = remote_path n rel in
      attempt (ssh_checked t n [''mkdir'', ''-p'', up_to_slash p] w) (\<lambda>_ w1.
      attempt (scp_put t n (bb_data b) p w1) (\<lambda>_ w2.
      attempt (scp_put t n (cd_dumps c (sidecar_meta c b)) (p @ ''.meta.json'') w2) (\<lambda>_ w3.
        (Inr \<lparr>sw_locator = rel, sw_sink_type = ''remote_node'', sw_bytes_written = bb_size b, sw_created_at = bb_created_at b\<rparr>, w3)))))"

definition node_get :: "'w node_transport \<Rightarrow> node_cfg \<Rightarrow> string \<Rightarrow> 'w \<Rightarrow> (error + string) \<times> 'w" where
  "node_get t n l w =
     (case run_ssh t n [''test'', ''-f'', remote_path n l] w of
        ((rc, _, _), w1) \<Rightarrow>
          if rc \<noteq> 0 then (Inl (sink_not_found (''no snapshot at '' @ l)), w1) else scp_get t n (remote_path n l) w1)"

definition node_delete :: "'w node_transport \<Rightarrow> node_cfg \<Rightarrow> string \<Rightarrow> 'w \<Rightarrow> (error + unit) \<times> 'w" where
  "node_delete t n l w =
     (case run_ssh t n [''test'', ''-f'', remote_path n l] w of
        ((rc, _, _), w1) \<Rightarrow>
          if rc \<noteq> 0 then (Inl (sink_not_found (''no snapshot at '' @ l)), w1)
          else ssh_checked t n [''rm'', ''-f'', remote_path n l, remote_path n l @ ''.meta.json''] w1)"

definition output_lines :: "string \<Rightarrow> string list" where
  \<comment> \<open>\<open>splitlines\<close> without the blank lines.\<close>
  "output_lines out = filter (\<lambda>l. py_strip l \<noteq> [])
     (split_on (CHR 0x0A) (map (\<lambda>ch. if (10 \<le> code_of ch \<and> code_of ch \<le> 13) \<or> (28 \<le> code_of ch \<and> code_of ch \<le> 30) then CHR 0x0A else ch) out))"

fun read_sidecars ::
  "'w node_transport \<Rightarrow> codec \<Rightarrow> node_cfg \<Rightarrow> time \<Rightarrow> string option \<Rightarrow> string option \<Rightarrow> string list \<Rightarrow> 'w \<Rightarrow>
     (error + snapshot_entry list) \<times> 'w" where
  "read_sidecars t c n now app_slug tenant_slug [] w = (Inr [], w)"
| "read_sidecars t c n now app_slug tenant_slug (sc # rest) w =
     (case run_ssh t n [''cat'', sc] w of
        ((rc, content, _), w1) \<Rightarrow>
          let go = read_sidecars t c n now app_slug tenant_slug rest w1 in
          if rc \<noteq> 0 then go
          else (case cd_loads c content of
                  None \<Rightarrow> go
                | Some (JObj meta) \<Rightarrow>
                    if truthy_str app_slug \<and> map_of meta ''app_slug'' \<noteq> map_option JStr app_slug then go
                    else if truthy_str tenant_slug \<and> map_of meta ''tenant_slug'' \<noteq> map_option JStr tenant_slug then go
                    else (case meta_snapshot c now (drop (length (node_dir n) + 1) (take (length sc - length meta_suffix) sc)) meta of
                            Inl x \<Rightarrow> (Inl x, w1)
                          | Inr s \<Rightarrow> attempt go (\<lambda>ss w2. (Inr (s # ss), w2)))
                | Some _ \<Rightarrow> (Inl (OtherException ''AttributeError''), w1)))"

definition node_list ::
  "'w node_transport \<Rightarrow> codec \<Rightarrow> node_cfg \<Rightarrow> time \<Rightarrow> string option \<Rightarrow> string option \<Rightarrow> 'w \<Rightarrow>
     (error + snapshot_entry list) \<times> 'w" where
  "node_list t c n now app_slug tenant_slug w =
     (case run_ssh t n [''find'', node_dir n, ''-name'', ''*.meta.json'', ''-type'', ''f''] w of
        ((rc, out, _), w1) \<Rightarrow>
          if rc \<noteq> 0 then (Inr [], w1)
          else attempt (read_sidecars t c n now app_slug tenant_slug (output_lines out) w1)
            (\<lambda>ss w2. (Inr (sort_desc sn_created_at ss), w2)))"

subsection \<open>A remote node keeps what it is sent\<close>

definition host_ok :: "'w node_transport \<Rightarrow> node_cfg \<Rightarrow> ('w \<Rightarrow> string \<rightharpoonup> string) \<Rightarrow> bool" where
  \<comment> \<open>What the commands do to the files of the node, as their manuals say; any of them may fail.\<close>
  "host_ok t n files \<longleftrightarrow>
     (\<forall>d w x w'. ssh_checked t n [''mkdir'', ''-p'', d] w = (x, w') \<longrightarrow> files w' = files w) \<and>
     (\<forall>content p w w'. scp_put t n content p w = (Inr (), w') \<longrightarrow> files w' = (files w)(p \<mapsto> content)) \<and>
     (\<forall>p w rc out err w'. run_ssh t n [''test'', ''-f'', p] w = ((rc, out, err), w') \<longrightarrow>
        files w' = files w \<and> (rc = 0 \<longleftrightarrow> files w p \<noteq> None)) \<and>
     (\<forall>p w d w'. scp_get t n p w = (Inr d, w') \<longrightarrow> files w p = Some d) \<and>
     (\<forall>p q w w'. ssh_checked t n [''rm'', ''-f'', p, q] w = (Inr (), w') \<longrightarrow> files w' = (files w)(p := None, q := None))"

lemma host_okD:
  assumes "host_ok t n files"
  shows "ssh_checked t n [''mkdir'', ''-p'', d] w = (x, w') \<Longrightarrow> files w' = files w"
    "scp_put t n content p w = (Inr (), w') \<Longrightarrow> files w' = (files w)(p \<mapsto> content)"
    "run_ssh t n [''test'', ''-f'', p] w = ((rc, out, err), w') \<Longrightarrow> files w' = files w \<and> (rc = 0 \<longleftrightarrow> files w p \<noteq> None)"
    "scp_get t n p w = (Inr data, w') \<Longrightarrow> files w p = Some data"
    "ssh_checked t n [''rm'', ''-f'', p, q] w = (Inr (), w') \<Longrightarrow> files w' = (files w)(p := None, q := None)"
proof -
  note h = assms [unfolded host_ok_def]
  note h1 = h [THEN conjunct1] and h2 = h [THEN conjunct2, THEN conjunct1]
    and h3 = h [THEN conjunct2, THEN conjunct2, THEN conjunct1]
    and h4 = h [THEN conjunct2, THEN conjunct2, THEN conjunct2, THEN conjunct1]
    and h5 = h [THEN conjunct2, THEN conjunct2, THEN conjunct2, THEN conjunct2]
  show "ssh_checked t n [''mkdir'', ''-p'', d] w = (x, w') \<Longrightarrow> files w' = files w"
    by (rule h1 [rule_format])
  show "scp_put t n content p w = (Inr (), w') \<Longrightarrow> files w' = (files w)(p \<mapsto> content)"
    by (rule h2 [rule_format])
  show "run_ssh t n [''test'', ''-f'', p] w = ((rc, out, err), w') \<Longrightarrow> files w' = files w \<and> (rc = 0 \<longleftrightarrow> files w p \<noteq> None)"
    by (rule h3 [rule_format])
  show "scp_get t n p w = (Inr data, w') \<Longrightarrow> files w p = Some data"
    by (rule h4 [rule_format])
  show "ssh_checked t n [''rm'', ''-f'', p, q] w = (Inr (), w') \<Longrightarrow> files w' = (files w)(p := None, q := None)"
    by (rule h5 [rule_format])
qed

lemma node_put_files:
  assumes "host_ok t n files" and "node_put t c n b w = (Inr r, w')"
  shows "sw_locator r = default_filename c b \<and>
    files w' = (files w)(remote_path n (default_filename c b) \<mapsto> bb_data b,
      remote_path n (default_filename c b) @ ''.meta.json'' \<mapsto> cd_dumps c (sidecar_meta c b))"
proof -
  note h = host_okD [OF assms(1)]
  from assms(2) show ?thesis
    by (auto simp: node_put_def Let_def attempt_Inr dest!: h(1) h(2))
qed

lemma node_get_files:
  assumes "host_ok t n files" and "node_get t n l w = (x, w')"
  shows "(\<forall>d. x = Inr d \<longrightarrow> files w (remote_path n l) = Some d) \<and>
    (files w (remote_path n l) = None \<longrightarrow> x = Inl (sink_not_found (''no snapshot at '' @ l))) \<and>
    (x = Inl (sink_not_found (''no snapshot at '' @ l)) \<longrightarrow> files w (remote_path n l) = None)"
proof -
  obtain rc out err w1 where s: "run_ssh t n [''test'', ''-f'', remote_path n l] w = ((rc, out, err), w1)"
    by (metis surj_pair)
  note f = host_okD(3) [OF assms(1) s]
  show ?thesis
  proof (cases "rc = 0")
    case True
    with assms(2) s have g: "scp_get t n (remote_path n l) w1 = (x, w')" by (simp add: node_get_def)
    have "x \<noteq> Inl (sink_not_found (''no snapshot at '' @ l))"
      using g by (auto simp: scp_get_def sink_error_def sink_not_found_def split: prod.splits if_splits)
    moreover have "files w (remote_path n l) = Some d" if "x = Inr d" for d
      using host_okD(4) [OF assms(1), of "remote_path n l" w1 d w'] g f that by simp
    ultimately show ?thesis using f True by auto
  next
    case False
    with assms(2) s f show ?thesis by (auto simp: node_get_def)
  qed
qed

lemma ends_meta_neq: "\<not> ends_with ''.meta.json'' m \<Longrightarrow> remote_path n m \<noteq> remote_path n l @ ''.meta.json''"
  by (auto simp: remote_path_def)


definition demo_node :: node_cfg where
  "demo_node = \<lparr>nc_host = ''h'', nc_remote_dir = ''/d/'', nc_user = None, nc_port = 22, nc_ssh_key = None, nc_ssh_options = []\<rparr>"

text \<open>A shell undoes the quoting.\<close>

function unquote_body :: "string \<Rightarrow> string" where
  "unquote_body [] = []"
| "unquote_body (ch # s) = ch # unquote_body (if ch = CHR 0x27 then drop 4 s else s)"
  by pat_completeness auto

termination
  by (relation "measure length") auto

definition shell_unquote :: "string \<Rightarrow> string" where
  "shell_unquote s = (if s \<noteq> [] \<and> hd s = CHR 0x27 then unquote_body (butlast (tl s)) else s)"

lemma unquote_quote_body:
  "unquote_body (concat (map (\<lambda>ch. if ch = CHR 0x27 then [CHR 0x27, CHR 0x22, CHR 0x27, CHR 0x22, CHR 0x27] else [ch]) s)) = s"
  by (induction s) auto

lemma unquote_quote: "shell_unquote (shlex_quote s) = s"
proof (cases "s \<noteq> [] \<and> list_all shell_safe s")
  case True
  moreover have "\<not> shell_safe (CHR 0x27)" by code_simp
  ultimately show ?thesis by (cases s) (auto simp: shlex_quote_def shell_unquote_def)
next
  case False
  then show ?thesis
    by (auto simp: shlex_quote_def shell_unquote_def butlast_append unquote_quote_body)
qed

definition demo_transport :: "(string \<rightharpoonup> string) node_transport" where
  \<comment> \<open>A node whose files are the map; removals are refused.\<close>
  "demo_transport =
     \<lparr>nt_ssh = (\<lambda>argv w. if argv ! 5 = ''test'' then ((if w (shell_unquote (argv ! 7)) = None then 1 else 0, [], []), w)
          else if argv ! 5 = ''rm'' then ((1, [], ''denied''), w) else ((0, [], []), w)),
      nt_scp_put = (\<lambda>argv content dest w. ((0, []), w(drop 2 dest \<mapsto> content))),
      nt_scp_get = (\<lambda>argv src w. (case w (drop 2 src) of None \<Rightarrow> (1, [], []) | Some d \<Rightarrow> (0, d, []), w))\<rparr>"

lemma demo_host_ok: "host_ok demo_transport demo_node id"
proof -
  have q: "shlex_quote ''mkdir'' = ''mkdir''" "shlex_quote ''test'' = ''test''" "shlex_quote ''rm'' = ''rm''"
    by code_simp+
  have base: "ssh_base demo_node = [''ssh'', ''-p'', ''22'', ''h'']" "node_target demo_node = ''h''" by code_simp+
  show ?thesis
    unfolding host_ok_def
    by (auto simp: ssh_checked_def run_ssh_def scp_put_def scp_get_def demo_transport_def base q unquote_quote
        split: option.splits)
qed


text \<open>The locator is not confined to the directory of the sink.\<close>

lemma node_locator_escapes: "remote_path demo_node ''../etc/passwd'' = ''/d/../etc/passwd''"
  by code_simp

end
