(* ===== verification/Startup.thy ===== *)
theory Startup
  imports CoreAuth Contributors
begin

section \<open>Configuration and startup\<close>

text \<open>
  \<open>core/config.py\<close> and the lifespan of \<open>main.py\<close>: how the JWT secret is found or generated and written to the
  \<open>.env\<close> file, the checks made before a production start, the seeding of the roles and of the first
  administrator, the choice of the data directory and the health answer.  The parser of \<open>.env\<close> files and the
  random source are parameters.  Creating the tables is not modelled; building the application is in \<open>AppRoutes\<close>.
\<close>

subsection \<open>The secret in the .env file\<close>

record env_file =
  ef_text :: "string option"
  ef_readable :: bool
  ef_writable :: bool

definition DEFAULT_JWT_SECRET :: string where
  "DEFAULT_JWT_SECRET = ''CHANGE-ME-IN-PRODUCTION''"

definition SECRET_ASSIGNMENT :: string where
  "SECRET_ASSIGNMENT = ''JWT_SECRET_KEY=''"

definition secret_line :: "string \<Rightarrow> string" where
  "secret_line key = SECRET_ASSIGNMENT @ key @ [CHR 0x0A]"

definition is_secret_line :: "string \<Rightarrow> bool" where
  "is_secret_line existing \<longleftrightarrow> starts_with SECRET_ASSIGNMENT (py_upper (lstrip_where is_space existing))"

definition end_last :: "string list \<Rightarrow> string list" where
  "end_last ls = (if ls \<noteq> [] \<and> \<not> ends_with [CHR 0x0A] (last ls) then butlast ls @ [last ls @ [CHR 0x0A]] else ls)"

definition with_secret :: "string \<Rightarrow> string list \<Rightarrow> string list" where
  "with_secret key ls =
     (let new_lines = map (\<lambda>existing. if is_secret_line existing then secret_line key else existing) ls
      in if list_ex is_secret_line ls then new_lines else end_last new_lines @ [secret_line key])"

definition write_env :: "string \<Rightarrow> env_file \<Rightarrow> env_file" where
  \<comment> \<open>\<open>write_text\<close>; the caller swallows the \<open>OSError\<close>.\<close>
  "write_env text f = (if ef_writable f then f\<lparr>ef_text := Some text\<rparr> else f)"

definition persist_jwt_secret_to_env :: "string \<Rightarrow> env_file \<Rightarrow> env_file" where
  "persist_jwt_secret_to_env key f =
     (case ef_text f of
        None \<Rightarrow> write_env (secret_line key) f
      | Some content \<Rightarrow>
          if \<not> ef_readable f then f
          else write_env (concat (with_secret key (keep_lines (universal_newlines content)))) f)"

definition auto_generate_jwt_secret :: "string \<Rightarrow> string \<Rightarrow> env_file \<Rightarrow> string \<times> env_file" where
  \<comment> \<open>The first argument is what \<open>secrets.token_hex(32)\<close> yields.\<close>
  "auto_generate_jwt_secret new_key secret f =
     (if secret \<notin> {DEFAULT_JWT_SECRET, ''''} then (secret, f)
      else (new_key, persist_jwt_secret_to_env new_key f))"

type_synonym dotenv = "string \<Rightarrow> string \<Rightarrow> string option"

definition configured_secret :: "dotenv \<Rightarrow> string option \<Rightarrow> env_file \<Rightarrow> string" where
  \<comment> \<open>The sources of a settings field: the process environment, the \<open>.env\<close> file, the default.\<close>
  "configured_secret parse environ f =
     (case environ of Some v \<Rightarrow> v
      | None \<Rightarrow>
          (case (case ef_text f of None \<Rightarrow> None | Some text \<Rightarrow> parse text ''jwt_secret_key'') of
             Some v \<Rightarrow> v | None \<Rightarrow> DEFAULT_JWT_SECRET))"

definition load_jwt_secret :: "dotenv \<Rightarrow> string option \<Rightarrow> string \<Rightarrow> env_file \<Rightarrow> string \<times> env_file" where
  \<comment> \<open>\<open>Settings()\<close> with the working directory at the repository root, where the file is also written.\<close>
  "load_jwt_secret parse environ new_key f = auto_generate_jwt_secret new_key (configured_secret parse environ f) f"

definition is_sqlite :: "string \<Rightarrow> bool" where
  "is_sqlite database_url \<longleftrightarrow> starts_with ''sqlite'' database_url"

subsection \<open>Startup\<close>

record boot_settings =
  bs_jwt_secret_key :: string
  bs_app_debug :: bool
  bs_app_env :: string
  bs_init_admin_email :: string
  bs_init_admin_password :: string

definition startup_checks :: "boot_settings \<Rightarrow> error + unit" where
  "startup_checks s =
     (if bs_app_debug s then Inr ()
      else if bs_jwt_secret_key s = DEFAULT_JWT_SECRET
      then Inl (RuntimeError (''CRITICAL: JWT_SECRET_KEY is set to the default value. '' @
        ''Set a secure random value (64+ chars) in .env before running in production.''))
      else if bs_init_admin_password s = ''changeme''
      then Inl (RuntimeError (''CRITICAL: INIT_ADMIN_PASSWORD is set to the default '' @ quoted ''changeme'' @
        ''. Set a strong password in .env before running in production.''))
      else Inr ())"

definition seed_role_rows :: "role list" where
  "seed_role_rows =
     [\<lparr>ro_id = 1, ro_name = ''viewer'', ro_description = ''Read-only access within assigned tenants''\<rparr>,
      \<lparr>ro_id = 2, ro_name = ''analyst'', ro_description = ''Read + annotate + export within assigned tenants''\<rparr>,
      \<lparr>ro_id = 3, ro_name = ''admin'', ro_description = ''Full access within assigned tenants''\<rparr>,
      \<lparr>ro_id = 4, ro_name = ''superadmin'', ro_description = ''Platform-wide access''\<rparr>]"

definition seed_roles :: "db \<Rightarrow> error + db" where
  "seed_roles d =
     (let existing_ids = map ro_id (roles d)
      in flush_checked (\<lambda>d. roles_ok (roles d))
           (d\<lparr>roles := roles d @ filter (\<lambda>r. ro_id r \<notin> set existing_ids) seed_role_rows\<rparr>))"

definition lifespan :: "creds \<Rightarrow> env \<Rightarrow> nat \<Rightarrow> boot_settings \<Rightarrow> db \<Rightarrow> error + db" where
  "lifespan cr e salt s d =
     (case startup_checks s of
        Inl x \<Rightarrow> Inl x
      | Inr _ \<Rightarrow>
          (case seed_roles d of
             Inl x \<Rightarrow> Inl x
           | Inr d1 \<Rightarrow>
               if user_count d1 = 0
               then (case user_create_superadmin cr e salt (bs_init_admin_email s) (bs_init_admin_password s) ''Admin'' d1 of
                       Inl _ \<Rightarrow> Inr d1
                     | Inr (_, d2) \<Rightarrow> Inr d2)
               else Inr d1))"

definition choose_data_dir :: "string option \<Rightarrow> bool \<Rightarrow> string \<Rightarrow> string" where
  \<comment> \<open>The brand's variable, then the directory beside the package when that is writable, then the image's.\<close>
  "choose_data_dir env_value package_writable default_abs =
     (if truthy_str env_value then the env_value else if package_writable then default_abs else ''/app/data'')"

record health_response =
  hr_status :: string
  hr_version :: string
  hr_environment :: string
  hr_python_version :: string
  hr_database :: string
  hr_db_ok :: bool
  hr_boot_ts :: time

definition health :: "string \<Rightarrow> int \<times> int \<times> int \<Rightarrow> time \<Rightarrow> boot_settings \<Rightarrow> bool \<Rightarrow> health_response" where
  \<comment> \<open>The last argument says whether the query of the database succeeds.\<close>
  "health version py boot_ts s db_ok =
     (case py of (major, minor, micro) \<Rightarrow>
        \<lparr>hr_status = ''ok'', hr_version = version, hr_environment = bs_app_env s,
         hr_python_version = int_str major @ ''.'' @ int_str minor @ ''.'' @ int_str micro,
         hr_database = (if db_ok then ''connected'' else ''unavailable''), hr_db_ok = db_ok, hr_boot_ts = boot_ts\<rparr>)"

subsection \<open>The generated secret survives a restart\<close>

definition value_char :: "char \<Rightarrow> bool" where
  "value_char c \<longleftrightarrow> is_word c \<or> c \<in> set ''/:.,@+*-''"

definition assignment :: "string \<Rightarrow> (string \<times> string) option" where
  "assignment l = split_first (CHR ''='') (butlast l)"

definition plain_line :: "string \<Rightarrow> bool" where
  \<comment> \<open>A comment, an empty line or \<open>NAME=value\<close> without quotes, blanks or expansions.\<close>
  "plain_line l \<longleftrightarrow> l \<noteq> [] \<and> last l = CHR 0x0A \<and> \<not> list_ex is_linebreak (butlast l) \<and>
     (butlast l = [] \<or> hd l = CHR ''#'' \<or>
      (case assignment l of None \<Rightarrow> False
       | Some (k, v) \<Rightarrow> k \<noteq> [] \<and> list_all is_word k \<and> \<not> is_digit (hd k) \<and> list_all value_char v))"

definition dotenv_ok :: "dotenv \<Rightarrow> bool" where
  \<comment> \<open>On a file of plain lines the parser finds the value of a name assigned once or always to the same value,
    whatever the case of the name.\<close>
  "dotenv_ok parse \<longleftrightarrow> (\<forall>ls k. (\<forall>l \<in> set ls. plain_line l) \<longrightarrow> (\<exists>l \<in> set ls. is_secret_line l) \<longrightarrow>
     (\<forall>l \<in> set ls. is_secret_line l \<longrightarrow> assignment l = Some (''JWT_SECRET_KEY'', k)) \<longrightarrow>
     parse (concat ls) ''jwt_secret_key'' = Some k)"

lemma upper_assignment: "py_upper SECRET_ASSIGNMENT = SECRET_ASSIGNMENT"
  by (simp add: SECRET_ASSIGNMENT_def py_upper_def upper_char_def code_of_def)

lemma upper_append: "py_upper (s @ t) = py_upper s @ py_upper t"
  by (simp add: py_upper_def)

lemma secret_line_is: "is_secret_line (secret_line key)"
proof -
  have "lstrip_where is_space (secret_line key) = secret_line key"
    by (simp add: secret_line_def SECRET_ASSIGNMENT_def lstrip_where_def is_space_def code_of_def)
  then show ?thesis by (simp add: is_secret_line_def secret_line_def upper_append upper_assignment)
qed

lemma assignment_secret: "assignment (secret_line key) = Some (''JWT_SECRET_KEY'', key)"
  by (simp add: assignment_def secret_line_def SECRET_ASSIGNMENT_def split_first_def butlast_append)

lemma plain_lineD: "plain_line l \<Longrightarrow> l = butlast l @ [CHR 0x0A] \<and> \<not> list_ex is_linebreak (butlast l)"
  unfolding plain_line_def by (metis append_butlast_last_id)

lemma keep_plain_lines: "\<forall>l \<in> set ls. plain_line l \<Longrightarrow> keep_lines (concat ls) = ls"
proof (induction ls)
  case Nil
  show ?case by simp
next
  case (Cons l ls)
  then have l: "l = butlast l @ [CHR 0x0A]" "\<not> list_ex is_linebreak (butlast l)"
    using plain_lineD [of l] by simp_all
  have "keep_lines (butlast l @ CHR 0x0A # concat ls) = (butlast l @ [CHR 0x0A]) # keep_lines (concat ls)"
    using keep_lines_line [OF l(2), of "CHR 0x0A"] by (simp add: is_linebreak_def code_of_def)
  with l(1) Cons show ?case by (metis append.assoc append_Cons append_Nil concat.simps(2) list.set_intros(2))
qed

lemma plain_no_return: "plain_line l \<Longrightarrow> CHR 0x0D \<notin> set l"
proof -
  assume p: "plain_line l"
  then have l: "l = butlast l @ [CHR 0x0A]" using plain_lineD by blast
  from plain_lineD [OF p] have "CHR 0x0D \<notin> set (butlast l)"
    by (auto simp: list_ex_iff is_linebreak_def code_of_def)
  then have "CHR 0x0D \<notin> set (butlast l @ [CHR 0x0A])" by simp
  with l show ?thesis by simp
qed

lemma plain_secret_line: "list_all value_char key \<Longrightarrow> plain_line (secret_line key)"
proof -
  assume k: "list_all value_char key"
  have b: "\<not> is_linebreak c" if "value_char c" for c
    using that by (auto simp: value_char_def is_word_def is_alpha_def is_digit_def is_linebreak_def code_of_def)
  have "\<not> list_ex is_linebreak (SECRET_ASSIGNMENT @ key)"
    using k b by (auto simp: list_ex_iff list_all_iff SECRET_ASSIGNMENT_def is_linebreak_def code_of_def)
  moreover have "butlast (secret_line key) = SECRET_ASSIGNMENT @ key" by (simp add: secret_line_def butlast_append)
  moreover have "list_all is_word ''JWT_SECRET_KEY''" "\<not> is_digit (hd ''JWT_SECRET_KEY'')" by code_simp+
  moreover have "secret_line key \<noteq> []" "last (secret_line key) = CHR 0x0A" by (simp_all add: secret_line_def)
  ultimately show ?thesis using k unfolding plain_line_def assignment_secret by simp
qed

lemma with_secret_plain:
  assumes "\<forall>l \<in> set ls. plain_line l"
  shows "with_secret key ls =
    map (\<lambda>l. if is_secret_line l then secret_line key else l) ls @ (if list_ex is_secret_line ls then [] else [secret_line key])"
proof -
  have "end_last (map (\<lambda>l. if is_secret_line l then secret_line key else l) ls) =
      map (\<lambda>l. if is_secret_line l then secret_line key else l) ls"
  proof (cases "ls = []")
    case False
    then have "plain_line (last ls)" using assms by simp
    then have "ends_with [CHR 0x0A] (last ls)"
      using plain_lineD ends_with_append by metis
    with False show ?thesis by (auto simp: end_last_def last_map secret_line_def ends_with_iff)
  qed (simp add: end_last_def)
  then show ?thesis by (simp add: with_secret_def Let_def)
qed

lemma filter_map_kept: "(\<And>x. P x \<Longrightarrow> f x = x) \<Longrightarrow> map f (filter P xs) = filter P xs"
  by (induction xs) auto

lemma persisted_lines:
  assumes "\<forall>l \<in> set ls. plain_line l" and "list_all value_char key"
  shows "\<forall>l \<in> set (with_secret key ls). plain_line l"
    and "\<exists>l \<in> set (with_secret key ls). is_secret_line l"
    and "\<forall>l \<in> set (with_secret key ls). is_secret_line l \<longrightarrow> assignment l = Some (''JWT_SECRET_KEY'', key)"
    and "filter (\<lambda>l. \<not> is_secret_line l) (with_secret key ls) = filter (\<lambda>l. \<not> is_secret_line l) ls"
  unfolding with_secret_plain [OF assms(1)]
  using assms(1) plain_secret_line [OF assms(2)] secret_line_is [of key] assignment_secret [of key]
  by (auto simp: list_ex_iff filter_map o_def filter_map_kept)

lemma persisted_text:
  assumes "ef_readable f" and "ef_writable f" and "ef_text f = Some (concat ls)" and "\<forall>l \<in> set ls. plain_line l"
  shows "persist_jwt_secret_to_env key f = f\<lparr>ef_text := Some (concat (with_secret key ls))\<rparr>"
proof -
  have "universal_newlines (concat ls) = concat ls" using assms(4) plain_no_return by auto
  with assms show ?thesis by (simp add: persist_jwt_secret_to_env_def write_env_def keep_plain_lines)
qed


definition demo_dotenv :: dotenv where
  \<comment> \<open>The last assignment of a name, without regard to case.\<close>
  "demo_dotenv text name =
     (let ls = filter (\<lambda>l. starts_with (py_upper name @ ''='') (py_upper (lstrip_where is_space l))) (keep_lines text)
      in if ls = [] then None else map_option snd (assignment (last ls)))"

lemma demo_dotenv_ok: "dotenv_ok demo_dotenv"
  unfolding dotenv_ok_def
proof (intro allI impI)
  fix ls k
  assume p: "\<forall>l \<in> set ls. plain_line l" and e: "\<exists>l \<in> set ls. is_secret_line l"
    and a: "\<forall>l \<in> set ls. is_secret_line l \<longrightarrow> assignment l = Some (''JWT_SECRET_KEY'', k)"
  have "py_upper ''jwt_secret_key'' @ ''='' = SECRET_ASSIGNMENT" by code_simp
  then have d: "demo_dotenv (concat ls) ''jwt_secret_key'' =
      (if filter is_secret_line ls = [] then None else map_option snd (assignment (last (filter is_secret_line ls))))"
    by (simp add: demo_dotenv_def keep_plain_lines [OF p] Let_def is_secret_line_def [abs_def])
  from e have ne: "filter is_secret_line ls \<noteq> []" by (auto simp: filter_empty_conv)
  then have "last (filter is_secret_line ls) \<in> set (filter is_secret_line ls)" by (rule last_in_set)
  with a have "assignment (last (filter is_secret_line ls)) = Some (''JWT_SECRET_KEY'', k)" by simp
  with d ne show "demo_dotenv (concat ls) ''jwt_secret_key'' = Some k" by simp
qed

definition demo_env_lines :: "string list" where
  "demo_env_lines = [''# settings'' @ [CHR 0x0A], ''APP_NAME=x'' @ [CHR 0x0A], ''jwt_secret_key='' @ [CHR 0x0A], ''APP_PORT=8000'' @ [CHR 0x0A]]"


text \<open>The same without the file: the secret lives only as long as the settings object, and \<open>get_settings\<close> builds a new
  one at every call.\<close>

lemma readonly_env_rotates:
  assumes "\<not> ef_writable f" and "configured_secret parse environ f \<in> {DEFAULT_JWT_SECRET, ''''}"
  shows "load_jwt_secret parse environ k f = (k, f)"
  using assms by (auto simp: load_jwt_secret_def auto_generate_jwt_secret_def persist_jwt_secret_to_env_def write_env_def
      split: option.splits)

text \<open>The process environment wins over the file: a placeholder there is replaced by a new secret at every call, although
  the file holds one.\<close>

lemma placeholder_in_environment_rotates:
  assumes "v \<in> {DEFAULT_JWT_SECRET, ''''}"
  shows "fst (load_jwt_secret parse (Some v) k f) = k"
  using assms by (auto simp: load_jwt_secret_def auto_generate_jwt_secret_def configured_secret_def)

text \<open>The check of the secret at a production start cannot fail: settings are loaded through the generator.\<close>

lemma default_secret_never_seen:
  assumes "k \<noteq> DEFAULT_JWT_SECRET"
  shows "fst (load_jwt_secret parse environ k f) \<noteq> DEFAULT_JWT_SECRET"
  using assms by (auto simp: load_jwt_secret_def auto_generate_jwt_secret_def)

subsection \<open>What a start leaves behind\<close>

lemma seeded:
  assumes "seed_roles d = Inr d'"
  shows "roles d' = roles d @ filter (\<lambda>r. ro_id r \<notin> ro_id ` set (roles d)) seed_role_rows"
    and "roles_ok (roles d')" and "{1, 2, 3, 4} \<subseteq> ro_id ` set (roles d')" and "d' = d\<lparr>roles := roles d'\<rparr>"
  using assms by (auto simp: seed_roles_def Let_def seed_role_rows_def)

lemma seed_again:
  assumes "{1, 2, 3, 4} \<subseteq> ro_id ` set (roles d)" and "roles_ok (roles d)"
  shows "seed_roles d = Inr d"
proof -
  have "filter (\<lambda>r. ro_id r \<notin> ro_id ` set (roles d)) seed_role_rows = []"
    using assms(1) by (simp add: seed_role_rows_def)
  with assms(2) show ?thesis by (simp add: seed_roles_def Let_def flush_checked_def)
qed

lemma first_superadmin:
  assumes "hash_verifies cr" and "users d = []"
  obtains u d' where "user_create_superadmin cr e salt em pw dn d = Inr (u, d')" and "roles d' = roles d"
    and "users d' = [new_user (env_ids e 0) (env_now e) em (hash_password cr salt pw) dn True]"
  using assms
  by (auto simp: user_create_superadmin_def user_repo_get_by_email_def user_repo_create_def users_unique_def flush_checked_def
      add_row_def Let_def split: option.splits)

text \<open>
  C26: After a start the four roles exist beside whatever roles there were; on an empty database there is exactly one
  account, the configured superadmin, whose password verifies; the accounts of a populated database are as they
  were.  Another start, with any clock and any other administrator configured, changes nothing.
\<close>

theorem startup_settles:
  assumes "hash_verifies cr" and "lifespan cr e salt s d = Inr d'"
  shows "{1, 2, 3, 4} \<subseteq> ro_id ` set (roles d') \<and> set (roles d) \<subseteq> set (roles d') \<and> roles_ok (roles d') \<and>
    (users d = [] \<longrightarrow> (\<exists>u. users d' = [u] \<and> u_email u = bs_init_admin_email s \<and> u_is_superadmin u \<and> u_is_active u \<and>
       verify_password cr (bs_init_admin_password s) (u_password_hash u))) \<and>
    (users d \<noteq> [] \<longrightarrow> users d' = users d) \<and>
    (startup_checks s' = Inr () \<longrightarrow> lifespan cr e' salt' s' d' = Inr d')"
proof -
  from assms(2) obtain d1 where c: "startup_checks s = Inr ()" and d1: "seed_roles d = Inr d1"
    by (auto simp: lifespan_def split: sum.splits)
  note r = seeded [OF d1]
  have u1: "users d1 = users d" using arg_cong [OF r(4), of users] by simp
  have again: "lifespan cr e' salt' s' d' = Inr d'"
    if "startup_checks s' = Inr ()" "roles d' = roles d1" "users d' \<noteq> []"
    using that r(2,3) seed_again [of d'] by (simp add: lifespan_def user_count_def user_repo_count_all_def)
  show ?thesis
  proof (cases "users d = []")
    case True
    with u1 obtain u d2 where m: "user_create_superadmin cr e salt (bs_init_admin_email s) (bs_init_admin_password s) ''Admin'' d1 = Inr (u, d2)"
        "roles d2 = roles d1"
        "users d2 = [new_user (env_ids e 0) (env_now e) (bs_init_admin_email s) (hash_password cr salt (bs_init_admin_password s)) ''Admin'' True]"
      using first_superadmin [OF assms(1), of d1] by metis
    with assms(2) c d1 u1 True have "d' = d2" by (simp add: lifespan_def user_count_def user_repo_count_all_def)
    with m r again True assms(1) show ?thesis by (auto simp: verify_hash)
  next
    case False
    with assms(2) c d1 u1 have "d' = d1" by (simp add: lifespan_def user_count_def user_repo_count_all_def)
    with r again False u1 show ?thesis by auto
  qed
qed

definition demo_boot :: boot_settings where
  "demo_boot = \<lparr>bs_jwt_secret_key = ''k'', bs_app_debug = False, bs_app_env = ''production'',
     bs_init_admin_email = ''root@example.com'', bs_init_admin_password = ''s3cret!''\<rparr>"

theorem startup_settles_witness:
  "\<exists>d'. lifespan demo_creds demo_env 0 demo_boot empty_db = Inr d' \<and> length (users d') = 1 \<and>
     lifespan demo_creds demo_env 1 demo_boot d' = Inr d'"
proof -
  let ?r = "lifespan demo_creds demo_env 0 demo_boot empty_db"
  have "\<not> isl ?r" by code_simp
  then obtain d' where d': "?r = Inr d'" by (cases ?r) auto
  have e: "users empty_db = []" "startup_checks demo_boot = Inr ()" by code_simp+
  from startup_settles [OF demo_creds_ok d', of demo_boot demo_env 1] e d' show ?thesis by auto
qed

end
