(* ===== verification/RequestLog.thy ===== *)
theory RequestLog
  imports CoreTypes
begin

section \<open>Request logging\<close>

text \<open>
  \<open>core/request_logging.py\<close>: which handlers the logger gets, and the middleware around every request.  The
  application below the middleware is a parameter: it takes the message and the state of the world and answers or
  raises.  A response streams chunks and may break off (\<open>rp_broken\<close>); bytes are characters.  The elapsed time, the
  text of an exception and its traceback are parameters.  Times, rotation and the formatting of log lines by the
  handlers are not modelled: a log is the list of its records.
\<close>

datatype log_level = DEBUG | INFO | WARNING | LERROR

record log_record =
  lr_level :: log_level
  lr_message :: string

subsection \<open>Handlers\<close>

datatype log_handler = Stream log_level | RotatingFile string int int log_level

definition MAX_LOG_BYTES :: int where
  "MAX_LOG_BYTES = 5 * 1024 * 1024"

definition BACKUP_COUNT :: int where
  "BACKUP_COUNT = 3"

definition setup_logging :: "string \<Rightarrow> string \<Rightarrow> bool \<Rightarrow> log_handler list \<Rightarrow> log_handler list" where
  \<comment> \<open>The last argument is the handlers the logger of that name has.\<close>
  "setup_logging app_name data_dir log_stdout handlers =
     (if handlers \<noteq> [] then handlers
      else if log_stdout then [Stream DEBUG]
      else [RotatingFile (data_dir @ ''/logs/'' @ app_name @ ''.log'') MAX_LOG_BYTES BACKUP_COUNT DEBUG, Stream WARNING])"

subsection \<open>The middleware\<close>

record log_cfg =
  lc_app_debug :: bool
  lc_redact_paths :: "string list"
  lc_skip_prefixes :: "string list"

record http_message =
  hm_method :: string
  hm_path :: string
  hm_body :: string

record http_response =
  rp_status :: int
  rp_headers :: "(string \<times> string) list"
  rp_chunks :: "string list"
  rp_broken :: bool

record log_texts =
  lt_ms :: string
  lt_exception :: "error \<Rightarrow> string"
  lt_traceback :: "error \<Rightarrow> string"

definition DEFAULT_REDACT_PATHS :: "string list" where
  "DEFAULT_REDACT_PATHS = [''/auth/'', ''/vault/'', ''/password'']"

definition should_skip :: "log_cfg \<Rightarrow> string \<Rightarrow> bool" where
  "should_skip c path = list_ex (\<lambda>p. starts_with p path) (lc_skip_prefixes c)"

definition is_sensitive :: "log_cfg \<Rightarrow> string \<Rightarrow> bool" where
  "is_sensitive c path = list_ex (\<lambda>fragment. contains_str fragment path) (lc_redact_paths c)"

definition log_request_body :: "log_cfg \<Rightarrow> bool \<Rightarrow> http_message \<Rightarrow> log_record list" where
  \<comment> \<open>Nothing is logged when the body cannot be read.\<close>
  "log_request_body c readable m =
     (if \<not> readable then []
      else [\<lparr>lr_level = DEBUG, lr_message = ''REQ BODY | '' @ hm_method m @ '' '' @ hm_path m @ '' | '' @
              (if is_sensitive c (hm_path m) then ''[REDACTED]'' else take 2000 (hm_body m))\<rparr>])"

definition header_dict :: "(string \<times> string) list \<Rightarrow> (string \<times> string) list" where
  \<comment> \<open>\<open>dict(response.headers)\<close>: the value of a name is its first.\<close>
  "header_dict hs = map (\<lambda>k. (k, the (map_of hs k))) (rev (remdups (rev (map fst hs))))"

definition raw_response :: "string \<Rightarrow> int \<Rightarrow> (string \<times> string) list \<Rightarrow> http_response" where
  "raw_response content status hs =
     \<lparr>rp_status = status,
      rp_headers = (if ''content-length'' \<in> fst ` set hs then hs
                    else hs @ [(''content-length'', nat_str (length content))]),
      rp_chunks = [content], rp_broken = False\<rparr>"

definition log_response_body :: "string \<Rightarrow> http_response \<Rightarrow> http_response \<times> log_record list" where
  \<comment> \<open>A stream that breaks off has been consumed: the response handed back has no body left.\<close>
  "log_response_body path r =
     (if rp_broken r then (r\<lparr>rp_chunks := [], rp_broken := False\<rparr>, [])
      else (let body_bytes = concat (rp_chunks r) in
            (raw_response body_bytes (rp_status r) (header_dict (rp_headers r)),
             [\<lparr>lr_level = DEBUG, lr_message = ''RSP BODY | '' @ int_str (rp_status r) @ '' '' @ path @ '' | '' @ take 2000 body_bytes\<rparr>])))"

definition crash_records :: "log_texts \<Rightarrow> http_message \<Rightarrow> error \<Rightarrow> log_record list" where
  "crash_records t m x =
     [\<lparr>lr_level = LERROR, lr_message = hm_method m @ '' '' @ hm_path m @ '' | CRASH | '' @ lt_ms t @ ''ms | '' @ lt_exception t x\<rparr>,
      \<lparr>lr_level = LERROR, lr_message = ''TRACEBACK | '' @ hm_path m @ [CHR 0x0A] @ lt_traceback t x\<rparr>]"

definition log_response :: "log_cfg \<Rightarrow> log_texts \<Rightarrow> http_message \<Rightarrow> http_response \<Rightarrow> http_response \<times> log_record list" where
  "log_response c t m r =
     (let status = rp_status r;
          line = \<lparr>lr_level = (if 400 \<le> status then WARNING else INFO),
                  lr_message = hm_method m @ '' '' @ hm_path m @ '' | '' @ int_str status @ '' | '' @ lt_ms t @ ''ms''\<rparr>
      in if lc_app_debug c \<and> 400 \<le> status
         then (case log_response_body (hm_path m) r of (r', recs) \<Rightarrow> (r', line # recs))
         else (r, [line]))"

type_synonym 'w asgi = "http_message \<Rightarrow> 'w \<Rightarrow> (error + http_response) \<times> 'w"

definition dispatch_logged ::
  "log_cfg \<Rightarrow> log_texts \<Rightarrow> bool \<Rightarrow> 'w asgi \<Rightarrow> http_message \<Rightarrow> 'w \<times> log_record list \<Rightarrow> (error + http_response) \<times> 'w \<times> log_record list" where
  "dispatch_logged c t readable call_next m s =
     (case s of (w, log) \<Rightarrow>
      if should_skip c (hm_path m) then (case call_next m w of (r, w') \<Rightarrow> (r, (w', log)))
      else
        let log1 = log @ (if lc_app_debug c \<and> hm_method m \<in> {''POST'', ''PUT'', ''PATCH''} then log_request_body c readable m else [])
        in (case call_next m w of
              (Inl x, w') \<Rightarrow> (Inl x, (w', log1 @ crash_records t m x))
            | (Inr r, w') \<Rightarrow> (case log_response c t m r of (r', recs) \<Rightarrow> (Inr r', (w', log1 @ recs)))))"

subsection \<open>The middleware changes nothing but the log\<close>

lemma map_of_header_dict: "map_of (header_dict hs) = map_of hs"
proof
  fix k
  have "map_of (map (\<lambda>k. (k, the (map_of hs k))) ks) k = (if k \<in> set ks then Some (the (map_of hs k)) else None)" for ks
    by (induction ks) auto
  moreover have "k \<in> set (rev (remdups (rev (map fst hs)))) \<longleftrightarrow> map_of hs k \<noteq> None"
    by (simp add: map_of_eq_None_iff)
  ultimately show "map_of (header_dict hs) k = map_of hs k"
    unfolding header_dict_def by (cases "map_of hs k") simp_all
qed

lemma distinct_header_dict: "distinct (map fst (header_dict hs))"
  by (simp add: header_dict_def o_def)

lemma logged_response_same:
  assumes "\<not> rp_broken p"
  shows "rp_status (fst (log_response c t m p)) = rp_status p \<and>
    concat (rp_chunks (fst (log_response c t m p))) = concat (rp_chunks p) \<and>
    (\<forall>h. h \<noteq> ''content-length'' \<longrightarrow> map_of (rp_headers (fst (log_response c t m p))) h = map_of (rp_headers p) h)"
  using assms
  by (simp add: log_response_def log_response_body_def raw_response_def Let_def map_of_header_dict map_add_def split: option.splits)


definition demo_log_cfg :: log_cfg where
  "demo_log_cfg = \<lparr>lc_app_debug = True, lc_redact_paths = DEFAULT_REDACT_PATHS, lc_skip_prefixes = [''/static/'', ''/ws/'']\<rparr>"

definition demo_log_texts :: log_texts where
  "demo_log_texts = \<lparr>lt_ms = ''5'', lt_exception = err_message, lt_traceback = err_message\<rparr>"

definition demo_login_app :: "nat asgi" where
  \<comment> \<open>A refused login with two cookies.\<close>
  "demo_login_app m n = (Inr \<lparr>rp_status = 401, rp_headers = [(''set-cookie'', ''a=1''), (''set-cookie'', ''b=2'')],
     rp_chunks = [''no'', ''pe''], rp_broken = False\<rparr>, n + 1)"

definition demo_login_message :: http_message where
  "demo_login_message = \<lparr>hm_method = ''POST'', hm_path = ''/api/v1/auth/login'', hm_body = ''pw=s3cret''\<rparr>"


subsection \<open>What the middleware does change, and what it does log\<close>

text \<open>In debug mode an error response keeps one value of each header: the second cookie of an answer is lost.\<close>

lemma error_cookies_dropped:
  "\<exists>q' s. dispatch_logged demo_log_cfg demo_log_texts True demo_login_app demo_login_message (0, []) = (Inr q', s) \<and>
     rp_headers q' = [(''set-cookie'', ''a=1''), (''content-length'', ''4'')]"
proof -
  have "map_sum id rp_headers (fst (dispatch_logged demo_log_cfg demo_log_texts True demo_login_app demo_login_message (0, []))) =
      Inr [(''set-cookie'', ''a=1''), (''content-length'', ''4'')]" by code_simp
  then show ?thesis
    by (cases "dispatch_logged demo_log_cfg demo_log_texts True demo_login_app demo_login_message (0, [])")
      (auto simp: map_sum_def split: sum.splits)
qed

text \<open>
  The redaction covers request bodies only: what an error response under a sensitive path quotes of the request, as
  FastAPI's answer to an invalid body does, is logged.
\<close>

lemma error_body_logged:
  assumes "\<not> should_skip c (hm_path m)" and "lc_app_debug c" and "call_next m w = (Inr r, w')"
    and "400 \<le> rp_status r" and "\<not> rp_broken r"
  shows "\<lparr>lr_level = DEBUG, lr_message = ''RSP BODY | '' @ int_str (rp_status r) @ '' '' @ hm_path m @ '' | '' @
      take 2000 (concat (rp_chunks r))\<rparr> \<in> set (snd (snd (dispatch_logged c t readable call_next m (w, log))))"
  using assms by (auto simp: dispatch_logged_def log_response_def log_response_body_def Let_def)

end
