(* ===== verification/OpsApi.thy ===== *)
theory OpsApi
  imports TaskEngine AuthSvc Sinks
begin

section \<open>Operator endpoints: tasks, the task stream, administration\<close>

text \<open>
  The answers of \<open>api/v1/tasks.py\<close>, the websocket of \<open>api/v1/ws.py\<close> and \<open>api/v1/admin.py\<close>.  The websocket is the list of the
  frames it sends, given what its queue yields: events, 30 seconds of silence, or the client leaving.  Git is a parameter: a
  command either runs, with an exit code and an output, or cannot be run in time.  Watched files are paths with
  their modification times, in the order the directory is searched.  Replacing the process is a flag.
\<close>

subsection \<open>Tasks as JSON\<close>

definition opt_field :: "(time \<Rightarrow> string) \<Rightarrow> time option \<Rightarrow> json" where
  "opt_field stamp_of t = json_of_opt (\<lambda>x. JStr (stamp_of x)) t"

definition question_json :: "(string \<times> string list option) option \<Rightarrow> json" where
  "question_json q = json_of_opt (\<lambda>(text, options). JObj [(''question'', JStr text),
     (''options'', json_of_opt (\<lambda>os. JList (map JStr os)) options)]) q"

definition to_response :: "(time \<Rightarrow> string) \<Rightarrow> task \<Rightarrow> (string \<times> json) list" where
  "to_response stamp_of t =
     [(''id'', JStr (ta_id t)), (''name'', JStr (ta_name t)), (''task_type'', JStr (ta_type t)),
      (''status'', JStr (task_status_value (ta_status t))), (''progress'', JInt (ta_progress t)),
      (''status_text'', JStr (ta_status_text t)), (''result'', ta_result t), (''error'', JStr (ta_error t)),
      (''output_lines'', JList (map JStr (ta_output_lines t))), (''created_at'', JStr (stamp_of (ta_created_at t))),
      (''started_at'', opt_field stamp_of (ta_started_at t)), (''completed_at'', opt_field stamp_of (ta_completed_at t)),
      (''metadata'', JObj (ta_metadata t)), (''pending_question'', question_json (ta_pending_question t))]"

definition task_summary_ep :: "engine \<Rightarrow> (string \<times> int) list" where
  "task_summary_ep E =
     (let summary = get_summary E in
      map (\<lambda>k. (k, case map_of summary k of None \<Rightarrow> 0 | Some n \<Rightarrow> int n))
        [''total'', ''running'', ''pending'', ''waiting'', ''completed'', ''failed'', ''cancelled''])"

definition list_tasks_ep :: "(time \<Rightarrow> string) \<Rightarrow> bool \<Rightarrow> engine \<Rightarrow> (string \<times> json) list list" where
  "list_tasks_ep stamp_of include_completed E = map (to_response stamp_of) (list_tasks include_completed E)"

fun event_json :: "event \<Rightarrow> (string \<times> json) list" where
  "event_json (EvOutput line) = [(''type'', JStr ''output''), (''line'', JStr line)]"
| "event_json (EvProgress n text_of) = [(''type'', JStr ''progress''), (''value'', JInt n), (''status_text'', JStr text_of)]"
| "event_json (EvQuestion q os) = [(''type'', JStr ''question''), (''question'', JStr q),
     (''options'', json_of_opt (\<lambda>os. JList (map JStr os)) os)]"
| "event_json (EvDone st r m) = [(''type'', JStr ''done''), (''status'', JStr (task_status_value st)), (''result'', r), (''error'', JStr m)]"

subsection \<open>The task stream\<close>

datatype arrival = Arrives event | Silence | ClientLeaves

datatype frame = Sent "(string \<times> json) list" | Closed int string

definition snapshot_frame :: "(time \<Rightarrow> string) \<Rightarrow> task \<Rightarrow> frame" where
  "snapshot_frame stamp_of t =
     Sent [(''type'', JStr ''snapshot''), (''task'', JObj
       [(''id'', JStr (ta_id t)), (''name'', JStr (ta_name t)), (''task_type'', JStr (ta_type t)),
        (''status'', JStr (task_status_value (ta_status t))), (''progress'', JInt (ta_progress t)),
        (''status_text'', JStr (ta_status_text t)), (''output_lines'', JList (map JStr (ta_output_lines t))),
        (''error'', JStr (ta_error t)), (''result'', ta_result t),
        (''pending_question'', question_json (ta_pending_question t)), (''created_at'', JStr (stamp_of (ta_created_at t))),
        (''started_at'', opt_field stamp_of (ta_started_at t)), (''completed_at'', opt_field stamp_of (ta_completed_at t)),
        (''metadata'', JObj (ta_metadata t))])]"

fun live_frames :: "arrival list \<Rightarrow> frame list" where
  "live_frames [] = []"
| "live_frames (Arrives ev # as) =
     Sent (event_json ev) # (case ev of EvDone st r m \<Rightarrow> [] | _ \<Rightarrow> live_frames as)"
| "live_frames (Silence # as) = Sent [(''type'', JStr ''ping'')] # live_frames as"
| "live_frames (ClientLeaves # as) = []"

definition task_stream ::
  "jwt_api \<Rightarrow> (time \<Rightarrow> string) \<Rightarrow> time \<Rightarrow> string option \<Rightarrow> string \<Rightarrow> engine \<Rightarrow> arrival list \<Rightarrow> frame list" where
  "task_stream jw stamp_of now token i E arrivals =
     (if truthy_str token \<and> isl (jw_decode jw now (the token)) then [Closed 4001 ''Invalid session token'']
      else (case get_task i E of
              None \<Rightarrow> [Sent [(''type'', JStr ''error''), (''message'', JStr ''Task not found'')], Closed 1000 '''']
            | Some t \<Rightarrow>
                snapshot_frame stamp_of t #
                (if task_status_value (ta_status t) \<in> {''completed'', ''failed'', ''cancelled''}
                 then [Sent [(''type'', JStr ''done''), (''status'', JStr (task_status_value (ta_status t)))], Closed 1000 '''']
                 else live_frames arrivals)))"

subsection \<open>Local changes\<close>

record watched_disk =
  wd_sources :: "(string \<times> time) list"
  wd_extra :: "(string \<times> time) list"

definition snapshot_mtimes :: "watched_disk \<Rightarrow> (string \<times> time) list" where
  "snapshot_mtimes w =
     filter (\<lambda>(p, t). ends_with ''.py'' p) (wd_sources w) @ filter (\<lambda>(p, t). ends_with ''.html'' p) (wd_sources w) @ wd_extra w"

definition detect_local_changes :: "(string \<times> time) list \<Rightarrow> watched_disk \<Rightarrow> string list" where
  "detect_local_changes startup w =
     map fst (filter (\<lambda>(p, t). case map_of startup p of None \<Rightarrow> True | Some t0 \<Rightarrow> t0 < t) (snapshot_mtimes w))"

subsection \<open>Git\<close>

type_synonym 'g admin_git = "string list \<Rightarrow> 'g \<Rightarrow> (int \<times> string) option \<times> 'g"

definition admin_run_git :: "'g admin_git \<Rightarrow> string list \<Rightarrow> 'g \<Rightarrow> string option \<times> 'g" where
  "admin_run_git git args g =
     (case git args g of
        (Some (code, out), g') \<Rightarrow> (if code = 0 then Some (py_strip out) else None, g')
      | (None, g') \<Rightarrow> (None, g'))"

record version_info =
  vi_version :: string
  vi_git_branch :: "string option"
  vi_git_commit :: "string option"
  vi_git_dirty :: bool
  vi_build_ts :: "string option"

definition get_version :: "'g admin_git \<Rightarrow> string \<Rightarrow> string \<Rightarrow> 'g \<Rightarrow> version_info \<times> 'g" where
  "get_version git version build_ts g =
     (case admin_run_git git [''rev-parse'', ''--abbrev-ref'', ''HEAD''] g of (branch, g1) \<Rightarrow>
      (case admin_run_git git [''rev-parse'', ''--short'', ''HEAD''] g1 of (commit, g2) \<Rightarrow>
       (case admin_run_git git [''status'', ''--porcelain''] g2 of (status, g3) \<Rightarrow>
          (\<lparr>vi_version = version, vi_git_branch = branch, vi_git_commit = commit, vi_git_dirty = truthy_str status,
            vi_build_ts = Some build_ts\<rparr>, g3))))"

record update_status =
  us_update_available :: bool
  us_local_changes :: bool
  us_local_changed_files :: "string list"
  us_remote_update :: bool
  us_current_commit :: "string option"
  us_remote_commit :: "string option"
  us_commits_behind :: int
  us_summary :: string

definition relative_name :: "string \<Rightarrow> string \<Rightarrow> string" where
  "relative_name root f = (if starts_with (root @ ''/'') f then drop (length root + 1) f else f)"

definition behind_count :: "string option \<Rightarrow> int" where
  "behind_count behind_str =
     (case behind_str of None \<Rightarrow> 0
      | Some s \<Rightarrow> if s \<noteq> [] \<and> list_all is_digit s then digits_val s else 0)"

definition remote_state :: "'g admin_git \<Rightarrow> 'g \<Rightarrow> (string option \<times> int \<times> string option) \<times> 'g" where
  \<comment> \<open>The current commit, how far it is behind, and the remote commit.\<close>
  "remote_state git g =
     (case admin_run_git git [''fetch'', ''--quiet''] g of (_, g0) \<Rightarrow>
      (case admin_run_git git [''rev-parse'', ''HEAD''] g0 of (current, g1) \<Rightarrow>
       (case admin_run_git git [''rev-parse'', ''--abbrev-ref'', ''HEAD''] g1 of (branch, g2) \<Rightarrow>
          if truthy_str current \<and> truthy_str branch
          then (case admin_run_git git [''rev-list'', ''--count'', ''HEAD..origin/'' @ the branch] g2 of (behind_str, g3) \<Rightarrow>
                (case admin_run_git git [''rev-parse'', ''--short'', ''origin/'' @ the branch] g3 of (remote, g4) \<Rightarrow>
                   ((current, behind_count behind_str, remote), g4)))
          else ((current, 0, None), g2))))"

definition check_for_updates ::
  "'g admin_git \<Rightarrow> string \<Rightarrow> (string \<times> time) list \<Rightarrow> watched_disk \<Rightarrow> 'g \<Rightarrow> update_status \<times> 'g" where
  "check_for_updates git root startup w g =
     (let changed_files = detect_local_changes startup w; local_changes = 0 < length changed_files in
      case remote_state git g of ((current, behind, remote), g') \<Rightarrow>
        (let remote_update = 0 < behind;
             parts = (if local_changes then [nat_str (length changed_files) @ '' file(s) changed since server started''] else []) @
                     (if remote_update then [int_str behind @ '' remote commit(s) available''] else [])
         in (\<lparr>us_update_available = (local_changes \<or> remote_update), us_local_changes = local_changes,
              us_local_changed_files = map (relative_name root) (take 10 changed_files),
              us_remote_update = remote_update,
              us_current_commit = (if truthy_str current then Some (take 8 (the current)) else None),
              us_remote_commit = remote, us_commits_behind = behind,
              us_summary = join_with ''; '' (if parts = [] then [''Up to date''] else parts)\<rparr>, g')))"

definition restart_server :: "'g admin_git \<Rightarrow> string \<Rightarrow> 'g \<times> bool \<Rightarrow> (error + (string \<times> json) list) \<times> 'g \<times> bool" where
  \<comment> \<open>The flag: a new launcher has been scheduled.\<close>
  "restart_server git app_name s =
     (let answer = (\<lambda>out. [(''ok'', JBool True), (''message'', JStr (''Pulling updates and restarting '' @ app_name @ ''...'')),
                            (''pull_result'', JStr out)])
      in case admin_run_git git [''pull'', ''--ff-only''] (fst s) of
           (Some out, g1) \<Rightarrow> (Inr (answer out), (g1, True))
         | (None, g1) \<Rightarrow>
             (case admin_run_git git [''pull''] g1 of
                (Some out, g2) \<Rightarrow> (Inr (answer out), (g2, True))
              | (None, g2) \<Rightarrow>
                  (Inl (AppError ''git pull failed -- check for merge conflicts or network issues'' 500), (g2, snd s))))"

definition restart_only :: "string \<Rightarrow> 'g \<times> bool \<Rightarrow> (string \<times> json) list \<times> 'g \<times> bool" where
  "restart_only app_name s =
     ([(''ok'', JBool True), (''message'', JStr (''Restarting '' @ app_name @ ''...''))], (fst s, True))"

subsection \<open>What the stream shows\<close>

definition ping_frame :: frame where
  "ping_frame = Sent [(''type'', JStr ''ping'')]"

fun arrived :: "arrival list \<Rightarrow> event list" where
  \<comment> \<open>The events the queue yields while the client is there.\<close>
  "arrived [] = []"
| "arrived (Arrives ev # as) = ev # arrived as"
| "arrived (Silence # as) = arrived as"
| "arrived (ClientLeaves # as) = []"

lemma event_no_ping: "Sent (event_json ev) \<noteq> ping_frame"
  by (cases ev) (simp_all add: ping_frame_def)

lemma live_frames_events:
  "filter (\<lambda>f. f \<noteq> ping_frame) (live_frames as) = map (\<lambda>ev. Sent (event_json ev)) (stream_until_done (arrived as))"
proof (induction as rule: live_frames.induct)
  case (2 ev as)
  then show ?case by (cases ev) (simp_all add: ping_frame_def)
qed (simp_all add: ping_frame_def)

text \<open>
  A refused token shows nothing of the task.  Otherwise the client sees the snapshot of the task first; then, for a task
  that has ended, its status, and for a live one exactly the events up to the end of the task, pings apart.
\<close>

theorem task_stream_shows:
  assumes "get_task i E = Some t"
  shows "task_stream jw stamp_of now token i E as =
    (if truthy_str token \<and> isl (jw_decode jw now (the token)) then [Closed 4001 ''Invalid session token'']
     else snapshot_frame stamp_of t # tl (task_stream jw stamp_of now token i E as))"
    and "\<not> (truthy_str token \<and> isl (jw_decode jw now (the token))) \<Longrightarrow> is_terminal (ta_status t) \<Longrightarrow>
      tl (task_stream jw stamp_of now token i E as) =
        [Sent [(''type'', JStr ''done''), (''status'', JStr (task_status_value (ta_status t)))], Closed 1000 '''']"
    and "\<not> (truthy_str token \<and> isl (jw_decode jw now (the token))) \<Longrightarrow> \<not> is_terminal (ta_status t) \<Longrightarrow>
      filter (\<lambda>f. f \<noteq> ping_frame) (tl (task_stream jw stamp_of now token i E as)) =
        map (\<lambda>ev. Sent (event_json ev)) (stream_until_done (arrived as))"
  using assms
  by (cases "ta_status t"; auto simp: task_stream_def is_terminal_def live_frames_events)+

subsection \<open>The update check is exact\<close>

lemma detected:
  "p \<in> set (detect_local_changes startup w) \<longleftrightarrow>
     (\<exists>t. (p, t) \<in> set (snapshot_mtimes w) \<and> (\<forall>t0. map_of startup p = Some t0 \<longrightarrow> t0 < t))"
  by (force simp: detect_local_changes_def split: option.splits)

lemma nothing_detected_after_restart:
  assumes "distinct (map fst (snapshot_mtimes w))"
  shows "detect_local_changes (snapshot_mtimes w) w = []"
  using assms by (auto simp: detect_local_changes_def filter_empty_conv split: option.splits)

lemma join_two: "join_with s [a, b] = a @ s @ b"
  by simp

text \<open>
  The check reports an update exactly when a watched file is new or younger than at the start of the server, or
  the remote branch is ahead, and its summary says \<open>Up to date\<close> exactly otherwise; right after a restart no
  local change is reported.
\<close>

theorem update_check_exact:
  assumes "check_for_updates git root startup w g = (u, g')" and "remote_state git g = ((current, behind, remote), g2)"
  shows "us_update_available u \<longleftrightarrow>
      (\<exists>p t. (p, t) \<in> set (snapshot_mtimes w) \<and> (\<forall>t0. map_of startup p = Some t0 \<longrightarrow> t0 < t)) \<or> 0 < behind"
    and "us_summary u = ''Up to date'' \<longleftrightarrow> \<not> us_update_available u"
    and "distinct (map fst (snapshot_mtimes w)) \<Longrightarrow> startup = snapshot_mtimes w \<Longrightarrow> \<not> us_local_changes u"
proof -
  let ?cs = "detect_local_changes startup w"
  have u: "us_update_available u \<longleftrightarrow> ?cs \<noteq> [] \<or> 0 < behind" "us_local_changes u \<longleftrightarrow> ?cs \<noteq> []"
    "us_summary u = join_with ''; ''
      (if ?cs = [] \<and> \<not> 0 < behind then [''Up to date'']
       else (if ?cs \<noteq> [] then [nat_str (length ?cs) @ '' file(s) changed since server started''] else []) @
            (if 0 < behind then [int_str behind @ '' remote commit(s) available''] else []))"
    using assms by (auto simp: check_for_updates_def Let_def)
  show "us_update_available u \<longleftrightarrow>
      (\<exists>p t. (p, t) \<in> set (snapshot_mtimes w) \<and> (\<forall>t0. map_of startup p = Some t0 \<longrightarrow> t0 < t)) \<or> 0 < behind"
    unfolding u(1) using detected [of _ startup w] by (metis list.set_intros(1) neq_Nil_conv empty_iff list.set(1))
  have l: "length (a @ '' file(s) changed since server started'') \<noteq> length ''Up to date''"
    "length (a @ '' remote commit(s) available'') \<noteq> length ''Up to date''"
    "length ((a @ '' file(s) changed since server started'') @ ''; '' @ b) \<noteq> length ''Up to date''" for a b :: string
    by simp_all
  show "us_summary u = ''Up to date'' \<longleftrightarrow> \<not> us_update_available u"
    unfolding u(1,3) using l by (cases "?cs = []"; cases "0 < behind") (auto simp del: append_assoc length_append dest!: arg_cong [where f = length])
  show "\<not> us_local_changes u" if "distinct (map fst (snapshot_mtimes w))" "startup = snapshot_mtimes w"
    using nothing_detected_after_restart [OF that(1)] that(2) u(2) by simp
qed

text \<open>A file deleted since the start is not a change.\<close>

lemma deleted_file_unnoticed:
  "detect_local_changes [(''/r/app/a.py'', 5)] \<lparr>wd_sources = [], wd_extra = []\<rparr> = []"
  by code_simp

end
