(* ===== verification/BackupCli.thy ===== *)
theory BackupCli
  imports BackupApi
begin

section \<open>The backup command line\<close>

text \<open>
  \<open>services/backup/cli.py\<close>: the options of each command as tables, the reading of an argument list against them,
  and the five commands over the service, the sinks and the encryption.  A namespace is the list of the options
  given or defaulted, by their names without dashes.  What the terminal supplies is the record \<open>console\<close>, which also
  collects the printed JSON; the rest of the world is the scheduler's.  The user id of the audit entries (a UUID
  computed from a name) is a parameter.  Help texts and \<open>-h\<close> are not modelled.
\<close>

subsection \<open>Options\<close>

datatype opt_kind = Value | IntValue | StoreTrue

record opt_spec =
  os_name :: string
  os_kind :: opt_kind
  os_choices :: "string list option"
  os_default :: "string option"
  os_required :: bool

definition value_opt :: "string \<Rightarrow> opt_spec" where
  "value_opt n = \<lparr>os_name = n, os_kind = Value, os_choices = None, os_default = None, os_required = False\<rparr>"

definition required_opt :: "string \<Rightarrow> opt_spec" where
  "required_opt n = (value_opt n)\<lparr>os_required := True\<rparr>"

definition sink_choices :: "string list" where
  "sink_choices = [''local_disk'', ''scottydev'', ''download'', ''git_repo'']"

definition sink_options :: "opt_spec list" where
  "sink_options =
     [(value_opt ''sink'')\<lparr>os_default := Some ''local_disk'', os_choices := Some sink_choices\<rparr>,
      value_opt ''root-dir'', value_opt ''base-url'', value_opt ''token'', value_opt ''repo-url'', value_opt ''clone-dir'',
      value_opt ''branch'', value_opt ''path-template'', (value_opt ''no-lfs'')\<lparr>os_kind := StoreTrue\<rparr>]"

definition command_options :: "(string \<times> opt_spec list) list" where
  "command_options =
     [(''export'', [(value_opt ''scope'')\<lparr>os_choices := Some [''platform'', ''tenant''], os_default := Some ''platform''\<rparr>,
         value_opt ''tenant-slug''] @ sink_options @ [value_opt ''passphrase'', value_opt ''out'']),
      (''restore'', sink_options @ [required_opt ''locator'', value_opt ''passphrase'']),
      (''verify'', sink_options @ [required_opt ''locator'', required_opt ''expected-sha256'']),
      (''list-runs'', [(value_opt ''limit'')\<lparr>os_kind := IntValue, os_default := Some ''20''\<rparr>]),
      (''rotate-key'', [required_opt ''in'', required_opt ''out'', required_opt ''old-passphrase'', required_opt ''new-passphrase''])]"

type_synonym namespace = "(string \<times> string) list"

datatype parsed = Usage string | NoCommand | Parsed string namespace

definition numeral_text :: "string \<Rightarrow> bool" where
  "numeral_text t \<longleftrightarrow> (t \<noteq> [] \<and> list_all is_digit t) \<or>
     (case split_first (CHR ''.'') t of None \<Rightarrow> False
      | Some (x, y) \<Rightarrow> list_all is_digit x \<and> y \<noteq> [] \<and> list_all is_digit y)"

definition option_like :: "string \<Rightarrow> bool" where
  \<comment> \<open>What argparse takes for an option and not for a value.\<close>
  "option_like a \<longleftrightarrow> starts_with ''-'' a \<and> 1 < length a \<and> \<not> numeral_text (tl a) \<and> CHR '' '' \<notin> set a"

definition match_option :: "opt_spec list \<Rightarrow> string \<Rightarrow> string + (opt_spec \<times> string option)" where
  \<comment> \<open>The whole argument, the part before an equals sign, or an unambiguous abbreviation of a name.\<close>
  "match_option specs a =
     (case get_by (\<lambda>s. ''--'' @ os_name s) a specs of
        Some s \<Rightarrow> Inr (s, None)
      | None \<Rightarrow>
          (let (flag, val) = (case split_first (CHR ''='') a of None \<Rightarrow> (a, None) | Some (x, y) \<Rightarrow> (x, Some y)) in
           case get_by (\<lambda>s. ''--'' @ os_name s) flag specs of
             Some s \<Rightarrow> Inr (s, val)
           | None \<Rightarrow>
               (case filter (\<lambda>s. starts_with ''--'' flag \<and> starts_with flag (''--'' @ os_name s)) specs of
                  [s] \<Rightarrow> Inr (s, val)
                | [] \<Rightarrow> Inl (''unrecognized arguments: '' @ a)
                | _ \<Rightarrow> Inl (''ambiguous option: '' @ a))))"

definition accept_value :: "opt_spec \<Rightarrow> string \<Rightarrow> string + string" where
  "accept_value s v =
     (if os_kind s = IntValue \<and> isl (py_int (JStr v)) then Inl (''argument --'' @ os_name s @ '': invalid int value'')
      else if os_choices s \<noteq> None \<and> v \<notin> set (the (os_choices s)) then Inl (''argument --'' @ os_name s @ '': invalid choice'')
      else Inr v)"

fun read_options :: "opt_spec list \<Rightarrow> string list \<Rightarrow> namespace \<Rightarrow> string + namespace" where
  "read_options specs [] ns = Inr ns"
| "read_options specs (a # as) ns =
     (case match_option specs a of
        Inl m \<Rightarrow> Inl m
      | Inr (s, given) \<Rightarrow>
          if os_kind s = StoreTrue
          then (if given \<noteq> None then Inl (''argument --'' @ os_name s @ '': ignored explicit argument'')
                else read_options specs as (dict_set (os_name s) ''True'' ns))
          else
            (case given of
               Some v \<Rightarrow> (case accept_value s v of Inl m \<Rightarrow> Inl m | Inr v \<Rightarrow> read_options specs as (dict_set (os_name s) v ns))
             | None \<Rightarrow>
                 (case as of
                    [] \<Rightarrow> Inl (''argument --'' @ os_name s @ '': expected one argument'')
                  | v # rest \<Rightarrow>
                      if option_like v then Inl (''argument --'' @ os_name s @ '': expected one argument'')
                      else (case accept_value s v of Inl m \<Rightarrow> Inl m
                            | Inr v \<Rightarrow> read_options specs rest (dict_set (os_name s) v ns)))))"

definition option_defaults :: "opt_spec list \<Rightarrow> namespace" where
  "option_defaults specs = [(os_name s, the (os_default s)). s \<leftarrow> specs, os_default s \<noteq> None]"

definition parse_cli :: "string list \<Rightarrow> parsed" where
  "parse_cli argv =
     (case argv of
        [] \<Rightarrow> NoCommand
      | cmd # rest \<Rightarrow>
          (case map_of command_options cmd of
             None \<Rightarrow> Usage (''invalid choice: '' @ quoted cmd)
           | Some specs \<Rightarrow>
               (case read_options specs rest (option_defaults specs) of
                  Inl m \<Rightarrow> Usage m
                | Inr ns \<Rightarrow>
                    (case filter (\<lambda>s. os_required s \<and> map_of ns (os_name s) = None) specs of
                       [] \<Rightarrow> Parsed cmd ns
                     | missing \<Rightarrow> Usage (''the following arguments are required: '' @
                         join_with '', '' (map (\<lambda>s. ''--'' @ os_name s) missing))))))"

subsection \<open>Helpers of the commands\<close>

record console =
  co_tty :: bool
  co_stdin :: string
  co_prompts :: "string list"
  co_out :: "json list"

record 'x cli_cfg =
  cc_api :: "'x api_cfg"
  cc_ops_user_id :: string
  cc_env_token :: "string option"

type_synonym 'x cli_world = "console \<times> 'x sched_world"

definition print_json :: "json \<Rightarrow> 'x cli_world \<Rightarrow> 'x cli_world" where
  "print_json j w = ((fst w)\<lparr>co_out := co_out (fst w) @ [j]\<rparr>, snd w)"

definition resolve_passphrase :: "string option \<Rightarrow> 'x cli_world \<Rightarrow> string option \<times> 'x cli_world" where
  \<comment> \<open>A prompt takes the next line typed; standard input is read to its end.\<close>
  "resolve_passphrase raw w =
     (case raw of
        None \<Rightarrow> (None, w)
      | Some r \<Rightarrow>
          if r = ''-'' then
            (if co_tty (fst w)
             then (Some (case co_prompts (fst w) of [] \<Rightarrow> '''' | l # _ \<Rightarrow> l), ((fst w)\<lparr>co_prompts := tl (co_prompts (fst w))\<rparr>, snd w))
             else (Some (rstrip_where (\<lambda>ch. ch = CHR 0x0A) (co_stdin (fst w))), ((fst w)\<lparr>co_stdin := ''''\<rparr>, snd w)))
          else (Some r, w))"

definition truthy_or :: "string option \<Rightarrow> string \<Rightarrow> string" where
  "truthy_or x dflt = (if truthy_str x then the x else dflt)"

definition cli_sink :: "'x cli_cfg \<Rightarrow> namespace \<Rightarrow> error + sink option" where
  \<comment> \<open>\<open>None\<close> is the download sink.\<close>
  "cli_sink g ns =
     (case map_of ns ''sink'' of
        Some k \<Rightarrow>
          if k = ''download'' then Inr None
          else if k = ''local_disk'' then Inr (Some (LocalDisk (truthy_or (map_of ns ''root-dir'') ''/app/data/backups'')))
          else if k = ''scottydev'' then
            (let token = (if truthy_str (map_of ns ''token'') then map_of ns ''token'' else cc_env_token g)
             in if \<not> truthy_str (map_of ns ''base-url'')
                then Inl (ValueError ''--base-url is required for the orchestrator sink'')
                else Inr (Some (ScottyDev (rstrip_where (\<lambda>ch. ch = CHR ''/'') (the (map_of ns ''base-url''))) (map_option JStr token))))
          else if k = ''git_repo'' then
            (if \<not> truthy_str (map_of ns ''repo-url'') then Inl (ValueError ''--repo-url is required for the git_repo sink'')
             else Inr (Some (GitRepo
               \<lparr>gc_repo_url = JStr (the (map_of ns ''repo-url'')),
                gc_clone_dir = truthy_or (map_of ns ''clone-dir'') ''/app/data/backups-git'',
                gc_branch = JStr (truthy_or (map_of ns ''branch'') ''backups''),
                gc_path_template = JStr (truthy_or (map_of ns ''path-template'') ''snapshots/{app_slug}/{scope}/{tenant_slug}''),
                gc_lfs_enabled = (map_of ns ''no-lfs'' = None)\<rparr>)))
          else Inl (ValueError (''unknown sink: '' @ k))
      | None \<Rightarrow> Inl (ValueError ''unknown sink: None''))"

definition default_download_path :: "codec \<Rightarrow> time \<Rightarrow> string \<Rightarrow> string \<Rightarrow> string option \<Rightarrow> string" where
  "default_download_path c now app_name scope tenant =
     app_name @ ''-'' @ (if truthy_str tenant then ''tenant-'' @ the tenant else scope) @ ''-'' @ cd_stamp c now @ ''.tar.gz''"

definition write_bytes :: "string \<Rightarrow> string \<Rightarrow> 'x cli_world \<Rightarrow> (error + unit) \<times> 'x cli_world" where
  \<comment> \<open>The parent directories are made first.\<close>
  "write_bytes target data w =
     (case write_file (local_root target) data (sw_fs (snd w)) of
        Inl x \<Rightarrow> (Inl x, w) | Inr f \<Rightarrow> (Inr (), (fst w, sw_set_fs f (snd w))))"

definition read_bytes :: "string \<Rightarrow> 'x cli_world \<Rightarrow> error + string" where
  "read_bytes source w = (case map_of (sw_fs (snd w)) (local_root source) of None \<Rightarrow> Inl os_error | Some d \<Rightarrow> Inr d)"

subsection \<open>Export\<close>

definition cli_bundle ::
  "'x cli_cfg \<Rightarrow> env \<Rightarrow> namespace \<Rightarrow> 'x cli_world \<Rightarrow> (error + (string \<times> string option)) \<times> 'x cli_world" where
  "cli_bundle g e ns w =
     (let c = sc_codec (ap_sched (cc_api g)); svc = sc_service (ap_sched (cc_api g)); v = sw_world (snd w);
          with = (\<lambda>r slug. case r of Inl x \<Rightarrow> (Inl x, w) | Inr (b, v') \<Rightarrow> (Inr (b, slug), (fst w, (snd w)\<lparr>sw_world := v'\<rparr>)))
      in if map_of ns ''scope'' = Some ''platform''
         then with (export_platform c svc e (cc_ops_user_id g) ''127.0.0.1'' v) None
         else if \<not> truthy_str (map_of ns ''tenant-slug'')
         then (Inl (ValueError ''--tenant-slug is required for --scope=tenant''), w)
         else (case get_by te_slug (the (map_of ns ''tenant-slug'')) (tenants (w_db v)) of
                 None \<Rightarrow> (Inl (ValueError (''tenant not found: '' @ the (map_of ns ''tenant-slug''))), w)
               | Some t \<Rightarrow> with (export_tenant c svc e (te_id t) (te_slug t) (cc_ops_user_id g) ''127.0.0.1'' v) (Some (te_slug t))))"

definition cli_blob :: "'x cli_cfg \<Rightarrow> env \<Rightarrow> string \<Rightarrow> string \<Rightarrow> bool \<Rightarrow> string option \<Rightarrow> string option \<Rightarrow> backup_blob" where
  "cli_blob g e bundle scope encrypted key_fp tenant_slug =
     \<lparr>bb_data = bundle, bb_sha256 = cr_sha256_hex (sc_creds (ap_sched (cc_api g))) bundle, bb_size = int (length bundle),
      bb_app_slug = svc_app_name (sc_service (ap_sched (cc_api g))), bb_scope = scope, bb_kind = ''full'',
      bb_created_at = env_now e, bb_encrypted = encrypted, bb_key_fingerprint = key_fp, bb_tenant_slug = tenant_slug,
      bb_metadata = []\<rparr>"

definition cmd_export :: "'x cli_cfg \<Rightarrow> env \<Rightarrow> namespace \<Rightarrow> 'x cli_world \<Rightarrow> (error + int) \<times> 'x cli_world" where
  "cmd_export g e ns w =
     (let api = cc_api g; sha = cr_sha256_hex (sc_creds (ap_sched api)); scope = truthy_or (map_of ns ''scope'') '''' in
      attempt (cli_bundle g e ns w) (\<lambda>(raw, tenant_slug) w1.
      (case resolve_passphrase (map_of ns ''passphrase'') w1 of (passphrase, w2) \<Rightarrow>
      attempt (api_encrypt api passphrase raw, w2) (\<lambda>(bundle, key_fp) w3.
        if map_of ns ''sink'' = Some ''download'' then
          (let target = truthy_or (map_of ns ''out'')
                 (default_download_path (sc_codec (ap_sched api)) (env_now e) (svc_app_name (sc_service (ap_sched api))) scope tenant_slug)
           in attempt (write_bytes target bundle w3) (\<lambda>_ w4.
             (Inr 0, print_json (JObj [(''status'', JStr ''ok''), (''sink'', JStr ''download''), (''path'', JStr target),
                (''size'', JInt (int (length bundle))), (''sha256'', JStr (sha bundle)), (''encrypted'', JBool (truthy_str passphrase)),
                (''key_fingerprint'', opt_json key_fp)]) w4)))
        else
          attempt (cli_sink g ns, w3) (\<lambda>snk w4.
            (let blob = cli_blob g e bundle scope (truthy_str passphrase) key_fp tenant_slug in
             attempt (case api_put api snk blob (snd w4) of (r, v) \<Rightarrow> (r, (fst w4, v))) (\<lambda>result w5.
               (let kind = truthy_or (map_of ns ''sink'') '''';
                    w6 = (fst w5, sw_set_db ((sw_db (snd w5))\<lparr>backup_runs :=
                            add_row (export_run api e kind blob result) (backup_runs (sw_db (snd w5)))\<rparr>) (snd w5))
                in (Inr 0, print_json (JObj [(''status'', JStr ''ok''), (''sink'', JStr kind), (''locator'', JStr (sw_locator result)),
                     (''size'', JInt (bb_size blob)), (''sha256'', JStr (bb_sha256 blob)), (''encrypted'', JBool (bb_encrypted blob)),
                     (''key_fingerprint'', opt_json key_fp)]) w6)))))))))"

subsection \<open>Restore, verification, runs\<close>

definition cli_get_error :: "error \<Rightarrow> error" where
  "cli_get_error x =
     (case x of
        OtherException m \<Rightarrow> if starts_with ''SinkNotFoundError: '' m then ValueError (drop 19 m) else x
      | _ \<Rightarrow> x)"

definition summary_json :: "restore_summary \<Rightarrow> json" where
  "summary_json s = JObj [(''scope'', JStr (scope_value (rs_scope s))), (''tenant_slug'', opt_json (rs_tenant_slug s)),
     (''contributors_restored'', JList (map JStr (rs_contributors_restored s))),
     (''total_rows_upserted'', JInt (int (rs_total_rows_upserted s))), (''warnings'', JList (map JStr (rs_warnings s)))]"

definition cmd_restore :: "'x cli_cfg \<Rightarrow> env \<Rightarrow> namespace \<Rightarrow> 'x cli_world \<Rightarrow> (error + int) \<times> 'x cli_world" where
  "cmd_restore g e ns w =
     (let api = cc_api g in
      attempt (cli_sink g ns, w) (\<lambda>snk w1.
      attempt (case api_get api snk (truthy_or (map_of ns ''locator'') '''') (snd w1) of
                 Inl x \<Rightarrow> (Inl (cli_get_error x), w1) | Inr d \<Rightarrow> (Inr d, w1)) (\<lambda>data w2.
      (case resolve_passphrase (map_of ns ''passphrase'') w2 of (passphrase, w3) \<Rightarrow>
      attempt (if truthy_str passphrase then decrypt_bundle (sc_gpg (ap_sched api)) data (the passphrase) else Inr data, w3) (\<lambda>raw w4.
      (case restore_bundle (sc_codec (ap_sched api)) (framework_name (ap_brand api)) (sc_service (ap_sched api)) e raw
              (cc_ops_user_id g) ''127.0.0.1'' (sw_world (snd w4)) of
         (Inl x, v) \<Rightarrow> (Inl x, (fst w4, (snd w4)\<lparr>sw_world := v\<rparr>))
       | (Inr s, v) \<Rightarrow> (Inr 0, print_json (summary_json s) (fst w4, (snd w4)\<lparr>sw_world := v\<rparr>))))))))"

definition cmd_verify :: "'x cli_cfg \<Rightarrow> namespace \<Rightarrow> 'x cli_world \<Rightarrow> (error + int) \<times> 'x cli_world" where
  "cmd_verify g ns w =
     (let api = cc_api g; cr = sc_creds (ap_sched api); locator = truthy_or (map_of ns ''locator'') '''';
          expected = truthy_or (map_of ns ''expected-sha256'') '''' in
      attempt (cli_sink g ns, w) (\<lambda>snk w1.
      attempt (case snk of
                 Some (LocalDisk root) \<Rightarrow> local_verify cr root locator expected (sw_fs (snd w1))
               | _ \<Rightarrow> sink_verify cr (api_get api snk) locator expected (snd w1), w1) (\<lambda>ok w2.
        (Inr (if ok then 0 else 2), print_json (JObj [(''locator'', JStr locator), (''matches'', JBool ok)]) w2))))"

definition run_json :: "codec \<Rightarrow> backup_run \<Rightarrow> json" where
  "run_json c r = JObj
     [(''id'', JStr (br_id r)), (''app_slug'', JStr (br_app_slug r)), (''scope'', JStr (br_scope r)), (''kind'', JStr (br_kind r)),
      (''status'', JStr (br_status r)), (''sink_type'', JStr (br_sink_type r)), (''sink_locator'', opt_json (br_sink_locator r)),
      (''bytes_written'', json_of_opt JInt (br_bytes_written r)), (''sha256'', opt_json (br_sha256 r)),
      (''encrypted'', JBool (br_encrypted r)), (''key_fingerprint'', opt_json (br_key_fingerprint r)),
      (''created_at'', JStr (cd_iso c (br_created_at r)))]"

definition cmd_list_runs :: "'x cli_cfg \<Rightarrow> namespace \<Rightarrow> 'x cli_world \<Rightarrow> (error + int) \<times> 'x cli_world" where
  "cmd_list_runs g ns w =
     (case py_int (JStr (truthy_or (map_of ns ''limit'') ''0'')) of
        Inl x \<Rightarrow> (Inl x, w)
      | Inr n \<Rightarrow> (Inr 0, print_json (JList (map (run_json (sc_codec (ap_sched (cc_api g))))
          (sql_limit n (sort_desc br_created_at (backup_runs (sw_db (snd w))))))) w))"

definition cmd_rotate_key :: "'x cli_cfg \<Rightarrow> namespace \<Rightarrow> 'x cli_world \<Rightarrow> (error + int) \<times> 'x cli_world" where
  "cmd_rotate_key g ns w =
     (let gp = sc_gpg (ap_sched (cc_api g)); cr = sc_creds (ap_sched (cc_api g)); outfile = truthy_or (map_of ns ''out'') '''' in
      case resolve_passphrase (map_of ns ''old-passphrase'') w of (old, w1) \<Rightarrow>
     (case resolve_passphrase (map_of ns ''new-passphrase'') w1 of (new, w2) \<Rightarrow>
        if \<not> truthy_str old \<or> \<not> truthy_str new
        then (Inl (ValueError ''both --old-passphrase and --new-passphrase are required''), w2)
        else attempt (read_bytes (truthy_or (map_of ns ''in'') '''') w2, w2) (\<lambda>sealed w3.
             attempt (decrypt_bundle gp sealed (the old), w3) (\<lambda>data w4.
             attempt (encrypt_bundle gp data (the new), w4) (\<lambda>rotated w5.
             attempt (write_bytes outfile rotated w5) (\<lambda>_ w6.
               (Inr 0, print_json (JObj [(''status'', JStr ''ok''), (''out'', JStr outfile), (''size'', JInt (int (length rotated))),
                  (''sha256'', JStr (cr_sha256_hex cr rotated)), (''old_fingerprint'', JStr (fingerprint cr (the old))),
                  (''new_fingerprint'', JStr (fingerprint cr (the new)))]) w6)))))))"

subsection \<open>The program\<close>

definition dispatch_cli :: "'x cli_cfg \<Rightarrow> env \<Rightarrow> string \<Rightarrow> namespace \<Rightarrow> 'x cli_world \<Rightarrow> (error + int) \<times> 'x cli_world" where
  "dispatch_cli g e cmd ns w =
     (if cmd = ''export'' then cmd_export g e ns w
      else if cmd = ''restore'' then cmd_restore g e ns w
      else if cmd = ''verify'' then cmd_verify g ns w
      else if cmd = ''list-runs'' then cmd_list_runs g ns w
      else if cmd = ''rotate-key'' then cmd_rotate_key g ns w
      else (Inr 2, w))"

definition cli_caught :: "error \<Rightarrow> bool" where
  \<comment> \<open>\<open>RuntimeError\<close>, \<open>ValueError\<close> (with \<open>UnsupportedBundleError\<close>) and \<open>CryptoError\<close>.\<close>
  "cli_caught x =
     (case x of RuntimeError m \<Rightarrow> True | ValueError m \<Rightarrow> True
      | OtherException m \<Rightarrow> starts_with ''empty passphrase'' m \<or> starts_with ''gpg '' m
      | _ \<Rightarrow> False)"

definition cli_main :: "'x cli_cfg \<Rightarrow> env \<Rightarrow> string list \<Rightarrow> 'x cli_world \<Rightarrow> (error + int) \<times> 'x cli_world" where
  \<comment> \<open>The exit status, or the exception that ends the program with a traceback.\<close>
  "cli_main g e argv w =
     (case parse_cli argv of
        Usage m \<Rightarrow> (Inr 2, w)
      | NoCommand \<Rightarrow> (Inr 2, w)
      | Parsed cmd ns \<Rightarrow>
          (case dispatch_cli g e cmd ns w of
             (Inl x, w') \<Rightarrow> (if cli_caught x then Inr 1 else Inl x, w')
           | r \<Rightarrow> r))"

subsection \<open>What the parser lets through\<close>

definition options_fit :: "opt_spec list \<Rightarrow> namespace \<Rightarrow> bool" where
  "options_fit specs ns \<longleftrightarrow> (\<forall>s \<in> set specs. \<forall>v. map_of ns (os_name s) = Some v \<longrightarrow>
     (os_choices s = None \<or> v \<in> set (the (os_choices s))) \<and> (os_kind s = IntValue \<longrightarrow> \<not> isl (py_int (JStr v))))"

lemma match_option_mem: "match_option specs a = Inr (s, v) \<Longrightarrow> s \<in> set specs"
  by (auto simp: match_option_def Let_def dest!: get_by_SomeD filter_eq_ConsD split: option.splits prod.splits list.splits)

lemma options_fit_set:
  assumes "distinct (map os_name specs)" and "options_fit specs ns" and "s \<in> set specs"
    and "os_choices s = None \<or> v \<in> set (the (os_choices s))" and "os_kind s = IntValue \<longrightarrow> \<not> isl (py_int (JStr v))"
  shows "options_fit specs (dict_set (os_name s) v ns)"
  unfolding options_fit_def
proof (intro ballI allI impI)
  fix q x
  assume q: "q \<in> set specs" "map_of (dict_set (os_name s) v ns) (os_name q) = Some x"
  show "(os_choices q = None \<or> x \<in> set (the (os_choices q))) \<and> (os_kind q = IntValue \<longrightarrow> \<not> isl (py_int (JStr x)))"
  proof (cases "os_name q = os_name s")
    case True
    then have "q = s" using distinct_keyD [OF assms(1) q(1) assms(3)] by simp
    with q(2) assms(4,5) show ?thesis by (simp add: map_of_dict_set)
  next
    case False
    with q assms(2) show ?thesis by (simp add: map_of_dict_set options_fit_def)
  qed
qed

lemma accept_value_ok:
  "accept_value s v = Inr w \<Longrightarrow> w = v \<and> (os_choices s = None \<or> v \<in> set (the (os_choices s))) \<and>
     (os_kind s = IntValue \<longrightarrow> \<not> isl (py_int (JStr v)))"
  by (auto simp: accept_value_def split: if_splits)

lemma read_options_inv:
  assumes "\<And>ns s v. P ns \<Longrightarrow> s \<in> set specs \<Longrightarrow>
      os_kind s = StoreTrue \<and> v = ''True'' \<or> os_kind s \<noteq> StoreTrue \<and> accept_value s v = Inr v \<Longrightarrow> P (dict_set (os_name s) v ns)"
  shows "read_options specs as ns = Inr ns' \<Longrightarrow> P ns \<Longrightarrow> P ns'"
  using assms
proof (induction specs as ns rule: read_options.induct)
  case (2 specs a as ns)
  from "2.prems"(1) obtain s given where m: "match_option specs a = Inr (s, given)"
    by (auto split: sum.splits)
  note step = "2.prems"(3) [OF "2.prems"(2) match_option_mem [OF m]]
  show ?case
  proof (cases "os_kind s = StoreTrue")
    case True
    with "2.prems"(1) m have "given = None" "read_options specs as (dict_set (os_name s) ''True'' ns) = Inr ns'"
      by (auto split: if_splits)
    with True show ?thesis using "2.IH"(1) [OF m refl True] step "2.prems"(3) by blast
  next
    case False
    have acc: "u = v \<and> accept_value s v = Inr v" if "accept_value s v = Inr u" for u v
      using that accept_value_ok [OF that] by simp
    show ?thesis
    proof (cases given)
      case (Some v)
      with False m "2.prems"(1) obtain u where u: "accept_value s v = Inr u" "read_options specs as (dict_set (os_name s) u ns) = Inr ns'"
        by (auto split: sum.splits)
      with acc [OF u(1)] False have "P (dict_set (os_name s) u ns)" by (intro step) simp
      with u show ?thesis using "2.IH"(3) [OF m refl False Some u(1)] "2.prems"(3) by blast
    next
      case None
      with False m "2.prems"(1) obtain v rest u where u: "as = v # rest" "\<not> option_like v" "accept_value s v = Inr u"
          "read_options specs rest (dict_set (os_name s) u ns) = Inr ns'"
        by (auto split: list.splits if_splits sum.splits)
      with acc [OF u(3)] False have "P (dict_set (os_name s) u ns)" by (intro step) simp
      with u show ?thesis using "2.IH"(2) [OF m refl False None u(1) u(2) u(3)] "2.prems"(3) by blast
    qed
  qed
qed simp

lemma read_options_fit:
  assumes "distinct (map os_name specs)" and "\<forall>s \<in> set specs. os_kind s = StoreTrue \<longrightarrow> os_choices s = None"
    and "read_options specs as ns = Inr ns'" and "options_fit specs ns"
  shows "options_fit specs ns'"
proof (rule read_options_inv [where P = "options_fit specs", OF _ assms(3,4)])
  fix ns s v
  assume a: "options_fit specs ns" "s \<in> set specs"
    and k: "os_kind s = StoreTrue \<and> v = ''True'' \<or> os_kind s \<noteq> StoreTrue \<and> accept_value s v = Inr v"
  have "os_choices s = None \<or> v \<in> set (the (os_choices s))" "os_kind s = IntValue \<longrightarrow> \<not> isl (py_int (JStr v))"
    using k accept_value_ok [of s v v] assms(2) a(2) by auto
  then show "options_fit specs (dict_set (os_name s) v ns)" by (rule options_fit_set [OF assms(1) a])
qed

lemma read_options_keep:
  assumes "read_options specs as ns = Inr ns'" and "map_of ns k \<noteq> None"
  shows "map_of ns' k \<noteq> None"
  by (rule read_options_inv [OF _ assms(1), where P = "\<lambda>ns. map_of ns k \<noteq> None"]) (use assms(2) in \<open>auto simp: map_of_dict_set\<close>)

lemma specs_good:
  "list_all (\<lambda>(cmd, specs). distinct (map os_name specs) \<and>
     list_all (\<lambda>s. os_kind s = StoreTrue \<longrightarrow> os_choices s = None) specs) command_options"
  by code_simp

lemma defaults_fit: "list_all (\<lambda>(cmd, specs). options_fit specs (option_defaults specs)) command_options"
  by (simp add: command_options_def sink_options_def value_opt_def required_opt_def options_fit_def option_defaults_def
      sink_choices_def is_digit_def py_strip_def strip_where_def lstrip_where_def rstrip_where_def is_space_def code_of_def)

lemma parsed_options:
  assumes "parse_cli argv = Parsed cmd ns"
  obtains specs where "map_of command_options cmd = Some specs" and "options_fit specs ns"
    and "\<forall>s \<in> set specs. os_required s \<or> os_default s \<noteq> None \<longrightarrow> map_of ns (os_name s) \<noteq> None"
proof -
  from assms obtain rest specs where p: "map_of command_options cmd = Some specs"
      "read_options specs rest (option_defaults specs) = Inr ns" "filter (\<lambda>s. os_required s \<and> map_of ns (os_name s) = None) specs = []"
    by (auto simp: parse_cli_def split: list.splits option.splits sum.splits)
  from map_of_SomeD [OF p(1)] specs_good defaults_fit
  have "distinct (map os_name specs)" "\<forall>s \<in> set specs. os_kind s = StoreTrue \<longrightarrow> os_choices s = None"
    "options_fit specs (option_defaults specs)"
    by (auto simp: list_all_iff)
  then have "options_fit specs ns" using read_options_fit p(2) by blast
  moreover have "map_of ns (os_name s) \<noteq> None" if "s \<in> set specs" "os_default s \<noteq> None" for s
  proof (rule read_options_keep [OF p(2)])
    have "(os_name s, the (os_default s)) \<in> set (option_defaults specs)" using that by (auto simp: option_defaults_def)
    then show "map_of (option_defaults specs) (os_name s) \<noteq> None" by (metis weak_map_of_SomeI option.distinct(1))
  qed
  moreover have "map_of ns (os_name s) \<noteq> None" if "s \<in> set specs" "os_required s" for s
    using that p(3) by (auto simp: filter_empty_conv)
  ultimately show thesis using p(1) by (intro that [of specs]) blast+
qed

text \<open>Whatever is typed, the sink of a command that has one is a known sink, so \<open>cli_sink\<close> never meets another.\<close>

theorem parsed_sink_known:
  assumes "parse_cli argv = Parsed cmd ns" and "cmd \<in> {''export'', ''restore'', ''verify''}"
  shows "\<exists>k \<in> set sink_choices. map_of ns ''sink'' = Some k"
proof -
  obtain specs where s: "map_of command_options cmd = Some specs" "options_fit specs ns"
      "\<forall>s \<in> set specs. os_required s \<or> os_default s \<noteq> None \<longrightarrow> map_of ns (os_name s) \<noteq> None"
    using parsed_options [OF assms(1)] by metis
  let ?s = "(value_opt ''sink'')\<lparr>os_default := Some ''local_disk'', os_choices := Some sink_choices\<rparr>"
  have m: "?s \<in> set specs" using s(1) assms(2) by (auto simp: command_options_def sink_options_def)
  then have "map_of ns (os_name ?s) \<noteq> None" using s(3) by force
  then obtain k where k: "map_of ns (os_name ?s) = Some k" by blast
  with m s(2) have "k \<in> set sink_choices" by (force simp: options_fit_def)
  with k show ?thesis by (auto simp: value_opt_def)
qed

subsection \<open>Rotating the key of a bundle\<close>

text \<open>
  C23: When \<open>rotate-key\<close> reports success, the new file opens with the new passphrase, whether given with or without
  trailing line breaks, to exactly what the old file opened to with the old one; every other file is as it was.
\<close>

theorem rotate_key_reopens:
  assumes "gpg_ok (sc_gpg (ap_sched (cc_api g)))" and "cmd_rotate_key g ns w = (Inr code, w')"
    and "resolve_passphrase (map_of ns ''old-passphrase'') w = (Some old, w1)"
    and "resolve_passphrase (map_of ns ''new-passphrase'') w1 = (Some new, w2)"
    and "CHR 0x0A \<notin> set (normalise_passphrase new)" and "normalise_passphrase q = normalise_passphrase new"
  shows "code = 0 \<and> (\<exists>sealed data rotated.
    read_bytes (truthy_or (map_of ns ''in'') '''') w = Inr sealed \<and>
    decrypt_bundle (sc_gpg (ap_sched (cc_api g))) sealed old = Inr data \<and>
    read_bytes (truthy_or (map_of ns ''out'') '''') w' = Inr rotated \<and>
    decrypt_bundle (sc_gpg (ap_sched (cc_api g))) rotated q = Inr data) \<and>
    (p \<noteq> local_root (truthy_or (map_of ns ''out'') '''') \<longrightarrow> map_of (sw_fs (snd w')) p = map_of (sw_fs (snd w)) p)"
proof -
  have fs: "sw_fs (snd w2) = sw_fs (snd w)" "sw_fs (snd w1) = sw_fs (snd w)"
    using assms(3,4) by (auto simp: resolve_passphrase_def split: option.splits if_splits)
  let ?gp = "sc_gpg (ap_sched (cc_api g))"
  from assms(2-4) obtain sealed data rotated v where r: "read_bytes (truthy_or (map_of ns ''in'') '''') w2 = Inr sealed"
      "decrypt_bundle ?gp sealed old = Inr data" "encrypt_bundle ?gp data new = Inr rotated"
      "write_bytes (truthy_or (map_of ns ''out'') '''') rotated w2 = (Inr (), v)" "code = 0" "sw_fs (snd w') = sw_fs (snd v)"
    by (auto simp: cmd_rotate_key_def Let_def attempt_Inr print_json_def split: if_splits)
  from r(3) have "normalise_passphrase new \<noteq> []" by (auto simp: encrypt_bundle_def Let_def split: if_splits)
  with decrypt_encrypted [OF assms(1,5) this assms(6), of data] r(3) have "decrypt_bundle ?gp rotated q = Inr data" by fastforce
  moreover have "sw_fs (snd v) = dict_set (local_root (truthy_or (map_of ns ''out'') '''')) rotated (sw_fs (snd w))"
    using r(4) fs by (auto simp: write_bytes_def write_file_def sw_fs_def sw_set_fs_def split: if_splits sum.splits)
  ultimately show ?thesis using r fs by (auto simp: read_bytes_def map_of_dict_set)
qed

subsection \<open>Recovery from the command line\<close>

lemma rstrip_weaker: "(\<And>c. Q c \<Longrightarrow> P c) \<Longrightarrow> rstrip_where P (rstrip_where Q s) = rstrip_where P s"
proof -
  assume qp: "\<And>c. Q c \<Longrightarrow> P c"
  have "dropWhile P (dropWhile Q xs) = dropWhile P xs" for xs by (induction xs) (auto simp: qp)
  then show ?thesis by (simp add: rstrip_where_def)
qed

lemma normalise_trailing:
  "normalise_passphrase (rstrip_where (\<lambda>ch. ch = CHR 0x0A) (p @ [CHR 0x0A])) = normalise_passphrase p"
  unfolding normalise_passphrase_def by (subst rstrip_weaker) (simp_all add: rstrip_where_def)


subsection \<open>Concrete runs\<close>

definition demo_cli :: "unit cli_cfg" where
  "demo_cli = \<lparr>cc_api = demo_api, cc_ops_user_id = ''ops'', cc_env_token = None\<rparr>"

definition demo_console :: "string \<Rightarrow> console" where
  "demo_console typed = \<lparr>co_tty = False, co_stdin = typed @ [CHR 0x0A], co_prompts = [], co_out = []\<rparr>"

definition demo_sealed_world :: "unit sched_world" where
  "demo_sealed_world = \<lparr>sw_world = \<lparr>w_db = empty_db, w_fs = [([''in''], ''pw'' @ [CHR 0x0A] @ ''DATA'')]\<rparr>, sw_ext = ()\<rparr>"

definition demo_rotate_ns :: namespace where
  "demo_rotate_ns = [(''in'', ''/in''), (''out'', ''/d/out''), (''old-passphrase'', ''pw''), (''new-passphrase'', ''-'')]"

lemma demo_rotate_parsed:
  "parse_cli [''rotate-key'', ''--in=/in'', ''--out'', ''/d/out'', ''--old'', ''pw'', ''--new-passphrase'', ''-''] =
     Parsed ''rotate-key'' demo_rotate_ns"
  by code_simp

lemma demo_cli_gpg: "sc_gpg (ap_sched (cc_api demo_cli)) = demo_gpg" "sc_codec (ap_sched (cc_api demo_cli)) = demo_codec"
  by (simp_all add: demo_cli_def demo_api_def demo_sched_def)

lemma demo_roots: "local_root ''/in'' = [''in'']" "local_root ''/d/out'' = [''d'', ''out'']"
  by code_simp+

lemma demo_normal_nw: "normalise_passphrase ''nw'' = ''nw''" "rstrip_where (\<lambda>ch. ch = CHR 0x0A) [CHR ''n'', CHR ''w'', CHR 0x0A] = ''nw''"
  by (simp_all add: normalise_passphrase_def rstrip_where_def)

theorem rotate_key_reopens_witness:
  "\<exists>w' rotated. cmd_rotate_key demo_cli demo_rotate_ns (demo_console ''nw'', demo_sealed_world) = (Inr 0, w') \<and>
     read_bytes ''/d/out'' w' = Inr rotated \<and> decrypt_bundle demo_gpg rotated ''nw'' = Inr ''DATA''"
proof -
  have old: "resolve_passphrase (map_of demo_rotate_ns ''old-passphrase'') (demo_console ''nw'', demo_sealed_world) =
      (Some ''pw'', (demo_console ''nw'', demo_sealed_world))"
    by (simp add: resolve_passphrase_def demo_rotate_ns_def)
  obtain w2 where new: "resolve_passphrase (map_of demo_rotate_ns ''new-passphrase'') (demo_console ''nw'', demo_sealed_world) = (Some ''nw'', w2)"
    and fs: "sw_fs (snd w2) = sw_fs demo_sealed_world"
    by (simp add: resolve_passphrase_def demo_rotate_ns_def demo_console_def demo_normal_nw)
  have sealed: "read_bytes ''/in'' (demo_console ''nw'', demo_sealed_world) = Inr (''pw'' @ [CHR 0x0A] @ ''DATA'')"
    by (simp add: read_bytes_def demo_roots demo_sealed_world_def sw_fs_def)
  have dec: "decrypt_bundle demo_gpg (''pw'' @ [CHR 0x0A] @ ''DATA'') ''pw'' = Inr ''DATA''"
    by (simp add: decrypt_bundle_def demo_normalise demo_gpg_def Let_def starts_with_def)
  obtain w' code where run: "cmd_rotate_key demo_cli demo_rotate_ns (demo_console ''nw'', demo_sealed_world) = (Inr code, w')"
    using old new fs sealed dec
    by (auto simp: cmd_rotate_key_def Let_def demo_rotate_ns_def truthy_str_def truthy_or_def attempt_def demo_cli_gpg
        read_bytes_def demo_roots encrypt_bundle_def demo_normal_nw demo_gpg_def write_bytes_def write_file_def
        demo_sealed_world_def sw_fs_def is_dir_def under_file_def)
  have "CHR 0x0A \<notin> set (normalise_passphrase ''nw'')" by (simp add: demo_normal_nw)
  from rotate_key_reopens [OF _ run old new this refl] sealed dec run show ?thesis
    by (auto simp: demo_cli_gpg demo_rotate_ns_def truthy_or_def truthy_str_def)
qed

definition demo_restore_argv :: "string list" where
  "demo_restore_argv = [''restore'', ''--root-dir'', ''/b'', ''--locator'', ''app/platform/20260101T000000Z-full.tar.gz.gpg'',
     ''--passphrase'', ''-'']"

definition demo_restore_ns :: namespace where
  "demo_restore_ns = [(''sink'', ''local_disk''), (''root-dir'', ''/b''), (''locator'', ''app/platform/20260101T000000Z-full.tar.gz.gpg''),
     (''passphrase'', ''-'')]"

lemma demo_restore_parsed: "parse_cli demo_restore_argv = Parsed ''restore'' demo_restore_ns"
  by code_simp


subsection \<open>What the command line gets wrong\<close>

text \<open>An empty standard input for \<open>--passphrase -\<close> is no error: the bundle is stored unencrypted.\<close>

lemma empty_stdin_unencrypted:
  assumes "\<not> co_tty (fst w)" and "list_all (\<lambda>ch. ch = CHR 0x0A) (co_stdin (fst w))"
  shows "fst (resolve_passphrase (Some ''-'') w) = Some ''''" and "api_encrypt api (Some '''') raw = Inr (raw, None)"
  using assms by (simp_all add: resolve_passphrase_def rstrip_where_def api_encrypt_def truthy_str_def dropWhile_eq_Nil_conv list_all_iff)

text \<open>Two passphrases cannot come from standard input: the first read takes all of it.\<close>

lemma rotate_both_stdin_fails:
  assumes "\<not> co_tty (fst w)" and "map_of ns ''old-passphrase'' = Some ''-''" and "map_of ns ''new-passphrase'' = Some ''-''"
  shows "fst (cmd_rotate_key g ns w) = Inl (ValueError ''both --old-passphrase and --new-passphrase are required'')"
  using assms by (simp add: cmd_rotate_key_def resolve_passphrase_def truthy_str_def rstrip_where_def Let_def)

text \<open>The service of the command line is built without the upload directory: it has no files contributor.\<close>

lemma cli_service_without_files: "''files'' \<notin> set (map fst (svc_contributors (build_backup_service c app_name ver None)))"
  by (simp add: build_backup_service_def truthy_str_def register_def dict_set_def tenants_contributor_def users_contributor_def
      settings_contributor_def secrets_contributor_def items_contributor_def audit_contributor_def)

text \<open>Errors of a sink other than a missing snapshot end the program with a traceback.\<close>

lemma sink_errors_uncaught: "\<not> cli_caught (sink_error m)" "\<not> cli_caught (sink_not_found m)"
  by (simp_all add: cli_caught_def sink_error_def sink_not_found_def starts_with_def)

end
