(* ===== verification/Adapters.thy ===== *)
theory Adapters
  imports AIBackends
begin

section \<open>Adapters of the AI backends\<close>

text \<open>
  \<open>services/ai_backends/generation_schemas.py\<close> and \<open>services/ai_backends/adapters\<close>: the request, the result and
  the seven adapters.  The SDKs, the HTTP client, the subprocess and the OAuth server are parameters: functions of
  what they are called with.  The contract \<open>base.py\<close> states for an adapter is the locale \<open>provider_adapter\<close>,
  interpreted on each of them; the credentials file of Claude Code is state that is passed on.  Log lines and elapsed
  times are left out; the temperature is the number's JSON, which is only passed on; pydantic checks the bounds of
  the fields before the request exists.  No \<open>gr_provider\<close> stands for 'auto'.
\<close>

subsection \<open>Requests and results\<close>

datatype msg_role = MsgUser | MsgAssistant | MsgSystem

fun msg_role_value :: "msg_role \<Rightarrow> string" where
  "msg_role_value MsgUser = ''user''"
| "msg_role_value MsgAssistant = ''assistant''"
| "msg_role_value MsgSystem = ''system''"

record ai_message =
  ms_role :: msg_role
  ms_content :: string

record generation_request =
  gr_prompt :: "string option"
  gr_messages :: "ai_message list"
  gr_system :: "string option"
  gr_max_tokens :: int
  gr_temperature :: json
  gr_stream :: bool
  gr_provider :: "ai_provider option"
  gr_tenant_id :: "string option"

definition require_content :: "generation_request \<Rightarrow> error + generation_request" where
  "require_content r =
     (if \<not> truthy_str (gr_prompt r) \<and> gr_messages r = []
      then Inl (ValueError ''Either 'prompt' or 'messages' must be provided'') else Inr r)"

record generation_result =
  gs_text :: string
  gs_finish_reason :: string
  gs_usage :: "(string \<times> json) list option"
  gs_provider_used :: ai_provider
  gs_attempted :: "(ai_provider \<times> string) list"

definition ai_error_text :: "string \<Rightarrow> (ai_provider \<times> string) list \<Rightarrow> string" where
  "ai_error_text message attempts =
     (if attempts = [] then message
      else message @ '' -- ['' @ join_with ''; '' (map (\<lambda>(p, r). provider_value p @ '': '' @ r) attempts) @ '']'')"

definition messages_from_request :: "generation_request \<Rightarrow> ai_message list" where
  "messages_from_request r =
     gr_messages r @ (if truthy_str (gr_prompt r) then [\<lparr>ms_role = MsgUser, ms_content = the (gr_prompt r)\<rparr>] else [])"

text \<open>What \<open>stream\<close> gives its caller: an asynchronous generator, as the chunks it yields and the exception that ends
  it, or a coroutine that has to be awaited for one.\<close>

type_synonym chunks = "string list \<times> error option"

datatype stream_value = AsyncGenerator chunks | Coroutine "error + chunks"

fun async_for :: "stream_value \<Rightarrow> chunks" where
  "async_for (AsyncGenerator c) = c"
| "async_for (Coroutine r) =
     ([], Some (TypeError ''async for requires an object with __aiter__ method, got coroutine''))"

fun awaited :: "stream_value \<Rightarrow> error + chunks" where
  "awaited (AsyncGenerator c) = Inl (TypeError ''object async_generator cannot be used in await expression'')"
| "awaited (Coroutine r) = r"

text \<open>The contract of \<open>ProviderAdapter\<close>: a result names its provider and no attempts.\<close>

locale provider_adapter =
  fixes provider_name :: ai_provider
    and generate :: "generation_request \<Rightarrow> error + generation_result"
    and stream :: "generation_request \<Rightarrow> stream_value"
  assumes stamped: "generate r = Inr g \<Longrightarrow> gs_provider_used g = provider_name \<and> gs_attempted g = []"
begin

lemma first_attempt_unlisted: "generate r = Inr g \<Longrightarrow> (provider_name, reason) \<notin> set (gs_attempted g)"
  using stamped by simp

end

locale one_chunk_adapter = provider_adapter +
  assumes one_chunk: "stream r = Coroutine (map_sum id (\<lambda>g. ([gs_text g], None)) (generate r))"
begin

lemma streamed_text: "generate r = Inr g \<Longrightarrow> awaited (stream r) = Inr ([gs_text g], None)"
  by (simp add: one_chunk)

lemma not_iterable: "fst (async_for (stream r)) = [] \<and> (\<exists>t. snd (async_for (stream r)) = Some (TypeError t))"
  by (simp add: one_chunk)

end

locale chunked_adapter = provider_adapter +
  assumes generator: "\<exists>c. stream r = AsyncGenerator c"
begin

lemma not_awaitable: "\<exists>t. awaited (stream r) = Inl (TypeError t)"
  using generator [of r] by auto

end

subsection \<open>The OpenAI-compatible adapters\<close>

text \<open>
  A client of the SDK is what its \<open>create\<close> answers to keyword arguments: an exception, a completion or the chunks of a
  stream.  The SDK itself makes a client from keyword arguments or raises; \<open>None\<close> is a package that is not installed.
\<close>

record chat_choice =
  cc_content :: "string option"
  cc_finish_reason :: "string option"

record chat_response =
  cr_choices :: "chat_choice list"
  cr_usage :: "(int \<times> int) option"

record chat_client =
  cl_create :: "(string \<times> json) list \<Rightarrow> error + chat_response"
  cl_stream :: "(string \<times> json) list \<Rightarrow> error + (string option list list \<times> error option)"

type_synonym chat_sdk = "((string \<times> json) list \<Rightarrow> error + chat_client) option"

definition message_json :: "ai_message \<Rightarrow> json" where
  "message_json m = JObj [(''role'', JStr (msg_role_value (ms_role m))), (''content'', JStr (ms_content m))]"

definition chat_messages :: "generation_request \<Rightarrow> json list" where
  "chat_messages r =
     (if truthy_str (gr_system r) then [JObj [(''role'', JStr ''system''), (''content'', JStr (the (gr_system r)))]] else []) @
     map message_json (messages_from_request r)"

definition chat_kwargs :: "string \<Rightarrow> generation_request \<Rightarrow> (string \<times> json) list" where
  "chat_kwargs model r =
     [(''model'', JStr model), (''messages'', JList (chat_messages r)), (''max_tokens'', JInt (gr_max_tokens r)),
      (''temperature'', gr_temperature r)]"

definition index_fault :: error where "index_fault = OtherException ''IndexError: list index out of range''"

definition str_or_default :: "string option \<Rightarrow> string \<Rightarrow> string" where
  \<comment> \<open>\<open>x or default\<close>\<close>
  "str_or_default s dflt = (if truthy_str s then the s else dflt)"

definition chat_result :: "ai_provider \<Rightarrow> chat_response \<Rightarrow> error + generation_result" where
  "chat_result p resp =
     (case cr_choices resp of
        [] \<Rightarrow> Inl index_fault
      | c # cs \<Rightarrow>
          Inr \<lparr>gs_text = str_or_default (cc_content c) '''', gs_finish_reason = str_or_default (cc_finish_reason c) ''stop'',
               gs_usage = map_option (\<lambda>(i, k). [(''prompt_tokens'', JInt i), (''completion_tokens'', JInt k)]) (cr_usage resp),
               gs_provider_used = p, gs_attempted = []\<rparr>)"

definition chat_generate ::
  "ai_provider \<Rightarrow> error + chat_client \<Rightarrow> string \<Rightarrow> generation_request \<Rightarrow> error + generation_result" where
  "chat_generate p client model r =
     (case client of Inl x \<Rightarrow> Inl x
      | Inr cl \<Rightarrow> (case cl_create cl (chat_kwargs model r) of Inl x \<Rightarrow> Inl x | Inr resp \<Rightarrow> chat_result p resp))"

fun chunk_texts :: "string option list list \<Rightarrow> error option \<Rightarrow> chunks" where
  \<comment> \<open>A chunk is the contents of its choices; only the first is looked at.\<close>
  "chunk_texts [] ending = ([], ending)"
| "chunk_texts ([] # cs) ending = ([], Some index_fault)"
| "chunk_texts ((d # ds) # cs) ending =
     (case chunk_texts cs ending of (ts, x) \<Rightarrow> ((if truthy_str d then the d # ts else ts), x))"

definition chat_stream :: "error + chat_client \<Rightarrow> string \<Rightarrow> generation_request \<Rightarrow> stream_value" where
  "chat_stream client model r =
     AsyncGenerator
       (case client of Inl x \<Rightarrow> ([], Some x)
        | Inr cl \<Rightarrow>
            (case cl_stream cl (chat_kwargs model r @ [(''stream'', JBool True)]) of
               Inl x \<Rightarrow> ([], Some x) | Inr (cs, ending) \<Rightarrow> chunk_texts cs ending))"

record openai_adapter =
  oa_api_key :: string
  oa_model :: string
  oa_sdk_client :: "chat_client option"

definition openai_get_client :: "chat_sdk \<Rightarrow> openai_adapter \<Rightarrow> error + chat_client" where
  "openai_get_client sdk a =
     (case oa_sdk_client a of Some cl \<Rightarrow> Inr cl
      | None \<Rightarrow> (case sdk of None \<Rightarrow> Inl (RuntimeError ''openai package not installed'')
                 | Some build \<Rightarrow> build (if oa_api_key a = '''' then [] else [(''api_key'', JStr (oa_api_key a))])))"

definition openai_generate :: "chat_sdk \<Rightarrow> openai_adapter \<Rightarrow> generation_request \<Rightarrow> error + generation_result" where
  "openai_generate sdk a r = chat_generate OPENAI (openai_get_client sdk a) (oa_model a) r"

definition openai_stream :: "chat_sdk \<Rightarrow> openai_adapter \<Rightarrow> generation_request \<Rightarrow> stream_value" where
  "openai_stream sdk a r = chat_stream (openai_get_client sdk a) (oa_model a) r"

definition openai_health :: "(string \<rightharpoonup> string) \<Rightarrow> openai_adapter \<Rightarrow> bool \<times> string" where
  "openai_health environ a =
     (if oa_api_key a \<noteq> '''' \<or> truthy_str (environ ''OPENAI_API_KEY'')
      then (True, ''API key configured'') else (False, ''no API key''))"

record azure_adapter =
  za_endpoint :: string
  za_api_key :: string
  za_model :: string
  za_api_version :: string
  za_sdk_client :: "chat_client option"

definition or_environ :: "(string \<rightharpoonup> string) \<Rightarrow> string \<Rightarrow> string \<Rightarrow> string" where
  \<comment> \<open>\<open>s or os.environ.get(name, "")\<close>\<close>
  "or_environ environ s name = (if s \<noteq> '''' then s else str_or_default (environ name) '''')"

definition azure_get_client :: "chat_sdk \<Rightarrow> (string \<rightharpoonup> string) \<Rightarrow> azure_adapter \<Rightarrow> error + chat_client" where
  "azure_get_client sdk environ a =
     (case za_sdk_client a of Some cl \<Rightarrow> Inr cl
      | None \<Rightarrow>
          (case sdk of None \<Rightarrow> Inl (RuntimeError ''openai package not installed'')
           | Some build \<Rightarrow>
               let endpoint = or_environ environ (za_endpoint a) ''AZURE_OPENAI_ENDPOINT'';
                   api_key = or_environ environ (za_api_key a) ''AZURE_OPENAI_KEY''
               in if endpoint = '''' then Inl (RuntimeError ''AZURE_OPENAI_ENDPOINT not configured'')
                  else build [(''azure_endpoint'', JStr endpoint), (''api_key'', JStr api_key),
                             (''api_version'', JStr (za_api_version a))]))"

definition azure_generate ::
  "chat_sdk \<Rightarrow> (string \<rightharpoonup> string) \<Rightarrow> azure_adapter \<Rightarrow> generation_request \<Rightarrow> error + generation_result" where
  "azure_generate sdk environ a r = chat_generate AZURE_OPENAI (azure_get_client sdk environ a) (za_model a) r"

definition azure_stream :: "chat_sdk \<Rightarrow> (string \<rightharpoonup> string) \<Rightarrow> azure_adapter \<Rightarrow> generation_request \<Rightarrow> stream_value" where
  "azure_stream sdk environ a r = chat_stream (azure_get_client sdk environ a) (za_model a) r"

definition azure_health :: "(string \<rightharpoonup> string) \<Rightarrow> azure_adapter \<Rightarrow> bool \<times> string" where
  "azure_health environ a =
     (let endpoint = or_environ environ (za_endpoint a) ''AZURE_OPENAI_ENDPOINT'';
          api_key = or_environ environ (za_api_key a) ''AZURE_OPENAI_KEY''
      in if endpoint = '''' \<or> api_key = '''' then (False, ''endpoint or API key not configured'')
         else (True, ''endpoint configured: '' @ take 40 endpoint))"

record custom_adapter =
  cu_base_url :: string
  cu_api_key :: string
  cu_model :: string
  cu_timeout :: int
  cu_sdk_client :: "chat_client option"

definition custom_get_client :: "chat_sdk \<Rightarrow> custom_adapter \<Rightarrow> error + chat_client" where
  "custom_get_client sdk a =
     (case cu_sdk_client a of Some cl \<Rightarrow> Inr cl
      | None \<Rightarrow>
          (case sdk of None \<Rightarrow> Inl (RuntimeError ''openai package not installed'')
           | Some build \<Rightarrow>
               if cu_base_url a = '''' then Inl (RuntimeError ''custom adapter requires a base_url'')
               else build [(''base_url'', JStr (cu_base_url a)), (''api_key'', JStr (cu_api_key a)),
                          (''timeout'', JInt (cu_timeout a))]))"

definition custom_generate :: "chat_sdk \<Rightarrow> custom_adapter \<Rightarrow> generation_request \<Rightarrow> error + generation_result" where
  "custom_generate sdk a r = chat_generate CUSTOM (custom_get_client sdk a) (cu_model a) r"

definition custom_stream :: "chat_sdk \<Rightarrow> custom_adapter \<Rightarrow> generation_request \<Rightarrow> stream_value" where
  "custom_stream sdk a r = chat_stream (custom_get_client sdk a) (cu_model a) r"

definition custom_health :: "custom_adapter \<Rightarrow> bool \<times> string" where
  "custom_health a =
     (if cu_base_url a = '''' then (False, ''no base_url configured'')
      else (True, ''configured: '' @ take 60 (cu_base_url a)))"

lemma chat_generate_stamped:
  "chat_generate p cl m r = Inr g \<Longrightarrow> gs_provider_used g = p \<and> gs_attempted g = []"
  by (auto simp: chat_generate_def chat_result_def split: sum.splits list.splits)

interpretation openai: chunked_adapter OPENAI "openai_generate sdk a" "openai_stream sdk a"
  by unfold_locales (auto simp: openai_generate_def openai_stream_def chat_stream_def dest: chat_generate_stamped)

interpretation azure: chunked_adapter AZURE_OPENAI "azure_generate sdk environ a" "azure_stream sdk environ a"
  by unfold_locales (auto simp: azure_generate_def azure_stream_def chat_stream_def dest: chat_generate_stamped)

interpretation custom: chunked_adapter CUSTOM "custom_generate sdk a" "custom_stream sdk a"
  by unfold_locales (auto simp: custom_generate_def custom_stream_def chat_stream_def dest: chat_generate_stamped)

subsection \<open>The credentials file of Claude Code\<close>

text \<open>\<open>post\<close> is the body the OAuth server answers to a request body, if it answers.\<close>

record creds_file =
  cf_text :: "string option"
  cf_writable :: bool

definition token_like :: "json option \<Rightarrow> string option" where
  \<comment> \<open>The value if it is a text that starts with \<open>sk-ant-\<close>; any other value ends in None, by a test or by an
     exception the caller turns into None.\<close>
  "token_like j = (case j of Some (JStr s) \<Rightarrow> if starts_with ''sk-ant-'' s then Some s else None | _ \<Rightarrow> None)"

definition seconds_of :: "json option \<Rightarrow> int option" where
  \<comment> \<open>\<open>result.get("expires_in", 3600)\<close> as a number that can be added to one.\<close>
  "seconds_of j = (case j of None \<Rightarrow> Some 3600 | Some (JInt n) \<Rightarrow> Some n | Some (JBool b) \<Rightarrow> Some (of_bool b) | _ \<Rightarrow> None)"

definition refresh_request :: "json \<Rightarrow> json" where
  "refresh_request refresh_token = JObj [(''grant_type'', JStr ''refresh_token''), (''refresh_token'', refresh_token)]"

definition renewed_oauth :: "time \<Rightarrow> string \<Rightarrow> json \<Rightarrow> int \<Rightarrow> (string \<times> json) list \<Rightarrow> (string \<times> json) list" where
  "renewed_oauth now new_access new_refresh expires_in oauth =
     dict_set ''expiresAt'' (JInt (now div 1000 + expires_in * 1000))
       (dict_set ''refreshToken'' new_refresh (dict_set ''accessToken'' (JStr new_access) oauth))"

definition try_refresh_token ::
  "codec \<Rightarrow> (string \<Rightarrow> string option) \<Rightarrow> time \<Rightarrow> (string \<times> json) list \<Rightarrow> (string \<times> json) list \<Rightarrow> creds_file \<Rightarrow>
   string option \<times> creds_file" where
  "try_refresh_token c post now data oauth f =
     (if \<not> truthy_json (map_of oauth ''refreshToken'') then (None, f)
      else let refresh_token = the (map_of oauth ''refreshToken'') in
        (case Option.bind (post (cd_dumps c (refresh_request refresh_token))) (cd_loads c) of
           Some (JObj result) \<Rightarrow>
             (case (token_like (map_of result ''access_token''), seconds_of (map_of result ''expires_in'')) of
                (Some new_access, Some expires_in) \<Rightarrow>
                  let new_refresh = (case map_of result ''refresh_token'' of None \<Rightarrow> refresh_token | Some j \<Rightarrow> j);
                      renewed = renewed_oauth now new_access new_refresh expires_in oauth;
                      text = cd_dumps c (JObj (dict_set ''claudeAiOauth'' (JObj renewed) data))
                  in if cf_writable f then (Some new_access, f\<lparr>cf_text := Some text\<rparr>) else (None, f)
              | _ \<Rightarrow> (None, f))
         | _ \<Rightarrow> (None, f)))"

definition expiry_ms :: "json option \<Rightarrow> int option option" where
  \<comment> \<open>\<open>expires_at = oauth.get("expiresAt", 0)\<close>: a falsy value, a number, or one the comparison fails on.\<close>
  "expiry_ms j =
     (if \<not> truthy_json j then Some None
      else (case j of Some (JInt n) \<Rightarrow> Some (Some n) | Some (JBool b) \<Rightarrow> Some (Some 1) | _ \<Rightarrow> None))"

definition oauth_of :: "codec \<Rightarrow> string option \<Rightarrow> ((string \<times> json) list \<times> (string \<times> json) list) option" where
  \<comment> \<open>The file's object and the object under \<open>claudeAiOauth\<close>.\<close>
  "oauth_of c text =
     (case Option.bind text (cd_loads c) of
        Some (JObj data) \<Rightarrow> (case map_of data ''claudeAiOauth'' of Some (JObj oauth) \<Rightarrow> Some (data, oauth) | _ \<Rightarrow> None)
      | _ \<Rightarrow> None)"

definition read_claude_code_token ::
  "codec \<Rightarrow> (string \<Rightarrow> string option) \<Rightarrow> time \<Rightarrow> creds_file \<Rightarrow> string option \<times> creds_file" where
  "read_claude_code_token c post now f =
     (case oauth_of c (cf_text f) of
        None \<Rightarrow> (None, f)
      | Some (data, oauth) \<Rightarrow>
          (case (token_like (map_of oauth ''accessToken''), expiry_ms (map_of oauth ''expiresAt'')) of
             (None, _) \<Rightarrow> (None, f)
           | (Some token, None) \<Rightarrow> (None, f)
           | (Some token, Some None) \<Rightarrow> (Some token, f)
           | (Some token, Some (Some ms)) \<Rightarrow>
               if now > (ms - 120000) * 1000
               then (case try_refresh_token c post now data oauth f of
                       (Some new, f') \<Rightarrow> (Some new, f') | (None, f') \<Rightarrow> (Some token, f'))
               else (Some token, f)))"

subsection \<open>The Anthropic adapter\<close>

record claude_response =
  cp_content :: "string option list"
  cp_stop_reason :: "string option"
  cp_usage :: "(int \<times> int) option"

record claude_client =
  cl_messages_create :: "(string \<times> json) list \<Rightarrow> error + claude_response"
  cl_messages_stream :: "(string \<times> json) list \<Rightarrow> chunks"

type_synonym claude_sdk = "((string \<times> json) list \<Rightarrow> error + claude_client) option"

record claude_api_adapter =
  ca_api_key :: string
  ca_model :: string
  ca_sdk_client :: "claude_client option"

definition resolve_key ::
  "codec \<Rightarrow> (string \<Rightarrow> string option) \<Rightarrow> (string \<rightharpoonup> string) \<Rightarrow> time \<Rightarrow> claude_api_adapter \<Rightarrow> creds_file \<Rightarrow>
   string option \<times> creds_file" where
  "resolve_key c post environ now a f =
     (if ca_api_key a \<noteq> '''' then (Some (ca_api_key a), f)
      else if truthy_str (environ ''ANTHROPIC_API_KEY'') then (environ ''ANTHROPIC_API_KEY'', f)
      else read_claude_code_token c post now f)"

definition claude_get_client ::
  "codec \<Rightarrow> (string \<Rightarrow> string option) \<Rightarrow> claude_sdk \<Rightarrow> (string \<rightharpoonup> string) \<Rightarrow> time \<Rightarrow> claude_api_adapter \<Rightarrow> creds_file \<Rightarrow>
   (error + claude_client) \<times> creds_file" where
  "claude_get_client c post sdk environ now a f =
     (case ca_sdk_client a of Some cl \<Rightarrow> (Inr cl, f)
      | None \<Rightarrow>
          (case sdk of None \<Rightarrow> (Inl (RuntimeError ''anthropic package not installed''), f)
           | Some build \<Rightarrow>
               (case resolve_key c post environ now a f of
                  (key, f') \<Rightarrow> (build (if truthy_str key then [(''api_key'', JStr (the key))] else []), f'))))"

definition claude_kwargs :: "string \<Rightarrow> generation_request \<Rightarrow> (string \<times> json) list" where
  "claude_kwargs model r =
     [(''model'', JStr model), (''max_tokens'', JInt (gr_max_tokens r)),
      (''messages'', JList (map message_json (messages_from_request r)))] @
     (if truthy_str (gr_system r) then [(''system'', JStr (the (gr_system r)))] else []) @
     (if gr_temperature r \<noteq> JNull then [(''temperature'', gr_temperature r)] else [])"

definition claude_result :: "claude_response \<Rightarrow> error + generation_result" where
  "claude_result resp =
     (case (case cp_content resp of [] \<Rightarrow> Some '''' | b # bs \<Rightarrow> b) of
        None \<Rightarrow> Inl (OtherException ''AttributeError: text'')
      | Some t \<Rightarrow>
          Inr \<lparr>gs_text = t, gs_finish_reason = str_or_default (cp_stop_reason resp) ''end_turn'',
               gs_usage = map_option (\<lambda>(i, k). [(''input_tokens'', JInt i), (''output_tokens'', JInt k)]) (cp_usage resp),
               gs_provider_used = CLAUDE_API, gs_attempted = []\<rparr>)"

definition claude_generate_with :: "error + claude_client \<Rightarrow> string \<Rightarrow> generation_request \<Rightarrow> error + generation_result" where
  "claude_generate_with client model r =
     (case client of Inl x \<Rightarrow> Inl x
      | Inr cl \<Rightarrow> (case cl_messages_create cl (claude_kwargs model r) of Inl x \<Rightarrow> Inl x | Inr resp \<Rightarrow> claude_result resp))"

definition claude_stream_with :: "error + claude_client \<Rightarrow> string \<Rightarrow> generation_request \<Rightarrow> stream_value" where
  "claude_stream_with client model r =
     AsyncGenerator (case client of Inl x \<Rightarrow> ([], Some x) | Inr cl \<Rightarrow> cl_messages_stream cl (claude_kwargs model r))"

definition claude_api_generate ::
  "codec \<Rightarrow> (string \<Rightarrow> string option) \<Rightarrow> claude_sdk \<Rightarrow> (string \<rightharpoonup> string) \<Rightarrow> time \<Rightarrow> claude_api_adapter \<Rightarrow>
   generation_request \<Rightarrow> creds_file \<Rightarrow> (error + generation_result) \<times> creds_file" where
  "claude_api_generate c post sdk environ now a r f =
     (case claude_get_client c post sdk environ now a f of (cl, f') \<Rightarrow> (claude_generate_with cl (ca_model a) r, f'))"

definition claude_api_stream ::
  "codec \<Rightarrow> (string \<Rightarrow> string option) \<Rightarrow> claude_sdk \<Rightarrow> (string \<rightharpoonup> string) \<Rightarrow> time \<Rightarrow> claude_api_adapter \<Rightarrow>
   generation_request \<Rightarrow> creds_file \<Rightarrow> stream_value \<times> creds_file" where
  \<comment> \<open>The state is the one after the first step of the generator, which resolves the key.\<close>
  "claude_api_stream c post sdk environ now a r f =
     (case claude_get_client c post sdk environ now a f of (cl, f') \<Rightarrow> (claude_stream_with cl (ca_model a) r, f'))"

definition claude_api_health ::
  "codec \<Rightarrow> (string \<Rightarrow> string option) \<Rightarrow> (string \<rightharpoonup> string) \<Rightarrow> time \<Rightarrow> claude_api_adapter \<Rightarrow> creds_file \<Rightarrow>
   (bool \<times> string) \<times> creds_file" where
  "claude_api_health c post environ now a f =
     (case resolve_key c post environ now a f of
        (key, f') \<Rightarrow> (if truthy_str key then (True, ''API key configured'') else (False, ''no API key available''), f'))"

interpretation claude_api: chunked_adapter CLAUDE_API
  "\<lambda>r. fst (claude_api_generate c post sdk environ now a r f)" "\<lambda>r. fst (claude_api_stream c post sdk environ now a r f)"
  by unfold_locales
     (auto simp: claude_api_generate_def claude_api_stream_def claude_generate_with_def claude_stream_with_def claude_result_def
       split: prod.splits sum.splits option.splits)

subsection \<open>The Claude CLI adapter\<close>

datatype cli_run = CliMissing error | CliTimeout | CliExit int string string

definition MAX_STDIN_CHARS :: nat where "MAX_STDIN_CHARS = 200000"

definition stdin_parts :: "generation_request \<Rightarrow> string list" where
  "stdin_parts r =
     (if truthy_str (gr_system r) then [''<system>\<newline>'' @ the (gr_system r) @ ''\<newline></system>''] else []) @
     map (\<lambda>m. let tag = msg_role_value (ms_role m) in ''<'' @ tag @ ''>\<newline>'' @ ms_content m @ ''\<newline></'' @ tag @ ''>'')
       (messages_from_request r)"

definition build_stdin_prompt :: "generation_request \<Rightarrow> string" where
  "build_stdin_prompt r =
     (let combined = join_with ''\<newline>\<newline>'' (stdin_parts r)
      in if length combined > MAX_STDIN_CHARS then take MAX_STDIN_CHARS combined else combined)"

record cli_adapter =
  ci_model :: string
  ci_timeout :: int

definition cli_exec :: "(string list \<Rightarrow> string \<Rightarrow> cli_run) \<Rightarrow> cli_adapter \<Rightarrow> string \<Rightarrow> error + string" where
  "cli_exec run a stdin_text =
     (case run [''claude'', ''-p'', ''--model'', ci_model a] stdin_text of
        CliMissing x \<Rightarrow> Inl x
      | CliTimeout \<Rightarrow> Inl (RuntimeError (''claude CLI timed out after '' @ int_str (ci_timeout a) @ ''s''))
      | CliExit rc out err \<Rightarrow>
          if rc \<noteq> 0 then Inl (RuntimeError (''claude CLI exited with code '' @ int_str rc @ '': '' @ take 500 err))
          else Inr (py_strip out))"

definition cli_generate ::
  "(string list \<Rightarrow> string \<Rightarrow> cli_run) \<Rightarrow> cli_adapter \<Rightarrow> generation_request \<Rightarrow> error + generation_result" where
  "cli_generate run a r =
     (case cli_exec run a (build_stdin_prompt r) of
        Inl x \<Rightarrow> Inl x
      | Inr t \<Rightarrow> Inr \<lparr>gs_text = t, gs_finish_reason = ''end_turn'', gs_usage = None, gs_provider_used = CLAUDE_CLI,
                      gs_attempted = []\<rparr>)"

definition cli_stream :: "(string list \<Rightarrow> string \<Rightarrow> cli_run) \<Rightarrow> cli_adapter \<Rightarrow> generation_request \<Rightarrow> stream_value" where
  "cli_stream run a r =
     Coroutine (case cli_exec run a (build_stdin_prompt r) of Inl x \<Rightarrow> Inl x | Inr t \<Rightarrow> Inr ([t], None))"

definition cli_health :: "bool \<Rightarrow> bool \<times> string" where
  "cli_health found = (found, if found then ''claude binary found'' else ''claude binary not in PATH'')"

interpretation claude_cli: one_chunk_adapter CLAUDE_CLI "cli_generate run a" "cli_stream run a"
  by unfold_locales (auto simp: cli_generate_def cli_stream_def split: sum.splits)

subsection \<open>The Ollama and DGX adapters\<close>

text \<open>
  An HTTP client is what a POST of a JSON body and a GET answer: an exception, or the status with the body if it is
  JSON.  No module-level client is \<open>None\<close> when httpx is not installed.
\<close>

record ollama_http =
  oh_post :: "string \<Rightarrow> json \<Rightarrow> error + (int \<times> json option)"
  oh_get :: "string \<Rightarrow> error + (int \<times> json option)"

record ollama_adapter =
  ol_url :: string
  ol_model :: string
  ol_http_client :: "ollama_http option"
  ol_timeout :: int

definition ollama_init :: "string \<Rightarrow> string \<Rightarrow> ollama_http option \<Rightarrow> int \<Rightarrow> ollama_adapter" where
  "ollama_init url model client timeout =
     \<lparr>ol_url = rstrip_slash url, ol_model = model, ol_http_client = client, ol_timeout = timeout\<rparr>"

definition generation_options :: "generation_request \<Rightarrow> json" where
  "generation_options r = JObj [(''num_predict'', JInt (gr_max_tokens r)), (''temperature'', gr_temperature r)]"

definition build_chat_payload :: "generation_request \<Rightarrow> string \<Rightarrow> json" where
  "build_chat_payload r model =
     JObj [(''model'', JStr model), (''messages'', JList (chat_messages r)), (''stream'', JBool False),
           (''options'', generation_options r)]"

definition build_generate_payload :: "generation_request \<Rightarrow> string \<Rightarrow> json" where
  "build_generate_payload r model =
     JObj [(''model'', JStr model),
           (''prompt'', JStr (join_with ''\<newline>\<newline>''
              ((if truthy_str (gr_system r) then [the (gr_system r)] else []) @
               map (\<lambda>m. msg_role_value (ms_role m) @ '': '' @ ms_content m) (messages_from_request r)))),
           (''stream'', JBool False), (''options'', generation_options r)]"

definition ollama_get_client :: "(int \<Rightarrow> ollama_http) option \<Rightarrow> ollama_adapter \<Rightarrow> error + ollama_http" where
  "ollama_get_client httpx a =
     (case ol_http_client a of Some cl \<Rightarrow> Inr cl
      | None \<Rightarrow> (case httpx of None \<Rightarrow> Inl (RuntimeError ''httpx package not installed'') | Some open_client \<Rightarrow> Inr (open_client (ol_timeout a))))"

definition checked_json :: "error + (int \<times> json option) \<Rightarrow> error + json" where
  \<comment> \<open>\<open>resp.raise_for_status()\<close> and \<open>resp.json()\<close>\<close>
  "checked_json answer =
     (case answer of
        Inl x \<Rightarrow> Inl x
      | Inr (status, body) \<Rightarrow>
          if status < 200 \<or> 300 \<le> status then Inl (OtherException (''HTTPStatusError: '' @ int_str status))
          else (case body of None \<Rightarrow> Inl (ValueError ''JSONDecodeError'') | Some j \<Rightarrow> Inr j))"

definition ollama_post :: "ollama_http \<Rightarrow> ollama_adapter \<Rightarrow> string \<Rightarrow> json \<Rightarrow> error + json" where
  "ollama_post cl a path payload = checked_json (oh_post cl (ol_url a @ path) payload)"

definition no_attribute :: error where "no_attribute = OtherException ''AttributeError''"

definition chat_answer :: "json \<Rightarrow> error + (json \<times> json \<times> (string \<times> json) list)" where
  \<comment> \<open>The text, finish reason and usage read from the answer of \<open>/api/chat\<close>.\<close>
  "chat_answer data =
     (case data of
        JObj d \<Rightarrow>
          (case get_or ''message'' (JObj []) d of
             JObj msg \<Rightarrow>
               (case get_or ''content'' (JStr '''') msg of
                  JStr s \<Rightarrow>
                    Inr (if py_strip s = '''' \<and> truthy_json (map_of msg ''thinking'') then the (map_of msg ''thinking'') else JStr s,
                         get_or ''done_reason'' (JStr ''stop'') d,
                         [(''prompt_eval_count'', get_or ''prompt_eval_count'' JNull d),
                          (''eval_count'', get_or ''eval_count'' JNull d)])
                | _ \<Rightarrow> Inl no_attribute)
           | _ \<Rightarrow> Inl no_attribute)
      | _ \<Rightarrow> Inl no_attribute)"

definition ollama_result :: "json \<Rightarrow> json \<Rightarrow> (string \<times> json) list option \<Rightarrow> error + generation_result" where
  \<comment> \<open>\<open>len(text)\<close>, then pydantic's check that both values are texts.\<close>
  "ollama_result text finish usage =
     (case (text, finish) of
        (JStr t, JStr fr) \<Rightarrow> Inr \<lparr>gs_text = t, gs_finish_reason = fr, gs_usage = usage, gs_provider_used = OLLAMA, gs_attempted = []\<rparr>
      | (JNull, _) \<Rightarrow> Inl (TypeError ''object has no len()'')
      | (JBool b, _) \<Rightarrow> Inl (TypeError ''object has no len()'')
      | (JInt n, _) \<Rightarrow> Inl (TypeError ''object has no len()'')
      | _ \<Rightarrow> Inl (ValueError ''validation error for GenerationResult''))"

definition ollama_fallback :: "ollama_http \<Rightarrow> ollama_adapter \<Rightarrow> generation_request \<Rightarrow> error + generation_result" where
  "ollama_fallback cl a r =
     (case ollama_post cl a ''/api/generate'' (build_generate_payload r (ol_model a)) of
        Inl x \<Rightarrow> Inl x
      | Inr (JObj d) \<Rightarrow> ollama_result (get_or ''response'' (JStr '''') d) (get_or ''done_reason'' (JStr ''stop'') d) None
      | Inr _ \<Rightarrow> Inl no_attribute)"

definition ollama_generate ::
  "(int \<Rightarrow> ollama_http) option \<Rightarrow> ollama_adapter \<Rightarrow> generation_request \<Rightarrow> error + generation_result" where
  "ollama_generate httpx a r =
     (case ollama_get_client httpx a of
        Inl x \<Rightarrow> Inl x
      | Inr cl \<Rightarrow>
          (case (case ollama_post cl a ''/api/chat'' (build_chat_payload r (ol_model a)) of Inl x \<Rightarrow> Inl x | Inr j \<Rightarrow> chat_answer j) of
             Inr (text, finish, usage) \<Rightarrow> ollama_result text finish (Some usage)
           | Inl chat_err \<Rightarrow> ollama_fallback cl a r))"

definition single_chunk :: "error + generation_result \<Rightarrow> stream_value" where
  "single_chunk res = Coroutine (case res of Inl x \<Rightarrow> Inl x | Inr g \<Rightarrow> Inr ([gs_text g], None))"

definition ollama_stream :: "(int \<Rightarrow> ollama_http) option \<Rightarrow> ollama_adapter \<Rightarrow> generation_request \<Rightarrow> stream_value" where
  "ollama_stream httpx a r = single_chunk (ollama_generate httpx a r)"

definition ollama_health :: "(int \<Rightarrow> ollama_http) option \<Rightarrow> ollama_adapter \<Rightarrow> error + (bool \<times> string)" where
  "ollama_health httpx a =
     (case ollama_get_client httpx a of
        Inl x \<Rightarrow> Inl x
      | Inr cl \<Rightarrow>
          (case checked_json (oh_get cl (ol_url a @ ''/api/tags'')) of
             Inl x \<Rightarrow> Inr (False, take 100 (err_message x))
           | Inr (JObj d) \<Rightarrow>
               (let models = get_or ''models'' (JList []) d in
                if models = JStr '''' then Inr (True, ''reachable'')
                else (case joined_names models of
                        Names ns \<Rightarrow> Inr (True, if ns = '''' then ''reachable'' else ''models: '' @ ns)
                      | AttributeFault \<Rightarrow> Inr (False, ''AttributeError'')
                      | TypeFault \<Rightarrow> Inr (False, ''TypeError'')))
           | Inr _ \<Rightarrow> Inr (False, ''AttributeError'')))"

definition dgx_init :: "ollama_http option \<Rightarrow> ollama_adapter" where
  \<comment> \<open>The defaults of \<open>DgxAdapter.__init__\<close>.\<close>
  "dgx_init client = ollama_init ''http://192.168.150.111:11434'' ''qwen3.5:35b-a3b'' client 180"

definition dgx_generate ::
  "(int \<Rightarrow> ollama_http) option \<Rightarrow> ollama_adapter \<Rightarrow> generation_request \<Rightarrow> error + generation_result" where
  "dgx_generate httpx a r = map_sum id (\<lambda>g. g\<lparr>gs_provider_used := DGX\<rparr>) (ollama_generate httpx a r)"

definition dgx_stream :: "(int \<Rightarrow> ollama_http) option \<Rightarrow> ollama_adapter \<Rightarrow> generation_request \<Rightarrow> stream_value" where
  "dgx_stream httpx a r = single_chunk (dgx_generate httpx a r)"

lemma ollama_result_stamped:
  "ollama_result t fr u = Inr g \<Longrightarrow> gs_provider_used g = OLLAMA \<and> gs_attempted g = []"
  by (auto simp: ollama_result_def split: json.splits)

lemma ollama_generate_stamped:
  "ollama_generate httpx a r = Inr g \<Longrightarrow> gs_provider_used g = OLLAMA \<and> gs_attempted g = []"
  by (auto simp: ollama_generate_def ollama_fallback_def split: sum.splits prod.splits json.splits dest: ollama_result_stamped)

lemma single_chunk_map: "single_chunk res = Coroutine (map_sum id (\<lambda>g. ([gs_text g], None)) res)"
  by (simp add: single_chunk_def split: sum.splits)

interpretation ollama: one_chunk_adapter OLLAMA "ollama_generate httpx a" "ollama_stream httpx a"
  by unfold_locales (auto simp: ollama_stream_def single_chunk_map dest: ollama_generate_stamped)

interpretation dgx: one_chunk_adapter DGX "dgx_generate httpx a" "dgx_stream httpx a"
  by unfold_locales (auto simp: dgx_generate_def dgx_stream_def single_chunk_map dest: ollama_generate_stamped
    simp: map_sum_def split: sum.splits)

subsection \<open>The refreshed token\<close>

lemma oauth_of_renewed:
  assumes "codec_ok c"
  shows "oauth_of c (Some (cd_dumps c (JObj (dict_set ''claudeAiOauth'' (JObj o') data)))) =
    Some (dict_set ''claudeAiOauth'' (JObj o') data, o')"
  using assms by (simp add: oauth_of_def codec_ok_def map_of_dict_set)

lemma token_like_JStr: "token_like j = Some s \<Longrightarrow> j = Some (JStr s) \<and> token_like (Some (JStr s)) = Some s"
  by (auto simp: token_like_def split: option.splits json.splits if_splits)

lemma read_renewed:
  assumes c: "codec_ok c" and tok: "token_like (Some (JStr tok)) = Some tok"
    and "t \<le> (now div 1000 + n * 1000 - 120000) * 1000"
  shows "read_claude_code_token c post t
      (f\<lparr>cf_text := Some (cd_dumps c (JObj (dict_set ''claudeAiOauth'' (JObj (renewed_oauth now tok r n oauth)) data)))\<rparr>) =
    (Some tok, f\<lparr>cf_text := Some (cd_dumps c (JObj (dict_set ''claudeAiOauth'' (JObj (renewed_oauth now tok r n oauth)) data)))\<rparr>)"
proof -
  let ?o = "renewed_oauth now tok r n oauth"
  have "map_of ?o ''accessToken'' = Some (JStr tok)" "map_of ?o ''expiresAt'' = Some (JInt (now div 1000 + n * 1000))"
    by (simp_all add: renewed_oauth_def map_of_dict_set)
  then show ?thesis
    using assms(3) by (simp add: read_claude_code_token_def oauth_of_renewed [OF c] tok expiry_ms_def truthy_json_def)
qed

lemma try_refresh_effect:
  assumes "try_refresh_token c post now data oauth f = (res, f')" "f' \<noteq> f"
  obtains rt result tok n r where "map_of oauth ''refreshToken'' = Some rt"
    "Option.bind (post (cd_dumps c (refresh_request rt))) (cd_loads c) = Some (JObj result)"
    "res = Some tok" "token_like (map_of result ''access_token'') = Some tok"
    "seconds_of (map_of result ''expires_in'') = Some n"
    "f' = f\<lparr>cf_text := Some (cd_dumps c (JObj (dict_set ''claudeAiOauth'' (JObj (renewed_oauth now tok r n oauth)) data)))\<rparr>"
proof -
  from assms obtain rt where rt: "map_of oauth ''refreshToken'' = Some rt"
    by (cases "map_of oauth ''refreshToken''") (auto simp: try_refresh_token_def truthy_json_def)
  with assms show thesis
    by (auto simp: try_refresh_token_def Let_def split: if_splits option.splits json.splits prod.splits)
      (metis that [OF rt])+
qed

lemma read_token_effect:
  assumes "read_claude_code_token c post now f = (res, f')" "f' \<noteq> f"
  obtains data oauth where "oauth_of c (cf_text f) = Some (data, oauth)"
    "try_refresh_token c post now data oauth f = (res, f')"
proof -
  from assms obtain data oauth where o: "oauth_of c (cf_text f) = Some (data, oauth)"
    by (auto simp: read_claude_code_token_def split: option.splits prod.splits)
  obtain r f2 where t: "try_refresh_token c post now data oauth f = (r, f2)" by fastforce
  have "r = res \<and> f2 = f'"
  proof -
    from assms o t have "f2 = f'"
      by (auto simp: read_claude_code_token_def split: option.splits if_splits)
    moreover from t this assms(2) obtain tok where "r = Some tok" by (metis try_refresh_effect)
    ultimately show ?thesis
      using assms o t by (auto simp: read_claude_code_token_def split: option.splits if_splits)
  qed
  with o t show thesis by (auto intro: that)
qed

text \<open>
  C29: A refresh lasts: when reading the credentials file of Claude Code changes it, the token returned is the one the
  OAuth server issued, the other entries of the file are kept, and until two minutes before the issued lifetime ends every
  later read returns that token from the file, without asking the server and without another write.
\<close>

theorem refreshed_token_reused:
  assumes "codec_ok c" "read_claude_code_token c post now f = (res, f')" "f' \<noteq> f"
  shows "\<exists>data oauth rt result tok n data'.
    oauth_of c (cf_text f) = Some (data, oauth) \<and> map_of oauth ''refreshToken'' = Some rt \<and>
    Option.bind (post (cd_dumps c (refresh_request rt))) (cd_loads c) = Some (JObj result) \<and>
    map_of result ''access_token'' = Some (JStr tok) \<and> seconds_of (map_of result ''expires_in'') = Some n \<and> res = Some tok \<and>
    Option.bind (cf_text f') (cd_loads c) = Some (JObj data') \<and>
    (map_of data')(''claudeAiOauth'' := None) = (map_of data)(''claudeAiOauth'' := None) \<and>
    (\<forall>post' t. t \<le> (now div 1000 + n * 1000 - 120000) * 1000 \<longrightarrow>
      read_claude_code_token c post' t f' = (Some tok, f'))"
proof -
  obtain data oauth where o: "oauth_of c (cf_text f) = Some (data, oauth)"
    and t: "try_refresh_token c post now data oauth f = (res, f')"
    using read_token_effect [OF assms(2,3)] .
  obtain rt result tok n r where e: "map_of oauth ''refreshToken'' = Some rt"
    "Option.bind (post (cd_dumps c (refresh_request rt))) (cd_loads c) = Some (JObj result)"
    "res = Some tok" "token_like (map_of result ''access_token'') = Some tok"
    "seconds_of (map_of result ''expires_in'') = Some n"
    "f' = f\<lparr>cf_text := Some (cd_dumps c (JObj (dict_set ''claudeAiOauth'' (JObj (renewed_oauth now tok r n oauth)) data)))\<rparr>"
    using try_refresh_effect [OF t assms(3)] .
  have tok: "map_of result ''access_token'' = Some (JStr tok)" "token_like (Some (JStr tok)) = Some tok"
    using token_like_JStr [OF e(4)] by auto
  have "Option.bind (cf_text f') (cd_loads c) = Some (JObj (dict_set ''claudeAiOauth'' (JObj (renewed_oauth now tok r n oauth)) data))"
    using assms(1) by (simp add: e(6) codec_ok_def)
  moreover have "(map_of (dict_set ''claudeAiOauth'' (JObj (renewed_oauth now tok r n oauth)) data))(''claudeAiOauth'' := None) =
    (map_of data)(''claudeAiOauth'' := None)"
    by (simp add: map_of_dict_set)
  moreover have "\<forall>post' t. t \<le> (now div 1000 + n * 1000 - 120000) * 1000 \<longrightarrow> read_claude_code_token c post' t f' = (Some tok, f')"
    unfolding e(6) using read_renewed [OF assms(1) tok(2)] by blast
  ultimately show ?thesis
    using o e(1,2,3,5) tok(1) by blast
qed

definition demo_credentials :: creds_file where
  "demo_credentials = \<lparr>cf_text = Some (cd_dumps demo_codec (JObj [(''mcp'', JNull), (''claudeAiOauth'',
     JObj [(''accessToken'', JStr ''sk-ant-old''), (''refreshToken'', JStr ''r1''), (''expiresAt'', JInt 1000)])])),
     cf_writable = True\<rparr>"

definition demo_oauth_answer :: json where
  "demo_oauth_answer = JObj [(''access_token'', JStr ''sk-ant-new''), (''refresh_token'', JStr ''r2''), (''expires_in'', JInt 28800)]"

lemma demo_codec_loads [simp]: "cd_loads demo_codec (cd_dumps demo_codec j) = Some j"
  using demo_codec_ok by (simp add: codec_ok_def)

lemma demo_refresh:
  "read_claude_code_token demo_codec (\<lambda>b. Some (cd_dumps demo_codec demo_oauth_answer)) 2000000000 demo_credentials =
   (Some ''sk-ant-new'', demo_credentials\<lparr>cf_text := Some (cd_dumps demo_codec (JObj [(''mcp'', JNull), (''claudeAiOauth'',
     JObj [(''accessToken'', JStr ''sk-ant-new''), (''refreshToken'', JStr ''r2''), (''expiresAt'', JInt 30800000)])]))\<rparr>)"
  by (simp add: read_claude_code_token_def demo_credentials_def oauth_of_def token_like_def starts_with_def expiry_ms_def
    truthy_json_def try_refresh_token_def demo_oauth_answer_def seconds_of_def renewed_oauth_def dict_set_def Let_def)

lemma dumps_differ: "cd_dumps demo_codec j = cd_dumps demo_codec k \<longleftrightarrow> j = k"
  by (metis demo_codec_loads option.inject)

theorem refreshed_token_reused_witness:
  "\<exists>f'. read_claude_code_token demo_codec (\<lambda>b. Some (cd_dumps demo_codec demo_oauth_answer)) 2000000000 demo_credentials =
      (Some ''sk-ant-new'', f') \<and>
    read_claude_code_token demo_codec (\<lambda>b. None) 30680000000 f' = (Some ''sk-ant-new'', f')"
proof -
  define f' where "f' = demo_credentials\<lparr>cf_text := Some (cd_dumps demo_codec (JObj [(''mcp'', JNull), (''claudeAiOauth'',
     JObj [(''accessToken'', JStr ''sk-ant-new''), (''refreshToken'', JStr ''r2''), (''expiresAt'', JInt 30800000)])]))\<rparr>"
  have ne: "f' \<noteq> demo_credentials"
    by (simp add: f'_def demo_credentials_def dumps_differ)
  from refreshed_token_reused [OF demo_codec_ok demo_refresh [folded f'_def] ne]
  obtain data oauth rt result n where r: "oauth_of demo_codec (cf_text demo_credentials) = Some (data, oauth)"
      "Option.bind (Some (cd_dumps demo_codec demo_oauth_answer)) (cd_loads demo_codec) = Some (JObj result)"
      "seconds_of (map_of result ''expires_in'') = Some n"
    and later: "\<And>post' t. t \<le> (2000000000 div 1000 + n * 1000 - 120000) * 1000 \<Longrightarrow>
      read_claude_code_token demo_codec post' t f' = (Some ''sk-ant-new'', f')"
    by auto
  from r(2,3) have "n = 28800" by (auto simp: demo_oauth_answer_def seconds_of_def)
  with later [of 30680000000 "\<lambda>b. None"] show ?thesis
    using demo_refresh [folded f'_def] by auto
qed

text \<open>When the file cannot be written the new token is thrown away after the server has issued it: the expired one is
  returned, and the server, which issues a new refresh token with it, may not accept the stored one again.\<close>

lemma unwritable_refresh_dropped:
  assumes "oauth_of c (cf_text f) = Some (data, oauth)" "map_of oauth ''accessToken'' = Some (JStr old)"
    "starts_with ''sk-ant-'' old" "\<not> cf_writable f"
    "expiry_ms (map_of oauth ''expiresAt'') = Some (Some ms)" "now > (ms - 120000) * 1000"
  shows "read_claude_code_token c post now f = (Some old, f)"
proof -
  obtain r f' where t: "try_refresh_token c post now data oauth f = (r, f')" by fastforce
  have "r = None \<and> f' = f"
    using t assms(4) by (auto simp: try_refresh_token_def Let_def split: if_splits option.splits json.splits)
  with t assms show ?thesis
    by (simp add: read_claude_code_token_def token_like_def)
qed

subsection \<open>What the adapters do differently\<close>

text \<open>The contract says \<open>stream\<close> is one thing; of the seven, four have to be iterated and three have to be awaited first.
  No way of calling it works on all.\<close>

lemma no_common_stream_call:
  "\<exists>x y. awaited (openai_stream sdk a r) = Inl x \<and> async_for (ollama_stream httpx b r) = ([], Some y)"
  using openai.not_awaitable [of sdk a r] ollama.not_iterable [of httpx b r] by (metis prod.collapse)

text \<open>A chunk without choices ends a stream: Azure opens with one for the prompt's filter results, the SDK closes with one
  when usage is included.\<close>

lemma empty_chunk_ends_stream:
  assumes "azure_get_client sdk environ a = Inr cl"
    "cl_stream cl (chat_kwargs (za_model a) r @ [(''stream'', JBool True)]) = Inr ([] # cs, ending)"
  shows "async_for (azure_stream sdk environ a r) = ([], Some index_fault)"
  using assms by (simp add: azure_stream_def chat_stream_def)

text \<open>The fallback is taken on every failure of \<open>/api/chat\<close>, not only on a 404.\<close>

lemma ollama_falls_back_on_any_error:
  assumes "ollama_get_client httpx a = Inr cl"
    "ollama_post cl a ''/api/chat'' (build_chat_payload r (ol_model a)) = Inl x"
  shows "ollama_generate httpx a r = ollama_fallback cl a r"
  using assms by (simp add: ollama_generate_def)

text \<open>The CLI's input is cut at the end: behind a long history the prompt itself is lost.\<close>

lemma join_with_snoc: "xs \<noteq> [] \<Longrightarrow> join_with s (xs @ [y]) = join_with s xs @ s @ y"
  by (induction s xs rule: join_with.induct) auto

lemma long_history_hides_prompt:
  assumes "truthy_str (gr_prompt r)" "gr_messages r \<noteq> []"
    "length (build_stdin_prompt (r\<lparr>gr_prompt := None\<rparr>)) = MAX_STDIN_CHARS" "p \<noteq> ''''"
  shows "build_stdin_prompt (r\<lparr>gr_prompt := Some p\<rparr>) = build_stdin_prompt r"
proof -
  let ?old = "stdin_parts (r\<lparr>gr_prompt := None\<rparr>)"
  let ?c = "join_with ''\<newline>\<newline>'' ?old"
  have ne: "?old \<noteq> []" using assms(2) by (simp add: stdin_parts_def messages_from_request_def truthy_str_def)
  have tail: "\<exists>t. stdin_parts q = ?old @ [t]"
    if "q = r\<lparr>gr_prompt := Some s\<rparr>" "s \<noteq> ''''" for q s
    using that by (simp add: stdin_parts_def messages_from_request_def truthy_str_def Let_def)
  have long: "MAX_STDIN_CHARS \<le> length ?c"
    using assms(3) by (simp add: build_stdin_prompt_def Let_def split: if_splits)
  have cut: "build_stdin_prompt q = take MAX_STDIN_CHARS ?c" if q: "q = r\<lparr>gr_prompt := Some s\<rparr>" "s \<noteq> ''''" for q s
  proof -
    from tail [OF q] obtain t where t: "stdin_parts q = ?old @ [t]" by blast
    show ?thesis using long by (simp add: build_stdin_prompt_def Let_def t join_with_snoc [OF ne])
  qed
  obtain s where "r = r\<lparr>gr_prompt := Some s\<rparr>" "s \<noteq> ''''"
    using assms(1) by (cases "gr_prompt r"; cases r) (auto simp: truthy_str_def)
  with cut [of r s] cut [of "r\<lparr>gr_prompt := Some p\<rparr>" p] assms(4) show ?thesis by simp
qed

end
