(* ===== verification/Launcher.thy ===== *)
theory Launcher
  imports Sinks
begin

section \<open>The launcher\<close>

text \<open>
  \<open>launch.py\<close>: the virtual environment and its dependencies, the first-run files, the PID file, the port, the probe
  of optional tools and the supervision of the server.  The state is what the launcher reads and writes in the
  project directory and the list of processes it started or signalled; what the operating system answers (the exit of a
  command, whether a process is alive, what \<open>lsof\<close> prints, how and when the server ended) is a parameter.  Printing
  and sleeping are left out; directories are names.
\<close>

datatype platform = Windows | Posix

datatype launch_act = Ran "string list" | SignalGroup int | KillProcess int | ExecInto "string list"

record launch_state =
  ld_pyproject :: "string option"
  ld_venv :: bool
  ld_deps_hash :: "string option"
  ld_env :: "string option"
  ld_env_example :: "string option"
  ld_pid :: "string option"
  ld_probe :: "json option"
  ld_dirs :: "string list"
  ld_acts :: "launch_act list"

definition acted :: "launch_act \<Rightarrow> launch_state \<Rightarrow> launch_state" where
  "acted a d = d\<lparr>ld_acts := ld_acts d @ [a]\<rparr>"

definition APP_NAME :: string where "APP_NAME = ''MyApp''"
definition ENTRY_POINT :: string where "ENTRY_POINT = ''scottycore.main:app''"
definition MIN_PYTHON :: "int \<times> int" where "MIN_PYTHON = (3, 10)"
definition DEFAULT_PORT :: int where "DEFAULT_PORT = 8000"
definition LAUNCHER_RESTART_CODE :: int where "LAUNCHER_RESTART_CODE = 75"
definition MAX_RAPID_CRASHES :: nat where "MAX_RAPID_CRASHES = 3"
definition RAPID_CRASH_WINDOW :: int where "RAPID_CRASH_WINDOW = seconds 60"

definition python_too_old :: "int \<times> int \<Rightarrow> bool" where
  "python_too_old v \<longleftrightarrow> fst v < fst MIN_PYTHON \<or> fst v = fst MIN_PYTHON \<and> snd v < snd MIN_PYTHON"

subsection \<open>Virtual environment and dependencies\<close>

definition get_venv_python :: "platform \<Rightarrow> string \<Rightarrow> string" where
  "get_venv_python pf venv_dir = venv_dir @ (case pf of Windows \<Rightarrow> ''/Scripts/python.exe'' | Posix \<Rightarrow> ''/bin/python'')"

definition compute_deps_hash :: "(string \<Rightarrow> string) \<Rightarrow> launch_state \<Rightarrow> string" where
  \<comment> \<open>The first argument is the hexadecimal SHA-256.\<close>
  "compute_deps_hash sha d = (case ld_pyproject d of None \<Rightarrow> ''none'' | Some t \<Rightarrow> take 16 (sha t))"

definition run_checked :: "(string list \<Rightarrow> bool) \<Rightarrow> string list \<Rightarrow> launch_state \<Rightarrow> (error + unit) \<times> launch_state" where
  \<comment> \<open>\<open>subprocess.run(..., check=True)\<close>\<close>
  "run_checked ok cmd d = (if ok cmd then Inr () else Inl (OtherException ''CalledProcessError''), acted (Ran cmd) d)"

definition create_venv ::
  "(string list \<Rightarrow> bool) \<Rightarrow> string \<Rightarrow> string \<Rightarrow> launch_state \<Rightarrow> (error + bool) \<times> launch_state" where
  "create_venv ok executable venv_dir d =
     (if ld_venv d then (Inr False, d)
      else attempt (run_checked ok [executable, ''-m'', ''venv'', venv_dir] d) (\<lambda>_ d. (Inr True, d\<lparr>ld_venv := True\<rparr>)))"

definition install_dependencies ::
  "(string list \<Rightarrow> bool) \<Rightarrow> (string \<Rightarrow> string) \<Rightarrow> string \<Rightarrow> bool \<Rightarrow> launch_state \<Rightarrow> (error + unit) \<times> launch_state" where
  "install_dependencies ok sha venv_py force d =
     (let current_hash = compute_deps_hash sha d in
      if \<not> force \<and> map_option py_strip (ld_deps_hash d) = Some current_hash then (Inr (), d)
      else attempt (run_checked ok [venv_py, ''-m'', ''pip'', ''install'', ''--upgrade'', ''pip''] d) (\<lambda>_ d.
           attempt (run_checked ok [venv_py, ''-m'', ''pip'', ''install'', ''-e'', ''.[dev]''] d) (\<lambda>_ d.
             (Inr (), d\<lparr>ld_deps_hash := Some current_hash\<rparr>))))"

definition run_in_venv ::
  "(string \<Rightarrow> string) \<Rightarrow> string \<Rightarrow> string \<Rightarrow> string list \<Rightarrow> launch_state \<Rightarrow> string list option" where
  \<comment> \<open>The first argument is \<open>Path.resolve\<close>; the result is what replaces the process.\<close>
  "run_in_venv resolve executable venv_python argv d =
     (if resolve executable = resolve venv_python then None
      else if \<not> ld_venv d then None
      else Some (venv_python # argv))"

subsection \<open>First run\<close>

definition ensure_env_file :: "launch_state \<Rightarrow> launch_state" where
  "ensure_env_file d = (if ld_env d = None \<and> ld_env_example d \<noteq> None then d\<lparr>ld_env := ld_env_example d\<rparr> else d)"

definition ensure_data_dirs :: "launch_state \<Rightarrow> launch_state" where
  "ensure_data_dirs d =
     d\<lparr>ld_dirs := ld_dirs d @ filter (\<lambda>n. n \<notin> set (ld_dirs d)) [''data'', ''data/crash_logs'', ''data/logs'']\<rparr>"

subsection \<open>The PID file\<close>

datatype proc_answer = ProcGone | ProcDenied | ProcAlive

definition kill_existing_launcher ::
  "platform \<Rightarrow> int \<Rightarrow> (int \<Rightarrow> proc_answer) \<Rightarrow> (int \<Rightarrow> error + string) \<Rightarrow> launch_state \<Rightarrow> (error + unit) \<times> launch_state" where
  \<comment> \<open>The third argument is what \<open>os.kill(pid, 0)\<close> finds, the fourth what PowerShell prints for the PID.\<close>
  "kill_existing_launcher pf own_pid alive lookup d =
     (case ld_pid d of
        None \<Rightarrow> (Inr (), d)
      | Some text \<Rightarrow>
          (case py_int (JStr (py_strip text)) of
             Inl x \<Rightarrow> (Inr (), d\<lparr>ld_pid := None\<rparr>)
           | Inr old_pid \<Rightarrow>
               if old_pid = own_pid then (Inr (), d)
               else (case pf of
                  Windows \<Rightarrow>
                    (case lookup old_pid of
                       Inl x \<Rightarrow> if x = os_error then (Inr (), d\<lparr>ld_pid := None\<rparr>) else (Inl x, d)
                     | Inr out \<Rightarrow>
                         if \<not> contains_str (int_str old_pid) out then (Inr (), d\<lparr>ld_pid := None\<rparr>)
                         else (Inr (), (acted (KillProcess old_pid) d)\<lparr>ld_pid := None\<rparr>))
                | Posix \<Rightarrow>
                    if old_pid < - (2 ^ 31) \<or> 2 ^ 31 \<le> old_pid then (Inl (OtherException ''OverflowError''), d)
                    else (case alive old_pid of
                       ProcAlive \<Rightarrow> (Inr (), (acted (KillProcess old_pid) (acted (SignalGroup old_pid) d))\<lparr>ld_pid := None\<rparr>)
                     | _ \<Rightarrow> (Inr (), d\<lparr>ld_pid := None\<rparr>)))))"

definition write_pid_file :: "int \<Rightarrow> launch_state \<Rightarrow> launch_state" where
  "write_pid_file own_pid d = d\<lparr>ld_pid := Some (int_str own_pid)\<rparr>"

definition remove_pid_file :: "launch_state \<Rightarrow> launch_state" where
  "remove_pid_file d = d\<lparr>ld_pid := None\<rparr>"

subsection \<open>The port\<close>

definition free_port_script :: "int \<Rightarrow> string" where
  "free_port_script port =
     ''$c = Get-NetTCPConnection -LocalPort '' @ int_str port @ '' -State Listen     -ErrorAction SilentlyContinue; '' @
     ''if ($c) { $c | ForEach-Object { Write-Host ('Killing PID ' + $_.OwningProcess); '' @
     ''Stop-Process -Id $_.OwningProcess -Force     -ErrorAction SilentlyContinue } }''"

definition free_port :: "platform \<Rightarrow> bool \<Rightarrow> string option \<Rightarrow> int \<Rightarrow> launch_state \<Rightarrow> (error + unit) \<times> launch_state" where
  \<comment> \<open>Whether a connection to the port succeeds, and what \<open>lsof\<close> prints, if it runs.  On Windows one script kills.\<close>
  "free_port pf connects lsof port d =
     (if port < 0 \<or> 65535 < port then (Inl (OtherException ''OverflowError: connect(): port must be 0-65535.''), d)
      else if \<not> connects then (Inr (), d)
      else (case pf of
              Windows \<Rightarrow> (Inr (), acted (Ran [''powershell'', ''-NoProfile'', ''-Command'', free_port_script port]) d)
            | Posix \<Rightarrow>
                (case lsof of None \<Rightarrow> (Inr (), acted (Ran [''lsof'', ''-ti'', '':'' @ int_str port]) d)
                 | Some out \<Rightarrow>
                     (Inr (), foldl (\<lambda>d pid. acted (Ran [''kill'', ''-9'', pid]) d)
                        (acted (Ran [''lsof'', ''-ti'', '':'' @ int_str port]) d)
                        (filter (\<lambda>p. list_all is_digit p) (py_words (py_strip out) []))))))"

subsection \<open>The probe\<close>

record toolbox =
  tb_which :: "string \<Rightarrow> string option"
  tb_version :: "string \<Rightarrow> string option"
  tb_api_key :: "string option"
  tb_credentials :: "json option"

definition tool_version :: "toolbox \<Rightarrow> string \<Rightarrow> string option" where
  \<comment> \<open>The first line of the output of a successful \<open>cmd --version\<close>; an empty line counts as no version.\<close>
  "tool_version tb cmd =
     (case tb_version tb cmd of None \<Rightarrow> None
      | Some out \<Rightarrow> (let v = py_strip (hd (split_on (CHR 0x0A) (py_strip out))) in if v = '''' then None else Some v))"

definition tool_found :: "toolbox \<Rightarrow> string option \<Rightarrow> string option" where
  "tool_found tb path = (if truthy_str path then tool_version tb (the path) else None)"

definition claude_path :: "platform \<Rightarrow> toolbox \<Rightarrow> string option" where
  "claude_path pf tb =
     (if truthy_str (tb_which tb ''claude'') then tb_which tb ''claude''
      else if pf = Windows then tb_which tb ''claude.cmd'' else None)"

definition claude_authenticated :: "json option \<Rightarrow> bool" where
  \<comment> \<open>Whatever goes wrong counts as not authenticated.\<close>
  "claude_authenticated creds =
     (case creds of
        Some (JObj d) \<Rightarrow>
          (case map_of d ''claudeAiOauth'' of
             Some (JObj oauth) \<Rightarrow>
               (case map_of oauth ''accessToken'' of Some (JStr t) \<Rightarrow> starts_with ''sk-ant-'' t | _ \<Rightarrow> False)
           | _ \<Rightarrow> False)
      | _ \<Rightarrow> False)"

definition probe_environment :: "platform \<Rightarrow> toolbox \<Rightarrow> string \<Rightarrow> launch_state \<Rightarrow> launch_state" where
  \<comment> \<open>The third argument is the time as \<open>isoformat\<close> writes it.\<close>
  "probe_environment pf tb now d =
     (let shown = (\<lambda>v. case v of None \<Rightarrow> JNull | Some s \<Rightarrow> JStr s);
          node = tool_found tb (tb_which tb ''node''); npm = tool_found tb (tb_which tb ''npm'');
          claude = tool_found tb (claude_path pf tb)
      in d\<lparr>ld_probe := Some (JObj
           [(''probed_at'', JStr now), (''node_installed'', JBool (node \<noteq> None)), (''node_version'', shown node),
            (''npm_installed'', JBool (npm \<noteq> None)), (''npm_version'', shown npm),
            (''claude_code_installed'', JBool (claude \<noteq> None)), (''claude_code_version'', shown claude),
            (''claude_code_authenticated'', JBool (claude_authenticated (tb_credentials tb))),
            (''env_api_key_set'', JBool (truthy_str (tb_api_key tb)))])\<rparr>)"

subsection \<open>The server and its supervision\<close>

function parse_bind :: "string list \<Rightarrow> string \<times> int \<Rightarrow> string \<times> int" where
  "parse_bind (a # v # as) hp =
     (if a = ''--host'' then parse_bind as (v, snd hp)
      else if a = ''--port'' \<or> a = ''-p'' then parse_bind as (fst hp, case py_int (JStr v) of Inl x \<Rightarrow> snd hp | Inr n \<Rightarrow> n)
      else parse_bind (v # as) hp)"
| "parse_bind [a] hp = hp"
| "parse_bind [] hp = hp"
  by (atomize_elim, metis neq_Nil_conv surj_pair) simp_all

termination parse_bind
  by (relation "measure (\<lambda>(as, hp). length as)") simp_all

text \<open>One run of the server: whether the port was taken and by whom, the exit code (None for Ctrl-C), when it ended, and
  whether Ctrl-C came while waiting to restart.\<close>

record server_run =
  sr_connects :: bool
  sr_lsof :: "string option"
  sr_exit :: "int option"
  sr_time :: time
  sr_interrupted :: bool

definition server_command :: "string \<Rightarrow> string \<times> int \<Rightarrow> string list" where
  "server_command venv_py hp =
     [venv_py, ''-m'', ''uvicorn'', ENTRY_POINT, ''--host'', fst hp, ''--port'', int_str (snd hp), ''--log-level'', ''info'']"

definition start_server_subprocess ::
  "platform \<Rightarrow> string \<Rightarrow> string list \<Rightarrow> server_run \<Rightarrow> launch_state \<Rightarrow> (error + int option) \<times> launch_state" where
  "start_server_subprocess pf venv_py args r d =
     (let hp = parse_bind args (''0.0.0.0'', DEFAULT_PORT) in
      attempt (free_port pf (sr_connects r) (sr_lsof r) (snd hp) d) (\<lambda>_ d.
        (Inr (sr_exit r), acted (Ran (server_command venv_py hp)) d)))"

datatype watch_end = StillRunning | CleanExit | GaveUp | WatchInterrupted | WatchRaised error

fun crash_watch ::
  "(string list \<Rightarrow> bool) \<Rightarrow> (string \<Rightarrow> string) \<Rightarrow> platform \<Rightarrow> string \<Rightarrow> string list \<Rightarrow> time list \<Rightarrow> server_run list \<Rightarrow>
   launch_state \<Rightarrow> watch_end \<times> server_run list \<times> launch_state" where
  \<comment> \<open>The loop, over the runs the server will make: how it ends and what is left of them.\<close>
  "crash_watch ok sha pf venv_py args crash_times [] d = (StillRunning, [], d)"
| "crash_watch ok sha pf venv_py args crash_times (r # rs) d =
     (case start_server_subprocess pf venv_py args r d of
        (Inl x, d) \<Rightarrow> (WatchRaised x, rs, d)
      | (Inr exit_code, d) \<Rightarrow>
          if exit_code = Some LAUNCHER_RESTART_CODE then
            (case install_dependencies ok sha venv_py False d of
               (Inl x, d) \<Rightarrow> (WatchRaised x, rs, d)
             | (Inr u, d) \<Rightarrow> crash_watch ok sha pf venv_py args crash_times rs d)
          else if exit_code = None \<or> exit_code = Some 0 then (CleanExit, rs, d)
          else
            (let times = filter (\<lambda>t. sr_time r - t < RAPID_CRASH_WINDOW) (crash_times @ [sr_time r]) in
             if length times \<ge> MAX_RAPID_CRASHES then (GaveUp, rs, d)
             else if sr_interrupted r then (WatchInterrupted, rs, d)
             else crash_watch ok sha pf venv_py args times rs d))"

subsection \<open>The application's own command line\<close>

definition cli_module :: "string \<Rightarrow> string \<times> string \<times> string" where
  \<comment> \<open>The module tried first, the module of the entry point, and the attribute.\<close>
  "cli_module entry =
     (case (case split_first (CHR '':'') entry of None \<Rightarrow> (entry, '''') | Some p \<Rightarrow> p) of
        (module_path, attr) \<Rightarrow>
          (let parts = split_on (CHR ''.'') module_path in
           (if length parts > 1 then join_with ''.'' (butlast parts @ [''cli'', ''main'']) else module_path, module_path, attr)))"

definition start_cli :: "(string \<Rightarrow> (string \<rightharpoonup> 'c) option) \<Rightarrow> string option + 'c" where
  \<comment> \<open>The argument maps a module that can be imported to its attributes; Left is the error that ends the process.\<close>
  "start_cli modules =
     (case cli_module ENTRY_POINT of
        (first, module_path, attr) \<Rightarrow>
          (case Option.bind (modules first) (\<lambda>m. m attr) of
             Some app \<Rightarrow> Inr app
           | None \<Rightarrow>
               (case Option.bind (modules module_path) (\<lambda>m. m attr) of
                  Some app \<Rightarrow> Inr app
                | None \<Rightarrow> Inl (Some (''  ERROR: Could not load CLI from '' @ quoted ENTRY_POINT)))))"

subsection \<open>The program\<close>

record launch_host =
  lh_platform :: platform
  lh_version :: "int \<times> int"
  lh_executable :: string
  lh_resolve :: "string \<Rightarrow> string"
  lh_file :: string
  lh_venv_dir :: string
  lh_ok :: "string list \<Rightarrow> bool"
  lh_sha :: "string \<Rightarrow> string"
  lh_own_pid :: int
  lh_alive :: "int \<Rightarrow> proc_answer"
  lh_lookup :: "int \<Rightarrow> error + string"
  lh_tools :: toolbox
  lh_now :: string

datatype launch_end = VersionRefused | Replaced "string list" | Served watch_end | CliStarted "string list" | LaunchRaised error

definition serve_launcher ::
  "launch_host \<Rightarrow> string list \<Rightarrow> server_run list \<Rightarrow> launch_state \<Rightarrow> launch_end \<times> launch_state" where
  "serve_launcher h args runs d =
     (case kill_existing_launcher (lh_platform h) (lh_own_pid h) (lh_alive h) (lh_lookup h) d of
        (Inl x, d) \<Rightarrow> (LaunchRaised x, d)
      | (Inr u, d) \<Rightarrow>
          (case crash_watch (lh_ok h) (lh_sha h) (lh_platform h) (get_venv_python (lh_platform h) (lh_venv_dir h)) args [] runs
                  (write_pid_file (lh_own_pid h) d) of
             (e, rest, d) \<Rightarrow> (Served e, remove_pid_file d)))"

definition launcher_main ::
  "launch_host \<Rightarrow> string list \<Rightarrow> server_run list \<Rightarrow> launch_state \<Rightarrow> launch_end \<times> launch_state" where
  "launcher_main h args runs d =
     (let venv_py = get_venv_python (lh_platform h) (lh_venv_dir h) in
      if python_too_old (lh_version h) then (VersionRefused, d)
      else (case run_in_venv (lh_resolve h) (lh_executable h) venv_py (lh_file h # args) d of
        Some cmd \<Rightarrow> (Replaced cmd, acted (ExecInto cmd) d)
      | None \<Rightarrow>
          (case create_venv (lh_ok h) (lh_executable h) (lh_venv_dir h) d of
             (Inl x, d) \<Rightarrow> (LaunchRaised x, d)
           | (Inr created, d) \<Rightarrow>
               (case install_dependencies (lh_ok h) (lh_sha h) venv_py created d of
                  (Inl x, d) \<Rightarrow> (LaunchRaised x, d)
                | (Inr u, d) \<Rightarrow>
                    if created then (Replaced (venv_py # lh_file h # args), acted (ExecInto (venv_py # lh_file h # args)) d)
                    else
                      (let d = probe_environment (lh_platform h) (lh_tools h) (lh_now h) (ensure_data_dirs (ensure_env_file d)) in
                       if args = [] \<or> hd args = ''serve'' then serve_launcher h (tl args) runs d
                       else (CliStarted args, d))))))"

subsection \<open>Installing once\<close>

text \<open>A successful installation is remembered: while \<open>pyproject.toml\<close> stays the same nothing is run again, however often
  the launcher starts or the server asks for a restart.\<close>

lemma installed_hash:
  assumes "install_dependencies ok sha venv_py force d = (Inr (), d')" "\<forall>t. py_strip (take 16 (sha t)) = take 16 (sha t)"
  shows "map_option py_strip (ld_deps_hash d') = Some (compute_deps_hash sha d')"
proof -
  have none: "py_strip ''none'' = ''none''"
    by (simp add: py_strip_def strip_where_def lstrip_where_def rstrip_where_def is_space_def code_of_def)
  show ?thesis
    using assms none
    by (auto simp: install_dependencies_def run_checked_def attempt_def acted_def compute_deps_hash_def Let_def
      split: if_splits option.splits)
qed

lemma failed_install_retried:
  assumes "install_dependencies ok sha venv_py force d = (Inl x, d')"
  shows "ld_deps_hash d' = ld_deps_hash d \<and> ld_acts d' \<noteq> ld_acts d"
  using assms by (auto simp: install_dependencies_def run_checked_def attempt_def acted_def Let_def split: if_splits)

subsection \<open>Giving up\<close>

definition crash_run :: "server_run \<Rightarrow> bool" where
  "crash_run r \<longleftrightarrow> sr_exit r \<notin> {None, Some 0, Some LAUNCHER_RESTART_CODE}"

definition run_again :: "server_run \<Rightarrow> bool" where
  "run_again r \<longleftrightarrow> crash_run r \<and> \<not> sr_interrupted r \<or> sr_exit r = Some LAUNCHER_RESTART_CODE"

definition rapid :: "server_run list \<Rightarrow> bool" where
  \<comment> \<open>The last run is a crash, and with it three or more of the runs crashed in the last minute.\<close>
  "rapid rs \<longleftrightarrow> rs \<noteq> [] \<and> crash_run (last rs) \<and>
     3 \<le> length (filter (\<lambda>r. crash_run r \<and> sr_time (last rs) - sr_time r < seconds 60) rs)"

lemma install_ok: "\<forall>c. ok c \<Longrightarrow> fst (install_dependencies ok sha venv_py force d) = Inr ()"
  by (simp add: install_dependencies_def run_checked_def attempt_def Let_def)

lemma start_ok:
  assumes "0 \<le> snd (parse_bind args (''0.0.0.0'', DEFAULT_PORT))" "snd (parse_bind args (''0.0.0.0'', DEFAULT_PORT)) \<le> 65535"
  shows "fst (start_server_subprocess pf venv_py args r d) = Inr (sr_exit r)"
  using assms
  by (simp add: start_server_subprocess_def free_port_def attempt_def Let_def split: platform.split option.split)

lemma crash_watch_step:
  assumes "\<forall>c. ok c"
    and "0 \<le> snd (parse_bind args (''0.0.0.0'', DEFAULT_PORT))" "snd (parse_bind args (''0.0.0.0'', DEFAULT_PORT)) \<le> 65535"
  obtains d' where "crash_watch ok sha pf venv_py args ct (r # rs) d =
    (if sr_exit r = Some LAUNCHER_RESTART_CODE then crash_watch ok sha pf venv_py args ct rs d'
     else if \<not> crash_run r then (CleanExit, rs, d')
     else if 3 \<le> length (filter (\<lambda>t. sr_time r - t < seconds 60) (ct @ [sr_time r])) then (GaveUp, rs, d')
     else if sr_interrupted r then (WatchInterrupted, rs, d')
     else crash_watch ok sha pf venv_py args (filter (\<lambda>t. sr_time r - t < seconds 60) (ct @ [sr_time r])) rs d')"
proof -
  obtain d1 where d1: "start_server_subprocess pf venv_py args r d = (Inr (sr_exit r), d1)"
    using start_ok [OF assms(2,3)] by (metis prod.collapse)
  obtain d2 where d2: "install_dependencies ok sha venv_py False d1 = (Inr (), d2)"
    using install_ok [OF assms(1)] by (metis prod.collapse)
  show thesis
    by (rule that [of "if sr_exit r = Some LAUNCHER_RESTART_CODE then d2 else d1"])
       (auto simp: d1 d2 crash_run_def RAPID_CRASH_WINDOW_def MAX_RAPID_CRASHES_def Let_def)
qed

text \<open>
  The crash times the loop keeps are those of the last minute: for every later moment they count the same crashes.
\<close>

lemma recent_kept:
  assumes "\<And>u. u \<ge> now \<Longrightarrow> filter (\<lambda>t. u - t < w) ct = filter (\<lambda>t. u - t < w) ts" and "now \<le> (v::int)"
  shows "\<And>u. u \<ge> v \<Longrightarrow> filter (\<lambda>t. u - t < w) (filter (\<lambda>t. v - t < w) (ct @ [v])) = filter (\<lambda>t. u - t < w) (ts @ [v])"
proof -
  fix u assume u: "u \<ge> v"
  have "filter (\<lambda>t. u - t < w) (filter (\<lambda>t. v - t < w) (ct @ [v])) = filter (\<lambda>t. u - t < w) (ct @ [v])"
    using u by (auto intro!: filter_cong)
  with assms u show "filter (\<lambda>t. u - t < w) (filter (\<lambda>t. v - t < w) (ct @ [v])) = filter (\<lambda>t. u - t < w) (ts @ [v])"
    by auto
qed

definition gives_up_at :: "server_run list \<Rightarrow> server_run list \<Rightarrow> server_run list \<Rightarrow> bool" where
  \<comment> \<open>After the runs of the first list, the runs of the second are given up on when those of the third are left.\<close>
  "gives_up_at hs rs rest \<longleftrightarrow> (\<exists>pre r. rs = pre @ r # rest \<and> list_all run_again pre \<and> rapid (hs @ pre @ [r]) \<and>
     (\<forall>k. 0 < k \<and> k \<le> length pre \<longrightarrow> \<not> rapid (hs @ take k pre)))"

lemma gives_up_at_Nil [simp]: "\<not> gives_up_at hs [] rest"
  by (simp add: gives_up_at_def)

lemma gives_up_at_Cons:
  "gives_up_at hs (r # rs) rest \<longleftrightarrow>
     rapid (hs @ [r]) \<and> rest = rs \<or> \<not> rapid (hs @ [r]) \<and> run_again r \<and> gives_up_at (hs @ [r]) rs rest"
  (is "?L \<longleftrightarrow> ?R")
proof
  assume ?L
  then obtain pre q where p: "r # rs = pre @ q # rest" "list_all run_again pre" "rapid (hs @ pre @ [q])"
    "\<forall>k. 0 < k \<and> k \<le> length pre \<longrightarrow> \<not> rapid (hs @ take k pre)" by (auto simp: gives_up_at_def)
  show ?R
  proof (cases pre)
    case Nil with p show ?thesis by simp
  next
    case (Cons x xs)
    have "\<not> rapid (hs @ [r])" using p(1) spec [OF p(4), of 1] Cons by simp
    moreover have "\<not> rapid ((hs @ [r]) @ take k xs)" if "0 < k \<and> k \<le> length xs" for k
      using p(1) spec [OF p(4), of "Suc k"] Cons that by simp
    ultimately show ?thesis
      using p Cons unfolding gives_up_at_def by fastforce
  qed
next
  assume ?R
  then consider "rapid (hs @ [r])" "rest = rs" | "\<not> rapid (hs @ [r])" "run_again r" "gives_up_at (hs @ [r]) rs rest" by blast
  then show ?L
  proof cases
    case 1
    have "r # rs = [] @ r # rest \<and> list_all run_again [] \<and> rapid (hs @ [] @ [r]) \<and>
      (\<forall>k. 0 < k \<and> k \<le> length ([] :: server_run list) \<longrightarrow> \<not> rapid (hs @ take k []))" using 1 by simp
    then show ?thesis unfolding gives_up_at_def by blast
  next
    case 2
    then obtain pre q where p: "rs = pre @ q # rest" "list_all run_again pre" "rapid (hs @ r # pre @ [q])"
      "\<forall>k. 0 < k \<and> k \<le> length pre \<longrightarrow> \<not> rapid (hs @ r # take k pre)" by (auto simp: gives_up_at_def)
    have "\<not> rapid (hs @ take k (r # pre))" if "0 < k \<and> k \<le> length (r # pre)" for k
      using that 2(1) p(4) by (cases k; cases "k = 1") auto
    then have "r # rs = (r # pre) @ q # rest \<and> list_all run_again (r # pre) \<and> rapid (hs @ (r # pre) @ [q]) \<and>
      (\<forall>k. 0 < k \<and> k \<le> length (r # pre) \<longrightarrow> \<not> rapid (hs @ take k (r # pre)))" using 2(2) p by simp
    then show ?thesis unfolding gives_up_at_def by blast
  qed
qed

definition remembers :: "time list \<Rightarrow> server_run list \<Rightarrow> bool" where
  \<comment> \<open>The kept crash times count, at every moment after the runs, the crashes of the last minute.\<close>
  "remembers ct hs \<longleftrightarrow> (\<forall>u. (\<forall>h \<in> set hs. sr_time h \<le> u) \<longrightarrow>
     filter (\<lambda>t. u - t < seconds 60) ct = filter (\<lambda>t. u - t < seconds 60) (map sr_time (filter crash_run hs)))"

lemma remembers_restart: "remembers ct hs \<Longrightarrow> \<not> crash_run r \<Longrightarrow> remembers ct (hs @ [r])"
  by (simp add: remembers_def)

lemma remembers_crash:
  assumes "remembers ct hs" "crash_run r" "\<forall>h \<in> set hs. sr_time h \<le> sr_time r"
  shows "remembers (filter (\<lambda>t. sr_time r - t < seconds 60) (ct @ [sr_time r])) (hs @ [r])"
proof -
  have "filter (\<lambda>t. u - t < seconds 60) (filter (\<lambda>t. sr_time r - t < seconds 60) (ct @ [sr_time r])) =
    filter (\<lambda>t. u - t < seconds 60) (map sr_time (filter crash_run hs) @ [sr_time r])" if "sr_time r \<le> u" for u
  proof (rule recent_kept [OF _ order_refl that])
    fix v assume v: "sr_time r \<le> v"
    have "\<forall>h \<in> set hs. sr_time h \<le> v" using assms(3) v by (meson order_trans)
    then show "filter (\<lambda>t. v - t < seconds 60) ct = filter (\<lambda>t. v - t < seconds 60) (map sr_time (filter crash_run hs))"
      using assms(1) by (simp add: remembers_def)
  qed
  with assms(2) show ?thesis by (simp add: remembers_def)
qed

lemma rapid_remembered:
  assumes "remembers ct hs" "crash_run r" "\<forall>h \<in> set hs. sr_time h \<le> sr_time r"
  shows "rapid (hs @ [r]) \<longleftrightarrow> 3 \<le> length (filter (\<lambda>t. sr_time r - t < seconds 60) (ct @ [sr_time r]))"
proof -
  have "length (filter (\<lambda>q. crash_run q \<and> sr_time r - sr_time q < seconds 60) hs) =
    length (filter (\<lambda>t. sr_time r - t < seconds 60) (map sr_time (filter crash_run hs)))"
    by (simp add: filter_map o_def conj_commute)
  also have "\<dots> = length (filter (\<lambda>t. sr_time r - t < seconds 60) ct)"
    using assms(1,3) by (simp add: remembers_def)
  finally show ?thesis using assms(2) by (simp add: rapid_def)
qed

lemma crash_watch_gives_up:
  assumes "\<forall>c. ok c"
    and "0 \<le> snd (parse_bind args (''0.0.0.0'', DEFAULT_PORT))" "snd (parse_bind args (''0.0.0.0'', DEFAULT_PORT)) \<le> 65535"
    and "sorted (map sr_time (hs @ rs))" "remembers ct hs"
  shows "(\<exists>d'. crash_watch ok sha pf venv_py args ct rs d = (GaveUp, rest, d')) \<longleftrightarrow> gives_up_at hs rs rest"
  using assms(4,5)
proof (induction rs arbitrary: hs ct d)
  case Nil
  then show ?case by simp
next
  case (Cons r rs)
  have before: "\<forall>h \<in> set hs. sr_time h \<le> sr_time r" using Cons.prems(1) by (auto simp: sorted_append)
  have sorted: "sorted (map sr_time ((hs @ [r]) @ rs))" using Cons.prems(1) by simp
  note ih = Cons.IH [OF sorted]
  obtain d' where step: "crash_watch ok sha pf venv_py args ct (r # rs) d =
    (if sr_exit r = Some LAUNCHER_RESTART_CODE then crash_watch ok sha pf venv_py args ct rs d'
     else if \<not> crash_run r then (CleanExit, rs, d')
     else if 3 \<le> length (filter (\<lambda>t. sr_time r - t < seconds 60) (ct @ [sr_time r])) then (GaveUp, rs, d')
     else if sr_interrupted r then (WatchInterrupted, rs, d')
     else crash_watch ok sha pf venv_py args (filter (\<lambda>t. sr_time r - t < seconds 60) (ct @ [sr_time r])) rs d')"
    using crash_watch_step [OF assms(1-3)] .
  consider (restart) "sr_exit r = Some LAUNCHER_RESTART_CODE" | (clean) "sr_exit r \<noteq> Some LAUNCHER_RESTART_CODE" "\<not> crash_run r"
    | (crash) "crash_run r" "sr_exit r \<noteq> Some LAUNCHER_RESTART_CODE" by blast
  then show ?case
  proof cases
    case restart
    then have nc: "\<not> crash_run r" "run_again r" by (simp_all add: crash_run_def run_again_def)
    then have nr: "\<not> rapid (hs @ [r])" by (simp add: rapid_def)
    show ?thesis
      unfolding gives_up_at_Cons using nr nc ih [OF remembers_restart [OF Cons.prems(2) nc(1)]] restart
      by (simp only: step if_True simp_thms)
  next
    case clean
    then have "\<not> rapid (hs @ [r])" "\<not> run_again r" by (simp_all add: rapid_def run_again_def)
    with clean show ?thesis by (simp del: crash_watch.simps add: step gives_up_at_Cons)
  next
    case crash
    note rapid_step = step [folded rapid_remembered [OF Cons.prems(2) crash(1) before]]
    show ?thesis
    proof (cases "rapid (hs @ [r])")
      case True
      with crash show ?thesis by (auto simp del: crash_watch.simps simp: rapid_step gives_up_at_Cons)
    next
      case False
      with crash ih [OF remembers_crash [OF Cons.prems(2) crash(1) before]] show ?thesis
        by (auto simp del: crash_watch.simps simp: rapid_step gives_up_at_Cons run_again_def)
    qed
  qed
qed

text \<open>
  C30: The supervisor gives up exactly on a crash loop: with a bindable port and working installs it stops at the first crash that
  is the third within a minute, and never otherwise; requested restarts in between do not count.  In particular three
  crashes in a minute end it.
\<close>

theorem watch_gives_up_iff:
  assumes "\<forall>c. ok c"
    and "0 \<le> snd (parse_bind args (''0.0.0.0'', DEFAULT_PORT))" and "snd (parse_bind args (''0.0.0.0'', DEFAULT_PORT)) \<le> 65535"
    and "sorted (map sr_time rs)"
  shows "(\<exists>d'. crash_watch ok sha pf venv_py args [] rs d = (GaveUp, rest, d')) \<longleftrightarrow>
    (\<exists>pre r. rs = pre @ r # rest \<and> list_all run_again pre \<and> rapid (pre @ [r]) \<and>
      (\<forall>k. 0 < k \<and> k \<le> length pre \<longrightarrow> \<not> rapid (take k pre)))"
  using crash_watch_gives_up [OF assms(1-3), of "[]" rs "[]"] assms(4)
  by (simp add: remembers_def gives_up_at_def)

definition demo_run :: "int \<Rightarrow> time \<Rightarrow> server_run" where
  "demo_run code t = \<lparr>sr_connects = False, sr_lsof = None, sr_exit = Some code, sr_time = t, sr_interrupted = False\<rparr>"

definition demo_launch :: launch_state where
  "demo_launch = \<lparr>ld_pyproject = Some ''x'', ld_venv = True, ld_deps_hash = None, ld_env = None, ld_env_example = None,
     ld_pid = None, ld_probe = None, ld_dirs = [], ld_acts = []\<rparr>"

theorem watch_gives_up_iff_witness:
  "\<exists>d'. crash_watch (\<lambda>c. True) id Posix ''py'' [''--port'', ''9090''] [] [demo_run 1 (seconds 0), demo_run 75 (seconds 10),
       demo_run 1 (seconds 20), demo_run 1 (seconds 40), demo_run 1 (seconds 50)] demo_launch =
     (GaveUp, [demo_run 1 (seconds 50)], d')"
proof -
  let ?pre = "[demo_run 1 (seconds 0), demo_run 75 (seconds 10), demo_run 1 (seconds 20)]"
  have port: "snd (parse_bind [''--port'', ''9090''] (''0.0.0.0'', DEFAULT_PORT)) = 9090"
    by (simp add: digits_val_def code_of_def py_strip_def strip_where_def lstrip_where_def rstrip_where_def is_space_def is_digit_def)
  have small: "k = 1 \<or> k = 2 \<or> k = 3" if "0 < k \<and> k \<le> length ?pre" for k :: nat using that by auto
  have "?pre @ demo_run 1 (seconds 40) # [demo_run 1 (seconds 50)] =
      [demo_run 1 (seconds 0), demo_run 75 (seconds 10), demo_run 1 (seconds 20), demo_run 1 (seconds 40), demo_run 1 (seconds 50)] \<and>
    list_all run_again ?pre \<and> rapid (?pre @ [demo_run 1 (seconds 40)])"
    by (simp add: demo_run_def run_again_def crash_run_def LAUNCHER_RESTART_CODE_def rapid_def seconds_def)
  moreover have "\<not> rapid (take k ?pre)" if "0 < k \<and> k \<le> length ?pre" for k
    using small [OF that] by (auto simp: rapid_def crash_run_def demo_run_def LAUNCHER_RESTART_CODE_def seconds_def numeral_2_eq_2 numeral_3_eq_3)
  then have quiet: "\<forall>k. 0 < k \<and> k \<le> length ?pre \<longrightarrow> \<not> rapid (take k ?pre)" by blast
  ultimately have ends: "\<exists>pre r. [demo_run 1 (seconds 0), demo_run 75 (seconds 10), demo_run 1 (seconds 20), demo_run 1 (seconds 40),
      demo_run 1 (seconds 50)] = pre @ r # [demo_run 1 (seconds 50)] \<and> list_all run_again pre \<and> rapid (pre @ [r]) \<and>
      (\<forall>k. 0 < k \<and> k \<le> length pre \<longrightarrow> \<not> rapid (take k pre))"
    by (intro exI [of _ ?pre] exI [of _ "demo_run 1 (seconds 40)"]) (use quiet in \<open>simp only: simp_thms\<close>)
  show ?thesis
  proof (rule iffD2 [OF watch_gives_up_iff ends])
    show "0 \<le> snd (parse_bind [''--port'', ''9090''] (''0.0.0.0'', DEFAULT_PORT))"
      "snd (parse_bind [''--port'', ''9090''] (''0.0.0.0'', DEFAULT_PORT)) \<le> 65535" unfolding port by simp_all
  qed (simp_all add: demo_run_def seconds_def)
qed

text \<open>
  The virtual environment of a Unix system has a symbolic link to the interpreter it was made with: both resolve to the
  same file, and the launcher started with that interpreter takes itself for the one inside.
\<close>

lemma linked_venv_not_entered:
  "resolve executable = resolve venv_py \<Longrightarrow> run_in_venv resolve executable venv_py argv d = None"
  by (simp add: run_in_venv_def)

text \<open>A PID file left by a crash or a reboot names whatever process has the number now: that process and its group are killed.\<close>

lemma stale_pid_kills_stranger:
  assumes "ld_pid d = Some text" "py_int (JStr (py_strip text)) = Inr p" "p \<noteq> own" "0 < p" "p < 2 ^ 31" "alive p = ProcAlive"
  shows "\<exists>d'. kill_existing_launcher Posix own alive lookup d = (Inr (), d') \<and> {SignalGroup p, KillProcess p} \<subseteq> set (ld_acts d')"
  using assms by (simp add: kill_existing_launcher_def acted_def)

text \<open>A port that is no port number is not refused when it is parsed; the attempt to connect raises.\<close>

lemma bad_port_raises:
  assumes "65535 < snd (parse_bind args (''0.0.0.0'', DEFAULT_PORT))"
  shows "\<exists>x. crash_watch ok sha pf venv_py args [] (r # rs) d = (WatchRaised x, rs, d)"
  using assms by (simp add: start_server_subprocess_def free_port_def attempt_def Let_def)

text \<open>A failed installation after a requested restart takes the launcher down.\<close>

lemma failed_update_stops_launcher:
  assumes "sr_exit r = Some LAUNCHER_RESTART_CODE" "start_server_subprocess pf venv_py args r d = (Inr (sr_exit r), d1)"
    "install_dependencies ok sha venv_py False d1 = (Inl x, d2)"
  shows "crash_watch ok sha pf venv_py args ct (r # rs) d = (WatchRaised x, rs, d2)"
  using assms by simp

text \<open>This application has no \<open>cli\<close> package: the fallback is the web application, which is then called without arguments.\<close>

lemma cli_falls_back_to_web_app:
  assumes "modules ''scottycore.cli.main'' = None" "modules ''scottycore.main'' = Some m" "m ''app'' = Some web_app"
  shows "start_cli modules = Inr web_app"
  using assms by (simp add: start_cli_def cli_module_def ENTRY_POINT_def split_first_def)

end
