(* ===== verification/Toolkit.thy ===== *)
theory Toolkit
  imports Contributors SettingsSvc
begin

section \<open>Edits of YAML files\<close>

text \<open>
  \<open>scripts/scottylab_toolkit\<close>, the part that edits text: \<open>yaml_inserts.py\<close>, \<open>nginx.py\<close> and \<open>inventory.py\<close>.  A file is
  its text, or None when it does not exist; reading turns every line end into a newline.  A regular expression is a
  predicate on the rest of the text, \<open>\<s>*\<close> with its backtracking is \<open>ws_then\<close>.  PyYAML is a parameter.
\<close>

subsection \<open>Lines and patterns\<close>

definition leading :: "string \<Rightarrow> nat" where
  \<comment> \<open>\<open>len(ln) - len(ln.lstrip(" "))\<close>\<close>
  "leading ln = length (takeWhile (\<lambda>c. c = CHR '' '') ln)"

definition blank :: "string \<Rightarrow> bool" where
  "blank ln \<longleftrightarrow> py_strip ln = ''''"

definition lit :: "string \<Rightarrow> (string \<Rightarrow> bool) \<Rightarrow> string \<Rightarrow> bool" where
  "lit k p s \<longleftrightarrow> starts_with k s \<and> p (drop (length k) s)"

fun ws_then :: "(string \<Rightarrow> bool) \<Rightarrow> string \<Rightarrow> bool" where
  "ws_then p [] = p []"
| "ws_then p (c # s) = (p (c # s) \<or> is_space c \<and> ws_then p s)"

definition at_eol :: "string \<Rightarrow> bool" where
  \<comment> \<open>\<open>$\<close> under \<open>re.M\<close>\<close>
  "at_eol s \<longleftrightarrow> s = [] \<or> hd s = CHR 0x0A"

fun after_newlines :: "string \<Rightarrow> string list" where
  "after_newlines [] = []"
| "after_newlines (c # s) = (if c = CHR 0x0A then s # after_newlines s else after_newlines s)"

definition line_search :: "(string \<Rightarrow> bool) \<Rightarrow> string \<Rightarrow> bool" where
  \<comment> \<open>\<open>re.search\<close> of a pattern that starts with \<open>^\<close>, under \<open>re.M\<close>\<close>
  "line_search p text \<longleftrightarrow> list_ex p (text # after_newlines text)"

definition item_listed :: "string \<Rightarrow> string \<Rightarrow> string \<Rightarrow> bool" where
  \<comment> \<open>\<open>^\<s>*-\<s>*label:\<s>*x\<s>*$\<close>\<close>
  "item_listed label x = line_search (ws_then (lit ''-'' (ws_then (lit (label @ '':'') (ws_then (lit x (ws_then at_eol)))))))"

definition key_listed :: "string \<Rightarrow> string \<Rightarrow> bool" where
  \<comment> \<open>\<open>^\<s>*x:\<s>*$\<close>\<close>
  "key_listed x = line_search (ws_then (lit (x @ '':'') (ws_then at_eol)))"

subsection \<open>Appending to a list\<close>

definition block_key :: "string \<Rightarrow> string \<Rightarrow> bool" where
  \<comment> \<open>\<open>re.match\<close> of \<open>^(\<s>*)key:\<s>*$\<close> with one line; a key does not start with white space.\<close>
  "block_key key ln =
     (let r = dropWhile is_space ln in starts_with (key @ '':'') r \<and> list_all is_space (drop (Suc (length key)) r))"

definition empty_list_key :: "string \<Rightarrow> string \<Rightarrow> bool" where
  \<comment> \<open>\<open>^(\<s>*)key:\<s>*\[\]\<s>*$\<close>\<close>
  "empty_list_key key ln =
     (let r = dropWhile is_space ln; v = dropWhile is_space (drop (Suc (length key)) r)
      in starts_with (key @ '':'') r \<and> starts_with ''[]'' v \<and> list_all is_space (drop 2 v))"

definition indent_of :: "string \<Rightarrow> string" where
  "indent_of ln = takeWhile is_space ln"

definition find_line :: "(string \<Rightarrow> bool) \<Rightarrow> string list \<Rightarrow> nat option" where
  "find_line P ls = (let k = length (takeWhile (\<lambda>l. \<not> P l) ls) in if k < length ls then Some k else None)"

definition snippet :: "string list \<Rightarrow> string" where
  "snippet entry_lines = concat (map (\<lambda>el. if ends_with ''\<newline>'' el then el else el @ ''\<newline>'') entry_lines)"

fun body_length :: "nat \<Rightarrow> string list \<Rightarrow> nat" where
  \<comment> \<open>The lines up to the first that is not blank and indented by no more than the bound.\<close>
  "body_length k [] = 0"
| "body_length k (l # ls) = (if \<not> blank l \<and> leading l \<le> k then 0 else Suc (body_length k ls))"

definition insert_point :: "nat \<Rightarrow> string list \<Rightarrow> nat" where
  \<comment> \<open>The end of the body without the blank lines that close it.\<close>
  "insert_point k ls = length (dropWhile blank (rev (take (body_length k ls) ls)))"

definition insert_lines :: "nat \<Rightarrow> string \<Rightarrow> string list \<Rightarrow> string list" where
  "insert_lines k s ls = (let n = insert_point k ls in take n ls @ s # drop n ls)"

definition append_to_yaml_list :: "string \<Rightarrow> string list \<Rightarrow> string \<Rightarrow> string option" where
  "append_to_yaml_list list_key entry_lines text =
     (let ls = keep_lines (universal_newlines text) in
      case find_line (block_key list_key) ls of
        Some k \<Rightarrow>
          Some (concat (take (Suc k) ls @ insert_lines (length (indent_of (ls ! k))) (snippet entry_lines) (drop (Suc k) ls)))
      | None \<Rightarrow>
          (case find_line (empty_list_key list_key) ls of
             None \<Rightarrow> None
           | Some k \<Rightarrow> Some (concat (ls[k := indent_of (ls ! k) @ list_key @ '':\<newline>'' @ snippet entry_lines]))))"

subsection \<open>nginx\<close>

definition add_entry :: "string \<Rightarrow> string \<Rightarrow> string \<Rightarrow> string list \<Rightarrow> string option \<Rightarrow> bool \<times> string option" where
  \<comment> \<open>The shape \<open>add_cert_apex\<close>, \<open>add_vhost\<close> and \<open>add_scottycore_app\<close> share.\<close>
  "add_entry list_key label x entry_lines f =
     (case f of
        None \<Rightarrow> (False, f)
      | Some text \<Rightarrow>
          if item_listed label x (universal_newlines text) then (False, f)
          else (case append_to_yaml_list list_key entry_lines text of None \<Rightarrow> (False, f) | Some t \<Rightarrow> (True, Some t)))"

definition add_cert_apex :: "string \<Rightarrow> string option \<Rightarrow> bool \<times> string option" where
  "add_cert_apex apex f = add_entry ''nginx_certs'' ''apex'' apex [''      - apex: '' @ apex] f"

definition vhost_entry :: "string \<Rightarrow> string \<Rightarrow> string \<Rightarrow> string \<Rightarrow> int \<Rightarrow> string list" where
  "vhost_entry name server_name cert_apex upstream_host_or_ip port =
     ['''', ''      - name: '' @ name, ''        server_name: '' @ server_name, ''        cert: '' @ cert_apex,
      ''        upstream: http://'' @ upstream_host_or_ip @ '':'' @ int_str port]"

definition add_vhost :: "string \<Rightarrow> string \<Rightarrow> string \<Rightarrow> string \<Rightarrow> int \<Rightarrow> string option \<Rightarrow> bool \<times> string option" where
  "add_vhost name server_name cert_apex upstream_host_or_ip port f =
     add_entry ''nginx_vhosts'' ''name'' name (vhost_entry name server_name cert_apex upstream_host_or_ip port) f"

definition no_get :: error where "no_get = OtherException ''AttributeError''"

definition dict_or_empty :: "json option \<Rightarrow> error + (string \<times> json) list" where
  \<comment> \<open>\<open>(v or {})\<close>, of which \<open>.get\<close> is called next\<close>
  "dict_or_empty v =
     (if \<not> truthy_json v then Inr [] else (case v of Some (JObj d) \<Rightarrow> Inr d | _ \<Rightarrow> Inl no_get))"

definition iter_or_empty :: "json option \<Rightarrow> error + json list" where
  \<comment> \<open>\<open>for x in (v or [])\<close>\<close>
  "iter_or_empty v = (if truthy_json v then py_iter (the v) else Inr [])"

definition add_zone :: "string \<Rightarrow> string list \<Rightarrow> string list" where
  "add_zone z zones = (let z = py_strip z in if z \<noteq> '''' \<and> z \<notin> set zones then zones @ [z] else zones)"

definition san_zone :: "string \<Rightarrow> string" where
  "san_zone san = (let san = py_strip san in if starts_with ''*.'' san then drop 2 san else san)"

definition entry_zones :: "(json \<Rightarrow> string) \<Rightarrow> (string \<times> json) list \<Rightarrow> string list \<Rightarrow> error + string list" where
  \<comment> \<open>The first argument is \<open>str\<close>.\<close>
  "entry_zones show_json entry zones =
     (let apex = map_of entry ''apex'' in
      case (if \<not> truthy_json apex then Inr zones
            else (case apex of Some (JStr z) \<Rightarrow> Inr (add_zone z zones) | _ \<Rightarrow> Inl no_get)) of
        Inl x \<Rightarrow> Inl x
      | Inr zones \<Rightarrow>
          (case iter_or_empty (map_of entry ''extra_sans'') of
             Inl x \<Rightarrow> Inl x
           | Inr sans \<Rightarrow> Inr (foldl (\<lambda>zs san. add_zone (san_zone (show_json san)) zs) zones sans)))"

fun certs_zones :: "(json \<Rightarrow> string) \<Rightarrow> json list \<Rightarrow> string list \<Rightarrow> error + string list" where
  "certs_zones show_json [] zones = Inr zones"
| "certs_zones show_json (e # es) zones =
     (case e of
        JObj entry \<Rightarrow> (case entry_zones show_json entry zones of Inl x \<Rightarrow> Inl x | Inr zs \<Rightarrow> certs_zones show_json es zs)
      | _ \<Rightarrow> certs_zones show_json es zones)"

definition play_certs :: "json \<Rightarrow> error + json list" where
  \<comment> \<open>\<open>((play or {}).get("vars") or {}).get("nginx_certs") or []\<close>\<close>
  "play_certs play =
     (case dict_or_empty (Some play) of
        Inl x \<Rightarrow> Inl x
      | Inr p \<Rightarrow> (case dict_or_empty (map_of p ''vars'') of
                    Inl x \<Rightarrow> Inl x | Inr v \<Rightarrow> iter_or_empty (map_of v ''nginx_certs'')))"

fun plays_zones :: "(json \<Rightarrow> string) \<Rightarrow> json list \<Rightarrow> string list \<Rightarrow> error + string list" where
  "plays_zones show_json [] zones = Inr zones"
| "plays_zones show_json (p # ps) zones =
     (case play_certs p of
        Inl x \<Rightarrow> Inl x
      | Inr certs \<Rightarrow> (case certs_zones show_json certs zones of Inl x \<Rightarrow> Inl x | Inr zs \<Rightarrow> plays_zones show_json ps zs))"

definition cert_zones :: "(json \<Rightarrow> string) \<Rightarrow> (string \<Rightarrow> error + json) option \<Rightarrow> string option \<Rightarrow> error + string list" where
  \<comment> \<open>The second argument is \<open>yaml.safe_load\<close>, if PyYAML is installed.\<close>
  "cert_zones show_json yaml f =
     (case (f, yaml) of
        (Some text, Some load) \<Rightarrow>
          (case load text of
             Inl x \<Rightarrow> Inl x
           | Inr cfg \<Rightarrow> plays_zones show_json (case cfg of JList ps \<Rightarrow> ps | _ \<Rightarrow> [cfg]) [])
      | _ \<Rightarrow> Inr [])"

subsection \<open>The inventory\<close>

definition group_match :: "string \<Rightarrow> string \<Rightarrow> string option" where
  \<comment> \<open>The group's key and \<open>hosts:\<close>, each followed by white space with a newline: what comes after \<open>hosts:\<close>.\<close>
  "group_match grp s =
     (let r = dropWhile is_space s; r1 = drop (Suc (length grp)) r; r2 = dropWhile is_space r1; r3 = drop 6 r2
      in if starts_with (grp @ '':'') r \<and> CHR 0x0A \<in> set (takeWhile is_space r1) \<and>
            starts_with ''hosts:'' r2 \<and> CHR 0x0A \<in> set (takeWhile is_space r3)
         then Some r3 else None)"

definition newlines :: "string \<Rightarrow> nat" where
  "newlines s = length (filter (\<lambda>c. c = CHR 0x0A) s)"

definition hosts_start :: "string \<Rightarrow> string \<Rightarrow> nat option" where
  \<comment> \<open>The newlines up to the end of the match, which is its last newline.\<close>
  "hosts_start grp text =
     (case find (\<lambda>s. group_match grp s \<noteq> None) (text # after_newlines text) of
        None \<Rightarrow> None
      | Some s \<Rightarrow>
          (let r3 = the (group_match grp s)
           in Some (newlines (take (length text - length r3) text) + newlines (takeWhile is_space r3))))"

definition host_indent :: "string list \<Rightarrow> string" where
  "host_indent ls =
     (case dropWhile blank ls of
        [] \<Rightarrow> replicate 12 (CHR '' '')
      | l # _ \<Rightarrow> if leading l > 0 then replicate (leading l) (CHR '' '') else replicate 12 (CHR '' ''))"

definition inventory_entry :: "string \<Rightarrow> string \<Rightarrow> string \<Rightarrow> string \<Rightarrow> int \<Rightarrow> string \<Rightarrow> string" where
  "inventory_entry indent hostname ip proxmox_host vmid note =
     (let child = indent @ ''  ''
      in indent @ hostname @ '':\<newline>'' @ child @ ''ansible_host: '' @ ip @ ''\<newline>'' @
         child @ ''proxmox_host: '' @ proxmox_host @ ''\<newline>'' @ child @ ''vmid: '' @ int_str vmid @ ''\<newline>'' @
         (if note = '''' then '''' else child @ ''note: '' @ [CHR 0x22] @ note @ [CHR 0x22] @ ''\<newline>''))"

definition register_host ::
  "string \<Rightarrow> string \<Rightarrow> int \<Rightarrow> string \<Rightarrow> string \<Rightarrow> string \<Rightarrow> string option \<Rightarrow> bool \<times> string option" where
  \<comment> \<open>\<open>inventory.register\<close>; the indent has a space at least, so a line with less of it has at most one less.\<close>
  "register_host hostname ip vmid note proxmox_host grp f =
     (case f of
        None \<Rightarrow> (False, f)
      | Some raw \<Rightarrow>
          (let text = universal_newlines raw in
           if key_listed hostname text then (False, f)
           else (case hosts_start grp text of
                   None \<Rightarrow> (False, f)
                 | Some start \<Rightarrow>
                     (let ls = keep_lines text; hosts = drop start ls; indent = host_indent hosts;
                          entry = inventory_entry indent hostname ip proxmox_host vmid note
                      in (True, Some (concat (take start ls @ insert_lines (length indent - 1) entry hosts)))))))"

subsection \<open>What an insertion does\<close>

lemma ws_then_skip: "list_all is_space w \<Longrightarrow> p s \<Longrightarrow> ws_then p (w @ s)"
proof (induction w)
  case Nil then show ?case by (cases s) auto
qed simp

lemma lit_append [simp]: "lit k p (k @ s) = p s"
  by (simp add: lit_def)

lemma after_newlines_mem: "y \<in> set (after_newlines (x @ CHR 0x0A # y))"
  by (induction x) auto

lemma line_searchI: "p y \<Longrightarrow> line_search p (x @ CHR 0x0A # y)"
  using after_newlines_mem [of y x] by (auto simp: line_search_def list_ex_iff)

lemma item_listedI:
  assumes "list_all is_space w"
  shows "item_listed label x (a @ CHR 0x0A # w @ ''- '' @ label @ '': '' @ x @ CHR 0x0A # b)"
proof -
  have sp: "list_all is_space '' ''" by (simp add: is_space_def code_of_def)
  have eol: "ws_then at_eol (CHR 0x0A # b)" by (simp add: at_eol_def)
  have "ws_then (lit x (ws_then at_eol)) ('' '' @ x @ CHR 0x0A # b)"
    by (rule ws_then_skip [OF sp]) (simp only: lit_append eol)
  then have "lit (label @ '':'') (ws_then (lit x (ws_then at_eol))) ((label @ '':'') @ '' '' @ x @ CHR 0x0A # b)"
    by (simp only: lit_append)
  then have "ws_then (lit (label @ '':'') (ws_then (lit x (ws_then at_eol)))) ('' '' @ (label @ '':'') @ '' '' @ x @ CHR 0x0A # b)"
    by (rule ws_then_skip [OF sp])
  then have "lit ''-'' (ws_then (lit (label @ '':'') (ws_then (lit x (ws_then at_eol)))))
      (''-'' @ '' '' @ (label @ '':'') @ '' '' @ x @ CHR 0x0A # b)"
    by (simp only: lit_append)
  then have "ws_then (lit ''-'' (ws_then (lit (label @ '':'') (ws_then (lit x (ws_then at_eol))))))
      (w @ ''-'' @ '' '' @ (label @ '':'') @ '' '' @ x @ CHR 0x0A # b)"
    by (rule ws_then_skip [OF assms])
  then show ?thesis
    unfolding item_listed_def by (intro line_searchI) simp
qed

lemma insert_lines_shape: "\<exists>x y. ls = x @ y \<and> insert_lines k s ls = x @ s # y"
proof -
  have "ls = take (insert_point k ls) ls @ drop (insert_point k ls) ls" by simp
  then show ?thesis unfolding insert_lines_def Let_def by blast
qed

lemma find_line_SomeD:
  assumes "find_line P ls = Some k"
  shows "k < length ls" "P (ls ! k)"
  using assms nth_length_takeWhile [of "\<lambda>l. \<not> P l" ls] by (auto simp: find_line_def Let_def split: if_splits)

lemma append_shape:
  assumes "append_to_yaml_list key es text = Some t"
  shows "(\<exists>a b. universal_newlines text = a @ b \<and> t = a @ snippet es @ b) \<or>
    (\<exists>a l b. universal_newlines text = a @ l @ b \<and> empty_list_key key l \<and> t = a @ indent_of l @ key @ '':\<newline>'' @ snippet es @ b)"
proof (cases "find_line (block_key key) (keep_lines (universal_newlines text))")
  case (Some k)
  let ?ls = "keep_lines (universal_newlines text)"
  obtain x y where i: "drop (Suc k) ?ls = x @ y"
    "insert_lines (length (indent_of (?ls ! k))) (snippet es) (drop (Suc k) ?ls) = x @ snippet es # y"
    using insert_lines_shape by blast
  have "t = concat (take (Suc k) ?ls @ x @ snippet es # y)"
    using assms Some i(2) by (simp add: append_to_yaml_list_def)
  moreover have "concat ?ls = concat (take (Suc k) ?ls @ x @ y)" using i(1) by (metis append_take_drop_id)
  ultimately have "universal_newlines text = concat (take (Suc k) ?ls @ x) @ concat y \<and>
    t = concat (take (Suc k) ?ls @ x) @ snippet es @ concat y" by simp
  then show ?thesis by blast
next
  case None
  let ?ls = "keep_lines (universal_newlines text)"
  from None assms obtain k where k: "find_line (empty_list_key key) ?ls = Some k"
    and t: "t = concat (?ls[k := indent_of (?ls ! k) @ key @ '':\<newline>'' @ snippet es])"
    by (auto simp: append_to_yaml_list_def Let_def split: option.splits)
  have e: "empty_list_key key (?ls ! k)" "k < length ?ls" using find_line_SomeD [OF k] by auto
  have "?ls = take k ?ls @ ?ls ! k # drop (Suc k) ?ls" using e(2) by (rule id_take_nth_drop)
  then have "universal_newlines text = concat (take k ?ls) @ ?ls ! k @ concat (drop (Suc k) ?ls)"
    by (metis concat_keep_lines concat.simps(2) concat_append)
  moreover have "t = concat (take k ?ls) @ indent_of (?ls ! k) @ key @ '':\<newline>'' @ snippet es @ concat (drop (Suc k) ?ls)"
    using t e(2) by (simp add: upd_conv_take_nth_drop)
  ultimately show ?thesis using e(1) by blast
qed

lemma universal_newlines_no_cr: "CHR 0x0D \<notin> set (universal_newlines s)"
  by (induction s rule: universal_newlines.induct) auto

lemma universal_newlines_idem [simp]: "universal_newlines (universal_newlines s) = universal_newlines s"
  by (simp add: universal_newlines_no_cr)

lemma append_no_cr:
  assumes "append_to_yaml_list key es text = Some t" "CHR 0x0D \<notin> set key" "\<forall>e \<in> set es. CHR 0x0D \<notin> set e"
  shows "CHR 0x0D \<notin> set t"
proof -
  have s: "CHR 0x0D \<notin> set (snippet es)" using assms(3) by (auto simp: snippet_def)
  have u: "CHR 0x0D \<notin> set (universal_newlines text)" by (rule universal_newlines_no_cr)
  have i: "set (indent_of l) \<subseteq> set l" for l by (auto simp: indent_of_def dest: set_takeWhileD)
  from append_shape [OF assms(1)] show ?thesis
  proof (elim disjE exE conjE)
    fix a b assume "universal_newlines text = a @ b" "t = a @ snippet es @ b"
    with s u show ?thesis by auto
  next
    fix a l b assume "universal_newlines text = a @ l @ b" "t = a @ indent_of l @ key @ '':\<newline>'' @ snippet es @ b"
    with s u i [of l] assms(2) show ?thesis by auto
  qed
qed

definition one_line :: "string \<Rightarrow> bool" where
  "one_line s \<longleftrightarrow> CHR 0x0A \<notin> set s \<and> CHR 0x0D \<notin> set s"

lemma one_line_append [simp]: "one_line (s @ t) \<longleftrightarrow> one_line s \<and> one_line t"
  by (auto simp: one_line_def)

lemma nat_str_digits: "c \<in> set (nat_str n) \<Longrightarrow> is_digit c"
proof (induction n rule: nat_str.induct)
  case (1 n)
  have d: "is_digit (char_of (48 + k))" if "k < 10" for k :: nat
    using that by (simp add: is_digit_def code_of_char_of)
  show ?case
  proof (cases "n < 10")
    case True with 1 d show ?thesis by (simp add: nat_str.simps [of n])
  next
    case False
    with 1(2) have "c \<in> set (nat_str (n div 10)) \<or> c = char_of (48 + n mod 10)" by (subst (asm) nat_str.simps) auto
    with 1(1) False d [of "n mod 10"] show ?thesis by auto
  qed
qed

lemma one_line_int_str [simp]: "one_line (int_str i)"
  using nat_str_digits [of "CHR 0x0A"] nat_str_digits [of "CHR 0x0D"]
  by (auto simp: one_line_def int_str_def is_digit_def code_of_def)

lemma snippet_lines: "\<forall>e \<in> set es. one_line e \<Longrightarrow> snippet es = concat (map (\<lambda>e. e @ ''\<newline>'') es)"
  unfolding snippet_def by (rule arg_cong [of _ _ concat], rule map_cong) (auto simp: ends_with_iff one_line_def)

lemma vhost_entry_lines:
  assumes "one_line name" "one_line server" "one_line cert" "one_line up"
  shows "\<forall>e \<in> set (vhost_entry name server cert up port). one_line e"
  using assms one_line_int_str [of port] unfolding vhost_entry_def by (simp; simp add: one_line_def)

lemma vhost_entry_listed:
  "item_listed ''name'' name (p @ concat (map (\<lambda>l. l @ ''\<newline>'') (vhost_entry name server cert up port)) @ q)"
  using item_listedI [of "''      ''" "''name''" name p
    "concat (map (\<lambda>l. l @ ''\<newline>'') (drop 2 (vhost_entry name server cert up port))) @ q"]
  by (simp add: is_space_def code_of_def vhost_entry_def)

text \<open>
  Declaring a virtual host changes nothing but the place where its five lines are put, and a host of that name is declared
  once: a second declaration, whatever it says, reports that it was there and leaves the file alone.
\<close>

theorem vhost_declared_once:
  assumes "add_vhost name server cert up port (Some text) = (True, f)"
    and "one_line name" and "one_line server" and "one_line cert" and "one_line up"
  shows "add_vhost name server' cert' up' port' f = (False, f) \<and>
    (\<exists>a key b. f = Some (a @ key @ concat (map (\<lambda>l. l @ ''\<newline>'') (vhost_entry name server cert up port)) @ b) \<and>
       (key = '''' \<and> universal_newlines text = a @ b \<or>
        (\<exists>l. universal_newlines text = a @ l @ b \<and> empty_list_key ''nginx_vhosts'' l \<and>
           key = indent_of l @ ''nginx_vhosts:\<newline>'')))"
proof -
  define es where "es = vhost_entry name server cert up port"
  from assms(1) obtain t where t: "append_to_yaml_list ''nginx_vhosts'' es text = Some t" "f = Some t"
    by (auto simp: add_vhost_def add_entry_def es_def split: if_splits option.splits)
  have lines: "\<forall>e \<in> set es. one_line e" unfolding es_def by (rule vhost_entry_lines [OF assms(2-5)])
  have sn: "snippet es = concat (map (\<lambda>l. l @ ''\<newline>'') es)" by (rule snippet_lines [OF lines])
  have cr: "universal_newlines t = t"
    using append_no_cr [OF t(1)] lines by (simp add: one_line_def)
  have listed: "item_listed ''name'' name (p @ concat (map (\<lambda>l. l @ ''\<newline>'') es) @ q)" for p q
    unfolding es_def by (rule vhost_entry_listed)
  have again: "add_vhost name server' cert' up' port' f = (False, f)" if "item_listed ''name'' name t"
    using that by (simp add: t(2) add_vhost_def add_entry_def cr)
  have "\<exists>a key b. t = a @ key @ concat (map (\<lambda>l. l @ ''\<newline>'') es) @ b \<and>
       (key = '''' \<and> universal_newlines text = a @ b \<or>
        (\<exists>l. universal_newlines text = a @ l @ b \<and> empty_list_key ''nginx_vhosts'' l \<and>
           key = indent_of l @ ''nginx_vhosts:\<newline>''))" (is "\<exists>a key b. ?P a key b")
    using append_shape [OF t(1)]
  proof (elim disjE exE conjE)
    fix a b assume "universal_newlines text = a @ b" "t = a @ snippet es @ b"
    then have "?P a '''' b" by (simp add: sn)
    then show ?thesis by blast
  next
    fix a l b assume s: "universal_newlines text = a @ l @ b" "empty_list_key ''nginx_vhosts'' l"
      "t = a @ indent_of l @ ''nginx_vhosts'' @ '':\<newline>'' @ snippet es @ b"
    have "t = a @ (indent_of l @ ''nginx_vhosts:\<newline>'') @ concat (map (\<lambda>l. l @ ''\<newline>'') es) @ b"
      unfolding s(3) sn by simp
    with s(1,2) have "?P a (indent_of l @ ''nginx_vhosts:\<newline>'') b" by blast
    then show ?thesis by blast
  qed
  then obtain a key b where p: "?P a key b" by blast
  then have "item_listed ''name'' name t" using listed [of "a @ key" b] by simp
  with again p t(2) show ?thesis unfolding es_def by blast
qed

definition demo_vhosts :: string where
  "demo_vhosts = ''nginx_vhosts:\<newline>  - name: a\<newline>k: v\<newline>''"

lemma demo_vhost_added:
  "add_vhost ''b'' ''b.x'' ''x'' ''h'' 80 (Some demo_vhosts) = (True, Some
    (''nginx_vhosts:\<newline>  - name: a\<newline>'' @ ''\<newline>      - name: b\<newline>        server_name: b.x\<newline>'' @
     ''        cert: x\<newline>        upstream: http://h:80\<newline>k: v\<newline>''))"
  by code_simp

theorem vhost_declared_once_witness:
  "\<exists>f. add_vhost ''b'' ''b.x'' ''x'' ''h'' 80 (Some demo_vhosts) = (True, f) \<and>
     add_vhost ''b'' ''other.com'' ''com'' ''10.0.0.1'' 81 f = (False, f)"
proof -
  have one: "one_line ''b''" "one_line ''b.x''" "one_line ''x''" "one_line ''h''"
    by (simp_all add: one_line_def)
  show ?thesis
    by (rule exI, rule conjI, rule demo_vhost_added, rule conjunct1 [OF vhost_declared_once [OF demo_vhost_added one]])
qed

text \<open>A file whose last line has no line end gets the new entry on that line.\<close>

lemma unterminated_list_glued:
  "add_cert_apex ''b.com'' (Some ''nginx_certs:\<newline>  - apex: a.com'') =
     (True, Some ''nginx_certs:\<newline>  - apex: a.com      - apex: b.com\<newline>'')"
  by code_simp

text \<open>A list written at the indentation of its key, as YAML allows, gets the entry in front of its first item and deeper than it.\<close>

lemma flush_list_broken:
  "add_cert_apex ''b.com'' (Some ''nginx_certs:\<newline>- apex: a.com\<newline>'') =
     (True, Some ''nginx_certs:\<newline>      - apex: b.com\<newline>- apex: a.com\<newline>'')"
  by code_simp

text \<open>In a group without hosts the indentation is taken from the next group, and the host becomes a group beside it.\<close>

lemma empty_group_misplaced:
  "register_host ''h'' ''10.0.0.9'' 7 '''' ''p'' ''g''
     (Some ''    g:\<newline>      hosts:\<newline>    k:\<newline>      hosts:\<newline>        x:\<newline>'') =
   (True, Some (''    g:\<newline>      hosts:\<newline>    k:\<newline>      hosts:\<newline>        x:\<newline>'' @
     ''    h:\<newline>      ansible_host: 10.0.0.9\<newline>      proxmox_host: p\<newline>      vmid: 7\<newline>''))"
  by code_simp

subsection \<open>The zones\<close>

definition zones_ok :: "string list \<Rightarrow> bool" where
  "zones_ok zs \<longleftrightarrow> distinct zs \<and> '''' \<notin> set zs"

lemma add_zone_ok: "zones_ok zs \<Longrightarrow> zones_ok (add_zone z zs)"
  by (auto simp: add_zone_def zones_ok_def Let_def)

lemma foldl_add_zone_ok: "zones_ok zs \<Longrightarrow> zones_ok (foldl (\<lambda>zs san. add_zone (g san) zs) zs sans)"
  by (induction sans arbitrary: zs) (simp_all add: add_zone_ok)

lemma entry_zones_ok: "entry_zones show_json entry zs = Inr zs' \<Longrightarrow> zones_ok zs \<Longrightarrow> zones_ok zs'"
  by (auto simp: entry_zones_def Let_def split: if_splits option.splits json.splits sum.splits
    intro!: foldl_add_zone_ok add_zone_ok)

lemma certs_zones_ok: "certs_zones show_json es zs = Inr zs' \<Longrightarrow> zones_ok zs \<Longrightarrow> zones_ok zs'"
  by (induction es arbitrary: zs) (auto split: json.splits sum.splits dest: entry_zones_ok)

lemma plays_zones_ok: "plays_zones show_json ps zs = Inr zs' \<Longrightarrow> zones_ok zs \<Longrightarrow> zones_ok zs'"
  by (induction ps arbitrary: zs) (auto split: sum.splits dest: certs_zones_ok)

lemma cert_zones_ok: "cert_zones show_json yaml f = Inr zs \<Longrightarrow> zones_ok zs"
proof -
  have "zones_ok []" by (simp add: zones_ok_def)
  then show "cert_zones show_json yaml f = Inr zs \<Longrightarrow> zones_ok zs"
    by (auto simp: cert_zones_def split: option.splits sum.splits dest: plays_zones_ok)
qed

end
