(* ===== verification/HomeLab.thy ===== *)
theory HomeLab
  imports Toolkit
begin

section \<open>The home-lab toolkit\<close>

text \<open>
  \<open>scripts/scottylab_toolkit\<close>, the part that talks to machines: \<open>unifi.py\<close>, \<open>cloudflare.py\<close>, \<open>lxc.py\<close>,
  \<open>ansible_run.py\<close> and the commands of \<open>cli.py\<close>.  Whatever is out there is a state \<open>'w\<close>; an HTTP request, a
  command over ssh and a playbook are functions on it.  Printing, sleeping, TLS and cookies are left out; a value shown
  in a URL is \<open>show_json\<close> of it.  Argument parsing is not modelled.
\<close>

subsection \<open>UniFi\<close>

text \<open>A request yields nothing (an HTTP error, a network error, a body that is no JSON), an empty body, or JSON.\<close>

type_synonym 'w web = "string \<Rightarrow> string \<Rightarrow> (string \<times> string) list \<Rightarrow> json option \<Rightarrow> 'w \<Rightarrow> json option option \<times> 'w"

record 'w unifi_site =
  us_secrets :: "json option"
  us_login :: "string \<Rightarrow> json \<Rightarrow> 'w \<Rightarrow> (int \<times> (string \<times> string) list) option \<times> 'w"
  us_send :: "'w web"
  us_show :: "json \<Rightarrow> string"

definition UNIFI_DEFAULT_AAAA :: string where "UNIFI_DEFAULT_AAAA = ''::dead:beef''"

definition key_error :: "string \<Rightarrow> error" where "key_error k = KeyError k"

definition load_creds :: "'w unifi_site \<Rightarrow> error + (string \<times> json) list option" where
  \<comment> \<open>\<open>us_secrets\<close> is the parsed file; None when there is no file, no PyYAML or a syntax error.\<close>
  "load_creds g =
     (case us_secrets g of
        None \<Rightarrow> Inr None
      | Some cfg \<Rightarrow>
          (case dict_or_empty (Some cfg) of
             Inl x \<Rightarrow> Inl x
           | Inr c \<Rightarrow>
               (case dict_or_empty (map_of c ''unifi'') of
                  Inl x \<Rightarrow> Inl x
                | Inr u \<Rightarrow>
                    if \<not> truthy_json (map_of u ''password'') \<or> contains_str ''<'' (us_show g (the (map_of u ''password'')))
                    then Inr None else Inr (Some u))))"

definition unifi_login ::
  "'w unifi_site \<Rightarrow> (string \<times> json) list \<Rightarrow> 'w \<Rightarrow> (error + (string \<times> string) list option) \<times> 'w" where
  \<comment> \<open>The headers that carry the CSRF token.\<close>
  "unifi_login g u w =
     (case (map_of u ''username'', map_of u ''password'', map_of u ''base_url'') of
        (None, _, _) \<Rightarrow> (Inl (key_error ''username''), w)
      | (_, None, _) \<Rightarrow> (Inl (key_error ''password''), w)
      | (_, _, None) \<Rightarrow> (Inl (key_error ''base_url''), w)
      | (Some name, Some password, Some base) \<Rightarrow>
          (case us_login g (us_show g base @ ''/api/auth/login'') (JObj [(''username'', name), (''password'', password)]) w of
             (None, w) \<Rightarrow> (Inr None, w)
           | (Some (status, headers), w) \<Rightarrow>
               if status \<noteq> 200 then (Inr None, w)
               else (let csrf = (if truthy_str (map_of headers ''X-CSRF-Token'') then map_of headers ''X-CSRF-Token''
                                 else map_of headers ''X-Updated-CSRF-Token'')
                     in (Inr (Some (if truthy_str csrf then [(''X-CSRF-Token'', the csrf)] else [])), w))))"

definition unifi_request ::
  "'w unifi_site \<Rightarrow> (string \<times> json) list \<Rightarrow> string \<Rightarrow> string \<Rightarrow> (string \<times> string) list \<Rightarrow> json option \<Rightarrow> 'w \<Rightarrow> json option \<times> 'w" where
  "unifi_request g u meth path headers body w =
     (case us_send g meth (us_show g (the (map_of u ''base_url'')) @ path) ((''Content-Type'', ''application/json'') # headers) body w of
        (answer, w) \<Rightarrow> (map_option (\<lambda>b. case b of None \<Rightarrow> JObj [] | Some j \<Rightarrow> j) answer, w))"

definition dns_path :: "'w unifi_site \<Rightarrow> (string \<times> json) list \<Rightarrow> string" where
  "dns_path g u = ''/proxy/network/v2/api/site/'' @ us_show g (get_or ''site'' (JStr ''default'') u) @ ''/static-dns''"

type_synonym dns_record = "(string \<times> json) list"

definition record_of :: "string \<Rightarrow> string \<Rightarrow> dns_record \<Rightarrow> bool" where
  "record_of key rec_type r \<longleftrightarrow> map_of r ''key'' = Some (JStr key) \<and> map_of r ''record_type'' = Some (JStr rec_type)"

definition record_current :: "string \<Rightarrow> dns_record \<Rightarrow> bool" where
  "record_current v r \<longleftrightarrow> map_of r ''value'' = Some (JStr v) \<and> truthy_json (Some (get_or ''enabled'' (JBool True) r))"

definition wildcard_covers :: "dns_record list \<Rightarrow> string \<Rightarrow> string \<Rightarrow> string \<Rightarrow> bool" where
  "wildcard_covers records fqdn rec_type v =
     (let parts = split_on (CHR ''.'') fqdn
      in list_ex (\<lambda>i. list_ex (\<lambda>r. record_of (''*.'' @ join_with ''.'' (drop i parts)) rec_type r \<and> record_current v r) records)
           [1..<length parts - 1])"

datatype dns_result = Unchanged | Updated | Created | Failed

definition new_record :: "string \<Rightarrow> string \<Rightarrow> string \<Rightarrow> dns_record" where
  "new_record key rec_type v =
     [(''key'', JStr key), (''record_type'', JStr rec_type), (''value'', JStr v), (''enabled'', JBool True),
      (''ttl'', JInt 0), (''port'', JInt 0), (''priority'', JInt 0), (''weight'', JInt 0)]"

definition renewed_record :: "string \<Rightarrow> dns_record \<Rightarrow> dns_record" where
  "renewed_record v cur = dict_set ''enabled'' (JBool True) (dict_set ''value'' (JStr v) cur)"

definition upsert_record ::
  "'w unifi_site \<Rightarrow> (string \<times> json) list \<Rightarrow> (string \<times> string) list \<Rightarrow> dns_record list \<Rightarrow> string \<Rightarrow> string \<Rightarrow> string \<Rightarrow> 'w \<Rightarrow>
   (error + dns_result) \<times> 'w" where
  \<comment> \<open>What \<open>upsert\<close> of \<open>ensure_dns\<close> and \<open>upsert_wildcard\<close> of \<open>sync_wildcards\<close> share; the records are those read at the start.\<close>
  "upsert_record g u headers records key rec_type v w =
     (case filter (record_of key rec_type) records of
        cur # _ \<Rightarrow>
          if record_current v cur then (Inr Unchanged, w)
          else (case map_of cur ''_id'' of
                  None \<Rightarrow> (Inl (key_error ''_id''), w)
                | Some i \<Rightarrow>
                    (case unifi_request g u ''PUT'' (dns_path g u @ ''/'' @ us_show g i) headers (Some (JObj (renewed_record v cur))) w of
                       (answer, w) \<Rightarrow> (Inr (if answer = None then Failed else Updated), w)))
      | [] \<Rightarrow>
          (case unifi_request g u ''POST'' (dns_path g u) headers (Some (JObj (new_record key rec_type v))) w of
             (answer, w) \<Rightarrow> (Inr (if answer = None then Failed else Created), w)))"

fun as_records :: "json list \<Rightarrow> error + dns_record list" where
  "as_records [] = Inr []"
| "as_records (j # js) = (case j of JObj d \<Rightarrow> map_sum id ((#) d) (as_records js) | _ \<Rightarrow> Inl no_get)"

definition records_of :: "json \<Rightarrow> error + dns_record list" where
  \<comment> \<open>Iterating over the answer and calling \<open>get\<close> on each element; an empty body is an empty dict.\<close>
  "records_of j = (case py_iter j of Inl x \<Rightarrow> Inl x | Inr js \<Rightarrow> as_records js)"

definition with_gateway ::
  "'w unifi_site \<Rightarrow> ((string \<times> json) list \<Rightarrow> (string \<times> string) list \<Rightarrow> json \<Rightarrow> 'w \<Rightarrow> (error + bool) \<times> 'w) \<Rightarrow> 'w \<Rightarrow> (error + bool) \<times> 'w" where
  \<comment> \<open>The credentials, the login and the records, False if any of them is missing.\<close>
  "with_gateway g k w =
     (case load_creds g of
        Inl x \<Rightarrow> (Inl x, w)
      | Inr None \<Rightarrow> (Inr False, w)
      | Inr (Some u) \<Rightarrow>
          attempt (unifi_login g u w) (\<lambda>auth w.
            case auth of
              None \<Rightarrow> (Inr False, w)
            | Some headers \<Rightarrow>
                (case unifi_request g u ''GET'' (dns_path g u) headers None w of
                   (None, w) \<Rightarrow> (Inr False, w) | (Some j, w) \<Rightarrow> k u headers j w)))"

definition ensure_dns :: "'w unifi_site \<Rightarrow> string \<Rightarrow> string \<Rightarrow> string \<Rightarrow> 'w \<Rightarrow> (error + bool) \<times> 'w" where
  "ensure_dns g fqdn a_value aaaa_value w =
     with_gateway g (\<lambda>u headers j w.
       attempt (records_of j, w) (\<lambda>records w.
         let upsert = (\<lambda>rec_type v w. if wildcard_covers records fqdn rec_type v then (Inr Unchanged, w)
                                     else upsert_record g u headers records fqdn rec_type v w)
         in attempt (upsert ''A'' a_value w) (\<lambda>_ w. attempt (upsert ''AAAA'' aaaa_value w) (\<lambda>_ w. (Inr True, w))))) w"

fun sync_all ::
  "'w unifi_site \<Rightarrow> (string \<times> json) list \<Rightarrow> (string \<times> string) list \<Rightarrow> json \<Rightarrow> (string \<times> string \<times> string) list \<Rightarrow> 'w \<Rightarrow>
   (error + dns_result list) \<times> 'w" where
  "sync_all g u headers j [] w = (Inr [], w)"
| "sync_all g u headers j ((key, rec_type, v) # rest) w =
     attempt (records_of j, w) (\<lambda>records w.
     attempt (upsert_record g u headers records key rec_type v w) (\<lambda>r w.
     attempt (sync_all g u headers j rest w) (\<lambda>rs w. (Inr (r # rs), w))))"

definition wildcard_records :: "string list \<Rightarrow> string \<Rightarrow> string \<Rightarrow> (string \<times> string \<times> string) list" where
  "wildcard_records zones ip aaaa = concat (map (\<lambda>z. [(''*.'' @ z, ''A'', ip), (''*.'' @ z, ''AAAA'', aaaa)]) zones)"

definition sync_wildcards :: "'w unifi_site \<Rightarrow> string list \<Rightarrow> string \<Rightarrow> string \<Rightarrow> 'w \<Rightarrow> (error + bool) \<times> 'w" where
  "sync_wildcards g zones nginx_ip aaaa_value w =
     with_gateway g (\<lambda>u headers j w.
       attempt (sync_all g u headers j (wildcard_records zones nginx_ip aaaa_value) w) (\<lambda>rs w. (Inr True, w))) w"

subsection \<open>Reconciling the wildcards\<close>

text \<open>
  What is assumed of the gateway: a GET lists the records, a POST appends one with an identifier, a PUT replaces the record
  of an identifier, and identifiers are distinct.
\<close>

definition gateway_ok ::
  "'w unifi_site \<Rightarrow> (string \<times> json) list \<Rightarrow> (string \<times> string) list \<Rightarrow> ('w \<Rightarrow> dns_record list) \<Rightarrow> bool" where
  "gateway_ok g u h recs \<longleftrightarrow>
     (\<forall>w. unifi_request g u ''GET'' (dns_path g u) h None w = (Some (JList (map JObj (recs w))), w)) \<and>
     (\<forall>w k t v. \<exists>r w' i. unifi_request g u ''POST'' (dns_path g u) h (Some (JObj (new_record k t v))) w = (Some r, w') \<and>
        recs w' = recs w @ [(''_id'', i) # new_record k t v]) \<and>
     (\<forall>w cur v i. cur \<in> set (recs w) \<longrightarrow> map_of cur ''_id'' = Some i \<longrightarrow>
        (\<exists>r w'. unifi_request g u ''PUT'' (dns_path g u @ ''/'' @ us_show g i) h (Some (JObj (renewed_record v cur))) w = (Some r, w') \<and>
          recs w' = map (\<lambda>x. if map_of x ''_id'' = Some i then renewed_record v cur else x) (recs w))) \<and>
     (\<forall>w. \<forall>r \<in> set (recs w). map_of r ''_id'' \<noteq> None) \<and> (\<forall>w. inj_on (\<lambda>r. map_of r ''_id'') (set (recs w)))"

definition served :: "dns_record list \<Rightarrow> string \<times> string \<times> string \<Rightarrow> bool" where
  \<comment> \<open>The record the gateway lists first for a name and type has the value and is enabled.\<close>
  "served records = (\<lambda>(key, rec_type, v).
     case filter (record_of key rec_type) records of [] \<Rightarrow> False | r # _ \<Rightarrow> record_current v r)"

lemma as_records_map [simp]: "as_records (map JObj rs) = Inr rs"
  by (induction rs) auto

lemma records_of_listed [simp]: "records_of (JList (map JObj rs)) = Inr rs"
  by (simp add: records_of_def)

lemma record_of_renewed [simp]: "record_of k t (renewed_record v r) = record_of k t r"
  by (simp add: record_of_def renewed_record_def map_of_dict_set)

lemma current_renewed [simp]: "record_current v (renewed_record v r)"
  by (simp add: record_current_def renewed_record_def map_of_dict_set get_or_def truthy_json_def)

lemma record_of_new: "record_of k t ((''_id'', i) # new_record k' t' v) \<longleftrightarrow> k = k' \<and> t = t'"
  by (auto simp: record_of_def new_record_def)

lemma current_new [simp]: "record_current v ((''_id'', i) # new_record k t v)"
  by (simp add: record_current_def new_record_def get_or_def truthy_json_def)

lemma record_of_unique: "record_of k t r \<Longrightarrow> record_of k' t' r \<Longrightarrow> k = k' \<and> t = t'"
  by (simp add: record_of_def)

lemma upsert_record_effect:
  assumes ok: "gateway_ok g u h recs"
    and same: "filter (record_of k t) records = filter (record_of k t) (recs w)"
  obtains res w' where "upsert_record g u h records k t v w = (Inr res, w')" "served (recs w') (k, t, v)"
    "\<And>k' t'. (k', t') \<noteq> (k, t) \<Longrightarrow> filter (record_of k' t') (recs w') = filter (record_of k' t') (recs w)"
    "served (recs w) (k, t, v) \<Longrightarrow> w' = w"
proof (cases "filter (record_of k t) (recs w)")
  case Nil
  from ok obtain r w' i where p: "unifi_request g u ''POST'' (dns_path g u) h (Some (JObj (new_record k t v))) w = (Some r, w')"
      "recs w' = recs w @ [(''_id'', i) # new_record k t v]"
    unfolding gateway_ok_def by blast
  show thesis
  proof (rule that)
    show "upsert_record g u h records k t v w = (Inr Created, w')" using Nil same p(1) by (simp add: upsert_record_def)
    show "served (recs w') (k, t, v)" using Nil p(2) by (simp add: served_def record_of_new)
    show "filter (record_of k' t') (recs w') = filter (record_of k' t') (recs w)" if "(k', t') \<noteq> (k, t)" for k' t'
      using that p(2) by (auto simp: record_of_new)
    show "served (recs w) (k, t, v) \<Longrightarrow> w' = w" using Nil by (simp add: served_def)
  qed
next
  case (Cons cur rest)
  then have cur: "cur \<in> set (recs w)" "record_of k t cur" by (auto simp: filter_eq_Cons_iff)
  show thesis
  proof (cases "record_current v cur")
    case True
    show thesis
    proof (rule that)
      show "upsert_record g u h records k t v w = (Inr Unchanged, w)" using Cons same True by (simp add: upsert_record_def)
      show "served (recs w) (k, t, v)" using Cons True by (simp add: served_def)
    qed simp_all
  next
    case False
    from ok cur(1) obtain i where i: "map_of cur ''_id'' = Some i" unfolding gateway_ok_def by blast
    from ok cur(1) i obtain r w' where
      p: "unifi_request g u ''PUT'' (dns_path g u @ ''/'' @ us_show g i) h (Some (JObj (renewed_record v cur))) w = (Some r, w')"
        "recs w' = map (\<lambda>x. if map_of x ''_id'' = Some i then renewed_record v cur else x) (recs w)"
      unfolding gateway_ok_def by blast
    have inj: "inj_on (\<lambda>r. map_of r ''_id'') (set (recs w))" using ok unfolding gateway_ok_def by blast
    have only: "x = cur" if "x \<in> set (recs w)" "map_of x ''_id'' = Some i" for x
      using inj_onD [OF inj _ that(1) cur(1)] that(2) i by simp
    have f: "filter (record_of k' t') (recs w') =
        map (\<lambda>x. if map_of x ''_id'' = Some i then renewed_record v cur else x) (filter (record_of k' t') (recs w))" for k' t'
    proof -
      have "filter (record_of k' t') (recs w') = map (\<lambda>x. if map_of x ''_id'' = Some i then renewed_record v cur else x)
          (filter (\<lambda>x. record_of k' t' (if map_of x ''_id'' = Some i then renewed_record v cur else x)) (recs w))"
        by (simp add: p(2) filter_map o_def)
      also have "filter (\<lambda>x. record_of k' t' (if map_of x ''_id'' = Some i then renewed_record v cur else x)) (recs w) =
          filter (record_of k' t') (recs w)"
        by (rule filter_cong) (auto dest: only)
      finally show ?thesis .
    qed
    show thesis
    proof (rule that)
      show "upsert_record g u h records k t v w = (Inr Updated, w')" using Cons same False i p(1) by (simp add: upsert_record_def)
      show "served (recs w') (k, t, v)" using Cons i by (simp add: served_def f)
      show "filter (record_of k' t') (recs w') = filter (record_of k' t') (recs w)" if "(k', t') \<noteq> (k, t)" for k' t'
      proof -
        have "map_of x ''_id'' \<noteq> Some i" if "x \<in> set (filter (record_of k' t') (recs w))" for x
          using that only [of x] cur(2) record_of_unique \<open>(k', t') \<noteq> (k, t)\<close> by auto
        then show ?thesis unfolding f by (intro map_idI) simp
      qed
      show "served (recs w) (k, t, v) \<Longrightarrow> w' = w" using Cons False by (simp add: served_def)
    qed
  qed
qed

lemma sync_all_effect:
  assumes ok: "gateway_ok g u h recs"
    and "distinct (map (\<lambda>(k, t, v). (k, t)) targets)"
    and "\<forall>(k, t, v) \<in> set targets. filter (record_of k t) records = filter (record_of k t) (recs w)"
  shows "\<exists>rs w'. sync_all g u h (JList (map JObj records)) targets w = (Inr rs, w') \<and>
    (\<forall>x \<in> set targets. served (recs w') x) \<and>
    (\<forall>k t. (k, t) \<notin> (\<lambda>(k, t, v). (k, t)) ` set targets \<longrightarrow> filter (record_of k t) (recs w') = filter (record_of k t) (recs w)) \<and>
    ((\<forall>x \<in> set targets. served (recs w) x) \<longrightarrow> w' = w)"
  using assms(2,3)
proof (induction targets arbitrary: w)
  case Nil
  then show ?case by simp
next
  case (Cons x rest)
  obtain k t v where x: "x = (k, t, v)" by (cases x)
  obtain res w1 where u: "upsert_record g u h records k t v w = (Inr res, w1)" "served (recs w1) (k, t, v)"
    "\<And>k' t'. (k', t') \<noteq> (k, t) \<Longrightarrow> filter (record_of k' t') (recs w1) = filter (record_of k' t') (recs w)"
    "served (recs w) (k, t, v) \<Longrightarrow> w1 = w"
    using upsert_record_effect [OF ok, of k t records w v] Cons.prems(2) x by auto
  have new: "(k, t) \<notin> (\<lambda>(k, t, v). (k, t)) ` set rest" using Cons.prems(1) x by simp
  have pending: "\<forall>(k', t', v') \<in> set rest. filter (record_of k' t') records = filter (record_of k' t') (recs w1)"
  proof clarify
    fix k' t' v' assume m: "(k', t', v') \<in> set rest"
    then have "(k', t') \<noteq> (k, t)" using new by force
    from u(3) [OF this] Cons.prems(2) m
    show "filter (record_of k' t') records = filter (record_of k' t') (recs w1)" by (simp; blast)
  qed
  have "distinct (map (\<lambda>(k, t, v). (k, t)) rest)" using Cons.prems(1) by simp
  from Cons.IH [OF this pending] obtain rs w' where
    r: "sync_all g u h (JList (map JObj records)) rest w1 = (Inr rs, w')" "\<forall>x \<in> set rest. served (recs w') x"
      "\<forall>k t. (k, t) \<notin> (\<lambda>(k, t, v). (k, t)) ` set rest \<longrightarrow> filter (record_of k t) (recs w') = filter (record_of k t) (recs w1)"
      "(\<forall>x \<in> set rest. served (recs w1) x) \<longrightarrow> w' = w1"
    by blast
  have "sync_all g u h (JList (map JObj records)) (x # rest) w = (Inr (res # rs), w')"
    by (simp add: x attempt_def u(1) r(1))
  moreover have "served (recs w') x" using r(3) new u(2) by (simp add: x served_def)
  moreover have "filter (record_of k' t') (recs w') = filter (record_of k' t') (recs w)"
    if "(k', t') \<notin> (\<lambda>(k, t, v). (k, t)) ` set (x # rest)" for k' t'
    using that r(3) u(3) [of k' t'] x by simp
  moreover have "w' = w" if "\<forall>y \<in> set (x # rest). served (recs w) y"
    using that u(4) r(4) x by simp
  ultimately show ?case using r(2) by auto
qed

lemma wildcard_records_distinct:
  assumes "distinct zones"
  shows "distinct (map (\<lambda>(k, t, v). (k, t)) (wildcard_records zones ip aaaa))"
  using assms
proof (induction zones)
  case (Cons z zones)
  have "(''*.'' @ z, t) \<notin> set (map (\<lambda>(k, t, v). (k, t)) (wildcard_records zones ip aaaa))" for t
    using Cons.prems by (auto simp: wildcard_records_def)
  with Cons show ?case by (simp add: wildcard_records_def)
qed (simp add: wildcard_records_def)

lemma sync_wildcards_run:
  assumes "load_creds g = Inr (Some u)" "unifi_login g u w = (Inr (Some h), w)" "gateway_ok g u h recs"
    and "sync_all g u h (JList (map JObj (recs w))) (wildcard_records zones ip aaaa) w = (Inr rs, w')"
  shows "sync_wildcards g zones ip aaaa w = (Inr True, w')"
proof -
  have "unifi_request g u ''GET'' (dns_path g u) h None w = (Some (JList (map JObj (recs w))), w)"
    using assms(3) unfolding gateway_ok_def by blast
  with assms(1,2,4) show ?thesis by (simp add: sync_wildcards_def with_gateway_def attempt_def)
qed

text \<open>
  C31: One synchronisation with a working gateway is enough: for every zone nginx has a certificate for, the record the
  gateway lists first for its wildcard has the wanted A and AAAA value and is enabled, every other name's records are as
  they were, and the next synchronisation changes nothing.
\<close>

theorem wildcards_reconciled:
  assumes "load_creds g = Inr (Some u)" and "\<And>w. unifi_login g u w = (Inr (Some h), w)" and "gateway_ok g u h recs"
    and "cert_zones show_json yaml certs = Inr zones"
  shows "\<exists>w'. sync_wildcards g zones ip aaaa w = (Inr True, w') \<and> sync_wildcards g zones ip aaaa w' = (Inr True, w') \<and>
    (\<forall>z \<in> set zones. served (recs w') (''*.'' @ z, ''A'', ip) \<and> served (recs w') (''*.'' @ z, ''AAAA'', aaaa)) \<and>
    (\<forall>k t. k \<notin> (@) ''*.'' ` set zones \<longrightarrow> filter (record_of k t) (recs w') = filter (record_of k t) (recs w))"
proof -
  let ?ts = "wildcard_records zones ip aaaa"
  have d: "distinct (map (\<lambda>(k, t, v). (k, t)) ?ts)"
    using cert_zones_ok [OF assms(4)] by (simp add: zones_ok_def wildcard_records_distinct)
  have all: "\<forall>(k, t, v) \<in> set ?ts. filter (record_of k t) (recs w) = filter (record_of k t) (recs w)" for w by auto
  obtain rs w' where r: "sync_all g u h (JList (map JObj (recs w))) ?ts w = (Inr rs, w')" "\<forall>x \<in> set ?ts. served (recs w') x"
      "\<forall>k t. (k, t) \<notin> (\<lambda>(k, t, v). (k, t)) ` set ?ts \<longrightarrow> filter (record_of k t) (recs w') = filter (record_of k t) (recs w)"
    using sync_all_effect [OF assms(3) d all] by blast
  obtain rs2 where "sync_all g u h (JList (map JObj (recs w'))) ?ts w' = (Inr rs2, w')"
    using sync_all_effect [OF assms(3) d all, of w'] r(2) by blast
  then have again: "sync_wildcards g zones ip aaaa w' = (Inr True, w')"
    by (rule sync_wildcards_run [OF assms(1) assms(2) assms(3)])
  have "filter (record_of k t) (recs w') = filter (record_of k t) (recs w)" if "k \<notin> (@) ''*.'' ` set zones" for k t
  proof -
    have "(k, t) \<notin> (\<lambda>(k, t, v). (k, t)) ` set ?ts" using that by (auto simp: wildcard_records_def)
    with r(3) show ?thesis by blast
  qed
  moreover have "served (recs w') (''*.'' @ z, ''A'', ip) \<and> served (recs w') (''*.'' @ z, ''AAAA'', aaaa)" if "z \<in> set zones" for z
    using r(2) that by (auto simp: wildcard_records_def)
  ultimately show ?thesis
    using sync_wildcards_run [OF assms(1) assms(2) assms(3) r(1)] again by blast
qed

text \<open>A gateway whose state is the list of its records, numbered by their place.\<close>

definition numbered :: "dns_record list \<Rightarrow> dns_record list" where
  "numbered w = map (\<lambda>i. (''_id'', JInt (int i)) # w ! i) [0..<length w]"

fun demo_show :: "json \<Rightarrow> string" where
  "demo_show (JStr s) = s"
| "demo_show (JInt n) = replicate (nat n) (CHR ''x'')"
| "demo_show j = ''''"

definition demo_dns :: "string \<Rightarrow> string" where
  "demo_dns i = ''https://gw/proxy/network/v2/api/site/default/static-dns'' @ i"

definition demo_send :: "dns_record list web" where
  "demo_send meth url hs body w =
     (if meth = ''GET'' then (Some (Some (JList (map JObj (numbered w)))), w)
      else case body of
        Some (JObj d) \<Rightarrow>
          if meth = ''POST'' then (Some None, w @ [d])
          else (Some None, map (\<lambda>i. if url = demo_dns (CHR ''/'' # replicate i (CHR ''x'')) then tl d else w ! i) [0..<length w])
      | _ \<Rightarrow> (None, w))"

definition demo_site :: "dns_record list unifi_site" where
  "demo_site = \<lparr>us_secrets = Some (JObj [(''unifi'', JObj [(''username'', JStr ''u''), (''password'', JStr ''p''),
       (''base_url'', JStr ''https://gw'')])]),
     us_login = (\<lambda>url body w. (Some (200, []), w)), us_send = demo_send, us_show = demo_show\<rparr>"

definition demo_unifi :: "(string \<times> json) list" where
  "demo_unifi = [(''username'', JStr ''u''), (''password'', JStr ''p''), (''base_url'', JStr ''https://gw'')]"

lemma demo_unifi_facts:
  "load_creds demo_site = Inr (Some demo_unifi)" "unifi_login demo_site demo_unifi w = (Inr (Some []), w)"
  "us_show demo_site (the (map_of demo_unifi ''base_url'')) @ dns_path demo_site demo_unifi @ s = demo_dns s"
  by (simp_all add: load_creds_def demo_site_def demo_unifi_def dict_or_empty_def truthy_json_def starts_with_def
    unifi_login_def truthy_str_def dns_path_def get_or_def demo_dns_def)

lemma demo_request:
  "unifi_request demo_site demo_unifi meth (dns_path demo_site demo_unifi @ s) [] body w =
   (case demo_send meth (demo_dns s) [(''Content-Type'', ''application/json'')] body w of
      (answer, w) \<Rightarrow> (map_option (\<lambda>b. case b of None \<Rightarrow> JObj [] | Some j \<Rightarrow> j) answer, w))"
  unfolding unifi_request_def demo_unifi_facts(3) by (simp add: demo_site_def)

lemma demo_gateway: "gateway_ok demo_site demo_unifi [] numbered"
proof -
  have num: "numbered (w @ [d]) = numbered w @ [(''_id'', JInt (int (length w))) # d]" for w d
    by (simp add: numbered_def nth_append)
  have ids: "r \<in> set (numbered w) \<Longrightarrow> \<exists>i < length w. r = (''_id'', JInt (int i)) # w ! i" for r w
    by (auto simp: numbered_def)
  have inj: "inj_on (\<lambda>r. map_of r ''_id'') (set (numbered w))" for w
    by (auto simp: inj_on_def dest!: ids)
  have put: "demo_send ''PUT'' (demo_dns (CHR ''/'' # replicate i (CHR ''x''))) hs (Some (JObj (renewed_record v ((''_id'', JInt (int i)) # d)))) w =
      (Some None, map (\<lambda>k. if k = i then tl (renewed_record v ((''_id'', JInt (int i)) # d)) else w ! k) [0..<length w])" for i hs v d w
    by (auto simp: demo_send_def demo_dns_def dest: arg_cong [of _ _ length])
  have hd: "(''_id'', JInt (int i)) # tl (renewed_record v ((''_id'', JInt (int i)) # d)) = renewed_record v ((''_id'', JInt (int i)) # d)" for i v d
    by (simp add: renewed_record_def dict_set_def)
  have new: "numbered (map (\<lambda>k. if k = i then tl (renewed_record v ((''_id'', JInt (int i)) # w ! i)) else w ! k) [0..<length w]) =
      map (\<lambda>x. if map_of x ''_id'' = Some (JInt (int i)) then renewed_record v ((''_id'', JInt (int i)) # w ! i) else x) (numbered w)" for i v w
    using hd [of i v "w ! i"] by (simp add: numbered_def)
  show ?thesis
    unfolding gateway_ok_def
  proof (intro conjI allI ballI impI)
    fix w show "unifi_request demo_site demo_unifi ''GET'' (dns_path demo_site demo_unifi) [] None w =
      (Some (JList (map JObj (numbered w))), w)"
      using demo_request [of "''GET''" "''''"] by (simp add: demo_send_def)
  next
    fix w k t v
    have "unifi_request demo_site demo_unifi ''POST'' (dns_path demo_site demo_unifi) [] (Some (JObj (new_record k t v))) w =
      (Some (JObj []), w @ [new_record k t v])"
      using demo_request [of "''POST''" "''''"] by (simp add: demo_send_def)
    then show "\<exists>r w' i. unifi_request demo_site demo_unifi ''POST'' (dns_path demo_site demo_unifi) []
        (Some (JObj (new_record k t v))) w = (Some r, w') \<and> numbered w' = numbered w @ [(''_id'', i) # new_record k t v]"
      using num by blast
  next
    fix w cur v i assume "cur \<in> set (numbered w)" "map_of cur ''_id'' = Some i"
    then obtain n where n: "n < length w" "cur = (''_id'', JInt (int n)) # w ! n" "i = JInt (int n)" using ids by fastforce
    have path: "us_show demo_site i = replicate n (CHR ''x'')" by (simp add: demo_site_def n(3))
    show "\<exists>r w'. unifi_request demo_site demo_unifi ''PUT'' (dns_path demo_site demo_unifi @ ''/'' @ us_show demo_site i) []
        (Some (JObj (renewed_record v cur))) w = (Some r, w') \<and>
        numbered w' = map (\<lambda>x. if map_of x ''_id'' = Some i then renewed_record v cur else x) (numbered w)"
      unfolding demo_request n(2) path [unfolded n(3)] n(3) append_Cons append_Nil put
      using new [of n v w] by simp
  next
    fix w r assume "r \<in> set (numbered w)" then show "map_of r ''_id'' \<noteq> None" using ids by fastforce
  qed (rule inj)
qed

theorem wildcards_reconciled_witness:
  "\<exists>zones w'. cert_zones demo_show (Some (\<lambda>t. Inr (JObj [(''vars'', JObj [(''nginx_certs'', JList [JObj [(''apex'', JStr t)]])])])))
      (Some ''a.com'') = Inr zones \<and>
    sync_wildcards demo_site zones ''10.0.0.1'' ''::1'' [[(''key'', JStr ''*.a.com''), (''record_type'', JStr ''A''), (''value'', JStr ''old'')]] =
      (Inr True, w') \<and>
    served (numbered w') (''*.a.com'', ''A'', ''10.0.0.1'') \<and> served (numbered w') (''*.a.com'', ''AAAA'', ''::1'')"
proof -
  have z: "cert_zones demo_show (Some (\<lambda>t. Inr (JObj [(''vars'', JObj [(''nginx_certs'', JList [JObj [(''apex'', JStr t)]])])])))
      (Some ''a.com'') = Inr [''a.com'']"
    by (simp add: cert_zones_def play_certs_def dict_or_empty_def truthy_json_def iter_or_empty_def entry_zones_def add_zone_def
      py_strip_def strip_where_def lstrip_where_def rstrip_where_def is_space_def code_of_def)
  show ?thesis
    using wildcards_reconciled [OF demo_unifi_facts(1) demo_unifi_facts(2) demo_gateway z, of "''10.0.0.1''" "''::1''"
      "[[(''key'', JStr ''*.a.com''), (''record_type'', JStr ''A''), (''value'', JStr ''old'')]]"] z
    by fastforce
qed

subsection \<open>Cloudflare\<close>

type_synonym 'w ssh = "string \<Rightarrow> string \<Rightarrow> 'w \<Rightarrow> (error + (int \<times> string \<times> string)) \<times> 'w"

datatype web_answer = HttpError int string | NetFault error | WebJson json

type_synonym 'w cf_web = "string \<Rightarrow> string \<Rightarrow> string \<Rightarrow> json option \<Rightarrow> 'w \<Rightarrow> web_answer \<times> 'w"

definition NGINX_HOST :: string where "NGINX_HOST = ''192.168.151.10''"
definition CF_API :: string where "CF_API = ''https://api.cloudflare.com/client/v4''"
definition CF_TUNNEL_HOSTNAME :: string where
  "CF_TUNNEL_HOSTNAME = ''1feb72d4-9b3c-4159-a668-e552a96846c8'' @ ''.cfargotunnel.com''"

definition ssh_read :: "'w ssh \<Rightarrow> string \<Rightarrow> string \<Rightarrow> 'w \<Rightarrow> (error + string option) \<times> 'w" where
  "ssh_read ssh host path w =
     attempt (ssh host (''cat '' @ path) w) (\<lambda>r w. (Inr (if fst r = 0 then Some (fst (snd r)) else None), w))"

definition token_of :: "string \<Rightarrow> error + string option" where
  "token_of body =
     (case find (contains_str ''dns_cloudflare_api_token'') (keep_lines body) of
        None \<Rightarrow> Inr None
      | Some ln \<Rightarrow> (case split_first (CHR ''='') ln of
                      None \<Rightarrow> Inl (OtherException ''IndexError: list index out of range'') | Some (k, v) \<Rightarrow> Inr (Some (py_strip v))))"

definition cf_token :: "'w ssh \<Rightarrow> 'w \<Rightarrow> (error + string option) \<times> 'w" where
  "cf_token ssh w =
     attempt (ssh_read ssh NGINX_HOST ''/etc/letsencrypt/cloudflare.ini'' w) (\<lambda>body w.
       if truthy_str body then (token_of (the body), w) else (Inr None, w))"

definition first_dict :: "json \<Rightarrow> (string \<times> json) list option" where
  "first_dict j = (case j of JList (JObj d # _) \<Rightarrow> Some d | _ \<Rightarrow> None)"

definition zone_id :: "'w cf_web \<Rightarrow> string \<Rightarrow> string \<Rightarrow> 'w \<Rightarrow> json option \<times> 'w" where
  \<comment> \<open>Every exception ends in None.\<close>
  "zone_id web tok apex w =
     (case web ''GET'' (CF_API @ ''/zones?name='' @ apex) tok None w of
        (WebJson (JObj d), w) \<Rightarrow> (Option.bind (first_dict (get_or ''result'' (JList []) d)) (\<lambda>z. map_of z ''id''), w)
      | (_, w) \<Rightarrow> (None, w))"

definition cname_payload :: "string \<Rightarrow> string \<Rightarrow> json" where
  "cname_payload name target =
     JObj [(''type'', JStr ''CNAME''), (''name'', JStr name), (''content'', JStr target), (''proxied'', JBool True),
           (''comment'', JStr ''managed by scottylab_toolkit'')]"

definition relative_host :: "string \<Rightarrow> string \<Rightarrow> string" where
  "relative_host fqdn apex =
     (if fqdn = apex then ''@''
      else if ends_with (''.'' @ apex) fqdn then take (length fqdn - length apex - 1) fqdn else fqdn)"

definition write_cname ::
  "'w cf_web \<Rightarrow> (json \<Rightarrow> string) \<Rightarrow> string \<Rightarrow> string \<Rightarrow> string \<Rightarrow> string \<Rightarrow> json \<Rightarrow> 'w \<Rightarrow> (error + bool) \<times> 'w" where
  \<comment> \<open>What follows the probe; \<open>base\<close> is the URL of the zone's records.\<close>
  "write_cname web show_json tok base name target existing w =
     (if truthy_json (Some existing) \<and> first_dict existing = None then (Inl no_get, w)
      else let cur = (if truthy_json (Some existing) then first_dict existing else None) in
      if Option.bind cur (\<lambda>r. map_of r ''content'') = Some (JStr target) then (Inr True, w)
      else (case (case cur of None \<Rightarrow> Inr (''POST'', base)
                  | Some r \<Rightarrow> (case map_of r ''id'' of None \<Rightarrow> Inl (key_error ''id'') | Some i \<Rightarrow> Inr (''PUT'', base @ ''/'' @ show_json i))) of
              Inl x \<Rightarrow> (Inl x, w)
            | Inr (meth, url) \<Rightarrow>
                (case web meth url tok (Some (cname_payload name target)) w of
                   (HttpError code body, w) \<Rightarrow> (Inr False, w)
                 | (NetFault x, w) \<Rightarrow> (Inl x, w)
                 | (WebJson (JObj d), w) \<Rightarrow> (Inr (truthy_json (map_of d ''success'')), w)
                 | (WebJson _, w) \<Rightarrow> (Inl no_get, w))))"

definition ensure_cname ::
  "'w ssh \<Rightarrow> 'w cf_web \<Rightarrow> (json \<Rightarrow> string) \<Rightarrow> string \<Rightarrow> string \<Rightarrow> string \<Rightarrow> 'w \<Rightarrow> (error + bool) \<times> 'w" where
  "ensure_cname ssh web show_json fqdn apex target w =
     attempt (cf_token ssh w) (\<lambda>tok w.
       if \<not> truthy_str tok then (Inr False, w)
       else (case zone_id web (the tok) apex w of (zid, w) \<Rightarrow>
         if \<not> truthy_json zid then (Inr False, w)
         else (let base = CF_API @ ''/zones/'' @ show_json (the zid) @ ''/dns_records'' in
           case web ''GET'' (base @ ''?type=CNAME&name='' @ fqdn) (the tok) None w of
             (WebJson (JObj d), w) \<Rightarrow>
               write_cname web show_json (the tok) base (relative_host fqdn apex) target (get_or ''result'' (JList []) d) w
           | (_, w) \<Rightarrow> (Inr False, w))))"

text \<open>The tunnel's configuration: the rule goes in front of the catch-all rule.\<close>

definition catch_all :: "string \<Rightarrow> bool" where
  "catch_all = ws_then (lit ''- service:'' (ws_then (lit ''http_status:404'' (ws_then (lit ''\<newline>'' (\<lambda>s. True))))))"

fun insert_rule :: "string \<Rightarrow> string \<Rightarrow> string option" where
  "insert_rule rule [] = None"
| "insert_rule rule (c # s) =
     (if c = CHR 0x0A \<and> catch_all s then Some (c # rule @ s) else map_option ((#) c) (insert_rule rule s))"

definition ingress_rule :: "string \<Rightarrow> string \<Rightarrow> string" where
  "ingress_rule fqdn service =
     ''  - hostname: '' @ fqdn @ ''\<newline>    service: '' @ service @ ''\<newline>    originRequest:\<newline>      httpHostHeader: '' @ fqdn @ ''\<newline>''"

definition ensure_tunnel_ingress ::
  "(string \<Rightarrow> string \<Rightarrow> bool) \<Rightarrow> (string \<Rightarrow> bool) \<Rightarrow> string \<Rightarrow> string \<Rightarrow> string \<Rightarrow> bool \<times> string" where
  \<comment> \<open>\<open>grep -q\<close> on the nginx host, \<open>cloudflared ingress validate\<close> and the restart, then the state of the file.\<close>
  "ensure_tunnel_ingress grep valid fqdn service conf =
     (if grep (''hostname: '' @ fqdn) conf then (True, conf)
      else (case insert_rule (ingress_rule fqdn service) conf of
              None \<Rightarrow> (False, conf)
            | Some new \<Rightarrow> (valid new, new)))"

subsection \<open>Proxmox\<close>

definition list_command :: "string \<Rightarrow> string" where
  "list_command hostname = ''pct list | awk -v h='' @ hostname @ '' '$NF==h {print $1}'' @ [CHR 0x27]"

definition address_command :: "string \<Rightarrow> string" where
  "address_command vmid =
     ''pct exec '' @ vmid @ '' -- ip -4 -o addr show eth0 2>/dev/null | awk '{print $4}' | cut -d/ -f1 | head -1''"

definition create_command :: "string \<Rightarrow> int \<Rightarrow> int \<Rightarrow> int \<Rightarrow> string" where
  "create_command hostname cores memory_mb disk_gb =
     ''set -e; VMID=$(pvesh get /cluster/nextid); pct create $VMID local:vztmpl/ubuntu-24.04-standard_24.04-2_amd64.tar.zst '' @
     ''  --hostname '' @ hostname @ ''   --unprivileged 1 --features nesting=1,keyctl=1   --cores '' @ int_str cores @
     '' --memory '' @ int_str memory_mb @ '' --swap 512   --rootfs rbd_nvme_storage:'' @ int_str disk_gb @
     ''   --net0 name=eth0,bridge=vmbr0,ip=dhcp,tag=150   --onboot 1   --ssh-public-keys /root/.ssh/authorized_keys '' @
     ''  --start 1 >/dev/null; echo VMID=$VMID''"

fun poll_address :: "'w ssh \<Rightarrow> string \<Rightarrow> string \<Rightarrow> nat \<Rightarrow> 'w \<Rightarrow> (error + string) \<times> 'w" where
  \<comment> \<open>\<open>for _ in range(n)\<close>; the empty text when no address was seen.\<close>
  "poll_address ssh node vmid 0 w = (Inr '''', w)"
| "poll_address ssh node vmid (Suc n) w =
     attempt (ssh node (address_command vmid) w) (\<lambda>r w.
       let ip = py_strip (fst (snd r)) in if ip \<noteq> '''' then (Inr ip, w) else poll_address ssh node vmid n w)"

definition provision ::
  "'w ssh \<Rightarrow> string \<Rightarrow> string \<Rightarrow> int \<Rightarrow> int \<Rightarrow> int \<Rightarrow> 'w \<Rightarrow> (error + (int \<times> string) option) \<times> 'w" where
  "provision ssh node hostname cores memory_mb disk_gb w =
     attempt (ssh node (list_command hostname) w) (\<lambda>found w.
       let existing = takeWhile (\<lambda>c. \<not> is_linebreak c) (py_strip (fst (snd found))) in
       if existing \<noteq> '''' \<and> list_all is_digit existing then
         attempt (ssh node (address_command existing) w) (\<lambda>r w. (Inr (Some (digits_val existing, py_strip (fst (snd r)))), w))
       else attempt (ssh node (create_command hostname cores memory_mb disk_gb) w) (\<lambda>r w.
         if fst r \<noteq> 0 then (Inr None, w)
         else (case find (starts_with ''VMID='') (keep_lines (fst (snd r))) of
                 None \<Rightarrow> (Inr None, w)
               | Some ln \<Rightarrow>
                   (case py_int (JStr (py_strip (drop 5 ln))) of
                      Inl x \<Rightarrow> (Inl x, w)
                    | Inr vmid \<Rightarrow>
                        attempt (poll_address ssh node (int_str vmid) 30 w) (\<lambda>ip w.
                          (Inr (if ip = '''' then None else Some (vmid, ip)), w))))))"

subsection \<open>Ansible\<close>

type_synonym 'w runner = "string list \<Rightarrow> 'w \<Rightarrow> (error + int) \<times> 'w"

definition playbook_command :: "string \<Rightarrow> string option \<Rightarrow> (string \<times> string) list \<Rightarrow> string list" where
  "playbook_command playbook lim extra_vars =
     [''ansible-playbook'', ''-i'', ''inventory/hosts.yml'', ''-i'', ''inventory/workloads.yml'', ''playbooks/workloads/'' @ playbook] @
     (if truthy_str lim then [''-l'', the lim] else []) @ concat (map (\<lambda>(k, v). [''-e'', k @ ''='' @ v]) extra_vars)"

definition run_playbook ::
  "'w runner \<Rightarrow> string \<Rightarrow> string option \<Rightarrow> (string \<times> string) list \<Rightarrow> 'w \<Rightarrow> (error + bool) \<times> 'w" where
  "run_playbook run playbook lim extra_vars w =
     attempt (run (playbook_command playbook lim extra_vars) w) (\<lambda>rc w. (Inr (rc = 0), w))"

definition install_docker :: "'w runner \<Rightarrow> string \<Rightarrow> 'w \<Rightarrow> (error + bool) \<times> 'w" where
  "install_docker run host = run_playbook run ''docker.yml'' (Some host) [(''target_hosts'', ''all'')]"

definition issue_certs :: "'w runner \<Rightarrow> 'w \<Rightarrow> (error + bool) \<times> 'w" where
  "issue_certs run = run_playbook run ''nginx-certs.yml'' None []"

definition deploy_scottycore_app :: "'w runner \<Rightarrow> string \<Rightarrow> 'w \<Rightarrow> (error + bool) \<times> 'w" where
  "deploy_scottycore_app run host = run_playbook run ''scottycore-apps.yml'' (Some host) [(''target_hosts'', ''all'')]"

definition publish_vhost :: "'w runner \<Rightarrow> 'w \<Rightarrow> (error + bool) \<times> 'w" where
  "publish_vhost run = run_playbook run ''nginx-vhosts.yml'' None []"

subsection \<open>The commands\<close>

record 'w lab =
  lb_certs :: "string option"
  lb_vhosts :: "string option"
  lb_inventory :: "string option"
  lb_tunnel :: string
  lb_net :: 'w

record 'w lab_tools =
  lt_unifi :: "'w unifi_site"
  lt_ssh :: "'w ssh"
  lt_web :: "'w cf_web"
  lt_grep :: "string \<Rightarrow> string \<Rightarrow> bool"
  lt_valid :: "string \<Rightarrow> bool"
  lt_run :: "'w runner"
  lt_yaml :: "(string \<Rightarrow> error + json) option"

definition on_net :: "('w \<Rightarrow> (error + 'a) \<times> 'w) \<Rightarrow> 'w lab \<Rightarrow> (error + 'a) \<times> 'w lab" where
  "on_net f b = (case f (lb_net b) of (r, w) \<Rightarrow> (r, b\<lparr>lb_net := w\<rparr>))"

definition apex_of :: "string \<Rightarrow> string" where
  "apex_of fqdn = (case split_first (CHR ''.'') fqdn of None \<Rightarrow> fqdn | Some (l, r) \<Rightarrow> r)"

record publish_args =
  pa_fqdn :: string
  pa_upstream :: string
  pa_name :: "string option"
  pa_no_unifi :: bool
  pa_no_tunnel :: bool
  pa_no_reload :: bool

definition cmd_publish :: "'w lab_tools \<Rightarrow> publish_args \<Rightarrow> 'w lab \<Rightarrow> (error + int) \<times> 'w lab" where
  "cmd_publish g a b =
     (let fqdn = pa_fqdn a; apex = apex_of fqdn;
          (host, port) = (case split_first (CHR '':'') (pa_upstream a) of None \<Rightarrow> (pa_upstream a, '''') | Some p \<Rightarrow> p) in
      if port = '''' then (Inr 2, b)
      else (case py_int (JStr port) of
        Inl x \<Rightarrow> (Inl x, b)
      | Inr n \<Rightarrow>
          (let name = (if truthy_str (pa_name a) then the (pa_name a) else hd (split_on (CHR ''.'') fqdn));
               b = b\<lparr>lb_vhosts := snd (add_vhost name fqdn apex host n (lb_vhosts b))\<rparr> in
           attempt (if pa_no_tunnel a then (Inr True, b)
                    else attempt (on_net (ensure_cname (lt_ssh g) (lt_web g) (us_show (lt_unifi g)) fqdn apex CF_TUNNEL_HOSTNAME) b) (\<lambda>_ b.
                         (Inr True, b\<lparr>lb_tunnel := snd (ensure_tunnel_ingress (lt_grep g) (lt_valid g) fqdn ''http://localhost:80'' (lb_tunnel b))\<rparr>)))
             (\<lambda>_ b. attempt (if pa_no_unifi a then (Inr True, b) else on_net (ensure_dns (lt_unifi g) fqdn NGINX_HOST UNIFI_DEFAULT_AAAA) b)
             (\<lambda>_ b. attempt (if pa_no_reload a then (Inr True, b) else on_net (publish_vhost (lt_run g)) b)
             (\<lambda>_ b. (Inr 0, b)))))))"

definition cmd_dns_sync :: "'w lab_tools \<Rightarrow> 'w lab \<Rightarrow> (error + int) \<times> 'w lab" where
  "cmd_dns_sync g b =
     (case cert_zones (us_show (lt_unifi g)) (lt_yaml g) (lb_certs b) of
        Inl x \<Rightarrow> (Inl x, b)
      | Inr zones \<Rightarrow>
          if zones = [] then (Inr 1, b)
          else attempt (on_net (sync_wildcards (lt_unifi g) zones NGINX_HOST UNIFI_DEFAULT_AAAA) b) (\<lambda>ok b. (Inr (if ok then 0 else 1), b)))"

definition cmd_dns_upsert :: "'w lab_tools \<Rightarrow> string \<Rightarrow> string \<Rightarrow> 'w lab \<Rightarrow> (error + int) \<times> 'w lab" where
  "cmd_dns_upsert g fqdn ip b =
     attempt (on_net (ensure_dns (lt_unifi g) fqdn ip UNIFI_DEFAULT_AAAA) b) (\<lambda>ok b. (Inr (if ok then 0 else 1), b))"

definition cmd_provision_lxc ::
  "'w lab_tools \<Rightarrow> string \<Rightarrow> int \<Rightarrow> int \<Rightarrow> int \<Rightarrow> bool \<Rightarrow> string option \<Rightarrow> 'w lab \<Rightarrow> (error + (int \<times> (int \<times> string) option)) \<times> 'w lab" where
  \<comment> \<open>The exit status and what is printed.\<close>
  "cmd_provision_lxc g hostname cores memory disk register note b =
     attempt (on_net (provision (lt_ssh g) ''192.168.150.101'' hostname cores memory disk) b) (\<lambda>result b.
       case result of
         None \<Rightarrow> (Inr (1, None), b)
       | Some (vmid, ip) \<Rightarrow>
           (Inr (0, Some (vmid, ip)),
            if register then b\<lparr>lb_inventory := snd (register_host (hostname @ ''.melbourne'') ip vmid
                (if truthy_str note then the note else '''') ''proxmox1'' ''docker_melbourne'' (lb_inventory b))\<rparr>
            else b))"

definition cmd_zones :: "'w lab_tools \<Rightarrow> 'w lab \<Rightarrow> error + (int \<times> string list)" where
  "cmd_zones g b = map_sum id (\<lambda>zs. (0, zs)) (cert_zones (us_show (lt_unifi g)) (lt_yaml g) (lb_certs b))"

subsection \<open>What goes wrong\<close>

text \<open>A configuration \<open>cloudflared\<close> refuses has been written when it is validated, and stays.\<close>

lemma invalid_ingress_left:
  assumes "\<not> grep (''hostname: '' @ fqdn) conf" "insert_rule (ingress_rule fqdn service) conf = Some new" "\<not> valid new"
  shows "ensure_tunnel_ingress grep valid fqdn service conf = (False, new)"
  using assms by (simp add: ensure_tunnel_ingress_def)

text \<open>The presence test is a search for a text: a host whose name continues another's is taken for it.\<close>

lemma longer_host_hides_shorter:
  assumes "\<And>s t. contains_str s t \<Longrightarrow> grep s t"
  shows "ensure_tunnel_ingress grep valid ''a.com'' service ''  - hostname: a.com.au'' = (True, ''  - hostname: a.com.au'')"
  using assms [of "''hostname: a.com''" "''  - hostname: a.com.au''"]
  by (simp add: ensure_tunnel_ingress_def starts_with_def)

text \<open>An existing container that is stopped has no address: it is returned with an empty one, as a success.\<close>

lemma stopped_container_without_address:
  assumes "\<And>w. ssh node (list_command hostname) w = (Inr (0, ''101'', ''''), w)"
    and "\<And>w. ssh node (address_command ''101'') w = (Inr (0, '''', ''''), w)"
  shows "provision ssh node hostname c m d w = (Inr (Some (101, '''')), w)"
proof -
  have s: "py_strip ''101'' = ''101''" "takeWhile (\<lambda>c. \<not> is_linebreak c) ''101'' = ''101''" "list_all is_digit ''101''"
      "digits_val ''101'' = 101" "py_strip '''' = ''''"
    by (simp_all add: py_strip_def strip_where_def lstrip_where_def rstrip_where_def is_space_def code_of_def is_linebreak_def
      is_digit_def digits_val_def)
  show ?thesis using s by (simp add: provision_def attempt_def assms Let_def)
qed

text \<open>A bare domain has the top-level domain for its apex.\<close>

lemma bare_domain_apex: "apex_of ''example.com'' = ''com''"
  by (simp add: apex_of_def split_first_def)

text \<open>A synchronisation whose writes were all refused reports success.\<close>

lemma refused_writes_succeed:
  assumes "load_creds g = Inr (Some u)" "unifi_login g u w = (Inr (Some h), w)"
    and "unifi_request g u ''GET'' (dns_path g u) h None w = (Some (JList []), w)"
    and "\<And>body. unifi_request g u ''POST'' (dns_path g u) h body w = (None, w)"
  shows "sync_wildcards g [z] ip aaaa w = (Inr True, w)"
  using assms by (simp add: sync_wildcards_def with_gateway_def attempt_def wildcard_records_def records_of_def upsert_record_def)

end
