(* ===== verification/Onboard.thy ===== *)
theory Onboard
  imports HomeLab
begin

section \<open>Onboarding an application\<close>

text \<open>
  \<open>scripts/config_loader.py\<close> and \<open>scripts/scottycore-init.py\<close>: the registry of applications and its parser, the choice
  of a port, and the steps that wire a new application into the pipeline.  Local files are a dict from paths to texts;
  subprocesses (git, gh), the Forgejo API and the home lab are functions on a state \<open>'w\<close>.  Printing is left out.
\<close>

subsection \<open>The registry\<close>

type_synonym app_cfg = "(string \<times> json) list"
type_synonym registry = "(string, app_cfg) alist"

definition config_value :: "string \<Rightarrow> json" where
  \<comment> \<open>What follows the colon, without an inline comment; the words true and false are booleans.\<close>
  "config_value v =
     (let v = py_strip (takeWhile (\<lambda>c. c \<noteq> CHR ''#'') v)
      in if py_lower v = ''true'' then JBool True else if py_lower v = ''false'' then JBool False else JStr v)"

definition config_line :: "string \<Rightarrow> registry \<times> string option \<Rightarrow> registry \<times> string option" where
  "config_line ln s =
     (let (apps, current) = s; stripped = py_strip ln in
      if stripped = '''' \<or> starts_with ''#'' stripped then s
      else if \<not> is_space (hd ln) \<and> ends_with '':'' stripped
      then (dict_set (butlast stripped) [] apps, Some (butlast stripped))
      else if truthy_str current then
        (case split_first (CHR '':'') stripped of
           None \<Rightarrow> s
         | Some (key, v) \<Rightarrow>
             (dict_set (the current) (dict_set (py_strip key) (config_value v) (the (map_of apps (the current)))) apps, current))
      else s)"

definition config_state :: "string list \<Rightarrow> registry \<times> string option" where
  "config_state ls = fold config_line ls ([], None)"

definition load_apps_config :: "string option \<Rightarrow> error + registry" where
  "load_apps_config f =
     (case f of
        None \<Rightarrow> Inl (OtherException ''FileNotFoundError'')
      | Some text \<Rightarrow> Inr (fst (config_state (keep_lines (universal_newlines text)))))"

definition get_consumer_apps :: "string option \<Rightarrow> error + registry" where
  "get_consumer_apps f = map_sum id (filter (\<lambda>(name, cfg). \<not> truthy_json (map_of cfg ''is_core''))) (load_apps_config f)"

definition get_repos_dict :: "string option \<Rightarrow> error + registry" where
  "get_repos_dict f =
     map_sum id (map (\<lambda>(name, cfg). (name,
       [(''path'', get_or ''path'' (JStr '''') cfg), (''stack'', get_or ''stack'' (JStr ''unknown'') cfg),
        (''branch'', get_or ''branch'' (JStr ''master'') cfg)]))) (load_apps_config f)"

definition PORT_BASE :: int where "PORT_BASE = 8100"

definition used_ports :: "registry \<Rightarrow> int list" where
  "used_ports apps =
     concat (map (\<lambda>(name, cfg). case map_of cfg ''port'' of
       Some (JStr s) \<Rightarrow> if s \<noteq> '''' \<and> list_all is_digit s then [digits_val s] else [] | _ \<Rightarrow> []) apps)"

function next_free :: "int list \<Rightarrow> int \<Rightarrow> int" where
  \<comment> \<open>\<open>while port in used: port += 1\<close>\<close>
  "next_free used port = (if port \<in> set used then next_free used (port + 1) else port)"
  by pat_completeness auto

termination next_free
proof (relation "measure (\<lambda>(used, port). card {p \<in> set used. port \<le> p})")
  fix used :: "int list" and port :: int
  assume "port \<in> set used"
  then have "{p \<in> set used. port + 1 \<le> p} \<subset> {p \<in> set used. port \<le> p}" by force
  then show "((used, port + 1), used, port) \<in> measure (\<lambda>(used, port). card {p \<in> set used. port \<le> p})"
    by (simp add: psubset_card_mono)
qed simp

declare next_free.simps [simp del]

definition pick_next_port :: "registry \<Rightarrow> int" where
  "pick_next_port existing = next_free (used_ports existing) PORT_BASE"

definition registry_entry :: "string \<Rightarrow> string \<Rightarrow> string \<Rightarrow> string \<Rightarrow> int \<Rightarrow> string \<Rightarrow> string" where
  "registry_entry app_name app_path stack branch port fqdn =
     ''\<newline>'' @ app_name @ '':\<newline>  path: '' @ app_path @ ''\<newline>  stack: '' @ stack @ ''\<newline>  branch: '' @ branch @
     ''\<newline>  port: '' @ int_str port @ ''\<newline>  fqdn: '' @ fqdn @ ''\<newline>''"

definition register_app ::
  "string \<Rightarrow> string \<Rightarrow> string \<Rightarrow> string \<Rightarrow> int \<Rightarrow> string \<Rightarrow> string option \<Rightarrow> error + (bool \<times> string option)" where
  "register_app app_path app_name stack branch port fqdn f =
     (case load_apps_config f of
        Inl x \<Rightarrow> Inl x
      | Inr existing \<Rightarrow>
          Inr (if map_of existing app_name \<noteq> None then (False, f)
               else (True, map_option (\<lambda>t. t @ registry_entry app_name app_path stack branch port fqdn) f)))"

definition DEFAULT_DOMAIN_APEX :: string where "DEFAULT_DOMAIN_APEX = ''corpaholics.com''"

definition choose_port :: "int option \<Rightarrow> string \<Rightarrow> registry \<Rightarrow> error + int" where
  "choose_port port_override app_name apps =
     (case port_override of
        Some p \<Rightarrow> Inr p
      | None \<Rightarrow>
          (case Option.bind (map_of apps app_name) (\<lambda>cfg. map_of cfg ''port'') of
             Some j \<Rightarrow> py_int j | None \<Rightarrow> Inr (pick_next_port apps)))"

definition choose_fqdn :: "string option \<Rightarrow> string \<Rightarrow> registry \<Rightarrow> error + string" where
  \<comment> \<open>A value the loader made a boolean raises when the apex is taken from it.\<close>
  "choose_fqdn domain app_name apps =
     (if truthy_str domain then Inr (the domain)
      else (case Option.bind (map_of apps app_name) (\<lambda>cfg. map_of cfg ''fqdn'') of
              Some (JStr f) \<Rightarrow> Inr f
            | Some j \<Rightarrow> Inl (TypeError ''argument of type 'bool' is not iterable'')
            | None \<Rightarrow> Inr (app_name @ ''.'' @ DEFAULT_DOMAIN_APEX)))"

subsection \<open>The port is free\<close>

lemma next_free_spec:
  "port \<le> next_free used port \<and> next_free used port \<notin> set used \<and> (\<forall>p. port \<le> p \<and> p < next_free used port \<longrightarrow> p \<in> set used)"
proof (induction used port rule: next_free.induct)
  case (1 used port)
  show ?case
  proof (cases "port \<in> set used")
    case True
    with 1 have "port + 1 \<le> next_free used (port + 1)" "next_free used (port + 1) \<notin> set used"
      "\<forall>p. port + 1 \<le> p \<and> p < next_free used (port + 1) \<longrightarrow> p \<in> set used" by auto
    moreover have "next_free used port = next_free used (port + 1)" using True by (simp add: next_free.simps [of used port])
    moreover have "p = port \<or> port + 1 \<le> p" if "port \<le> p" for p using that by linarith
    ultimately show ?thesis using True by auto
  next
    case False
    then have "next_free used port = port" by (simp add: next_free.simps [of used port])
    with False show ?thesis by auto
  qed
qed

lemma digits_val_snoc: "digits_val (s @ [c]) = 10 * digits_val s + int (code_of c) - 48"
  by (simp add: digits_val_def)

lemma nat_str_value: "nat_str n \<noteq> '''' \<and> list_all is_digit (nat_str n) \<and> digits_val (nat_str n) = int n"
proof (induction n rule: nat_str.induct)
  case (1 n)
  have d: "is_digit (char_of (48 + k))" "int (code_of (char_of (48 + k))) = 48 + int k" if "k < 10" for k :: nat
    using that by (simp_all add: is_digit_def code_of_char_of)
  show ?case
  proof (cases "n < 10")
    case True
    with d [of n] show ?thesis by (simp add: nat_str.simps [of n] digits_val_def)
  next
    case False
    then have s: "nat_str n = nat_str (n div 10) @ [char_of (48 + n mod 10)]" by (simp add: nat_str.simps [of n])
    have "10 * int (n div 10) + int (n mod 10) = int n" by presburger
    with s d [of "n mod 10"] 1 [OF False] show ?thesis by (simp add: digits_val_snoc)
  qed
qed

lemma int_str_value: "0 \<le> n \<Longrightarrow> int_str n \<noteq> '''' \<and> list_all is_digit (int_str n) \<and> digits_val (int_str n) = n"
  using nat_str_value [of "nat n"] by (simp add: int_str_def)

lemma py_int_digits: "0 \<le> n \<Longrightarrow> py_int (JStr (int_str n)) = Inr n"
proof -
  assume "0 \<le> n"
  then have d: "int_str n \<noteq> []" "list_all is_digit (int_str n)" "digits_val (int_str n) = n" using int_str_value by auto
  have c: "\<not> is_space c \<and> c \<noteq> CHR ''-'' \<and> c \<noteq> CHR ''+''" if "is_digit c" for c
    using that by (auto simp: is_digit_def is_space_def code_of_def)
  have "py_strip (int_str n) = int_str n" using c d(2) by (auto simp: py_strip_def list_all_iff intro!: strip_id_none)
  moreover have "hd (int_str n) \<noteq> CHR ''-''" "hd (int_str n) \<noteq> CHR ''+''" using c d(1,2) by (auto simp: neq_Nil_conv)
  ultimately show ?thesis using d by simp
qed

subsection \<open>What is registered is loaded\<close>

lemma nl_break [simp]: "is_linebreak (CHR 0x0A)" and nl_space [simp]: "is_space (CHR 0x0A)"
  by (simp_all add: is_linebreak_def is_space_def code_of_def)

lemma keep_lines_line_first:
  "list_all (\<lambda>c. \<not> is_linebreak c) l \<Longrightarrow> keep_lines (l @ CHR 0x0A # s) = (l @ [CHR 0x0A]) # keep_lines s"
  by (induction l) auto

lemma keep_lines_nonempty_iff [simp]: "keep_lines s = [] \<longleftrightarrow> s = []"
  by (cases s) (auto split: list.splits)

lemma keep_lines_closed: "keep_lines (s @ CHR 0x0A # t) = keep_lines (s @ [CHR 0x0A]) @ keep_lines t"
  by (induction s) (auto split: list.splits)

lemma keep_lines_close:
  "keep_lines (s @ [CHR 0x0A]) = keep_lines s @ [[CHR 0x0A]] \<or>
   (\<exists>ls l. keep_lines s = ls @ [l] \<and> l \<noteq> [] \<and> keep_lines (s @ [CHR 0x0A]) = ls @ [l @ [CHR 0x0A]])"
proof (induction s)
  case (Cons c s)
  show ?case
  proof (cases "is_linebreak c")
    case True
    with Cons show ?thesis by auto
  next
    case False
    show ?thesis
    proof (cases "keep_lines s")
      case Nil
      with False show ?thesis by simp
    next
      case (Cons l ls)
      from \<open>keep_lines (s @ [CHR 0x0A]) = _ \<or> _\<close> show ?thesis
      proof (elim disjE exE conjE)
        assume "keep_lines (s @ [CHR 0x0A]) = keep_lines s @ [[CHR 0x0A]]"
        with Cons False show ?thesis by simp
      next
        fix xs x assume "keep_lines s = xs @ [x]" "x \<noteq> []" "keep_lines (s @ [CHR 0x0A]) = xs @ [x @ [CHR 0x0A]]"
        with Cons False show ?thesis by (cases xs) auto
      qed
    qed
  qed
qed simp

lemma py_strip_around:
  assumes "s \<noteq> []" "\<not> is_space (hd s)" "\<not> is_space (last s)" "list_all is_space v" "list_all is_space w"
  shows "py_strip (v @ s @ w) = s"
proof -
  have v: "dropWhile is_space (v @ t) = dropWhile is_space t" for t using assms(4) by (induction v) auto
  have w: "dropWhile is_space (rev w @ t) = dropWhile is_space t" for t
    using assms(5) by (induction w arbitrary: t) auto
  have "dropWhile is_space (s @ w) = s @ w" using assms(1,2) by (cases s) auto
  moreover have "dropWhile is_space (rev s) = rev s" using assms(1,3) by (cases s rule: rev_cases) auto
  ultimately show ?thesis by (simp add: py_strip_def strip_where_def lstrip_where_def rstrip_where_def v w)
qed

lemma py_strip_nl: "py_strip (s @ [CHR 0x0A]) = py_strip s"
proof -
  have "dropWhile is_space (s @ [CHR 0x0A]) = (if list_all is_space s then [] else dropWhile is_space s @ [CHR 0x0A])"
    by (induction s) auto
  moreover have "dropWhile is_space s = []" if "list_all is_space s" using that by (induction s) auto
  ultimately have "dropWhile is_space (s @ [CHR 0x0A]) = [] \<and> dropWhile is_space s = [] \<or>
      dropWhile is_space (s @ [CHR 0x0A]) = dropWhile is_space s @ [CHR 0x0A]" by (simp split: if_splits)
  then show ?thesis
    by (elim disjE conjE) (simp_all add: py_strip_def strip_where_def lstrip_where_def rstrip_where_def
        del: dropWhile_eq_Nil_conv)
qed

lemma config_line_nl: "l \<noteq> [] \<Longrightarrow> config_line (l @ [CHR 0x0A]) s = config_line l s"
  by (simp only: config_line_def py_strip_nl hd_append2 not_False_eq_True)

lemma config_line_blank [simp]: "config_line [CHR 0x0A] s = s"
proof -
  have "py_strip [CHR 0x0A] = []" by (simp add: py_strip_def strip_where_def lstrip_where_def rstrip_where_def)
  then show ?thesis by (cases s) (simp add: config_line_def)
qed

lemma config_state_nl: "config_state (keep_lines (s @ [CHR 0x0A])) = config_state (keep_lines s)"
  using keep_lines_close [of s] by (auto simp: config_state_def config_line_nl)

definition plain_value :: "string \<Rightarrow> bool" where
  \<comment> \<open>One line without a comment or white space around it, and not a word that is read as a boolean.\<close>
  "plain_value v \<longleftrightarrow> py_strip v = v \<and> CHR ''#'' \<notin> set v \<and> list_all (\<lambda>c. \<not> is_linebreak c) v \<and>
     py_lower v \<notin> {''true'', ''false''}"

definition plain_name :: "string \<Rightarrow> bool" where
  "plain_name n \<longleftrightarrow> n \<noteq> [] \<and> \<not> is_space (hd n) \<and> hd n \<noteq> CHR ''#'' \<and> list_all (\<lambda>c. \<not> is_linebreak c) n"

lemma config_line_name:
  assumes "plain_name n"
  shows "config_line (n @ '':\<newline>'') (apps, current) = (dict_set n [] apps, Some n)"
proof -
  have "\<not> is_space (CHR '':'')" by (simp add: is_space_def code_of_def)
  then have "py_strip ([] @ (n @ '':'') @ [CHR 0x0A]) = n @ '':''"
    using assms by (intro py_strip_around) (auto simp: plain_name_def)
  then have s: "py_strip (n @ '':\<newline>'') = n @ '':''" by simp
  have h: "\<not> is_space (hd (n @ '':\<newline>''))" "\<not> starts_with ''#'' (n @ '':'')"
    using assms by (auto simp: plain_name_def starts_with_def neq_Nil_conv)
  show ?thesis using h by (simp add: config_line_def s butlast_append)
qed

lemma stripped_ends:
  assumes "py_strip v = v" "v \<noteq> []"
  shows "\<not> is_space (hd v)" "\<not> is_space (last v)"
proof -
  have r: "rstrip_where is_space (lstrip_where is_space v) = v" using assms(1) by (simp add: py_strip_def strip_where_def)
  then show "\<not> is_space (last v)" using last_rstrip [of is_space "lstrip_where is_space v"] assms(2) by simp
  have "lstrip_where is_space v \<noteq> []" using r assms(2) by (auto simp: rstrip_where_def)
  then show "\<not> is_space (hd v)"
    using hd_lstrip [of is_space v] hd_rstrip [of is_space "lstrip_where is_space v"] r assms(2) by simp
qed

definition plain_key :: "string \<Rightarrow> bool" where
  "plain_key k \<longleftrightarrow> k \<noteq> [] \<and> py_strip k = k \<and> CHR '':'' \<notin> set k \<and> hd k \<noteq> CHR ''#''"

lemma config_value_plain: "plain_value v \<Longrightarrow> config_value (CHR '' '' # v) = JStr v"
proof -
  assume a: "plain_value v"
  then have "takeWhile (\<lambda>c. c \<noteq> CHR ''#'') v = v" by (auto simp: plain_value_def takeWhile_eq_all_conv)
  moreover have "py_strip (CHR '' '' # v) = py_strip v"
    by (simp add: py_strip_def strip_where_def lstrip_where_def is_space_def code_of_def)
  then have "py_strip (CHR '' '' # v) = v" using a by (simp add: plain_value_def)
  moreover have "py_lower v \<noteq> ''true''" "py_lower v \<noteq> ''false''" using a by (simp_all add: plain_value_def)
  ultimately show ?thesis by (simp add: config_value_def Let_def del: takeWhile_eq_all_conv)
qed

lemma config_value_none [simp]: "config_value [] = JStr []"
  by (simp add: config_value_def py_strip_def strip_where_def lstrip_where_def rstrip_where_def py_lower_def)

lemma dict_set_twice [simp]: "dict_set k v (dict_set k w d) = dict_set k v d"
proof -
  let ?u = "map (\<lambda>(k', v'). if k' = k then (k', v) else (k', v'))"
  have "map_of (dict_set k w d) k \<noteq> None" by (simp add: map_of_dict_set)
  then have "dict_set k v (dict_set k w d) = ?u (dict_set k w d)" by (simp only: dict_set_def [of k v] if_False)
  moreover have "?u (dict_set k w d) = dict_set k v d"
  proof (cases "map_of d k")
    case None
    then have "?u d = d" by (intro map_idI) (auto simp: map_of_eq_None_iff image_iff)
    with None show ?thesis by (simp add: dict_set_def)
  qed (auto simp: dict_set_def)
  ultimately show ?thesis by simp
qed

lemma config_line_nested:
  assumes "plain_key k" "plain_value v" "n \<noteq> []"
  shows "config_line (''  '' @ k @ '': '' @ v @ ''\<newline>'') (dict_set n cfg apps, Some n) =
    (dict_set n (dict_set k (JStr v) cfg) apps, Some n)"
proof -
  let ?l = "''  '' @ k @ '': '' @ v @ ''\<newline>''"
  have k: "k \<noteq> []" "py_strip k = k" "CHR '':'' \<notin> set k" "hd k \<noteq> CHR ''#''" using assms(1) by (auto simp: plain_key_def)
  note hk = stripped_ends [OF k(2,1)]
  have sp: "is_space (CHR '' '')" "\<not> is_space (CHR '':'')" by (simp_all add: is_space_def code_of_def)
  have v: "v = [] \<or> \<not> is_space (last v)" using stripped_ends(2) [of v] assms(2) by (auto simp: plain_value_def)
  have "\<exists>t. py_strip ?l = k @ '':'' @ t \<and> config_value t = JStr v"
  proof (cases "v = []")
    case True
    have "py_strip (''  '' @ (k @ '':'') @ '' \<newline>'') = k @ '':''"
      using k hk sp by (intro py_strip_around) auto
    with True show ?thesis by (intro exI [of _ "[]"]) simp
  next
    case False
    have "py_strip (''  '' @ (k @ '': '' @ v) @ ''\<newline>'') = k @ '': '' @ v"
      using k hk sp v False by (intro py_strip_around) auto
    with config_value_plain [OF assms(2)] show ?thesis by (intro exI [of _ "CHR '' '' # v"]) simp
  qed
  then obtain t where t: "py_strip ?l = k @ '':'' @ t" "config_value t = JStr v" by blast
  have "split_first (CHR '':'') (k @ '':'' @ t) = Some (k, t)"
    using k(3) by (auto simp: split_first_def takeWhile_append dropWhile_append)
  moreover have "\<not> starts_with ''#'' (k @ '':'' @ t)" using k(1,4) by (cases k) (auto simp: starts_with_def)
  ultimately show ?thesis
    using t sp k assms(3) by (simp add: config_line_def truthy_str_def map_of_dict_set)
qed

lemma plain_no_break: "plain_value v \<Longrightarrow> list_all (\<lambda>c. \<not> is_linebreak c) v"
  by (simp add: plain_value_def)

lemma plain_keys: "plain_key ''path''" "plain_key ''stack''" "plain_key ''branch''" "plain_key ''port''" "plain_key ''fqdn''"
  by (code_simp)+

lemma digits_plain: "list_all is_digit s \<Longrightarrow> plain_value s"
proof -
  assume d: "list_all is_digit s"
  have c: "\<not> is_space c \<and> c \<noteq> CHR ''#'' \<and> \<not> is_linebreak c \<and> lower_char c = c \<and> c \<noteq> CHR ''t'' \<and> c \<noteq> CHR ''f''"
    if "is_digit c" for c
    using that by (auto simp: is_digit_def is_space_def is_linebreak_def lower_char_def code_of_def)
  then have "py_strip s = s" using d by (auto simp: py_strip_def list_all_iff intro!: strip_id_none)
  moreover have "py_lower s = s" using c d by (auto simp: py_lower_def list_all_iff intro!: map_idI)
  moreover have "s \<noteq> ''true''" "s \<noteq> ''false''" using c [of "CHR ''t''"] c [of "CHR ''f''"] d by auto
  ultimately show ?thesis using c d by (auto simp: plain_value_def list_all_iff)
qed

definition nested_line :: "string \<Rightarrow> string \<Rightarrow> string" where
  "nested_line k v = ''  '' @ k @ '': '' @ v"

lemma keep_lines_terminated:
  "list_all (list_all (\<lambda>c. \<not> is_linebreak c)) ls \<Longrightarrow>
    keep_lines (concat (map (\<lambda>l. l @ [CHR 0x0A]) ls)) = map (\<lambda>l. l @ [CHR 0x0A]) ls"
  by (induction ls) (simp_all add: keep_lines_line_first)

definition app_fields :: "string \<Rightarrow> string \<Rightarrow> string \<Rightarrow> int \<Rightarrow> string \<Rightarrow> (string \<times> string) list" where
  "app_fields path stack branch port fqdn =
     [(''path'', path), (''stack'', stack), (''branch'', branch), (''port'', int_str port), (''fqdn'', fqdn)]"

lemma registry_entry_lines:
  "registry_entry n path stack branch port fqdn = CHR 0x0A #
     concat (map (\<lambda>l. l @ [CHR 0x0A]) ((n @ '':'') # map (\<lambda>(k, v). nested_line k v) (app_fields path stack branch port fqdn)))"
  by (simp add: registry_entry_def nested_line_def app_fields_def)

lemma nested_lines_fold:
  assumes "n \<noteq> []" "list_all (\<lambda>(k, v). plain_key k \<and> plain_value v) fs"
  shows "fold config_line (map (\<lambda>l. l @ [CHR 0x0A]) (map (\<lambda>(k, v). nested_line k v) fs)) (dict_set n cfg apps, Some n) =
    (dict_set n (fold (\<lambda>(k, v). dict_set k (JStr v)) fs cfg) apps, Some n)"
  using assms(2)
proof (induction fs arbitrary: cfg)
  case (Cons f fs)
  obtain k v where f: "f = (k, v)" by (cases f)
  have "config_line (nested_line k v @ [CHR 0x0A]) (dict_set n cfg apps, Some n) = (dict_set n (dict_set k (JStr v) cfg) apps, Some n)"
    using config_line_nested [of k v n cfg apps] assms(1) Cons.prems by (simp add: f nested_line_def)
  with Cons show ?case by (simp add: f)
qed simp

lemma app_fields_plain:
  assumes "plain_value path" "plain_value stack" "plain_value branch" "0 \<le> port" "plain_value fqdn"
  shows "list_all (\<lambda>(k, v). plain_key k \<and> plain_value v) (app_fields path stack branch port fqdn)"
proof -
  have "plain_value (int_str port)" using digits_plain int_str_value [OF assms(4)] by blast
  then show ?thesis using assms plain_keys by (simp add: app_fields_def)
qed

lemma app_fields_no_break:
  assumes "plain_value path" "plain_value stack" "plain_value branch" "0 \<le> port" "plain_value fqdn"
  shows "list_all (list_all (\<lambda>c. \<not> is_linebreak c)) (map (\<lambda>(k, v). nested_line k v) (app_fields path stack branch port fqdn))"
proof -
  have b: "\<not> is_linebreak (CHR '' '')" "\<not> is_linebreak (CHR '':'')" by code_simp+
  have l: "list_all (\<lambda>c. \<not> is_linebreak c) (nested_line k v)"
    if "list_all (\<lambda>c. \<not> is_linebreak c) k" "plain_value v" for k v
    using that b plain_no_break by (simp add: nested_line_def)
  have k: "list_all (\<lambda>c. \<not> is_linebreak c) ''path''" "list_all (\<lambda>c. \<not> is_linebreak c) ''stack''"
    "list_all (\<lambda>c. \<not> is_linebreak c) ''branch''" "list_all (\<lambda>c. \<not> is_linebreak c) ''port''"
    "list_all (\<lambda>c. \<not> is_linebreak c) ''fqdn''" by code_simp+
  have "plain_value (int_str port)" using digits_plain int_str_value [OF assms(4)] by blast
  with assms l [OF k(1)] l [OF k(2)] l [OF k(3)] l [OF k(4)] l [OF k(5)] show ?thesis
    by (simp add: app_fields_def)
qed

definition registered_cfg :: "string \<Rightarrow> string \<Rightarrow> string \<Rightarrow> int \<Rightarrow> string \<Rightarrow> app_cfg" where
  "registered_cfg path stack branch port fqdn =
     [(''path'', JStr path), (''stack'', JStr stack), (''branch'', JStr branch), (''port'', JStr (int_str port)), (''fqdn'', JStr fqdn)]"

lemma load_registered:
  assumes n: "plain_name n" and v: "plain_value path" "plain_value stack" "plain_value branch" "0 \<le> port" "plain_value fqdn"
    and new: "map_of (fst (config_state (keep_lines t))) n = None"
  shows "config_state (keep_lines (t @ registry_entry n path stack branch port fqdn)) =
    (fst (config_state (keep_lines t)) @ [(n, registered_cfg path stack branch port fqdn)], Some n)"
proof -
  let ?apps = "fst (config_state (keep_lines t))" and ?fs = "app_fields path stack branch port fqdn"
  let ?ls = "(n @ '':'') # map (\<lambda>(k, v). nested_line k v) ?fs"
  obtain c where c: "fold config_line (keep_lines (t @ [CHR 0x0A])) ([], None) = (?apps, c)"
    using config_state_nl [of t] by (metis config_state_def prod.collapse)
  have b: "\<not> is_linebreak (CHR '':'')" by code_simp
  have "list_all (list_all (\<lambda>c. \<not> is_linebreak c)) ?ls"
    using app_fields_no_break [OF v] n b by (simp add: plain_name_def)
  then have "keep_lines (t @ registry_entry n path stack branch port fqdn) =
      keep_lines (t @ [CHR 0x0A]) @ map (\<lambda>l. l @ [CHR 0x0A]) ?ls"
    unfolding registry_entry_lines by (subst keep_lines_closed) (simp only: keep_lines_terminated)
  then have "config_state (keep_lines (t @ registry_entry n path stack branch port fqdn)) =
      fold config_line (map (\<lambda>l. l @ [CHR 0x0A]) ?ls) (?apps, c)"
    by (simp only: config_state_def fold_append comp_apply c)
  also have "\<dots> = fold config_line (map (\<lambda>l. l @ [CHR 0x0A]) (map (\<lambda>(k, v). nested_line k v) ?fs)) (dict_set n [] ?apps, Some n)"
    using config_line_name [OF n, of ?apps c] by simp
  also have "\<dots> = (dict_set n (fold (\<lambda>(k, v). dict_set k (JStr v)) ?fs []) ?apps, Some n)"
    using n by (intro nested_lines_fold app_fields_plain v) (simp add: plain_name_def)
  also have "fold (\<lambda>(k, v). dict_set k (JStr v)) ?fs [] = registered_cfg path stack branch port fqdn"
    by (simp add: app_fields_def registered_cfg_def dict_set_def)
  finally show ?thesis using new by (simp add: dict_set_def)
qed

lemma entry_no_return:
  assumes n: "plain_name n" and v: "plain_value path" "plain_value stack" "plain_value branch" "0 \<le> port" "plain_value fqdn"
  shows "CHR 0x0D \<notin> set (registry_entry n path stack branch port fqdn)"
proof -
  let ?ls = "(n @ '':'') # map (\<lambda>(k, v). nested_line k v) (app_fields path stack branch port fqdn)"
  have b: "\<not> is_linebreak (CHR '':'')" "is_linebreak (CHR 0x0D)" by code_simp+
  have "list_all (list_all (\<lambda>c. \<not> is_linebreak c)) ?ls" using app_fields_no_break [OF v] n b by (simp add: plain_name_def)
  then have "CHR 0x0D \<notin> set l" if "l \<in> set ?ls" for l using that b(2) by (auto simp only: list_all_iff)
  then obtain ls where ls: "\<And>l. l \<in> set ls \<Longrightarrow> CHR 0x0D \<notin> set l" "ls = ?ls" by blast
  then show ?thesis unfolding registry_entry_lines ls(2) [symmetric] by auto
qed

lemma registered_facts:
  assumes "CHR 0x0D \<notin> set t" "load_apps_config (Some t) = Inr apps" "map_of apps n = None"
    and "plain_name n" "plain_value path" "plain_value stack" "plain_value branch" "0 \<le> port" "plain_value fqdn"
  shows "\<exists>t'. register_app path n stack branch port fqdn (Some t) = Inr (True, Some t') \<and>
    load_apps_config (Some t') = Inr (apps @ [(n, registered_cfg path stack branch port fqdn)]) \<and>
    choose_port None n (apps @ [(n, registered_cfg path stack branch port fqdn)]) = Inr port \<and>
    choose_fqdn None n (apps @ [(n, registered_cfg path stack branch port fqdn)]) = Inr fqdn \<and>
    (\<forall>path2 stack2 branch2 port2 fqdn2. register_app path2 n stack2 branch2 port2 fqdn2 (Some t') = Inr (False, Some t'))"
proof (intro exI conjI)
  let ?t = "t @ registry_entry n path stack branch port fqdn"
  have apps: "apps = fst (config_state (keep_lines t))" using assms(1,2) by (simp add: load_apps_config_def)
  show "register_app path n stack branch port fqdn (Some t) = Inr (True, Some ?t)"
    using assms(2,3) by (simp add: register_app_def)
  have "CHR 0x0D \<notin> set ?t" using assms(1) entry_no_return [OF assms(4-9)] by simp
  then show l: "load_apps_config (Some ?t) = Inr (apps @ [(n, registered_cfg path stack branch port fqdn)])"
    using load_registered [OF assms(4-9), of t] assms(3) by (simp add: load_apps_config_def apps)
  have m: "map_of (apps @ [(n, registered_cfg path stack branch port fqdn)]) n = Some (registered_cfg path stack branch port fqdn)"
    using assms(3) by (simp add: map_of_append map_add_def)
  show "choose_port None n (apps @ [(n, registered_cfg path stack branch port fqdn)]) = Inr port"
    unfolding choose_port_def m by (simp add: registered_cfg_def py_int_digits [OF assms(8)] del: py_int.simps)
  show "choose_fqdn None n (apps @ [(n, registered_cfg path stack branch port fqdn)]) = Inr fqdn"
    unfolding choose_fqdn_def m by (simp add: truthy_str_def registered_cfg_def)
  from l show "\<forall>path2 stack2 branch2 port2 fqdn2. register_app path2 n stack2 branch2 port2 fqdn2 (Some ?t) = Inr (False, Some ?t)"
    using assms(3) by (simp add: register_app_def map_of_append map_add_def)
qed




end
