(* ===== verification/AppInit.thy ===== *)
theory AppInit
  imports Onboard
begin

section \<open>Wiring an application into the pipeline\<close>

text \<open>
  The steps of \<open>scripts/scottycore-init.py\<close> around the registry: the repositories and remotes, the files rendered into the
  application and into scottycore, the commits, the scaffold and \<open>main\<close>, which runs them with the home lab's operations.
  The files of scottycore and of the application are dicts from relative paths to texts.  A subprocess (git, gh) and a call of the Forgejo API are functions that may
  change the whole state; a subprocess may also raise (a timeout, a missing program).  What is printed is left out; dashes, arrows
  and lines drawn in the rendered texts are ASCII.
\<close>

record 'w init_state =
  su_core :: "(string \<times> string) list"
  su_app :: "(string \<times> string) list option"
  su_hooks :: bool
  su_token :: "string option"
  su_scottylab :: bool
  su_apps_yml :: "string option"
  su_lab :: "'w lab"

type_synonym 's shell = "string list \<Rightarrow> 's \<Rightarrow> (error + (int \<times> string \<times> string)) \<times> 's"

datatype api_answer = ApiDone int "json option" | ApiRefused int string | ApiDown

type_synonym 's forge_api = "string \<Rightarrow> string \<Rightarrow> string \<Rightarrow> json \<Rightarrow> 's \<Rightarrow> api_answer \<times> 's"

definition apps_yaml :: "'w init_state \<Rightarrow> string option" where
  "apps_yaml s = map_of (su_core s) ''config/apps.yaml''"

definition core_file :: "string \<Rightarrow> 'w init_state \<Rightarrow> string option" where
  "core_file p s = map_option universal_newlines (map_of (su_core s) p)"

definition app_file :: "string \<Rightarrow> 'w init_state \<Rightarrow> string option" where
  "app_file p s = map_option universal_newlines (Option.bind (su_app s) (\<lambda>fs. map_of fs p))"

definition write_core :: "string \<Rightarrow> string \<Rightarrow> 'w init_state \<Rightarrow> 'w init_state" where
  "write_core p t s = s\<lparr>su_core := dict_set p t (su_core s)\<rparr>"

definition write_app :: "string \<Rightarrow> string \<Rightarrow> 'w init_state \<Rightarrow> 'w init_state" where
  "write_app p t s = s\<lparr>su_app := map_option (dict_set p t) (su_app s)\<rparr>"

subsection \<open>Repositories and remotes\<close>

definition FORGEJO_BASE :: string where "FORGEJO_BASE = ''https://forgejo.scotty.consulting''"
definition FORGEJO_USER :: string where "FORGEJO_USER = ''scotty''"
definition GITHUB_USER :: string where "GITHUB_USER = ''scrampker''"

definition read_forgejo_token :: "'w init_state \<Rightarrow> string option" where
  "read_forgejo_token s = map_option py_strip (su_token s)"

definition create_forgejo_repo ::
  "'w init_state forge_api \<Rightarrow> string \<Rightarrow> string \<Rightarrow> string \<Rightarrow> 'w init_state \<Rightarrow> json option \<times> 'w init_state" where
  "create_forgejo_repo api app_name description default_branch s =
     (if \<not> truthy_str (read_forgejo_token s) then (None, s)
      else (case api ''POST'' (FORGEJO_BASE @ ''/api/v1/user/repos'') (the (read_forgejo_token s))
                   (JObj [(''name'', JStr app_name), (''description'', JStr description), (''private'', JBool False),
                          (''default_branch'', JStr default_branch)]) s of
              (ApiDone code (Some (JObj d)), s) \<Rightarrow> (Some (get_or ''clone_url'' (JStr '''') d), s)
            | (ApiRefused code body, s) \<Rightarrow>
                (if contains_str ''already exists'' (py_lower body)
                 then Some (JStr (FORGEJO_BASE @ ''/'' @ FORGEJO_USER @ ''/'' @ app_name @ ''.git'')) else None, s)
            | (_, s) \<Rightarrow> (None, s)))"

definition set_forgejo_secret ::
  "'w init_state forge_api \<Rightarrow> string \<Rightarrow> string \<Rightarrow> string \<Rightarrow> 'w init_state \<Rightarrow> bool \<times> 'w init_state" where
  "set_forgejo_secret api app_name secret_name secret_value s =
     (if \<not> truthy_str (read_forgejo_token s) then (False, s)
      else (case api ''PUT'' (FORGEJO_BASE @ ''/api/v1/repos/'' @ FORGEJO_USER @ ''/'' @ app_name @ ''/actions/secrets/'' @ secret_name)
                   (the (read_forgejo_token s)) (JObj [(''data'', JStr secret_value)]) s of
              (ApiDone code body, s) \<Rightarrow> (code = 201 \<or> code = 204, s)
            | (_, s) \<Rightarrow> (False, s)))"

definition create_github_repo :: "'s shell \<Rightarrow> string \<Rightarrow> string \<Rightarrow> bool \<Rightarrow> 's \<Rightarrow> (error + bool) \<times> 's" where
  "create_github_repo sh app_name description private s =
     (let requested = GITHUB_USER @ ''/'' @ app_name in
      attempt (sh [''gh'', ''api'', ''repos/'' @ requested, ''--jq'', ''.full_name''] s) (\<lambda>probe s.
        if fst probe = 0 \<and> py_lower (py_strip (fst (snd probe))) = py_lower requested then (Inr True, s)
        else attempt (sh [''gh'', ''repo'', ''create'', requested, if private then ''--private'' else ''--public'',
                          ''--description'', description] s) (\<lambda>r s.
          (Inr (fst r = 0 \<or> contains_str ''already exists'' (py_lower (py_strip (snd (snd r))))), s))))"

fun run_all :: "'s shell \<Rightarrow> string list list \<Rightarrow> 's \<Rightarrow> (error + unit) \<times> 's" where
  \<comment> \<open>Commands whose exit status is not looked at.\<close>
  "run_all sh [] s = (Inr (), s)"
| "run_all sh (c # cs) s = attempt (sh c s) (\<lambda>r s. run_all sh cs s)"

definition git_in :: "string \<Rightarrow> string list \<Rightarrow> string list" where
  "git_in dir args = [''git'', ''-C'', dir] @ args"

definition remote_steps :: "string \<Rightarrow> string \<Rightarrow> string \<Rightarrow> string list list" where
  "remote_steps remotes forgejo_url github_url =
     [if contains_str ''origin'' remotes then [''remote'', ''set-url'', ''origin'', forgejo_url]
      else [''remote'', ''add'', ''origin'', forgejo_url],
      [''remote'', ''set-url'', ''--push'', ''origin'', forgejo_url],
      [''remote'', ''set-url'', ''--add'', ''--push'', ''origin'', github_url]] @
     (if contains_str ''github'' remotes then [] else [[''remote'', ''add'', ''github'', github_url]])"

definition setup_dual_remote :: "'s shell \<Rightarrow> string \<Rightarrow> string \<Rightarrow> string \<Rightarrow> 's \<Rightarrow> (error + bool) \<times> 's" where
  "setup_dual_remote sh app_path forgejo_url github_url s =
     attempt (sh (git_in app_path [''remote'', ''-v'']) s) (\<lambda>r s.
       let remotes = fst (snd r) in
       if contains_str forgejo_url remotes then (Inr True, s)
       else attempt (run_all sh (map (git_in app_path) (remote_steps remotes forgejo_url github_url)) s) (\<lambda>_ s. (Inr True, s)))"

definition detect_github_remote :: "'s shell \<Rightarrow> string \<Rightarrow> 's \<Rightarrow> (error + string option) \<times> 's" where
  "detect_github_remote sh app_path s =
     attempt (sh (git_in app_path [''remote'', ''-v'']) s) (\<lambda>r s.
       (Inr (map_option (\<lambda>ln. py_words ln [] ! 1)
          (find (\<lambda>ln. contains_str ''github.com'' ln \<and> contains_str ''(push)'' ln \<and> 2 \<le> length (py_words ln []))
            (keep_lines (fst (snd r))))), s))"

subsection \<open>Files from templates\<close>

definition install_docker_compose :: "string \<Rightarrow> int \<Rightarrow> 'w init_state \<Rightarrow> bool \<times> 'w init_state" where
  "install_docker_compose app_name port s =
     (case core_file ''docker-compose.yml.template'' s of
        None \<Rightarrow> (False, s)
      | Some t \<Rightarrow>
          if app_file ''docker-compose.yml'' s \<noteq> None then (False, s)
          else (True, write_app ''docker-compose.yml''
                        (replace_all ''__APP_PORT__'' (int_str port) (replace_all ''__APP_NAME__'' app_name t)) s))"

definition add_scottycore_app :: "string \<Rightarrow> string \<Rightarrow> int \<Rightarrow> string \<Rightarrow> string \<Rightarrow> 'w init_state \<Rightarrow> bool \<times> 'w init_state" where
  "add_scottycore_app app_name target_host port repo_url branch s =
     (case add_entry ''scottycore_apps'' ''name'' app_name
             [''      - name: '' @ app_name, ''        host: '' @ target_host, ''        port: '' @ int_str port,
              ''        repo: '' @ repo_url, ''        branch: '' @ branch] (su_apps_yml s) of
        (added, f) \<Rightarrow> (added, s\<lparr>su_apps_yml := f\<rparr>))"

definition install_promote_scan_workflow :: "'w init_state \<Rightarrow> bool \<times> 'w init_state" where
  "install_promote_scan_workflow s =
     (case core_file ''.claude/templates/promote-scan.yml'' s of
        None \<Rightarrow> (False, s) | Some t \<Rightarrow> (True, write_app ''.forgejo/workflows/promote-scan.yml'' t s))"

definition install_scottycore_upgrade_workflow :: "string \<Rightarrow> string \<Rightarrow> 'w init_state \<Rightarrow> bool \<times> 'w init_state" where
  "install_scottycore_upgrade_workflow app_name branch s =
     (if app_file ''pyproject.toml'' s = None then (False, s)
      else (case core_file ''.claude/templates/scottycore-upgrade.yml'' s of
              None \<Rightarrow> (False, s)
            | Some t \<Rightarrow> (True, write_app ''.forgejo/workflows/scottycore-upgrade.yml''
                                (replace_all ''__BRANCH__'' branch (replace_all ''__APP_NAME__'' app_name t)) s)))"

definition nudge_wrapper :: "string \<Rightarrow> string" where
  "nudge_wrapper core_dir =
     ''#!/usr/bin/env bash\<newline># pre-commit (installed by scottycore-init.py -- pre-commit-promote-nudge)\<newline>'' @
     ''# Calls the shared nudge hook from scottycore. Never blocks the commit.\<newline>'' @
     core_dir @ ''/.claude/hooks/pre-commit-promote-nudge.sh\<newline>exit 0\<newline>''"

definition install_promote_nudge_hook :: "string \<Rightarrow> 'w init_state \<Rightarrow> bool \<times> 'w init_state" where
  "install_promote_nudge_hook core_dir s =
     (if core_file ''.claude/hooks/pre-commit-promote-nudge.sh'' s = None then (False, s)
      else if \<not> su_hooks s then (False, s)
      else (let s = (case Option.bind (su_app s) (\<lambda>fs. map_of fs ''.git/hooks/pre-commit'') of
                       Some old \<Rightarrow>
                         if contains_str ''pre-commit-promote-nudge'' old then s
                         else (write_app ''.git/hooks/pre-commit.pre-scottycore.bak'' old s)
                                \<lparr>su_app := map_option (dict_pop ''.git/hooks/pre-commit'')
                                   (su_app (write_app ''.git/hooks/pre-commit.pre-scottycore.bak'' old s))\<rparr>
                     | None \<Rightarrow> s)
            in (True, write_app ''.git/hooks/pre-commit'' (nudge_wrapper core_dir) s)))"

subsection \<open>The agent\<close>

definition doc_text :: "string list \<Rightarrow> string" where
  "doc_text ls = concat (map (\<lambda>l. l @ [CHR 0x0A]) ls)"

definition agent_text :: "string \<Rightarrow> string \<Rightarrow> string \<Rightarrow> string" where
  "agent_text app_name app_path stack = doc_text [
      ''# '' @ app_name @ '' Manager Agent'',
      '''',
      ''You are the dedicated manager agent for **'' @ app_name @ ''** (`'' @ app_path @ ''`).'',
      ''Stack: '' @ stack @ ''.'',
      '''',
      ''## Pipeline state'',
      '''',
      ''| Direction | Workflow | Status |'',
      ''|---|---|---|'',
      ''| Upward (contribute to scottycore) | `.forgejo/workflows/promote-scan.yml` | Installed |'',
      ''| Downward (receive scottycore bumps) | `.forgejo/workflows/scottycore-upgrade.yml` | Installed if app has root `pyproject.toml`, else deferred |'',
      '''',
      ''## Your Responsibilities'',
      '''',
      ''### 1. Autonomous scottycore upgrade-PR review'',
      '''',
      ''When invoked from `.forgejo/workflows/scottycore-upgrade.yml` on a bump PR:'',
      ''classify GREEN / YELLOW / RED based on CI + breaking-change impact. Emit a'',
      ''single JSON object:'',
      ''```json'',
      ''{'' @ [CHR 0x22] @ ''classification'' @ [CHR 0x22] @ '':'' @ [CHR 0x22] @ ''GREEN|YELLOW|RED'' @ [CHR 0x22] @ '','' @ [CHR 0x22] @ ''comment'' @ [CHR 0x22] @ '':'' @ [CHR 0x22] @ ''...'' @ [CHR 0x22] @ '','' @ [CHR 0x22] @ ''bump'' @ [CHR 0x22] @ '':'' @ [CHR 0x22] @ ''patch|minor|major'' @ [CHR 0x22] @ '','' @ [CHR 0x22] @ ''follow_up_issue'' @ [CHR 0x22] @ '':'' @ [CHR 0x22] @ [CHR 0x22] @ ''}'',
      ''```'',
      '''',
      ''Bias rules:'',
      ''- Prefer GREEN when genuinely uneventful'',
      ''- Prefer RED over YELLOW when unsure (false RED costs 2 min; false GREEN may ship break)'',
      ''- Never fabricate breaking-change impact -- if grep finds no hits, the change doesn't touch this app'',
      '''',
      ''### 2. Interactive /promote review'',
      '''',
      ''When the user invokes `/promote <path>` or asks whether code belongs in scottycore,'',
      ''analyze the target and output the same JSON schema. Be strict -- prefer RED on any'',
      ''app-specific concept leakage.'',
      '''',
      ''### 3. Feature implementation'',
      '''',
      ''- Check scottycore first (`/script/scottycore/scottycore/`) for modules covering your need'',
      ''- Prefer consuming scottycore over re-implementing'',
      ''- Stack-specific concerns stay local'',
      '''',
      ''### 4. Session-start hygiene'',
      '''',
      ''On session open:'',
      ''1. `git fetch --quiet origin`'',
      ''2. Query Forgejo for scottycore-bot comments on the last 5 commits'',
      ''3. Report any pipeline activity the user missed'',
      '''',
      ''See the app's `CLAUDE.md` for the concrete snippet.'',
      '''',
      ''## Key directories'',
      ''- App root: `'' @ app_path @ ''`'',
      ''- ScottyCore: `/script/scottycore`'',
      '''',
      ''## What you do NOT do'',
      '''',
      ''- Port fixes by hand from other Scotty apps (old core-sync model is retired)'',
      ''- Reference `.scottycore-patterns.yaml` (retired in Phase 4)'',
      ''- Edit scottycore directly -- use `/promote` or push a commit the server-side classifier will pick up'',
      ''- Block commits on the pre-commit nudge (advisory only)'']"

definition scaffold_agent :: "string \<Rightarrow> string \<Rightarrow> string \<Rightarrow> 'w init_state \<Rightarrow> bool \<times> 'w init_state" where
  "scaffold_agent app_name app_path stack s =
     (let agent = ''.claude/agents/'' @ app_name @ ''-manager.md'' in
      if core_file agent s \<noteq> None then (False, s) else (True, write_core agent (agent_text app_name app_path stack) s))"

subsection \<open>The application's guide\<close>

definition CLAUDE_SECTION_MARKER :: string where "CLAUDE_SECTION_MARKER = ''<!-- scottycore-integration -->''"
definition APP_HEADER_MARKER :: string where "APP_HEADER_MARKER = ''<!-- scottycore-app-header -->''"
definition APP_HEADER_END :: string where "APP_HEADER_END = ''<!-- /scottycore-app-header -->''"

definition guide_facts :: "string \<Rightarrow> string \<Rightarrow> int \<Rightarrow> string \<Rightarrow> string \<Rightarrow> string \<Rightarrow> string" where
  \<comment> \<open>The last three arguments are \<open>vmid_str\<close>, \<open>ip_str\<close> and \<open>upstream_str\<close>.\<close>
  "guide_facts app_name fqdn port vmid_str ip_str upstream_str = doc_text [
      ''> **Status: freshly scaffolded from scottycore. Domain logic is empty; the'',
      ''> container runs the unmodified framework and responds to `/health`.**'',
      ''>'',
      ''> First session move: fill in the `## Domain` section below with what this'',
      ''> app is actually supposed to do, then start building service modules under'',
      ''> `scottycore/services/`. Until then, every request beyond `/health` will'',
      ''> 404 -- that's expected.'',
      '''',
      ''## What this is'',
      '''',
      ''A FastAPI app scaffolded from [scottycore](/script/scottycore). Inherits the'',
      ''full framework: auth (Cloudflare / Azure / JWT / API key), multi-tenant RBAC,'',
      ''4-tier settings KV, audit log, ai_backends multi-provider routing, admin API,'',
      ''request logging, TOTP. See `/script/scottycore/CLAUDE.md` for the framework'',
      ''reference; everything here is additive on top of that.'',
      '''',
      ''## Live deployment'',
      '''',
      ''| | |'',
      ''|---|---|'',
      ''| **Public URL** | https://'' @ fqdn @ '' |'',
      ''| **Nginx upstream** | '' @ upstream_str @ '' |'',
      ''| **LXC** | '' @ vmid_str @ '' on proxmox1 ('' @ ip_str @ '') |'',
      ''| **Host port (Docker)** | `'' @ int_str port @ ''` (container listens on 8000 internally) |'',
      ''| **Container image** | `'' @ app_name @ '':latest` (built locally via `docker compose`) |'',
      ''| **Forgejo** | https://forgejo.scotty.consulting/scotty/'' @ app_name @ '' |'',
      ''| **GitHub (mirror)** | https://github.com/scrampker/'' @ app_name @ '' |'',
      '''',
      ''## Deployment paths'',
      '''',
      ''- **Dev (fast iterate)** -- run directly on `192.168.150.6` via `launch.py`.'',
      ''  Listens on `:'' @ int_str port @ ''` like the container does. Hot-reload via `--reload` if'',
      ''  you add it.'',
      ''- **Prod-in-a-box (normal)** -- the LXC above, Docker via `docker-compose.yml`.'',
      ''  Redeploy with `ssh '' @ ip_str @ '' 'cd /opt/scottycore/'' @ app_name @ '' '' @ [CHR 0x5C],
      ''  && git pull && docker compose up -d --build'`, or run'',
      ''  `ansible-playbook workloads/scottycore-apps.yml -l '' @ app_name @ ''.melbourne`'',
      ''  from `/script/scottylab/automation/ansible/`.'',
      '''',
      ''## DNS path (for reference)'',
      '''',
      ''```'',
      ''scottybiz.corpaholics.com'',
      ''     |'',
      ''     |- external (internet)    -> Cloudflare proxy -> melbourne tunnel -> nginx vhost -> upstream'',
      ''     |- LAN (behind UniFi)     -> UniFi local DNS  -> nginx directly   -> vhost       -> upstream'',
      ''```'',
      '''',
      ''The `*.corpaholics.com` UniFi wildcard + CF tunnel ingress were installed by'',
      ''`scottycore-init.py` and are idempotently reconciled on every re-run. Nothing'',
      ''to do here unless you're changing how requests route.'',
      '''',
      ''## Domain'',
      '''',
      ''_TBD -- replace this section with what this app actually does, which service'',
      ''modules it needs under `scottycore/services/`, and any non-scottycore'',
      ''dependencies (GPU, Redis, external APIs, etc.)._'',
      '''',
      ''## Useful commands'',
      '''',
      ''```bash'',
      ''# Health check (external)'',
      ''curl -sSf https://'' @ fqdn @ ''/health'',
      '''',
      ''# Health check (direct to LXC)'',
      ''curl -sSf http://'' @ ip_str @ '':'' @ int_str port @ ''/health'',
      '''',
      ''# Container logs'',
      ''ssh '' @ ip_str @ '' 'docker logs scottybiz --tail 50'' @ [CHR 0x27],
      '''',
      ''# Rebuild & restart container'',
      ''ssh '' @ ip_str @ '' 'cd /opt/scottycore/'' @ app_name @ '' && docker compose up -d --build'' @ [CHR 0x27],
      '''',
      ''# Reconcile everything (idempotent -- heals any drift)'',
      ''python3 /script/scottycore/scripts/scottycore-init.py /script/'' @ app_name @ '' --name '' @ app_name,
      ''```'']"

definition guide_header :: "string \<Rightarrow> string \<Rightarrow> int \<Rightarrow> string \<Rightarrow> string \<Rightarrow> string \<Rightarrow> string" where
  "guide_header app_name fqdn port vmid_str ip_str upstream_str =
     doc_text [''# '' @ app_name, '''', APP_HEADER_MARKER] @ guide_facts app_name fqdn port vmid_str ip_str upstream_str @
     doc_text [APP_HEADER_END, '''']"

definition guide_pipeline :: "string \<Rightarrow> string" where
  "guide_pipeline app_name = doc_text [
      '''',
      ''<!-- scottycore-integration -->'',
      ''## ScottyCore Pipeline'',
      '''',
      ''This app depends on the [scottycore](/script/scottycore) package (pinned in'',
      ''`pyproject.toml` via'',
      ''`git+https://forgejo.scotty.consulting/scotty/scottycore.git@vX.Y.Z`).'',
      '''',
      ''### Automated pipeline'',
      '''',
      ''**Upward -- `.forgejo/workflows/promote-scan.yml`**: every push to master runs'',
      ''a `claude -p` classifier on the Python diff. If code looks like shared-library'',
      ''material, it dispatches scottycore's `promote-receive.yml` for autonomous'',
      ''extraction + release.'',
      '''',
      ''**Downward -- `.forgejo/workflows/scottycore-upgrade.yml`**: when scottycore'',
      ''cuts a release, this app receives a workflow_dispatch that bumps the pin,'',
      ''runs CI, and has the manager agent classify the PR as GREEN / YELLOW / RED.'',
      '''',
      ''### `/promote` skill'',
      '''',
      ''To proactively move code to scottycore without waiting for the next push,'',
      ''invoke `/promote <path>` from a Claude Code session.'',
      '''',
      ''### Kill switches'',
      '''',
      ''- `export SCOTTYCORE_SKIP_PROMOTE_NUDGE=1` -- disables local pre-commit nudge'',
      ''- Remove `.forgejo/workflows/promote-scan.yml` -- disables server-side scan'',
      ''<!-- /scottycore-integration -->'',
      '''',
      ''## Session-start: check pipeline feedback'',
      '''',
      ''```bash'',
      ''git fetch --quiet origin'',
      ''TOKEN=$(cat ~/.config/forgejo-token 2>/dev/null)'',
      ''[ -n '' @ [CHR 0x22] @ ''$TOKEN'' @ [CHR 0x22] @ '' ] && for sha in $(git log -5 --format='%H' origin/master); do'',
      ''    COMMENTS=$(curl -s -H '' @ [CHR 0x22] @ ''Authorization: token $TOKEN'' @ [CHR 0x22] @ '' '' @ [CHR 0x5C],
      ''      '' @ [CHR 0x22] @ ''https://forgejo.scotty.consulting/api/v1/repos/scotty/'' @ app_name @ ''/commits/$sha/comments'' @ [CHR 0x22] @ '')'',
      ''    if echo '' @ [CHR 0x22] @ ''$COMMENTS'' @ [CHR 0x22] @ '' | grep -q '' @ [CHR 0x27] @ [CHR 0x22] @ ''body'' @ [CHR 0x22] @ [CHR 0x27] @ ''; then'',
      ''        echo '' @ [CHR 0x22] @ ''=== $sha ==='' @ [CHR 0x22],
      ''        echo '' @ [CHR 0x22] @ ''$COMMENTS'' @ [CHR 0x22] @ '' | python3 -c '' @ [CHR 0x22] @ ''import json,sys;[print(c['body']) for c in json.load(sys.stdin)]'' @ [CHR 0x22],
      ''    fi'',
      ''done'',
      ''```'',
      ''Report any scottycore-bot comments before starting work.'']"


fun cut_at :: "string \<Rightarrow> string \<Rightarrow> (string \<times> string) option" where
  \<comment> \<open>What is before and after the first occurrence.\<close>
  "cut_at p [] = (if p = [] then Some ([], []) else None)"
| "cut_at p (c # s) =
     (if starts_with p (c # s) then Some ([], drop (length p) (c # s))
      else map_option (\<lambda>(a, b). (c # a, b)) (cut_at p s))"

definition render_app_claude_md :: "string \<Rightarrow> string \<Rightarrow> int \<Rightarrow> int option \<Rightarrow> string option \<Rightarrow> string" where
  "render_app_claude_md app_name fqdn port lxc_vmid lxc_ip =
     (let vmid_str = (case lxc_vmid of None \<Rightarrow> ''_not yet provisioned_'' | Some v \<Rightarrow> ''CT '' @ int_str v);
          ip_str = (if truthy_str lxc_ip then the lxc_ip else ''_not yet provisioned_'');
          upstream_str = (if truthy_str lxc_ip then ''http://'' @ the lxc_ip @ '':'' @ int_str port
                          else ''http://'' @ app_name @ ''.melbourne:'' @ int_str port @ '' (placeholder)'')
      in guide_header app_name fqdn port vmid_str ip_str upstream_str @ guide_pipeline app_name)"

definition refreshed_guide :: "string \<Rightarrow> string \<Rightarrow> string" where
  \<comment> \<open>The new text for the rendered and the existing one.\<close>
  "refreshed_guide rendered existing =
     (if starts_with ''# ScottyCore'' (dropWhile is_space existing) then rendered
      else if contains_str APP_HEADER_MARKER existing \<and> contains_str APP_HEADER_END existing
      then rendered @ dropWhile (\<lambda>c. c = CHR 0x0A) (snd (the (cut_at APP_HEADER_END existing)))
      else if contains_str CLAUDE_SECTION_MARKER existing
      then (case cut_at APP_HEADER_END rendered of None \<Rightarrow> rendered | Some (a, b) \<Rightarrow> a) @ APP_HEADER_END @ ''\<newline>\<newline>'' @ existing
      else rendered)"

definition write_app_claude_md ::
  "string \<Rightarrow> string \<Rightarrow> int \<Rightarrow> int option \<Rightarrow> string option \<Rightarrow> 'w init_state \<Rightarrow> bool \<times> 'w init_state" where
  "write_app_claude_md app_name fqdn port lxc_vmid lxc_ip s =
     (let rendered = render_app_claude_md app_name fqdn port lxc_vmid lxc_ip
      in (True, write_app ''CLAUDE.md''
            (case app_file ''CLAUDE.md'' s of None \<Rightarrow> rendered | Some existing \<Rightarrow> refreshed_guide rendered existing) s))"

subsection \<open>The release workflow's list\<close>

definition app_line :: "string \<Rightarrow> string option" where
  \<comment> \<open>\<open>[ \t]+\<S>+\n\<close> at the front: what follows it.\<close>
  "app_line s =
     (let r = dropWhile (\<lambda>c. c = CHR '' '' \<or> c = CHR 0x09) s; w = takeWhile (\<lambda>c. \<not> is_space c) r; t = drop (length w) r
      in if length r < length s \<and> w \<noteq> [] \<and> t \<noteq> [] \<and> hd t = CHR 0x0A then Some (tl t) else None)"

lemma app_line_shorter: "app_line s = Some t \<Longrightarrow> length t < length s"
  using length_dropWhile_le [of "\<lambda>c. c = CHR '' '' \<or> c = CHR 0x09" s]
  by (auto simp: app_line_def Let_def split: if_splits)

function after_block :: "string \<Rightarrow> string" where
  "after_block s = (case app_line s of None \<Rightarrow> s | Some t \<Rightarrow> after_block t)"
  by pat_completeness auto

termination after_block
  by (relation "measure length") (auto dest: app_line_shorter)

declare after_block.simps [simp del]

definition apps_here :: "string \<Rightarrow> (string \<times> string \<times> string) option" where
  \<comment> \<open>\<open>(APPS:\<s>*>-\n)((?:[ \t]+\<S>+\n)+)\<close> at the front: the two groups and the rest.\<close>
  "apps_here s =
     (let b = drop 3 (dropWhile is_space (drop 5 s)); rest = after_block b
      in if starts_with ''APPS:'' s \<and> starts_with ''>-\<newline>'' (dropWhile is_space (drop 5 s)) \<and> app_line b \<noteq> None
         then Some (take (length s - length b) s, take (length b - length rest) b, rest) else None)"

fun apps_search :: "string \<Rightarrow> (string \<times> string \<times> string) option" where
  "apps_search [] = None"
| "apps_search (c # s) =
     (case apps_here (c # s) of Some m \<Rightarrow> Some m | None \<Rightarrow> map_option (\<lambda>(h, b, r). (c # h, b, r)) (apps_search s))"

definition with_release_app :: "string \<Rightarrow> string \<Rightarrow> string option" where
  "with_release_app app_name text =
     (case apps_search text of
        None \<Rightarrow> None
      | Some (head, block, rest) \<Rightarrow>
          if app_name \<in> set (py_words block []) then None
          else Some (head @ rstrip_where is_space block @ ''\<newline>'' @ takeWhile is_space (takeWhile (\<lambda>c. \<not> is_linebreak c) block) @
                     app_name @ ''\<newline>'' @ rest))"

definition add_to_release_apps :: "string \<Rightarrow> 'w init_state \<Rightarrow> bool \<times> 'w init_state" where
  "add_to_release_apps app_name s =
     (case Option.bind (core_file ''.forgejo/workflows/release.yml'' s) (with_release_app app_name) of
        None \<Rightarrow> (False, s) | Some t \<Rightarrow> (True, write_core ''.forgejo/workflows/release.yml'' t s))"

subsection \<open>Commits\<close>

definition stage_and_commit :: "'s shell \<Rightarrow> string \<Rightarrow> string list \<Rightarrow> string \<Rightarrow> 's \<Rightarrow> (error + int option) \<times> 's" where
  \<comment> \<open>What the three commit functions share: the exit status of \<open>git commit\<close>, None when nothing is staged.\<close>
  "stage_and_commit sh dir paths message s =
     attempt (sh (git_in dir (''add'' # paths)) s) (\<lambda>_ s.
     attempt (sh (git_in dir [''diff'', ''--cached'', ''--stat'']) s) (\<lambda>status s.
       if py_strip (fst (snd status)) = '''' then (Inr None, s)
       else attempt (sh (git_in dir [''commit'', ''-m'', message]) s) (\<lambda>r s. (Inr (Some (fst r)), s))))"

definition app_paths :: "string list" where
  "app_paths = [''CLAUDE.md'', ''.forgejo/workflows/promote-scan.yml'', ''.forgejo/workflows/scottycore-upgrade.yml'',
     ''docker-compose.yml'', ''pyproject.toml'']"

definition commit_app_changes :: "'s shell \<Rightarrow> string \<Rightarrow> string \<Rightarrow> 's \<Rightarrow> (error + bool) \<times> 's" where
  "commit_app_changes sh app_path app_name s =
     attempt (stage_and_commit sh app_path app_paths
       (''feat: wire '' @ app_name @ '' into ScottyCore pipeline\<newline>\<newline>Added CLAUDE.md Pipeline section, promote-scan.yml workflow,\<newline>'' @
        ''and scottycore dependency pin. Generated by scottycore-init.py.'') s) (\<lambda>r s. (Inr (r = Some 0), s))"

definition push_app :: "'s shell \<Rightarrow> string \<Rightarrow> string \<Rightarrow> bool \<Rightarrow> 's \<Rightarrow> (error + bool) \<times> 's" where
  "push_app sh app_path branch force s =
     attempt (sh (git_in app_path ([''push''] @ (if force then [''--force''] else []) @ [''-u'', ''origin'', branch])) s)
       (\<lambda>r s. (Inr (fst r = 0), s))"

definition commit_scottycore_changes :: "'s shell \<Rightarrow> string \<Rightarrow> string \<Rightarrow> 's \<Rightarrow> (error + bool) \<times> 's" where
  "commit_scottycore_changes sh core_dir app_name s =
     attempt (stage_and_commit sh core_dir
       [''config/apps.yaml'', ''.claude/agents/'' @ app_name @ ''-manager.md'', ''.forgejo/workflows/release.yml'']
       (''feat: register '' @ app_name @ '' in app registry + manager agent'') s) (\<lambda>r s.
       if r = Some 0 then attempt (sh (git_in core_dir [''push'']) s) (\<lambda>_ s. (Inr True, s)) else (Inr False, s))"

definition commit_scottylab_changes :: "'w init_state shell \<Rightarrow> string \<Rightarrow> string \<Rightarrow> 'w init_state \<Rightarrow> (error + bool) \<times> 'w init_state" where
  "commit_scottylab_changes sh lab_dir app_name s =
     (if \<not> su_scottylab s then (Inr False, s)
      else attempt (stage_and_commit sh lab_dir
             [''automation/ansible/playbooks/workloads/nginx-certs.yml'', ''automation/ansible/playbooks/workloads/nginx-vhosts.yml'',
              ''automation/ansible/playbooks/workloads/scottycore-apps.yml'', ''automation/ansible/inventory/workloads.yml'']
             (''feat: wire '' @ app_name @ '' into nginx + scottycore-apps'') s) (\<lambda>r s.
             if r = Some 0 then attempt (sh (git_in lab_dir [''push'']) s) (\<lambda>_ s. (Inr True, s)) else (Inr False, s)))"

subsection \<open>The scaffold\<close>

definition ignored_name :: "string \<Rightarrow> bool" where
  "ignored_name n \<longleftrightarrow>
     n \<in> {''.git'', ''.venv'', ''venv'', ''__pycache__'', ''.pytest_cache'', ''.mypy_cache'', ''.ruff_cache'', ''node_modules'',
          ''data'', ''app.db'', ''app.db-journal'', ''.env''} \<or> ends_with ''.pyc'' n"

definition template_files :: "(string \<times> string) list \<Rightarrow> (string \<times> string) list" where
  "template_files core = filter (\<lambda>(p, t). \<not> list_ex ignored_name (split_on (CHR ''/'') p)) core"

definition after_name :: "string \<Rightarrow> string option" where
  \<comment> \<open>\<open>name\<s>*=\<s>*"[^"]+"\<close> at the front: what follows it.\<close>
  "after_name s =
     (let r = dropWhile is_space (drop 4 s); v = dropWhile is_space (tl r); w = takeWhile (\<lambda>c. c \<noteq> CHR 0x22) (tl v);
          t = drop (length w) (tl v)
      in if starts_with ''name'' s \<and> starts_with ''='' r \<and> starts_with [CHR 0x22] v \<and> w \<noteq> [] \<and> t \<noteq> []
         then Some (tl t) else None)"

fun rename_project :: "bool \<Rightarrow> string \<Rightarrow> string \<Rightarrow> string" where
  \<comment> \<open>The first argument: whether the text begins a line.\<close>
  "rename_project bol app_name [] = []"
| "rename_project bol app_name (c # s) =
     (case if bol then after_name (c # s) else None of
        Some t \<Rightarrow> ''name = '' @ [CHR 0x22] @ app_name @ [CHR 0x22] @ t
      | None \<Rightarrow> c # rename_project (c = CHR 0x0A) app_name s)"

definition scaffolded :: "string \<Rightarrow> (string \<times> string) list \<Rightarrow> (string \<times> string) list" where
  "scaffolded app_name core =
     (let files = template_files core in
      case map_of files ''pyproject.toml'' of
        None \<Rightarrow> files
      | Some raw \<Rightarrow>
          (let text = universal_newlines raw; updated = rename_project True app_name text
           in if updated \<noteq> text then dict_set ''pyproject.toml'' updated files else files))"

definition scaffold_new_app :: "'w init_state shell \<Rightarrow> string \<Rightarrow> string \<Rightarrow> 'w init_state \<Rightarrow> (error + bool) \<times> 'w init_state" where
  "scaffold_new_app sh app_path app_name s =
     (if su_app s \<noteq> None then (Inr False, s)
      else attempt (run_all sh (map (git_in app_path)
             [[''init'', ''-b'', ''master''], [''add'', ''-A''],
              [''commit'', ''-m'', ''chore: scaffold '' @ app_name @ '' from scottycore template'']])
             (s\<lparr>su_app := Some (scaffolded app_name (su_core s))\<rparr>)) (\<lambda>_ s. (Inr True, s)))"

definition detect_branch :: "'s shell \<Rightarrow> string \<Rightarrow> 's \<Rightarrow> (error + string) \<times> 's" where
  "detect_branch sh app_path s =
     (case sh (git_in app_path [''branch'', ''--show-current'']) s of
        (Inl x, s) \<Rightarrow>
          (if x = OtherException ''TimeoutExpired'' \<or> x = OtherException ''FileNotFoundError'' then Inr ''master'' else Inl x, s)
      | (Inr r, s) \<Rightarrow> (Inr (if fst r = 0 \<and> py_strip (fst (snd r)) \<noteq> '''' then py_strip (fst (snd r)) else ''master''), s))"

definition detect_stack :: "'w init_state \<Rightarrow> string" where
  "detect_stack s =
     (let has = (\<lambda>p. app_file p s \<noteq> None); content = (\<lambda>p. py_lower (the (app_file p s)));
          scripts = filter (\<lambda>(p, t). CHR ''/'' \<notin> set p \<and> (ends_with ''.ps1'' p \<or> ends_with ''.psm1'' p))
                      (case su_app s of None \<Rightarrow> [] | Some fs \<Rightarrow> fs)
      in if has ''pyproject.toml'' then
           (let t = content ''pyproject.toml''
            in if contains_str ''fastapi'' t then ''FastAPI'' else if contains_str ''flask'' t then ''Flask''
               else if contains_str ''django'' t then ''Django'' else ''Python'')
         else if has ''requirements.txt'' then
           (let t = content ''requirements.txt''
            in if contains_str ''fastapi'' t then ''FastAPI'' else if contains_str ''flask'' t then ''Flask'' else ''Python'')
         else if has ''package.json'' then ''Node.js'' else if has ''Cargo.toml'' then ''Rust'' else if has ''go.mod'' then ''Go''
         else if scripts \<noteq> [] then ''PowerShell''
         else if has ''Dockerfile'' \<or> has ''docker-compose.yml'' then ''Docker'' else ''unknown'')"

subsection \<open>The whole onboarding\<close>

record 'w init_tools =
  it_lab :: "'w lab_tools"
  it_shell :: "'w init_state shell"
  it_api :: "'w init_state forge_api"
  it_core_dir :: string
  it_lab_dir :: string
  it_resolve :: "string \<Rightarrow> string"
  it_answer :: "string option"

record init_flags =
  fl_name :: "string option"
  fl_stack :: "string option"
  fl_github :: "string option"
  fl_domain :: "string option"
  fl_port :: "int option"

fun parse_flags :: "string list \<Rightarrow> init_flags \<Rightarrow> error + init_flags" where
  \<comment> \<open>The word after an option is its value and is looked at again; the last one counts.\<close>
  "parse_flags [] a = Inr a"
| "parse_flags [x] a = Inr a"
| "parse_flags (x # v # rest) a =
     (if x = ''--name'' then parse_flags (v # rest) (a\<lparr>fl_name := Some v\<rparr>)
      else if x = ''--stack'' then parse_flags (v # rest) (a\<lparr>fl_stack := Some v\<rparr>)
      else if x = ''--github-repo'' then parse_flags (v # rest) (a\<lparr>fl_github := Some v\<rparr>)
      else if x = ''--domain'' then parse_flags (v # rest) (a\<lparr>fl_domain := Some v\<rparr>)
      else if x = ''--port'' then
        (case py_int (JStr v) of Inl e \<Rightarrow> Inl e | Inr n \<Rightarrow> parse_flags (v # rest) (a\<lparr>fl_port := Some n\<rparr>))
      else parse_flags (v # rest) a)"

definition no_flags :: init_flags where
  "no_flags = \<lparr>fl_name = None, fl_stack = None, fl_github = None, fl_domain = None, fl_port = None\<rparr>"

definition on_lab :: "('w lab \<Rightarrow> (error + 'a) \<times> 'w lab) \<Rightarrow> 'w init_state \<Rightarrow> (error + 'a) \<times> 'w init_state" where
  "on_lab f s = (case f (su_lab s) of (r, b) \<Rightarrow> (r, s\<lparr>su_lab := b\<rparr>))"

definition ensure_scaffold ::
  "'w init_tools \<Rightarrow> bool \<Rightarrow> string \<Rightarrow> string \<Rightarrow> 'w init_state \<Rightarrow> (error + bool) \<times> 'w init_state" where
  \<comment> \<open>False: \<open>sys.exit(1)\<close>.  \<open>it_answer\<close> is what is typed at the prompt, None without a terminal.\<close>
  "ensure_scaffold g scaffold_flag app_path app_name s =
     (if su_app s \<noteq> None then (Inr True, s)
      else if scaffold_flag \<or> (\<exists>ans \<in> set_option (it_answer g). py_lower (py_strip ans) \<in> {'''', ''y'', ''yes''})
      then attempt (scaffold_new_app (it_shell g) app_path app_name s) (\<lambda>_ s. (Inr True, s))
      else (Inr False, s))"

definition wire_remotes ::
  "'w init_tools \<Rightarrow> string option \<Rightarrow> bool \<Rightarrow> string \<Rightarrow> string \<Rightarrow> string \<Rightarrow> string \<Rightarrow> 'w init_state \<Rightarrow> (error + unit) \<times> 'w init_state" where
  \<comment> \<open>Step 1\<close>
  "wire_remotes g github_repo skip_forgejo app_path app_name stack branch s =
     attempt (detect_github_remote (it_shell g) app_path s) (\<lambda>found s.
       let github_url = (if truthy_str found then the found
                         else if truthy_str github_repo then ''https://github.com/'' @ the github_repo @ ''.git''
                         else ''https://github.com/'' @ GITHUB_USER @ ''/'' @ app_name @ ''.git'');
           about = ''Scotty app: '' @ stack in
       attempt (detect_github_remote (it_shell g) app_path s) (\<lambda>again s.
       attempt (if truthy_str again then (Inr True, s) else create_github_repo (it_shell g) app_name about True s) (\<lambda>_ s.
         if skip_forgejo then (Inr (), s)
         else (case create_forgejo_repo (it_api g) app_name about branch s of (url, s) \<Rightarrow>
           if \<not> truthy_json url then (Inr (), s)
           else (case url of
                   Some (JStr u) \<Rightarrow>
                     attempt (setup_dual_remote (it_shell g) app_path u github_url s) (\<lambda>_ s.
                       (Inr (), if truthy_str (read_forgejo_token s)
                                then snd (set_forgejo_secret (it_api g) app_name ''FORGEJO_TOKEN'' (the (read_forgejo_token s)) s)
                                else s))
                 | _ \<Rightarrow> attempt (it_shell g (git_in app_path [''remote'', ''-v'']) s) (\<lambda>_ s.
                          (Inl (TypeError ''in <string> requires string as left operand''), s)))))))"

definition render_files :: "'w init_tools \<Rightarrow> string \<Rightarrow> string \<Rightarrow> string \<Rightarrow> string \<Rightarrow> int \<Rightarrow> 'w init_state \<Rightarrow> 'w init_state" where
  \<comment> \<open>Steps 2b to 5d\<close>
  "render_files g app_path app_name stack branch port s =
     (let s = snd (install_docker_compose app_name port s);
          s = snd (scaffold_agent app_name app_path stack s);
          s = snd (install_promote_nudge_hook (it_core_dir g) s);
          s = snd (install_promote_scan_workflow s)
      in case install_scottycore_upgrade_workflow app_name branch s of
           (installed, s) \<Rightarrow> if installed then snd (add_to_release_apps app_name s) else s)"

definition declare_infra ::
  "'w init_tools \<Rightarrow> string \<Rightarrow> string \<Rightarrow> string \<Rightarrow> string \<Rightarrow> int \<Rightarrow> (int \<times> string) option \<Rightarrow> 'w init_state \<Rightarrow> (error + bool) \<times> 'w init_state" where
  \<comment> \<open>Step 5f\<close>
  "declare_infra g app_name stack branch fqdn port lxc s =
     (let apex = apex_of fqdn; target_host = app_name @ ''.melbourne'';
          repo_url = FORGEJO_BASE @ ''/'' @ FORGEJO_USER @ ''/'' @ app_name @ ''.git'';
          ip = map_option snd lxc; upstream = (if truthy_str ip then the ip else target_host);
          b = su_lab s;
          b = b\<lparr>lb_certs := snd (add_cert_apex apex (lb_certs b))\<rparr>;
          b = b\<lparr>lb_vhosts := snd (add_vhost app_name fqdn apex upstream port (lb_vhosts b))\<rparr>;
          b = (if truthy_str ip
               then b\<lparr>lb_inventory := snd (register_host target_host (the ip) (fst (the lxc)) (''scottycore app -- '' @ stack)
                       ''proxmox1'' ''docker_melbourne'' (lb_inventory b))\<rparr>
               else b);
          s = snd (add_scottycore_app app_name target_host port repo_url branch (s\<lparr>su_lab := b\<rparr>))
      in commit_scottylab_changes (it_shell g) (it_lab_dir g) app_name s)"

definition publish_app :: "'w init_tools \<Rightarrow> string \<Rightarrow> 'w lab \<Rightarrow> (error + bool) \<times> 'w lab" where
  \<comment> \<open>Steps 5g to 5g3\<close>
  "publish_app g fqdn b =
     (let t = it_lab g in
      attempt (on_net (ensure_cname (lt_ssh t) (lt_web t) (us_show (lt_unifi t)) fqdn (apex_of fqdn) CF_TUNNEL_HOSTNAME) b) (\<lambda>_ b.
      attempt (on_net (ensure_dns (lt_unifi t) fqdn NGINX_HOST UNIFI_DEFAULT_AAAA)
        (b\<lparr>lb_tunnel := snd (ensure_tunnel_ingress (lt_grep t) (lt_valid t) fqdn ''http://localhost:80'' (lb_tunnel b))\<rparr>)) (\<lambda>_ b.
        case cert_zones (us_show (lt_unifi t)) (lt_yaml t) (lb_certs b) of
          Inl x \<Rightarrow> (Inl x, b)
        | Inr zones \<Rightarrow> if zones = [] then (Inr False, b)
                       else on_net (sync_wildcards (lt_unifi t) zones NGINX_HOST UNIFI_DEFAULT_AAAA) b)))"

definition deploy_app :: "'w init_tools \<Rightarrow> string \<Rightarrow> 'w lab \<Rightarrow> (error + bool) \<times> 'w lab" where
  \<comment> \<open>Step 8\<close>
  "deploy_app g app_name b =
     (let run = lt_run (it_lab g); target_host = app_name @ ''.melbourne'' in
      attempt (on_net (install_docker run target_host) b) (\<lambda>_ b.
      attempt (on_net (issue_certs run) b) (\<lambda>_ b.
      attempt (on_net (deploy_scottycore_app run target_host) b) (\<lambda>_ b.
        on_net (publish_vhost run) b))))"

definition finish_onboarding ::
  "'w init_tools \<Rightarrow> bool \<Rightarrow> string \<Rightarrow> string \<Rightarrow> string \<Rightarrow> string \<Rightarrow> int \<Rightarrow> string \<Rightarrow> 'w init_state \<Rightarrow> (error + unit) \<times> 'w init_state" where
  \<comment> \<open>Steps 5e to 8\<close>
  "finish_onboarding g skip_infra app_path app_name stack branch port fqdn s =
     attempt (if skip_infra then (Inr None, s)
              else on_lab (on_net (provision (lt_ssh (it_lab g)) ''192.168.150.101'' app_name 2 2048 16)) s) (\<lambda>lxc s.
     let s = snd (write_app_claude_md app_name fqdn port (map_option fst lxc) (map_option snd lxc) s) in
     attempt (if skip_infra then (Inr False, s)
              else attempt (declare_infra g app_name stack branch fqdn port lxc s) (\<lambda>_ s. on_lab (publish_app g fqdn) s)) (\<lambda>_ s.
     attempt (commit_app_changes (it_shell g) app_path app_name s) (\<lambda>changed s.
     attempt (if changed then push_app (it_shell g) app_path branch True s else (Inr False, s)) (\<lambda>_ s.
     attempt (commit_scottycore_changes (it_shell g) (it_core_dir g) app_name s) (\<lambda>_ s.
     attempt (if \<not> skip_infra \<and> truthy_str (map_option snd lxc) then on_lab (deploy_app g app_name) s else (Inr False, s)) (\<lambda>_ s.
       (Inr (), s)))))))"

definition onboard ::
  "'w init_tools \<Rightarrow> init_flags \<Rightarrow> bool \<Rightarrow> bool \<Rightarrow> string \<Rightarrow> string \<Rightarrow> 'w init_state \<Rightarrow> (error + (int \<times> string)) \<times> 'w init_state" where
  \<comment> \<open>What \<open>main\<close> does once the application's directory exists; the port and the host name are returned.\<close>
  "onboard g a skip_forgejo skip_infra app_path app_name s =
     (let stack = (case fl_stack a of Some t \<Rightarrow> t | None \<Rightarrow> detect_stack s) in
      attempt (detect_branch (it_shell g) app_path s) (\<lambda>branch s.
      attempt (wire_remotes g (fl_github a) skip_forgejo app_path app_name stack branch s) (\<lambda>_ s.
      case load_apps_config (apps_yaml s) of Inl x \<Rightarrow> (Inl x, s) | Inr apps \<Rightarrow>
      case choose_port (fl_port a) app_name apps of Inl x \<Rightarrow> (Inl x, s) | Inr port \<Rightarrow>
      case choose_fqdn (fl_domain a) app_name apps of Inl x \<Rightarrow> (Inl x, s) | Inr fqdn \<Rightarrow>
      case register_app app_path app_name stack branch port fqdn (apps_yaml s) of
        Inl x \<Rightarrow> (Inl x, s) | Inr (added, f) \<Rightarrow>
      let s = (if added then write_core ''config/apps.yaml'' (the f) s else s);
          s = render_files g app_path app_name stack branch port s in
      attempt (finish_onboarding g skip_infra app_path app_name stack branch port fqdn s) (\<lambda>_ s. (Inr (port, fqdn), s)))))"

datatype init_end = AppsListed registry | UsageShown | ScaffoldDeclined | Onboarded int string

definition init_main :: "'w init_tools \<Rightarrow> string list \<Rightarrow> 'w init_state \<Rightarrow> (error + init_end) \<times> 'w init_state" where
  "init_main g args s =
     (if ''--list'' \<in> set args then (map_sum id AppsListed (load_apps_config (apps_yaml s)), s)
      else if args = [] \<or> starts_with ''--'' (hd args) then (Inr UsageShown, s)
      else (case parse_flags args no_flags of
              Inl x \<Rightarrow> (Inl x, s)
            | Inr a \<Rightarrow>
                (let app_path = it_resolve g (hd args);
                     app_name = (case fl_name a of Some n \<Rightarrow> n | None \<Rightarrow> replace_all '' '' ''-'' (py_lower (basename app_path))) in
                 attempt (ensure_scaffold g (''--scaffold'' \<in> set args) app_path app_name s) (\<lambda>go s.
                   if \<not> go then (Inr ScaffoldDeclined, s)
                   else attempt (onboard g a (''--skip-forgejo'' \<in> set args) (''--skip-infra'' \<in> set args) app_path app_name s)
                          (\<lambda>(port, fqdn) s. (Inr (Onboarded port fqdn), s))))))"


subsection \<open>The registry is written once\<close>

text \<open>Subprocesses and the API leave the registry's file alone; so do all steps but the registration.\<close>

definition quiet :: "'w init_tools \<Rightarrow> bool" where
  "quiet g \<longleftrightarrow> (\<forall>c s. apps_yaml (snd (it_shell g c s)) = apps_yaml s) \<and>
     (\<forall>m u t j s. apps_yaml (snd (it_api g m u t j s)) = apps_yaml s)"

lemma attempt_keeps:
  assumes "apps_yaml (snd r) = R" and "\<And>a s. apps_yaml s = R \<Longrightarrow> apps_yaml (snd (k a s)) = R"
  shows "apps_yaml (snd (attempt r k)) = R"
  using assms by (cases r; cases "fst r") (auto simp: attempt_def)

lemma shell_keeps: "quiet g \<Longrightarrow> apps_yaml s = R \<Longrightarrow> apps_yaml (snd (it_shell g c s)) = R"
  by (simp add: quiet_def)

lemma api_keeps: "quiet g \<Longrightarrow> apps_yaml s = R \<Longrightarrow> it_api g m u t j s = (r, s') \<Longrightarrow> apps_yaml s' = R"
  by (metis quiet_def snd_conv)

lemma run_all_keeps: "quiet g \<Longrightarrow> apps_yaml s = R \<Longrightarrow> apps_yaml (snd (run_all (it_shell g) cs s)) = R"
  by (induction cs arbitrary: s) (auto intro!: attempt_keeps shell_keeps)

lemma on_lab_keeps: "apps_yaml s = R \<Longrightarrow> apps_yaml (snd (on_lab f s)) = R"
  by (auto simp: on_lab_def apps_yaml_def split: prod.splits)

lemma write_keeps [simp]:
  "apps_yaml (write_app p t s) = apps_yaml s"
  "p \<noteq> ''config/apps.yaml'' \<Longrightarrow> apps_yaml (write_core p t s) = apps_yaml s"
  "apps_yaml (write_core ''config/apps.yaml'' t s) = Some t"
  by (simp_all add: apps_yaml_def write_app_def write_core_def map_of_dict_set)

lemma apps_yaml_update [simp]:
  "apps_yaml (su_app_update f s) = apps_yaml s" "apps_yaml (su_lab_update h s) = apps_yaml s"
  "apps_yaml (su_apps_yml_update k s) = apps_yaml s"
  by (simp_all add: apps_yaml_def)

lemma detect_branch_keeps: "quiet g \<Longrightarrow> detect_branch (it_shell g) path s = (r, s') \<Longrightarrow> apps_yaml s' = apps_yaml s"
  using shell_keeps [of g s "apps_yaml s" "git_in path [''branch'', ''--show-current'']"]
  by (auto simp: detect_branch_def split: prod.splits sum.splits)

lemma commit_keeps:
  assumes "quiet g" "apps_yaml s = R"
  shows "apps_yaml (snd (stage_and_commit (it_shell g) dir ps m s)) = R"
  unfolding stage_and_commit_def using assms
  by (intro attempt_keeps) (auto intro!: attempt_keeps shell_keeps)

lemma commits_keep:
  assumes "quiet g" "apps_yaml s = R"
  shows "apps_yaml (snd (commit_app_changes (it_shell g) path name s)) = R"
    "apps_yaml (snd (commit_scottycore_changes (it_shell g) dir name s)) = R"
    "apps_yaml (snd (commit_scottylab_changes (it_shell g) dir name s)) = R"
    "apps_yaml (snd (push_app (it_shell g) path branch force s)) = R"
  using assms
  by (auto simp: commit_app_changes_def commit_scottycore_changes_def commit_scottylab_changes_def push_app_def
      intro!: attempt_keeps shell_keeps commit_keeps)

lemma detect_remote_keeps: "quiet g \<Longrightarrow> apps_yaml s = R \<Longrightarrow> apps_yaml (snd (detect_github_remote (it_shell g) path s)) = R"
  by (auto simp: detect_github_remote_def intro!: attempt_keeps shell_keeps)

lemma github_repo_keeps: "quiet g \<Longrightarrow> apps_yaml s = R \<Longrightarrow> apps_yaml (snd (create_github_repo (it_shell g) name about private s)) = R"
  by (auto simp: create_github_repo_def Let_def intro!: attempt_keeps shell_keeps)

lemma dual_remote_keeps: "quiet g \<Longrightarrow> apps_yaml s = R \<Longrightarrow> apps_yaml (snd (setup_dual_remote (it_shell g) path f h s)) = R"
  by (auto simp: setup_dual_remote_def Let_def intro!: attempt_keeps shell_keeps run_all_keeps)

lemma forgejo_repo_keeps: "quiet g \<Longrightarrow> create_forgejo_repo (it_api g) name about branch s = (r, s') \<Longrightarrow> apps_yaml s' = apps_yaml s"
  using api_keeps [of g s "apps_yaml s"]
  by (auto simp: create_forgejo_repo_def split: if_splits prod.splits api_answer.splits option.splits json.splits)

lemma forgejo_secret_keeps: "quiet g \<Longrightarrow> apps_yaml (snd (set_forgejo_secret (it_api g) name k v s)) = apps_yaml s"
  using api_keeps [of g s "apps_yaml s"]
  by (auto simp: set_forgejo_secret_def split: if_splits prod.splits api_answer.splits)

lemma wire_remotes_keeps:
  assumes q: "quiet g" and s: "apps_yaml s = R"
  shows "apps_yaml (snd (wire_remotes g repo skip path name stack branch s)) = R"
proof -
  have url: "apps_yaml (snd (if skip then (Inr (), s) else
      (case create_forgejo_repo (it_api g) name about branch s of (url, s) \<Rightarrow>
           if \<not> truthy_json url then (Inr (), s)
           else (case url of
                   Some (JStr u) \<Rightarrow>
                     attempt (setup_dual_remote (it_shell g) path u github_url s) (\<lambda>_ s.
                       (Inr (), if truthy_str (read_forgejo_token s)
                                then snd (set_forgejo_secret (it_api g) name ''FORGEJO_TOKEN'' (the (read_forgejo_token s)) s)
                                else s))
                 | _ \<Rightarrow> attempt (it_shell g (git_in path [''remote'', ''-v'']) s) (\<lambda>_ s.
                          (Inl (TypeError ''in <string> requires string as left operand''), s)))))) = R"
    if "apps_yaml s = R" for about github_url and s :: "'a init_state"
  proof (cases "create_forgejo_repo (it_api g) name about branch s")
    case (Pair r s1)
    with forgejo_repo_keeps [OF q Pair] that have "apps_yaml s1 = R" by simp
    with that q show ?thesis
      by (simp add: Pair split: option.split json.split)
        (auto intro!: attempt_keeps shell_keeps dual_remote_keeps simp: forgejo_secret_keeps)
  qed
  show ?thesis
    unfolding wire_remotes_def Let_def
    by (intro attempt_keeps detect_remote_keeps q s url) (auto intro!: github_repo_keeps q)
qed

lemma installs_keep:
  "apps_yaml (snd (install_docker_compose name port s)) = apps_yaml s"
  "apps_yaml (snd (scaffold_agent name path stack s)) = apps_yaml s"
  "apps_yaml (snd (install_promote_scan_workflow s)) = apps_yaml s"
  "apps_yaml (snd (install_scottycore_upgrade_workflow name branch s)) = apps_yaml s"
  "apps_yaml (snd (add_to_release_apps name s)) = apps_yaml s"
  "apps_yaml (snd (write_app_claude_md name fqdn port vmid ip s)) = apps_yaml s"
  by (simp_all add: install_docker_compose_def scaffold_agent_def install_promote_scan_workflow_def
      install_scottycore_upgrade_workflow_def add_to_release_apps_def write_app_claude_md_def Let_def split: option.split)

lemma hook_keeps: "apps_yaml (snd (install_promote_nudge_hook dir s)) = apps_yaml s"
  by (simp add: install_promote_nudge_hook_def Let_def split: option.split)

lemma render_files_keeps: "apps_yaml (render_files g path name stack branch port s) = apps_yaml s"
  by (simp add: render_files_def Let_def case_prod_unfold installs_keep hook_keeps)

lemma declare_infra_keeps:
  assumes "quiet g" "apps_yaml s = R"
  shows "apps_yaml (snd (declare_infra g name stack branch fqdn port lxc s)) = R"
proof -
  have "apps_yaml (snd (add_scottycore_app name h port u branch s)) = apps_yaml s" for h u and s :: "'a init_state"
    by (simp add: add_scottycore_app_def split: prod.split)
  then show ?thesis unfolding declare_infra_def Let_def by (intro commits_keep(3) assms(1)) (simp add: assms(2))
qed

lemma finish_keeps:
  assumes "quiet g" "apps_yaml s = R"
  shows "apps_yaml (snd (finish_onboarding g skip path name stack branch port fqdn s)) = R"
  unfolding finish_onboarding_def Let_def using assms
  by (auto intro!: attempt_keeps on_lab_keeps declare_infra_keeps commits_keep simp: installs_keep)

lemma onboard_registers:
  assumes q: "quiet g" and s: "apps_yaml s = Some t"
    and run: "onboard g a skip_forgejo skip_infra path name s = (Inr (port, fqdn), s')"
  obtains apps branch s0 s1 added f where "load_apps_config (Some t) = Inr apps"
    "choose_port (fl_port a) name apps = Inr port" "choose_fqdn (fl_domain a) name apps = Inr fqdn"
    "detect_branch (it_shell g) path s0 = (Inr branch, s1)"
    "register_app path name (case fl_stack a of Some k \<Rightarrow> k | None \<Rightarrow> detect_stack s) branch port fqdn (Some t) = Inr (added, Some f)"
    "apps_yaml s' = Some (if added then f else t)"
proof -
  let ?stack = "case fl_stack a of Some k \<Rightarrow> k | None \<Rightarrow> detect_stack s"
  from run obtain branch s1 s2 where b: "detect_branch (it_shell g) path s = (Inr branch, s1)"
    and w: "wire_remotes g (fl_github a) skip_forgejo path name ?stack branch s1 = (Inr (), s2)"
    by (auto simp: onboard_def Let_def attempt_Inr)
  have s1: "apps_yaml s1 = Some t" using detect_branch_keeps [OF q b] s by simp
  have s2: "apps_yaml s2 = Some t" using wire_remotes_keeps [OF q s1, of "fl_github a" skip_forgejo path name ?stack branch] w by simp
  from run b w obtain apps where l: "load_apps_config (Some t) = Inr apps"
    by (auto simp: onboard_def Let_def attempt_def s2 split: sum.splits)
  from run b w l have "\<exists>p. choose_port (fl_port a) name apps = Inr p" "\<exists>h. choose_fqdn (fl_domain a) name apps = Inr h"
    by (auto simp: onboard_def Let_def attempt_def s2 split: sum.splits)
  then obtain p h where p: "choose_port (fl_port a) name apps = Inr p" and h: "choose_fqdn (fl_domain a) name apps = Inr h" by blast
  obtain added f where r: "register_app path name ?stack branch p h (Some t) = Inr (added, Some f)"
    using l by (cases "map_of apps name") (auto simp: register_app_def)
  define s3 where "s3 = (if added then write_core ''config/apps.yaml'' f s2 else s2)"
  define s4 where "s4 = render_files g path name ?stack branch p s3"
  have s4: "apps_yaml s4 = Some (if added then f else t)" by (simp add: s4_def s3_def render_files_keeps s2)
  have "onboard g a skip_forgejo skip_infra path name s =
      attempt (finish_onboarding g skip_infra path name ?stack branch p h s4) (\<lambda>_ s. (Inr (p, h), s))"
    using b w by (simp add: onboard_def Let_def attempt_def s2 l p h r s4_def s3_def)
  with run have e: "finish_onboarding g skip_infra path name ?stack branch p h s4 = (Inr (), s')" "p = port" "h = fqdn"
    by (auto simp: attempt_Inr)
  have "apps_yaml s' = Some (if added then f else t)"
    using finish_keeps [OF q s4, of skip_infra path name ?stack branch p h] e(1) by simp
  with l p h b r e(2,3) show ?thesis by (intro that [of apps s branch s1 added f]) simp_all
qed

lemma stacks_plain:
  "plain_value ''FastAPI''" "plain_value ''Flask''" "plain_value ''Django''" "plain_value ''Python''" "plain_value ''Node.js''"
  "plain_value ''Rust''" "plain_value ''Go''" "plain_value ''PowerShell''" "plain_value ''Docker''" "plain_value ''unknown''"
  by code_simp+

lemma plain_if: "plain_value x \<Longrightarrow> plain_value y \<Longrightarrow> plain_value (if c then x else y)"
  by simp

lemma detected_stack_plain: "plain_value (detect_stack s)"
  unfolding detect_stack_def Let_def by (intro plain_if stacks_plain)

text \<open>
  C32: Onboarding registers an application once and for good.  When subprocesses and the API leave the registry alone, the names are
  plain and a run for a new name ends well, the registry then loads as before with the application behind it, and
  a later run for the same name, from whatever path and with whatever skips, if it ends well, has the same port and host name and leaves
  the registry as it is, unless it is told another port or domain.
\<close>
theorem onboarded_app_stable:
  assumes q: "quiet g" and s: "apps_yaml s = Some t" "CHR 0x0D \<notin> set t" "load_apps_config (Some t) = Inr apps" "map_of apps name = None"
    and run: "onboard g a skip_forgejo skip_infra path name s = (Inr (port, fqdn), s')"
    and plain: "plain_name name" "plain_value path" "\<And>k. fl_stack a = Some k \<Longrightarrow> plain_value k" "0 \<le> port" "plain_value fqdn"
      "\<And>u b v. detect_branch (it_shell g) path u = (Inr b, v) \<Longrightarrow> plain_value b"
    and again: "onboard g a' skip_forgejo' skip_infra' path' name s' = (Inr r, s'')" "fl_port a' = None" "fl_domain a' = None"
  shows "(\<exists>stack branch. load_apps_config (apps_yaml s') = Inr (apps @ [(name, registered_cfg path stack branch port fqdn)])) \<and>
    r = (port, fqdn) \<and> apps_yaml s'' = apps_yaml s'"
proof -
  let ?stack = "case fl_stack a of Some k \<Rightarrow> k | None \<Rightarrow> detect_stack s"
  have stack: "plain_value ?stack" using plain(3) detected_stack_plain by (auto split: option.split)
  obtain apps0 branch s0 s1 added f where "load_apps_config (Some t) = Inr apps0"
    "choose_port (fl_port a) name apps0 = Inr port" "choose_fqdn (fl_domain a) name apps0 = Inr fqdn"
    and b: "detect_branch (it_shell g) path s0 = (Inr branch, s1)"
    and reg: "register_app path name ?stack branch port fqdn (Some t) = Inr (added, Some f)"
    and s': "apps_yaml s' = Some (if added then f else t)"
    by (rule onboard_registers [OF q s(1) run])
  define entry where "entry = (name, registered_cfg path ?stack branch port fqdn)"
  note facts = registered_facts [OF s(2-4) plain(1,2) stack plain(6) [OF b] plain(4,5), folded entry_def]
  then obtain t' where t': "register_app path name ?stack branch port fqdn (Some t) = Inr (True, Some t')"
    and rest: "load_apps_config (Some t') = Inr (apps @ [entry]) \<and> choose_port None name (apps @ [entry]) = Inr port \<and>
      choose_fqdn None name (apps @ [entry]) = Inr fqdn \<and>
      (\<forall>p k br po fq. register_app p name k br po fq (Some t') = Inr (False, Some t'))"
    by (elim exE conjE [where P = "register_app _ _ _ _ _ _ _ = _"])
  note f = rest [THEN conjunct1] rest [THEN conjunct2, THEN conjunct1] rest [THEN conjunct2, THEN conjunct2, THEN conjunct1]
    rest [THEN conjunct2, THEN conjunct2, THEN conjunct2]
  from t' reg have "added" "f = t'" by simp_all
  with s' have s'f: "apps_yaml s' = Some t'" by simp
  obtain p h where r: "r = (p, h)" by (cases r)
  obtain apps' br u v added' f' where
    two: "load_apps_config (Some t') = Inr apps'" "choose_port (fl_port a') name apps' = Inr p" "choose_fqdn (fl_domain a') name apps' = Inr h"
      "detect_branch (it_shell g) path' u = (Inr br, v)"
      "register_app path' name (case fl_stack a' of Some k \<Rightarrow> k | None \<Rightarrow> detect_stack s') br p h (Some t') = Inr (added', Some f')"
      "apps_yaml s'' = Some (if added' then f' else t')"
    by (rule onboard_registers [OF q s'f again(1) [unfolded r]])
  from two(1) f(1) have a: "apps' = apps @ [entry]" by simp
  from two(2,3) f(2,3) again(2,3) have "p = port" "h = fqdn" by (simp_all add: a)
  moreover from two(5) f(4) have "\<not> added'" by simp
  ultimately show ?thesis using f(1) two(6) by (simp add: r s'f) (auto simp: entry_def)
qed

definition demo_lab_tools :: "unit lab_tools" where
  "demo_lab_tools =
     \<lparr>lt_unifi = \<lparr>us_secrets = None, us_login = (\<lambda>u j w. (None, w)), us_send = (\<lambda>m u h b w. (None, w)), us_show = (\<lambda>j. '''')\<rparr>,
      lt_ssh = (\<lambda>h c w. (Inr (255, '''', ''''), w)), lt_web = (\<lambda>m u t j w. (HttpError 503 '''', w)), lt_grep = contains_str,
      lt_valid = (\<lambda>c. True), lt_run = (\<lambda>c w. (Inr 1, w)), lt_yaml = None\<rparr>"

definition demo_shell :: "'s shell" where
  \<comment> \<open>The branch is main; every other command fails.\<close>
  "demo_shell c s = (Inr (if last c = ''--show-current'' then (0, ''main\<newline>'', '''') else (1, '''', '''')), s)"

definition demo_tools :: "unit init_tools" where
  "demo_tools = \<lparr>it_lab = demo_lab_tools, it_shell = demo_shell, it_api = (\<lambda>m u t j s. (ApiDown, s)), it_core_dir = ''/core'',
     it_lab_dir = ''/lab'', it_resolve = id, it_answer = None\<rparr>"

definition demo_init :: "unit init_state" where
  "demo_init =
     \<lparr>su_core = [(''config/apps.yaml'', ''core:\<newline>  port: 8100 # first'')], su_app = Some [(''package.json'', ''{}'')], su_hooks = False,
      su_token = Some ''t'', su_scottylab = False, su_apps_yml = None,
      su_lab = \<lparr>lb_certs = None, lb_vhosts = None, lb_inventory = None, lb_tunnel = '''', lb_net = ()\<rparr>\<rparr>"

lemma demo_quiet: "quiet demo_tools"
  by (simp add: quiet_def demo_tools_def demo_shell_def)

lemma demo_branch: "detect_branch demo_shell path s = (Inr ''main'', s)"
proof -
  have "py_strip ''main\<newline>'' = ''main''" by code_simp
  then show ?thesis by (simp add: detect_branch_def demo_shell_def git_in_def)
qed

lemma demo_remotes: "wire_remotes demo_tools repo skip path name stack branch s = (Inr (), s)"
  by (simp add: wire_remotes_def demo_tools_def demo_shell_def detect_github_remote_def git_in_def attempt_def truthy_str_def
      create_github_repo_def create_forgejo_repo_def truthy_json_def Let_def)

lemma demo_finish: "\<exists>s'. finish_onboarding demo_tools True path name stack branch port fqdn s = (Inr (), s')"
proof -
  have "py_strip [] = []" by code_simp
  then show ?thesis
    by (simp add: finish_onboarding_def demo_tools_def demo_shell_def attempt_def commit_app_changes_def commit_scottycore_changes_def
        stage_and_commit_def git_in_def Let_def)
qed

lemma demo_onboard:
  assumes "apps_yaml s = Some t" "load_apps_config (Some t) = Inr apps" "choose_port None name apps = Inr p" "choose_fqdn None name apps = Inr h"
    and "register_app path name (detect_stack s) ''main'' p h (Some t) = Inr (added, Some f)"
  shows "\<exists>s'. onboard demo_tools no_flags skip True path name s = (Inr (p, h), s') \<and> apps_yaml s' = Some (if added then f else t)"
proof -
  define s1 where "s1 = render_files demo_tools path name (detect_stack s) ''main'' p (if added then write_core ''config/apps.yaml'' (the (Some f)) s else s)"
  from demo_finish [of path name "detect_stack s" "''main''" p h s1] obtain s' where
    s': "finish_onboarding demo_tools True path name (detect_stack s) ''main'' p h s1 = (Inr (), s')" by blast
  have "apps_yaml s1 = Some (if added then f else t)" by (simp add: s1_def render_files_keeps assms(1))
  then have "apps_yaml s' = Some (if added then f else t)"
    using finish_keeps [OF demo_quiet, of s1 _ True path name "detect_stack s" "''main''" p h] s' by simp
  moreover have "it_shell demo_tools = demo_shell" by (simp add: demo_tools_def)
  then have "onboard demo_tools no_flags skip True path name s = (Inr (p, h), s')"
    using assms s' by (simp add: onboard_def no_flags_def Let_def demo_branch demo_remotes attempt_def s1_def [symmetric] split del: if_split)
  ultimately show ?thesis by blast
qed

theorem onboarded_app_stable_witness:
  "\<exists>s' s'' stack branch. onboard demo_tools no_flags False True ''/apps/crm'' ''crm'' demo_init = (Inr (8101, ''crm.corpaholics.com''), s') \<and>
    onboard demo_tools no_flags True True ''/apps/crm2'' ''crm'' s' = (Inr (8101, ''crm.corpaholics.com''), s'') \<and>
    load_apps_config (apps_yaml s') = Inr ([(''core'', [(''port'', JStr ''8100'')])] @
      [(''crm'', registered_cfg ''/apps/crm'' stack branch 8101 ''crm.corpaholics.com'')]) \<and> apps_yaml s'' = apps_yaml s'"
proof -
  let ?t = "''core:\<newline>  port: 8100 # first''" and ?apps = "[(''core'', [(''port'', JStr ''8100'')])]" and ?h = "''crm.corpaholics.com''"
  define apps' where "apps' = ?apps @ [(''crm'', registered_cfg ''/apps/crm'' ''Node.js'' ''main'' 8101 ?h)]"
  have t: "apps_yaml demo_init = Some ?t" "load_apps_config (Some ?t) = Inr ?apps" by code_simp+
  have new: "CHR 0x0D \<notin> set ?t" "map_of ?apps ''crm'' = None" by simp_all
  have stack: "detect_stack demo_init = ''Node.js''" by code_simp
  have c: "choose_port None ''crm'' ?apps = Inr 8101" "choose_fqdn None ''crm'' ?apps = Inr ?h" by code_simp+
  have p: "plain_name ''crm''" "plain_value ''/apps/crm''" "plain_value ?h" "plain_value ''main''" by code_simp+
  have "(0::int) \<le> 8101" by simp
  from registered_facts [OF new(1) t(2) new(2) p(1,2) stacks_plain(5) p(4) this p(3), folded apps'_def] obtain f where
    r: "register_app ''/apps/crm'' ''crm'' ''Node.js'' ''main'' 8101 ?h (Some ?t) = Inr (True, Some f)"
    and rest: "load_apps_config (Some f) = Inr apps' \<and> choose_port None ''crm'' apps' = Inr 8101 \<and> choose_fqdn None ''crm'' apps' = Inr ?h \<and>
      (\<forall>path2 stack2 branch2 port2 fqdn2. register_app path2 ''crm'' stack2 branch2 port2 fqdn2 (Some f) = Inr (False, Some f))"
    by (elim exE conjE [where P = "register_app _ _ _ _ _ _ _ = _"])
  note f = rest [THEN conjunct1] rest [THEN conjunct2, THEN conjunct1] rest [THEN conjunct2, THEN conjunct2, THEN conjunct1]
    rest [THEN conjunct2, THEN conjunct2, THEN conjunct2, rule_format]
  from demo_onboard [OF t c, unfolded stack, OF r, of False] obtain s' where
    one: "onboard demo_tools no_flags False True ''/apps/crm'' ''crm'' demo_init = (Inr (8101, ?h), s')" "apps_yaml s' = Some f" by auto
  from demo_onboard [OF one(2) f(1-3) f(4), of True "''/apps/crm2''"] obtain s'' where
    two: "onboard demo_tools no_flags True True ''/apps/crm2'' ''crm'' s' = (Inr (8101, ?h), s'')" by blast
  have "it_shell demo_tools = demo_shell" by (simp add: demo_tools_def)
  then have b: "plain_value b" if "detect_branch (it_shell demo_tools) path u = (Inr b, v)" for path u b v
    using that p(4) by (simp add: demo_branch)
  have "(\<exists>stack branch. load_apps_config (apps_yaml s') = Inr (?apps @ [(''crm'', registered_cfg ''/apps/crm'' stack branch 8101 ?h)])) \<and>
      (8101 :: int, ?h) = (8101, ?h) \<and> apps_yaml s'' = apps_yaml s'"
    by (rule onboarded_app_stable [OF demo_quiet t(1) _ t(2) _ one(1) p(1,2) _ _ p(3) b two]) (simp_all add: no_flags_def)
  with one(1) two show ?thesis by blast
qed

subsection \<open>What goes wrong\<close>

text \<open>The release workflow has had its list on one line for a while; the pattern looks for a folded block.\<close>

lemma starts_with_contains: "starts_with p s \<Longrightarrow> contains_str p s"
  by (cases s) (auto simp: starts_with_def)

lemma contains_append: "contains_str p s \<Longrightarrow> contains_str p (t @ s)"
  by (induction t) auto

lemma contains_drop: "contains_str p (drop n s) \<Longrightarrow> contains_str p s"
  using contains_append [of p "drop n s" "take n s"] by simp

lemma apps_search_folded: "apps_search s = Some m \<Longrightarrow> contains_str ''>-'' s"
proof (induction s arbitrary: m)
  case (Cons c s)
  show ?case
  proof (cases "apps_here (c # s)")
    case None
    with Cons show ?thesis by auto
  next
    case (Some n)
    then have "starts_with ''>-\<newline>'' (dropWhile is_space (drop 5 (c # s)))" by (simp add: apps_here_def Let_def split: if_splits)
    then have "starts_with ''>-'' (dropWhile is_space (drop 5 (c # s)))" by (auto simp: starts_with_iff)
    then have "contains_str ''>-'' (dropWhile is_space (drop 5 (c # s)))" by (rule starts_with_contains)
    then show ?thesis
      using contains_append contains_drop by (metis takeWhile_dropWhile_id)
  qed
qed simp

lemma release_list_not_found:
  "map_of (su_core s) ''.forgejo/workflows/release.yml'' = Some text \<Longrightarrow> \<not> contains_str ''>-'' (universal_newlines text) \<Longrightarrow>
    add_to_release_apps name s = (False, s)"
  using apps_search_folded [of "universal_newlines text"]
  by (cases "apps_search (universal_newlines text)")
    (auto simp: add_to_release_apps_def core_file_def with_release_app_def)

text \<open>
  A refreshed guide keeps what follows the header's end, which is the pipeline section of the former run, behind a rendered text that
  has the section already: every run adds another copy.
\<close>

lemma cut_at_skip:
  "p \<noteq> [] \<Longrightarrow> hd p \<notin> set u \<Longrightarrow> cut_at p (u @ s) = map_option (\<lambda>(a, b). (u @ a, b)) (cut_at p s)"
proof (induction u)
  case Nil
  then show ?case by (cases "cut_at p s") auto
next
  case (Cons c u)
  then have "\<not> starts_with p (c # u @ s)" by (cases p) (auto simp: starts_with_def)
  with Cons show ?case by (cases "cut_at p s") auto
qed

lemma cut_at_here: "p \<noteq> [] \<Longrightarrow> cut_at p (p @ s) = Some ([], s)"
  by (cases p) (auto simp: starts_with_def)

lemma guide_facts_plain:
  assumes "CHR ''<'' \<notin> set app_name" "CHR ''<'' \<notin> set fqdn" "0 \<le> port"
    and "CHR ''<'' \<notin> set vmid_str" "CHR ''<'' \<notin> set ip_str" "CHR ''<'' \<notin> set upstream_str"
  shows "CHR ''<'' \<notin> set (guide_facts app_name fqdn port vmid_str ip_str upstream_str)"
proof -
  have "CHR ''<'' \<notin> set (int_str port)" using int_str_value [OF assms(3)] by (auto simp: list_all_iff is_digit_def code_of_def)
  with assms show ?thesis by (simp add: guide_facts_def doc_text_def)
qed

lemma guide_cut:
  assumes "CHR ''<'' \<notin> set app_name" "CHR ''<'' \<notin> set (guide_facts app_name fqdn port v i u)"
  shows "cut_at APP_HEADER_END (guide_header app_name fqdn port v i u @ rest) =
    Some (doc_text [''# '' @ app_name, '''', APP_HEADER_MARKER] @ guide_facts app_name fqdn port v i u, ''\<newline>\<newline>'' @ rest)"
proof -
  let ?m = "tl APP_HEADER_MARKER @ ''\<newline>'' @ guide_facts app_name fqdn port v i u"
  have m: "APP_HEADER_MARKER = CHR ''<'' # tl APP_HEADER_MARKER" "CHR ''<'' \<notin> set (tl APP_HEADER_MARKER)"
    by (simp_all add: APP_HEADER_MARKER_def)
  have e: "APP_HEADER_END \<noteq> []" "hd APP_HEADER_END = CHR ''<''" by (simp_all add: APP_HEADER_END_def)
  have g: "guide_header app_name fqdn port v i u @ rest =
      (''# '' @ app_name @ ''\<newline>\<newline>'') @ CHR ''<'' # ?m @ APP_HEADER_END @ ''\<newline>\<newline>'' @ rest"
    using m(1) by (simp add: guide_header_def doc_text_def)
  have "\<not> starts_with APP_HEADER_END (CHR ''<'' # ?m @ APP_HEADER_END @ ''\<newline>\<newline>'' @ rest)"
    by (simp add: starts_with_def APP_HEADER_END_def APP_HEADER_MARKER_def)
  then have "cut_at APP_HEADER_END (CHR ''<'' # ?m @ APP_HEADER_END @ ''\<newline>\<newline>'' @ rest) =
      map_option (\<lambda>(a, b). (CHR ''<'' # a, b)) (cut_at APP_HEADER_END (?m @ APP_HEADER_END @ ''\<newline>\<newline>'' @ rest))"
    by simp
  also have "cut_at APP_HEADER_END (?m @ APP_HEADER_END @ ''\<newline>\<newline>'' @ rest) = Some (?m, ''\<newline>\<newline>'' @ rest)"
    using cut_at_skip [OF e(1), of ?m] cut_at_here [OF e(1)] e(2) m(2) assms(2) by simp
  finally have c: "cut_at APP_HEADER_END (CHR ''<'' # ?m @ APP_HEADER_END @ ''\<newline>\<newline>'' @ rest) = Some (CHR ''<'' # ?m, ''\<newline>\<newline>'' @ rest)"
    by simp
  have "cut_at APP_HEADER_END (guide_header app_name fqdn port v i u @ rest) =
      Some ((''# '' @ app_name @ ''\<newline>\<newline>'') @ CHR ''<'' # ?m, ''\<newline>\<newline>'' @ rest)"
    unfolding g by (subst cut_at_skip [OF e(1)]) (use e(2) assms(1) c in simp_all)
  then show ?thesis using m(1) by (simp add: doc_text_def)
qed

lemma refresh_appends_pipeline:
  assumes "CHR ''<'' \<notin> set app_name" "CHR ''<'' \<notin> set (guide_facts app_name fqdn port v i u)"
    and "app_name \<noteq> []" "hd app_name \<noteq> CHR ''S''"
  shows "refreshed_guide rendered (guide_header app_name fqdn port v i u @ guide_pipeline app_name) =
    rendered @ dropWhile (\<lambda>c. c = CHR 0x0A) (guide_pipeline app_name)"
proof -
  let ?e = "guide_header app_name fqdn port v i u @ guide_pipeline app_name"
  have e: "?e = ''# '' @ app_name @ ''\<newline>\<newline>'' @ APP_HEADER_MARKER @ ''\<newline>'' @ guide_facts app_name fqdn port v i u @ APP_HEADER_END @
      ''\<newline>\<newline>'' @ guide_pipeline app_name"
    by (simp add: guide_header_def doc_text_def)
  have "\<not> is_space (CHR ''#'')" by (simp add: is_space_def code_of_def)
  then have "dropWhile is_space ?e = ?e" unfolding e by simp
  moreover have "\<not> starts_with ''# ScottyCore'' ?e"
    unfolding e using assms(3,4) by (cases app_name) (auto simp: starts_with_def)
  moreover have "contains_str APP_HEADER_MARKER ?e"
    unfolding e by (intro contains_append starts_with_contains) simp
  moreover have "contains_str APP_HEADER_END ?e"
    unfolding e by (intro contains_append starts_with_contains) simp
  ultimately show ?thesis
    using guide_cut [OF assms(1,2), of "guide_pipeline app_name"] by (simp add: refreshed_guide_def)
qed

text \<open>
  \<open>git add\<close> stages nothing when one of the paths it is given does not exist: an application without a
  \<open>pyproject.toml\<close> has none of the generated files committed.
\<close>

lemma missing_path_stages_nothing:
  assumes "\<And>s. sh (git_in path (''add'' # app_paths)) s = (Inr (128, '''', ''fatal: pathspec 'pyproject.toml' did not match any files''), s)"
    and "sh (git_in path [''diff'', ''--cached'', ''--stat'']) s = (Inr (0, '''', ''''), s)"
  shows "commit_app_changes sh path name s = (Inr False, s)"
proof -
  have "py_strip [] = []" by (simp add: py_strip_def strip_where_def lstrip_where_def rstrip_where_def)
  with assms show ?thesis by (simp add: commit_app_changes_def stage_and_commit_def attempt_def)
qed

text \<open>The options \<open>--port\<close> and \<open>--domain\<close> of a later run are used for it and not recorded: the run after it is back at the old ones.\<close>

lemma override_not_saved:
  assumes "load_apps_config f = Inr apps" "map_of apps name \<noteq> None"
  shows "choose_port (Some p) name apps = Inr p \<and> register_app path name stack branch p fqdn f = Inr (False, f)"
  using assms by (auto simp: choose_port_def register_app_def)

end
