(* ===== verification/Migrations.thy ===== *)
theory Migrations
  imports PyStr CoreTypes
begin

section \<open>Database migrations\<close>

text \<open>
  \<open>alembic/env.py\<close> and the revisions under \<open>alembic/versions\<close>.  A database is its tables, with their columns and rows, its indexes
  and the revision it is stamped with; a row is a dict from column names to values, \<open>JNull\<close> for SQL's null.  What an
  operation needs of the database (a table, a free name) is what PostgreSQL and SQLite require; a database error is a value.
\<close>

datatype dialect = PostgreSQL | SQLite

datatype col_type = TText | TString nat | TBoolean | TDateTimeTz | TInteger | TJson

record mcol =
  mc_name :: string
  mc_type :: col_type
  mc_nullable :: bool
  mc_primary :: bool
  mc_default :: "json option"

record mtable =
  mt_cols :: "mcol list"
  mt_unique :: "(string \<times> string list) list"
  mt_rows :: "(string, json) alist list"

record mschema =
  ms_tables :: "(string, mtable) alist"
  ms_indexes :: "(string, string \<times> string list) alist"
  ms_version :: "string option"

datatype mop =
    AddColumn string mcol
  | DropColumn string string
  | CreateTable string "mcol list" "(string \<times> string list) list"
  | DropTable string
  | CreateIndex string string "string list"
  | DropIndex string
  | DropIndexIfExists string
  | ConcurrentIndex string string "string list"
  | BackfillSearchVector

subsection \<open>Operations\<close>

definition db_error :: "string \<Rightarrow> error" where "db_error m = OtherException m"

definition col_names :: "mtable \<Rightarrow> string list" where
  "col_names t = map mc_name (mt_cols t)"

definition add_col :: "mcol \<Rightarrow> mtable \<Rightarrow> mtable" where
  \<comment> \<open>Every row gets the default.\<close>
  "add_col c t = t\<lparr>mt_cols := mt_cols t @ [c],
     mt_rows := map (\<lambda>r. r @ [(mc_name c, case mc_default c of None \<Rightarrow> JNull | Some v \<Rightarrow> v)]) (mt_rows t)\<rparr>"

definition drop_col :: "string \<Rightarrow> mtable \<Rightarrow> mtable" where
  "drop_col n t = t\<lparr>mt_cols := filter (\<lambda>c. mc_name c \<noteq> n) (mt_cols t), mt_rows := map (dict_pop n) (mt_rows t)\<rparr>"

definition sql_text :: "json option \<Rightarrow> string" where
  \<comment> \<open>\<open>COALESCE(x, '')\<close> of a text column\<close>
  "sql_text v = (case v of Some (JStr s) \<Rightarrow> s | _ \<Rightarrow> '''')"

definition backfilled :: "(string, json) alist \<Rightarrow> (string, json) alist" where
  "backfilled r = dict_set ''search_vector''
     (JStr (strip_where (\<lambda>c. c = CHR '' '') (sql_text (map_of r ''name'') @ '' '' @ sql_text (map_of r ''description'')))) r"

definition change_table :: "string \<Rightarrow> (mtable \<Rightarrow> mtable) \<Rightarrow> mschema \<Rightarrow> mschema" where
  "change_table n f s = s\<lparr>ms_tables := map (\<lambda>(k, t). (k, if k = n then f t else t)) (ms_tables s)\<rparr>"

fun apply_op :: "dialect \<Rightarrow> mop \<Rightarrow> mschema \<Rightarrow> error + mschema" where
  "apply_op d (AddColumn n c) s =
     (case map_of (ms_tables s) n of
        None \<Rightarrow> Inl (db_error ''no such table'')
      | Some t \<Rightarrow>
          if mc_name c \<in> set (col_names t) then Inl (db_error ''duplicate column'')
          else if \<not> mc_nullable c \<and> mc_default c = None \<and> (d = SQLite \<or> mt_rows t \<noteq> []) then Inl (db_error ''not null without default'')
          else Inr (change_table n (add_col c) s))"
| "apply_op d (DropColumn n c) s =
     (case map_of (ms_tables s) n of
        None \<Rightarrow> Inl (db_error ''no such table'')
      | Some t \<Rightarrow>
          if c \<notin> set (col_names t) then Inl (db_error ''no such column'')
          else if d = SQLite \<and> list_ex (\<lambda>(i, t, cs). t = n \<and> c \<in> set cs) (ms_indexes s) then Inl (db_error ''column is indexed'')
          else Inr (change_table n (drop_col c)
                 (s\<lparr>ms_indexes := filter (\<lambda>(i, t, cs). \<not> (t = n \<and> c \<in> set cs)) (ms_indexes s)\<rparr>)))"
| "apply_op d (CreateTable n cs us) s =
     (if map_of (ms_tables s) n \<noteq> None then Inl (db_error ''table exists'')
      else Inr (s\<lparr>ms_tables := ms_tables s @ [(n, \<lparr>mt_cols = cs, mt_unique = us, mt_rows = []\<rparr>)]\<rparr>))"
| "apply_op d (DropTable n) s =
     (if map_of (ms_tables s) n = None then Inl (db_error ''no such table'')
      else Inr (s\<lparr>ms_tables := dict_pop n (ms_tables s), ms_indexes := filter (\<lambda>(i, t, cs). t \<noteq> n) (ms_indexes s)\<rparr>))"
| "apply_op d (CreateIndex i n cs) s =
     (if map_of (ms_indexes s) i \<noteq> None then Inl (db_error ''index exists'')
      else (case map_of (ms_tables s) n of
              None \<Rightarrow> Inl (db_error ''no such table'')
            | Some t \<Rightarrow>
                if set cs \<subseteq> set (col_names t) then Inr (s\<lparr>ms_indexes := ms_indexes s @ [(i, n, cs)]\<rparr>)
                else Inl (db_error ''no such column'')))"
| "apply_op d (DropIndex i) s =
     (if map_of (ms_indexes s) i = None then Inl (db_error ''no such index'')
      else Inr (s\<lparr>ms_indexes := dict_pop i (ms_indexes s)\<rparr>))"
| "apply_op d (DropIndexIfExists i) s = Inr (s\<lparr>ms_indexes := dict_pop i (ms_indexes s)\<rparr>)"
| "apply_op d (ConcurrentIndex i n cs) s =
     Inl (db_error ''CREATE INDEX CONCURRENTLY cannot run inside a transaction block'')"
| "apply_op d BackfillSearchVector s =
     (case map_of (ms_tables s) ''items'' of
        None \<Rightarrow> Inl (db_error ''no such table'')
      | Some t \<Rightarrow>
          if {''name'', ''description'', ''search_vector''} \<subseteq> set (col_names t)
          then Inr (change_table ''items'' (\<lambda>t. t\<lparr>mt_rows := map backfilled (mt_rows t)\<rparr>) s)
          else Inl (db_error ''no such column''))"

fun apply_ops :: "dialect \<Rightarrow> mop list \<Rightarrow> mschema \<Rightarrow> (error + unit) \<times> mschema" where
  "apply_ops d [] s = (Inr (), s)"
| "apply_ops d (p # ps) s = (case apply_op d p s of Inl x \<Rightarrow> (Inl x, s) | Inr s \<Rightarrow> apply_ops d ps s)"

subsection \<open>The revisions\<close>

definition plain_col :: "string \<Rightarrow> col_type \<Rightarrow> bool \<Rightarrow> mcol" where
  "plain_col n ty nullable = \<lparr>mc_name = n, mc_type = ty, mc_nullable = nullable, mc_primary = False, mc_default = None\<rparr>"

definition key_col :: mcol where
  "key_col = \<lparr>mc_name = ''id'', mc_type = TString 36, mc_nullable = False, mc_primary = True, mc_default = None\<rparr>"

definition default_col :: "string \<Rightarrow> col_type \<Rightarrow> json \<Rightarrow> mcol" where
  "default_col n ty v = \<lparr>mc_name = n, mc_type = ty, mc_nullable = False, mc_primary = False, mc_default = Some v\<rparr>"

record revision =
  rv_id :: string
  rv_down :: "string option"
  rv_upgrade :: "dialect \<Rightarrow> mop list"
  rv_downgrade :: "dialect \<Rightarrow> mop list"

definition upgrade_0001 :: "dialect \<Rightarrow> mop list" where
  "upgrade_0001 d =
     [AddColumn ''items'' (plain_col ''search_vector'' TText True), BackfillSearchVector] @
     (if d = PostgreSQL then [ConcurrentIndex ''ix_items_search_vector_gin'' ''items'' [''search_vector'']] else [])"

definition downgrade_0001 :: "dialect \<Rightarrow> mop list" where
  "downgrade_0001 d =
     (if d = PostgreSQL then [DropIndexIfExists ''ix_items_search_vector_gin''] else []) @ [DropColumn ''items'' ''search_vector'']"

definition upgrade_0002 :: "mop list" where
  "upgrade_0002 =
     [CreateTable ''login_attempts''
        [key_col, plain_col ''email'' (TString 254) False, plain_col ''success'' TBoolean False,
         default_col ''ip_address'' (TString 45) (JStr ''unknown''), default_col ''attempted_at'' TDateTimeTz (JStr ''CURRENT_TIMESTAMP'')] [],
      CreateIndex ''ix_login_attempts_email'' ''login_attempts'' [''email''],
      CreateIndex ''ix_login_attempts_attempted_at'' ''login_attempts'' [''attempted_at''],
      AddColumn ''users'' (default_col ''session_version'' TInteger (JInt 0))]"

definition downgrade_0002 :: "mop list" where
  "downgrade_0002 =
     [DropColumn ''users'' ''session_version'', DropIndex ''ix_login_attempts_attempted_at'', DropIndex ''ix_login_attempts_email'',
      DropTable ''login_attempts'']"

definition schedule_cols :: "mcol list" where
  "schedule_cols =
     [key_col, plain_col ''name'' (TString 200) False, plain_col ''scope'' (TString 16) False, plain_col ''tenant_id'' (TString 36) True,
      plain_col ''tenant_slug'' (TString 200) True, plain_col ''sink_type'' (TString 32) False, default_col ''sink_config'' TJson (JObj []),
      plain_col ''cron_expr'' (TString 200) True, plain_col ''next_run_at'' TDateTimeTz True, default_col ''kind'' (TString 16) (JStr ''full''),
      plain_col ''retention_days'' TInteger True, plain_col ''keep_last'' TInteger True,
      plain_col ''passphrase_override_fingerprint'' (TString 16) True, default_col ''is_active'' TBoolean (JBool True),
      default_col ''managed_by'' (TString 16) (JStr ''local''), plain_col ''remote_id'' (TString 36) True,
      plain_col ''last_sync_at'' TDateTimeTz True, plain_col ''created_by'' (TString 36) True,
      default_col ''created_at'' TDateTimeTz (JStr ''now()''), default_col ''updated_at'' TDateTimeTz (JStr ''now()'')]"

definition run_cols :: "mcol list" where
  "run_cols =
     [key_col, plain_col ''schedule_id'' (TString 36) True, plain_col ''app_slug'' (TString 200) False, plain_col ''scope'' (TString 16) False,
      plain_col ''tenant_slug'' (TString 200) True, default_col ''kind'' (TString 16) (JStr ''full''),
      default_col ''status'' (TString 16) (JStr ''pending''), plain_col ''sink_type'' (TString 32) False, plain_col ''sink_locator'' TText True,
      plain_col ''bytes_written'' TInteger True, plain_col ''sha256'' (TString 64) True, default_col ''encrypted'' TBoolean (JBool False),
      plain_col ''key_fingerprint'' (TString 16) True, plain_col ''started_at'' TDateTimeTz True, plain_col ''finished_at'' TDateTimeTz True,
      plain_col ''error'' TText True, default_col ''managed_by'' (TString 16) (JStr ''local''),
      default_col ''created_at'' TDateTimeTz (JStr ''now()''), default_col ''updated_at'' TDateTimeTz (JStr ''now()'')]"

definition upgrade_0003 :: "mop list" where
  "upgrade_0003 =
     [CreateTable ''backup_schedules'' schedule_cols [(''uq_backup_schedules_remote_id'', [''remote_id''])],
      CreateIndex ''ix_backup_schedules_tenant_id'' ''backup_schedules'' [''tenant_id''],
      CreateIndex ''ix_backup_schedules_next_run_at'' ''backup_schedules'' [''next_run_at''],
      CreateIndex ''ix_backup_schedules_remote_id'' ''backup_schedules'' [''remote_id''],
      CreateTable ''backup_runs'' run_cols [],
      CreateIndex ''ix_backup_runs_schedule_id'' ''backup_runs'' [''schedule_id''],
      CreateIndex ''ix_backup_runs_app_slug'' ''backup_runs'' [''app_slug'']]"

definition downgrade_0003 :: "mop list" where
  "downgrade_0003 =
     [DropIndex ''ix_backup_runs_app_slug'', DropIndex ''ix_backup_runs_schedule_id'', DropTable ''backup_runs'',
      DropIndex ''ix_backup_schedules_remote_id'', DropIndex ''ix_backup_schedules_next_run_at'',
      DropIndex ''ix_backup_schedules_tenant_id'', DropTable ''backup_schedules'']"

definition revisions :: "revision list" where
  "revisions =
     [\<lparr>rv_id = ''0001_add_items_search_vector'', rv_down = None, rv_upgrade = upgrade_0001, rv_downgrade = downgrade_0001\<rparr>,
      \<lparr>rv_id = ''0002_hipaa_security_patterns'', rv_down = Some ''0001_add_items_search_vector'', rv_upgrade = (\<lambda>d. upgrade_0002),
       rv_downgrade = (\<lambda>d. downgrade_0002)\<rparr>,
      \<lparr>rv_id = ''0003_backup_schedules_and_runs'', rv_down = Some ''0002_hipaa_security_patterns'', rv_upgrade = (\<lambda>d. upgrade_0003),
       rv_downgrade = (\<lambda>d. downgrade_0003)\<rparr>]"

subsection \<open>Running them\<close>

text \<open>
  \<open>alembic upgrade head\<close> runs the revisions behind the stamped one, \<open>alembic downgrade base\<close> undoes those up to it.  The
  environment wraps them in one transaction: on PostgreSQL, whose DDL is transactional, an error undoes everything; SQLite
  keeps what was done before it.
\<close>

definition pending :: "string option \<Rightarrow> revision list" where
  "pending v = (case v of None \<Rightarrow> revisions | Some v \<Rightarrow> tl (dropWhile (\<lambda>r. rv_id r \<noteq> v) revisions))"

definition applied :: "string option \<Rightarrow> revision list" where
  "applied v = take (length revisions - length (pending v)) revisions"

fun run_upgrades :: "dialect \<Rightarrow> revision list \<Rightarrow> mschema \<Rightarrow> (error + unit) \<times> mschema" where
  "run_upgrades d [] s = (Inr (), s)"
| "run_upgrades d (r # rs) s =
     attempt (apply_ops d (rv_upgrade r d) s) (\<lambda>_ s. run_upgrades d rs (s\<lparr>ms_version := Some (rv_id r)\<rparr>))"

fun run_downgrades :: "dialect \<Rightarrow> revision list \<Rightarrow> mschema \<Rightarrow> (error + unit) \<times> mschema" where
  \<comment> \<open>The revisions to undo, the last one first.\<close>
  "run_downgrades d [] s = (Inr (), s)"
| "run_downgrades d (r # rs) s =
     attempt (apply_ops d (rv_downgrade r d) s) (\<lambda>_ s. run_downgrades d rs (s\<lparr>ms_version := rv_down r\<rparr>))"

definition in_transaction :: "dialect \<Rightarrow> (mschema \<Rightarrow> (error + unit) \<times> mschema) \<Rightarrow> mschema \<Rightarrow> (error + unit) \<times> mschema" where
  "in_transaction d f s = (case f s of (Inl x, s') \<Rightarrow> (Inl x, if d = PostgreSQL then s else s') | r \<Rightarrow> r)"

definition known_version :: "string option \<Rightarrow> bool" where
  "known_version v \<longleftrightarrow> v = None \<or> list_ex (\<lambda>r. v = Some (rv_id r)) revisions"

definition upgrade_head :: "dialect \<Rightarrow> mschema \<Rightarrow> (error + unit) \<times> mschema" where
  "upgrade_head d s =
     (if known_version (ms_version s) then in_transaction d (run_upgrades d (pending (ms_version s))) s
      else (Inl (OtherException ''CommandError''), s))"

definition downgrade_base :: "dialect \<Rightarrow> mschema \<Rightarrow> (error + unit) \<times> mschema" where
  "downgrade_base d s =
     (if known_version (ms_version s) then in_transaction d (run_downgrades d (rev (applied (ms_version s)))) s
      else (Inl (OtherException ''CommandError''), s))"

lemma revisions_chain: "rv_down (revisions ! 0) = None" "i < 2 \<Longrightarrow> rv_down (revisions ! Suc i) = Some (rv_id (revisions ! i))"
  by (simp add: revisions_def, cases i) (auto simp: revisions_def less_Suc_eq)

subsection \<open>What is done is undone\<close>

definition table_rows_ok :: "mtable \<Rightarrow> bool" where
  "table_rows_ok t \<longleftrightarrow> (\<forall>r \<in> set (mt_rows t). map fst r = col_names t)"

definition schema_ok :: "mschema \<Rightarrow> bool" where
  \<comment> \<open>Names are distinct, rows have the columns of their table, and indexes are on columns that exist.\<close>
  "schema_ok s \<longleftrightarrow> distinct (map fst (ms_tables s)) \<and> distinct (map fst (ms_indexes s)) \<and>
     (\<forall>(n, t) \<in> set (ms_tables s). table_rows_ok t) \<and>
     (\<forall>(i, n, cs) \<in> set (ms_indexes s). \<exists>t. map_of (ms_tables s) n = Some t \<and> set cs \<subseteq> set (col_names t))"

lemma change_table_sel [simp]:
  "ms_indexes (change_table n f s) = ms_indexes s" "ms_version (change_table n f s) = ms_version s"
  "map fst (ms_tables (change_table n f s)) = map fst (ms_tables s)"
  by (auto simp: change_table_def)

lemma map_of_change_table: "map_of (ms_tables (change_table n f s)) k = (if k = n then map_option f (map_of (ms_tables s) k) else map_of (ms_tables s) k)"
proof -
  have "map_of (map (\<lambda>(k, t). (k, if k = n then f t else t)) ts) k = (if k = n then map_option f (map_of ts k) else map_of ts k)" for ts :: "(string, mtable) alist"
    by (induction ts) auto
  then show ?thesis by (simp add: change_table_def)
qed

lemma schema_ok_change:
  assumes "schema_ok s" "map_of (ms_tables s) n = Some t" "table_rows_ok (f t)" "set (col_names t) \<subseteq> set (col_names (f t))"
  shows "schema_ok (change_table n f s)"
proof -
  have d: "distinct (map fst (ms_tables s))" using assms(1) by (simp add: schema_ok_def)
  have "table_rows_ok u" if u: "(k, u) \<in> set (ms_tables (change_table n f s))" for k u
  proof -
    from u d have "map_of (ms_tables (change_table n f s)) k = Some u" by (simp add: map_of_is_SomeI)
    then show ?thesis
      using assms by (auto simp: map_of_change_table schema_ok_def split: if_splits dest: map_of_SomeD)
  qed
  moreover have "\<exists>u. map_of (ms_tables (change_table n f s)) k = Some u \<and> set cs \<subseteq> set (col_names u)" if "(i, k, cs) \<in> set (ms_indexes s)" for i k cs
    using that assms by (fastforce simp: map_of_change_table schema_ok_def)
  ultimately show ?thesis using assms(1) by (auto simp: schema_ok_def)
qed

lemma add_col_names: "col_names (add_col c t) = col_names t @ [mc_name c]"
  by (simp add: add_col_def col_names_def)

lemma add_col_rows_ok: "table_rows_ok t \<Longrightarrow> table_rows_ok (add_col c t)"
  by (auto simp: table_rows_ok_def add_col_names) (auto simp: add_col_def)

lemma drop_added: "table_rows_ok t \<Longrightarrow> mc_name c \<notin> set (col_names t) \<Longrightarrow> drop_col (mc_name c) (add_col c t) = t"
proof -
  assume t: "table_rows_ok t" "mc_name c \<notin> set (col_names t)"
  have "filter (\<lambda>x. mc_name x \<noteq> mc_name c) (mt_cols t) = mt_cols t" using t(2) by (intro filter_True) (auto simp: col_names_def image_iff)
  moreover have "dict_pop (mc_name c) (r @ [(mc_name c, v)]) = r" if "r \<in> set (mt_rows t)" for r v
  proof -
    from that t have "mc_name c \<notin> fst ` set r" by (metis list.set_map table_rows_ok_def)
    then have "filter (\<lambda>(k', _). k' \<noteq> mc_name c) r = r" by (intro filter_True) force
    then show ?thesis by (simp add: dict_pop_def)
  qed
  ultimately show ?thesis by (simp add: drop_col_def add_col_def comp_def map_idI)
qed

lemma backfilled_drop: "dict_pop ''search_vector'' (backfilled r) = dict_pop ''search_vector'' r"
proof -
  have "dict_pop k (dict_set k v r) = dict_pop k r" for k :: string and v :: json and r
  proof -
    have "filter (\<lambda>(k', _). k' \<noteq> k) (map (\<lambda>(k', v'). if k' = k then (k', v) else (k', v')) r) = filter (\<lambda>(k', _). k' \<noteq> k) r"
      by (induction r) auto
    then show ?thesis by (simp add: dict_pop_def dict_set_def)
  qed
  then show ?thesis by (simp add: backfilled_def)
qed

fun undo :: "mop \<Rightarrow> mop" where
  "undo (AddColumn n c) = DropColumn n (mc_name c)"
| "undo (CreateTable n cs us) = DropTable n"
| "undo (CreateIndex i n cs) = DropIndex i"
| "undo p = p"

fun undoable :: "mop \<Rightarrow> bool" where
  "undoable (AddColumn n c) = True"
| "undoable (CreateTable n cs us) = True"
| "undoable (CreateIndex i n cs) = True"
| "undoable p = False"

lemma dict_pop_notin: "k \<notin> fst ` set d \<Longrightarrow> dict_pop k d = d"
  by (force simp: dict_pop_def intro!: filter_True)

lemma dict_pop_snoc: "map_of d k = None \<Longrightarrow> dict_pop k (d @ [(k, v)]) = d"
  using dict_pop_notin [of k d] by (simp add: dict_pop_def map_of_eq_None_iff)

lemma apply_op_ok:
  assumes "schema_ok s" "undoable p" "apply_op d p s = Inr s'"
  shows "schema_ok s'"
proof (cases p)
  case (AddColumn n c)
  then obtain t where t: "map_of (ms_tables s) n = Some t" "s' = change_table n (add_col c) s"
    using assms(3) by (auto split: option.splits if_splits)
  moreover have "table_rows_ok t" using assms(1) t(1) by (auto simp: schema_ok_def dest: map_of_SomeD)
  ultimately show ?thesis
    using schema_ok_change [OF assms(1) t(1), of "add_col c"] by (auto simp: add_col_rows_ok add_col_names)
next
  case (CreateTable n cs us)
  then have n: "map_of (ms_tables s) n = None" "s' = s\<lparr>ms_tables := ms_tables s @ [(n, \<lparr>mt_cols = cs, mt_unique = us, mt_rows = []\<rparr>)]\<rparr>"
    using assms(3) by (auto split: if_splits)
  have "map_of (ms_tables s') k = Some t" if "map_of (ms_tables s) k = Some t" for k t
    using that n by (auto simp: map_of_append map_add_def)
  moreover have "n \<notin> fst ` set (ms_tables s)" using n(1) by (simp add: map_of_eq_None_iff)
  ultimately show ?thesis using assms(1) n(2) by (fastforce simp: schema_ok_def table_rows_ok_def)
next
  case (CreateIndex i n cs)
  then obtain t where "map_of (ms_tables s) n = Some t" "map_of (ms_indexes s) i = None" "set cs \<subseteq> set (col_names t)"
    "s' = s\<lparr>ms_indexes := ms_indexes s @ [(i, n, cs)]\<rparr>"
    using assms(3) by (cases "map_of (ms_indexes s) i") (auto split: option.splits if_splits)
  then show ?thesis using assms(1) by (auto simp: schema_ok_def map_of_eq_None_iff)
qed (use assms(2) in simp_all)

lemma undo_add:
  assumes s: "schema_ok s" and t: "map_of (ms_tables s) n = Some t" "mc_name c \<notin> set (col_names t)"
  shows "apply_op d (DropColumn n (mc_name c)) (change_table n (add_col c) s) = Inr s"
proof -
  have ok: "table_rows_ok t" using s t(1) by (auto simp: schema_ok_def dest: map_of_SomeD)
  have no: "\<not> (n' = n \<and> mc_name c \<in> set cs)" if "(i, n', cs) \<in> set (ms_indexes s)" for i n' cs
    using that s t by (fastforce simp: schema_ok_def)
  then have f: "filter (\<lambda>(i, n', cs). \<not> (n' = n \<and> mc_name c \<in> set cs)) (ms_indexes s) = ms_indexes s"
    by (intro filter_True) auto
  have e: "\<not> list_ex (\<lambda>(i, n', cs). n' = n \<and> mc_name c \<in> set cs) (ms_indexes s)" using no by (auto simp: list_ex_iff)
  have u: "u = t" if "(n, u) \<in> set (ms_tables s)" for u
    using that t(1) s by (metis map_of_is_SomeI option.inject schema_ok_def)
  have "map (\<lambda>(k, u). (k, if k = n then drop_col (mc_name c) u else u)) (map (\<lambda>(k, u). (k, if k = n then add_col c u else u)) (ms_tables s)) = ms_tables s"
    unfolding map_map by (rule map_idI) (use u drop_added [OF ok t(2)] in auto)
  then have "change_table n (drop_col (mc_name c)) (change_table n (add_col c) s) = s"
    by (simp add: change_table_def)
  moreover have "map_of (ms_tables (change_table n (add_col c) s)) n = Some (add_col c t)" using t(1) by (simp add: map_of_change_table)
  moreover have "(change_table n (add_col c) s)\<lparr>ms_indexes := ms_indexes s\<rparr> = change_table n (add_col c) s" by (simp add: change_table_def)
  note v = this
  ultimately show ?thesis using e f by (simp add: add_col_names v)
qed

lemma apply_undo:
  assumes "schema_ok s" "undoable p" "apply_op d p s = Inr s'"
  shows "apply_op d (undo p) s' = Inr s"
proof (cases p)
  case (AddColumn n c)
  then obtain t where "map_of (ms_tables s) n = Some t" "mc_name c \<notin> set (col_names t)" "s' = change_table n (add_col c) s"
    using assms(3) by (auto split: option.splits if_splits)
  with undo_add [OF assms(1)] AddColumn show ?thesis by (simp del: apply_op.simps)
next
  case (CreateTable n cs us)
  then have n: "map_of (ms_tables s) n = None" "s' = s\<lparr>ms_tables := ms_tables s @ [(n, \<lparr>mt_cols = cs, mt_unique = us, mt_rows = []\<rparr>)]\<rparr>"
    using assms(3) by (auto split: if_splits)
  then have "filter (\<lambda>(i, t, cs). t \<noteq> n) (ms_indexes s) = ms_indexes s"
    using assms(1) by (intro filter_True) (fastforce simp: schema_ok_def)
  with n CreateTable show ?thesis by (simp add: map_of_append map_add_def dict_pop_snoc)
next
  case (CreateIndex i n cs)
  then have "map_of (ms_indexes s) i = None" "s' = s\<lparr>ms_indexes := ms_indexes s @ [(i, n, cs)]\<rparr>"
    using assms(3) by (cases "map_of (ms_indexes s) i"; auto split: option.splits if_splits)+
  with CreateIndex show ?thesis by (simp add: map_of_append map_add_def dict_pop_snoc)
qed (use assms(2) in simp_all)

lemma apply_ops_append: "apply_ops d (ps @ qs) s = attempt (apply_ops d ps s) (\<lambda>_ s. apply_ops d qs s)"
  by (induction ps arbitrary: s) (auto simp: attempt_def split: sum.splits)

lemma apply_ops_undo:
  assumes "schema_ok s" "list_all undoable ps" "apply_ops d ps s = (Inr (), s')"
  shows "schema_ok s' \<and> apply_ops d (rev (map undo ps)) s' = (Inr (), s)"
  using assms
proof (induction ps arbitrary: s)
  case (Cons p ps)
  then obtain s1 where p: "apply_op d p s = Inr s1" "apply_ops d ps s1 = (Inr (), s')" by (auto split: sum.splits)
  have ok: "schema_ok s1" using apply_op_ok [OF Cons.prems(1) _ p(1)] Cons.prems(2) by simp
  from Cons.IH [OF ok _ p(2)] Cons.prems(2) have "schema_ok s' \<and> apply_ops d (rev (map undo ps)) s' = (Inr (), s1)" by simp
  with apply_undo [OF Cons.prems(1) _ p(1)] Cons.prems(2) show ?case by (simp add: apply_ops_append attempt_def)
qed simp


text \<open>The search column is filled when it has been added; dropping it forgets that.\<close>

lemma backfill_undone:
  assumes "schema_ok s" "apply_op d (AddColumn ''items'' c) s = Inr s1" "mc_name c = ''search_vector''" "apply_op d BackfillSearchVector s1 = Inr s2"
  shows "schema_ok s2 \<and> apply_op d (DropColumn ''items'' ''search_vector'') s2 = Inr s"
proof -
  let ?f = "\<lambda>t. t\<lparr>mt_rows := map backfilled (mt_rows t)\<rparr>"
  have ok: "schema_ok s1" by (rule apply_op_ok [OF assms(1) _ assms(2)]) simp
  from assms(4) obtain t where t: "map_of (ms_tables s1) ''items'' = Some t" "s2 = change_table ''items'' ?f s1"
    "''search_vector'' \<in> set (col_names t)" by (auto split: option.splits if_splits)
  have rows: "table_rows_ok t" using ok t(1) by (auto simp: schema_ok_def dest: map_of_SomeD)
  have keys: "map fst (dict_set k v r) = map fst r" if "k \<in> set (map fst r)" for k :: string and v :: json and r
  proof -
    from that have "map_of r k \<noteq> None" by (simp add: map_of_eq_None_iff)
    moreover have "map fst (map (\<lambda>(k', v'). if k' = k then (k', v) else (k', v')) r) = map fst r" by (induction r) auto
    ultimately show ?thesis by (simp only: dict_set_def if_False)
  qed
  have names: "col_names (?f t) = col_names t" by (simp add: col_names_def)
  have "table_rows_ok (?f t)"
    using rows t(3) unfolding table_rows_ok_def names backfilled_def by (auto simp: keys)
  then have ok2: "schema_ok s2" using schema_ok_change [OF ok t(1), of ?f] by (simp add: t(2) names)
  have "drop_col ''search_vector'' (?f u) = drop_col ''search_vector'' u" for u
    by (simp add: drop_col_def backfilled_drop comp_def)
  then have "change_table ''items'' (drop_col ''search_vector'') s2 = change_table ''items'' (drop_col ''search_vector'') s1"
    unfolding t(2) change_table_def by (simp add: comp_def case_prod_unfold cong: map_cong)
  moreover have "ms_indexes s2 = ms_indexes s1" "map_of (ms_tables s2) ''items'' = Some (?f t)"
    using t(1) by (simp_all add: t(2) map_of_change_table)
  moreover have "change_table n g (s\<lparr>ms_indexes := x\<rparr>) = (change_table n g s)\<lparr>ms_indexes := x\<rparr>" for n g s x
    by (simp add: change_table_def)
  ultimately have "apply_op d (DropColumn ''items'' ''search_vector'') s2 = apply_op d (DropColumn ''items'' ''search_vector'') s1"
    using t(1,3) by (simp add: names)
  also have "\<dots> = Inr s" using apply_undo [OF assms(1) _ assms(2)] assms(3) by simp
  finally show ?thesis using ok2 by simp
qed

lemma downgrades_mirror:
  "downgrade_0002 = rev (map undo upgrade_0002)" "downgrade_0003 = rev (map undo upgrade_0003)"
  "list_all undoable upgrade_0002" "list_all undoable upgrade_0003"
  by (simp_all add: upgrade_0002_def downgrade_0002_def upgrade_0003_def downgrade_0003_def default_col_def)

lemma schema_ok_version [simp]: "schema_ok (s\<lparr>ms_version := v\<rparr>) = schema_ok s"
  by (simp add: schema_ok_def)

lemma apply_op_version: "apply_op d p (s\<lparr>ms_version := v\<rparr>) = map_sum id (\<lambda>s. s\<lparr>ms_version := v\<rparr>) (apply_op d p s)"
  by (cases p) (auto simp: change_table_def split: option.split)

lemma apply_ops_version:
  "apply_ops d ps (s\<lparr>ms_version := v\<rparr>) = (case apply_ops d ps s of (r, s') \<Rightarrow> (r, s'\<lparr>ms_version := v\<rparr>))"
  by (induction ps arbitrary: s) (auto simp: apply_op_version split: sum.splits prod.splits)

text \<open>
  C35: The downgrades undo the upgrades.  On SQLite, when a database with consistent rows and indexes that was never migrated is upgraded
  to the head, it is stamped with the last revision, and a downgrade to the base succeeds and gives back the tables, with
  every row, the indexes and the empty stamp.
\<close>
theorem migrations_undone:
  assumes "schema_ok s" "ms_version s = None" "upgrade_head SQLite s = (Inr (), s')"
  shows "ms_version s' = Some ''0003_backup_schedules_and_runs'' \<and> downgrade_base SQLite s' = (Inr (), s)"
proof -
  let ?v = "\<lambda>v (s::mschema). s\<lparr>ms_version := v\<rparr>"
  let ?r1 = "Some ''0001_add_items_search_vector''" and ?r2 = "Some ''0002_hipaa_security_patterns''" and ?r3 = "Some ''0003_backup_schedules_and_runs''"
  let ?c = "plain_col ''search_vector'' TText True"
  from assms(2,3) obtain s0 s1 s2 s3 where
    u1: "apply_op SQLite (AddColumn ''items'' ?c) s = Inr s0" "apply_op SQLite BackfillSearchVector s0 = Inr s1"
    and u2: "apply_ops SQLite upgrade_0002 (?v ?r1 s1) = (Inr (), s2)" and u3: "apply_ops SQLite upgrade_0003 (?v ?r2 s2) = (Inr (), s3)"
    and s': "s' = ?v ?r3 s3"
    by (auto simp: upgrade_head_def known_version_def in_transaction_def pending_def revisions_def upgrade_0001_def attempt_def
        simp del: apply_op.simps split: sum.splits prod.splits)
  have d1: "schema_ok s1" "apply_op SQLite (DropColumn ''items'' ''search_vector'') s1 = Inr s"
    using backfill_undone [OF assms(1) u1(1) _ u1(2)] by (simp_all add: plain_col_def)
  have d2: "schema_ok s2" "apply_ops SQLite downgrade_0002 s2 = (Inr (), ?v ?r1 s1)"
    using apply_ops_undo [OF _ downgrades_mirror(3) u2] d1(1) by (simp_all add: downgrades_mirror)
  have d3: "apply_ops SQLite downgrade_0003 s3 = (Inr (), ?v ?r2 s2)"
    using apply_ops_undo [OF _ downgrades_mirror(4) u3] d2(1) by (simp_all add: downgrades_mirror)
  have v: "?v None s = s" using assms(2) by simp
  have "applied ?r3 = revisions" "known_version ?r3" by (simp_all add: applied_def pending_def revisions_def known_version_def)
  then show ?thesis
    using d1(2) d2(2) d3 v
    by (simp add: s' downgrade_base_def in_transaction_def revisions_def apply_ops_version apply_op_version downgrade_0001_def attempt_def
        del: apply_op.simps)
qed

definition demo_old_db :: mschema where
  "demo_old_db =
     \<lparr>ms_tables =
        [(''users'', \<lparr>mt_cols = [key_col], mt_unique = [], mt_rows = [[(''id'', JStr ''u'')]]\<rparr>),
         (''items'', \<lparr>mt_cols = [key_col, plain_col ''name'' (TString 200) False, plain_col ''description'' TText True], mt_unique = [],
            mt_rows = [[(''id'', JStr ''i''), (''name'', JStr ''Pump''), (''description'', JNull)]]\<rparr>)],
      ms_indexes = [], ms_version = None\<rparr>"

theorem migrations_undone_witness:
  "\<exists>s'. upgrade_head SQLite demo_old_db = (Inr (), s') \<and> ms_version s' = Some ''0003_backup_schedules_and_runs'' \<and>
    downgrade_base SQLite s' = (Inr (), demo_old_db)"
proof -
  have ok: "schema_ok demo_old_db" "ms_version demo_old_db = None"
    by (simp_all add: demo_old_db_def schema_ok_def table_rows_ok_def col_names_def key_col_def plain_col_def)
  have "fst (upgrade_head SQLite demo_old_db) = Inr ()" by code_simp
  then obtain s' where s': "upgrade_head SQLite demo_old_db = (Inr (), s')" by (cases "upgrade_head SQLite demo_old_db") auto
  show ?thesis using migrations_undone [OF ok s'] s' by blast
qed

subsection \<open>What goes wrong\<close>

text \<open>
  No revision creates the tables the first one changes, so \<open>alembic upgrade head\<close>, the documented way to set up a database, fails on
  an empty one; and on one whose tables the application created itself the column is there already.
\<close>

lemma empty_database_not_migrated:
  "upgrade_head d \<lparr>ms_tables = [], ms_indexes = [], ms_version = None\<rparr> =
    (Inl (db_error ''no such table''), \<lparr>ms_tables = [], ms_indexes = [], ms_version = None\<rparr>)"
  by (simp add: upgrade_head_def known_version_def in_transaction_def pending_def revisions_def upgrade_0001_def attempt_def)

lemma created_database_not_migrated:
  assumes "ms_version s = None" "map_of (ms_tables s) ''items'' = Some t" "''search_vector'' \<in> set (col_names t)"
  shows "upgrade_head d s = (Inl (db_error ''duplicate column''), s)"
  using assms
  by (simp add: upgrade_head_def known_version_def in_transaction_def pending_def revisions_def upgrade_0001_def attempt_def plain_col_def)

text \<open>
  On PostgreSQL no database at all is migrated: the first revision creates an index concurrently, which the transaction around the
  migrations does not allow.
\<close>

lemma postgres_never_migrated:
  assumes "ms_version s = None"
  shows "\<exists>x. upgrade_head PostgreSQL s = (Inl x, s)"
  using assms
  by (auto simp: upgrade_head_def known_version_def in_transaction_def pending_def revisions_def upgrade_0001_def attempt_def
      split: prod.splits sum.splits)

end
