(* ===== verification/AppRoutes.thy ===== *)
theory AppRoutes
  imports Api Startup RequestLog Brand "HOL-Library.Sublist"
begin

section \<open>The assembled application\<close>

text \<open>
  \<open>main.create_app\<close>, \<open>api/v1/router.py\<close>, \<open>web/router.py\<close> and \<open>web/__init__.py\<close>: the table of routes with the
  dependency that guards each, the order in which it is searched, and the middleware around it.  Starlette's router is a parameter; of
  its documentation \<open>router_ok\<close> uses that a request goes to the first route of its method whose template the path fills.  What
  the endpoints do is in the theories of their files; here they are an argument, as the application is for the middleware.
\<close>

subsection \<open>Routes\<close>

datatype route_kind = Http string | WebSocketRoute | StaticMount

datatype guard = Open | SignedIn | SuperadminOnly | AtLeast role_name

record route =
  rt_kind :: route_kind
  rt_path :: string
  rt_endpoint :: string
  rt_guard :: guard

definition http_route :: "string \<Rightarrow> string \<Rightarrow> string \<Rightarrow> guard \<Rightarrow> route" where
  "http_route m p n g = \<lparr>rt_kind = Http m, rt_path = p, rt_endpoint = n, rt_guard = g\<rparr>"

definition include_router :: "string \<Rightarrow> route list \<Rightarrow> route list" where
  "include_router pre rs = map (\<lambda>r. r\<lparr>rt_path := pre @ rt_path r\<rparr>) rs"

definition auth_routes :: "route list" where
  "auth_routes =
     [http_route ''POST'' ''/login'' ''auth.login'' Open,
      http_route ''POST'' ''/setup'' ''auth.initial_setup'' Open,
      http_route ''POST'' ''/totp/setup'' ''auth.totp_setup'' SignedIn,
      http_route ''POST'' ''/totp/enable'' ''auth.totp_enable'' SignedIn,
      http_route ''POST'' ''/totp/verify'' ''auth.totp_verify'' Open,
      http_route ''POST'' ''/totp/disable'' ''auth.totp_disable'' SignedIn]"

definition tenants_routes :: "route list" where
  "tenants_routes =
     [http_route ''GET'' '''' ''tenants.list_tenants'' (AtLeast VIEWER),
      http_route ''POST'' '''' ''tenants.create_tenant'' SuperadminOnly,
      http_route ''GET'' ''/{slug}'' ''tenants.get_tenant'' (AtLeast VIEWER),
      http_route ''PATCH'' ''/{slug}'' ''tenants.update_tenant'' (AtLeast ADMIN),
      http_route ''POST'' ''/{slug}/rotate-api-key'' ''tenants.rotate_api_key'' (AtLeast ADMIN),
      http_route ''DELETE'' ''/{slug}'' ''tenants.deactivate_tenant'' SuperadminOnly,
      http_route ''GET'' ''/{slug}/retention/report'' ''tenants.get_retention_report'' (AtLeast ADMIN)]"

definition items_routes :: "route list" where
  "items_routes =
     [http_route ''GET'' '''' ''items.list_items'' (AtLeast VIEWER),
      http_route ''POST'' '''' ''items.create_item'' (AtLeast ANALYST),
      http_route ''GET'' ''/{item_id}'' ''items.get_item'' (AtLeast VIEWER),
      http_route ''PATCH'' ''/{item_id}'' ''items.update_item'' (AtLeast ANALYST),
      http_route ''DELETE'' ''/{item_id}'' ''items.delete_item'' (AtLeast ADMIN)]"

definition users_routes :: "route list" where
  "users_routes =
     [http_route ''GET'' '''' ''users.list_users'' (AtLeast ADMIN),
      http_route ''POST'' '''' ''users.create_user'' (AtLeast ADMIN),
      http_route ''PATCH'' ''/{user_id}'' ''users.update_user'' (AtLeast ADMIN),
      http_route ''DELETE'' ''/{user_id}'' ''users.deactivate_user'' (AtLeast ADMIN)]"

definition me_routes :: "route list" where
  "me_routes =
     [http_route ''GET'' ''/me'' ''users.get_me'' SignedIn,
      http_route ''PATCH'' ''/me'' ''users.update_me'' SignedIn,
      http_route ''POST'' ''/me/password'' ''users.change_my_password'' SignedIn]"

definition audit_routes :: "route list" where
  "audit_routes = [http_route ''GET'' '''' ''audit.list_audit_log'' (AtLeast ADMIN)]"

definition settings_routes :: "route list" where
  "settings_routes =
     [http_route ''GET'' ''/global'' ''settings.get_global_settings'' SuperadminOnly,
      http_route ''PATCH'' ''/global'' ''settings.patch_global_settings'' SuperadminOnly,
      http_route ''GET'' ''/tenants/{slug}'' ''settings.get_tenant_settings'' (AtLeast ADMIN),
      http_route ''PATCH'' ''/tenants/{slug}'' ''settings.patch_tenant_settings'' (AtLeast ADMIN),
      http_route ''GET'' ''/users/me'' ''settings.get_my_settings'' SignedIn,
      http_route ''PATCH'' ''/users/me'' ''settings.patch_my_settings'' SignedIn,
      http_route ''GET'' ''/effective'' ''settings.get_effective_settings'' SignedIn]"

definition search_routes :: "route list" where
  "search_routes = [http_route ''GET'' '''' ''search.global_search'' SignedIn]"

definition admin_routes :: "route list" where
  "admin_routes =
     [http_route ''GET'' ''/version'' ''admin.get_version'' Open,
      http_route ''GET'' ''/update-check'' ''admin.check_for_updates'' Open,
      http_route ''POST'' ''/restart'' ''admin.restart_server'' Open,
      http_route ''POST'' ''/restart-only'' ''admin.restart_only'' Open]"

definition ai_routes :: "route list" where
  "ai_routes =
     [http_route ''GET'' ''/health'' ''ai_backends.ai_health'' SignedIn,
      http_route ''GET'' ''/resolve'' ''ai_backends.ai_resolve'' SignedIn,
      http_route ''GET'' ''/config'' ''ai_backends.ai_config'' SuperadminOnly,
      http_route ''PATCH'' ''/config'' ''ai_backends.ai_config_save'' SuperadminOnly]"

definition tasks_routes :: "route list" where
  \<comment> \<open>The router has the prefix \<open>/tasks\<close> itself.\<close>
  "tasks_routes = include_router ''/tasks''
     [http_route ''GET'' ''/summary'' ''tasks.task_summary'' Open,
      http_route ''GET'' '''' ''tasks.list_tasks'' Open,
      http_route ''GET'' ''/{task_id}'' ''tasks.get_task'' Open,
      http_route ''POST'' ''/{task_id}/cancel'' ''tasks.cancel_task'' Open,
      http_route ''POST'' ''/{task_id}/respond'' ''tasks.respond_to_task'' Open,
      http_route ''POST'' ''/clear-finished'' ''tasks.clear_finished'' Open]"

definition files_routes :: "route list" where
  "files_routes =
     [http_route ''GET'' '''' ''files.list_files'' (AtLeast ANALYST),
      http_route ''POST'' ''/mkdir'' ''files.mkdir'' (AtLeast ANALYST),
      http_route ''POST'' ''/rename'' ''files.rename'' (AtLeast ANALYST),
      http_route ''POST'' ''/delete'' ''files.delete'' (AtLeast ANALYST)]"

definition upload_routes :: "route list" where
  "upload_routes = [http_route ''POST'' '''' ''upload.upload_files'' (AtLeast VIEWER)]"

definition ws_routes :: "route list" where
  "ws_routes = [\<lparr>rt_kind = WebSocketRoute, rt_path = ''/ws/tasks/{task_id}'', rt_endpoint = ''ws.task_stream'', rt_guard = Open\<rparr>]"

definition backup_export_routes :: "route list" where
  "backup_export_routes =
     [http_route ''GET'' ''/contributors'' ''backup.list_contributors'' SuperadminOnly,
      http_route ''POST'' ''/export'' ''backup.export'' SuperadminOnly,
      http_route ''POST'' ''/export/download'' ''backup.export_download'' SuperadminOnly]"

definition backup_restore_routes :: "route list" where
  "backup_restore_routes =
     [http_route ''POST'' ''/restore'' ''backup.restore'' SuperadminOnly,
      http_route ''POST'' ''/restore/upload'' ''backup.restore_upload'' SuperadminOnly,
      http_route ''GET'' ''/runs'' ''backup.list_runs'' SuperadminOnly]"

definition backup_schedule_routes :: "route list" where
  "backup_schedule_routes =
     [http_route ''GET'' ''/schedules'' ''backup.list_schedules'' SuperadminOnly,
      http_route ''POST'' ''/schedules'' ''backup.create_schedule'' SuperadminOnly,
      http_route ''DELETE'' ''/schedules/{schedule_id}'' ''backup.delete_schedule'' SuperadminOnly]"

definition backup_store_routes :: "route list" where
  "backup_store_routes =
     [http_route ''PUT'' ''/store/{rest:path}'' ''backup.sink_store_put'' SuperadminOnly,
      http_route ''GET'' ''/store/{rest:path}'' ''backup.sink_store_get'' SuperadminOnly,
      http_route ''DELETE'' ''/store/{rest:path}'' ''backup.sink_store_delete'' SuperadminOnly,
      http_route ''GET'' ''/index'' ''backup.sink_store_index'' SuperadminOnly]"

definition backup_routes :: "route list" where
  "backup_routes = backup_export_routes @ backup_restore_routes @ backup_schedule_routes @ backup_store_routes"

definition api_v1_router :: "route list" where
  "api_v1_router =
     include_router ''/auth'' auth_routes @
     include_router ''/tenants'' tenants_routes @
     include_router ''/tenants/{slug}/items'' items_routes @
     include_router ''/tenants/{slug}/users'' users_routes @
     include_router ''/tenants/{slug}/audit-log'' audit_routes @
     me_routes @
     include_router ''/settings'' settings_routes @
     include_router ''/search'' search_routes @
     include_router ''/admin'' admin_routes @
     include_router ''/ai'' ai_routes @
     tasks_routes @
     include_router ''/tenants/{slug}/files'' files_routes @
     include_router ''/upload'' upload_routes @
     ws_routes @
     include_router ''/backups'' backup_routes"

subsection \<open>Pages and static files\<close>

datatype page_answer = FileAnswer string "(string \<times> string) list" | Redirect string | Page string "(string \<times> string) list"

definition page_table :: "(string \<times> string \<times> (string \<Rightarrow> page_answer)) list" where
  \<comment> \<open>Path, function, and the answer from the slug of the path.\<close>
  "page_table =
     [(''/sw.js'', ''service_worker'', \<lambda>slug. FileAnswer ''sw.js'' [(''Service-Worker-Allowed'', ''/'')]),
      (''/'', ''root'', \<lambda>slug. Redirect ''/login''),
      (''/login'', ''login_page'', \<lambda>slug. Page ''login.html'' []),
      (''/setup-2fa'', ''setup_2fa_page'', \<lambda>slug. Page ''setup_2fa.html'' []),
      (''/c/{slug}/dashboard'', ''dashboard'', \<lambda>slug. Page ''dashboard.html'' [(''slug'', slug)]),
      (''/c/{slug}/items'', ''items_page'', \<lambda>slug. Page ''items.html'' [(''slug'', slug)]),
      (''/c/{slug}/users'', ''users_page'', \<lambda>slug. Page ''users.html'' [(''slug'', slug)]),
      (''/c/{slug}/audit-log'', ''audit_log_page'', \<lambda>slug. Page ''audit_log.html'' [(''slug'', slug)]),
      (''/me'', ''profile_page'', \<lambda>slug. Page ''profile.html'' []),
      (''/me/settings'', ''user_settings_page'', \<lambda>slug. Page ''user_settings.html'' []),
      (''/admin/settings'', ''admin_settings_page'', \<lambda>slug. Page ''admin_settings.html'' []),
      (''/admin/backups'', ''admin_backups_page'', \<lambda>slug. Page ''admin_backups.html'' []),
      (''/c/{slug}/settings'', ''tenant_settings_page'', \<lambda>slug. Page ''tenant_settings.html'' [(''slug'', slug)])]"

definition web_router :: "route list" where
  "web_router = map (\<lambda>(p, n, a). http_route ''GET'' p (''web.'' @ n) Open) page_table"

definition orchestrator_display :: "brand_config \<Rightarrow> string" where
  "orchestrator_display b =
     (if orchestrator_name b = family_name b @ ''dev'' then display_name b @ ''Dev'' else orchestrator_name b)"

datatype jinja_value = BrandValue brand_config | TextValue string

definition setup_jinja_brand :: "brand_config \<Rightarrow> (string \<times> jinja_value) list \<Rightarrow> (string \<times> jinja_value) list" where
  "setup_jinja_brand b globals =
     dict_set ''orchestrator_display'' (TextValue (orchestrator_display b))
       (dict_set ''brand_display_name'' (TextValue (display_name b)) (dict_set ''brand'' (BrandValue b) globals))"

definition static_mount :: "string \<Rightarrow> string \<Rightarrow> route" where
  "static_mount mount_path name = \<lparr>rt_kind = StaticMount, rt_path = mount_path @ ''/{path:path}'', rt_endpoint = name, rt_guard = Open\<rparr>"

definition install_static ::
  "(string \<Rightarrow> bool) \<Rightarrow> string \<Rightarrow> string option \<Rightarrow> string \<Rightarrow> string \<Rightarrow> string \<Rightarrow> route list \<Rightarrow> route list" where
  "install_static isdir core_static overlay_dir mount_path overlay_mount_path name rs =
     rs @ (if isdir core_static then [static_mount mount_path name] else []) @
     (if truthy_str overlay_dir \<and> overlay_mount_path \<noteq> [] \<and> isdir (the overlay_dir)
      then [static_mount overlay_mount_path (name @ ''-app'')] else [])"

definition docs_routes :: "route list" where
  \<comment> \<open>What \<open>FastAPI(docs_url="/docs", redoc_url="/redoc")\<close> registers.\<close>
  "docs_routes =
     [http_route ''GET'' ''/openapi.json'' ''openapi'' Open, http_route ''GET'' ''/docs'' ''swagger_ui'' Open,
      http_route ''GET'' ''/docs/oauth2-redirect'' ''swagger_redirect'' Open, http_route ''GET'' ''/redoc'' ''redoc'' Open]"

definition app_routes :: "bool \<Rightarrow> route list" where
  \<comment> \<open>The argument says whether the package has its directory of static files.\<close>
  "app_routes has_static =
     install_static (\<lambda>p. has_static) ''static'' None ''/static'' '''' ''static''
       (docs_routes @ include_router ''/api/v1'' api_v1_router @ web_router) @
     [http_route ''GET'' ''/health'' ''main.health'' Open]"

subsection \<open>Which route a path belongs to\<close>

datatype seg = Lit string | Var string | Tail string

definition seg_of :: "string \<Rightarrow> seg" where
  "seg_of s =
     (if starts_with ''{'' s \<and> ends_with '':path}'' s then Tail (take (length s - 7) (drop 1 s))
      else if starts_with ''{'' s \<and> ends_with ''}'' s then Var (butlast (drop 1 s)) else Lit s)"

definition template :: "string \<Rightarrow> seg list" where
  "template p = map seg_of (split_on (CHR ''/'') p)"

fun bind_segs :: "seg list \<Rightarrow> string list \<Rightarrow> (string \<times> string) list option" where
  \<comment> \<open>\<open>{x}\<close> is a non-empty text without slash, \<open>{x:path}\<close> is the rest of the path.\<close>
  "bind_segs [] [] = Some []"
| "bind_segs [] (x # xs) = None"
| "bind_segs (s # ss) [] = None"
| "bind_segs (Lit a # ss) (x # xs) = (if x = a then bind_segs ss xs else None)"
| "bind_segs (Var v # ss) (x # xs) = (if x = [] then None else map_option (\<lambda>ps. (v, x) # ps) (bind_segs ss xs))"
| "bind_segs (Tail v # ss) (x # xs) = Some [(v, join_with ''/'' (x # xs))]"

definition path_params :: "route \<Rightarrow> string \<Rightarrow> (string \<times> string) list option" where
  "path_params r p = bind_segs (template (rt_path r)) (split_on (CHR ''/'') p)"

definition answers :: "route \<Rightarrow> string \<Rightarrow> string \<Rightarrow> bool" where
  "answers r m p \<longleftrightarrow> (rt_kind r = Http m \<or> rt_kind r = StaticMount) \<and> path_params r p \<noteq> None"

text \<open>The router: from the routes, the method and the path to its own answer (404, 405, a redirect) or the route the request goes to.\<close>

type_synonym router = "route list \<Rightarrow> string \<Rightarrow> string \<Rightarrow> http_response + route"

definition router_ok :: "router \<Rightarrow> bool" where
  "router_ok st \<longleftrightarrow>
     (\<forall>rs m p r. st rs m p = Inr r \<longrightarrow> r \<in> set rs \<and> answers r m p) \<and>
     (\<forall>before r rest m p. answers r m p \<longrightarrow> (\<forall>q \<in> set before. \<not> answers q m p) \<longrightarrow> st (before @ r # rest) m p = Inr r)"

definition demo_router :: router where
  "demo_router rs m p =
     (case find (\<lambda>r. answers r m p) rs of Some r \<Rightarrow> Inr r
      | None \<Rightarrow> Inl \<lparr>rp_status = 404, rp_headers = [], rp_chunks = [''Not Found''], rp_broken = False\<rparr>)"

lemma demo_router_ok: "router_ok demo_router"
proof -
  have "find P (before @ r # rest) = Some r" if "P r" "\<forall>q \<in> set before. \<not> P q" for P :: "route \<Rightarrow> bool" and before r rest
    using that by (induction before) auto
  then have "demo_router (before @ r # rest) m p = Inr r" if "answers r m p" "\<forall>q \<in> set before. \<not> answers q m p" for before r rest m p
    using that by (simp add: demo_router_def)
  moreover have "r \<in> set rs \<and> answers r m p" if "demo_router rs m p = Inr r" for rs m p r
    using that by (auto simp: demo_router_def find_Some_iff split: option.splits)
  ultimately show ?thesis unfolding router_ok_def by blast
qed

lemma bind_lits: "bind_segs (map Lit ys @ ss) xs = (if take (length ys) xs = ys then bind_segs ss (drop (length ys) xs) else None)"
  by (induction ys arbitrary: xs; case_tac xs) auto

text \<open>Two templates a path can fill both.\<close>

fun overlap :: "seg list \<Rightarrow> seg list \<Rightarrow> bool" where
  "overlap [] [] = True"
| "overlap [] (t # ts) = False"
| "overlap (s # ss) [] = False"
| "overlap (Tail v # ss) (t # ts) = True"
| "overlap (s # ss) (Tail w # ts) = True"
| "overlap (Lit a # ss) (Lit b # ts) = (a = b \<and> overlap ss ts)"
| "overlap (Lit a # ss) (Var w # ts) = (a \<noteq> [] \<and> overlap ss ts)"
| "overlap (Var v # ss) (Lit b # ts) = (b \<noteq> [] \<and> overlap ss ts)"
| "overlap (Var v # ss) (Var w # ts) = overlap ss ts"

lemma overlap_complete: "bind_segs ss xs \<noteq> None \<Longrightarrow> bind_segs ts xs \<noteq> None \<Longrightarrow> overlap ss ts"
  by (induction ss ts arbitrary: xs rule: overlap.induct) (auto elim: bind_segs.elims split: if_splits simp: neq_Nil_conv; case_tac xs; auto split: if_splits)+

fun clashes :: "(route_kind \<times> seg list \<times> string) list \<Rightarrow> (string \<times> string) list" where
  \<comment> \<open>The endpoints that may take a path from a later one.\<close>
  "clashes [] = []"
| "clashes ((k, t, n) # rs) =
     map (\<lambda>(k', t', n'). (n, n')) (filter (\<lambda>(k', t', n'). if k = k' \<or> k = StaticMount \<or> k' = StaticMount then overlap t t' else False) rs) @ clashes rs"

definition indexed :: "route \<Rightarrow> route_kind \<times> seg list \<times> string" where
  "indexed r = (rt_kind r, template (rt_path r), rt_endpoint r)"

lemma table_clashes: "clashes (map indexed (app_routes True)) = [(''tasks.task_summary'', ''tasks.get_task'')]"
  by code_simp

lemma clashes_complete:
  assumes "answers q m p" "answers r m p"
  shows "(rt_endpoint q, rt_endpoint r) \<in> set (clashes (map indexed (before @ q # between @ r # rest)))"
proof (induction before)
  case Nil
  have "overlap (template (rt_path q)) (template (rt_path r))"
    using assms overlap_complete by (auto simp: answers_def path_params_def)
  moreover have "rt_kind q = rt_kind r \<or> rt_kind q = StaticMount \<or> rt_kind r = StaticMount"
    using assms by (auto simp: answers_def)
  ultimately show ?case by (force simp: indexed_def)
next
  case (Cons x xs)
  then show ?case by (simp add: indexed_def)
qed

lemma clashes_subseq: "subseq xs ys \<Longrightarrow> set (clashes xs) \<subseteq> set (clashes ys)"
proof (induction xs ys rule: list_emb.induct)
  case (list_emb_Cons2 x y xs ys)
  then have "set xs \<subseteq> set ys" by (auto dest: list_emb_set)
  then have "set (map f (filter P xs)) \<subseteq> set (map f (filter P ys))" for f :: "_ \<Rightarrow> string \<times> string" and P by auto
  moreover obtain k t n where "y = (k, t, n)" by (cases y)
  ultimately show ?case using list_emb_Cons2 by (simp only: clashes.simps set_append) (blast intro: Un_mono)
qed (auto split: prod.splits)

lemma app_routes_subseq: "subseq (app_routes b) (app_routes True)"
  unfolding app_routes_def install_static_def by (intro list_emb_append_mono) auto

lemma app_routes_all: "list_all P (app_routes True) \<Longrightarrow> r \<in> set (app_routes b) \<Longrightarrow> P r"
  using list_emb_set [OF app_routes_subseq] by (auto simp: list_all_iff)

lemma app_clashes: "set (clashes (map indexed (app_routes b))) \<subseteq> {(''tasks.task_summary'', ''tasks.get_task'')}"
proof -
  have "subseq (map indexed (app_routes b)) (map indexed (app_routes True))" using app_routes_subseq by (rule subseq_map)
  with clashes_subseq table_clashes show ?thesis by fastforce
qed

lemma summary_route:
  assumes "q \<in> set (app_routes b)" "rt_endpoint q = ''tasks.task_summary''"
  shows "template (rt_path q) = map Lit ['''', ''api'', ''v1'', ''tasks'', ''summary'']"
proof -
  have "list_all (\<lambda>q. rt_endpoint q = ''tasks.task_summary'' \<longrightarrow>
      template (rt_path q) = map Lit ['''', ''api'', ''v1'', ''tasks'', ''summary'']) (app_routes True)"
    by code_simp
  from app_routes_all [OF this assms(1)] assms(2) show ?thesis by blast
qed

text \<open>
  C28: No route hides another.  A request whose path fills the template of a route of the application and whose method
  is the route's goes to that route, whatever the parameters in the path are and whichever routes come before; the one exception is a
  task called \<open>summary\<close>.
\<close>
theorem every_route_reached:
  assumes "router_ok st" "r \<in> set (app_routes b)" "answers r m p"
    and "rt_endpoint r = ''tasks.get_task'' \<longrightarrow> p \<noteq> ''/api/v1/tasks/summary''"
  shows "st (app_routes b) m p = Inr r"
proof -
  obtain before rest where rs: "app_routes b = before @ r # rest" and new: "r \<notin> set before" using split_list_first assms(2) by metis
  have "\<not> answers q m p" if q: "q \<in> set before" for q
  proof
    assume a: "answers q m p"
    from q obtain b1 b2 where "before = b1 @ q # b2" by (metis split_list)
    then have "(rt_endpoint q, rt_endpoint r) \<in> set (clashes (map indexed (app_routes b)))"
      using clashes_complete [OF a assms(3), of b1 b2 rest] rs by simp
    then have e: "rt_endpoint q = ''tasks.task_summary''" "rt_endpoint r = ''tasks.get_task''" using app_clashes by blast+
    then have "template (rt_path q) = map Lit ['''', ''api'', ''v1'', ''tasks'', ''summary''] @ []"
      using q rs summary_route [of q b] by simp
    then have "split_on (CHR ''/'') p = ['''', ''api'', ''v1'', ''tasks'', ''summary'']"
      using a unfolding answers_def path_params_def by (simp only: bind_lits) (auto split: if_splits elim: bind_segs.elims simp: take_Cons' split: list.splits)
    then have "p = ''/api/v1/tasks/summary''" using join_split_on [of "CHR ''/''" p] by simp
    with assms(4) e show False by blast
  qed
  with assms(1,3) rs show ?thesis by (simp add: router_ok_def)
qed

subsection \<open>The dependency of a route\<close>

fun admit :: "guard \<Rightarrow> string option \<Rightarrow> user_context option \<Rightarrow> error + user_context option" where
  "admit Open slug u = Inr None"
| "admit SignedIn slug u = map_sum id Some (require_auth u)"
| "admit SuperadminOnly slug u = (case require_auth u of Inl x \<Rightarrow> Inl x | Inr c \<Rightarrow> map_sum id Some (require_superadmin c))"
| "admit (AtLeast m) slug u = (case require_auth u of Inl x \<Rightarrow> Inl x | Inr c \<Rightarrow> map_sum id Some (require_role m slug c))"

type_synonym endpoints = "string \<Rightarrow> user_context option \<Rightarrow> request \<Rightarrow> db \<Rightarrow> (error + http_response) \<times> db"

definition serve ::
  "router \<Rightarrow> creds \<Rightarrow> jwt_api \<Rightarrow> app_settings \<Rightarrow> env \<Rightarrow> nat \<Rightarrow> bool \<Rightarrow> endpoints \<Rightarrow> string \<Rightarrow> request \<Rightarrow> db \<Rightarrow> (error + http_response) \<times> db" where
  \<comment> \<open>The dependencies of the route are resolved before its function runs.\<close>
  "serve st cr jw s e salt has_static fs m rq d =
     (case st (app_routes has_static) m (rq_path rq) of
        Inl answer \<Rightarrow> (Inr answer, d)
      | Inr r \<Rightarrow>
          (let slug = (case path_params r (rq_path rq) of None \<Rightarrow> None | Some ps \<Rightarrow> map_of ps ''slug'');
               rq' = rq\<lparr>rq_slug := slug\<rparr>
           in if rt_guard r = Open then fs (rt_endpoint r) None rq' d
              else (case get_current_user cr jw s e salt rq' d of
                      Inl x \<Rightarrow> (Inl x, d)
                    | Inr (u, d') \<Rightarrow>
                        (case admit (rt_guard r) slug u of
                           Inl x \<Rightarrow> (Inl x, d')
                         | Inr c \<Rightarrow> fs (rt_endpoint r) c rq' d'))))"

definition PUBLIC_ENDPOINTS :: "string list" where
  "PUBLIC_ENDPOINTS =
     [''auth.login'', ''auth.initial_setup'', ''auth.totp_verify'', ''admin.get_version'', ''admin.check_for_updates'',
      ''admin.restart_server'', ''admin.restart_only'', ''tasks.task_summary'', ''tasks.list_tasks'', ''tasks.get_task'',
      ''tasks.cancel_task'', ''tasks.respond_to_task'', ''tasks.clear_finished'', ''ws.task_stream'']"

definition below_api :: "seg list \<Rightarrow> bool" where
  "below_api t \<longleftrightarrow> take 3 t = map Lit ['''', ''api'', ''v1'']"

lemma api_templates:
  assumes "r \<in> set (app_routes b)" "\<not> below_api (template (rt_path r))"
  shows "bind_segs (template (rt_path r)) ('''' # ''api'' # ''v1'' # rest) = None"
proof -
  have "list_all (\<lambda>r. below_api (template (rt_path r)) \<or>
      (case template (rt_path r) of Lit [] # Lit a # _ \<Rightarrow> a \<noteq> ''api'' | _ \<Rightarrow> False)) (app_routes True)"
    by code_simp
  from app_routes_all [OF this assms(1)] assms(2) show ?thesis
    by (auto split: list.splits seg.splits char.splits)
qed

lemma open_routes: "r \<in> set (app_routes b) \<Longrightarrow> below_api (template (rt_path r)) \<Longrightarrow> rt_guard r = Open \<Longrightarrow> rt_endpoint r \<in> set PUBLIC_ENDPOINTS"
proof -
  assume r: "r \<in> set (app_routes b)" and *: "below_api (template (rt_path r))" "rt_guard r = Open"
  have "list_all (\<lambda>r. rt_guard r = Open \<longrightarrow> below_api (template (rt_path r)) \<longrightarrow> list_ex (\<lambda>n. n = rt_endpoint r) PUBLIC_ENDPOINTS) (app_routes True)"
    by code_simp
  from app_routes_all [OF this r] * show ?thesis by (auto simp: list_ex_iff)
qed

fun behind :: "string list \<Rightarrow> seg list \<Rightarrow> seg list option" where
  \<comment> \<open>What is left of a template behind these literal parts; a parameter among them is left as it is.\<close>
  "behind [] ss = Some ss"
| "behind (x # xs) [] = None"
| "behind (x # xs) (Lit a # ss) = (if x = a then behind xs ss else None)"
| "behind (x # xs) (Var v # ss) = Some [Tail v]"
| "behind (x # xs) (Tail v # ss) = Some [Tail v]"

lemma bind_behind:
  "bind_segs ss (xs @ ys) = Some ps \<Longrightarrow> (\<exists>v. behind xs ss = Some [Tail v]) \<or> (\<exists>ss'. behind xs ss = Some ss' \<and> bind_segs ss' ys = Some ps)"
  by (induction xs ss rule: behind.induct) (auto split: if_splits)

definition tenant_guarded :: "route \<Rightarrow> bool" where
  \<comment> \<open>A template that a path below \<open>/api/v1/tenants/\<close> may fill takes the slug from it, and the route asks for a role.\<close>
  "tenant_guarded r =
     (case behind ['''', ''api'', ''v1'', ''tenants''] (template (rt_path r)) of
        None \<Rightarrow> True
      | Some [] \<Rightarrow> True
      | Some (Var w # _) \<Rightarrow> w = ''slug'' \<and> rt_guard r \<noteq> Open \<and> rt_guard r \<noteq> SignedIn
      | Some (_ # _) \<Rightarrow> False)"

lemma tenant_routes: "r \<in> set (app_routes b) \<Longrightarrow> tenant_guarded r"
proof (rule app_routes_all [rotated])
  show "list_all tenant_guarded (app_routes True)" by code_simp
qed

lemma current_user_slug [simp]: "get_current_user cr jw s e salt (rq\<lparr>rq_slug := x\<rparr>) d = get_current_user cr jw s e salt rq d"
  by (simp add: get_current_user_def resolve_external_user_def rq_header_def dev_token_of_def client_ip_def Let_def cong: if_cong option.case_cong sum.case_cong)

lemma no_user_no_change: "get_current_user cr jw s e salt rq d = Inr (None, d') \<Longrightarrow> d' = d"
  by (auto simp: get_current_user_def Let_def split: if_splits sum.splits prod.splits)

lemma admit_nobody: "admit g slug None = Inr c \<Longrightarrow> g = Open"
  by (cases g) (auto simp: require_auth_def)

lemma admit_stranger:
  assumes "\<not> uctx_is_superadmin u" "map_of (uctx_tenant_roles u) t = None" "g \<noteq> Open" "g \<noteq> SignedIn"
  shows "\<exists>x. admit g (Some t) (Some u) = Inl x"
  using assms by (cases g) (auto simp: require_auth_def require_superadmin_def require_role_def)

lemma tenant_path_params:
  assumes "r \<in> set (app_routes b)" "path_params r p \<noteq> None" "split_on (CHR ''/'') p = '''' # ''api'' # ''v1'' # ''tenants'' # t # below"
  shows "(\<exists>ps. path_params r p = Some ps \<and> map_of ps ''slug'' = Some t) \<and> rt_guard r \<noteq> Open \<and> rt_guard r \<noteq> SignedIn"
proof -
  let ?pre = "['''', ''api'', ''v1'', ''tenants'']"
  from assms(2,3) obtain ps where ps: "path_params r p = Some ps" "bind_segs (template (rt_path r)) (?pre @ t # below) = Some ps"
    by (auto simp: path_params_def)
  have g: "tenant_guarded r" using assms(1) by (rule tenant_routes)
  from bind_behind [OF ps(2)] show ?thesis
  proof (elim disjE exE conjE)
    fix v assume "behind ?pre (template (rt_path r)) = Some [Tail v]"
    with g show ?thesis by (simp add: tenant_guarded_def)
  next
    fix ss assume b: "behind ?pre (template (rt_path r)) = Some ss" "bind_segs ss (t # below) = Some ps"
    then obtain w ws where "ss = Var w # ws" using g by (cases ss) (auto simp: tenant_guarded_def split: seg.splits)
    with b g ps(1) show ?thesis by (auto simp: tenant_guarded_def split: if_splits)
  qed
qed

text \<open>
  C5: The gate of the API.  A request below \<open>/api/v1\<close> that identifies nobody changes nothing and runs no endpoint but the fourteen of
  \<open>PUBLIC_ENDPOINTS\<close>; a request of a user who is neither a superadmin nor a member of a tenant runs no endpoint at all below
  that tenant's path.
\<close>
theorem api_gate:
  assumes "router_ok st" "split_on (CHR ''/'') (rq_path rq) = '''' # ''api'' # ''v1'' # rest"
    "st (app_routes b) m (rq_path rq) = Inr r"
  shows "((\<nexists>u d'. get_current_user cr jw s e salt rq d = Inr (Some u, d')) \<longrightarrow> rt_endpoint r \<notin> set PUBLIC_ENDPOINTS \<longrightarrow>
      (\<exists>x. serve st cr jw s e salt b fs m rq d = (Inl x, d))) \<and>
    (\<forall>u d' t below. get_current_user cr jw s e salt rq d = Inr (Some u, d') \<longrightarrow> \<not> uctx_is_superadmin u \<longrightarrow>
      rest = ''tenants'' # t # below \<longrightarrow> map_of (uctx_tenant_roles u) t = None \<longrightarrow>
      (\<exists>x. serve st cr jw s e salt b fs m rq d = (Inl x, d')))"
proof -
  from assms(1,3) have r: "r \<in> set (app_routes b)" "path_params r (rq_path rq) \<noteq> None"
    by (auto simp: router_ok_def answers_def)
  then have "below_api (template (rt_path r))" using api_templates [of r b rest] assms(2) by (cases "below_api (template (rt_path r))") (auto simp: path_params_def)
  then have pub: "rt_guard r = Open \<Longrightarrow> rt_endpoint r \<in> set PUBLIC_ENDPOINTS" using open_routes r(1) by blast
  have "\<exists>x. serve st cr jw s e salt b fs m rq d = (Inl x, d)"
    if "\<nexists>u d'. get_current_user cr jw s e salt rq d = Inr (Some u, d')" "rt_endpoint r \<notin> set PUBLIC_ENDPOINTS"
    using that pub no_user_no_change admit_nobody assms(3)
    by (auto simp: serve_def Let_def split: sum.splits prod.splits option.splits)
  moreover have "\<exists>x. serve st cr jw s e salt b fs m rq d = (Inl x, d')"
    if "get_current_user cr jw s e salt rq d = Inr (Some u, d')" "\<not> uctx_is_superadmin u"
      "rest = ''tenants'' # t # below" "map_of (uctx_tenant_roles u) t = None" for u d' t below
  proof -
    from tenant_path_params [OF r] assms(2) that(3) obtain ps where
      ps: "path_params r (rq_path rq) = Some ps" "map_of ps ''slug'' = Some t" and g: "rt_guard r \<noteq> Open" "rt_guard r \<noteq> SignedIn" by metis
    from admit_stranger [OF that(2,4) g] obtain x where "admit (rt_guard r) (Some t) (Some u) = Inl x" by blast
    with that(1) ps g(1) assms(3) show ?thesis by (simp add: serve_def Let_def)
  qed
  ultimately show ?thesis by blast
qed

definition demo_endpoints :: endpoints where
  "demo_endpoints n u rq d = (Inr \<lparr>rp_status = 200, rp_headers = [], rp_chunks = [n], rp_broken = False\<rparr>, d)"

definition demo_visit :: "string \<Rightarrow> request" where
  \<comment> \<open>A request without any credentials.\<close>
  "demo_visit p = \<lparr>rq_path = p, rq_headers = [], rq_cookies = [], rq_query = [], rq_slug = None, rq_client = None\<rparr>"

lemma demo_item_route:
  "demo_router (app_routes True) ''DELETE'' ''/api/v1/tenants/acme-corp/items/i1'' =
     Inr (http_route ''DELETE'' ''/api/v1/tenants/{slug}/items/{item_id}'' ''items.delete_item'' (AtLeast ADMIN))"
  by code_simp

theorem every_route_reached_witness:
  "demo_router (app_routes True) ''GET'' ''/api/v1/tasks/t-7'' = Inr (http_route ''GET'' ''/api/v1/tasks/{task_id}'' ''tasks.get_task'' Open)"
proof (rule every_route_reached [OF demo_router_ok])
  show "http_route ''GET'' ''/api/v1/tasks/{task_id}'' ''tasks.get_task'' Open \<in> set (app_routes True)"
    by (simp add: app_routes_def install_static_def api_v1_router_def include_router_def tasks_routes_def http_route_def)
  show "answers (http_route ''GET'' ''/api/v1/tasks/{task_id}'' ''tasks.get_task'' Open) ''GET'' ''/api/v1/tasks/t-7''" by code_simp
qed simp

theorem api_gate_witness:
  "\<exists>x. serve demo_router demo_creds demo_jwt (app_settings.make demo_cfg '''' '''' '''' '''') demo_env 0 True demo_endpoints ''DELETE''
     (demo_visit ''/api/v1/tenants/acme-corp/items/i1'') demo_users_db = (Inl x, demo_users_db)"
proof -
  let ?rq = "demo_visit ''/api/v1/tenants/acme-corp/items/i1''" and ?s = "app_settings.make demo_cfg '''' '''' '''' ''''"
  have s: "split_on (CHR ''/'') (rq_path ?rq) = '''' # ''api'' # ''v1'' # [''tenants'', ''acme-corp'', ''items'', ''i1'']" by code_simp
  have nobody: "get_current_user demo_creds demo_jwt ?s demo_env 0 ?rq demo_users_db = Inr (None, demo_users_db)"
    by (simp add: get_current_user_def demo_visit_def app_settings.defs truthy_str_def rq_header_def Let_def)
  have r: "demo_router (app_routes True) ''DELETE'' (rq_path ?rq) =
     Inr (http_route ''DELETE'' ''/api/v1/tenants/{slug}/items/{item_id}'' ''items.delete_item'' (AtLeast ADMIN))"
    using demo_item_route by (simp add: demo_visit_def)
  show ?thesis
    using api_gate [OF demo_router_ok s r, of demo_creds demo_jwt ?s demo_env 0 demo_users_db demo_endpoints] nobody
    by (simp add: http_route_def PUBLIC_ENDPOINTS_def)
qed

subsection \<open>The middleware around the routes\<close>

text \<open>
  A middleware added later is outside the ones before; the exception handlers are inside all of them.  CORS is Starlette's: a
  parameter that wraps the application.  How a JSON answer is rendered is a parameter as well.
\<close>

type_synonym handler = "request \<Rightarrow> db \<Rightarrow> (error + http_response) \<times> db"

definition json_answer :: "(json_response \<Rightarrow> string) \<Rightarrow> json_response \<Rightarrow> http_response" where
  "json_answer render j =
     \<lparr>rp_status = jr_status j,
      rp_headers = [(''content-length'', nat_str (length (render j))), (''content-type'', ''application/json'')],
      rp_chunks = [render j], rp_broken = False\<rparr>"

definition exception_handlers :: "(json_response \<Rightarrow> string) \<Rightarrow> handler \<Rightarrow> handler" where
  "exception_handlers render h rq d =
     (case h rq d of
        (Inl x, d') \<Rightarrow> (case app_error_handler x of None \<Rightarrow> (Inl x, d') | Some j \<Rightarrow> (Inr (json_answer render j), d'))
      | r \<Rightarrow> r)"

definition security_middleware :: "bool option \<Rightarrow> handler \<Rightarrow> handler" where
  "security_middleware app_debug h rq d =
     (case h rq d of
        (Inr p, d') \<Rightarrow> (Inr (p\<lparr>rp_headers := security_headers app_debug (rp_headers p)\<rparr>), d')
      | r \<Rightarrow> r)"

definition totp_middleware :: "jwt_api \<Rightarrow> time \<Rightarrow> (json_response \<Rightarrow> string) \<Rightarrow> handler \<Rightarrow> handler" where
  "totp_middleware jw now render h rq d =
     (case totp_enforcement jw now rq d of Some j \<Rightarrow> (Inr (json_answer render j), d) | None \<Rightarrow> h rq d)"

definition log_cfg_of :: "bool \<Rightarrow> log_cfg" where
  "log_cfg_of app_debug =
     \<lparr>lc_app_debug = app_debug, lc_redact_paths = DEFAULT_REDACT_PATHS, lc_skip_prefixes = [''/static/'', ''/ws/'']\<rparr>"

definition app_stack ::
  "(string list \<Rightarrow> handler \<Rightarrow> handler) \<Rightarrow> app_settings \<Rightarrow> bool \<Rightarrow> jwt_api \<Rightarrow> time \<Rightarrow> (json_response \<Rightarrow> string) \<Rightarrow> handler \<Rightarrow> handler" where
  "app_stack cors s app_debug jw now render h =
     foldl (\<lambda>inner add. add inner) (exception_handlers render h)
       [cors (cors_origin_list s), security_middleware (Some app_debug), totp_middleware jw now render]"

definition run_app ::
  "(string list \<Rightarrow> handler \<Rightarrow> handler) \<Rightarrow> app_settings \<Rightarrow> bool \<Rightarrow> jwt_api \<Rightarrow> time \<Rightarrow> (json_response \<Rightarrow> string) \<Rightarrow> log_texts \<Rightarrow> bool \<Rightarrow>
   handler \<Rightarrow> string \<Rightarrow> string \<Rightarrow> request \<Rightarrow> db \<times> log_record list \<Rightarrow> (error + http_response) \<times> db \<times> log_record list" where
  \<comment> \<open>The handler is \<open>serve\<close> on the routes; the two strings are the method and the body.\<close>
  "run_app cors s app_debug jw now render t readable h m body rq w =
     dispatch_logged (log_cfg_of app_debug) t readable (\<lambda>_ d. app_stack cors s app_debug jw now render h rq d)
       \<lparr>hm_method = m, hm_path = rq_path rq, hm_body = body\<rparr> w"

lemma logged_headers:
  "h \<noteq> ''content-length'' \<Longrightarrow> map_of (rp_headers (fst (log_response c t m p))) h = map_of (rp_headers p) h"
  "rp_status (fst (log_response c t m p)) = rp_status p"
  by (simp_all add: log_response_def log_response_body_def raw_response_def Let_def map_of_header_dict map_add_def split: option.splits)

lemma run_app_cases:
  assumes "run_app cors s app_debug jw now render t readable h m body rq (d, log) = (r', d', log')"
    "app_stack cors s app_debug jw now render h rq d = (r, v)"
  shows "d' = v" "r = Inl x \<Longrightarrow> r' = Inl x"
    "r = Inr p \<Longrightarrow> \<exists>p'. r' = Inr p' \<and> rp_status p' = rp_status p \<and> (\<forall>k. k \<noteq> ''content-length'' \<longrightarrow> map_of (rp_headers p') k = map_of (rp_headers p) k)"
proof -
  let ?m = "\<lparr>hm_method = m, hm_path = rq_path rq, hm_body = body\<rparr>" and ?c = "log_cfg_of app_debug"
  obtain p2 recs where l: "log_response ?c t ?m p = (p2, recs)" by (metis surj_pair)
  show "d' = v" "r = Inl x \<Longrightarrow> r' = Inl x"
    using assms by (auto simp: run_app_def dispatch_logged_def Let_def split: if_splits sum.splits prod.splits)
  assume r: "r = Inr p"
  with assms l have "r' = Inr p \<or> r' = Inr p2" by (auto simp: run_app_def dispatch_logged_def Let_def split: if_splits)
  then show "\<exists>p'. r' = Inr p' \<and> rp_status p' = rp_status p \<and> (\<forall>k. k \<noteq> ''content-length'' \<longrightarrow> map_of (rp_headers p') k = map_of (rp_headers p) k)"
    using logged_headers(1) [of _ ?c t ?m p] logged_headers(2) [of ?c t ?m p] l by auto
qed

lemma security_headers_set:
  "map_of (security_headers dbg hs) ''X-Content-Type-Options'' = Some ''nosniff''"
  "map_of (security_headers dbg hs) ''X-Frame-Options'' = Some ''DENY''"
  "map_of (security_headers dbg hs) ''Referrer-Policy'' = Some ''strict-origin-when-cross-origin''"
  "dbg = Some False \<Longrightarrow> map_of (security_headers dbg hs) ''Strict-Transport-Security'' = Some ''max-age=31536000; includeSubDomains''"
  by (simp_all add: security_headers_def Let_def map_of_dict_set)


definition demo_logged :: "bool \<Rightarrow> request \<Rightarrow> db \<Rightarrow> (error + http_response) \<times> db \<times> log_record list" where
  \<comment> \<open>A route that finds nothing, behind the whole stack.\<close>
  "demo_logged app_debug rq d =
     run_app (\<lambda>origins g. g) (app_settings.make demo_cfg '''' '''' '''' '''') app_debug demo_jwt 0 jr_detail demo_log_texts True
       (\<lambda>rq d. (Inl (NotFoundError ''Item'' ''i1''), d)) ''GET'' '''' rq (d, [])"


subsection \<open>What is not protected or not there\<close>

text \<open>
  The refusal of the enforcement is made outside the middleware that adds the headers: it carries none of them, nor those of CORS.
\<close>

lemma totp_refusal_bare:
  assumes "totp_enforcement jw now rq d = Some j"
  shows "app_stack cors s app_debug jw now render h rq d = (Inr (json_answer render j), d)"
    and "map_of (rp_headers (json_answer render j)) ''X-Frame-Options'' = None"
  using assms by (simp_all add: app_stack_def totp_middleware_def json_answer_def)

text \<open>What the pages of \<open>web/templates\<close> call without there being a route for it, with any method.\<close>

definition missing_paths :: "string list" where
  "missing_paths =
     [''/api/v1/auth/me'', ''/api/v1/notifications'', ''/api/v1/settings/smtp/test'', ''/api/v1/admin/audit-log'', ''/api/v1/me/preferences'',
      ''/api/v1/tenants/acme-corp/settings'', ''/api/v1/tenants/acme-corp/settings/branding'']"

lemma pages_call_nothing:
  assumes "p \<in> set missing_paths" "r \<in> set (app_routes b)"
  shows "\<not> answers r m p"
proof -
  have "list_all (\<lambda>r. list_all (\<lambda>p. path_params r p = None) missing_paths) (app_routes True)" by code_simp
  from app_routes_all [OF this assms(2)] assms(1) show ?thesis by (auto simp: list_all_iff answers_def)
qed

end
