(* ===== verification/Spec2Isabelle.thy ===== *)
theory Spec2Isabelle
  imports Api BackupApi SyncEngine TaskEngine FilesSvc AIBackends AutoUpdate GitSink RemoteSinks
    Startup RequestLog OpsApi BackupCli Adapters Launcher AppInit Migrations AppRoutes
begin

text \<open>
  A verification development for scottycore, a multi-tenant FastAPI framework: accounts, tenants, settings,
  items, audit, backups, peer-to-peer synchronisation, file storage and background tasks, with its launcher and scripts, as Isabelle functions that follow
  the Python line by line, with the theorems that make them correct and the counterexamples where they are not.

  \<^bold>\<open>How the program fits together.\<close>  A request is authenticated (\<open>core/auth.py\<close>), a route of \<open>api/v1\<close> checks the
  role and calls a service (\<open>services/*/service.py\<close>), the service calls its repository, and every change is
  written to the audit log.  The backup service asks each registered contributor for its rows and files and packs
  them; the scheduler runs it when a schedule is due, encrypts the bundle and stores it in a sink; the
  mesh engine pulls bundles from peers and merges them row by row through the same contributors.
  The remote sinks (a git repository, a host over ssh, an orchestrator's store over HTTP) take the same bundles.  The
  file browser keeps a directory per tenant, the AI service routes requests to a configured backend, and the
  updater polls a forge and rewrites the application's pin.  The task engine stands alone.  Around the application, the launcher
  keeps its server running, and the scripts register new applications and publish them in a home lab.

  \<^bold>\<open>The theories, bottom up.\<close>
  \<^item> \<open>Prelude\<close>: tables as lists of records (\<open>get_by\<close>, \<open>update_by\<close>, \<open>merge_row\<close>), Python dicts as
    association lists, the collection \<open>table_simps\<close>, the locale \<open>keyed_store\<close>.  \<open>PyStr\<close>: the string methods used.
  \<^item> \<open>CoreTypes\<close>: \<open>core/exceptions.py\<close>, \<open>core/schemas.py\<close>; JSON, errors with their status, roles as a linear
    order, pagination.  \<open>Models\<close>: the mapped classes of every \<open>models.py\<close> as records and the database \<open>db\<close>.
  \<^item> \<open>Creds\<close>, \<open>Crypto\<close>: passlib, SHA-256, TOTP and gpg as parameters with their laws.
  \<^item> \<open>AuditLog\<close>, \<open>Tenants\<close>, \<open>Users\<close>, \<open>AuthSvc\<close>, \<open>SettingsSvc\<close>, \<open>Items\<close>: one theory per directory under
    \<open>services/\<close> of that name (\<open>Items\<close> with \<open>services/search\<close>).
  \<^item> \<open>CoreAuth\<close>: \<open>core/auth.py\<close> and the guards of \<open>core/middleware.py\<close>.  \<open>Api\<close>: the routes of \<open>api/v1\<close>
    for auth, users, tenants, settings, items, search and audit.  \<open>Brand\<close>: \<open>core/brand.py\<close>.
  \<^item> \<open>Rows\<close>, \<open>Sinks\<close>, \<open>Contributors\<close>, \<open>BackupSvc\<close>, \<open>Scheduler\<close>, \<open>BackupApi\<close>: \<open>services/backup\<close> and
    \<open>api/v1/backup.py\<close>; rows as dicts, the local and download sinks, what each contributor exports and
    restores, bundles, the scheduler with retention, the routes.
  \<^item> \<open>SyncSvc\<close>, \<open>SyncEngine\<close>: \<open>services/sync\<close>; peers and their keys, conflicts and row origins, then the
    transport, last write wins, the pull-then-push cycle and the tasks.
  \<^item> \<open>GitSink\<close>, \<open>RemoteSinks\<close>: the other sinks of \<open>services/backup/sinks\<close>; the HTTP sink is composed with the store
    endpoints of \<open>BackupApi\<close>.
  \<^item> \<open>FileTree\<close>, \<open>FilesSvc\<close>: the file system as an ordered tree, then \<open>services/files\<close>, \<open>api/v1/files.py\<close> and
    \<open>api/v1/upload.py\<close>.
  \<^item> \<open>AIBackends\<close>: the routing of \<open>services/ai_backends\<close> and \<open>api/v1/ai_backends.py\<close>.  \<open>Adapters\<close>: the seven
    clients of \<open>services/ai_backends/adapters\<close>.  \<open>AutoUpdate\<close>: \<open>services/auto_update\<close>.
  \<^item> \<open>TaskEngine\<close>: \<open>core/task_engine.py\<close> and \<open>api/v1/tasks.py\<close>.  \<open>OpsApi\<close>: what the task routes answer, the stream
    of \<open>api/v1/ws.py\<close> and the routes of \<open>api/v1/admin.py\<close>.
  \<^item> \<open>Startup\<close>: \<open>core/config.py\<close> and the lifespan of \<open>main.py\<close>.  \<open>RequestLog\<close>: \<open>core/request_logging.py\<close>.
    \<open>BackupCli\<close>: \<open>services/backup/cli.py\<close> over the same service, sinks and store as the routes.
  \<^item> \<open>AppRoutes\<close>: \<open>main.create_app\<close>, \<open>api/v1/router.py\<close>, \<open>web/router.py\<close>, \<open>web/__init__.py\<close>; the table of all routes with the
    dependency of each, the pages, static files, and the middleware around the routes.
  \<^item> \<open>Launcher\<close>: \<open>launch.py\<close>.  \<open>Toolkit\<close>, \<open>HomeLab\<close>: \<open>scripts/scottylab_toolkit\<close>, first the edits of YAML texts (lists, virtual hosts,
    zones, the inventory), then the gateway's and Cloudflare's DNS, the tunnel, containers, playbooks and the commands.
    \<open>Onboard\<close>, \<open>AppInit\<close>: \<open>scripts/config_loader.py\<close> and \<open>scripts/scottycore-init.py\<close>; the registry of applications,
    then the steps that wire an application in and \<open>main\<close>.  \<open>Migrations\<close>: \<open>alembic/\<close>, the revisions as
    lists of operations on a database with tables, rows and indexes, and how the environment runs them.

  \<^bold>\<open>State and operations.\<close>  A repository call that cannot fail is a function on \<open>db\<close>; an operation that may raise
  returns \<open>error + ('a \<times> db)\<close>, or \<open>(error + 'a) \<times> world\<close> where it changes something before it
  raises (\<open>attempt\<close> sequences these).  \<open>AppError\<close> and its subclasses keep their status; \<open>HTTPException\<close> is an
  \<open>AppError\<close>.  Fresh ids, the clock and the health of the audit table are the record \<open>env\<close>.  Times are integers,
  microseconds since 1970; ids are strings; Python's integers are \<open>int\<close>.  Where the event loop interleaves
  operations (\<open>TaskEngine\<close>) they are the steps of an inductive relation with reachable states.

  \<^bold>\<open>Parameters.\<close>  Third-party code is an argument with its documented laws as named hypotheses: Starlette's router (\<open>router_ok\<close>), \<open>creds\<close>
  (\<open>hash_verifies\<close>, \<open>hash_exact\<close>), \<open>jwt_api\<close> (\<open>jwt_ok\<close>), pydantic's \<open>coercion\<close> (\<open>coerce_ok\<close>), the \<open>codec\<close> of
  JSON, ISO dates and tar (\<open>codec_ok\<close>), \<open>gpg\<close> (\<open>gpg_ok\<close>), \<open>vault\<close> (\<open>vault_ok\<close>), croniter, httpx, git (\<open>git_leaves\<close>,
  \<open>git_commits\<close>), ssh and scp (\<open>host_ok\<close>), the UniFi gateway (\<open>gateway_ok\<close>), version parsing, PostgreSQL's text search.  The
  subprocesses and the API that onboarding uses may change its whole state; \<open>quiet\<close> says that they leave the registry alone.
  Each has an instance (\<open>demo_creds\<close>, \<open>demo_codec\<close>, \<open>demo_gpg\<close>, \<open>demo_vault\<close>, ...) at which the witnesses apply the theorems.

  \<^bold>\<open>What the lemmas show.\<close>  Authentication: who can log in, lockout, revocation, single use of refresh tokens
  and backup codes, what the request context says.  Tenancy: no operation of one tenant changes or shows what is
  another's.  Settings: what is saved is read back in every tier, secrets stay masked.  Backups: a
  bundle written and restored gives the same tables, encrypted or not; files and locators stay inside their
  directories; a failed write leaves the store intact; retention deletes exactly what its rules do not
  keep; a run marked successful is readable.  Remote sinks: what is put is read back, whatever the remote does.  Files: a tenant's operations, with
  any paths, never reach another tenant's directory.  AI backends: the cached routing equals a reference definition.
  Updates: one poll bumps exactly the pin and the next finds nothing to do.  Adapters: a refreshed token is kept and reused.
  Starting: the generated secret and the seeded rows survive restarts.  Request logging does not change a request.  The
  assembled application: no route hides another, who reaches which endpoint, which headers an answer carries.  The
  command line restores what the routes exported.  Sync: keys, conservation of rows, convergence of two nodes, backoff.  Tasks:
  an invariant of every reachable state and a refinement of an abstract life cycle.  Launcher: it gives up exactly on three crashes in a
  minute.  Home lab: one synchronisation settles the wildcards; a virtual host is declared once.  Onboarding: what is
  registered is what is loaded, ports are fresh, later runs keep the address.  Migrations: the downgrades undo the upgrades.  Interfaces are locales
  interpreted on the model: \<open>keyed_store\<close> on tables and settings, the sinks' contract on the local disk,
  \<open>synced_table\<close> on items and settings, \<open>provider_adapter\<close> on the seven adapters.

  \<^bold>\<open>Bounds and fuel.\<close>  No definition uses fuel.  The loops of the source are recursion on their data; the audit
  export fetches at most 50 pages, as the code does; the scheduler's and the peers' endless loops and the launcher's are
  recursions over a list of environments, one for each turn.  The poll for an address asks 30 times, as the code does; the search for
  a port ends because every step leaves fewer registered ports above it.

  \<^bold>\<open>Not modelled.\<close>  Printing and logging of the scripts, argument parsing of the home-lab tool and of the updater, migrations without a connection, the rendering of
  templates and the passing of services to the routes, which keep no state of their own.  Permissions and
  symbolic links of the file system.  The semaphore and the cancellation of sync tasks, asyncio's start and stop of the
  scheduler, the lock of the git sink, and concurrent sessions of the database: each operation runs alone.
\<close>

end
